(* ===== verification/Go_Base.thy ===== *)
theory Go_Base
  imports Main
begin

text \<open>
  What the source uses of the Go language and its standard library: 64-bit integers with
  their wrap-around, strings as byte sequences, UTF-8 decoding (package unicode/utf8),
  trimming (package strings), decimal parsing and printing (packages strconv and fmt).
  A Go string is a \<^typ>\<open>string\<close>: a list of bytes, so its length is what Go's len returns.
\<close>

named_theorems go_simps \<open>evaluation rules for the Go standard library\<close>

section \<open>Machine integers\<close>

type_synonym i64 = int
type_synonym i32 = int

definition wrap64 :: "int \<Rightarrow> i64" where
  "wrap64 x = (x + 2 ^ 63) mod 2 ^ 64 - 2 ^ 63"

definition wrap32 :: "int \<Rightarrow> i32" where
  "wrap32 x = (x + 2 ^ 31) mod 2 ^ 32 - 2 ^ 31"

text \<open>Go's big.Int method IsInt64.\<close>

definition is_int64 :: "int \<Rightarrow> bool" where
  "is_int64 x \<longleftrightarrow> - (2 ^ 63) \<le> x \<and> x < 2 ^ 63"

definition go_quo :: "int \<Rightarrow> int \<Rightarrow> int" where
  "go_quo a b = sgn a * sgn b * (\<bar>a\<bar> div \<bar>b\<bar>)"

definition go_rem :: "int \<Rightarrow> int \<Rightarrow> int" where
  "go_rem a b = a - b * go_quo a b"

lemma wrap64_id [simp]: "is_int64 x \<Longrightarrow> wrap64 x = x"
  by (simp add: wrap64_def is_int64_def)

lemma is_int64_wrap64 [simp]: "is_int64 (wrap64 x)"
proof -
  have "0 \<le> (x + 2 ^ 63) mod 2 ^ 64" and "(x + 2 ^ 63) mod 2 ^ 64 < (2 ^ 64 :: int)"
    by simp_all
  then show ?thesis by (simp add: is_int64_def wrap64_def)
qed

lemma go_quo_nonneg: "0 \<le> a \<Longrightarrow> 0 < b \<Longrightarrow> go_quo a b = a div b"
  by (cases "a = 0") (simp_all add: go_quo_def)

lemma go_rem_nonneg: "0 \<le> a \<Longrightarrow> 0 < b \<Longrightarrow> go_rem a b = a mod b"
  by (simp add: go_rem_def go_quo_nonneg minus_mult_div_eq_mod)

section \<open>Bytes, decimal digits\<close>

abbreviation byte :: "char \<Rightarrow> nat" where
  "byte c \<equiv> of_char c"

definition is_digit :: "char \<Rightarrow> bool" where
  "is_digit c \<longleftrightarrow> 48 \<le> byte c \<and> byte c \<le> 57"

definition digit_val :: "char \<Rightarrow> int" where
  "digit_val c = int (byte c) - 48"

definition digit_char :: "nat \<Rightarrow> char" where
  "digit_char n = char_of (48 + n mod 10)"

lemma is_digit_digit_char [simp]: "is_digit (digit_char n)"
proof -
  have "n mod 10 < 10" by simp
  then have "48 + n mod 10 < 256" and "n mod 10 \<le> 9" by linarith+
  then show ?thesis by (simp add: is_digit_def digit_char_def)
qed

lemma digit_val_digit_char [simp]: "digit_val (digit_char n) = int (n mod 10)"
proof -
  have "n mod 10 < 10" by simp
  then have "48 + n mod 10 < 256" by linarith
  then show ?thesis by (simp add: digit_val_def digit_char_def)
qed

lemma digit_val_bounds: "is_digit c \<Longrightarrow> 0 \<le> digit_val c \<and> digit_val c \<le> 9"
  by (simp add: is_digit_def digit_val_def)

lemma digit_char_digit_val: "is_digit c \<Longrightarrow> digit_char (nat (digit_val c)) = c"
proof -
  assume "is_digit c"
  then have b: "48 \<le> byte c" "byte c \<le> 57" by (simp_all add: is_digit_def)
  then have "nat (digit_val c) = byte c - 48" and "byte c - 48 < 10"
    by (simp_all add: digit_val_def)
  then have "48 + nat (digit_val c) mod 10 = byte c" using b by simp
  then show ?thesis by (simp add: digit_char_def)
qed

text \<open>The value of a run of decimal digits, most significant first.\<close>

definition digits_val :: "string \<Rightarrow> int" where
  "digits_val s = foldl (\<lambda>a c. a * 10 + digit_val c) 0 s"

lemma digits_val_Nil [simp]: "digits_val [] = 0"
  by (simp add: digits_val_def)

lemma digits_val_snoc [simp]: "digits_val (s @ [c]) = digits_val s * 10 + digit_val c"
  by (simp add: digits_val_def)

lemma digits_val_append:
  "digits_val (s @ t) = digits_val s * 10 ^ length t + digits_val t"
proof (induction t rule: rev_induct)
  case Nil
  show ?case by simp
next
  case (snoc c t)
  have "digits_val (s @ t @ [c]) = digits_val (s @ t) * 10 + digit_val c"
    using digits_val_snoc [of "s @ t" c] by (simp only: append_assoc)
  with snoc show ?case by (simp add: algebra_simps)
qed

lemma digits_val_Cons: "digits_val (c # s) = digit_val c * 10 ^ length s + digits_val s"
  using digits_val_append [of "[c]" s] by (simp add: digits_val_def)

lemma digits_val_zeros [simp]: "digits_val (replicate n CHR ''0'') = 0"
  by (induction n) (simp_all add: digits_val_Cons digit_val_def)

lemma digits_val_bounds:
  "list_all is_digit s \<Longrightarrow> 0 \<le> digits_val s \<and> digits_val s < 10 ^ length s"
proof (induction s rule: rev_induct)
  case Nil
  show ?case by simp
next
  case (snoc c s)
  then have "0 \<le> digits_val s" "digits_val s + 1 \<le> 10 ^ length s"
    and "0 \<le> digit_val c" "digit_val c \<le> 9"
    using digit_val_bounds [of c] by auto
  then show ?case by simp
qed

text \<open>Two runs of digits of the same length with the same value are the same run.\<close>

lemma digits_val_inj:
  assumes "list_all is_digit s" and "list_all is_digit t"
    and "length s = length t" and "digits_val s = digits_val t"
  shows "s = t"
  using assms
proof (induction s arbitrary: t rule: rev_induct)
  case Nil
  then show ?case by simp
next
  case (snoc c s)
  then obtain u d where t: "t = u @ [d]" by (cases t rule: rev_cases) auto
  have c: "0 \<le> digit_val c" "digit_val c \<le> 9" and d: "0 \<le> digit_val d" "digit_val d \<le> 9"
    using snoc.prems t digit_val_bounds by auto
  have "digits_val s * 10 + digit_val c = digits_val u * 10 + digit_val d"
    using snoc.prems t by simp
  with c d have "digits_val s = digits_val u" and "digit_val c = digit_val d" by arith+
  moreover from this snoc.prems t have "c = d"
    by (metis digit_char_digit_val list.pred_inject(2) list_all_append)
  ultimately show ?case using snoc t by simp
qed

section \<open>Package strconv: ParseInt and FormatInt in base 10\<close>

definition parse_digits :: "string \<Rightarrow> int option" where
  "parse_digits s = (if s \<noteq> [] \<and> list_all is_digit s then Some (digits_val s) else None)"

text \<open>
  ParseInt(s, 10, bits): an optional sign, then one or more digits; a value outside the
  range of the width is an error.
\<close>

definition parse_int :: "nat \<Rightarrow> string \<Rightarrow> int option" where
  "parse_int bits s =
     (let neg = (s \<noteq> [] \<and> hd s = CHR ''-'');
          rest = (if s \<noteq> [] \<and> hd s \<in> {CHR ''+'', CHR ''-''} then tl s else s)
      in case parse_digits rest of
           None \<Rightarrow> None
         | Some n \<Rightarrow>
             (if neg then (if n \<le> 2 ^ (bits - 1) then Some (- n) else None)
              else (if n < 2 ^ (bits - 1) then Some n else None)))"

fun show_nat :: "nat \<Rightarrow> string" where
  "show_nat n = (if n < 10 then [digit_char n] else show_nat (n div 10) @ [digit_char n])"

declare show_nat.simps [simp del]

definition show_int :: "int \<Rightarrow> string" where
  "show_int z = (if z < 0 then ''-'' @ show_nat (nat (- z)) else show_nat (nat z))"

lemma show_nat_digits [simp]: "list_all is_digit (show_nat n)"
proof (induction n rule: show_nat.induct)
  case (1 n)
  then show ?case by (subst show_nat.simps) simp
qed

lemma show_nat_ne [simp]: "show_nat n \<noteq> []"
  by (subst show_nat.simps) simp

lemma digits_val_show_nat [simp]: "digits_val (show_nat n) = int n"
proof (induction n rule: show_nat.induct)
  case (1 n)
  show ?case
  proof (cases "n < 10")
    case True
    then show ?thesis
      by (subst show_nat.simps) (simp add: digits_val_def)
  next
    case False
    with 1 have "digits_val (show_nat (n div 10)) = int (n div 10)" by simp
    with False show ?thesis
      by (subst show_nat.simps) (simp add: zmod_int zdiv_int)
  qed
qed

lemma parse_digits_show_nat [simp]: "parse_digits (show_nat n) = Some (int n)"
  by (simp add: parse_digits_def)

lemma show_nat_hd: "\<not> hd (show_nat n) \<in> {CHR ''+'', CHR ''-''}"
proof -
  have "is_digit (hd (show_nat n))"
    using show_nat_digits [of n] show_nat_ne [of n] by (cases "show_nat n") auto
  then show ?thesis by (auto simp: is_digit_def)
qed

text \<open>Printing and parsing a 64-bit integer is the identity.\<close>

lemma parse_int_show_int: "is_int64 z \<Longrightarrow> parse_int 64 (show_int z) = Some z"
  using show_nat_hd [of "nat z"]
  by (auto simp: parse_int_def show_int_def is_int64_def Let_def)

lemma parse_int_range: "parse_int 64 s = Some z \<Longrightarrow> is_int64 z"
proof -
  have "parse_digits t = Some n \<Longrightarrow> 0 \<le> n" for t n
    using digits_val_bounds [of t] by (auto simp: parse_digits_def split: if_splits)
  then show "parse_int 64 s = Some z \<Longrightarrow> is_int64 z"
    by (force simp: parse_int_def is_int64_def Let_def split: option.splits if_splits)
qed

text \<open>fmt's verb %0<w>d.\<close>

definition fmt_0d :: "nat \<Rightarrow> int \<Rightarrow> string" where
  "fmt_0d w z =
     (if z < 0
      then ''-'' @ replicate (w - 1 - length (show_nat (nat (- z)))) CHR ''0'' @ show_nat (nat (- z))
      else replicate (w - length (show_nat (nat z))) CHR ''0'' @ show_nat (nat z))"

lemma list_all_replicate_digit [simp]: "list_all is_digit (replicate n CHR ''0'')"
  by (simp add: list_all_iff is_digit_def)

lemma fmt_0d_digits: "0 \<le> z \<Longrightarrow> list_all is_digit (fmt_0d w z)"
  by (simp add: fmt_0d_def)

lemma fmt_0d_value: "0 \<le> z \<Longrightarrow> digits_val (fmt_0d w z) = z"
  by (simp add: fmt_0d_def digits_val_append)

lemma fmt_0d_inj: "0 \<le> x \<Longrightarrow> 0 \<le> y \<Longrightarrow> fmt_0d w x = fmt_0d w y \<Longrightarrow> x = y"
  by (metis fmt_0d_value)

lemma length_show_nat_le: "n < 10 ^ w \<Longrightarrow> 0 < w \<Longrightarrow> length (show_nat n) \<le> w"
proof (induction n arbitrary: w rule: show_nat.induct)
  case (1 n)
  show ?case
  proof (cases "n < 10")
    case True
    with "1.prems" show ?thesis by (subst show_nat.simps) simp
  next
    case False
    from "1.prems"(2) obtain v where w: "w = Suc v" by (cases w) auto
    with False "1.prems"(1) have "0 < v" by (cases v) auto
    with w have v: "w = Suc v" "0 < v" by simp_all
    with "1.prems" have "n div 10 < 10 ^ v" by (simp add: div_less_iff_less_mult mult.commute)
    with "1.IH" False v have "length (show_nat (n div 10)) \<le> v" by simp
    with False v show ?thesis by (subst show_nat.simps) simp
  qed
qed

lemma length_fmt_0d: "0 \<le> z \<Longrightarrow> z < 10 ^ w \<Longrightarrow> 0 < w \<Longrightarrow> length (fmt_0d w z) = w"
proof -
  assume z: "0 \<le> z" "z < 10 ^ w" and w: "0 < w"
  then have "nat z < 10 ^ w" by (metis nat_less_iff of_nat_numeral of_nat_power)
  then have "length (show_nat (nat z)) \<le> w" using w by (rule length_show_nat_le)
  with z show ?thesis by (simp add: fmt_0d_def)
qed

section \<open>Package unicode/utf8\<close>

definition in_range :: "nat \<Rightarrow> nat \<Rightarrow> char \<Rightarrow> bool" where
  "in_range lo hi c \<longleftrightarrow> lo \<le> byte c \<and> byte c \<le> hi"

abbreviation is_cont :: "char \<Rightarrow> bool" where
  "is_cont \<equiv> in_range 0x80 0xBF"

text \<open>
  The size of the encoding at the head of a string, None when the head is not a valid
  encoding (DecodeRune then returns RuneError with width 1).
\<close>

fun utf8_head :: "string \<Rightarrow> nat option" where
  "utf8_head [] = None"
| "utf8_head (a # r) =
    (if byte a < 0x80 then Some 1
     else if in_range 0xC2 0xDF a then
       (case r of b # _ \<Rightarrow> if is_cont b then Some 2 else None | [] \<Rightarrow> None)
     else if in_range 0xE0 0xEF a then
       (case r of b # c # _ \<Rightarrow>
          if in_range (if byte a = 0xE0 then 0xA0 else 0x80) (if byte a = 0xED then 0x9F else 0xBF) b
             \<and> is_cont c then Some 3 else None
        | _ \<Rightarrow> None)
     else if in_range 0xF0 0xF4 a then
       (case r of b # c # d # _ \<Rightarrow>
          if in_range (if byte a = 0xF0 then 0x90 else 0x80) (if byte a = 0xF4 then 0x8F else 0xBF) b
             \<and> is_cont c \<and> is_cont d then Some 4 else None
        | _ \<Rightarrow> None)
     else None)"

definition rune_len :: "string \<Rightarrow> nat" where
  "rune_len s = (case utf8_head s of Some n \<Rightarrow> n | None \<Rightarrow> 1)"

text \<open>RuneCountInString, which is also the length of []rune(s): an invalid byte counts as one rune.\<close>

fun rune_count :: "string \<Rightarrow> nat" where
  "rune_count [] = 0"
| "rune_count (c # r) = Suc (rune_count (drop (rune_len (c # r) - 1) r))"

text \<open>ValidString.\<close>

fun utf8_valid :: "string \<Rightarrow> bool" where
  "utf8_valid [] = True"
| "utf8_valid (c # r) = (utf8_head (c # r) \<noteq> None \<and> utf8_valid (drop (rune_len (c # r) - 1) r))"

lemma rune_count_le: "rune_count s \<le> length s"
proof (induction s rule: rune_count.induct)
  case 1
  show ?case by simp
next
  case (2 c r)
  then show ?case by simp
qed

lemma rune_count_0 [simp]: "rune_count s = 0 \<longleftrightarrow> s = []"
  by (cases s) simp_all

lemma ascii_runes: "list_all (\<lambda>c. byte c < 0x80) s \<Longrightarrow> utf8_valid s \<and> rune_count s = length s"
  by (induction s) (simp_all add: rune_len_def)

section \<open>Package strings\<close>

definition starts_with :: "string \<Rightarrow> string \<Rightarrow> bool" where
  "starts_with p s \<longleftrightarrow> take (length p) s = p"

text \<open>The UTF-8 encodings of the white space code points of unicode.IsSpace.\<close>

definition space_codes :: "string list" where
  "space_codes =
    [[CHR 0x09], [CHR 0x0A], [CHR 0x0B], [CHR 0x0C], [CHR 0x0D], [CHR 0x20],
     [CHR 0xC2, CHR 0x85], [CHR 0xC2, CHR 0xA0], [CHR 0xE1, CHR 0x9A, CHR 0x80],
     [CHR 0xE2, CHR 0x80, CHR 0x80], [CHR 0xE2, CHR 0x80, CHR 0x81], [CHR 0xE2, CHR 0x80, CHR 0x82],
     [CHR 0xE2, CHR 0x80, CHR 0x83], [CHR 0xE2, CHR 0x80, CHR 0x84], [CHR 0xE2, CHR 0x80, CHR 0x85],
     [CHR 0xE2, CHR 0x80, CHR 0x86], [CHR 0xE2, CHR 0x80, CHR 0x87], [CHR 0xE2, CHR 0x80, CHR 0x88],
     [CHR 0xE2, CHR 0x80, CHR 0x89], [CHR 0xE2, CHR 0x80, CHR 0x8A], [CHR 0xE2, CHR 0x80, CHR 0xA8],
     [CHR 0xE2, CHR 0x80, CHR 0xA9], [CHR 0xE2, CHR 0x80, CHR 0xAF], [CHR 0xE2, CHR 0x81, CHR 0x9F],
     [CHR 0xE3, CHR 0x80, CHR 0x80]]"

text \<open>The length of the white space code point a string starts with, 0 when there is none.\<close>

definition space_at :: "string \<Rightarrow> nat" where
  "space_at s = (case find (\<lambda>p. starts_with p s) space_codes of Some p \<Rightarrow> length p | None \<Rightarrow> 0)"

definition space_at_end :: "string \<Rightarrow> nat" where
  "space_at_end s =
     (case find (\<lambda>p. starts_with (rev p) (rev s)) space_codes of Some p \<Rightarrow> length p | None \<Rightarrow> 0)"

fun trim_left :: "string \<Rightarrow> string" where
  "trim_left [] = []"
| "trim_left (c # r) =
     (if space_at (c # r) = 0 then c # r else trim_left (drop (space_at (c # r) - 1) r))"

function trim_right :: "string \<Rightarrow> string" where
  "trim_right s =
     (if s = [] \<or> space_at_end s = 0 then s else trim_right (take (length s - space_at_end s) s))"
  by pat_completeness auto
termination
  by (relation "measure length") auto

declare trim_right.simps [simp del]

definition trim_space :: "string \<Rightarrow> string" where
  "trim_space s = trim_right (trim_left s)"

text \<open>TrimRight(s, cutset) for a one-byte ASCII cutset.\<close>

definition trim_right_byte :: "char \<Rightarrow> string \<Rightarrow> string" where
  "trim_right_byte c s = rev (dropWhile (\<lambda>x. x = c) (rev s))"

lemma length_trim_left: "length (trim_left s) \<le> length s"
  by (induction s rule: trim_left.induct) auto

lemma length_trim_right: "length (trim_right s) \<le> length s"
proof (induction s rule: trim_right.induct)
  case (1 s)
  then show ?case by (subst trim_right.simps) auto
qed

lemma trim_right_fixed: "trim_right s = [] \<or> space_at_end (trim_right s) = 0"
proof (induction s rule: trim_right.induct)
  case (1 s)
  show ?case
  proof (cases "s = [] \<or> space_at_end s = 0")
    case True
    then have "trim_right s = s" by (subst trim_right.simps) simp
    with True show ?thesis by simp
  next
    case False
    then have "trim_right s = trim_right (take (length s - space_at_end s) s)"
      by (subst trim_right.simps) simp
    with 1 [OF False] show ?thesis by simp
  qed
qed

lemma trim_right_idem [simp]: "trim_right (trim_right s) = trim_right s"
  using trim_right_fixed [of s] by (subst trim_right.simps) auto

text \<open>Trimming is idempotent.\<close>

lemma space_at_0: "space_at s = 0 \<longleftrightarrow> (\<forall>p \<in> set space_codes. \<not> starts_with p s)"
proof -
  have ne: "\<forall>p \<in> set space_codes. p \<noteq> []" by (simp add: space_codes_def)
  show ?thesis
  proof (cases "find (\<lambda>p. starts_with p s) space_codes")
    case None
    then have "\<forall>p \<in> set space_codes. \<not> starts_with p s" by (auto simp: find_None_iff)
    with None show ?thesis by (simp add: space_at_def)
  next
    case (Some p)
    then have "p \<in> set space_codes \<and> starts_with p s" by (auto simp: find_Some_iff)
    with Some ne show ?thesis by (auto simp: space_at_def)
  qed
qed

lemma starts_with_take: "starts_with p (take n s) \<Longrightarrow> starts_with p s"
proof -
  assume a: "starts_with p (take n s)"
  then have "length p \<le> n" unfolding starts_with_def by (metis length_take min.cobounded1 min.cobounded2 order_trans)
  with a show ?thesis by (simp add: starts_with_def min_def)
qed

lemma trim_left_fixed: "trim_left s = [] \<or> space_at (trim_left s) = 0"
  by (induction s rule: trim_left.induct) auto

lemma trim_left_stop: "space_at s = 0 \<Longrightarrow> trim_left s = s"
  by (cases s) simp_all

lemma trim_right_prefix: "\<exists>n. trim_right s = take n s"
proof (induction s rule: trim_right.induct)
  case (1 s)
  show ?case
  proof (cases "s = [] \<or> space_at_end s = 0")
    case True
    then have "trim_right s = take (length s) s" by (subst trim_right.simps) simp
    then show ?thesis ..
  next
    case False
    then have "trim_right s = trim_right (take (length s - space_at_end s) s)"
      by (subst trim_right.simps) simp
    with 1 [OF False] show ?thesis by (metis take_take)
  qed
qed

lemma trim_space_idem [simp]: "trim_space (trim_space s) = trim_space s"
proof (cases "trim_left s = []")
  case True
  then show ?thesis by (simp add: trim_space_def trim_right.simps [of "[]"])
next
  case False
  then have z: "space_at (trim_left s) = 0" using trim_left_fixed [of s] by simp
  obtain n where n: "trim_right (trim_left s) = take n (trim_left s)" using trim_right_prefix by blast
  have "space_at (trim_right (trim_left s)) = 0"
    using z starts_with_take unfolding n space_at_0 by blast
  then show ?thesis by (simp add: trim_space_def trim_left_stop)
qed

section \<open>Lists and options\<close>

lemma find_SomeD: "find P xs = Some x \<Longrightarrow> x \<in> set xs \<and> P x"
  by (induction xs) (auto split: if_splits)

lemma find_NoneD: "find P xs = None \<Longrightarrow> x \<in> set xs \<Longrightarrow> \<not> P x"
  by (simp add: find_None_iff)

end
