(* ===== verification/Schema.thy ===== *)
theory Schema
  imports Go_Base
begin

text \<open>
  The state of the system: the tables of db/migrations as lists of rows in insertion order, the
  serial sequences, the clocks, and the schedule of faults of the connection. A row is a record
  with one field per column (the column's name behind the table's prefix, as the row structs
  of internal/repository/postgresql/models.go have them); a nullable column is an option;
  TIMESTAMPTZ is a number of microseconds since the Unix epoch; DATE is a number of days since it;
  NUMERIC(12,3) is a number of thousandths.
\<close>

section \<open>Values\<close>

type_synonym time = int
type_synonym date = int

text \<open>A JSON document as encoding/json marshals it from the maps and structs of the source.\<close>

datatype jval =
    JNull
  | JBool bool
  | JInt int
  | JStr string
  | JTime time
  | JList "jval list"
  | JObj "(string \<times> jval) list"

section \<open>Rows\<close>

record business_row =
  b_id :: i64
  b_name :: string
  b_timezone :: string
  b_phone :: "string option"
  b_address :: "string option"
  b_is_active :: bool
  b_created_at :: time
  b_updated_at :: time

record outlet_row =
  out_id :: i64
  out_business_id :: i64
  out_code :: string
  out_name :: string
  out_phone :: "string option"
  out_address :: "string option"
  out_is_active :: bool
  out_created_at :: time
  out_updated_at :: time
  out_timezone :: string
  out_legacy_code :: "string option"

record user_row =
  u_id :: i64
  u_business_id :: i64
  u_email :: string
  u_full_name :: string
  u_password_hash :: string
  u_role :: string
  u_is_active :: bool
  u_last_login_at :: "time option"
  u_created_at :: time
  u_updated_at :: time

record user_outlet_row =
  uo_business_id :: i64
  uo_user_id :: i64
  uo_outlet_id :: i64
  uo_assigned_at :: time

record user_permission_row =
  up_business_id :: i64
  up_user_id :: i64
  up_code :: string
  up_granted_by :: i64
  up_granted_at :: time

record customer_row =
  cu_id :: i64
  cu_business_id :: i64
  cu_name :: string
  cu_phone :: "string option"
  cu_email :: "string option"
  cu_address :: "string option"
  cu_notes :: "string option"
  cu_created_at :: time
  cu_updated_at :: time
  cu_deleted_at :: "time option"

record service_row =
  sv_id :: i64
  sv_business_id :: i64
  sv_name :: string
  sv_unit :: string
  sv_unit_price_amount :: i64
  sv_estimated_duration_minutes :: i32
  sv_is_active :: bool
  sv_created_at :: time
  sv_updated_at :: time
  sv_deleted_at :: "time option"
  sv_description :: "string option"

record perfume_row =
  pf_id :: i64
  pf_business_id :: i64
  pf_name :: string
  pf_description :: "string option"
  pf_is_active :: bool
  pf_created_at :: time
  pf_updated_at :: time
  pf_deleted_at :: "time option"
  pf_version :: i64

text \<open>The column receipt_qr_id of orders, a random identifier the server fills in and only receipts read, is left out.\<close>

record order_row =
  o_id :: i64
  o_business_id :: i64
  o_outlet_id :: i64
  o_customer_id :: i64
  o_invoice_number :: string
  o_status :: string
  o_payment_status :: string
  o_total_amount :: i64
  o_notes :: "string option"
  o_received_at :: time
  o_due_at :: "time option"
  o_completed_at :: "time option"
  o_cancelled_at :: "time option"
  o_cancelled_by :: "i64 option"
  o_cancellation_reason :: "string option"
  o_deleted_at :: "time option"
  o_created_by :: i64
  o_created_at :: time
  o_updated_at :: time
  o_idempotency_key :: "string option"
  o_request_hash :: "string option"
  o_customer_name_snapshot :: string
  o_customer_phone_snapshot :: "string option"
  o_outlet_code_snapshot :: "string option"

record item_row =
  it_id :: i64
  it_business_id :: i64
  it_outlet_id :: i64
  it_order_id :: i64
  it_service_id :: i64
  it_perfume_id :: "i64 option"
  it_service_name_snapshot :: string
  it_service_unit_snapshot :: string
  it_unit_price_amount_snapshot :: i64
  it_perfume_name_snapshot :: "string option"
  it_quantity :: int
  it_line_total_amount :: i64
  it_notes :: "string option"
  it_created_at :: time

record history_row =
  h_id :: i64
  h_business_id :: i64
  h_outlet_id :: i64
  h_order_id :: i64
  h_from_status :: "string option"
  h_to_status :: string
  h_changed_by :: i64
  h_notes :: "string option"
  h_changed_at :: time

record counter_row =
  ic_business_id :: i64
  ic_outlet_id :: i64
  ic_counter_date :: date
  ic_next_number :: i64
  ic_updated_at :: time

record payment_row =
  p_id :: i64
  p_business_id :: i64
  p_outlet_id :: i64
  p_order_id :: i64
  p_amount :: i64
  p_method :: string
  p_status :: string
  p_external_reference :: "string option"
  p_notes :: "string option"
  p_confirmed_at :: "time option"
  p_voided_at :: "time option"
  p_voided_by :: "i64 option"
  p_void_reason :: "string option"
  p_created_by :: i64
  p_created_at :: time
  p_idempotency_key :: "string option"
  p_request_hash :: "string option"

record refund_row =
  rf_id :: i64
  rf_business_id :: i64
  rf_outlet_id :: i64
  rf_order_id :: i64
  rf_payment_id :: i64
  rf_amount :: i64
  rf_reason :: string
  rf_refunded_by :: i64
  rf_refunded_at :: time

record audit_row =
  au_id :: i64
  au_business_id :: i64
  au_outlet_id :: "i64 option"
  au_actor_user_id :: "i64 option"
  au_action :: string
  au_entity_type :: string
  au_entity_id :: "i64 option"
  au_old_values :: "jval option"
  au_new_values :: "jval option"
  au_ip_address :: "string option"
  au_user_agent :: "string option"
  au_occurred_at :: time
  au_actor_platform_admin_id :: "i64 option"
  au_support_session_id :: "i64 option"
  au_platform_audit_id :: "i64 option"

record family_row =
  sf_id :: i64
  sf_business_id :: i64
  sf_user_id :: i64
  sf_created_at :: time
  sf_revoked_at :: "time option"

record token_row =
  rt_id :: i64
  rt_business_id :: i64
  rt_user_id :: i64
  rt_token_hash :: string
  rt_expires_at :: time
  rt_revoked_at :: "time option"
  rt_created_at :: time
  rt_family_id :: i64

record expense_category_row =
  ec_id :: i64
  ec_business_id :: i64
  ec_name :: string
  ec_description :: "string option"
  ec_is_active :: bool
  ec_created_at :: time
  ec_updated_at :: time

record expense_row =
  ex_id :: i64
  ex_business_id :: i64
  ex_outlet_id :: i64
  ex_category_id :: i64
  ex_amount :: i64
  ex_description :: string
  ex_expense_at :: time
  ex_receipt_reference :: "string option"
  ex_created_by :: i64
  ex_created_at :: time
  ex_updated_at :: time
  ex_version :: i64

record outlet_counter_row =
  bc_business_id :: i64
  bc_last_allocated :: i64

record permission_row =
  pm_code :: string
  pm_description :: string
  pm_created_at :: time

section \<open>The database\<close>

record db =
  businesses :: "business_row list"
  outlets :: "outlet_row list"
  users :: "user_row list"
  user_outlets :: "user_outlet_row list"
  user_permissions :: "user_permission_row list"
  customers :: "customer_row list"
  services :: "service_row list"
  perfumes :: "perfume_row list"
  orders :: "order_row list"
  order_items :: "item_row list"
  order_status_history :: "history_row list"
  invoice_counters :: "counter_row list"
  payments :: "payment_row list"
  payment_refunds :: "refund_row list"
  audit_logs :: "audit_row list"
  session_families :: "family_row list"
  refresh_tokens :: "token_row list"
  expense_categories :: "expense_category_row list"
  expenses :: "expense_row list"
  outlet_counters :: "outlet_counter_row list"
  permissions :: "permission_row list"

text \<open>The BIGSERIAL sequences.\<close>

datatype tbl = TOrders | TItems | THistory | TPayments | TAudit | TFamilies | TTokens
  | TServices | TPerfumes | TCustomers | TCategories | TExpenses | TOutlets | TUsers

text \<open>
  What the connection may do to one statement: nothing, refuse it before the server runs it, or
  lose the server's reply after it ran.
\<close>

datatype fault = Calm | Refused | ReplyLost

record world =
  data :: db
  seqs :: "tbl \<Rightarrow> int"
  now :: time
  wall :: time
  faults :: "fault list"

text \<open>Errors of a statement: pgx.ErrNoRows, and the SQLSTATE classes the server raises.\<close>

datatype pgerr =
    NoRows
  | UniqueViolation string
  | CheckViolation string
  | ForeignKeyViolation string
  | InvalidText
  | OutOfRange
  | InvalidLimit
  | ConnErr

section \<open>Text the server accepts\<close>

text \<open>
  A TEXT value must be valid UTF-8 without a NUL byte (the databases are UTF8-encoded); JSONB
  rejects the escape of NUL. encoding/json replaces invalid UTF-8 by U+FFFD, so only NUL remains.
\<close>

definition pg_text :: "string \<Rightarrow> bool" where
  "pg_text s \<longleftrightarrow> utf8_valid s \<and> CHR 0x00 \<notin> set s"

definition pg_text_opt :: "string option \<Rightarrow> bool" where
  "pg_text_opt s = (case s of None \<Rightarrow> True | Some t \<Rightarrow> pg_text t)"

fun jval_ok :: "jval \<Rightarrow> bool" where
  "jval_ok (JStr s) = (CHR 0x00 \<notin> set s)"
| "jval_ok (JList vs) = list_all jval_ok vs"
| "jval_ok (JObj kvs) = list_all (\<lambda>kv. jval_ok (snd kv)) kvs"
| "jval_ok _ = True"

text \<open>The SQL function btrim with one argument removes spaces at both ends.\<close>

definition btrim :: "string \<Rightarrow> string" where
  "btrim s = trim_right_byte CHR '' '' (dropWhile (\<lambda>c. c = CHR '' '') s)"

definition blank :: "string \<Rightarrow> bool" where
  "blank s \<longleftrightarrow> list_all (\<lambda>c. c = CHR '' '') s"

lemma btrim_empty_iff: "btrim s = [] \<longleftrightarrow> blank s"
  by (induction s) (auto simp: btrim_def blank_def trim_right_byte_def list_all_iff)

end
