(* ===== verification/Tx.thy ===== *)
theory Tx
  imports Schema
begin

text \<open>
  Running statements against the database: a computation takes the world and returns an error or
  a value together with the world it leaves. The combinators below are the control flow of the
  source ("if err != nil return", transactions with a deferred rollback) and the statement forms of
  internal/repository/postgresql (SELECT, INSERT with a serial key, UPDATE ... RETURNING). Every
  statement, Begin and Commit consults the schedule of faults, so each connection error the source
  handles is a branch of the model.
\<close>

named_theorems run_inv \<open>what a successful run of a computation says about its parts\<close>
named_theorems reads_intro \<open>computations that change nothing but the schedule of faults\<close>
named_theorems keeps_intro \<open>computations that keep an invariant whatever they return\<close>
named_theorems grows_intro \<open>computations that only move the sequences up\<close>

section \<open>Computations\<close>

type_synonym ('e, 'a) m = "world \<Rightarrow> ('e + 'a) \<times> world"

definition ret :: "'a \<Rightarrow> ('e, 'a) m" where
  "ret a w = (Inr a, w)"

definition fail :: "'e \<Rightarrow> ('e, 'a) m" where
  "fail e w = (Inl e, w)"

definition tbind :: "('e, 'a) m \<Rightarrow> ('a \<Rightarrow> ('e, 'b) m) \<Rightarrow> ('e, 'b) m" where
  "tbind p f w = (case p w of (Inl e, w') \<Rightarrow> (Inl e, w') | (Inr a, w') \<Rightarrow> f a w')"

text \<open>Looking at the error instead of returning it, and translating the error that is returned.\<close>

definition attempt :: "('e, 'a) m \<Rightarrow> ('f, 'e + 'a) m" where
  "attempt p w = (case p w of (r, w') \<Rightarrow> (Inr r, w'))"

definition on_err :: "('e \<Rightarrow> 'f) \<Rightarrow> ('e, 'a) m \<Rightarrow> ('f, 'a) m" where
  "on_err h p w = (case p w of (Inl e, w') \<Rightarrow> (Inl (h e), w') | (Inr a, w') \<Rightarrow> (Inr a, w'))"

fun each :: "('x \<Rightarrow> ('e, 'a) m) \<Rightarrow> 'x list \<Rightarrow> ('e, 'a list) m" where
  "each f [] = ret []"
| "each f (x # xs) = tbind (f x) (\<lambda>a. tbind (each f xs) (\<lambda>rest. ret (a # rest)))"

definition get_now :: "('e, time) m" where
  "get_now w = (Inr (now w), w)"

definition time_now :: "('e, time) m" where
  "time_now w = (Inr (wall w), w)"

lemma tbind_cong [fundef_cong]:
  assumes "p w = p' w'" and "\<And>a u. p' w' = (Inr a, u) \<Longrightarrow> f a u = f' a u"
  shows "tbind p f w = tbind p' f' w'"
  using assms by (auto simp: tbind_def split: prod.splits sum.splits)

lemma ret_run [run_inv]: "ret a w = (r, w') \<longleftrightarrow> r = Inr a \<and> w' = w"
  by (auto simp: ret_def)

lemma fail_run [run_inv]: "fail e w = (r, w') \<longleftrightarrow> r = Inl e \<and> w' = w"
  by (auto simp: fail_def)

lemma tbind_Inr [run_inv]:
  "tbind p f w = (Inr b, w') \<longleftrightarrow> (\<exists>a u. p w = (Inr a, u) \<and> f a u = (Inr b, w'))"
  by (auto simp: tbind_def split: prod.splits sum.splits)

lemma tbind_Inl:
  "tbind p f w = (Inl e, w') \<longleftrightarrow>
     p w = (Inl e, w') \<or> (\<exists>a u. p w = (Inr a, u) \<and> f a u = (Inl e, w'))"
  by (auto simp: tbind_def split: prod.splits sum.splits)

lemma on_err_Inr [run_inv]: "on_err h p w = (Inr a, w') \<longleftrightarrow> p w = (Inr a, w')"
  by (auto simp: on_err_def split: prod.splits sum.splits)

lemma attempt_Inr [run_inv]: "attempt p w = (Inr r, w') \<longleftrightarrow> p w = (r, w')"
  by (auto simp: attempt_def split: prod.splits)

lemma attempt_Inl [simp]: "attempt p w \<noteq> (Inl e, w')"
  by (auto simp: attempt_def split: prod.splits)

lemma get_now_run [run_inv]: "get_now w = (r, w') \<longleftrightarrow> r = Inr (now w) \<and> w' = w"
  by (auto simp: get_now_def)

lemma time_now_run [run_inv]: "time_now w = (r, w') \<longleftrightarrow> r = Inr (wall w) \<and> w' = w"
  by (auto simp: time_now_def)

lemma tbind_ret [simp]: "tbind (ret a) f = f a"
  by (rule ext) (simp add: tbind_def ret_def)

lemma tbind_fail [simp]: "tbind (fail e) f = fail e"
  by (rule ext) (simp add: tbind_def fail_def)

lemma tbind_assoc: "tbind (tbind p f) g = tbind p (\<lambda>a. tbind (f a) g)"
  by (rule ext) (auto simp: tbind_def split: prod.splits sum.splits)

section \<open>Statements and faults\<close>

definition fault_step :: "world \<Rightarrow> fault \<times> world" where
  "fault_step w = (case faults w of [] \<Rightarrow> (Calm, w) | f # fs \<Rightarrow> (f, w\<lparr>faults := fs\<rparr>))"

definition stmt :: "(pgerr, 'a) m \<Rightarrow> (pgerr, 'a) m" where
  "stmt f w =
     (case fault_step w of
        (Calm, u) \<Rightarrow> f u
      | (Refused, u) \<Rightarrow> (Inl ConnErr, u)
      | (ReplyLost, u) \<Rightarrow> (Inl ConnErr, snd (f u)))"

text \<open>SELECT: the rows of a selection at the transaction's timestamp.\<close>

definition select :: "(time \<Rightarrow> db \<Rightarrow> 'a list) \<Rightarrow> (pgerr, 'a list) m" where
  "select sel = stmt (\<lambda>w. (Inr (sel (now w) (data w)), w))"

text \<open>A :one query takes the first row, or returns pgx.ErrNoRows.\<close>

definition only_one :: "(pgerr, 'a list) m \<Rightarrow> (pgerr, 'a) m" where
  "only_one p = tbind p (\<lambda>rs. case rs of [] \<Rightarrow> fail NoRows | r # _ \<Rightarrow> ret r)"

text \<open>A statement whose TEXT parameters the server cannot decode is refused before it runs.\<close>

definition with_text :: "bool \<Rightarrow> (pgerr, 'a) m \<Rightarrow> (pgerr, 'a) m" where
  "with_text ok p = (if ok then p else stmt (fail InvalidText))"

text \<open>A statement the source runs for its locks alone: it succeeds and changes no data.\<close>

definition lock_only :: "(pgerr, unit) m" where
  "lock_only = stmt (ret ())"

text \<open>
  INSERT into a table with a BIGSERIAL key: the sequence moves even when a constraint rejects the
  row (and when the transaction rolls back later).
\<close>

definition insert_serial ::
  "tbl \<Rightarrow> (db \<Rightarrow> 'r list) \<Rightarrow> ('r list \<Rightarrow> db \<Rightarrow> db) \<Rightarrow> (db \<Rightarrow> 'r \<Rightarrow> pgerr option) \<Rightarrow>
   (int \<Rightarrow> time \<Rightarrow> db \<Rightarrow> 'r) \<Rightarrow> (pgerr, 'r) m" where
  "insert_serial t get put chk mk = stmt (\<lambda>w.
     let i = seqs w t;
         r = mk i (now w) (data w);
         u = w\<lparr>seqs := (seqs w)(t := i + 1)\<rparr>
     in case chk (data w) r of
          Some e \<Rightarrow> (Inl e, u)
        | None \<Rightarrow> (Inr r, u\<lparr>data := put (get (data w) @ [r]) (data w)\<rparr>))"

text \<open>UPDATE ... WHERE p RETURNING *: the new versions of the rows that satisfied p.\<close>

definition update_rows ::
  "(db \<Rightarrow> 'r list) \<Rightarrow> ('r list \<Rightarrow> db \<Rightarrow> db) \<Rightarrow> (db \<Rightarrow> 'r \<Rightarrow> pgerr option) \<Rightarrow>
   ('r \<Rightarrow> bool) \<Rightarrow> (time \<Rightarrow> 'r \<Rightarrow> 'r) \<Rightarrow> (pgerr, 'r list) m" where
  "update_rows get put chk p upd = stmt (\<lambda>w.
     let new = map (upd (now w)) (filter p (get (data w)))
     in case find (\<lambda>r. chk (data w) r \<noteq> None) new of
          Some r \<Rightarrow> (Inl (the (chk (data w) r)), w)
        | None \<Rightarrow>
            (Inr new,
             w\<lparr>data := put (map (\<lambda>r. if p r then upd (now w) r else r) (get (data w))) (data w)\<rparr>))"

text \<open>
  A transaction: Begin, the body, Commit; "defer tx.Rollback" restores the data (never the
  sequences) whenever the body returns an error. When the reply to Commit is lost the caller sees
  an error although the data is committed.
\<close>

definition with_tx :: "'e \<Rightarrow> ('e, 'a) m \<Rightarrow> ('e, 'a) m" where
  "with_tx conn body w =
     (case fault_step w of
        (Calm, u) \<Rightarrow>
          (case body u of
             (Inl e, v) \<Rightarrow> (Inl e, v\<lparr>data := data w\<rparr>)
           | (Inr a, v) \<Rightarrow>
               (case fault_step v of
                  (Calm, x) \<Rightarrow> (Inr a, x)
                | (Refused, x) \<Rightarrow> (Inl conn, x\<lparr>data := data w\<rparr>)
                | (ReplyLost, x) \<Rightarrow> (Inl conn, x)))
      | (_, u) \<Rightarrow> (Inl conn, u))"

text \<open>A transaction the source never commits: the deferred Rollback ends it.\<close>

definition read_tx :: "'e \<Rightarrow> ('e, 'a) m \<Rightarrow> ('e, 'a) m" where
  "read_tx conn body w =
     (case fault_step w of
        (Calm, u) \<Rightarrow> (case body u of (r, v) \<Rightarrow> (r, v\<lparr>data := data w\<rparr>))
      | (_, u) \<Rightarrow> (Inl conn, u))"

lemma fault_step_frame [simp]:
  "fault_step w = (f, u) \<Longrightarrow> data u = data w"
  "fault_step w = (f, u) \<Longrightarrow> seqs u = seqs w"
  "fault_step w = (f, u) \<Longrightarrow> now u = now w"
  "fault_step w = (f, u) \<Longrightarrow> wall u = wall w"
  by (auto simp: fault_step_def split: list.splits)

lemma fault_step_calm [simp]: "faults w = [] \<Longrightarrow> fault_step w = (Calm, w)"
  by (simp add: fault_step_def)

text \<open>The world with another schedule of faults.\<close>

definition same_data :: "world \<Rightarrow> world \<Rightarrow> bool" where
  "same_data w u \<longleftrightarrow> data u = data w \<and> seqs u = seqs w \<and> now u = now w \<and> wall u = wall w"

lemma same_data_refl [simp]: "same_data w w"
  by (simp add: same_data_def)

lemma same_data_trans: "same_data w u \<Longrightarrow> same_data u v \<Longrightarrow> same_data w v"
  by (simp add: same_data_def)

lemma same_dataD:
  "same_data w u \<Longrightarrow> data u = data w" "same_data w u \<Longrightarrow> seqs u = seqs w"
  "same_data w u \<Longrightarrow> now u = now w" "same_data w u \<Longrightarrow> wall u = wall w"
  by (simp_all add: same_data_def)

lemma stmt_Inr:
  "stmt f w = (Inr a, w') \<Longrightarrow> \<exists>u. same_data w u \<and> f u = (Inr a, w')"
  by (auto simp: stmt_def same_data_def split: prod.splits fault.splits) (metis fault_step_frame)

lemma stmt_calm [simp]: "faults w = [] \<Longrightarrow> stmt f w = f w"
  by (simp add: stmt_def)

lemma select_Inr [run_inv]:
  "select sel w = (Inr rs, w') \<Longrightarrow> rs = sel (now w) (data w) \<and> same_data w w'"
  by (auto simp: select_def same_data_def dest!: stmt_Inr)

lemma select_frame: "select sel w = (r, w') \<Longrightarrow> same_data w w'"
  by (auto simp: select_def stmt_def same_data_def split: prod.splits fault.splits)

lemma only_one_Inr:
  assumes "only_one p w = (Inr r, w')"
  shows "\<exists>rs. p w = (Inr (r # rs), w')"
proof -
  from assms obtain rs u where "p w = (Inr rs, u)"
    and "(case rs of [] \<Rightarrow> fail NoRows | r # _ \<Rightarrow> ret r) u = (Inr r, w')"
    by (auto simp: only_one_def tbind_Inr)
  then show ?thesis by (cases rs) (auto simp: run_inv)
qed

lemma one_select_Inr:
  assumes "only_one (select sel) w = (Inr r, w')"
  shows "(\<exists>rs. sel (now w) (data w) = r # rs) \<and> same_data w w'"
proof -
  from only_one_Inr [OF assms] obtain rs where "select sel w = (Inr (r # rs), w')" ..
  from select_Inr [OF this] show ?thesis by (auto dest: sym)
qed

lemma one_select_frame: "only_one (select sel) w = (r, w') \<Longrightarrow> same_data w w'"
  by (auto simp: only_one_def tbind_def ret_def fail_def dest: select_frame
      split: prod.splits sum.splits list.splits)

lemma one_select_NoRows:
  "only_one (select sel) w = (Inl NoRows, w') \<Longrightarrow> sel (now w) (data w) = []"
  by (auto simp: only_one_def tbind_Inl select_def stmt_def fail_run ret_run
      split: prod.splits fault.splits list.splits)

lemma one_select_calm:
  "faults w = [] \<Longrightarrow> only_one (select sel) w =
     (case sel (now w) (data w) of [] \<Rightarrow> (Inl NoRows, w) | r # _ \<Rightarrow> (Inr r, w))"
  by (simp add: only_one_def select_def tbind_def ret_def fail_def split: list.splits)

lemma insert_serial_Inr [run_inv]:
  assumes "insert_serial t get put chk mk w = (Inr r, w')"
  shows "r = mk (seqs w t) (now w) (data w) \<and> chk (data w) r = None
    \<and> data w' = put (get (data w) @ [r]) (data w)
    \<and> seqs w' = (seqs w)(t := seqs w t + 1) \<and> now w' = now w \<and> wall w' = wall w"
  using assms unfolding insert_serial_def
  by (auto simp: same_data_def Let_def dest!: stmt_Inr split: option.splits)

lemma update_rows_Inr [run_inv]:
  assumes "update_rows get put chk p upd w = (Inr rs, w')"
  shows "rs = map (upd (now w)) (filter p (get (data w)))
    \<and> list_all (\<lambda>r. chk (data w) r = None) rs
    \<and> data w' = put (map (\<lambda>r. if p r then upd (now w) r else r) (get (data w))) (data w)
    \<and> seqs w' = seqs w \<and> now w' = now w \<and> wall w' = wall w"
  using assms unfolding update_rows_def
  by (auto simp: same_data_def Let_def list_all_iff find_None_iff cong: if_cong
      dest!: stmt_Inr split: option.splits)

lemma with_text_Inr [run_inv]:
  "with_text ok p w = (Inr a, w') \<longleftrightarrow> ok \<and> p w = (Inr a, w')"
  by (auto simp: with_text_def fail_run dest: stmt_Inr)

lemma lock_only_Inr [run_inv]: "lock_only w = (Inr a, w') \<Longrightarrow> same_data w w'"
  by (auto simp: lock_only_def ret_run dest!: stmt_Inr)

lemma lock_only_frame: "lock_only w = (r, w') \<Longrightarrow> same_data w w'"
  by (auto simp: lock_only_def stmt_def ret_def same_data_def split: prod.splits fault.splits)

lemma with_text_calm [simp]:
  "faults w = [] \<Longrightarrow> with_text ok p w = (if ok then p w else (Inl InvalidText, w))"
  by (simp add: with_text_def fail_def)

lemma lock_only_calm [simp]: "faults w = [] \<Longrightarrow> lock_only w = (Inr (), w)"
  by (simp add: lock_only_def ret_def)

section \<open>Computations that only read\<close>

definition reads :: "('e, 'a) m \<Rightarrow> bool" where
  "reads p \<longleftrightarrow> (\<forall>w r w'. p w = (r, w') \<longrightarrow> same_data w w')"

lemma readsD: "reads p \<Longrightarrow> p w = (r, w') \<Longrightarrow> same_data w w'"
  by (auto simp: reads_def)

lemma reads_ret [reads_intro]: "reads (ret a)"
  by (simp add: reads_def ret_run)

lemma reads_fail [reads_intro]: "reads (fail e)"
  by (simp add: reads_def fail_run)

lemma reads_get_now [reads_intro]: "reads get_now"
  by (simp add: reads_def get_now_run)

lemma reads_time_now [reads_intro]: "reads time_now"
  by (simp add: reads_def time_now_run)

lemma reads_select [reads_intro]: "reads (select sel)"
  by (auto simp: reads_def dest: select_frame)

lemma reads_lock_only [reads_intro]: "reads lock_only"
  by (auto simp: reads_def dest: lock_only_frame)

lemma reads_stmt_fail [reads_intro]: "reads (stmt (fail e))"
  by (auto simp: reads_def stmt_def fail_def same_data_def split: prod.splits fault.splits)

lemma reads_tbind [reads_intro]:
  assumes "reads p" and "\<And>a. reads (f a)"
  shows "reads (tbind p f)"
  unfolding reads_def
proof (intro allI impI)
  fix w r w'
  assume "tbind p f w = (r, w')"
  then consider e where "p w = (Inl e, w')"
    | a u where "p w = (Inr a, u)" "f a u = (r, w')"
    by (auto simp: tbind_def split: prod.splits sum.splits)
  then show "same_data w w'"
    by cases (use assms in \<open>blast dest: readsD intro: same_data_trans\<close>)+
qed

lemma reads_attempt [reads_intro]: "reads p \<Longrightarrow> reads (attempt p)"
  by (auto simp: reads_def attempt_def split: prod.splits)

lemma reads_on_err [reads_intro]: "reads p \<Longrightarrow> reads (on_err h p)"
  by (auto simp: reads_def on_err_def split: prod.splits sum.splits)

lemma reads_if [reads_intro]: "reads p \<Longrightarrow> reads q \<Longrightarrow> reads (if b then p else q)"
  by simp

lemma reads_Let [reads_intro]: "(\<And>x. reads (f x)) \<Longrightarrow> reads (Let a f)"
  by (simp add: Let_def)

lemma reads_case_option [reads_intro]:
  "reads p \<Longrightarrow> (\<And>x. reads (f x)) \<Longrightarrow> reads (case a of None \<Rightarrow> p | Some x \<Rightarrow> f x)"
  by (cases a) simp_all

lemma reads_case_sum [reads_intro]:
  "(\<And>x. reads (g x)) \<Longrightarrow> (\<And>x. reads (f x)) \<Longrightarrow> reads (case a of Inl x \<Rightarrow> g x | Inr x \<Rightarrow> f x)"
  by (cases a) simp_all

lemma reads_case_list [reads_intro]:
  "reads p \<Longrightarrow> (\<And>x xs. reads (f x xs)) \<Longrightarrow> reads (case a of [] \<Rightarrow> p | x # xs \<Rightarrow> f x xs)"
  by (cases a) simp_all

lemma reads_case_prod [reads_intro]: "(\<And>x y. reads (f x y)) \<Longrightarrow> reads (case a of (x, y) \<Rightarrow> f x y)"
  by (cases a) simp

lemma reads_only_one [reads_intro]: "reads p \<Longrightarrow> reads (only_one p)"
  unfolding only_one_def by (auto intro!: reads_intro)

lemma reads_with_text [reads_intro]: "reads p \<Longrightarrow> reads (with_text ok p)"
  unfolding with_text_def by (auto intro!: reads_intro)

section \<open>Computations that keep an invariant\<close>

definition keeps :: "(world \<Rightarrow> bool) \<Rightarrow> ('e, 'a) m \<Rightarrow> bool" where
  "keeps I p \<longleftrightarrow> (\<forall>w r w'. I w \<longrightarrow> p w = (r, w') \<longrightarrow> I w')"

definition stable :: "(world \<Rightarrow> bool) \<Rightarrow> bool" where
  "stable I \<longleftrightarrow> (\<forall>w u. same_data w u \<longrightarrow> I w \<longrightarrow> I u)"

lemma keepsI: "(\<And>w r w'. I w \<Longrightarrow> p w = (r, w') \<Longrightarrow> I w') \<Longrightarrow> keeps I p"
  by (auto simp: keeps_def)

lemma keepsD: "keeps I p \<Longrightarrow> I w \<Longrightarrow> p w = (r, w') \<Longrightarrow> I w'"
  by (auto simp: keeps_def)

lemma keeps_reads: "stable I \<Longrightarrow> reads p \<Longrightarrow> keeps I p"
  by (auto simp: keeps_def stable_def dest: readsD)

lemma keeps_ret [keeps_intro]: "keeps I (ret a)"
  by (simp add: keeps_def ret_run)

lemma keeps_fail [keeps_intro]: "keeps I (fail e)"
  by (simp add: keeps_def fail_run)

lemma keeps_tbind [keeps_intro]:
  assumes "keeps I p" and "\<And>a. keeps I (f a)"
  shows "keeps I (tbind p f)"
proof (rule keepsI)
  fix w r w'
  assume I: "I w" and "tbind p f w = (r, w')"
  then consider e where "p w = (Inl e, w')"
    | a u where "p w = (Inr a, u)" "f a u = (r, w')"
    by (auto simp: tbind_def split: prod.splits sum.splits)
  then show "I w'" by cases (use assms I in \<open>blast dest: keepsD\<close>)+
qed

lemma keeps_attempt [keeps_intro]: "keeps I p \<Longrightarrow> keeps I (attempt p)"
  by (auto simp: keeps_def attempt_def split: prod.splits)

lemma keeps_on_err [keeps_intro]: "keeps I p \<Longrightarrow> keeps I (on_err h p)"
  by (auto simp: keeps_def on_err_def split: prod.splits sum.splits)

lemma keeps_each [keeps_intro]: "(\<And>x. keeps I (f x)) \<Longrightarrow> keeps I (each f xs)"
  by (induction xs) (auto intro!: keeps_intro)

lemma keeps_if [keeps_intro]: "keeps I p \<Longrightarrow> keeps I q \<Longrightarrow> keeps I (if b then p else q)"
  by simp

lemma keeps_Let [keeps_intro]: "(\<And>x. keeps I (f x)) \<Longrightarrow> keeps I (Let a f)"
  by (simp add: Let_def)

lemma keeps_case_option [keeps_intro]:
  "keeps I p \<Longrightarrow> (\<And>x. keeps I (f x)) \<Longrightarrow> keeps I (case a of None \<Rightarrow> p | Some x \<Rightarrow> f x)"
  by (cases a) simp_all

lemma keeps_case_sum [keeps_intro]:
  "(\<And>x. keeps I (g x)) \<Longrightarrow> (\<And>x. keeps I (f x)) \<Longrightarrow>
     keeps I (case a of Inl x \<Rightarrow> g x | Inr x \<Rightarrow> f x)"
  by (cases a) simp_all

lemma keeps_case_list [keeps_intro]:
  "keeps I p \<Longrightarrow> (\<And>x xs. keeps I (f x xs)) \<Longrightarrow> keeps I (case a of [] \<Rightarrow> p | x # xs \<Rightarrow> f x xs)"
  by (cases a) simp_all

lemma keeps_case_prod [keeps_intro]: "(\<And>x y. keeps I (f x y)) \<Longrightarrow> keeps I (case a of (x, y) \<Rightarrow> f x y)"
  by (cases a) simp

lemma keeps_stmt:
  assumes "stable I" and "keeps I f"
  shows "keeps I (stmt f)"
proof (rule keepsI)
  fix w r w'
  assume I: "I w" and run: "stmt f w = (r, w')"
  obtain c u where fs: "fault_step w = (c, u)" by (cases "fault_step w")
  have "I u" using assms(1) I fs by (auto simp: stable_def same_data_def)
  moreover obtain r' v where "f u = (r', v)" by (cases "f u")
  ultimately show "I w'" using run fs assms(2) by (auto simp: stmt_def dest: keepsD split: fault.splits)
qed

lemma keeps_only_one [keeps_intro]: "keeps I p \<Longrightarrow> keeps I (only_one p)"
  unfolding only_one_def by (auto intro!: keeps_intro)

lemma keeps_with_text: "stable I \<Longrightarrow> keeps I p \<Longrightarrow> keeps I (with_text ok p)"
  unfolding with_text_def by (auto intro!: keeps_intro keeps_stmt)

section \<open>Computations that only move the sequences up\<close>

definition grows :: "('e, 'a) m \<Rightarrow> bool" where
  "grows p \<longleftrightarrow> (\<forall>w r w'. p w = (r, w') \<longrightarrow>
     (\<forall>t. seqs w t \<le> seqs w' t) \<and> now w' = now w \<and> wall w' = wall w)"

lemma growsI:
  "(\<And>w r w'. p w = (r, w') \<Longrightarrow>
     (\<forall>t. seqs w t \<le> seqs w' t) \<and> now w' = now w \<and> wall w' = wall w) \<Longrightarrow> grows p"
  by (simp add: grows_def)

lemma growsD:
  assumes "grows p" and "p w = (r, w')"
  shows "seqs w t \<le> seqs w' t" "now w' = now w" "wall w' = wall w"
  using assms by (auto simp: grows_def)

lemma grows_reads: "reads p \<Longrightarrow> grows p"
  by (auto simp: grows_def reads_def same_data_def)

lemma grows_ret [grows_intro]: "grows (ret a)"
  by (rule growsI) (simp add: ret_run)

lemma grows_fail [grows_intro]: "grows (fail e)"
  by (rule growsI) (simp add: fail_run)

lemma grows_get_now [grows_intro]: "grows get_now"
  by (rule growsI) (simp add: get_now_run)

lemma grows_time_now [grows_intro]: "grows time_now"
  by (rule growsI) (simp add: time_now_run)

lemma grows_tbind [grows_intro]:
  assumes "grows p" and "\<And>a. grows (f a)"
  shows "grows (tbind p f)"
proof (rule growsI)
  fix w r w'
  assume "tbind p f w = (r, w')"
  then consider e where "p w = (Inl e, w')"
    | a u where "p w = (Inr a, u)" "f a u = (r, w')"
    by (auto simp: tbind_def split: prod.splits sum.splits)
  then show "(\<forall>t. seqs w t \<le> seqs w' t) \<and> now w' = now w \<and> wall w' = wall w"
  proof cases
    case 1
    then show ?thesis using assms(1) by (auto simp: grows_def)
  next
    case 2
    with assms show ?thesis by (fastforce simp: grows_def intro: order_trans)
  qed
qed

lemma grows_attempt [grows_intro]: "grows p \<Longrightarrow> grows (attempt p)"
  by (auto simp: grows_def attempt_def split: prod.splits)

lemma grows_on_err [grows_intro]: "grows p \<Longrightarrow> grows (on_err h p)"
  by (auto simp: grows_def on_err_def split: prod.splits sum.splits)

lemma grows_each [grows_intro]: "(\<And>x. grows (f x)) \<Longrightarrow> grows (each f xs)"
  by (induction xs) (auto intro!: grows_intro)

lemma grows_if [grows_intro]: "grows p \<Longrightarrow> grows q \<Longrightarrow> grows (if b then p else q)"
  by simp

lemma grows_Let [grows_intro]: "(\<And>x. grows (f x)) \<Longrightarrow> grows (Let a f)"
  by (simp add: Let_def)

lemma grows_case_option [grows_intro]:
  "grows p \<Longrightarrow> (\<And>x. grows (f x)) \<Longrightarrow> grows (case a of None \<Rightarrow> p | Some x \<Rightarrow> f x)"
  by (cases a) simp_all

lemma grows_case_sum [grows_intro]:
  "(\<And>x. grows (g x)) \<Longrightarrow> (\<And>x. grows (f x)) \<Longrightarrow> grows (case a of Inl x \<Rightarrow> g x | Inr x \<Rightarrow> f x)"
  by (cases a) simp_all

lemma grows_case_list [grows_intro]:
  "grows p \<Longrightarrow> (\<And>x xs. grows (f x xs)) \<Longrightarrow> grows (case a of [] \<Rightarrow> p | x # xs \<Rightarrow> f x xs)"
  by (cases a) simp_all

lemma grows_case_prod [grows_intro]: "(\<And>x y. grows (f x y)) \<Longrightarrow> grows (case a of (x, y) \<Rightarrow> f x y)"
  by (cases a) simp

lemma grows_stmt:
  assumes "grows f"
  shows "grows (stmt f)"
proof (rule growsI)
  fix w r w'
  assume "stmt f w = (r, w')"
  then obtain c u where fs: "fault_step w = (c, u)" and "w' = u \<or> (\<exists>r'. f u = (r', w'))"
    by (auto simp: stmt_def split: prod.splits fault.splits) (metis prod.collapse)
  then show "(\<forall>t. seqs w t \<le> seqs w' t) \<and> now w' = now w \<and> wall w' = wall w"
    using assms fault_step_frame [OF fs] by (metis grows_def order_refl)
qed

lemma grows_select [grows_intro]: "grows (select sel)"
  unfolding select_def by (rule grows_stmt) (auto intro: growsI)

lemma grows_only_one [grows_intro]: "grows p \<Longrightarrow> grows (only_one p)"
  unfolding only_one_def by (auto intro!: grows_intro)

lemma grows_insert_serial [grows_intro]: "grows (insert_serial t get put chk mk)"
  unfolding insert_serial_def
  by (rule grows_stmt) (auto intro!: growsI simp: Let_def split: option.splits)

lemma grows_update_rows [grows_intro]: "grows (update_rows get put chk p upd)"
  unfolding update_rows_def
  by (rule grows_stmt) (auto intro!: growsI simp: Let_def split: option.splits)

lemma grows_with_text [grows_intro]: "grows p \<Longrightarrow> grows (with_text ok p)"
  unfolding with_text_def by (auto intro!: grows_intro grows_stmt)

lemma grows_lock_only [grows_intro]: "grows lock_only"
  unfolding lock_only_def by (auto intro!: grows_intro grows_stmt)

lemma grows_with_tx [grows_intro]:
  assumes "grows body"
  shows "grows (with_tx conn body)"
proof (rule growsI)
  fix w r w'
  assume run: "with_tx conn body w = (r, w')"
  obtain c u where fs: "fault_step w = (c, u)" by (cases "fault_step w")
  obtain b v where bd: "body u = (b, v)" by (cases "body u")
  obtain c' x where fs': "fault_step v = (c', x)" by (cases "fault_step v")
  note frame = fault_step_frame [OF fs] fault_step_frame [OF fs'] growsD [OF assms bd]
  show "(\<forall>t. seqs w t \<le> seqs w' t) \<and> now w' = now w \<and> wall w' = wall w"
    using run frame fs bd fs'
    by (auto simp: with_tx_def split: fault.splits sum.splits)
qed

section \<open>Transactions\<close>

lemma read_tx_data:
  assumes "read_tx conn body w = (r, w')"
  shows "data w' = data w"
proof -
  obtain c u where "fault_step w = (c, u)" by (cases "fault_step w")
  with assms show ?thesis by (auto simp: read_tx_def split: fault.splits prod.splits)
qed

lemma read_tx_Inr:
  assumes "read_tx conn body w = (Inr a, w')"
  obtains u v where "same_data w u" "body u = (Inr a, v)"
proof -
  obtain c u where fs: "fault_step w = (c, u)" by (cases "fault_step w")
  then have "same_data w u" by (simp add: same_data_def)
  with fs that show thesis using assms by (cases c) (auto simp: read_tx_def split: prod.splits)
qed

lemma grows_read_tx [grows_intro]:
  assumes "grows body"
  shows "grows (read_tx conn body)"
proof (rule growsI)
  fix w r w'
  assume run: "read_tx conn body w = (r, w')"
  obtain c u where fs: "fault_step w = (c, u)" by (cases "fault_step w")
  obtain b v where bd: "body u = (b, v)" by (cases "body u")
  note frame = fault_step_frame [OF fs] growsD [OF assms bd]
  show "(\<forall>t. seqs w t \<le> seqs w' t) \<and> now w' = now w \<and> wall w' = wall w"
    using run frame fs bd by (auto simp: read_tx_def split: fault.splits)
qed

text \<open>The outcomes of a transaction: committed, or rolled back to the data it started from.\<close>

lemma with_tx_outcome:
  assumes "with_tx conn body w = (r, w')"
  obtains (committed) a u v where "same_data w u" "body u = (Inr a, v)" "same_data v w'"
      "r = Inr a \<or> r = Inl conn"
    | (not_begun) "same_data w w'" "r = Inl conn"
    | (rolled_back) u b v where "same_data w u" "body u = (b, v)" "same_data (v\<lparr>data := data w\<rparr>) w'"
      "\<exists>e. r = Inl e \<and> (b = Inl e \<or> e = conn)"
proof -
  obtain c u where fs: "fault_step w = (c, u)" by (cases "fault_step w")
  obtain b v where bd: "body u = (b, v)" by (cases "body u")
  obtain c' x where fs': "fault_step v = (c', x)" by (cases "fault_step v")
  have s: "same_data w u" "same_data v x" using fs fs' by (simp_all add: same_data_def)
  show thesis
  proof (cases "c = Calm")
    case False
    then have "r = Inl conn" "w' = u" using assms fs by (cases c; simp add: with_tx_def)+
    with s show thesis using not_begun by simp
  next
    case True
    show thesis
    proof (cases b)
      case (Inl e)
      with True assms fs bd have "r = Inl e" "w' = v\<lparr>data := data w\<rparr>" by (simp_all add: with_tx_def)
      with Inl s bd show thesis by (intro rolled_back [of u b v]) simp_all
    next
      case (Inr a)
      show thesis
      proof (cases "c' = Refused")
        case True
        with \<open>c = Calm\<close> Inr assms fs bd fs' have "r = Inl conn" "w' = x\<lparr>data := data w\<rparr>"
          by (simp_all add: with_tx_def)
        with s bd show thesis by (intro rolled_back [of u b v]) (simp_all add: same_data_def)
      next
        case False
        with \<open>c = Calm\<close> Inr assms fs bd fs' have "w' = x" "r = Inr a \<or> r = Inl conn"
          by (cases c'; simp add: with_tx_def)+
        with s bd Inr show thesis by (intro committed [of u a v]) simp_all
      qed
    qed
  qed
qed

lemma with_tx_Inr:
  assumes "with_tx conn body w = (Inr a, w')"
  obtains u v where "same_data w u" "body u = (Inr a, v)" "same_data v w'"
  using assms
  by (cases rule: with_tx_outcome [OF assms])
     (auto simp: with_tx_def same_data_def split: prod.splits fault.splits sum.splits)

lemma with_tx_ends:
  assumes "with_tx conn body w = (r, w')"
  shows "data w' = data w \<and> (\<forall>x. r \<noteq> Inr x) \<or>
    (\<exists>u x v. same_data w u \<and> body u = (Inr x, v) \<and> same_data v w' \<and> (r = Inr x \<or> r = Inl conn))"
  using assms
proof (cases rule: with_tx_outcome)
  case (committed x u v)
  then show ?thesis by blast
next
  case not_begun
  then show ?thesis by (simp add: same_data_def)
next
  case (rolled_back u b v)
  then show ?thesis by (auto simp: same_data_def)
qed

lemma with_tx_calm:
  assumes "faults w = []" and "body w = (b, v)" and "faults v = []"
  shows "with_tx conn body w = (case b of Inl e \<Rightarrow> (Inl e, v\<lparr>data := data w\<rparr>) | Inr a \<Rightarrow> (Inr a, v))"
  using assms by (simp add: with_tx_def split: sum.splits)

text \<open>
  The contract of an operation that runs in a transaction: its body keeps an invariant when it
  returns normally, and the invariant does not depend on the fault schedule and survives
  sequences that only moved up.
\<close>

locale tx_operation =
  fixes conn :: 'e
    and body :: "('e, 'a) m"
    and inv :: "world \<Rightarrow> bool"
  assumes body_grows: "grows body"
    and body_inv: "inv w \<Longrightarrow> body w = (Inr a, w') \<Longrightarrow> inv w'"
    and inv_seqs: "inv w \<Longrightarrow> data u = data w \<Longrightarrow> now u = now w \<Longrightarrow>
      (\<And>t. seqs w t \<le> seqs u t) \<Longrightarrow> inv u"
begin

lemma inv_same_data: "inv w \<Longrightarrow> same_data w u \<Longrightarrow> inv u"
  using inv_seqs [of w u] by (simp add: same_data_def)

text \<open>Whatever the connection does, the invariant holds after the transaction.\<close>

lemma tx_preserves:
  assumes "inv w" and run: "with_tx conn body w = (r, w')"
  shows "inv w'"
  using run
proof (cases rule: with_tx_outcome)
  case (committed a u v)
  then show ?thesis using \<open>inv w\<close> body_inv inv_same_data by blast
next
  case not_begun
  then show ?thesis using \<open>inv w\<close> inv_same_data by blast
next
  case (rolled_back u b v)
  have "inv u" using \<open>inv w\<close> rolled_back(1) by (rule inv_same_data)
  moreover have "seqs u t \<le> seqs v t" "now v = now u" for t
    using growsD [OF body_grows rolled_back(2)] by simp_all
  ultimately show ?thesis using rolled_back by (auto intro: inv_seqs simp: same_data_def)
qed

end

end
