(* ===== verification/Table.thy ===== *)
theory Table
  imports Tx
begin

text \<open>
  Tables as interfaces. A component reads and writes a table through a field of the database; what
  it relies on is that writing a field is seen by reading it (locale table), and, for a table
  with a BIGSERIAL key, that rows with keys below the sequence stay distinct (locale
  serial_table). Both are interpreted on every table of the schema the components use.
\<close>

text \<open>A row replaced by its new version.\<close>

definition replace_row :: "'r \<Rightarrow> 'r \<Rightarrow> 'r list \<Rightarrow> 'r list" where
  "replace_row r r' rs = map (\<lambda>x. if x = r then r' else x) rs"

lemma set_replace_row: "r \<in> set rs \<Longrightarrow> set (replace_row r r' rs) = insert r' (set rs - {r})"
  by (auto simp: replace_row_def)

lemma in_replace_rowD: "x \<in> set (replace_row r r' rs) \<Longrightarrow> x = r' \<or> x \<in> set rs \<and> x \<noteq> r"
  by (auto simp: replace_row_def split: if_splits)

lemma map_replace_row: "f r' = f r \<Longrightarrow> map f (replace_row r r' rs) = map f rs"
  by (simp add: replace_row_def)

lemma filter_replace_row:
  "p r' = p r \<Longrightarrow> filter p (replace_row r r' rs) = replace_row r r' (filter p rs)"
  by (induction rs) (auto simp: replace_row_def)

lemma replace_row_absent: "r \<notin> set rs \<Longrightarrow> replace_row r r' rs = rs"
  by (auto simp: replace_row_def intro: map_idI)

lemma filter_only:
  assumes "distinct xs" and "x \<in> set xs" and "\<And>y. y \<in> set xs \<Longrightarrow> p y = (y = x)"
  shows "filter p xs = [x]"
proof -
  have "filter p xs = filter (\<lambda>y. y = x) xs" by (rule filter_cong) (use assms(3) in auto)
  moreover have "distinct ys \<Longrightarrow> filter (\<lambda>y. y = x) ys = (if x \<in> set ys then [x] else [])" for ys
    by (induction ys) auto
  ultimately show ?thesis using assms(1,2) by simp
qed

lemma list_ex_replace_row: "p r' = p r \<Longrightarrow> list_ex p (replace_row r r' rs) = list_ex p rs"
  by (induction rs) (auto simp: replace_row_def)

lemma sum_replace_row:
  fixes f :: "'r \<Rightarrow> int"
  assumes "distinct rs" and "r \<in> set rs"
  shows "sum_list (map f (replace_row r r' rs)) = sum_list (map f rs) - f r + f r'"
  using assms
proof (induction rs)
  case Nil
  then show ?case by simp
next
  case (Cons x rs)
  show ?case
  proof (cases "x = r")
    case True
    then have "replace_row r r' rs = rs" using Cons.prems by (simp add: replace_row_absent)
    with True show ?thesis by (simp add: replace_row_def)
  next
    case False
    with Cons show ?thesis by (simp add: replace_row_def)
  qed
qed

locale table =
  fixes get :: "db \<Rightarrow> 'r list"
    and put :: "'r list \<Rightarrow> db \<Rightarrow> db"
  assumes get_put [simp]: "get (put rs d) = rs"
    and put_put [simp]: "put rs (put rs' d) = put rs d"
    and put_get [simp]: "put (get d) d = d"
begin

lemma get_insert: "insert_serial t get put chk mk w = (Inr r, w') \<Longrightarrow> get (data w') = get (data w) @ [r]"
  by (auto dest!: insert_serial_Inr)

lemma get_update:
  "update_rows get put chk p upd w = (Inr rs, w') \<Longrightarrow>
     get (data w') = map (\<lambda>r. if p r then upd (now w) r else r) (get (data w))"
  by (auto dest!: update_rows_Inr)

lemma update_none:
  "update_rows get put chk p upd w = (Inr [], w') \<Longrightarrow> data w' = data w"
proof -
  assume "update_rows get put chk p upd w = (Inr [], w')"
  then have f: "filter p (get (data w)) = []"
    and d: "data w' = put (map (\<lambda>r. if p r then upd (now w) r else r) (get (data w))) (data w)"
    by (auto dest!: update_rows_Inr)
  have "map (\<lambda>r. if p r then upd (now w) r else r) (get (data w)) = get (data w)"
    using f by (auto simp: filter_empty_conv intro: map_idI)
  with d show ?thesis by simp
qed

end

locale serial_table = table get put
  for get :: "db \<Rightarrow> 'r list" and put :: "'r list \<Rightarrow> db \<Rightarrow> db" +
  fixes key :: "'r \<Rightarrow> int"
    and t :: tbl
begin

definition fresh :: "world \<Rightarrow> bool" where
  "fresh w \<longleftrightarrow> distinct (map key (get (data w))) \<and> 1 \<le> seqs w t
     \<and> (\<forall>r \<in> set (get (data w)). 1 \<le> key r \<and> key r < seqs w t)"

lemma fresh_distinct: "fresh w \<Longrightarrow> distinct (map key (get (data w)))"
  by (simp add: fresh_def)

lemma fresh_below: "fresh w \<Longrightarrow> r \<in> set (get (data w)) \<Longrightarrow> key r < seqs w t"
  by (simp add: fresh_def)

lemma fresh_pos: "fresh w \<Longrightarrow> r \<in> set (get (data w)) \<Longrightarrow> 1 \<le> key r" "fresh w \<Longrightarrow> 1 \<le> seqs w t"
  by (simp_all add: fresh_def)

lemma fresh_frame:
  "fresh w \<Longrightarrow> get (data u) = get (data w) \<Longrightarrow> seqs w t \<le> seqs u t \<Longrightarrow> fresh u"
  by (fastforce simp: fresh_def)

lemma fresh_insert:
  assumes "fresh w" and "insert_serial t get put chk mk w = (Inr r, w')"
    and "\<And>n d. key (mk (seqs w t) n d) = seqs w t"
  shows "fresh w'"
proof -
  from insert_serial_Inr [OF assms(2)]
  have g: "get (data w') = get (data w) @ [r]" and r: "key r = seqs w t"
    and q: "seqs w' t = seqs w t + 1"
    using assms(3) by auto
  have "key r \<notin> key ` set (get (data w))" using fresh_below [OF assms(1)] r by fastforce
  moreover have "1 \<le> key x \<and> key x < seqs w t + 1" if "x \<in> set (get (data w))" for x
    using fresh_below [OF assms(1) that] fresh_pos(1) [OF assms(1) that] by simp
  ultimately show ?thesis using fresh_distinct [OF assms(1)] fresh_pos(2) [OF assms(1)] r
    by (simp add: fresh_def g q)
qed

lemma fresh_map:
  assumes "fresh w" and "get (data w') = map f (get (data w))" and "\<And>r. key (f r) = key r"
    and "seqs w t \<le> seqs w' t"
  shows "fresh w'"
proof -
  have k: "key \<circ> f = key" using assms(3) by (simp add: fun_eq_iff)
  have "1 \<le> key (f r) \<and> key (f r) < seqs w' t" if "r \<in> set (get (data w))" for r
    using fresh_below [OF assms(1) that] fresh_pos(1) [OF assms(1) that] assms(3,4) by simp
  moreover have "1 \<le> seqs w' t" using fresh_pos(2) [OF assms(1)] assms(4) by simp
  ultimately show ?thesis using fresh_distinct [OF assms(1)] unfolding fresh_def assms(2) by (auto simp: k)
qed

lemma fresh_append:
  assumes "fresh w" and "get (data w') = get (data w) @ rs" and "distinct (map key rs)"
    and "\<And>r. r \<in> set rs \<Longrightarrow> seqs w t \<le> key r \<and> key r < seqs w' t" and "seqs w t \<le> seqs w' t"
  shows "fresh w'"
proof -
  have "key r \<noteq> key r'" if "r \<in> set (get (data w))" "r' \<in> set rs" for r r'
    using fresh_below [OF assms(1) that(1)] assms(4) [OF that(2)] by simp
  then have "key ` set (get (data w)) \<inter> key ` set rs = {}" by (simp add: disjoint_iff_not_equal)
  moreover have "1 \<le> key r \<and> key r < seqs w' t" if "r \<in> set (get (data w))" for r
    using fresh_below [OF assms(1) that] fresh_pos(1) [OF assms(1) that] assms(5) by simp
  moreover have "1 \<le> key r \<and> key r < seqs w' t" if "r \<in> set rs" for r
    using assms(4) [OF that] fresh_pos(2) [OF assms(1)] by simp
  moreover have "1 \<le> seqs w' t" using fresh_pos(2) [OF assms(1)] assms(5) by simp
  ultimately show ?thesis
    using fresh_distinct [OF assms(1)] assms(3) unfolding fresh_def assms(2) by auto
qed

lemma fresh_same_data: "fresh w \<Longrightarrow> same_data w u \<Longrightarrow> fresh u"
  by (simp add: fresh_def same_data_def)

lemma insert_keeps:
  assumes "\<And>i n d. key (mk i n d) = i"
  shows "keeps fresh (insert_serial t get put chk mk)"
  unfolding insert_serial_def
proof (rule keeps_stmt)
  show "stable fresh" using fresh_same_data by (auto simp: stable_def)
next
  show "keeps fresh (\<lambda>w. let i = seqs w t; r = mk i (now w) (data w); u = w\<lparr>seqs := (seqs w)(t := i + 1)\<rparr>
     in case chk (data w) r of Some e \<Rightarrow> (Inl e, u)
        | None \<Rightarrow> (Inr r, u\<lparr>data := put (get (data w) @ [r]) (data w)\<rparr>))"
  proof (rule keepsI)
    fix w :: world and r w'
    assume F: "fresh w" and run: "(let i = seqs w t; r = mk i (now w) (data w); u = w\<lparr>seqs := (seqs w)(t := i + 1)\<rparr>
     in case chk (data w) r of Some e \<Rightarrow> (Inl e, u)
        | None \<Rightarrow> (Inr r, u\<lparr>data := put (get (data w) @ [r]) (data w)\<rparr>)) = (r, w')"
    show "fresh w'"
    proof (cases "chk (data w) (mk (seqs w t) (now w) (data w))")
      case None
      with run have w': "w' = w\<lparr>seqs := (seqs w)(t := seqs w t + 1),
          data := put (get (data w) @ [mk (seqs w t) (now w) (data w)]) (data w)\<rparr>"
        by (simp add: Let_def)
      show ?thesis
        by (rule fresh_append [OF F, of _ "[mk (seqs w t) (now w) (data w)]"]) (auto simp: w' assms)
    next
      case (Some e)
      with run have "w' = w\<lparr>seqs := (seqs w)(t := seqs w t + 1)\<rparr>" by (simp add: Let_def)
      then show ?thesis by (auto intro: fresh_frame [OF F])
    qed
  qed
qed

lemma update_keeps:
  assumes "\<And>n r. key (upd n r) = key r"
  shows "keeps fresh (update_rows get put chk p upd)"
  unfolding update_rows_def
proof (rule keeps_stmt)
  show "stable fresh" using fresh_same_data by (auto simp: stable_def)
next
  show "keeps fresh (\<lambda>w. let new = map (upd (now w)) (filter p (get (data w)))
     in case find (\<lambda>r. chk (data w) r \<noteq> None) new of
          Some r \<Rightarrow> (Inl (the (chk (data w) r)), w)
        | None \<Rightarrow> (Inr new,
             w\<lparr>data := put (map (\<lambda>r. if p r then upd (now w) r else r) (get (data w))) (data w)\<rparr>))"
    by (rule keepsI)
       (auto simp: Let_def assms split: option.splits
         intro: fresh_map [where f = "\<lambda>r. if p r then upd (now _) r else r"])
qed

text \<open>A key finds at most one row.\<close>

lemma key_unique:
  "fresh w \<Longrightarrow> r \<in> set (get (data w)) \<Longrightarrow> r' \<in> set (get (data w)) \<Longrightarrow> key r = key r' \<Longrightarrow> r = r'"
  by (auto simp: fresh_def distinct_map inj_on_def)

lemma filter_key:
  assumes "fresh w" and "r \<in> set (get (data w))" and "p r" and "\<And>x. p x \<Longrightarrow> key x = key r"
  shows "filter p (get (data w)) = [r]"
proof -
  have "distinct (map key xs) \<Longrightarrow> r \<in> set xs \<Longrightarrow> filter p xs = [r]" for xs
  proof (induction xs)
    case Nil
    then show ?case by simp
  next
    case (Cons x xs)
    show ?case
    proof (cases "x = r")
      case True
      have "\<not> p y" if "y \<in> set xs" for y
      proof
        assume "p y"
        then have "key y = key r" by (rule assms(4))
        with that True Cons.prems(1) show False by (metis distinct.simps(2) image_eqI list.set_map list.simps(9))
      qed
      then have "filter p xs = []" by (simp add: filter_empty_conv)
      with True assms(3) show ?thesis by simp
    next
      case False
      then have "r \<in> set xs" using Cons.prems by simp
      moreover from this have "key x \<noteq> key r" using Cons.prems(1) by force
      then have "\<not> p x" using assms(4) by blast
      ultimately show ?thesis using Cons by simp
    qed
  qed
  then show ?thesis using assms(1,2) by (simp add: fresh_def)
qed

text \<open>An update that selects one row by its key.\<close>

lemma selects_one:
  assumes "fresh w" and "r \<in> set (get (data w))" and "p r" and "\<And>x. p x \<Longrightarrow> key x = key r"
  shows "map (\<lambda>x. if p x then f x else x) (get (data w)) = replace_row r (f r) (get (data w))"
  unfolding replace_row_def
proof (rule map_cong [OF refl])
  fix x
  assume x: "x \<in> set (get (data w))"
  have "p x \<longleftrightarrow> x = r" using key_unique [OF assms(1) x assms(2)] assms(3,4) by blast
  then show "(if p x then f x else x) = (if x = r then f r else x)" by simp
qed

lemma update_one:
  assumes "fresh w" and "r \<in> set (get (data w))" and "p r" and "\<And>x. p x \<Longrightarrow> key x = key r"
    and "only_one (update_rows get put chk p upd) w = (Inr r', w')"
  shows "r' = upd (now w) r \<and> chk (data w) r' = None
    \<and> data w' = put (replace_row r r' (get (data w))) (data w)
    \<and> seqs w' = seqs w \<and> now w' = now w \<and> wall w' = wall w"
proof -
  from only_one_Inr [OF assms(5)] obtain rs
    where "update_rows get put chk p upd w = (Inr (r' # rs), w')" ..
  note U = update_rows_Inr [OF this]
  have F: "filter p (get (data w)) = [r]" using assms(1-4) by (rule filter_key)
  have M: "map (\<lambda>x. if p x then upd (now w) x else x) (get (data w))
      = replace_row r (upd (now w) r) (get (data w))"
    using assms(1-4) by (rule selects_one)
  from U have "r' # rs = [upd (now w) r]" unfolding F by simp
  then have "r' = upd (now w) r" by simp
  moreover have "chk (data w) r' = None" using U by simp
  ultimately show ?thesis using U unfolding M by blast
qed

end

interpretation orders_tbl: serial_table orders "\<lambda>rs d. d\<lparr>orders := rs\<rparr>" o_id TOrders
  by unfold_locales simp_all

interpretation items_tbl: serial_table order_items "\<lambda>rs d. d\<lparr>order_items := rs\<rparr>" it_id TItems
  by unfold_locales simp_all

interpretation history_tbl:
  serial_table order_status_history "\<lambda>rs d. d\<lparr>order_status_history := rs\<rparr>" h_id THistory
  by unfold_locales simp_all

interpretation payments_tbl: serial_table payments "\<lambda>rs d. d\<lparr>payments := rs\<rparr>" p_id TPayments
  by unfold_locales simp_all

interpretation audit_tbl: serial_table audit_logs "\<lambda>rs d. d\<lparr>audit_logs := rs\<rparr>" au_id TAudit
  by unfold_locales simp_all

interpretation families_tbl:
  serial_table session_families "\<lambda>rs d. d\<lparr>session_families := rs\<rparr>" sf_id TFamilies
  by unfold_locales simp_all

interpretation tokens_tbl:
  serial_table refresh_tokens "\<lambda>rs d. d\<lparr>refresh_tokens := rs\<rparr>" rt_id TTokens
  by unfold_locales simp_all

section \<open>All the keys of the schema\<close>

text \<open>Writing one table leaves what is read from another alone.\<close>

lemma insert_frame:
  assumes "insert_serial t get put chk mk w = (r, w')"
  shows "(data w' = data w \<or> (\<exists>rs. data w' = put rs (data w))) \<and> (\<forall>t'. seqs w t' \<le> seqs w' t')"
  using assms growsD(1) [OF grows_insert_serial assms] unfolding insert_serial_def stmt_def
  by (auto simp: Let_def split: prod.splits fault.splits option.splits dest: fault_step_frame)

lemma update_frame:
  assumes "update_rows get put chk p upd w = (r, w')"
  shows "(data w' = data w \<or> (\<exists>rs. data w' = put rs (data w))) \<and> (\<forall>t'. seqs w t' \<le> seqs w' t')"
  using assms growsD(1) [OF grows_update_rows assms] unfolding update_rows_def stmt_def
  by (auto simp: Let_def split: prod.splits fault.splits option.splits dest: fault_step_frame)

definition all_fresh :: "world \<Rightarrow> bool" where
  "all_fresh w \<longleftrightarrow> orders_tbl.fresh w \<and> items_tbl.fresh w \<and> history_tbl.fresh w
     \<and> payments_tbl.fresh w \<and> audit_tbl.fresh w \<and> families_tbl.fresh w \<and> tokens_tbl.fresh w"

lemma stable_all_fresh [simp]: "stable all_fresh"
  unfolding stable_def all_fresh_def
  using orders_tbl.fresh_same_data items_tbl.fresh_same_data history_tbl.fresh_same_data
    payments_tbl.fresh_same_data audit_tbl.fresh_same_data families_tbl.fresh_same_data
    tokens_tbl.fresh_same_data by blast

lemma all_fresh_seqs:
  assumes "all_fresh w" and "data u = data w" and "\<And>t. seqs w t \<le> seqs u t"
  shows "all_fresh u"
  using assms unfolding all_fresh_def
  by (auto intro: orders_tbl.fresh_frame items_tbl.fresh_frame history_tbl.fresh_frame
      payments_tbl.fresh_frame audit_tbl.fresh_frame families_tbl.fresh_frame tokens_tbl.fresh_frame)

lemma keeps_reads_fresh [keeps_intro]: "reads p \<Longrightarrow> keeps all_fresh p"
  by (rule keeps_reads) simp_all

lemma keeps_with_text_fresh [keeps_intro]: "keeps all_fresh p \<Longrightarrow> keeps all_fresh (with_text ok p)"
  by (rule keeps_with_text) simp_all

end
