(* ===== verification/Service_Base.thy ===== *)
theory Service_Base
  imports Tx
begin

text \<open>
  What the services of internal/service share: the error values their functions return, the
  actor on whose behalf they run, and the conversions between nullable columns and pointers.
  A pgtype value with its Valid flag and a Go pointer are both an option, so the source's
  textPointer, intPointer, timePointer and optionalText are identities of the model.
\<close>

section \<open>Errors\<close>

text \<open>The sentinel errors of the package, and errors handed on unchanged: of json.Marshal, and of a statement.\<close>

datatype svc_error =
    ErrInvalidOrder | ErrInvalidOrderQuantity | ErrOrderDueAtBeforeReceive | ErrOrderNotFound
  | ErrOrderOutletForbidden | ErrOrderCustomerNotFound | ErrOrderServiceNotFound
  | ErrOrderPerfumeNotFound | ErrOrderIdempotencyConflict | ErrOrderTotalOverflow
  | ErrInvalidOrderTransition | ErrOrderRequiresRefund | ErrInvalidCancellation
  | ErrInvalidPayment | ErrPaymentNotFound | ErrPaymentOverpayment | ErrPaymentNoBalance
  | ErrPaymentOrderCancelled | ErrPaymentIdempotencyConflict | ErrPaymentNotVoidable
  | ErrInvalidPaymentVoid | ErrPaymentLedgerInvariant | ErrPaymentRefundsUnsupported
  | ErrInvalidName | ErrInvalidUnit | ErrInvalidPrice | ErrInvalidDuration | ErrNotFound | ErrConflict
  | ErrInvalidPerfumeName | ErrPerfumeNotFound | ErrPerfumeConflict
  | MarshalError | Sql pgerr

text \<open>"if errors.Is(err, pgx.ErrNoRows) return e; if err != nil return err".\<close>

definition no_rows :: "svc_error \<Rightarrow> pgerr \<Rightarrow> svc_error" where
  "no_rows e p = (if p = NoRows then e else Sql p)"

abbreviation in_tx :: "(svc_error, 'a) m \<Rightarrow> (svc_error, 'a) m" where
  "in_tx \<equiv> with_tx (Sql ConnErr)"

abbreviation exec :: "(pgerr, 'a) m \<Rightarrow> (svc_error, 'a) m" where
  "exec \<equiv> on_err Sql"

section \<open>The actor\<close>

record actor =
  a_business_id :: i64
  a_user_id :: i64
  a_role :: string
  a_outlet_ids :: "i64 list"
  a_ip :: "string option"
  a_user_agent :: string

abbreviation is_admin :: "actor \<Rightarrow> bool" where
  "is_admin a \<equiv> a_role a = ''ADMIN''"

fun containsOutlet :: "i64 list \<Rightarrow> i64 \<Rightarrow> bool" where
  "containsOutlet [] outletID = False"
| "containsOutlet (i # rest) outletID = (if i = outletID then True else containsOutlet rest outletID)"

lemma containsOutlet_iff [simp]: "containsOutlet xs i \<longleftrightarrow> i \<in> set xs"
  by (induction xs) auto

text \<open>
  The user agent every audit insert stores: cut to 512 bytes, NULL when empty.
\<close>

definition audit_user_agent :: "string \<Rightarrow> string option" where
  "audit_user_agent ua = (let cut = (if length ua > 512 then take 512 ua else ua)
     in if cut \<noteq> [] then Some cut else None)"

end
