(* ===== verification/Quantity.thy ===== *)
theory Quantity
  imports Service_Base
begin

text \<open>
  Quantities of an order line (internal/service/orders.go): the parser of the decimal string a
  client sends, the formatter of the decimal string the database returns, and the amount of a
  line in whole rupiah. A quantity is held in thousandths (NUMERIC(12,3)).
\<close>

section \<open>Parsing\<close>

text \<open>strings.SplitN(value, ".", 2): the part before the first dot, and what follows it.\<close>

definition split_dot :: "string \<Rightarrow> string \<times> string option" where
  "split_dot s =
     (takeWhile (\<lambda>c. c \<noteq> CHR ''.'') s,
      case dropWhile (\<lambda>c. c \<noteq> CHR ''.'') s of [] \<Rightarrow> None | _ # r \<Rightarrow> Some r)"

definition parseFraction :: "string option \<Rightarrow> svc_error + i64" where
  "parseFraction part =
     (case part of
        None \<Rightarrow> Inr 0
      | Some p \<Rightarrow>
          if length p = 0 \<or> length p > 3 then Inl ErrInvalidOrderQuantity
          else if \<not> list_all is_digit p then Inl ErrInvalidOrderQuantity
          else case parse_int 64 (p @ replicate (3 - length p) CHR ''0'') of
                 None \<Rightarrow> Inl ErrInvalidOrderQuantity
               | Some f \<Rightarrow> Inr f)"

definition parseMilliQuantity :: "string \<Rightarrow> svc_error + i64" where
  "parseMilliQuantity value =
     (if value = [] \<or> starts_with ''+'' value \<or> starts_with ''-'' value
         \<or> count_list value CHR ''.'' > 1
      then Inl ErrInvalidOrderQuantity
      else
        let (p0, p1) = split_dot value in
        if length p0 = 0 \<or> length p0 > 9 then Inl ErrInvalidOrderQuantity
        else case parse_int 64 p0 of
          None \<Rightarrow> Inl ErrInvalidOrderQuantity
        | Some whole \<Rightarrow>
            if \<not> list_all is_digit p0 then Inl ErrInvalidOrderQuantity
            else case parseFraction p1 of
              Inl e \<Rightarrow> Inl e
            | Inr fraction \<Rightarrow>
                (let milli = wrap64 (wrap64 (whole * 1000) + fraction)
                 in if milli \<le> 0 \<or> milli > 999999999999 then Inl ErrInvalidOrderQuantity
                    else Inr milli))"

section \<open>Formatting\<close>

text \<open>quantity::text of a NUMERIC(12,3) column that holds a nonnegative number of thousandths.\<close>

definition numeric_text :: "int \<Rightarrow> string" where
  "numeric_text milli = show_int (milli div 1000) @ ''.'' @ fmt_0d 3 (milli mod 1000)"

definition FormatQuantity :: "string \<Rightarrow> string" where
  "FormatQuantity value =
     (if CHR ''.'' \<notin> set value then value
      else trim_right_byte CHR ''.'' (trim_right_byte CHR ''0'' value))"

section \<open>The amount of a line\<close>

definition lineTotalFor :: "i64 \<Rightarrow> i64 \<Rightarrow> svc_error + i64" where
  "lineTotalFor milli price =
     (let lineTotal = go_quo (milli * price + 500) 1000
      in if \<not> is_int64 lineTotal then Inl ErrOrderTotalOverflow else Inr lineTotal)"

text \<open>round(quantity * price) of PostgreSQL's numeric: halves go away from zero.\<close>

definition pg_round_milli :: "int \<Rightarrow> int" where
  "pg_round_milli x = (if 0 \<le> x then (x + 500) div 1000 else - ((- x + 500) div 1000))"

section \<open>What the parser accepts\<close>

definition decimal_milli :: "string \<Rightarrow> string \<Rightarrow> int" where
  "decimal_milli w f = digits_val w * 1000 + digits_val f * 10 ^ (3 - length f)"

lemma dot_not_digit: "list_all is_digit s \<Longrightarrow> CHR ''.'' \<notin> set s"
  by (auto simp: list_all_iff is_digit_def)

lemma split_dot_plain: "list_all is_digit w \<Longrightarrow> split_dot w = (w, None)"
proof -
  assume "list_all is_digit w"
  then have "\<forall>c \<in> set w. c \<noteq> CHR ''.''" using dot_not_digit by blast
  then have tw: "takeWhile (\<lambda>c. c \<noteq> CHR ''.'') w = w" and dw: "dropWhile (\<lambda>c. c \<noteq> CHR ''.'') w = []"
    by simp_all
  show ?thesis unfolding split_dot_def tw dw by simp
qed

lemma split_dot_fraction:
  "list_all is_digit w \<Longrightarrow> split_dot (w @ CHR ''.'' # f) = (w, Some f)"
proof -
  assume "list_all is_digit w"
  then have "\<And>c. c \<in> set w \<Longrightarrow> c \<noteq> CHR ''.''" using dot_not_digit by blast
  then have "takeWhile (\<lambda>c. c \<noteq> CHR ''.'') (w @ CHR ''.'' # f) = w"
    and "dropWhile (\<lambda>c. c \<noteq> CHR ''.'') (w @ CHR ''.'' # f) = CHR ''.'' # f"
    by (simp_all add: takeWhile_append2 dropWhile_append2)
  then show ?thesis by (simp add: split_dot_def)
qed

lemma split_dot_inv:
  "split_dot s = (w, p) \<Longrightarrow> s = w @ (case p of None \<Rightarrow> [] | Some f \<Rightarrow> CHR ''.'' # f)"
proof -
  assume "split_dot s = (w, p)"
  moreover obtain d where d: "d = dropWhile (\<lambda>c. c \<noteq> CHR ''.'') s" by simp
  ultimately have w: "w = takeWhile (\<lambda>c. c \<noteq> CHR ''.'') s"
    and p: "p = (case d of [] \<Rightarrow> None | _ # r \<Rightarrow> Some r)"
    by (simp_all add: split_dot_def)
  have s: "s = w @ d" unfolding w d by (rule takeWhile_dropWhile_id [symmetric])
  have "d = x # r \<Longrightarrow> x = CHR ''.''" for x r
    unfolding d by (simp add: dropWhile_eq_Cons_conv)
  then show "s = w @ (case p of None \<Rightarrow> [] | Some f \<Rightarrow> CHR ''.'' # f)"
    using p by (subst s) (cases d; simp)
qed

lemma count_dot_digits: "list_all is_digit s \<Longrightarrow> count_list s CHR ''.'' = 0"
  by (simp add: count_list_0_iff dot_not_digit)

lemma digits_no_sign:
  "list_all is_digit w \<Longrightarrow> w \<noteq> [] \<Longrightarrow>
     \<not> starts_with ''+'' (w @ r) \<and> \<not> starts_with ''-'' (w @ r)"
  by (cases w) (auto simp: starts_with_def is_digit_def)

lemma parse_int_digits:
  assumes "list_all is_digit w" "w \<noteq> []" "length w \<le> 18"
  shows "parse_int 64 w = Some (digits_val w)"
proof -
  have "hd w \<notin> {CHR ''+'', CHR ''-''}" using assms by (cases w) (auto simp: is_digit_def)
  moreover have "digits_val w < 10 ^ 18"
    using digits_val_bounds [OF assms(1)] assms(3)
    by (meson less_le_trans one_le_numeral power_increasing)
  ultimately show ?thesis using assms by (auto simp: parse_int_def parse_digits_def Let_def)
qed

lemma parseFraction_digits:
  assumes "list_all is_digit f" "f \<noteq> []" "length f \<le> 3"
  shows "parseFraction (Some f) = Inr (digits_val f * 10 ^ (3 - length f))"
proof -
  have "parse_int 64 (f @ replicate (3 - length f) CHR ''0'') =
      Some (digits_val (f @ replicate (3 - length f) CHR ''0''))"
    using assms by (intro parse_int_digits) simp_all
  with assms show ?thesis by (simp add: parseFraction_def digits_val_append)
qed

lemma fraction_bounds:
  assumes "list_all is_digit f" "length f \<le> 3"
  shows "0 \<le> digits_val f * 10 ^ (3 - length f) \<and> digits_val f * 10 ^ (3 - length f) \<le> (999 :: int)"
proof -
  have b: "0 \<le> digits_val f" "digits_val f + 1 \<le> 10 ^ length f"
    using digits_val_bounds [OF assms(1)] by simp_all
  from assms(2) consider "length f = 0" | "length f = 1" | "length f = 2" | "length f = 3"
    by linarith
  then show ?thesis using b by cases simp_all
qed

lemma whole_bounds:
  assumes "list_all is_digit w" "length w \<le> 9"
  shows "0 \<le> digits_val w" "digits_val w \<le> (999999999 :: int)"
proof -
  have b: "0 \<le> digits_val w" "digits_val w < 10 ^ length w"
    using digits_val_bounds [OF assms(1)] by simp_all
  have "(10::int) ^ length w \<le> 10 ^ 9" using assms(2) by (intro power_increasing) simp_all
  with b show "0 \<le> digits_val w" "digits_val w \<le> (999999999 :: int)" by simp_all
qed

text \<open>The strings the parser reads, and the value it reads from them.\<close>

definition quantity_text :: "string \<Rightarrow> string \<Rightarrow> string \<Rightarrow> bool" where
  "quantity_text s w f \<longleftrightarrow>
     s = w @ (if f = [] then [] else CHR ''.'' # f) \<and> list_all is_digit w \<and> list_all is_digit f
     \<and> 1 \<le> length w \<and> length w \<le> 9 \<and> length f \<le> 3"

lemma parse_quantity_text:
  assumes "quantity_text s w f"
  shows "parseMilliQuantity s =
    (if 0 < decimal_milli w f then Inr (decimal_milli w f) else Inl ErrInvalidOrderQuantity)"
proof -
  have w: "list_all is_digit w" "w \<noteq> []" "length w \<le> 9"
    and f: "list_all is_digit f" "length f \<le> 3"
    and s: "s = w @ (if f = [] then [] else CHR ''.'' # f)"
    using assms by (auto simp: quantity_text_def)
  have sp: "split_dot s = (w, if f = [] then None else Some f)"
    using s w split_dot_plain split_dot_fraction by auto
  have pf: "parseFraction (if f = [] then None else Some f) = Inr (digits_val f * 10 ^ (3 - length f))"
    using f parseFraction_digits by (auto simp: parseFraction_def)
  have pw: "parse_int 64 w = Some (digits_val w)"
    using w by (intro parse_int_digits) simp_all
  have "\<not> (s = [] \<or> starts_with ''+'' s \<or> starts_with ''-'' s \<or> count_list s CHR ''.'' > 1)"
    using s w f digits_no_sign [of w] by (simp add: count_dot_digits)
  moreover have "wrap64 (wrap64 (digits_val w * 1000) + digits_val f * 10 ^ (3 - length f))
      = decimal_milli w f" "decimal_milli w f \<le> 999999999999"
    using whole_bounds [OF w(1,3)] fraction_bounds [OF f]
    by (simp_all add: decimal_milli_def is_int64_def)
  ultimately show ?thesis
    using sp pf pw w by (auto simp: parseMilliQuantity_def Let_def)
qed

lemma parse_quantity_text_inv:
  assumes "parseMilliQuantity s = Inr m"
  shows "\<exists>w f. quantity_text s w f \<and> 0 < decimal_milli w f"
proof -
  obtain w p where sp: "split_dot s = (w, p)" by (cases "split_dot s")
  have w: "list_all is_digit w" "w \<noteq> []" "length w \<le> 9" and "\<exists>n. parseFraction p = Inr n"
    using assms sp by (auto simp: parseMilliQuantity_def Let_def split: if_splits option.splits sum.splits)
  then have p: "p = Some f \<Longrightarrow> list_all is_digit f \<and> f \<noteq> [] \<and> length f \<le> 3" for f
    by (auto simp: parseFraction_def split: if_splits)
  define f where "f = (case p of None \<Rightarrow> [] | Some g \<Rightarrow> g)"
  have "quantity_text s w f"
    using split_dot_inv [OF sp] w p by (cases p) (auto simp: quantity_text_def f_def Suc_le_eq)
  moreover from parse_quantity_text [OF this] assms have "0 < decimal_milli w f"
    by (simp split: if_splits)
  ultimately show ?thesis by blast
qed

lemma parseMilliQuantity_Inr_iff:
  "parseMilliQuantity s = Inr m \<longleftrightarrow>
     (\<exists>w f. quantity_text s w f \<and> 0 < decimal_milli w f \<and> m = decimal_milli w f)"
  using parse_quantity_text_inv [of s m] parse_quantity_text [of s] by force

lemma parseMilliQuantity_Inl: "parseMilliQuantity s = Inl e \<Longrightarrow> e = ErrInvalidOrderQuantity"
  by (auto simp: parseMilliQuantity_def parseFraction_def Let_def
      split: if_splits option.splits sum.splits prod.splits)

lemma parseMilliQuantity_bounds:
  "parseMilliQuantity s = Inr m \<Longrightarrow> 0 < m \<and> m \<le> 999999999999"
  by (auto simp: parseMilliQuantity_def Let_def split: if_splits option.splits sum.splits prod.splits)

section \<open>Formatting and parsing again\<close>

lemma trim_right_byte_split:
  "\<exists>n. s = trim_right_byte c s @ replicate n c"
proof -
  obtain t d where td: "t = takeWhile (\<lambda>x. x = c) (rev s)" "d = dropWhile (\<lambda>x. x = c) (rev s)"
    by blast
  then have "rev s = t @ d" by simp
  then have "s = rev d @ rev t" by (metis rev_append rev_rev_ident)
  moreover have "rev t = replicate (length t) c"
    by (rule replicate_eqI) (auto simp: td dest: set_takeWhileD)
  ultimately show ?thesis by (auto simp: trim_right_byte_def td)
qed

lemma trim_right_byte_last: "trim_right_byte c s = [] \<or> last (trim_right_byte c s) \<noteq> c"
proof -
  have "dropWhile (\<lambda>x. x = c) (rev s) = [] \<or> hd (dropWhile (\<lambda>x. x = c) (rev s)) \<noteq> c"
    using hd_dropWhile [of "\<lambda>x. x = c" "rev s"] by blast
  then show ?thesis by (auto simp: trim_right_byte_def last_rev)
qed

lemma trim_right_byte_stop: "s = [] \<or> last s \<noteq> c \<Longrightarrow> trim_right_byte c s = s"
  by (cases s rule: rev_cases) (simp_all add: trim_right_byte_def)

lemma trim_right_byte_snoc: "trim_right_byte c (s @ [d]) = (if d = c then trim_right_byte c s else s @ [d])"
  by (simp add: trim_right_byte_def)

lemma trim_right_byte_replicate: "trim_right_byte c (s @ replicate n c) = trim_right_byte c s"
proof (induction n)
  case 0
  show ?case by simp
next
  case (Suc n)
  have "s @ replicate (Suc n) c = (s @ replicate n c) @ [c]" by (simp add: replicate_append_same)
  with Suc show ?case by (simp only: trim_right_byte_snoc) simp
qed

lemma FormatQuantity_split:
  assumes w: "list_all is_digit w" "w \<noteq> []" and g: "g = [] \<or> last g \<noteq> CHR ''0''"
    and d: "list_all is_digit g"
  shows "FormatQuantity (w @ CHR ''.'' # g @ replicate n CHR ''0'') =
    w @ (if g = [] then [] else CHR ''.'' # g)"
proof -
  have lw: "last w \<noteq> CHR ''.''" using last_in_set [OF w(2)] dot_not_digit [OF w(1)] by metis
  have "trim_right_byte CHR ''0'' ((w @ CHR ''.'' # g) @ replicate n CHR ''0'') = w @ CHR ''.'' # g"
    unfolding trim_right_byte_replicate using g by (intro trim_right_byte_stop) auto
  moreover have "trim_right_byte CHR ''.'' (w @ CHR ''.'' # g) = w @ (if g = [] then [] else CHR ''.'' # g)"
  proof (cases "g = []")
    case True
    then show ?thesis using lw by (simp add: trim_right_byte_snoc trim_right_byte_stop)
  next
    case False
    then have "last g \<noteq> CHR ''.''" using last_in_set [OF False] dot_not_digit [OF d] by metis
    with False show ?thesis by (simp add: trim_right_byte_stop)
  qed
  ultimately show ?thesis by (simp add: FormatQuantity_def)
qed

lemma FormatQuantity_text:
  assumes m: "0 \<le> m" "m \<le> 999999999999"
  shows "\<exists>w g. quantity_text (FormatQuantity (numeric_text m)) w g \<and> decimal_milli w g = m"
proof -
  define w f where "w = show_nat (nat (m div 1000))" and "f = fmt_0d 3 (m mod 1000)"
  have f: "list_all is_digit f" "length f = 3" "digits_val f = m mod 1000"
    by (simp_all add: f_def fmt_0d_digits fmt_0d_value length_fmt_0d)
  have "nat (m div 1000) < 10 ^ 9" using m by simp
  then have "length w \<le> 9" unfolding w_def by (rule length_show_nat_le) simp
  then have w: "list_all is_digit w" "w \<noteq> []" "length w \<le> 9" "digits_val w = m div 1000"
    using m by (simp_all add: w_def)
  define g where "g = trim_right_byte CHR ''0'' f"
  obtain n where n: "f = g @ replicate n CHR ''0''" using trim_right_byte_split g_def by blast
  have "list_all is_digit (g @ replicate n CHR ''0'')" "length (g @ replicate n CHR ''0'') = 3"
    using f n by simp_all
  moreover have "g = [] \<or> last g \<noteq> CHR ''0''" unfolding g_def by (rule trim_right_byte_last)
  ultimately have g: "list_all is_digit g" "g = [] \<or> last g \<noteq> CHR ''0''" "length g + n = 3"
    by simp_all
  have "3 - length g = n" using g(3) by simp
  moreover have "digits_val (g @ replicate n CHR ''0'') = m mod 1000" using f(3) n by simp
  ultimately have "digits_val g * 10 ^ (3 - length g) = m mod 1000"
    by (simp add: digits_val_append)
  then have "decimal_milli w g = m" using w by (simp add: decimal_milli_def)
  moreover have "numeric_text m = w @ CHR ''.'' # g @ replicate n CHR ''0''"
    using m n by (simp add: numeric_text_def show_int_def w_def f_def)
  then have "FormatQuantity (numeric_text m) = w @ (if g = [] then [] else CHR ''.'' # g)"
    using FormatQuantity_split w g by simp
  then have "quantity_text (FormatQuantity (numeric_text m)) w g"
    using w g by (auto simp: quantity_text_def Suc_le_eq)
  ultimately show ?thesis by blast
qed

lemma parse_format_quantity:
  "0 < m \<Longrightarrow> m \<le> 999999999999 \<Longrightarrow> parseMilliQuantity (FormatQuantity (numeric_text m)) = Inr m"
  using FormatQuantity_text [of m] parse_quantity_text by fastforce

section \<open>Rounding\<close>

lemma lineTotalFor_iff:
  assumes "0 \<le> milli" "0 \<le> price"
  shows "lineTotalFor milli price = Inr t \<longleftrightarrow> t = pg_round_milli (milli * price) \<and> t < 2 ^ 63"
proof -
  have "0 \<le> milli * price" using assms by simp
  then have "go_quo (milli * price + 500) 1000 = pg_round_milli (milli * price)"
    and "0 \<le> pg_round_milli (milli * price)"
    by (simp_all add: go_quo_nonneg pg_round_milli_def)
  then show ?thesis by (auto simp: lineTotalFor_def Let_def is_int64_def)
qed

lemma pg_round_milli_nearest:
  "0 \<le> x \<Longrightarrow> 1000 * pg_round_milli x - 500 \<le> x \<and> x < 1000 * pg_round_milli x + 500"
proof -
  assume "0 \<le> x"
  then have r: "pg_round_milli x = (x + 500) div 1000" by (simp add: pg_round_milli_def)
  show ?thesis unfolding r by linarith
qed

lemma pg_round_milli_nonneg: "0 \<le> x \<Longrightarrow> 0 \<le> pg_round_milli x"
  by (simp add: pg_round_milli_def)

lemma pg_round_milli_whole: "0 \<le> p \<Longrightarrow> pg_round_milli (1000 * n * p) = n * p" if "0 \<le> n" for n p :: int
proof -
  assume "0 \<le> p"
  with that have "0 \<le> n * p" by simp
  moreover have "(1000 * k + 500) div 1000 = k" for k :: int by simp
  ultimately show ?thesis by (simp add: pg_round_milli_def mult.assoc)
qed

end
