(* ===== verification/Calendar.thy ===== *)
theory Calendar
  imports Schema
begin

text \<open>
  Dates and time zones. The pool sets the session time zone to Asia/Jakarta (internal/repository/connection.go), so
  CURRENT_DATE is the date there; the listing of expenses asks for the days of that zone. A date is a number of days since
  1970-01-01; the civil date is computed as package time does, by cycles of 400, 100, 4 and 1 years, here counted from
  0000-03-01 so that a leap day ends its cycle. A time of package time keeps the offset it was written with.
\<close>

definition day_micros :: int where
  "day_micros = 86400000000"

section \<open>The zone Asia/Jakarta\<close>

text \<open>
  The zone of the IANA time zone database, in microseconds: 7:07:12 ahead of UTC at first, then the instants at which the
  offset changed and the offset from there on: 7:20 (1924), 7:30 (1932), 9:00 (1942), 7:30 (1945), 8:00 (1948), 7:30 (1950),
  and 7:00 since 1963-12-31T16:30Z.
\<close>

definition jakarta_first :: int where
  "jakarta_first = 25632000000"

definition jakarta_changes :: "(time \<times> int) list" where
  "jakarta_changes =
     [(- 1451719200000000, 26400000000), (- 1172906400000000, 27000000000), (- 876641400000000, 32400000000),
      (- 766054800000000, 27000000000), (- 683883000000000, 28800000000), (- 620812800000000, 27000000000),
      (- 189415800000000, 25200000000)]"

text \<open>The offset of a zone at an instant, and the first change after an instant with the offset it ends.\<close>

fun zone_offset :: "int \<Rightarrow> (time \<times> int) list \<Rightarrow> time \<Rightarrow> int" where
  "zone_offset off [] t = off"
| "zone_offset off ((at, after) # rest) t = (if t < at then off else zone_offset after rest t)"

fun next_change :: "int \<Rightarrow> (time \<times> int) list \<Rightarrow> time \<Rightarrow> int \<times> (time \<times> int) option" where
  "next_change off [] t = (off, None)"
| "next_change off ((at, after) # rest) t = (if t < at then (off, Some (at, after)) else next_change after rest t)"

definition jakarta_offset :: "time \<Rightarrow> int" where
  "jakarta_offset = zone_offset jakarta_first jakarta_changes"

text \<open>The date of an instant in a session in Asia/Jakarta; CURRENT_DATE is that of the transaction's time.\<close>

definition jakarta_date :: "time \<Rightarrow> date" where
  "jakarta_date t = (t + jakarta_offset t) div day_micros"

text \<open>
  A wall clock time AT TIME ZONE a zone. PostgreSQL takes the first change of the offset after the day before; a wall
  clock time that the change skips is read with the offset before it, one that comes twice with the offset after it.
\<close>

definition at_zone :: "int \<Rightarrow> (time \<times> int) list \<Rightarrow> int \<Rightarrow> time" where
  "at_zone first changes clock =
     (case next_change first changes (clock - day_micros) of
        (off, None) \<Rightarrow> clock - off
      | (off, Some (at, after)) \<Rightarrow>
          (if clock - off < at \<and> clock - after < at then clock - off
           else if at < clock - off \<and> at \<le> clock - after then clock - after
           else if clock - after < clock - off then clock - off
           else clock - after))"

text \<open>The first instant of a date: date::timestamp AT TIME ZONE 'Asia/Jakarta'.\<close>

definition day_start :: "date \<Rightarrow> time" where
  "day_start z = at_zone jakarta_first jakarta_changes (z * day_micros)"

text \<open>31 December 1963 and the day after, the day of 1948 whose first half hour is skipped, a day of today's rule, and the date
  of the tenth minute of 31 December 1963.\<close>

lemma day_start_examples:
  "day_start (- 2193) = - 189415800000000 - day_micros" "day_start (- 2192) = - 189414000000000"
  "day_start (- 7915) = - 683883000000000" "day_start 0 = - 25200000000"
  "jakarta_date (- 189415800000000 - day_micros + 600000000) = - 2193"
  by (simp_all add: day_start_def at_zone_def jakarta_date_def jakarta_offset_def jakarta_changes_def jakarta_first_def day_micros_def)

lemma jakarta_offset_now: "- 189415800000000 \<le> t \<Longrightarrow> jakarta_offset t = 25200000000"
  by (simp add: jakarta_offset_def jakarta_changes_def)

lemma jakarta_date_nonneg: "0 \<le> t \<Longrightarrow> 0 \<le> jakarta_date t"
  by (simp add: jakarta_date_def jakarta_offset_now day_micros_def)

lemma le_div_days: "k \<le> x div day_micros \<longleftrightarrow> k * day_micros \<le> x"
proof
  have pos: "0 < day_micros" by (simp add: day_micros_def)
  show "k \<le> x div day_micros \<Longrightarrow> k * day_micros \<le> x"
    using pos by (smt (verit) div_mult_mod_eq mult_right_mono pos_mod_sign)
  assume "k * day_micros \<le> x"
  then have "k * day_micros div day_micros \<le> x div day_micros" using pos by (rule zdiv_mono1)
  then show "k \<le> x div day_micros" using pos by simp
qed

text \<open>
  Whether the dates of a zone never go back: no midnight lies inside the hours a change skips or repeats, the offsets are
  within a day and the changes are days apart. Then an instant is in a date or later exactly from the date's first instant on.
\<close>

definition whole_days :: "int \<Rightarrow> time \<Rightarrow> int \<Rightarrow> bool" where
  "whole_days off at after \<longleftrightarrow>
     (at + after - 1) div day_micros \<le> (at + off) div day_micros
     \<and> (at + off - 1) div day_micros \<le> (at + after - 1) div day_micros"

fun smooth :: "int \<Rightarrow> (time \<times> int) list \<Rightarrow> bool" where
  "smooth off [] \<longleftrightarrow> 0 \<le> off \<and> off < day_micros"
| "smooth off ((at, after) # rest) \<longleftrightarrow>
     0 \<le> off \<and> off < day_micros \<and> whole_days off at after \<and> smooth after rest
     \<and> (case rest of [] \<Rightarrow> True | (at', _) # _ \<Rightarrow> at + 3 * day_micros \<le> at')"

lemma smooth_offset: "smooth off changes \<Longrightarrow> 0 \<le> zone_offset off changes t \<and> zone_offset off changes t < day_micros"
  by (induction off changes t rule: zone_offset.induct) simp_all

lemma smooth_first: "smooth off changes \<Longrightarrow> 0 \<le> off \<and> off < day_micros"
  by (cases changes) auto

lemma smooth_at_zone:
  assumes "smooth off changes"
  shows "clock - day_micros < at_zone off changes clock \<and> at_zone off changes clock \<le> clock"
  using assms
proof (induction off changes "clock - day_micros" rule: next_change.induct)
  case (1 off)
  then show ?case by (simp add: at_zone_def)
next
  case (2 off at after rest)
  then show ?case using smooth_first [of after rest] by (auto simp: at_zone_def)
qed

lemma no_midnight_between:
  assumes "whole_days off at after"
  shows "\<not> (at + off < k * day_micros \<and> k * day_micros < at + after)"
    and "\<not> (at + after \<le> k * day_micros \<and> k * day_micros < at + off)"
  using assms le_div_days [of k "at + after - 1"] le_div_days [of k "at + off"] le_div_days [of k "at + off - 1"]
  unfolding whole_days_def by linarith+

text \<open>Around one change; what follows a later change is out of reach.\<close>

lemma at_change:
  assumes "whole_days off at after" and "k * day_micros - day_micros < at" and "0 \<le> off" "off < day_micros"
    and "0 \<le> after" "after < day_micros" and "0 \<le> later" and "later = after \<or> at + 3 * day_micros \<le> t"
  shows "at_zone off ((at, after) # rest) (k * day_micros) \<le> t \<longleftrightarrow> k * day_micros \<le> t + (if t < at then off else later)"
proof -
  define m where "m = k * day_micros"
  have z: "at_zone off ((at, after) # rest) m =
      (if m - off < at \<and> m - after < at then m - off
       else if at < m - off \<and> at \<le> m - after then m - after
       else if m - after < m - off then m - off else m - after)"
    using assms(2) by (simp add: at_zone_def m_def)
  note N = no_midnight_between [OF assms(1), of k, folded m_def]
  have m: "m - day_micros < at" using assms(2) by (simp add: m_def)
  show ?thesis
    unfolding m_def [symmetric] z using N m assms(3-8) by (auto split: if_splits)
qed

lemma at_zone_le:
  assumes "smooth off changes"
  shows "at_zone off changes (k * day_micros) \<le> t \<longleftrightarrow> k * day_micros \<le> t + zone_offset off changes t"
  using assms
proof (induction off changes t rule: zone_offset.induct)
  case (1 off t)
  then show ?case by (auto simp: at_zone_def)
next
  case (2 off at after rest t)
  note S = smooth_first [of after rest]
  show ?case
  proof (cases "k * day_micros - day_micros < at")
    case True
    have "zone_offset after rest t = after \<or> at + 3 * day_micros \<le> t"
      using 2(2) by (cases rest) (auto split: if_splits)
    moreover have "0 \<le> zone_offset after rest t" using smooth_offset [of after rest t] 2(2) by simp
    ultimately show ?thesis
      using at_change [OF _ True, of off after "zone_offset after rest t" t rest] 2(2) S by simp
  next
    case False
    then have z: "at_zone off ((at, after) # rest) (k * day_micros) = at_zone after rest (k * day_micros)"
      by (simp add: at_zone_def)
    show ?thesis
    proof (cases "t < at")
      case True
      have "t < at_zone after rest (k * day_micros)" and "t + off < k * day_micros"
        using smooth_at_zone [of after rest "k * day_micros"] 2(2) True False by auto
      with True show ?thesis by (simp add: z)
    next
      case False
      then show ?thesis using 2 by (simp add: z)
    qed
  qed
qed

lemma jakarta_smooth: "smooth jakarta_first jakarta_changes"
  by (simp add: jakarta_first_def jakarta_changes_def whole_days_def day_micros_def)

lemma day_start_le: "day_start k \<le> t \<longleftrightarrow> k \<le> jakarta_date t"
  by (simp add: day_start_def jakarta_date_def jakarta_offset_def le_div_days at_zone_le [OF jakarta_smooth])

text \<open>The instants of a range of dates.\<close>

lemma day_start_range: "day_start from \<le> t \<and> t < day_start (to + 1) \<longleftrightarrow> from \<le> jakarta_date t \<and> jakarta_date t \<le> to"
  using day_start_le [of "from" t] day_start_le [of "to + 1" t] by linarith

section \<open>The civil calendar\<close>

text \<open>The cycles a day number falls into, its day in the year, and the month from March.\<close>

definition cyc400 :: "date \<Rightarrow> int" where
  "cyc400 z = (z + 719468) div 146097"

definition cyc100 :: "date \<Rightarrow> int" where
  "cyc100 z = min 3 ((z + 719468) mod 146097 div 36524)"

definition in100 :: "date \<Rightarrow> int" where
  "in100 z = (z + 719468) mod 146097 - 36524 * cyc100 z"

definition cyc4 :: "date \<Rightarrow> int" where
  "cyc4 z = in100 z div 1461"

definition in4 :: "date \<Rightarrow> int" where
  "in4 z = in100 z mod 1461"

definition cyc1 :: "date \<Rightarrow> int" where
  "cyc1 z = min 3 (in4 z div 365)"

definition year_day :: "date \<Rightarrow> int" where
  "year_day z = in4 z - 365 * cyc1 z"

definition march_month :: "date \<Rightarrow> int" where
  "march_month z = (5 * year_day z + 2) div 153"

definition civil_day :: "date \<Rightarrow> int" where
  "civil_day z = year_day z - (153 * march_month z + 2) div 5 + 1"

definition civil_month :: "date \<Rightarrow> int" where
  "civil_month z = (if march_month z < 10 then march_month z + 3 else march_month z - 9)"

definition civil_year :: "date \<Rightarrow> int" where
  "civil_year z = 400 * cyc400 z + 100 * cyc100 z + 4 * cyc4 z + cyc1 z
     + (if civil_month z \<le> 2 then 1 else 0)"

text \<open>Time.Format("20060102").\<close>

definition format_date :: "date \<Rightarrow> string" where
  "format_date z = fmt_0d 4 (civil_year z) @ fmt_0d 2 (civil_month z) @ fmt_0d 2 (civil_day z)"

section \<open>Bounds\<close>

lemma cyc100_bounds: "0 \<le> cyc100 z" "cyc100 z \<le> 3"
  by (simp_all add: cyc100_def)

lemma in100_bounds: "0 \<le> in100 z" "in100 z \<le> 36524"
proof -
  have b: "0 \<le> (z + 719468) mod 146097" "(z + 719468) mod 146097 < 146097" by simp_all
  then show "0 \<le> in100 z" "in100 z \<le> 36524"
    unfolding in100_def cyc100_def min_def by (auto split: if_splits)
qed

lemma cyc4_bounds: "0 \<le> cyc4 z" "cyc4 z \<le> 24"
  using in100_bounds [of z] by (simp_all add: cyc4_def)

lemma in4_bounds: "0 \<le> in4 z" "in4 z \<le> 1460"
proof -
  have "in4 z < 1461" by (simp add: in4_def)
  then show "in4 z \<le> 1460" by simp
qed (simp add: in4_def)

lemma cyc1_bounds: "0 \<le> cyc1 z" "cyc1 z \<le> 3"
  using in4_bounds [of z] by (simp_all add: cyc1_def)

lemma year_day_bounds: "0 \<le> year_day z" "year_day z \<le> 365"
  using in4_bounds [of z] unfolding year_day_def cyc1_def min_def by (auto split: if_splits)

lemma march_month_bounds: "0 \<le> march_month z" "march_month z \<le> 11"
  using year_day_bounds [of z] by (simp_all add: march_month_def)

lemma civil_month_bounds: "1 \<le> civil_month z" "civil_month z \<le> 12"
  using march_month_bounds [of z] by (auto simp: civil_month_def)

lemma civil_day_bounds: "1 \<le> civil_day z" "civil_day z \<le> 31"
proof -
  define y where "y = year_day z"
  define q where "q = (5 * y + 2) div 153"
  define r where "r = (153 * q + 2) div 5"
  have "153 * q \<le> 5 * y + 2" "5 * y + 2 \<le> 153 * q + 152" unfolding q_def by linarith+
  moreover have "5 * r \<le> 153 * q + 2" "153 * q + 2 \<le> 5 * r + 4" unfolding r_def by linarith+
  ultimately have "r \<le> y" "y \<le> r + 30" by linarith+
  moreover have "civil_day z = y - r + 1"
    by (simp add: civil_day_def march_month_def y_def q_def r_def)
  ultimately show "1 \<le> civil_day z" "civil_day z \<le> 31" by linarith+
qed

lemma civil_year_bounds: "- 719468 \<le> z \<Longrightarrow> 0 \<le> civil_year z"
proof -
  assume "- 719468 \<le> z"
  then have "0 \<le> cyc400 z" by (simp add: cyc400_def)
  then show ?thesis using cyc100_bounds [of z] cyc4_bounds [of z] cyc1_bounds [of z]
    by (simp add: civil_year_def)
qed

section \<open>A civil date determines its day\<close>

lemma march_month_of_civil:
  "march_month z = (if civil_month z \<le> 2 then civil_month z + 9 else civil_month z - 3)"
  using march_month_bounds [of z] by (auto simp: civil_month_def)

lemma day_decompose:
  "z = 146097 * cyc400 z + 36524 * cyc100 z + 1461 * cyc4 z + 365 * cyc1 z + year_day z - 719468"
proof -
  have "z + 719468 = 146097 * cyc400 z + (z + 719468) mod 146097"
    unfolding cyc400_def by simp
  moreover have "in100 z = 1461 * cyc4 z + in4 z" unfolding cyc4_def in4_def by simp
  ultimately show ?thesis by (simp add: in100_def year_day_def)
qed

lemma cycles_unique:
  fixes a b c d a' b' c' d' :: int
  assumes "400 * a + 100 * b + 4 * c + d = 400 * a' + 100 * b' + 4 * c' + d'"
    and "0 \<le> b" "b \<le> 3" "0 \<le> c" "c \<le> 24" "0 \<le> d" "d \<le> 3"
    and "0 \<le> b'" "b' \<le> 3" "0 \<le> c'" "c' \<le> 24" "0 \<le> d'" "d' \<le> 3"
  shows "a = a' \<and> b = b' \<and> c = c' \<and> d = d'"
proof -
  have "a = a'" using assms by linarith
  moreover from this have "b = b'" using assms by linarith
  moreover from calculation have "c = c'" using assms by linarith
  moreover from calculation have "d = d'" using assms by linarith
  ultimately show ?thesis by simp
qed

lemma civil_inj:
  assumes "civil_year z = civil_year z'" "civil_month z = civil_month z'" "civil_day z = civil_day z'"
  shows "z = z'"
proof -
  have "march_month z = march_month z'" using assms(2) by (simp add: march_month_of_civil)
  with assms(3) have y: "year_day z = year_day z'" by (simp add: civil_day_def)
  have "400 * cyc400 z + 100 * cyc100 z + 4 * cyc4 z + cyc1 z =
      400 * cyc400 z' + 100 * cyc100 z' + 4 * cyc4 z' + cyc1 z'"
    using assms(1,2) by (simp add: civil_year_def)
  then have "cyc400 z = cyc400 z' \<and> cyc100 z = cyc100 z' \<and> cyc4 z = cyc4 z' \<and> cyc1 z = cyc1 z'"
    using cyc100_bounds [of z] cyc4_bounds [of z] cyc1_bounds [of z]
      cyc100_bounds [of z'] cyc4_bounds [of z'] cyc1_bounds [of z']
    by (intro cycles_unique) simp_all
  with y show ?thesis using day_decompose [of z] day_decompose [of z'] by simp
qed

lemma format_date_digits: "- 719468 \<le> z \<Longrightarrow> list_all is_digit (format_date z)"
  using civil_year_bounds [of z] civil_month_bounds [of z] civil_day_bounds [of z]
  by (simp add: format_date_def fmt_0d_digits)

lemma format_date_inj:
  assumes "- 719468 \<le> z" "- 719468 \<le> z'" "format_date z = format_date z'"
  shows "z = z'"
proof -
  have len: "length (fmt_0d 2 (civil_month x)) = 2" "length (fmt_0d 2 (civil_day x)) = 2" for x
    using civil_month_bounds [of x] civil_day_bounds [of x] by (simp_all add: length_fmt_0d)
  have md: "fmt_0d 4 (civil_year z) = fmt_0d 4 (civil_year z') \<and>
      fmt_0d 2 (civil_month z) @ fmt_0d 2 (civil_day z) =
      fmt_0d 2 (civil_month z') @ fmt_0d 2 (civil_day z')"
    using assms(3) unfolding format_date_def
    by (rule append_eq_append_conv [THEN iffD1, rotated]) (simp add: len)
  then have "fmt_0d 2 (civil_month z) = fmt_0d 2 (civil_month z') \<and>
      fmt_0d 2 (civil_day z) = fmt_0d 2 (civil_day z')"
    by (intro append_eq_append_conv [THEN iffD1]) (simp_all add: len)
  with md have y: "fmt_0d 4 (civil_year z) = fmt_0d 4 (civil_year z')"
    and m: "fmt_0d 2 (civil_month z) = fmt_0d 2 (civil_month z')"
    and d: "fmt_0d 2 (civil_day z) = fmt_0d 2 (civil_day z')" by simp_all
  show ?thesis
  proof (rule civil_inj)
    show "civil_year z = civil_year z'"
      using fmt_0d_inj [OF _ _ y] civil_year_bounds assms by simp
    show "civil_month z = civil_month z'"
      using fmt_0d_inj [OF _ _ m] civil_month_bounds [of z] civil_month_bounds [of z'] by simp
    show "civil_day z = civil_day z'"
      using fmt_0d_inj [OF _ _ d] civil_day_bounds [of z] civil_day_bounds [of z'] by simp
  qed
qed

text \<open>1 January 1970, a leap day, and the last day of a year.\<close>

lemma format_date_examples:
  "format_date 0 = ''19700101''" "format_date 11016 = ''20000229''" "format_date 20818 = ''20261231''"
  by code_simp+

section \<open>Times with an offset\<close>

text \<open>
  A time of package time as it is parsed: the instant and the offset from UTC in seconds. MarshalJSON writes the wall clock
  at that offset and refuses a year that has not four digits and an offset whose hours pass 23.
\<close>

record zoned =
  zt_at :: time
  zt_offset :: int

definition zoned_year :: "zoned \<Rightarrow> int" where
  "zoned_year z = civil_year ((zt_at z + zt_offset z * 1000000) div day_micros)"

definition json_time_ok :: "zoned \<Rightarrow> bool" where
  "json_time_ok z \<longleftrightarrow> 0 \<le> zoned_year z \<and> zoned_year z \<le> 9999 \<and> \<bar>zt_offset z\<bar> < 24 * 3600"

end
