(* ===== verification/Order_Queries.thy ===== *)
theory Order_Queries
  imports Table Quantity Calendar
begin

text \<open>
  The statements of internal/repository/postgresql/orders.sql.go, one definition per query, under
  the query's name. A query returns rows of the schema (the Row struct of sqlc is a part of such a
  row), joined columns beside it; a :one query takes the first row or returns NoRows. Inserts
  and updates check the constraints the migrations put on the table, in the server's order:
  the decoding of parameters, triggers, CHECK constraints, unique indexes, foreign keys. Row locks
  have no effect on data: a transaction runs without interleaving.
\<close>

section \<open>Constraints of the order tables (migrations 000003, 000006, 000012, 000016, 000017)\<close>

definition order_statuses :: "string list" where
  "order_statuses = [''RECEIVED'', ''PROCESSING'', ''READY_FOR_PICKUP'', ''COMPLETED'', ''CANCELLED'']"

definition payment_statuses :: "string list" where
  "payment_statuses = [''UNPAID'', ''PARTIALLY_PAID'', ''PAID'', ''REFUNDED'']"

definition is_blank :: "string option \<Rightarrow> bool" where
  "is_blank s = (case s of None \<Rightarrow> True | Some t \<Rightarrow> btrim t = [])"

definition order_check :: "order_row \<Rightarrow> bool" where
  "order_check r \<longleftrightarrow>
     btrim (o_invoice_number r) \<noteq> [] \<and>
     o_status r \<in> set order_statuses \<and>
     o_payment_status r \<in> set payment_statuses \<and>
     0 \<le> o_total_amount r \<and>
     (case o_due_at r of None \<Rightarrow> True | Some t \<Rightarrow> o_received_at r \<le> t) \<and>
     (o_status r = ''COMPLETED'' \<longleftrightarrow> o_completed_at r \<noteq> None) \<and>
     (if o_status r = ''CANCELLED''
      then o_cancelled_at r \<noteq> None \<and> o_cancelled_by r \<noteq> None
        \<and> \<not> is_blank (o_cancellation_reason r) \<and> o_deleted_at r \<noteq> None
      else o_cancelled_at r = None \<and> o_cancelled_by r = None
        \<and> o_cancellation_reason r = None \<and> o_deleted_at r = None) \<and>
     (case (o_idempotency_key r, o_request_hash r) of
        (None, None) \<Rightarrow> True
      | (Some k, Some h) \<Rightarrow> btrim k \<noteq> [] \<and> length h = 32
      | _ \<Rightarrow> False)"

definition order_text :: "order_row \<Rightarrow> bool" where
  "order_text r \<longleftrightarrow>
     pg_text (o_invoice_number r) \<and> pg_text (o_status r) \<and> pg_text (o_payment_status r) \<and>
     pg_text_opt (o_notes r) \<and> pg_text_opt (o_cancellation_reason r) \<and>
     pg_text_opt (o_idempotency_key r) \<and> pg_text_opt (o_outlet_code_snapshot r)"

definition user_exists :: "db \<Rightarrow> i64 \<Rightarrow> i64 \<Rightarrow> bool" where
  "user_exists d b u = list_ex (\<lambda>x. u_business_id x = b \<and> u_id x = u) (users d)"

definition outlet_exists :: "db \<Rightarrow> i64 \<Rightarrow> i64 \<Rightarrow> bool" where
  "outlet_exists d b i = list_ex (\<lambda>x. out_business_id x = b \<and> out_id x = i) (outlets d)"

definition order_exists :: "db \<Rightarrow> i64 \<Rightarrow> i64 \<Rightarrow> i64 \<Rightarrow> bool" where
  "order_exists d b l i =
     list_ex (\<lambda>x. o_business_id x = b \<and> o_outlet_id x = l \<and> o_id x = i) (orders d)"

definition same_outlet :: "order_row \<Rightarrow> order_row \<Rightarrow> bool" where
  "same_outlet r r' \<longleftrightarrow> o_business_id r = o_business_id r' \<and> o_outlet_id r = o_outlet_id r'"

definition invoice_taken :: "db \<Rightarrow> order_row \<Rightarrow> bool" where
  "invoice_taken d r =
     list_ex (\<lambda>x. same_outlet x r \<and> o_invoice_number x = o_invoice_number r) (orders d)"

definition order_key_taken :: "db \<Rightarrow> order_row \<Rightarrow> bool" where
  "order_key_taken d r =
     list_ex (\<lambda>x. same_outlet x r \<and> o_idempotency_key r \<noteq> None
                \<and> o_idempotency_key x = o_idempotency_key r) (orders d)"

definition insert_order_error :: "db \<Rightarrow> order_row \<Rightarrow> pgerr option" where
  "insert_order_error d r =
     (if \<not> order_text r then Some InvalidText
      else if \<not> list_ex (\<lambda>c. cu_business_id c = o_business_id r \<and> cu_id c = o_customer_id r) (customers d)
        then Some (ForeignKeyViolation ''order customer'')
      else if \<not> order_check r then Some (CheckViolation ''orders'')
      else if invoice_taken d r then Some (UniqueViolation ''orders_business_id_outlet_id_invoice_number_key'')
      else if order_key_taken d r then Some (UniqueViolation ''orders_idempotency_key_uq'')
      else if \<not> outlet_exists d (o_business_id r) (o_outlet_id r)
        then Some (ForeignKeyViolation ''orders_outlet'')
      else if \<not> user_exists d (o_business_id r) (o_created_by r)
        then Some (ForeignKeyViolation ''orders_created_by'')
      else None)"

text \<open>An update never changes the keys of an order, so only the row's own constraints can fail.\<close>

definition update_order_error :: "db \<Rightarrow> order_row \<Rightarrow> pgerr option" where
  "update_order_error d r =
     (if \<not> order_check r then Some (CheckViolation ''orders'')
      else case o_cancelled_by r of
        None \<Rightarrow> None
      | Some u \<Rightarrow> if user_exists d (o_business_id r) u then None
                  else Some (ForeignKeyViolation ''orders_cancelled_by''))"

definition item_check :: "item_row \<Rightarrow> bool" where
  "item_check r \<longleftrightarrow>
     btrim (it_service_name_snapshot r) \<noteq> [] \<and>
     it_service_unit_snapshot r \<in> {''kg'', ''pcs'', ''m'', ''m2''} \<and>
     0 \<le> it_unit_price_amount_snapshot r \<and>
     0 < it_quantity r \<and>
     0 \<le> it_line_total_amount r \<and>
     (it_service_unit_snapshot r = ''pcs'' \<longrightarrow> it_quantity r mod 1000 = 0) \<and>
     it_line_total_amount r = pg_round_milli (it_quantity r * it_unit_price_amount_snapshot r) \<and>
     (case it_perfume_id r of
        None \<Rightarrow> it_perfume_name_snapshot r = None
      | Some _ \<Rightarrow> \<not> is_blank (it_perfume_name_snapshot r))"

definition item_text :: "item_row \<Rightarrow> bool" where
  "item_text r \<longleftrightarrow>
     pg_text (it_service_name_snapshot r) \<and> pg_text (it_service_unit_snapshot r) \<and>
     pg_text_opt (it_perfume_name_snapshot r) \<and> pg_text_opt (it_notes r)"

definition insert_item_error :: "db \<Rightarrow> item_row \<Rightarrow> pgerr option" where
  "insert_item_error d r =
     (if \<not> item_text r then Some InvalidText
      else if it_quantity r \<ge> 10 ^ 12 then Some OutOfRange
      else if \<not> item_check r then Some (CheckViolation ''order_items'')
      else if \<not> order_exists d (it_business_id r) (it_outlet_id r) (it_order_id r)
        then Some (ForeignKeyViolation ''order_items_order'')
      else if \<not> list_ex (\<lambda>s. sv_business_id s = it_business_id r \<and> sv_id s = it_service_id r) (services d)
        then Some (ForeignKeyViolation ''order_items_service'')
      else (case it_perfume_id r of
          None \<Rightarrow> None
        | Some p \<Rightarrow>
            if list_ex (\<lambda>x. pf_business_id x = it_business_id r \<and> pf_id x = p) (perfumes d) then None
            else Some (ForeignKeyViolation ''order_items_perfume'')))"

definition history_check :: "history_row \<Rightarrow> bool" where
  "history_check r \<longleftrightarrow>
     (case h_from_status r of
        None \<Rightarrow> h_to_status r = ''RECEIVED''
      | Some f \<Rightarrow>
          f = ''RECEIVED'' \<and> h_to_status r \<in> {''PROCESSING'', ''CANCELLED''} \<or>
          f = ''PROCESSING'' \<and> h_to_status r \<in> {''READY_FOR_PICKUP'', ''CANCELLED''} \<or>
          f = ''READY_FOR_PICKUP'' \<and> h_to_status r \<in> {''COMPLETED'', ''CANCELLED''})"

definition insert_history_error :: "db \<Rightarrow> history_row \<Rightarrow> pgerr option" where
  "insert_history_error d r =
     (if \<not> (pg_text_opt (h_from_status r) \<and> pg_text (h_to_status r) \<and> pg_text_opt (h_notes r))
        then Some InvalidText
      else if \<not> history_check r then Some (CheckViolation ''order_status_history'')
      else if \<not> order_exists d (h_business_id r) (h_outlet_id r) (h_order_id r)
        then Some (ForeignKeyViolation ''order_status_history_order'')
      else if \<not> user_exists d (h_business_id r) (h_changed_by r)
        then Some (ForeignKeyViolation ''order_status_history_user'')
      else None)"

text \<open>JSONB documents here are always objects, so the jsonb_typeof checks hold by construction.\<close>

definition jval_opt_ok :: "jval option \<Rightarrow> bool" where
  "jval_opt_ok v = (case v of None \<Rightarrow> True | Some j \<Rightarrow> jval_ok j)"

definition insert_audit_error :: "db \<Rightarrow> audit_row \<Rightarrow> pgerr option" where
  "insert_audit_error d r =
     (if \<not> (pg_text (au_action r) \<and> pg_text_opt (au_user_agent r)
           \<and> jval_opt_ok (au_old_values r) \<and> jval_opt_ok (au_new_values r))
        then Some InvalidText
      else if btrim (au_action r) = [] \<or> btrim (au_entity_type r) = []
        then Some (CheckViolation ''audit_logs'')
      else if \<not> list_ex (\<lambda>b. b_id b = au_business_id r) (businesses d)
        then Some (ForeignKeyViolation ''audit_logs_business'')
      else if (case au_outlet_id r of None \<Rightarrow> False | Some l \<Rightarrow> \<not> outlet_exists d (au_business_id r) l)
        then Some (ForeignKeyViolation ''audit_logs_outlet'')
      else if (case au_actor_user_id r of None \<Rightarrow> False | Some u \<Rightarrow> \<not> user_exists d (au_business_id r) u)
        then Some (ForeignKeyViolation ''audit_logs_user'')
      else None)"

section \<open>Reading the master data\<close>

definition LockOrderIdempotency :: "string \<Rightarrow> (pgerr, unit) m" where
  "LockOrderIdempotency lockKey = with_text (pg_text lockKey) lock_only"

definition GetActiveOrderOutlet :: "i64 \<Rightarrow> i64 \<Rightarrow> (pgerr, outlet_row) m" where
  "GetActiveOrderOutlet businessID outletID = only_one (select (\<lambda>n d.
     filter (\<lambda>r. out_business_id r = businessID \<and> out_id r = outletID \<and> out_is_active r) (outlets d)))"

definition GetActiveStaffOrderOutlet :: "i64 \<Rightarrow> i64 \<Rightarrow> i64 \<Rightarrow> (pgerr, i64) m" where
  "GetActiveStaffOrderOutlet businessID userID outletID = only_one (select (\<lambda>n d.
     [uo_user_id u. u \<leftarrow> user_outlets d, r \<leftarrow> outlets d,
        out_business_id r = uo_business_id u \<and> out_id r = uo_outlet_id u \<and>
        uo_business_id u = businessID \<and> uo_user_id u = userID \<and> uo_outlet_id u = outletID \<and>
        out_is_active r]))"

definition GetActiveOrderCustomer :: "i64 \<Rightarrow> i64 \<Rightarrow> (pgerr, customer_row) m" where
  "GetActiveOrderCustomer businessID customerID = only_one (select (\<lambda>n d.
     filter (\<lambda>r. cu_business_id r = businessID \<and> cu_id r = customerID \<and> cu_deleted_at r = None)
       (customers d)))"

definition GetActiveOrderService :: "i64 \<Rightarrow> i64 \<Rightarrow> (pgerr, service_row) m" where
  "GetActiveOrderService businessID serviceID = only_one (select (\<lambda>n d.
     filter (\<lambda>r. sv_business_id r = businessID \<and> sv_id r = serviceID \<and>
               sv_is_active r \<and> sv_deleted_at r = None) (services d)))"

definition GetActiveOrderPerfume :: "i64 \<Rightarrow> i64 \<Rightarrow> (pgerr, perfume_row) m" where
  "GetActiveOrderPerfume businessID perfumeID = only_one (select (\<lambda>n d.
     filter (\<lambda>r. pf_business_id r = businessID \<and> pf_id r = perfumeID \<and>
               pf_is_active r \<and> pf_deleted_at r = None) (perfumes d)))"

text \<open>now() is the transaction's timestamp; CURRENT_DATE its date in the session's time zone.\<close>

definition GetOrderTime :: "(pgerr, time \<times> date) m" where
  "GetOrderTime = only_one (select (\<lambda>n d. [(n, jakarta_date n)]))"

section \<open>Creating an order\<close>

definition GetOrderByIdempotencyKey :: "i64 \<Rightarrow> i64 \<Rightarrow> string \<Rightarrow> (pgerr, order_row \<times> string) m" where
  "GetOrderByIdempotencyKey businessID outletID key = with_text (pg_text key) (only_one (select (\<lambda>n d.
     [(r, out_timezone x). r \<leftarrow> orders d, x \<leftarrow> outlets d,
        out_business_id x = o_business_id r \<and> out_id x = o_outlet_id r \<and>
        o_business_id r = businessID \<and> o_outlet_id r = outletID \<and>
        o_idempotency_key r = Some key])))"

text \<open>
  The upsert of the counter of one outlet and day: the first number of the day is 1, and
  next_number is what the following order gets.
\<close>

definition counter_is :: "i64 \<Rightarrow> i64 \<Rightarrow> date \<Rightarrow> counter_row \<Rightarrow> bool" where
  "counter_is b l day r \<longleftrightarrow>
     ic_business_id r = b \<and> ic_outlet_id r = l \<and> ic_counter_date r = day"

definition AllocateInvoiceNumber :: "i64 \<Rightarrow> i64 \<Rightarrow> date \<Rightarrow> (pgerr, date \<times> i64) m" where
  "AllocateInvoiceNumber businessID outletID day = stmt (\<lambda>w.
     let cs = invoice_counters (data w); hit = counter_is businessID outletID day
     in case find hit cs of
          None \<Rightarrow>
            if outlet_exists (data w) businessID outletID
            then (Inr (day, 1), w\<lparr>data := (data w)\<lparr>invoice_counters :=
                    cs @ [\<lparr>ic_business_id = businessID, ic_outlet_id = outletID,
                            ic_counter_date = day, ic_next_number = 2, ic_updated_at = now w\<rparr>]\<rparr>\<rparr>)
            else (Inl (ForeignKeyViolation ''invoice_counters_outlet''), w)
        | Some c \<Rightarrow>
            if is_int64 (ic_next_number c + 1)
            then (Inr (day, ic_next_number c), w\<lparr>data := (data w)\<lparr>invoice_counters :=
                    map (\<lambda>r. if hit r then r\<lparr>ic_next_number := ic_next_number c + 1, ic_updated_at := now w\<rparr> else r) cs\<rparr>\<rparr>)
            else (Inl OutOfRange, w))"

definition insert_order :: "(int \<Rightarrow> time \<Rightarrow> db \<Rightarrow> order_row) \<Rightarrow> (pgerr, order_row) m" where
  "insert_order = insert_serial TOrders orders (\<lambda>rs d. d\<lparr>orders := rs\<rparr>) insert_order_error"

record CreateOrderParams =
  cop_BusinessID :: i64
  cop_OutletID :: i64
  cop_OutletCodeSnapshot :: "string option"
  cop_CustomerID :: i64
  cop_InvoiceNumber :: string
  cop_TotalAmount :: i64
  cop_Notes :: "string option"
  cop_ReceivedAt :: time
  cop_DueAt :: "time option"
  cop_CreatedBy :: i64
  cop_IdempotencyKey :: "string option"
  cop_RequestHash :: "string option"

text \<open>
  The columns the INSERT does not name take their defaults; the trigger of migration 000016 copies
  the customer's name and phone into the row (insert_order_error refuses the row without one).
\<close>

definition customer_of :: "db \<Rightarrow> i64 \<Rightarrow> i64 \<Rightarrow> customer_row option" where
  "customer_of d b c = find (\<lambda>r. cu_business_id r = b \<and> cu_id r = c) (customers d)"

definition CreateOrder :: "CreateOrderParams \<Rightarrow> (pgerr, order_row) m" where
  "CreateOrder arg = insert_order (\<lambda>i n d.
     let c = customer_of d (cop_BusinessID arg) (cop_CustomerID arg) in
     \<lparr>o_id = i, o_business_id = cop_BusinessID arg, o_outlet_id = cop_OutletID arg,
      o_customer_id = cop_CustomerID arg, o_invoice_number = cop_InvoiceNumber arg,
      o_status = ''RECEIVED'', o_payment_status = ''UNPAID'', o_total_amount = cop_TotalAmount arg,
      o_notes = cop_Notes arg, o_received_at = cop_ReceivedAt arg, o_due_at = cop_DueAt arg,
      o_completed_at = None, o_cancelled_at = None, o_cancelled_by = None,
      o_cancellation_reason = None, o_deleted_at = None, o_created_by = cop_CreatedBy arg,
      o_created_at = n, o_updated_at = n, o_idempotency_key = cop_IdempotencyKey arg,
      o_request_hash = cop_RequestHash arg,
      o_customer_name_snapshot = (case c of None \<Rightarrow> [] | Some r \<Rightarrow> cu_name r),
      o_customer_phone_snapshot = (case c of None \<Rightarrow> None | Some r \<Rightarrow> cu_phone r),
      o_outlet_code_snapshot = cop_OutletCodeSnapshot arg\<rparr>)"

record CreateOrderItemParams =
  coi_BusinessID :: i64
  coi_OutletID :: i64
  coi_OrderID :: i64
  coi_ServiceID :: i64
  coi_PerfumeID :: "i64 option"
  coi_ServiceNameSnapshot :: string
  coi_ServiceUnitSnapshot :: string
  coi_UnitPriceAmountSnapshot :: i64
  coi_PerfumeNameSnapshot :: "string option"
  coi_Quantity :: int
  coi_LineTotalAmount :: i64
  coi_Notes :: "string option"

definition CreateOrderItem :: "CreateOrderItemParams \<Rightarrow> (pgerr, item_row) m" where
  "CreateOrderItem arg =
     insert_serial TItems order_items (\<lambda>rs d. d\<lparr>order_items := rs\<rparr>) insert_item_error (\<lambda>i n d.
       \<lparr>it_id = i, it_business_id = coi_BusinessID arg, it_outlet_id = coi_OutletID arg,
        it_order_id = coi_OrderID arg, it_service_id = coi_ServiceID arg,
        it_perfume_id = coi_PerfumeID arg, it_service_name_snapshot = coi_ServiceNameSnapshot arg,
        it_service_unit_snapshot = coi_ServiceUnitSnapshot arg,
        it_unit_price_amount_snapshot = coi_UnitPriceAmountSnapshot arg,
        it_perfume_name_snapshot = coi_PerfumeNameSnapshot arg, it_quantity = coi_Quantity arg,
        it_line_total_amount = coi_LineTotalAmount arg, it_notes = coi_Notes arg, it_created_at = n\<rparr>)"

definition insert_history :: "(int \<Rightarrow> time \<Rightarrow> db \<Rightarrow> history_row) \<Rightarrow> (pgerr, history_row) m" where
  "insert_history = insert_serial THistory order_status_history
     (\<lambda>rs d. d\<lparr>order_status_history := rs\<rparr>) insert_history_error"

definition InsertOrderStatusHistory ::
  "i64 \<Rightarrow> i64 \<Rightarrow> i64 \<Rightarrow> string option \<Rightarrow> string \<Rightarrow> i64 \<Rightarrow> string option \<Rightarrow> (pgerr, history_row) m" where
  "InsertOrderStatusHistory businessID outletID orderID fromStatus toStatus changedBy notes =
     insert_history (\<lambda>i n d.
       \<lparr>h_id = i, h_business_id = businessID, h_outlet_id = outletID, h_order_id = orderID,
        h_from_status = fromStatus, h_to_status = toStatus, h_changed_by = changedBy,
        h_notes = notes, h_changed_at = n\<rparr>)"

definition CreateInitialOrderStatus :: "i64 \<Rightarrow> i64 \<Rightarrow> i64 \<Rightarrow> i64 \<Rightarrow> (pgerr, history_row) m" where
  "CreateInitialOrderStatus businessID outletID orderID changedBy =
     insert_history (\<lambda>i n d.
       \<lparr>h_id = i, h_business_id = businessID, h_outlet_id = outletID, h_order_id = orderID,
        h_from_status = None, h_to_status = ''RECEIVED'', h_changed_by = changedBy,
        h_notes = None, h_changed_at = n\<rparr>)"

definition insert_audit :: "(int \<Rightarrow> time \<Rightarrow> db \<Rightarrow> audit_row) \<Rightarrow> (pgerr, audit_row) m" where
  "insert_audit = insert_serial TAudit audit_logs (\<lambda>rs d. d\<lparr>audit_logs := rs\<rparr>) insert_audit_error"

definition InsertOrderAuditLog ::
  "i64 \<Rightarrow> i64 option \<Rightarrow> i64 option \<Rightarrow> i64 option \<Rightarrow> jval \<Rightarrow> string option \<Rightarrow> string option \<Rightarrow>
   (pgerr, audit_row) m" where
  "InsertOrderAuditLog businessID outletID actorUserID orderID newValues ipAddress userAgent =
     insert_audit (\<lambda>i n d.
       \<lparr>au_id = i, au_business_id = businessID, au_outlet_id = outletID,
        au_actor_user_id = actorUserID, au_action = ''ORDER_CREATED'', au_entity_type = ''order'',
        au_entity_id = orderID, au_old_values = None, au_new_values = Some newValues,
        au_ip_address = ipAddress, au_user_agent = userAgent, au_occurred_at = n,
        au_actor_platform_admin_id = None, au_support_session_id = None, au_platform_audit_id = None\<rparr>)"

section \<open>The life of an order\<close>

definition InsertOrderLifecycleAuditLog ::
  "i64 \<Rightarrow> i64 option \<Rightarrow> i64 option \<Rightarrow> string \<Rightarrow> i64 option \<Rightarrow> jval \<Rightarrow> jval \<Rightarrow> string option \<Rightarrow>
   string option \<Rightarrow> (pgerr, audit_row) m" where
  "InsertOrderLifecycleAuditLog businessID outletID actorUserID action orderID oldValues newValues
     ipAddress userAgent =
     insert_audit (\<lambda>i n d.
       \<lparr>au_id = i, au_business_id = businessID, au_outlet_id = outletID,
        au_actor_user_id = actorUserID, au_action = action, au_entity_type = ''order'',
        au_entity_id = orderID, au_old_values = Some oldValues, au_new_values = Some newValues,
        au_ip_address = ipAddress, au_user_agent = userAgent, au_occurred_at = n,
        au_actor_platform_admin_id = None, au_support_session_id = None, au_platform_audit_id = None\<rparr>)"

definition GetOrder :: "i64 \<Rightarrow> i64 \<Rightarrow> bool \<Rightarrow> i64 list \<Rightarrow> (pgerr, order_row \<times> string) m" where
  "GetOrder businessID orderID isAdmin outletIds = only_one (select (\<lambda>n d.
     [(r, out_timezone x). r \<leftarrow> orders d, x \<leftarrow> outlets d,
        out_business_id x = o_business_id r \<and> out_id x = o_outlet_id r \<and>
        o_business_id r = businessID \<and> o_id r = orderID \<and>
        (isAdmin \<or> o_outlet_id r \<in> set outletIds)]))"

text \<open>The role the account must have now: a token of a demoted administrator locks nothing.\<close>

definition role_of :: "bool \<Rightarrow> string" where
  "role_of isAdmin = (if isAdmin then ''ADMIN'' else ''LAUNDRY_STAFF'')"

definition assigned :: "db \<Rightarrow> i64 \<Rightarrow> i64 \<Rightarrow> i64 \<Rightarrow> bool" where
  "assigned d b u l =
     list_ex (\<lambda>x. uo_business_id x = b \<and> uo_user_id x = u \<and> uo_outlet_id x = l) (user_outlets d)"

definition GetOrderForUpdate :: "i64 \<Rightarrow> i64 \<Rightarrow> bool \<Rightarrow> i64 \<Rightarrow> (pgerr, order_row) m" where
  "GetOrderForUpdate businessID orderID isAdmin userID = only_one (select (\<lambda>n d.
     [r. r \<leftarrow> orders d, x \<leftarrow> outlets d, u \<leftarrow> users d,
        out_business_id x = o_business_id r \<and> out_id x = o_outlet_id r \<and> out_is_active x \<and>
        u_business_id u = o_business_id r \<and> u_id u = userID \<and> u_is_active u \<and>
        u_role u = role_of isAdmin \<and>
        o_business_id r = businessID \<and> o_id r = orderID \<and>
        (isAdmin \<or> assigned d (o_business_id r) userID (o_outlet_id r))]))"

definition LockCurrentOrderOutletAssignment :: "i64 \<Rightarrow> i64 \<Rightarrow> i64 \<Rightarrow> (pgerr, i64) m" where
  "LockCurrentOrderOutletAssignment businessID userID outletID = only_one (select (\<lambda>n d.
     [uo_user_id x. x \<leftarrow> user_outlets d,
        uo_business_id x = businessID \<and> uo_user_id x = userID \<and> uo_outlet_id x = outletID]))"

definition update_orders ::
  "(order_row \<Rightarrow> bool) \<Rightarrow> (time \<Rightarrow> order_row \<Rightarrow> order_row) \<Rightarrow> (pgerr, order_row list) m" where
  "update_orders = update_rows orders (\<lambda>rs d. d\<lparr>orders := rs\<rparr>) update_order_error"

definition order_is :: "i64 \<Rightarrow> i64 \<Rightarrow> order_row \<Rightarrow> bool" where
  "order_is b i r \<longleftrightarrow> o_business_id r = b \<and> o_id r = i"

definition TransitionOrderStatus :: "i64 \<Rightarrow> i64 \<Rightarrow> string \<Rightarrow> (pgerr, order_row) m" where
  "TransitionOrderStatus businessID orderID toStatus = with_text (pg_text toStatus)
     (only_one (update_orders (order_is businessID orderID)
       (\<lambda>n r. r\<lparr>o_status := toStatus,
                o_completed_at := (if toStatus = ''COMPLETED'' then Some n else None),
                o_updated_at := n\<rparr>)))"

definition CancelOrder :: "i64 \<Rightarrow> i64 \<Rightarrow> i64 \<Rightarrow> string \<Rightarrow> (pgerr, order_row) m" where
  "CancelOrder businessID orderID actorUserID reason = with_text (pg_text reason)
     (only_one (update_orders (order_is businessID orderID)
       (\<lambda>n r. r\<lparr>o_status := ''CANCELLED'', o_cancelled_at := Some n, o_cancelled_by := Some actorUserID,
                o_cancellation_reason := Some reason, o_deleted_at := Some n, o_updated_at := n\<rparr>)))"

section \<open>Lists\<close>

text \<open>ORDER BY changed_at, id: a stable sort on the last key first.\<close>

definition ListOrderStatusHistory :: "i64 \<Rightarrow> i64 \<Rightarrow> i64 \<Rightarrow> (pgerr, (history_row \<times> string) list) m" where
  "ListOrderStatusHistory businessID outletID orderID = select (\<lambda>n d.
     sort_key (\<lambda>(h, _). h_changed_at h) (sort_key (\<lambda>(h, _). h_id h)
       [(h, u_full_name u). h \<leftarrow> order_status_history d, u \<leftarrow> users d,
          u_business_id u = h_business_id h \<and> u_id u = h_changed_by h \<and>
          h_business_id h = businessID \<and> h_outlet_id h = outletID \<and> h_order_id h = orderID]))"

definition order_matches ::
  "i64 \<Rightarrow> bool \<Rightarrow> i64 list \<Rightarrow> i64 option \<Rightarrow> string option \<Rightarrow> order_row \<Rightarrow> bool" where
  "order_matches businessID isAdmin outletIds outletID status r \<longleftrightarrow>
     o_business_id r = businessID \<and>
     (isAdmin \<or> o_outlet_id r \<in> set outletIds) \<and>
     (case outletID of None \<Rightarrow> True | Some l \<Rightarrow> o_outlet_id r = l) \<and>
     (case status of None \<Rightarrow> True | Some s \<Rightarrow> o_status r = s)"

text \<open>LIMIT and OFFSET: a negative one is an error.\<close>

definition limit_offset :: "i32 \<Rightarrow> i32 \<Rightarrow> (pgerr, 'a list) m \<Rightarrow> (pgerr, 'a list) m" where
  "limit_offset lim off p = (if lim < 0 \<or> off < 0 then stmt (fail InvalidLimit)
     else tbind p (\<lambda>rs. ret (take (nat lim) (drop (nat off) rs))))"

definition ListOrders ::
  "i64 \<Rightarrow> bool \<Rightarrow> i64 list \<Rightarrow> i64 option \<Rightarrow> string option \<Rightarrow> i32 \<Rightarrow> i32 \<Rightarrow>
   (pgerr, (order_row \<times> string) list) m" where
  "ListOrders businessID isAdmin outletIds outletID status pageOffset pageLimit =
     with_text (pg_text_opt status) (limit_offset pageLimit pageOffset (select (\<lambda>n d.
       sort_key (\<lambda>(r, _). - o_created_at r) (sort_key (\<lambda>(r, _). - o_id r)
         [(r, out_timezone x). r \<leftarrow> orders d, x \<leftarrow> outlets d,
            out_business_id x = o_business_id r \<and> out_id x = o_outlet_id r \<and>
            order_matches businessID isAdmin outletIds outletID status r]))))"

definition CountOrders ::
  "i64 \<Rightarrow> bool \<Rightarrow> i64 list \<Rightarrow> i64 option \<Rightarrow> string option \<Rightarrow> (pgerr, i64) m" where
  "CountOrders businessID isAdmin outletIds outletID status =
     with_text (pg_text_opt status) (only_one (select (\<lambda>n d.
       [int (length (filter (order_matches businessID isAdmin outletIds outletID status) (orders d)))])))"

definition ListOrderItems :: "i64 \<Rightarrow> i64 \<Rightarrow> i64 \<Rightarrow> (pgerr, item_row list) m" where
  "ListOrderItems businessID outletID orderID = select (\<lambda>n d.
     sort_key it_id (filter (\<lambda>r. it_business_id r = businessID \<and> it_outlet_id r = outletID
                               \<and> it_order_id r = orderID) (order_items d)))"

section \<open>What the statements leave alone\<close>

lemma reads_limit_offset [reads_intro]: "reads p \<Longrightarrow> reads (limit_offset lim off p)"
  unfolding limit_offset_def by (auto intro!: reads_intro)

lemma order_queries_read [reads_intro]:
  "reads (LockOrderIdempotency k)" "reads (GetActiveOrderOutlet b l)"
  "reads (GetActiveStaffOrderOutlet b u l)" "reads (GetActiveOrderCustomer b c)"
  "reads (GetActiveOrderService b s)" "reads (GetActiveOrderPerfume b p)" "reads GetOrderTime"
  "reads (GetOrderByIdempotencyKey b l k)" "reads (GetOrder b i ad ls)"
  "reads (GetOrderForUpdate b i ad u)" "reads (LockCurrentOrderOutletAssignment b u l)"
  "reads (ListOrderStatusHistory b l i)" "reads (ListOrders b ad ls lo st off lim)"
  "reads (CountOrders b ad ls lo st)" "reads (ListOrderItems b l i)"
  unfolding LockOrderIdempotency_def GetActiveOrderOutlet_def GetActiveStaffOrderOutlet_def
    GetActiveOrderCustomer_def GetActiveOrderService_def GetActiveOrderPerfume_def GetOrderTime_def
    GetOrderByIdempotencyKey_def GetOrder_def GetOrderForUpdate_def
    LockCurrentOrderOutletAssignment_def ListOrderStatusHistory_def ListOrders_def CountOrders_def
    ListOrderItems_def
  by (intro reads_intro)+

lemma grows_AllocateInvoiceNumber [grows_intro]: "grows (AllocateInvoiceNumber b l day)"
  unfolding AllocateInvoiceNumber_def
  by (rule grows_stmt) (auto intro!: growsI simp: Let_def split: option.splits if_splits)

lemma order_writes_grow [grows_intro]:
  "grows (CreateOrder arg)" "grows (CreateOrderItem ia)"
  "grows (InsertOrderStatusHistory b l i f t u n)" "grows (CreateInitialOrderStatus b l i u)"
  "grows (InsertOrderAuditLog b lo uo io nv ip ua)"
  "grows (InsertOrderLifecycleAuditLog b lo uo act io ov nv ip ua)"
  "grows (TransitionOrderStatus b i t)" "grows (CancelOrder b i u rsn)"
  unfolding CreateOrder_def insert_order_def CreateOrderItem_def InsertOrderStatusHistory_def
    CreateInitialOrderStatus_def insert_history_def InsertOrderAuditLog_def
    InsertOrderLifecycleAuditLog_def insert_audit_def TransitionOrderStatus_def CancelOrder_def
    update_orders_def
  by (intro grows_intro)+

lemmas order_queries_grow [grows_intro] = order_queries_read [THEN grows_reads]

end
