(* ===== verification/Orders.thy ===== *)
theory Orders
  imports Order_Queries
begin

text \<open>
  The order catalog of internal/service/orders.go: creation with idempotent replay, the life cycle
  of an order, its history and the lists. Create is split where its body changes purpose (guards,
  checks under the lock, replay, pricing of the lines, writes); OrderCatalog_Create composes the
  parts in the order of the source.
\<close>

section \<open>Inputs and results\<close>

record OrderItemInput =
  in_ServiceID :: i64
  in_Quantity :: string
  in_Notes :: "string option"

record CreateOrderInput =
  ci_OutletID :: i64
  ci_CustomerID :: i64
  ci_PerfumeID :: "i64 option"
  ci_DueAt :: "zoned option"
  ci_Notes :: "string option"
  ci_Items :: "OrderItemInput list"
  ci_IdempotencyKey :: string
  ci_RequestHash :: string

record OrderItem =
  oi_ID :: i64
  oi_ServiceID :: i64
  oi_PerfumeID :: "i64 option"
  oi_ServiceNameSnapshot :: string
  oi_ServiceUnitSnapshot :: string
  oi_UnitPriceAmountSnapshot :: i64
  oi_PerfumeNameSnapshot :: "string option"
  oi_Quantity :: string
  oi_LineTotalAmount :: i64
  oi_Notes :: "string option"

record Order =
  od_ID :: i64
  od_BusinessID :: i64
  od_OutletTimezone :: string
  od_OutletID :: i64
  od_CustomerID :: i64
  od_InvoiceNumber :: string
  od_Status :: string
  od_PaymentStatus :: string
  od_TotalAmount :: i64
  od_Notes :: "string option"
  od_ReceivedAt :: time
  od_DueAt :: "time option"
  od_CreatedBy :: i64
  od_CreatedAt :: time
  od_UpdatedAt :: time
  od_Items :: "OrderItem list"

record OrderSummary =
  os_ID :: i64
  os_BusinessID :: i64
  os_OutletTimezone :: string
  os_OutletID :: i64
  os_CustomerID :: i64
  os_InvoiceNumber :: string
  os_Status :: string
  os_PaymentStatus :: string
  os_TotalAmount :: i64
  os_Notes :: "string option"
  os_ReceivedAt :: time
  os_DueAt :: "time option"
  os_CreatedBy :: i64
  os_CreatedAt :: time
  os_UpdatedAt :: time

record OrderCreationResult =
  ocr_Order :: Order
  ocr_Replayed :: bool

record OrderLifecycleResult =
  olr_OrderID :: i64
  olr_Status :: string
  olr_PaymentStatus :: string
  olr_UpdatedAt :: time
  olr_CompletedAt :: "time option"
  olr_CancelledAt :: "time option"
  olr_CancellationReason :: "string option"

record OrderStatusHistoryEntry =
  she_ID :: i64
  she_FromStatus :: "string option"
  she_ToStatus :: string
  she_ChangedBy :: i64
  she_ChangedByName :: string
  she_Notes :: "string option"
  she_ChangedAt :: time

record OrderFilter =
  of_OutletID :: "i64 option"
  of_Status :: "string option"
  of_PageOffset :: i32
  of_PageLimit :: i32

section \<open>Rows to results\<close>

definition order_item_from :: "item_row \<Rightarrow> OrderItem" where
  "order_item_from item =
     \<lparr>oi_ID = it_id item, oi_ServiceID = it_service_id item, oi_PerfumeID = it_perfume_id item,
      oi_ServiceNameSnapshot = it_service_name_snapshot item,
      oi_ServiceUnitSnapshot = it_service_unit_snapshot item,
      oi_UnitPriceAmountSnapshot = it_unit_price_amount_snapshot item,
      oi_PerfumeNameSnapshot = it_perfume_name_snapshot item,
      oi_Quantity = FormatQuantity (numeric_text (it_quantity item)),
      oi_LineTotalAmount = it_line_total_amount item, oi_Notes = it_notes item\<rparr>"

definition order_from :: "order_row \<Rightarrow> string \<Rightarrow> item_row list \<Rightarrow> Order" where
  "order_from r timezone items =
     \<lparr>od_ID = o_id r, od_BusinessID = o_business_id r, od_OutletTimezone = timezone,
      od_OutletID = o_outlet_id r, od_CustomerID = o_customer_id r,
      od_InvoiceNumber = o_invoice_number r, od_Status = o_status r,
      od_PaymentStatus = o_payment_status r, od_TotalAmount = o_total_amount r,
      od_Notes = o_notes r, od_ReceivedAt = o_received_at r, od_DueAt = o_due_at r,
      od_CreatedBy = o_created_by r, od_CreatedAt = o_created_at r, od_UpdatedAt = o_updated_at r,
      od_Items = map order_item_from items\<rparr>"

definition loadOrder :: "order_row \<Rightarrow> string \<Rightarrow> (svc_error, Order) m" where
  "loadOrder r outletTimezone =
     tbind (exec (ListOrderItems (o_business_id r) (o_outlet_id r) (o_id r))) (\<lambda>items.
     ret (order_from r outletTimezone items))"

definition orderSummaryFrom :: "order_row \<Rightarrow> string \<Rightarrow> OrderSummary" where
  "orderSummaryFrom r timezone =
     \<lparr>os_ID = o_id r, os_BusinessID = o_business_id r, os_OutletTimezone = timezone,
      os_OutletID = o_outlet_id r, os_CustomerID = o_customer_id r,
      os_InvoiceNumber = o_invoice_number r, os_Status = o_status r,
      os_PaymentStatus = o_payment_status r, os_TotalAmount = o_total_amount r,
      os_Notes = o_notes r, os_ReceivedAt = o_received_at r, os_DueAt = o_due_at r,
      os_CreatedBy = o_created_by r, os_CreatedAt = o_created_at r, os_UpdatedAt = o_updated_at r\<rparr>"

text \<open>JSON values of nullable things: nullableInt, perfumeSnapshotString and pointers.\<close>

definition nullableInt :: "i64 option \<Rightarrow> jval" where
  "nullableInt v = (case v of None \<Rightarrow> JNull | Some i \<Rightarrow> JInt i)"

definition nullable_str :: "string option \<Rightarrow> jval" where
  "nullable_str v = (case v of None \<Rightarrow> JNull | Some s \<Rightarrow> JStr s)"

definition nullable_time :: "time option \<Rightarrow> jval" where
  "nullable_time v = (case v of None \<Rightarrow> JNull | Some t \<Rightarrow> JTime t)"

section \<open>Create\<close>

definition Create_guard :: "actor \<Rightarrow> CreateOrderInput \<Rightarrow> svc_error option" where
  "Create_guard a input =
     (if ci_OutletID input < 1 \<or> ci_CustomerID input < 1 \<or> ci_Items input = []
         \<or> ci_IdempotencyKey input = [] \<or> length (ci_RequestHash input) \<noteq> 32
        then Some ErrInvalidOrder
      else if a_business_id a < 1 \<or> a_user_id a < 1 then Some ErrInvalidOrder
      else if \<not> is_admin a \<and> \<not> containsOutlet (a_outlet_ids a) (ci_OutletID input)
        then Some ErrOrderOutletForbidden
      else if list_ex (\<lambda>item. in_ServiceID item < 1) (ci_Items input) then Some ErrInvalidOrder
      else if (case ci_PerfumeID input of None \<Rightarrow> False | Some p \<Rightarrow> p < 1) then Some ErrInvalidOrder
      else None)"

definition order_lock_key :: "actor \<Rightarrow> CreateOrderInput \<Rightarrow> string" where
  "order_lock_key a input =
     show_int (a_business_id a) @ '':'' @ show_int (ci_OutletID input) @ '':'' @ ci_IdempotencyKey input"

text \<open>The lock, the outlet, and the assignment of an actor who is not an administrator.\<close>

definition Create_outlet :: "actor \<Rightarrow> CreateOrderInput \<Rightarrow> (svc_error, outlet_row) m" where
  "Create_outlet a input =
     tbind (exec (LockOrderIdempotency (order_lock_key a input))) (\<lambda>_.
     tbind (on_err (no_rows ErrOrderNotFound)
              (GetActiveOrderOutlet (a_business_id a) (ci_OutletID input))) (\<lambda>outlet.
     if is_admin a then ret outlet
     else tbind (on_err (no_rows ErrOrderOutletForbidden)
                   (GetActiveStaffOrderOutlet (a_business_id a) (a_user_id a) (ci_OutletID input)))
            (\<lambda>_. ret outlet)))"

definition Create_replay :: "CreateOrderInput \<Rightarrow> order_row \<times> string \<Rightarrow> (svc_error, OrderCreationResult) m" where
  "Create_replay input existing =
     (case existing of (r, timezone) \<Rightarrow>
        if o_request_hash r \<noteq> Some (ci_RequestHash input) then fail ErrOrderIdempotencyConflict
        else tbind (loadOrder r timezone) (\<lambda>order. ret \<lparr>ocr_Order = order, ocr_Replayed = True\<rparr>))"

definition Create_perfume :: "actor \<Rightarrow> CreateOrderInput \<Rightarrow> (svc_error, i64 option \<times> string option) m" where
  "Create_perfume a input =
     (case ci_PerfumeID input of
        None \<Rightarrow> ret (None, None)
      | Some p \<Rightarrow>
          tbind (on_err (no_rows ErrOrderPerfumeNotFound) (GetActiveOrderPerfume (a_business_id a) p))
            (\<lambda>perfume. ret (Some (pf_id perfume), Some (pf_name perfume))))"

record calculatedLine =
  cl_input :: OrderItemInput
  cl_serviceName :: string
  cl_unit :: string
  cl_price :: i64
  cl_milli :: i64
  cl_lineTotal :: i64

definition price_line :: "actor \<Rightarrow> OrderItemInput \<Rightarrow> (svc_error, calculatedLine) m" where
  "price_line a requested =
     tbind (on_err (no_rows ErrOrderServiceNotFound)
              (GetActiveOrderService (a_business_id a) (in_ServiceID requested))) (\<lambda>itemService.
     case parseMilliQuantity (in_Quantity requested) of
       Inl _ \<Rightarrow> fail ErrInvalidOrderQuantity
     | Inr milli \<Rightarrow>
         if sv_unit itemService = ''pcs'' \<and> go_rem milli 1000 \<noteq> 0 then fail ErrInvalidOrderQuantity
         else case lineTotalFor milli (sv_unit_price_amount itemService) of
           Inl e \<Rightarrow> fail e
         | Inr lineTotal \<Rightarrow>
             ret \<lparr>cl_input = requested, cl_serviceName = sv_name itemService,
                  cl_unit = sv_unit itemService, cl_price = sv_unit_price_amount itemService,
                  cl_milli = milli, cl_lineTotal = lineTotal\<rparr>)"

text \<open>The loop over the items, with the running total (a big.Int in the source).\<close>

fun price_lines :: "actor \<Rightarrow> int \<Rightarrow> OrderItemInput list \<Rightarrow> (svc_error, calculatedLine list \<times> int) m" where
  "price_lines a amount [] = ret ([], amount)"
| "price_lines a amount (requested # rest) =
     tbind (price_line a requested) (\<lambda>line.
     let amount' = amount + cl_lineTotal line in
     if \<not> is_int64 amount' then fail ErrOrderTotalOverflow
     else tbind (price_lines a amount' rest) (\<lambda>(lines, result). ret (line # lines, result)))"

definition invoice_number :: "string \<Rightarrow> date \<Rightarrow> i64 \<Rightarrow> string" where
  "invoice_number code day sequence = code @ ''-'' @ format_date day @ ''-'' @ fmt_0d 6 sequence"

definition audit_item :: "CreateOrderInput \<Rightarrow> string option \<Rightarrow> calculatedLine \<Rightarrow> jval" where
  "audit_item input perfumeSnapshot line = JObj
     [(''service_id'', JInt (in_ServiceID (cl_input line))),
      (''service_name_snapshot'', JStr (cl_serviceName line)),
      (''service_unit_snapshot'', JStr (cl_unit line)),
      (''unit_price_amount_snapshot'', JInt (cl_price line)),
      (''quantity'', JStr (in_Quantity (cl_input line))),
      (''line_total_amount'', JInt (cl_lineTotal line)),
      (''perfume_id'', nullableInt (ci_PerfumeID input)),
      (''perfume_name_snapshot'', nullable_str perfumeSnapshot)]"

definition create_audit_values ::
  "CreateOrderInput \<Rightarrow> string option \<Rightarrow> string \<Rightarrow> int \<Rightarrow> calculatedLine list \<Rightarrow> jval" where
  "create_audit_values input perfumeSnapshot invoiceNumber amount lines = JObj
     [(''invoice_number'', JStr invoiceNumber), (''customer_id'', JInt (ci_CustomerID input)),
      (''total_amount'', JInt amount), (''due_at'', nullable_time (map_option zt_at (ci_DueAt input))),
      (''item_count'', JInt (int (length lines))),
      (''items'', JList (map (audit_item input perfumeSnapshot) lines)),
      (''perfume_id'', nullableInt (ci_PerfumeID input)), (''status'', JStr ''RECEIVED''),
      (''payment_status'', JStr ''UNPAID'')]"

definition create_line ::
  "actor \<Rightarrow> CreateOrderInput \<Rightarrow> i64 option \<times> string option \<Rightarrow> order_row \<Rightarrow> calculatedLine \<Rightarrow>
   (svc_error, item_row) m" where
  "create_line a input perfume orderRow line = exec (CreateOrderItem
     \<lparr>coi_BusinessID = a_business_id a, coi_OutletID = ci_OutletID input, coi_OrderID = o_id orderRow,
      coi_ServiceID = in_ServiceID (cl_input line), coi_PerfumeID = fst perfume,
      coi_ServiceNameSnapshot = cl_serviceName line, coi_ServiceUnitSnapshot = cl_unit line,
      coi_UnitPriceAmountSnapshot = cl_price line, coi_PerfumeNameSnapshot = snd perfume,
      coi_Quantity = cl_milli line, coi_LineTotalAmount = cl_lineTotal line,
      coi_Notes = in_Notes (cl_input line)\<rparr>)"

definition create_order_params ::
  "actor \<Rightarrow> CreateOrderInput \<Rightarrow> outlet_row \<Rightarrow> time \<Rightarrow> string \<Rightarrow> int \<Rightarrow> CreateOrderParams" where
  "create_order_params a input outlet receivedAt invoiceNumber amount =
     \<lparr>cop_BusinessID = a_business_id a, cop_OutletID = ci_OutletID input,
      cop_OutletCodeSnapshot = Some (out_code outlet), cop_CustomerID = ci_CustomerID input,
      cop_InvoiceNumber = invoiceNumber, cop_TotalAmount = amount, cop_Notes = ci_Notes input,
      cop_ReceivedAt = receivedAt, cop_DueAt = map_option zt_at (ci_DueAt input), cop_CreatedBy = a_user_id a,
      cop_IdempotencyKey = Some (ci_IdempotencyKey input),
      cop_RequestHash = Some (ci_RequestHash input)\<rparr>"

text \<open>json.Marshal of the audit values fails on a due time it cannot write; they are marshalled after the writes before them.\<close>

definition due_encodes :: "CreateOrderInput \<Rightarrow> bool" where
  "due_encodes input \<longleftrightarrow> (case ci_DueAt input of None \<Rightarrow> True | Some z \<Rightarrow> json_time_ok z)"

definition Create_write ::
  "actor \<Rightarrow> CreateOrderInput \<Rightarrow> outlet_row \<Rightarrow> i64 option \<times> string option \<Rightarrow> calculatedLine list \<Rightarrow> int \<Rightarrow>
   (svc_error, OrderCreationResult) m" where
  "Create_write a input outlet perfume lines amount =
     tbind (exec GetOrderTime) (\<lambda>(receivedAt, counterDate).
     if (case ci_DueAt input of None \<Rightarrow> False | Some due \<Rightarrow> zt_at due < receivedAt)
       then fail ErrOrderDueAtBeforeReceive
     else
     tbind (exec (AllocateInvoiceNumber (a_business_id a) (ci_OutletID input) counterDate))
       (\<lambda>(day, sequence).
     let invoiceNumber = invoice_number (out_code outlet) day sequence in
     tbind (exec (CreateOrder (create_order_params a input outlet receivedAt invoiceNumber amount)))
       (\<lambda>orderRow.
     tbind (each (create_line a input perfume orderRow) lines) (\<lambda>_.
     tbind (exec (CreateInitialOrderStatus (a_business_id a) (ci_OutletID input) (o_id orderRow)
              (a_user_id a))) (\<lambda>_.
     if \<not> due_encodes input then fail MarshalError
     else
     tbind (exec (InsertOrderAuditLog (a_business_id a) (Some (ci_OutletID input))
              (Some (a_user_id a)) (Some (o_id orderRow))
              (create_audit_values input (snd perfume) invoiceNumber amount lines)
              (a_ip a) (audit_user_agent (a_user_agent a)))) (\<lambda>_.
     tbind (loadOrder orderRow (out_timezone outlet)) (\<lambda>order.
     ret \<lparr>ocr_Order = order, ocr_Replayed = False\<rparr>)))))))"

definition Create_new :: "actor \<Rightarrow> CreateOrderInput \<Rightarrow> outlet_row \<Rightarrow> (svc_error, OrderCreationResult) m" where
  "Create_new a input outlet =
     tbind (on_err (no_rows ErrOrderCustomerNotFound)
              (GetActiveOrderCustomer (a_business_id a) (ci_CustomerID input))) (\<lambda>_.
     tbind (Create_perfume a input) (\<lambda>perfume.
     tbind (price_lines a 0 (ci_Items input)) (\<lambda>(lines, amount).
     Create_write a input outlet perfume lines amount)))"

definition Create_body :: "actor \<Rightarrow> CreateOrderInput \<Rightarrow> (svc_error, OrderCreationResult) m" where
  "Create_body a input =
     tbind (Create_outlet a input) (\<lambda>outlet.
     tbind (attempt (GetOrderByIdempotencyKey (a_business_id a) (ci_OutletID input)
                       (ci_IdempotencyKey input))) (\<lambda>found.
     case found of
       Inr existing \<Rightarrow> Create_replay input existing
     | Inl e \<Rightarrow> if e = NoRows then Create_new a input outlet else fail (Sql e)))"

definition OrderCatalog_Create :: "actor \<Rightarrow> CreateOrderInput \<Rightarrow> (svc_error, OrderCreationResult) m" where
  "OrderCatalog_Create a input =
     (case Create_guard a input of
        Some e \<Rightarrow> fail e
      | None \<Rightarrow> in_tx (Create_body a input))"

section \<open>Get\<close>

definition OrderCatalog_Get :: "actor \<Rightarrow> i64 \<Rightarrow> (svc_error, Order) m" where
  "OrderCatalog_Get a orderID =
     tbind (on_err (no_rows ErrOrderNotFound)
              (GetOrder (a_business_id a) orderID (is_admin a) (a_outlet_ids a)))
       (\<lambda>(r, timezone). loadOrder r timezone)"

section \<open>The life cycle\<close>

definition allowedOrderTransition :: "string \<Rightarrow> string \<Rightarrow> bool" where
  "allowedOrderTransition src dst =
     (if src = ''RECEIVED'' then dst = ''PROCESSING'' \<or> dst = ''CANCELLED''
      else if src = ''PROCESSING'' then dst = ''READY_FOR_PICKUP'' \<or> dst = ''CANCELLED''
      else if src = ''READY_FOR_PICKUP'' then dst = ''COMPLETED'' \<or> dst = ''CANCELLED''
      else False)"

definition validStatusTarget :: "string \<Rightarrow> bool" where
  "validStatusTarget status \<longleftrightarrow>
     status = ''PROCESSING'' \<or> status = ''READY_FOR_PICKUP'' \<or> status = ''COMPLETED''"

text \<open>
  The row lock, then the assignment lock of an actor who is not an administrator; NoRows of the
  first statement is returned as it is (the callers translate it), NoRows of the second as
  ErrOrderOutletForbidden.
\<close>

definition lockLifecycleOrder :: "actor \<Rightarrow> i64 \<Rightarrow> (svc_error, order_row) m" where
  "lockLifecycleOrder a orderID =
     tbind (exec (GetOrderForUpdate (a_business_id a) orderID (is_admin a) (a_user_id a))) (\<lambda>order.
     if is_admin a then ret order
     else tbind (on_err (no_rows ErrOrderOutletForbidden)
                   (LockCurrentOrderOutletAssignment (a_business_id a) (a_user_id a) (o_outlet_id order)))
            (\<lambda>_. ret order))"

definition not_found_as :: "svc_error \<Rightarrow> svc_error \<Rightarrow> svc_error" where
  "not_found_as e err = (if err = Sql NoRows then e else err)"

definition insertLifecycleAudit :: "actor \<Rightarrow> i64 \<Rightarrow> i64 \<Rightarrow> string \<Rightarrow> jval \<Rightarrow> jval \<Rightarrow> (svc_error, audit_row) m" where
  "insertLifecycleAudit a outletID orderID action oldValues newValues =
     exec (InsertOrderLifecycleAuditLog (a_business_id a) (Some outletID) (Some (a_user_id a)) action
             (Some orderID) oldValues newValues (a_ip a) (audit_user_agent (a_user_agent a)))"

definition Transition_body ::
  "actor \<Rightarrow> i64 \<Rightarrow> string \<Rightarrow> string option \<Rightarrow> (svc_error, OrderLifecycleResult) m" where
  "Transition_body a orderID toStatus notes =
     tbind (on_err (not_found_as ErrOrderNotFound) (lockLifecycleOrder a orderID)) (\<lambda>before.
     if \<not> allowedOrderTransition (o_status before) toStatus then fail ErrInvalidOrderTransition
     else
     tbind (exec (TransitionOrderStatus (a_business_id a) orderID toStatus)) (\<lambda>updated.
     tbind (exec (InsertOrderStatusHistory (a_business_id a) (o_outlet_id before) orderID
              (Some (o_status before)) toStatus (a_user_id a) notes)) (\<lambda>_.
     tbind (insertLifecycleAudit a (o_outlet_id before) orderID ''ORDER_STATUS_CHANGED''
              (JObj [(''status'', JStr (o_status before)),
                     (''completed_at'', nullable_time (o_completed_at before))])
              (JObj [(''status'', JStr (o_status updated)),
                     (''completed_at'', nullable_time (o_completed_at updated)),
                     (''notes'', nullable_str notes)])) (\<lambda>_.
     ret \<lparr>olr_OrderID = orderID, olr_Status = o_status updated,
          olr_PaymentStatus = o_payment_status updated, olr_UpdatedAt = o_updated_at updated,
          olr_CompletedAt = o_completed_at updated, olr_CancelledAt = None,
          olr_CancellationReason = None\<rparr>))))"

definition OrderCatalog_TransitionStatus ::
  "actor \<Rightarrow> i64 \<Rightarrow> string \<Rightarrow> string option \<Rightarrow> (svc_error, OrderLifecycleResult) m" where
  "OrderCatalog_TransitionStatus a orderID toStatus notes =
     (if orderID < 1 \<or> a_business_id a < 1 \<or> a_user_id a < 1 \<or> \<not> validStatusTarget toStatus
      then fail ErrInvalidOrderTransition
      else in_tx (Transition_body a orderID toStatus notes))"

definition Cancel_body :: "actor \<Rightarrow> i64 \<Rightarrow> string \<Rightarrow> (svc_error, OrderLifecycleResult) m" where
  "Cancel_body a orderID reason =
     tbind (on_err (not_found_as ErrOrderNotFound) (lockLifecycleOrder a orderID)) (\<lambda>before.
     if \<not> allowedOrderTransition (o_status before) ''CANCELLED'' then fail ErrInvalidOrderTransition
     else if o_payment_status before \<noteq> ''UNPAID'' then fail ErrOrderRequiresRefund
     else
     tbind (exec (CancelOrder (a_business_id a) orderID (a_user_id a) reason)) (\<lambda>updated.
     tbind (exec (InsertOrderStatusHistory (a_business_id a) (o_outlet_id before) orderID
              (Some (o_status before)) ''CANCELLED'' (a_user_id a) (Some reason))) (\<lambda>_.
     tbind (insertLifecycleAudit a (o_outlet_id before) orderID ''ORDER_CANCELLED''
              (JObj [(''status'', JStr (o_status before)),
                     (''payment_status'', JStr (o_payment_status before))])
              (JObj [(''status'', JStr (o_status updated)),
                     (''payment_status'', JStr (o_payment_status updated)),
                     (''cancelled_at'', nullable_time (o_cancelled_at updated)),
                     (''cancelled_by'', JInt (a_user_id a)),
                     (''cancellation_reason'', JStr reason),
                     (''deleted_at'', nullable_time (o_deleted_at updated))])) (\<lambda>_.
     ret \<lparr>olr_OrderID = orderID, olr_Status = o_status updated,
          olr_PaymentStatus = o_payment_status updated, olr_UpdatedAt = o_updated_at updated,
          olr_CompletedAt = None, olr_CancelledAt = o_cancelled_at updated,
          olr_CancellationReason = o_cancellation_reason updated\<rparr>))))"

definition OrderCatalog_Cancel :: "actor \<Rightarrow> i64 \<Rightarrow> string \<Rightarrow> (svc_error, OrderLifecycleResult) m" where
  "OrderCatalog_Cancel a orderID reason0 =
     (let reason = trim_space reason0 in
      if orderID < 1 \<or> a_business_id a < 1 \<or> a_user_id a < 1 \<or> reason = [] \<or> length reason > 2000
      then fail ErrInvalidCancellation
      else in_tx (Cancel_body a orderID reason))"

definition history_entry_from :: "history_row \<times> string \<Rightarrow> OrderStatusHistoryEntry" where
  "history_entry_from row =
     (case row of (h, name) \<Rightarrow>
        \<lparr>she_ID = h_id h, she_FromStatus = h_from_status h, she_ToStatus = h_to_status h,
         she_ChangedBy = h_changed_by h, she_ChangedByName = name, she_Notes = h_notes h,
         she_ChangedAt = h_changed_at h\<rparr>)"

definition OrderCatalog_StatusHistory :: "actor \<Rightarrow> i64 \<Rightarrow> (svc_error, OrderStatusHistoryEntry list) m" where
  "OrderCatalog_StatusHistory a orderID =
     (if orderID < 1 \<or> a_business_id a < 1 \<or> a_user_id a < 1 then fail ErrOrderNotFound
      else read_tx (Sql ConnErr)
        (tbind (on_err (not_found_as ErrOrderNotFound) (lockLifecycleOrder a orderID)) (\<lambda>order.
         tbind (exec (ListOrderStatusHistory (a_business_id a) (o_outlet_id order) orderID)) (\<lambda>rows.
         ret (map history_entry_from rows)))))"

definition OrderCatalog_List :: "actor \<Rightarrow> OrderFilter \<Rightarrow> (svc_error, OrderSummary list \<times> i64) m" where
  "OrderCatalog_List a filt =
     tbind (exec (ListOrders (a_business_id a) (is_admin a) (a_outlet_ids a) (of_OutletID filt)
              (of_Status filt) (of_PageOffset filt) (of_PageLimit filt))) (\<lambda>rows.
     tbind (exec (CountOrders (a_business_id a) (is_admin a) (a_outlet_ids a) (of_OutletID filt)
              (of_Status filt))) (\<lambda>amount.
     ret (map (\<lambda>(r, timezone). orderSummaryFrom r timezone) rows, amount)))"

end
