(* ===== verification/Payment_Queries.thy ===== *)
theory Payment_Queries
  imports Order_Queries
begin

text \<open>
  The statements of internal/repository/postgresql/payments.sql.go, under the queries' names, with
  the constraints of migrations 000004 and 000013.
\<close>

section \<open>Constraints\<close>

definition payment_check :: "payment_row \<Rightarrow> bool" where
  "payment_check r \<longleftrightarrow>
     0 < p_amount r \<and>
     p_method r \<in> {''CASH'', ''BCA_TRANSFER'', ''QRIS''} \<and>
     (p_status r = ''PENDING'' \<and> p_confirmed_at r = None \<and> p_voided_at r = None
        \<and> p_voided_by r = None \<and> p_void_reason r = None \<or>
      p_status r = ''CONFIRMED'' \<and> p_confirmed_at r \<noteq> None \<and> p_voided_at r = None
        \<and> p_voided_by r = None \<and> p_void_reason r = None \<or>
      p_status r = ''VOIDED'' \<and> p_voided_at r \<noteq> None \<and> p_voided_by r \<noteq> None
        \<and> \<not> is_blank (p_void_reason r)) \<and>
     (case (p_idempotency_key r, p_request_hash r) of
        (None, None) \<Rightarrow> True
      | (Some k, Some h) \<Rightarrow> btrim k \<noteq> [] \<and> rune_count k \<le> 128 \<and> length h = 32
      | _ \<Rightarrow> False)"

definition payment_text :: "payment_row \<Rightarrow> bool" where
  "payment_text r \<longleftrightarrow>
     pg_text (p_method r) \<and> pg_text_opt (p_external_reference r) \<and> pg_text_opt (p_notes r) \<and>
     pg_text_opt (p_void_reason r) \<and> pg_text_opt (p_idempotency_key r)"

definition payment_of_order :: "i64 \<Rightarrow> i64 \<Rightarrow> i64 \<Rightarrow> payment_row \<Rightarrow> bool" where
  "payment_of_order b l i r \<longleftrightarrow> p_business_id r = b \<and> p_outlet_id r = l \<and> p_order_id r = i"

definition payment_key_taken :: "db \<Rightarrow> payment_row \<Rightarrow> bool" where
  "payment_key_taken d r =
     list_ex (\<lambda>x. payment_of_order (p_business_id r) (p_outlet_id r) (p_order_id r) x
                \<and> p_idempotency_key r \<noteq> None \<and> p_idempotency_key x = p_idempotency_key r)
       (payments d)"

definition insert_payment_error :: "db \<Rightarrow> payment_row \<Rightarrow> pgerr option" where
  "insert_payment_error d r =
     (if \<not> payment_text r then Some InvalidText
      else if \<not> payment_check r then Some (CheckViolation ''payments'')
      else if payment_key_taken d r then Some (UniqueViolation ''payments_idempotency_uq'')
      else if \<not> order_exists d (p_business_id r) (p_outlet_id r) (p_order_id r)
        then Some (ForeignKeyViolation ''payments_order'')
      else if \<not> user_exists d (p_business_id r) (p_created_by r)
        then Some (ForeignKeyViolation ''payments_created_by'')
      else None)"

definition update_payment_error :: "db \<Rightarrow> payment_row \<Rightarrow> pgerr option" where
  "update_payment_error d r =
     (if \<not> payment_check r then Some (CheckViolation ''payments'')
      else case p_voided_by r of
        None \<Rightarrow> None
      | Some u \<Rightarrow> if user_exists d (p_business_id r) u then None
                  else Some (ForeignKeyViolation ''payments_voided_by''))"

section \<open>Queries\<close>

definition GetPaymentByIdempotencyKey :: "i64 \<Rightarrow> i64 \<Rightarrow> i64 \<Rightarrow> string \<Rightarrow> (pgerr, payment_row) m" where
  "GetPaymentByIdempotencyKey businessID outletID orderID key =
     with_text (pg_text key) (only_one (select (\<lambda>n d.
       filter (\<lambda>r. payment_of_order businessID outletID orderID r \<and> p_idempotency_key r = Some key)
         (payments d))))"

text \<open>COALESCE(sum(amount), 0)::bigint over the confirmed payments of an order.\<close>

definition confirmed_total :: "db \<Rightarrow> i64 \<Rightarrow> i64 \<Rightarrow> i64 \<Rightarrow> int" where
  "confirmed_total d b l i =
     sum_list (map p_amount (filter (\<lambda>r. payment_of_order b l i r \<and> p_status r = ''CONFIRMED'') (payments d)))"

definition GetConfirmedPaymentTotal :: "i64 \<Rightarrow> i64 \<Rightarrow> i64 \<Rightarrow> (pgerr, i64) m" where
  "GetConfirmedPaymentTotal businessID outletID orderID =
     tbind (only_one (select (\<lambda>n d. [confirmed_total d businessID outletID orderID]))) (\<lambda>s.
     if is_int64 s then ret s else fail OutOfRange)"

definition CountOrderPaymentRefunds :: "i64 \<Rightarrow> i64 \<Rightarrow> i64 \<Rightarrow> (pgerr, i64) m" where
  "CountOrderPaymentRefunds businessID outletID orderID = only_one (select (\<lambda>n d.
     [int (length (filter (\<lambda>r. rf_business_id r = businessID \<and> rf_outlet_id r = outletID
                             \<and> rf_order_id r = orderID) (payment_refunds d)))]))"

definition CreateConfirmedPayment ::
  "i64 \<Rightarrow> i64 \<Rightarrow> i64 \<Rightarrow> i64 \<Rightarrow> string \<Rightarrow> string option \<Rightarrow> string option \<Rightarrow> i64 \<Rightarrow> string \<Rightarrow> string \<Rightarrow>
   (pgerr, payment_row) m" where
  "CreateConfirmedPayment businessID outletID orderID amount method reference notes createdBy key hash =
     insert_serial TPayments payments (\<lambda>rs d. d\<lparr>payments := rs\<rparr>) insert_payment_error (\<lambda>i n d.
       \<lparr>p_id = i, p_business_id = businessID, p_outlet_id = outletID, p_order_id = orderID,
        p_amount = amount, p_method = method, p_status = ''CONFIRMED'',
        p_external_reference = reference, p_notes = notes, p_confirmed_at = Some n,
        p_voided_at = None, p_voided_by = None, p_void_reason = None, p_created_by = createdBy,
        p_created_at = n, p_idempotency_key = Some key, p_request_hash = Some hash\<rparr>)"

definition UpdateOrderPaymentStatus :: "i64 \<Rightarrow> i64 \<Rightarrow> i64 \<Rightarrow> string \<Rightarrow> (pgerr, order_row) m" where
  "UpdateOrderPaymentStatus businessID outletID orderID paymentStatus =
     only_one (update_orders
       (\<lambda>r. o_business_id r = businessID \<and> o_outlet_id r = outletID \<and> o_id r = orderID)
       (\<lambda>n r. r\<lparr>o_payment_status := paymentStatus, o_updated_at := n\<rparr>))"

definition ListOrderPayments ::
  "i64 \<Rightarrow> i64 \<Rightarrow> i64 \<Rightarrow> i32 \<Rightarrow> i32 \<Rightarrow> (pgerr, payment_row list) m" where
  "ListOrderPayments businessID outletID orderID pageLimit pageOffset =
     limit_offset pageLimit pageOffset (select (\<lambda>n d.
       sort_key p_created_at (sort_key p_id
         (filter (payment_of_order businessID outletID orderID) (payments d)))))"

definition CountOrderPayments :: "i64 \<Rightarrow> i64 \<Rightarrow> i64 \<Rightarrow> (pgerr, i64) m" where
  "CountOrderPayments businessID outletID orderID = only_one (select (\<lambda>n d.
     [int (length (filter (payment_of_order businessID outletID orderID) (payments d)))]))"

definition payment_is :: "i64 \<Rightarrow> i64 \<Rightarrow> i64 \<Rightarrow> i64 \<Rightarrow> payment_row \<Rightarrow> bool" where
  "payment_is b l i p r \<longleftrightarrow> payment_of_order b l i r \<and> p_id r = p"

definition GetOrderPaymentForUpdate :: "i64 \<Rightarrow> i64 \<Rightarrow> i64 \<Rightarrow> i64 \<Rightarrow> (pgerr, payment_row) m" where
  "GetOrderPaymentForUpdate businessID outletID orderID paymentID = only_one (select (\<lambda>n d.
     filter (payment_is businessID outletID orderID paymentID) (payments d)))"

definition VoidConfirmedPayment ::
  "i64 \<Rightarrow> i64 \<Rightarrow> i64 \<Rightarrow> i64 \<Rightarrow> i64 \<Rightarrow> string \<Rightarrow> (pgerr, payment_row) m" where
  "VoidConfirmedPayment businessID outletID orderID paymentID voidedBy voidReason =
     with_text (pg_text voidReason)
       (only_one (update_rows payments (\<lambda>rs d. d\<lparr>payments := rs\<rparr>) update_payment_error
         (\<lambda>r. payment_is businessID outletID orderID paymentID r \<and> p_status r = ''CONFIRMED'')
         (\<lambda>n r. r\<lparr>p_status := ''VOIDED'', p_voided_at := Some n, p_voided_by := Some voidedBy,
                  p_void_reason := Some voidReason\<rparr>)))"

definition InsertPaymentAuditLog ::
  "i64 \<Rightarrow> i64 option \<Rightarrow> i64 option \<Rightarrow> string \<Rightarrow> i64 option \<Rightarrow> jval \<Rightarrow> jval \<Rightarrow> string option \<Rightarrow>
   string option \<Rightarrow> (pgerr, audit_row) m" where
  "InsertPaymentAuditLog businessID outletID actorUserID action paymentID oldValues newValues
     ipAddress userAgent =
     insert_audit (\<lambda>i n d.
       \<lparr>au_id = i, au_business_id = businessID, au_outlet_id = outletID,
        au_actor_user_id = actorUserID, au_action = action, au_entity_type = ''payment'',
        au_entity_id = paymentID, au_old_values = Some oldValues, au_new_values = Some newValues,
        au_ip_address = ipAddress, au_user_agent = userAgent, au_occurred_at = n,
        au_actor_platform_admin_id = None, au_support_session_id = None, au_platform_audit_id = None\<rparr>)"

section \<open>What the statements leave alone\<close>

lemma payment_queries_read [reads_intro]:
  "reads (GetPaymentByIdempotencyKey b l i k)" "reads (GetConfirmedPaymentTotal b l i)"
  "reads (CountOrderPaymentRefunds b l i)" "reads (ListOrderPayments b l i lim off)"
  "reads (CountOrderPayments b l i)" "reads (GetOrderPaymentForUpdate b l i p)"
  unfolding GetPaymentByIdempotencyKey_def GetConfirmedPaymentTotal_def CountOrderPaymentRefunds_def
    ListOrderPayments_def CountOrderPayments_def GetOrderPaymentForUpdate_def
  by (intro reads_intro)+

lemma payment_writes_grow [grows_intro]:
  "grows (CreateConfirmedPayment b l i amt mth ref nts u k h)"
  "grows (UpdateOrderPaymentStatus b l i st)" "grows (VoidConfirmedPayment b l i p u rsn)"
  "grows (InsertPaymentAuditLog b lo uo act io ov nv ip ua)"
  unfolding CreateConfirmedPayment_def UpdateOrderPaymentStatus_def VoidConfirmedPayment_def
    InsertPaymentAuditLog_def insert_audit_def update_orders_def
  by (intro grows_intro)+

lemmas payment_queries_grow [grows_intro] = payment_queries_read [THEN grows_reads]

end
