(* ===== verification/Payments.thy ===== *)
theory Payments
  imports Orders Payment_Queries
begin

text \<open>
  The payment catalog of internal/service/payments.go: how tender is applied, the payment status
  of an order, recording a payment with idempotent replay, listing and voiding.
\<close>

section \<open>Inputs and results\<close>

record RecordPaymentInput =
  ri_TenderedAmount :: i64
  ri_Method :: string
  ri_ExternalReference :: "string option"
  ri_Notes :: "string option"
  ri_IdempotencyKey :: string
  ri_RequestHash :: string

record Payment =
  pa_ID :: i64
  pa_Amount :: i64
  pa_Method :: string
  pa_Status :: string
  pa_ExternalReference :: "string option"
  pa_Notes :: "string option"
  pa_ConfirmedAt :: "time option"
  pa_VoidedAt :: "time option"
  pa_VoidedBy :: "i64 option"
  pa_VoidReason :: "string option"
  pa_CreatedBy :: i64
  pa_CreatedAt :: time

record PaymentRecordResult =
  pr_Payment :: Payment
  pr_PaymentStatus :: string
  pr_PaidAmount :: i64
  pr_OutstandingAmount :: i64
  pr_TenderedAmount :: i64
  pr_ChangeAmount :: i64
  pr_Replayed :: bool

record PaymentListResult =
  pl_OrderID :: i64
  pl_OrderTotal :: i64
  pl_PaymentStatus :: string
  pl_PaidAmount :: i64
  pl_OutstandingAmount :: i64
  pl_Items :: "Payment list"
  pl_TotalItems :: i64

record PaymentVoidResult =
  pv_Payment :: Payment
  pv_PaymentStatus :: string
  pv_PaidAmount :: i64
  pv_OutstandingAmount :: i64

section \<open>Amounts\<close>

definition validPaymentMethod :: "string \<Rightarrow> bool" where
  "validPaymentMethod method \<longleftrightarrow> method = ''CASH'' \<or> method = ''BCA_TRANSFER'' \<or> method = ''QRIS''"

definition paymentAmounts :: "string \<Rightarrow> i64 \<Rightarrow> i64 \<Rightarrow> svc_error + i64 \<times> i64" where
  "paymentAmounts method tendered outstanding =
     (if \<not> validPaymentMethod method \<or> tendered \<le> 0 then Inl ErrInvalidPayment
      else if outstanding \<le> 0 then Inl ErrPaymentNoBalance
      else if method = ''CASH'' then
        (let applied = (if tendered > outstanding then outstanding else tendered)
         in Inr (applied, wrap64 (tendered - applied)))
      else if tendered > outstanding then Inl ErrPaymentOverpayment
      else Inr (tendered, 0))"

definition paymentStatusFor :: "i64 \<Rightarrow> i64 \<Rightarrow> string" where
  "paymentStatusFor amount paid =
     (if paid = 0 then ''UNPAID'' else if paid = amount then ''PAID'' else ''PARTIALLY_PAID'')"

definition changeFor :: "string \<Rightarrow> i64 \<Rightarrow> i64 \<Rightarrow> i64" where
  "changeFor method tendered applied =
     (if method = ''CASH'' then wrap64 (tendered - applied) else 0)"

definition exceedsPaymentTextLimit :: "string option \<Rightarrow> nat \<Rightarrow> bool" where
  "exceedsPaymentTextLimit value maxRunes =
     (case value of None \<Rightarrow> False | Some v \<Rightarrow> rune_count v > maxRunes)"

definition paymentFrom :: "payment_row \<Rightarrow> Payment" where
  "paymentFrom r =
     \<lparr>pa_ID = p_id r, pa_Amount = p_amount r, pa_Method = p_method r, pa_Status = p_status r,
      pa_ExternalReference = p_external_reference r, pa_Notes = p_notes r,
      pa_ConfirmedAt = p_confirmed_at r, pa_VoidedAt = p_voided_at r, pa_VoidedBy = p_voided_by r,
      pa_VoidReason = p_void_reason r, pa_CreatedBy = p_created_by r, pa_CreatedAt = p_created_at r\<rparr>"

section \<open>Shared steps\<close>

definition ensureNoPaymentRefunds :: "i64 \<Rightarrow> i64 \<Rightarrow> i64 \<Rightarrow> (svc_error, unit) m" where
  "ensureNoPaymentRefunds businessID outletID orderID =
     tbind (exec (CountOrderPaymentRefunds businessID outletID orderID)) (\<lambda>count.
     if count \<noteq> 0 then fail ErrPaymentRefundsUnsupported else ret ())"

definition insertPaymentAudit ::
  "actor \<Rightarrow> i64 \<Rightarrow> i64 \<Rightarrow> string \<Rightarrow> jval \<Rightarrow> jval \<Rightarrow> (svc_error, audit_row) m" where
  "insertPaymentAudit a outletID paymentID action oldValues newValues =
     exec (InsertPaymentAuditLog (a_business_id a) (Some outletID) (Some (a_user_id a)) action
             (Some paymentID) oldValues newValues (a_ip a) (audit_user_agent (a_user_agent a)))"

text \<open>The confirmed total, refused when it exceeds the order's total.\<close>

definition paid_within :: "actor \<Rightarrow> order_row \<Rightarrow> i64 \<Rightarrow> (svc_error, i64) m" where
  "paid_within a order orderID =
     tbind (exec (GetConfirmedPaymentTotal (a_business_id a) (o_outlet_id order) orderID)) (\<lambda>paid.
     if paid > o_total_amount order then fail ErrPaymentLedgerInvariant else ret paid)"

section \<open>Record\<close>

definition Record_guard :: "actor \<Rightarrow> i64 \<Rightarrow> RecordPaymentInput \<Rightarrow> svc_error option" where
  "Record_guard a orderID input =
     (if orderID < 1 \<or> a_business_id a < 1 \<or> a_user_id a < 1 \<or> ri_TenderedAmount input \<le> 0
         \<or> \<not> validPaymentMethod (ri_Method input) \<or> length (ri_IdempotencyKey input) < 1
         \<or> length (ri_IdempotencyKey input) > 128 \<or> length (ri_RequestHash input) \<noteq> 32
        then Some ErrInvalidPayment
      else if exceedsPaymentTextLimit (ri_ExternalReference input) 256
         \<or> exceedsPaymentTextLimit (ri_Notes input) 2000
        then Some ErrInvalidPayment
      else None)"

definition Record_replay ::
  "actor \<Rightarrow> i64 \<Rightarrow> RecordPaymentInput \<Rightarrow> order_row \<Rightarrow> payment_row \<Rightarrow> (svc_error, PaymentRecordResult) m" where
  "Record_replay a orderID input order existing =
     (if p_request_hash existing \<noteq> Some (ri_RequestHash input) then fail ErrPaymentIdempotencyConflict
      else tbind (paid_within a order orderID) (\<lambda>paid.
        ret \<lparr>pr_Payment = paymentFrom existing,
             pr_PaymentStatus = paymentStatusFor (o_total_amount order) paid,
             pr_PaidAmount = paid, pr_OutstandingAmount = wrap64 (o_total_amount order - paid),
             pr_TenderedAmount = ri_TenderedAmount input,
             pr_ChangeAmount = changeFor (p_method existing) (ri_TenderedAmount input) (p_amount existing),
             pr_Replayed = True\<rparr>))"

definition Record_new ::
  "actor \<Rightarrow> i64 \<Rightarrow> RecordPaymentInput \<Rightarrow> order_row \<Rightarrow> (svc_error, PaymentRecordResult) m" where
  "Record_new a orderID input order =
     tbind (paid_within a order orderID) (\<lambda>paidBefore.
     let outstanding = wrap64 (o_total_amount order - paidBefore) in
     if outstanding \<le> 0 then fail ErrPaymentNoBalance
     else case paymentAmounts (ri_Method input) (ri_TenderedAmount input) outstanding of
       Inl e \<Rightarrow> fail e
     | Inr (amountApplied, changeAmount) \<Rightarrow>
         tbind (exec (CreateConfirmedPayment (a_business_id a) (o_outlet_id order) orderID
                  amountApplied (ri_Method input) (ri_ExternalReference input) (ri_Notes input)
                  (a_user_id a) (ri_IdempotencyKey input) (ri_RequestHash input))) (\<lambda>created.
         let paidAfter = wrap64 (paidBefore + amountApplied);
             status = paymentStatusFor (o_total_amount order) paidAfter in
         tbind (exec (UpdateOrderPaymentStatus (a_business_id a) (o_outlet_id order) orderID status))
           (\<lambda>updated.
         tbind (insertPaymentAudit a (o_outlet_id order) (p_id created) ''PAYMENT_CONFIRMED''
                  (JObj [(''payment_status'', JStr (paymentStatusFor (o_total_amount order) paidBefore)),
                         (''paid_amount'', JInt paidBefore), (''outstanding_amount'', JInt outstanding)])
                  (JObj [(''payment_id'', JInt (p_id created)), (''method'', JStr (ri_Method input)),
                         (''amount'', JInt amountApplied), (''payment_status'', JStr status),
                         (''paid_amount'', JInt paidAfter),
                         (''outstanding_amount'', JInt (wrap64 (o_total_amount order - paidAfter)))]))
           (\<lambda>_.
         ret \<lparr>pr_Payment = paymentFrom created, pr_PaymentStatus = o_payment_status updated,
              pr_PaidAmount = paidAfter,
              pr_OutstandingAmount = wrap64 (o_total_amount order - paidAfter),
              pr_TenderedAmount = ri_TenderedAmount input, pr_ChangeAmount = changeAmount,
              pr_Replayed = False\<rparr>))))"

definition Record_body ::
  "actor \<Rightarrow> i64 \<Rightarrow> RecordPaymentInput \<Rightarrow> (svc_error, PaymentRecordResult) m" where
  "Record_body a orderID input =
     tbind (on_err (not_found_as ErrPaymentNotFound) (lockLifecycleOrder a orderID)) (\<lambda>order.
     if o_status order = ''CANCELLED'' \<or> o_deleted_at order \<noteq> None then fail ErrPaymentOrderCancelled
     else
     tbind (ensureNoPaymentRefunds (a_business_id a) (o_outlet_id order) orderID) (\<lambda>_.
     tbind (attempt (GetPaymentByIdempotencyKey (a_business_id a) (o_outlet_id order) orderID
                       (ri_IdempotencyKey input))) (\<lambda>found.
     case found of
       Inr existing \<Rightarrow> Record_replay a orderID input order existing
     | Inl e \<Rightarrow> if e = NoRows then Record_new a orderID input order else fail (Sql e))))"

definition PaymentCatalog_Record ::
  "actor \<Rightarrow> i64 \<Rightarrow> RecordPaymentInput \<Rightarrow> (svc_error, PaymentRecordResult) m" where
  "PaymentCatalog_Record a orderID input =
     (case Record_guard a orderID input of
        Some e \<Rightarrow> fail e
      | None \<Rightarrow> in_tx (Record_body a orderID input))"

section \<open>List\<close>

definition PaymentCatalog_List :: "actor \<Rightarrow> i64 \<Rightarrow> i32 \<Rightarrow> i32 \<Rightarrow> (svc_error, PaymentListResult) m" where
  "PaymentCatalog_List a orderID pageOffset pageLimit =
     (if orderID < 1 \<or> a_business_id a < 1 \<or> a_user_id a < 1 then fail ErrPaymentNotFound
      else read_tx (Sql ConnErr)
        (tbind (on_err (not_found_as ErrPaymentNotFound) (lockLifecycleOrder a orderID)) (\<lambda>order.
         tbind (ensureNoPaymentRefunds (a_business_id a) (o_outlet_id order) orderID) (\<lambda>_.
         tbind (paid_within a order orderID) (\<lambda>paid.
         tbind (exec (ListOrderPayments (a_business_id a) (o_outlet_id order) orderID pageLimit pageOffset))
           (\<lambda>rows.
         tbind (exec (CountOrderPayments (a_business_id a) (o_outlet_id order) orderID)) (\<lambda>totalItems.
         ret \<lparr>pl_OrderID = orderID, pl_OrderTotal = o_total_amount order,
              pl_PaymentStatus = paymentStatusFor (o_total_amount order) paid,
              pl_PaidAmount = paid, pl_OutstandingAmount = wrap64 (o_total_amount order - paid),
              pl_Items = map paymentFrom rows, pl_TotalItems = totalItems\<rparr>)))))))"

section \<open>Void\<close>

definition void_result :: "order_row \<Rightarrow> payment_row \<Rightarrow> string \<Rightarrow> i64 \<Rightarrow> PaymentVoidResult" where
  "void_result order payment status paid =
     \<lparr>pv_Payment = paymentFrom payment, pv_PaymentStatus = status, pv_PaidAmount = paid,
      pv_OutstandingAmount = wrap64 (o_total_amount order - paid)\<rparr>"

definition Void_body ::
  "actor \<Rightarrow> i64 \<Rightarrow> i64 \<Rightarrow> string \<Rightarrow> (svc_error, PaymentVoidResult) m" where
  "Void_body a orderID paymentID reason =
     tbind (on_err (not_found_as ErrPaymentNotFound) (lockLifecycleOrder a orderID)) (\<lambda>order.
     tbind (ensureNoPaymentRefunds (a_business_id a) (o_outlet_id order) orderID) (\<lambda>_.
     tbind (on_err (no_rows ErrPaymentNotFound)
              (GetOrderPaymentForUpdate (a_business_id a) (o_outlet_id order) orderID paymentID))
       (\<lambda>payment.
     if p_status payment = ''VOIDED'' \<and> p_voided_by payment = Some (a_user_id a)
        \<and> p_void_reason payment = Some reason
     then tbind (paid_within a order orderID) (\<lambda>paid.
            ret (void_result order payment (paymentStatusFor (o_total_amount order) paid) paid))
     else if p_status payment \<noteq> ''CONFIRMED'' then fail ErrPaymentNotVoidable
     else
     tbind (exec (VoidConfirmedPayment (a_business_id a) (o_outlet_id order) orderID paymentID
              (a_user_id a) reason)) (\<lambda>voided.
     tbind (paid_within a order orderID) (\<lambda>paid.
     let status = paymentStatusFor (o_total_amount order) paid in
     tbind (exec (UpdateOrderPaymentStatus (a_business_id a) (o_outlet_id order) orderID status))
       (\<lambda>updated.
     tbind (insertPaymentAudit a (o_outlet_id order) paymentID ''PAYMENT_VOIDED''
              (JObj [(''payment_id'', JInt paymentID), (''amount'', JInt (p_amount payment)),
                     (''status'', JStr (p_status payment)),
                     (''payment_status'', JStr (o_payment_status order))])
              (JObj [(''payment_id'', JInt paymentID), (''amount'', JInt (p_amount payment)),
                     (''status'', JStr (p_status voided)), (''voided_by'', JInt (a_user_id a)),
                     (''void_reason'', JStr reason),
                     (''payment_status'', JStr (o_payment_status updated)),
                     (''paid_amount'', JInt paid),
                     (''outstanding_amount'', JInt (wrap64 (o_total_amount order - paid)))])) (\<lambda>_.
     ret (void_result order voided (o_payment_status updated) paid))))))))"

definition PaymentCatalog_Void ::
  "actor \<Rightarrow> i64 \<Rightarrow> i64 \<Rightarrow> string \<Rightarrow> (svc_error, PaymentVoidResult) m" where
  "PaymentCatalog_Void a orderID paymentID reason0 =
     (let reason = trim_space reason0 in
      if orderID < 1 \<or> paymentID < 1 \<or> a_business_id a < 1 \<or> a_user_id a < 1
         \<or> trim_space reason = [] \<or> rune_count reason > 2000
      then fail ErrInvalidPaymentVoid
      else in_tx (Void_body a orderID paymentID reason))"

section \<open>Tender, status and change\<close>

text \<open>
  What paymentAmounts promises: the applied amount is positive and within the balance, cash keeps
  the rest as change, other methods apply exactly the tender, and nothing wraps around.
\<close>

lemma paymentAmounts_Inr:
  assumes "paymentAmounts method tendered outstanding = Inr (applied, change)"
    and "is_int64 tendered" and "is_int64 outstanding"
  shows "validPaymentMethod method \<and> 0 < applied \<and> applied \<le> outstanding \<and> applied \<le> tendered
    \<and> change = tendered - applied \<and> (method \<noteq> ''CASH'' \<longrightarrow> change = 0)
    \<and> (0 < change \<longrightarrow> applied = outstanding)"
  using assms
  by (auto simp: paymentAmounts_def Let_def wrap64_id is_int64_def split: if_splits)

end
