(* ===== verification/Ledger.thy ===== *)
theory Ledger
  imports Payments
begin

text \<open>
  The ledger: what orders, items, history, payments and audit rows may do, as a step relation
  labelled by events, and the proof that each operation of the two catalogs, when its
  transaction's body returns normally, either leaves the data alone (a replay) or performs exactly
  the event its name says, for an order the actor may operate on.
\<close>

section \<open>The contract\<close>

definition item_of :: "order_row \<Rightarrow> item_row \<Rightarrow> bool" where
  "item_of r x \<longleftrightarrow> it_business_id x = o_business_id r \<and> it_outlet_id x = o_outlet_id r
     \<and> it_order_id x = o_id r"

definition history_of :: "order_row \<Rightarrow> history_row \<Rightarrow> bool" where
  "history_of r h \<longleftrightarrow> h_business_id h = o_business_id r \<and> h_outlet_id h = o_outlet_id r
     \<and> h_order_id h = o_id r"

abbreviation payment_of :: "order_row \<Rightarrow> payment_row \<Rightarrow> bool" where
  "payment_of r \<equiv> payment_of_order (o_business_id r) (o_outlet_id r) (o_id r)"

text \<open>What has been paid on an order: the sum of its confirmed payments.\<close>

definition paid_on :: "db \<Rightarrow> order_row \<Rightarrow> int" where
  "paid_on d r = confirmed_total d (o_business_id r) (o_outlet_id r) (o_id r)"

text \<open>The number the next order of an outlet and day gets, and the counters after it.\<close>

definition next_sequence :: "i64 \<Rightarrow> i64 \<Rightarrow> date \<Rightarrow> counter_row list \<Rightarrow> i64" where
  "next_sequence b l day cs = (case find (counter_is b l day) cs of None \<Rightarrow> 1 | Some c \<Rightarrow> ic_next_number c)"

definition bump_counter :: "i64 \<Rightarrow> i64 \<Rightarrow> date \<Rightarrow> time \<Rightarrow> counter_row list \<Rightarrow> counter_row list" where
  "bump_counter b l day n cs =
     (case find (counter_is b l day) cs of
        None \<Rightarrow> cs @ [\<lparr>ic_business_id = b, ic_outlet_id = l, ic_counter_date = day, ic_next_number = 2, ic_updated_at = n\<rparr>]
      | Some c \<Rightarrow> map (\<lambda>r. if counter_is b l day r then r\<lparr>ic_next_number := ic_next_number c + 1, ic_updated_at := n\<rparr> else r) cs)"

text \<open>The terms of an order never change; only its progress does.\<close>

definition same_terms :: "order_row \<Rightarrow> order_row \<Rightarrow> bool" where
  "same_terms r r' \<longleftrightarrow> r' = r\<lparr>o_status := o_status r', o_payment_status := o_payment_status r',
     o_completed_at := o_completed_at r', o_cancelled_at := o_cancelled_at r',
     o_cancelled_by := o_cancelled_by r', o_cancellation_reason := o_cancellation_reason r',
     o_deleted_at := o_deleted_at r', o_updated_at := o_updated_at r'\<rparr>"

datatype ledger_event =
    Placed order_row "item_row list"
  | Moved order_row string
  | Paid order_row payment_row
  | Voided order_row payment_row

text \<open>The audit row an event leaves behind: its action, its entity and the tenant.\<close>

fun audits :: "ledger_event \<Rightarrow> audit_row \<Rightarrow> bool" where
  "audits (Placed r xs) a = (au_action a = ''ORDER_CREATED'' \<and> au_entity_type a = ''order''
     \<and> au_entity_id a = Some (o_id r) \<and> au_business_id a = o_business_id r)"
| "audits (Moved r s) a = (au_action a = (if s = ''CANCELLED'' then ''ORDER_CANCELLED'' else ''ORDER_STATUS_CHANGED'')
     \<and> au_entity_type a = ''order'' \<and> au_entity_id a = Some (o_id r) \<and> au_business_id a = o_business_id r)"
| "audits (Paid r p) a = (au_action a = ''PAYMENT_CONFIRMED'' \<and> au_entity_type a = ''payment''
     \<and> au_entity_id a = Some (p_id p) \<and> au_business_id a = o_business_id r)"
| "audits (Voided r p) a = (au_action a = ''PAYMENT_VOIDED'' \<and> au_entity_type a = ''payment''
     \<and> au_entity_id a = Some (p_id p) \<and> au_business_id a = o_business_id r)"

inductive ledger_step :: "db \<Rightarrow> ledger_event \<Rightarrow> db \<Rightarrow> bool" where
  placed:
    "o_id r \<notin> o_id ` set (orders d) \<Longrightarrow> insert_order_error d r = None \<Longrightarrow>
     o_status r = ''RECEIVED'' \<Longrightarrow> o_payment_status r = ''UNPAID'' \<Longrightarrow> is_int64 (o_total_amount r) \<Longrightarrow>
     xs \<noteq> [] \<Longrightarrow> list_all (\<lambda>x. item_of r x \<and> item_check x) xs \<Longrightarrow>
     o_total_amount r = sum_list (map it_line_total_amount xs) \<Longrightarrow>
     o_invoice_number r = invoice_number code day
       (next_sequence (o_business_id r) (o_outlet_id r) day (invoice_counters d)) \<Longrightarrow>
     history_of r h \<Longrightarrow> h_from_status h = None \<Longrightarrow> h_to_status h = ''RECEIVED'' \<Longrightarrow>
     audits (Placed r xs) a \<Longrightarrow> 0 \<le> day \<Longrightarrow>
     ledger_step d (Placed r xs)
       (d\<lparr>orders := orders d @ [r], order_items := order_items d @ xs,
          order_status_history := order_status_history d @ [h],
          invoice_counters := bump_counter (o_business_id r) (o_outlet_id r) day n (invoice_counters d),
          audit_logs := audit_logs d @ [a]\<rparr>)"
| moved:
    "r \<in> set (orders d) \<Longrightarrow> allowedOrderTransition (o_status r) s \<Longrightarrow>
     s = ''CANCELLED'' \<longrightarrow> o_payment_status r = ''UNPAID'' \<Longrightarrow>
     same_terms r r' \<Longrightarrow> o_status r' = s \<Longrightarrow> o_payment_status r' = o_payment_status r \<Longrightarrow>
     order_check r' \<Longrightarrow>
     history_of r h \<Longrightarrow> h_from_status h = Some (o_status r) \<Longrightarrow> h_to_status h = s \<Longrightarrow>
     audits (Moved r s) a \<Longrightarrow>
     ledger_step d (Moved r s)
       (d\<lparr>orders := replace_row r r' (orders d),
          order_status_history := order_status_history d @ [h],
          audit_logs := audit_logs d @ [a]\<rparr>)"
| paid:
    "r \<in> set (orders d) \<Longrightarrow> o_status r \<noteq> ''CANCELLED'' \<Longrightarrow>
     p_id p \<notin> p_id ` set (payments d) \<Longrightarrow> payment_of r p \<Longrightarrow> payment_check p \<Longrightarrow>
     \<not> payment_key_taken d p \<Longrightarrow>
     p_status p = ''CONFIRMED'' \<Longrightarrow> paid_on d r + p_amount p \<le> o_total_amount r \<Longrightarrow>
     r' = r\<lparr>o_payment_status := paymentStatusFor (o_total_amount r) (paid_on d r + p_amount p),
            o_updated_at := n\<rparr> \<Longrightarrow> order_check r' \<Longrightarrow>
     audits (Paid r p) a \<Longrightarrow>
     ledger_step d (Paid r p)
       (d\<lparr>orders := replace_row r r' (orders d), payments := payments d @ [p],
          audit_logs := audit_logs d @ [a]\<rparr>)"
| voided:
    "r \<in> set (orders d) \<Longrightarrow> p \<in> set (payments d) \<Longrightarrow> payment_of r p \<Longrightarrow> p_status p = ''CONFIRMED'' \<Longrightarrow>
     q = p\<lparr>p_status := ''VOIDED'', p_voided_at := Some n, p_voided_by := Some u, p_void_reason := Some reason\<rparr> \<Longrightarrow>
     payment_check q \<Longrightarrow> paid_on d r - p_amount p \<le> o_total_amount r \<Longrightarrow>
     r' = r\<lparr>o_payment_status := paymentStatusFor (o_total_amount r) (paid_on d r - p_amount p),
            o_updated_at := n\<rparr> \<Longrightarrow> order_check r' \<Longrightarrow>
     audits (Voided r p) a \<Longrightarrow>
     ledger_step d (Voided r p)
       (d\<lparr>orders := replace_row r r' (orders d), payments := replace_row p q (payments d),
          audit_logs := audit_logs d @ [a]\<rparr>)"

inductive_cases placedE: "ledger_step d (Placed r xs) d'"
inductive_cases movedE: "ledger_step d (Moved r s) d'"
inductive_cases paidE: "ledger_step d (Paid r p) d'"
inductive_cases voidedE: "ledger_step d (Voided r p) d'"

section \<open>Who may operate on an order\<close>

text \<open>
  The current state of the database decides, not the claims of the token: the outlet is
  active, the account is active and still has the role, staff are still assigned to the outlet.
\<close>

definition may_operate :: "db \<Rightarrow> actor \<Rightarrow> order_row \<Rightarrow> bool" where
  "may_operate d a r \<longleftrightarrow>
     r \<in> set (orders d) \<and> o_business_id r = a_business_id a \<and>
     (\<exists>x \<in> set (outlets d). out_business_id x = o_business_id r \<and> out_id x = o_outlet_id r \<and> out_is_active x) \<and>
     (\<exists>u \<in> set (users d). u_business_id u = a_business_id a \<and> u_id u = a_user_id a \<and> u_is_active u
        \<and> u_role u = role_of (is_admin a)) \<and>
     (is_admin a \<or> assigned d (a_business_id a) (a_user_id a) (o_outlet_id r))"

lemma lock_reads [reads_intro]: "reads (lockLifecycleOrder a i)"
  unfolding lockLifecycleOrder_def by (intro reads_intro)

lemma lock_Inr:
  assumes "lockLifecycleOrder a i w = (Inr r, w')"
  shows "same_data w w' \<and> may_operate (data w) a r \<and> o_id r = i"
proof -
  from assms obtain u where u: "GetOrderForUpdate (a_business_id a) i (is_admin a) (a_user_id a) w = (Inr r, u)"
    unfolding lockLifecycleOrder_def by (auto simp: run_inv split: if_splits)
  from one_select_Inr [OF this [unfolded GetOrderForUpdate_def]]
  obtain rs where sel: "[r. r \<leftarrow> orders (data w), x \<leftarrow> outlets (data w), u \<leftarrow> users (data w),
        out_business_id x = o_business_id r \<and> out_id x = o_outlet_id r \<and> out_is_active x \<and>
        u_business_id u = o_business_id r \<and> u_id u = a_user_id a \<and> u_is_active u \<and>
        u_role u = role_of (is_admin a) \<and>
        o_business_id r = a_business_id a \<and> o_id r = i \<and>
        (is_admin a \<or> assigned (data w) (o_business_id r) (a_user_id a) (o_outlet_id r))] = r # rs"
    (is "?sel = _") by auto
  have "r \<in> set ?sel" unfolding sel by simp
  then have "may_operate (data w) a r \<and> o_id r = i"
    by (auto simp: may_operate_def split: if_splits)
  then show ?thesis using readsD [OF lock_reads assms] by simp
qed

section \<open>What each write does\<close>

named_theorems write_effects \<open>the effect of a successful write on the data\<close>

lemma frame_seqs: "seqs v = (seqs w)(t := seqs w t + 1) \<Longrightarrow> seqs w t' \<le> seqs v t'"
  by simp

lemma audit_write [write_effects]:
  assumes "insert_audit mk w = (Inr a, v)"
  shows "a = mk (seqs w TAudit) (now w) (data w)
    \<and> data v = (data w)\<lparr>audit_logs := audit_logs (data w) @ [a]\<rparr> \<and> now v = now w"
  using insert_serial_Inr [OF assms [unfolded insert_audit_def]] by blast

lemma history_write [write_effects]:
  assumes "insert_history mk w = (Inr h, v)"
  shows "h = mk (seqs w THistory) (now w) (data w) \<and> insert_history_error (data w) h = None
    \<and> data v = (data w)\<lparr>order_status_history := order_status_history (data w) @ [h]\<rparr> \<and> now v = now w"
  using insert_serial_Inr [OF assms [unfolded insert_history_def]] by blast

lemma order_is_key: "order_is b i r \<Longrightarrow> order_is b i x \<Longrightarrow> o_id x = o_id r"
  by (simp add: order_is_def)

lemma payment_is_key: "payment_is b l i j r \<Longrightarrow> payment_is b l i j x \<Longrightarrow> p_id x = p_id r"
  by (simp add: payment_is_def)

lemma transition_write:
  assumes "orders_tbl.fresh w" and "r \<in> set (orders (data w))" and "order_is b i r"
    and "TransitionOrderStatus b i s w = (Inr r', v)"
  shows "r' = r\<lparr>o_status := s, o_completed_at := (if s = ''COMPLETED'' then Some (now w) else None),
                o_updated_at := now w\<rparr>
    \<and> update_order_error (data w) r' = None
    \<and> data v = (data w)\<lparr>orders := replace_row r r' (orders (data w))\<rparr> \<and> now v = now w"
  using orders_tbl.update_one [OF assms(1-3) _
      assms(4) [unfolded TransitionOrderStatus_def update_orders_def with_text_Inr, THEN conjunct2]]
    order_is_key [OF assms(3)] by blast

lemma cancel_write:
  assumes "orders_tbl.fresh w" and "r \<in> set (orders (data w))" and "order_is b i r"
    and "CancelOrder b i u reason w = (Inr r', v)"
  shows "r' = r\<lparr>o_status := ''CANCELLED'', o_cancelled_at := Some (now w), o_cancelled_by := Some u,
                o_cancellation_reason := Some reason, o_deleted_at := Some (now w),
                o_updated_at := now w\<rparr>
    \<and> update_order_error (data w) r' = None
    \<and> data v = (data w)\<lparr>orders := replace_row r r' (orders (data w))\<rparr> \<and> now v = now w"
  using orders_tbl.update_one [OF assms(1-3) _
      assms(4) [unfolded CancelOrder_def update_orders_def with_text_Inr, THEN conjunct2]]
    order_is_key [OF assms(3)] by blast

lemma payment_status_write:
  assumes "orders_tbl.fresh w" and "r \<in> set (orders (data w))" and "o_business_id r = b"
    and "o_outlet_id r = l" and "o_id r = i"
    and "UpdateOrderPaymentStatus b l i s w = (Inr r', v)"
  shows "r' = r\<lparr>o_payment_status := s, o_updated_at := now w\<rparr>
    \<and> update_order_error (data w) r' = None
    \<and> data v = (data w)\<lparr>orders := replace_row r r' (orders (data w))\<rparr> \<and> now v = now w"
proof -
  have "o_business_id r = b \<and> o_outlet_id r = l \<and> o_id r = i" using assms(3-5) by blast
  moreover have "o_id x = o_id r" if "o_business_id x = b \<and> o_outlet_id x = l \<and> o_id x = i" for x
    using that assms(5) by simp
  ultimately show ?thesis
    using orders_tbl.update_one [OF assms(1,2) _ _
      assms(6) [unfolded UpdateOrderPaymentStatus_def update_orders_def]] by blast
qed

lemma void_write:
  assumes "payments_tbl.fresh w" and "p \<in> set (payments (data w))" and "payment_is b l i j p"
    and "p_status p = ''CONFIRMED''"
    and "VoidConfirmedPayment b l i j u reason w = (Inr q, v)"
  shows "q = p\<lparr>p_status := ''VOIDED'', p_voided_at := Some (now w), p_voided_by := Some u,
               p_void_reason := Some reason\<rparr>
    \<and> update_payment_error (data w) q = None
    \<and> data v = (data w)\<lparr>payments := replace_row p q (payments (data w))\<rparr> \<and> now v = now w
    \<and> seqs v = seqs w"
  using payments_tbl.update_one [OF assms(1,2) _ _
      assms(5) [unfolded VoidConfirmedPayment_def with_text_Inr, THEN conjunct2]]
    assms(3,4) payment_is_key [OF assms(3)] by blast

lemma payment_write:
  assumes "payments_tbl.fresh w"
    and "CreateConfirmedPayment b l i amt mth ref nts u k hsh w = (Inr p, v)"
  shows "p_id p \<notin> p_id ` set (payments (data w)) \<and> payment_of_order b l i p \<and> p_amount p = amt
    \<and> p_status p = ''CONFIRMED'' \<and> p_idempotency_key p = Some k \<and> p_request_hash p = Some hsh
    \<and> insert_payment_error (data w) p = None
    \<and> data v = (data w)\<lparr>payments := payments (data w) @ [p]\<rparr> \<and> now v = now w"
proof -
  note I = insert_serial_Inr [OF assms(2) [unfolded CreateConfirmedPayment_def]]
  have "p_id p = seqs w TPayments" using I by simp
  moreover have "seqs w TPayments \<notin> p_id ` set (payments (data w))"
    using payments_tbl.fresh_below [OF assms(1)] by fastforce
  ultimately have "p_id p \<notin> p_id ` set (payments (data w))" by simp
  moreover have "payment_of_order b l i p \<and> p_amount p = amt \<and> p_status p = ''CONFIRMED''
      \<and> p_idempotency_key p = Some k \<and> p_request_hash p = Some hsh"
    using I by (simp add: payment_of_order_def)
  ultimately show ?thesis using I by blast
qed

lemma update_order_ok: "update_order_error d r = None \<Longrightarrow> order_check r"
  by (simp add: update_order_error_def split: if_splits)

lemma update_payment_ok: "update_payment_error d p = None \<Longrightarrow> payment_check p"
  by (simp add: update_payment_error_def split: if_splits)

section \<open>The life cycle refines the contract\<close>

lemma lock_as_Inr:
  assumes "on_err h (lockLifecycleOrder a i) w = (Inr r, w')"
  shows "same_data w w' \<and> may_operate (data w) a r \<and> o_id r = i"
  using assms by (simp add: on_err_Inr lock_Inr)

lemma fresh_same: "same_data w u \<Longrightarrow> orders_tbl.fresh w \<Longrightarrow> orders_tbl.fresh u"
  by (erule orders_tbl.fresh_frame) (simp_all add: same_data_def)

lemma Transition_refines:
  assumes fr: "orders_tbl.fresh w" and valid: "validStatusTarget s"
    and run: "Transition_body a i s notes w = (Inr res, w')"
  shows "\<exists>r. may_operate (data w) a r \<and> o_id r = i \<and> ledger_step (data w) (Moved r s) (data w')
    \<and> olr_OrderID res = i \<and> olr_Status res = s \<and> olr_PaymentStatus res = o_payment_status r"
proof -
  from run obtain r u r' v h x au where
    lock: "on_err (not_found_as ErrOrderNotFound) (lockLifecycleOrder a i) w = (Inr r, u)"
    and ok: "allowedOrderTransition (o_status r) s"
    and tr: "TransitionOrderStatus (a_business_id a) i s u = (Inr r', v)"
    and hi: "InsertOrderStatusHistory (a_business_id a) (o_outlet_id r) i (Some (o_status r)) s
               (a_user_id a) notes v = (Inr h, x)"
    and aud: "insertLifecycleAudit a (o_outlet_id r) i ''ORDER_STATUS_CHANGED''
              (JObj [(''status'', JStr (o_status r)), (''completed_at'', nullable_time (o_completed_at r))])
              (JObj [(''status'', JStr (o_status r')), (''completed_at'', nullable_time (o_completed_at r')),
                     (''notes'', nullable_str notes)]) x = (Inr au, w')"
    and res: "res = \<lparr>olr_OrderID = i, olr_Status = o_status r', olr_PaymentStatus = o_payment_status r',
          olr_UpdatedAt = o_updated_at r', olr_CompletedAt = o_completed_at r', olr_CancelledAt = None,
          olr_CancellationReason = None\<rparr>"
    unfolding Transition_body_def by (auto simp: run_inv split: if_splits)
  from lock_as_Inr [OF lock] have same: "same_data w u" and may: "may_operate (data w) a r"
    and i: "o_id r = i" by auto
  have d: "data u = data w" and b: "o_business_id r = a_business_id a"
    and r: "r \<in> set (orders (data u))"
    using same may by (auto simp: same_data_def may_operate_def)
  have "order_is (a_business_id a) i r" using b i by (simp add: order_is_def)
  note T = transition_write [OF fresh_same [OF same fr] r this tr]
  note H = history_write [OF hi [unfolded InsertOrderStatusHistory_def]]
  note A = audit_write [OF aud [unfolded insertLifecycleAudit_def on_err_Inr InsertOrderLifecycleAuditLog_def]]
  have s: "s \<noteq> ''CANCELLED''" using valid by (auto simp: validStatusTarget_def)
  have "data w' = (data w)\<lparr>orders := replace_row r r' (orders (data w)),
      order_status_history := order_status_history (data w) @ [h],
      audit_logs := audit_logs (data w) @ [au]\<rparr>"
    using T H A by (simp add: d)
  moreover have "ledger_step (data w) (Moved r s) \<dots>"
  proof (rule ledger_step.moved)
    show "r \<in> set (orders (data w))" using r d by simp
    show "same_terms r r'" and "o_status r' = s" and "o_payment_status r' = o_payment_status r"
      using T by (simp_all add: same_terms_def)
    show "order_check r'" using T update_order_ok by blast
    show "history_of r h" and "h_from_status h = Some (o_status r)" and "h_to_status h = s"
      using H b i by (simp_all add: history_of_def)
    show "audits (Moved r s) au" using A b i s by simp
  qed (use ok s in simp_all)
  ultimately show ?thesis using may i T res by auto
qed

lemma Cancel_refines:
  assumes fr: "orders_tbl.fresh w"
    and run: "Cancel_body a i reason w = (Inr res, w')"
  shows "\<exists>r. may_operate (data w) a r \<and> o_id r = i
    \<and> ledger_step (data w) (Moved r ''CANCELLED'') (data w')
    \<and> olr_OrderID res = i \<and> olr_Status res = ''CANCELLED'' \<and> olr_PaymentStatus res = ''UNPAID''
    \<and> olr_CancellationReason res = Some reason \<and> olr_CancelledAt res = Some (now w)"
proof -
  from run obtain r u r' v h x au old new where
    lock: "on_err (not_found_as ErrOrderNotFound) (lockLifecycleOrder a i) w = (Inr r, u)"
    and ok: "allowedOrderTransition (o_status r) ''CANCELLED''"
    and unpaid: "o_payment_status r = ''UNPAID''"
    and tr: "CancelOrder (a_business_id a) i (a_user_id a) reason u = (Inr r', v)"
    and hi: "InsertOrderStatusHistory (a_business_id a) (o_outlet_id r) i (Some (o_status r)) ''CANCELLED''
               (a_user_id a) (Some reason) v = (Inr h, x)"
    and aud: "insertLifecycleAudit a (o_outlet_id r) i ''ORDER_CANCELLED'' old new x = (Inr au, w')"
    and res: "res = \<lparr>olr_OrderID = i, olr_Status = o_status r', olr_PaymentStatus = o_payment_status r',
          olr_UpdatedAt = o_updated_at r', olr_CompletedAt = None, olr_CancelledAt = o_cancelled_at r',
          olr_CancellationReason = o_cancellation_reason r'\<rparr>"
    unfolding Cancel_body_def by (auto simp: run_inv split: if_splits)
  from lock_as_Inr [OF lock] have same: "same_data w u" and may: "may_operate (data w) a r"
    and i: "o_id r = i" by auto
  have d: "data u = data w" "now u = now w" and b: "o_business_id r = a_business_id a"
    and r: "r \<in> set (orders (data u))"
    using same may by (auto simp: same_data_def may_operate_def)
  have "order_is (a_business_id a) i r" using b i by (simp add: order_is_def)
  note T = cancel_write [OF fresh_same [OF same fr] r this tr]
  note H = history_write [OF hi [unfolded InsertOrderStatusHistory_def]]
  note A = audit_write [OF aud [unfolded insertLifecycleAudit_def on_err_Inr InsertOrderLifecycleAuditLog_def]]
  have "data w' = (data w)\<lparr>orders := replace_row r r' (orders (data w)),
      order_status_history := order_status_history (data w) @ [h],
      audit_logs := audit_logs (data w) @ [au]\<rparr>"
    using T H A by (simp add: d)
  moreover have "ledger_step (data w) (Moved r ''CANCELLED'') \<dots>"
  proof (rule ledger_step.moved)
    show "r \<in> set (orders (data w))" using r d by simp
    show "same_terms r r'" and "o_status r' = ''CANCELLED''" and "o_payment_status r' = o_payment_status r"
      using T by (simp_all add: same_terms_def)
    show "order_check r'" using T update_order_ok by blast
    show "history_of r h" and "h_from_status h = Some (o_status r)" and "h_to_status h = ''CANCELLED''"
      using H b i by (simp_all add: history_of_def)
    show "audits (Moved r ''CANCELLED'') au" using A b i by simp
  qed (use ok unpaid in simp_all)
  ultimately show ?thesis using may i T res unpaid d by auto
qed

section \<open>Payments refine the contract\<close>

lemma payment_steps_read [reads_intro]:
  "reads (ensureNoPaymentRefunds b l i)" "reads (paid_within a r i)"
  "reads (Record_replay a i input r p)"
  unfolding ensureNoPaymentRefunds_def paid_within_def Record_replay_def
  by (intro reads_intro)+

lemma paid_within_Inr:
  assumes "paid_within a r i w = (Inr paid, w')"
  shows "same_data w w' \<and> paid = confirmed_total (data w) (a_business_id a) (o_outlet_id r) i
    \<and> is_int64 paid \<and> paid \<le> o_total_amount r"
proof -
  from assms obtain u where
    one: "only_one (select (\<lambda>n d. [confirmed_total d (a_business_id a) (o_outlet_id r) i])) w = (Inr paid, u)"
    and "is_int64 paid" and "paid \<le> o_total_amount r"
    unfolding paid_within_def GetConfirmedPaymentTotal_def by (auto simp: run_inv split: if_splits)
  with one_select_Inr [OF one] readsD [OF payment_steps_read(2) assms] show ?thesis by auto
qed

text \<open>A payment's row lock and the guard against refunds.\<close>

lemma confirmed_total_nonneg:
  assumes "\<forall>p \<in> set (payments d). payment_check p"
  shows "0 \<le> confirmed_total d b l i"
  unfolding confirmed_total_def
  using assms by (auto intro!: sum_list_nonneg simp: payment_check_def less_imp_le)

lemma confirmed_total_append:
  "confirmed_total (d\<lparr>payments := payments d @ [p]\<rparr>) b l i =
     confirmed_total d b l i
       + (if payment_of_order b l i p \<and> p_status p = ''CONFIRMED'' then p_amount p else 0)"
  by (simp add: confirmed_total_def)

lemma confirmed_total_replace:
  assumes "distinct (payments d)" and "p \<in> set (payments d)"
  shows "confirmed_total (d\<lparr>payments := replace_row p q (payments d)\<rparr>) b l i =
     confirmed_total d b l i
       - (if payment_of_order b l i p \<and> p_status p = ''CONFIRMED'' then p_amount p else 0)
       + (if payment_of_order b l i q \<and> p_status q = ''CONFIRMED'' then p_amount q else 0)"
proof -
  let ?f = "\<lambda>r. if payment_of_order b l i r \<and> p_status r = ''CONFIRMED'' then p_amount r else 0"
  have "sum_list (map p_amount (filter (\<lambda>r. payment_of_order b l i r \<and> p_status r = ''CONFIRMED'') ps))
      = sum_list (map ?f ps)" for ps
    by (induction ps) simp_all
  then show ?thesis using sum_replace_row [OF assms, of ?f] by (simp add: confirmed_total_def)
qed

lemma payments_distinct: "payments_tbl.fresh w \<Longrightarrow> distinct (payments (data w))"
  using payments_tbl.fresh_distinct [of w] by (simp add: distinct_map)

lemma fresh_same_payments: "same_data w u \<Longrightarrow> payments_tbl.fresh w \<Longrightarrow> payments_tbl.fresh u"
  by (erule payments_tbl.fresh_frame) (simp_all add: same_data_def)

lemma Record_new_refines:
  assumes fr: "orders_tbl.fresh w" "payments_tbl.fresh w"
    and may: "may_operate (data w) a r" and i: "o_id r = i"
    and total: "is_int64 (o_total_amount r)" and st: "o_status r \<noteq> ''CANCELLED''"
    and pos: "0 \<le> paid_on (data w) r"
    and tender: "is_int64 (ri_TenderedAmount input)"
    and run: "Record_new a i input r w = (Inr res, w')"
  shows "\<exists>p. ledger_step (data w) (Paid r p) (data w') \<and> pr_Payment res = paymentFrom p
    \<and> pr_PaidAmount res = paid_on (data w) r + p_amount p
    \<and> pr_OutstandingAmount res = o_total_amount r - pr_PaidAmount res
    \<and> pr_PaymentStatus res = paymentStatusFor (o_total_amount r) (pr_PaidAmount res)
    \<and> p_amount p = min (ri_TenderedAmount input) (o_total_amount r - paid_on (data w) r)
    \<and> p_amount p + pr_ChangeAmount res = ri_TenderedAmount input \<and> 0 \<le> pr_ChangeAmount res
    \<and> (ri_Method input \<noteq> ''CASH'' \<longrightarrow> pr_ChangeAmount res = 0) \<and> \<not> pr_Replayed res
    \<and> p_idempotency_key p = Some (ri_IdempotencyKey input) \<and> p_request_hash p = Some (ri_RequestHash input)"
proof -
  obtain b l T where b: "o_business_id r = a_business_id a" "a_business_id a = b"
    and l: "o_outlet_id r = l" and T: "o_total_amount r = T"
    using may by (auto simp: may_operate_def)
  from run obtain paid u amt chg p v r' x old new au where
    pw: "paid_within a r i w = (Inr paid, u)"
    and out: "wrap64 (T - paid) > 0"
    and pa: "paymentAmounts (ri_Method input) (ri_TenderedAmount input) (wrap64 (T - paid)) = Inr (amt, chg)"
    and cr: "CreateConfirmedPayment b l i amt (ri_Method input) (ri_ExternalReference input)
        (ri_Notes input) (a_user_id a) (ri_IdempotencyKey input) (ri_RequestHash input) u = (Inr p, v)"
    and up: "UpdateOrderPaymentStatus b l i (paymentStatusFor T (wrap64 (paid + amt))) v = (Inr r', x)"
    and aud: "insertPaymentAudit a l (p_id p) ''PAYMENT_CONFIRMED'' old new x = (Inr au, w')"
    and res: "res = \<lparr>pr_Payment = paymentFrom p, pr_PaymentStatus = o_payment_status r',
              pr_PaidAmount = wrap64 (paid + amt), pr_OutstandingAmount = wrap64 (T - wrap64 (paid + amt)),
              pr_TenderedAmount = ri_TenderedAmount input, pr_ChangeAmount = chg, pr_Replayed = False\<rparr>"
    unfolding Record_new_def b l T
    by (auto simp: run_inv Let_def b l T not_le split: if_splits sum.splits prod.splits)
  from paid_within_Inr [OF pw] have same: "same_data w u" and paid: "paid = paid_on (data w) r"
    and le: "paid \<le> T"
    using b l i T by (auto simp: paid_on_def)
  have nowrap: "wrap64 (T - paid) = T - paid"
    using total T pos paid le by (simp add: wrap64_id is_int64_def)
  have i64: "is_int64 (T - paid)" using total T pos paid le by (simp add: is_int64_def)
  note PA = paymentAmounts_Inr [OF pa [unfolded nowrap] tender i64]
  have after: "wrap64 (paid + amt) = paid + amt" and after': "wrap64 (T - (paid + amt)) = T - (paid + amt)"
    using PA total T pos paid by (auto simp: wrap64_id is_int64_def)
  note P = payment_write [OF fresh_same_payments [OF same fr(2)] cr]
  have fv: "orders_tbl.fresh v"
    using fresh_same [OF same fr(1)] growsD(1) [OF payment_writes_grow(1) cr] P
    by (auto intro: orders_tbl.fresh_frame)
  have r: "r \<in> set (orders (data v))" using may P same by (simp add: may_operate_def same_data_def)
  have d: "data u = data w" using same by (simp add: same_data_def)
  note U = payment_status_write [OF fv r _ l i up]
  note A = audit_write [OF aud [unfolded insertPaymentAudit_def on_err_Inr InsertPaymentAuditLog_def]]
  have "data w' = (data w)\<lparr>orders := replace_row r r' (orders (data w)),
      payments := payments (data w) @ [p], audit_logs := audit_logs (data w) @ [au]\<rparr>"
    using U P A b by (simp add: d)
  moreover have "ledger_step (data w) (Paid r p) \<dots>"
  proof (rule ledger_step.paid)
    show "r \<in> set (orders (data w))" using may by (simp add: may_operate_def)
    show "payment_check p" and "\<not> payment_key_taken (data w) p"
      using P d by (simp_all add: insert_payment_error_def split: if_splits)
    show "paid_on (data w) r + p_amount p \<le> o_total_amount r"
      using P PA paid T by simp
    show "r' = r\<lparr>o_payment_status := paymentStatusFor (o_total_amount r) (paid_on (data w) r + p_amount p),
        o_updated_at := now v\<rparr>"
      using U b P after paid T by simp
    show "order_check r'" using U b update_order_ok by blast
    show "audits (Paid r p) au" using A b by simp
  qed (use P d st b l i in simp_all)
  moreover have "o_payment_status r' = paymentStatusFor T (paid + amt)" using U b after by simp
  ultimately have step: "ledger_step (data w) (Paid r p) (data w')" and
    status: "o_payment_status r' = paymentStatusFor T (paid + amt)" by simp_all
  have amt: "p_amount p = amt" "p_idempotency_key p = Some (ri_IdempotencyKey input)"
    "p_request_hash p = Some (ri_RequestHash input)" using P by simp_all
  have tend: "amt = min (ri_TenderedAmount input) (T - paid)" "amt + chg = ri_TenderedAmount input"
      "0 \<le> chg" "ri_Method input \<noteq> ''CASH'' \<longrightarrow> chg = 0"
    using PA by linarith+
  have "pr_PaidAmount res = paid + amt" "pr_OutstandingAmount res = T - (paid + amt)"
    "pr_PaymentStatus res = paymentStatusFor T (paid + amt)"
    using res after after' status by simp_all
  then show ?thesis
    using step tend res unfolding T paid [symmetric] by (intro exI [of _ p] conjI) (simp_all add: amt)
qed

lemma one_filter_Inr:
  assumes "only_one (select (\<lambda>n d. filter P (get d))) w = (Inr r, w')"
  shows "r \<in> set (get (data w)) \<and> P r \<and> same_data w w'"
proof -
  from one_select_Inr [OF assms] obtain rs where f: "filter P (get (data w)) = r # rs"
    and s: "same_data w w'" by auto
  have "r \<in> set (filter P (get (data w)))" unfolding f by simp
  with s show ?thesis by simp
qed

lemma payment_lookup_Inr:
  assumes "GetPaymentByIdempotencyKey b l i k w = (Inr p, w')"
  shows "p \<in> set (payments (data w)) \<and> payment_of_order b l i p \<and> p_idempotency_key p = Some k"
  using one_filter_Inr [OF assms [unfolded GetPaymentByIdempotencyKey_def with_text_Inr, THEN conjunct2]]
  by simp

lemma payment_lock_Inr:
  assumes "GetOrderPaymentForUpdate b l i j w = (Inr p, w')"
  shows "p \<in> set (payments (data w)) \<and> payment_is b l i j p"
  using one_filter_Inr [OF assms [unfolded GetOrderPaymentForUpdate_def]] by simp

text \<open>
  What the operations rely on and keep: ids below the sequences, rows within their constraints, the
  paid amount within the total and the status that follows from it.
\<close>

definition order_sound :: "db \<Rightarrow> order_row \<Rightarrow> bool" where
  "order_sound d r \<longleftrightarrow> order_check r \<and> is_int64 (o_total_amount r)
     \<and> paid_on d r \<le> o_total_amount r
     \<and> o_payment_status r = paymentStatusFor (o_total_amount r) (paid_on d r)"

lemma Record_refines:
  assumes fr: "orders_tbl.fresh w" "payments_tbl.fresh w"
    and sound: "\<forall>r \<in> set (orders (data w)). order_sound (data w) r"
    and pays: "\<forall>p \<in> set (payments (data w)). payment_check p"
    and tender: "is_int64 (ri_TenderedAmount input)"
    and run: "Record_body a i input w = (Inr res, w')"
  shows "\<exists>r. may_operate (data w) a r \<and> o_id r = i \<and> o_status r \<noteq> ''CANCELLED'' \<and>
    (pr_Replayed res \<and> data w' = data w
       \<and> (\<exists>p \<in> set (payments (data w)). payment_of r p
            \<and> p_idempotency_key p = Some (ri_IdempotencyKey input)
            \<and> p_request_hash p = Some (ri_RequestHash input) \<and> pr_Payment res = paymentFrom p
            \<and> pr_PaidAmount res = paid_on (data w) r)
     \<or> \<not> pr_Replayed res \<and> (\<exists>p. ledger_step (data w) (Paid r p) (data w')
            \<and> pr_Payment res = paymentFrom p
            \<and> pr_PaidAmount res = paid_on (data w) r + p_amount p
            \<and> pr_OutstandingAmount res = o_total_amount r - pr_PaidAmount res
            \<and> pr_PaymentStatus res = paymentStatusFor (o_total_amount r) (pr_PaidAmount res)
            \<and> p_amount p = min (ri_TenderedAmount input) (o_total_amount r - paid_on (data w) r)
            \<and> p_amount p + pr_ChangeAmount res = ri_TenderedAmount input
            \<and> 0 \<le> pr_ChangeAmount res \<and> (ri_Method input \<noteq> ''CASH'' \<longrightarrow> pr_ChangeAmount res = 0)
            \<and> p_idempotency_key p = Some (ri_IdempotencyKey input)
            \<and> p_request_hash p = Some (ri_RequestHash input)))"
proof -
  from run obtain r u v x found where
    lock: "on_err (not_found_as ErrPaymentNotFound) (lockLifecycleOrder a i) w = (Inr r, u)"
    and st: "o_status r \<noteq> ''CANCELLED''"
    and nor: "ensureNoPaymentRefunds (a_business_id a) (o_outlet_id r) i u = (Inr (), v)"
    and look: "GetPaymentByIdempotencyKey (a_business_id a) (o_outlet_id r) i (ri_IdempotencyKey input) v
        = (found, x)"
    and fin: "(case found of Inr existing \<Rightarrow> Record_replay a i input r existing
       | Inl e \<Rightarrow> if e = NoRows then Record_new a i input r else fail (Sql e)) x = (Inr res, w')"
    unfolding Record_body_def by (auto simp: run_inv split: if_splits)
  from lock_as_Inr [OF lock] have may: "may_operate (data w) a r" and i: "o_id r = i"
    and wu: "same_data w u" by auto
  have vx: "same_data v x" using readsD [OF payment_queries_read(1) look] .
  have uv: "same_data u v" using readsD [OF payment_steps_read(1) nor] .
  have same: "same_data w x" using wu uv vx by (blast intro: same_data_trans)
  then have d: "data x = data w" "data v = data w" using vx by (simp_all add: same_data_def)
  have b: "o_business_id r = a_business_id a" using may by (simp add: may_operate_def)
  have rs: "order_sound (data w) r" using sound may by (simp add: may_operate_def)
  show ?thesis
  proof (cases found)
    case (Inr p)
    with look have p: "p \<in> set (payments (data w)) \<and> payment_of r p
        \<and> p_idempotency_key p = Some (ri_IdempotencyKey input)"
      using payment_lookup_Inr d b i by metis
    from fin Inr have rep: "Record_replay a i input r p x = (Inr res, w')" by simp
    then obtain paid where h: "p_request_hash p = Some (ri_RequestHash input)"
      and pw: "paid_within a r i x = (Inr paid, w')"
      and res: "pr_Payment res = paymentFrom p" "pr_PaidAmount res = paid" "pr_Replayed res"
      unfolding Record_replay_def by (auto simp: run_inv split: if_splits)
    have "data w' = data w" using readsD [OF payment_steps_read(2) pw] d by (simp add: same_data_def)
    moreover have "paid = paid_on (data w) r" using paid_within_Inr [OF pw] d b i by (simp add: paid_on_def)
    ultimately show ?thesis using may i st p h res by blast
  next
    case (Inl e)
    with fin have new: "Record_new a i input r x = (Inr res, w')"
      by (auto simp: run_inv split: if_splits)
    have nn: "0 \<le> paid_on (data x) r" unfolding paid_on_def using pays d confirmed_total_nonneg by metis
    have mayx: "may_operate (data x) a r" and i64: "is_int64 (o_total_amount r)"
      using may rs d by (simp_all add: order_sound_def)
    from Record_new_refines [OF fresh_same [OF same fr(1)] fresh_same_payments [OF same fr(2)]
        mayx i i64 st nn tender new]
    show ?thesis using may i st unfolding d by blast
  qed
qed

lemma paid_on_void:
  assumes "payments_tbl.fresh w" and "p \<in> set (payments (data w))" and "payment_of r p"
    and "p_status p = ''CONFIRMED''" and "p_status q = ''VOIDED''"
  shows "paid_on ((data w)\<lparr>payments := replace_row p q (payments (data w))\<rparr>) r
    = paid_on (data w) r - p_amount p"
  using confirmed_total_replace [OF payments_distinct [OF assms(1)] assms(2)] assms(3-5)
  by (simp add: paid_on_def)

lemma Void_refines:
  assumes fr: "orders_tbl.fresh w" "payments_tbl.fresh w"
    and sound: "\<forall>r \<in> set (orders (data w)). order_sound (data w) r"
    and pays: "\<forall>p \<in> set (payments (data w)). payment_check p"
    and run: "Void_body a i j reason w = (Inr res, w')"
  shows "\<exists>r p. may_operate (data w) a r \<and> o_id r = i \<and> p \<in> set (payments (data w)) \<and> p_id p = j
    \<and> payment_of r p \<and>
    (data w' = data w \<and> p_status p = ''VOIDED'' \<and> p_voided_by p = Some (a_user_id a)
       \<and> p_void_reason p = Some reason \<and> pv_Payment res = paymentFrom p
       \<and> pv_PaidAmount res = paid_on (data w) r
     \<or> ledger_step (data w) (Voided r p) (data w') \<and> pv_PaidAmount res = paid_on (data w) r - p_amount p
       \<and> pa_Status (pv_Payment res) = ''VOIDED'' \<and> pa_ID (pv_Payment res) = j)"
proof -
  from run obtain r u v p x where
    lock: "on_err (not_found_as ErrPaymentNotFound) (lockLifecycleOrder a i) w = (Inr r, u)"
    and nor: "ensureNoPaymentRefunds (a_business_id a) (o_outlet_id r) i u = (Inr (), v)"
    and look: "GetOrderPaymentForUpdate (a_business_id a) (o_outlet_id r) i j v = (Inr p, x)"
    and fin: "(if p_status p = ''VOIDED'' \<and> p_voided_by p = Some (a_user_id a) \<and> p_void_reason p = Some reason
     then tbind (paid_within a r i) (\<lambda>paid.
            ret (void_result r p (paymentStatusFor (o_total_amount r) paid) paid))
     else if p_status p \<noteq> ''CONFIRMED'' then fail ErrPaymentNotVoidable
     else
     tbind (exec (VoidConfirmedPayment (a_business_id a) (o_outlet_id r) i j (a_user_id a) reason)) (\<lambda>voided.
     tbind (paid_within a r i) (\<lambda>paid.
     let status = paymentStatusFor (o_total_amount r) paid in
     tbind (exec (UpdateOrderPaymentStatus (a_business_id a) (o_outlet_id r) i status)) (\<lambda>updated.
     tbind (insertPaymentAudit a (o_outlet_id r) j ''PAYMENT_VOIDED''
              (JObj [(''payment_id'', JInt j), (''amount'', JInt (p_amount p)),
                     (''status'', JStr (p_status p)), (''payment_status'', JStr (o_payment_status r))])
              (JObj [(''payment_id'', JInt j), (''amount'', JInt (p_amount p)),
                     (''status'', JStr (p_status voided)), (''voided_by'', JInt (a_user_id a)),
                     (''void_reason'', JStr reason),
                     (''payment_status'', JStr (o_payment_status updated)),
                     (''paid_amount'', JInt paid),
                     (''outstanding_amount'', JInt (wrap64 (o_total_amount r - paid)))])) (\<lambda>_.
     ret (void_result r voided (o_payment_status updated) paid)))))) x = (Inr res, w')"
    unfolding Void_body_def by (auto simp: run_inv)
  from lock_as_Inr [OF lock] have may: "may_operate (data w) a r" and i: "o_id r = i"
    and wu: "same_data w u" by auto
  have uv: "same_data u v" using readsD [OF payment_steps_read(1) nor] .
  have vx: "same_data v x" using readsD [OF payment_queries_read(6) look] .
  have same: "same_data w x" using wu uv vx by (blast intro: same_data_trans)
  have dv: "data v = data w" and d: "data x = data w" using same vx by (simp_all add: same_data_def)
  obtain b l T where b: "o_business_id r = a_business_id a" "a_business_id a = b"
    and l: "o_outlet_id r = l" and T: "o_total_amount r = T"
    using may by (auto simp: may_operate_def)
  have p: "p \<in> set (payments (data w))" "payment_is b l i j p"
    using payment_lock_Inr [OF look] dv b l by auto
  then have pj: "p_id p = j" and po: "payment_of r p" using b l i by (simp_all add: payment_is_def)
  show ?thesis
  proof (cases "p_status p = ''VOIDED'' \<and> p_voided_by p = Some (a_user_id a) \<and> p_void_reason p = Some reason")
    case True
    with fin obtain paid where pw: "paid_within a r i x = (Inr paid, w')"
      and res: "res = void_result r p (paymentStatusFor (o_total_amount r) paid) paid"
      by (auto simp: run_inv)
    have "data w' = data w" using readsD [OF payment_steps_read(2) pw] d by (simp add: same_data_def)
    moreover have "paid = paid_on (data w) r" using paid_within_Inr [OF pw] d b i by (simp add: paid_on_def)
    ultimately show ?thesis using may i p(1) pj po True res by (auto simp: void_result_def)
  next
    case False
    with fin obtain q y paid z r' t old new au where
      st: "p_status p = ''CONFIRMED''"
      and vo: "VoidConfirmedPayment b l i j (a_user_id a) reason x = (Inr q, y)"
      and pw: "paid_within a r i y = (Inr paid, z)"
      and up: "UpdateOrderPaymentStatus b l i (paymentStatusFor T paid) z = (Inr r', t)"
      and aud: "insertPaymentAudit a l j ''PAYMENT_VOIDED'' old new t = (Inr au, w')"
      and res: "res = void_result r q (o_payment_status r') paid"
      unfolding b l T by (auto simp: run_inv Let_def b l T split: if_splits)
    note V = void_write [OF fresh_same_payments [OF same fr(2)] _ p(2) st vo]
    have Vd: "data y = (data w)\<lparr>payments := replace_row p q (payments (data w))\<rparr>"
      and Vq: "q = p\<lparr>p_status := ''VOIDED'', p_voided_at := Some (now x),
                 p_voided_by := Some (a_user_id a), p_void_reason := Some reason\<rparr>"
      and Vc: "payment_check q" and Vs: "seqs y = seqs x"
      using V p(1) d update_payment_ok by auto
    note W = paid_within_Inr [OF pw]
    have qs: "p_status q = ''VOIDED''" unfolding Vq by simp
    have paid: "paid = paid_on (data w) r - p_amount p" and le: "paid \<le> T"
      using W paid_on_void [OF fr(2) p(1) po st qs] Vd b l i T by (auto simp: paid_on_def)
    have fz: "orders_tbl.fresh z"
      using fresh_same [OF same fr(1)] W Vd Vs d
      by (auto intro: orders_tbl.fresh_frame simp: same_data_def)
    have nz: "now z = now x" using V p(1) d W by (simp add: same_data_def)
    have dz: "data z = data y" using W by (simp add: same_data_def)
    have r: "r \<in> set (orders (data z))" using may dz Vd by (simp add: may_operate_def)
    note U = payment_status_write [OF fz r _ l i up]
    note A = audit_write [OF aud [unfolded insertPaymentAudit_def on_err_Inr InsertPaymentAuditLog_def]]
    have "data w' = (data w)\<lparr>orders := replace_row r r' (orders (data w)),
        payments := replace_row p q (payments (data w)), audit_logs := audit_logs (data w) @ [au]\<rparr>"
      using U A b by (simp add: dz Vd)
    moreover have "ledger_step (data w) (Voided r p) \<dots>"
    proof (rule ledger_step.voided [OF _ p(1) po st Vq Vc])
      show "r \<in> set (orders (data w))" using may by (simp add: may_operate_def)
      show "paid_on (data w) r - p_amount p \<le> o_total_amount r" using le paid T by simp
      show "r' = r\<lparr>o_payment_status := paymentStatusFor (o_total_amount r) (paid_on (data w) r - p_amount p),
          o_updated_at := now x\<rparr>" using U b paid T nz by simp
      show "order_check r'" using U b update_order_ok by blast
      show "audits (Voided r p) au" using A b pj by simp
    qed
    moreover have "pa_ID (paymentFrom q) = j" "pa_Status (paymentFrom q) = ''VOIDED''"
      unfolding Vq by (simp_all add: paymentFrom_def pj)
    ultimately show ?thesis using may i p(1) pj po res paid by (auto simp: void_result_def)
  qed
qed

end
