(* ===== verification/Placement.thy ===== *)
theory Placement
  imports Ledger
begin

text \<open>
  Placing an order refines the contract of the ledger: what the pricing loop computes, what the
  writes of Create store, and the event a successful creation performs.
\<close>

section \<open>Creation refines the contract\<close>

text \<open>The items of an order as the source loads them.\<close>

definition stored_items :: "db \<Rightarrow> order_row \<Rightarrow> item_row list" where
  "stored_items d r = sort_key it_id (filter (item_of r) (order_items d))"

lemma create_steps_read [reads_intro]:
  "reads (loadOrder r tz)" "reads (Create_outlet a input)" "reads (Create_replay input ex)"
  "reads (Create_perfume a input)" "reads (price_line a rq)"
  unfolding loadOrder_def Create_outlet_def Create_replay_def Create_perfume_def price_line_def
  by (intro reads_intro)+

lemma price_lines_reads [reads_intro]: "reads (price_lines a t items)"
  by (induction items arbitrary: t) (auto intro!: reads_intro)

lemma loadOrder_Inr:
  assumes "loadOrder r tz w = (Inr od, w')"
  shows "od = order_from r tz (stored_items (data w) r)"
proof -
  from assms obtain items u where
    "ListOrderItems (o_business_id r) (o_outlet_id r) (o_id r) w = (Inr items, u)"
    and od: "od = order_from r tz items"
    unfolding loadOrder_def by (auto simp: run_inv)
  then have "items = stored_items (data w) r"
    unfolding ListOrderItems_def by (auto dest!: select_Inr simp: stored_items_def item_of_def [abs_def])
  with od show ?thesis by simp
qed

text \<open>A priced line: the service is the tenant's and active, the amount is the rounded product.\<close>

definition priced :: "db \<Rightarrow> i64 \<Rightarrow> OrderItemInput \<Rightarrow> calculatedLine \<Rightarrow> bool" where
  "priced d b requested line \<longleftrightarrow>
     cl_input line = requested \<and>
     (\<exists>s \<in> set (services d). sv_business_id s = b \<and> sv_id s = in_ServiceID requested \<and> sv_is_active s
        \<and> sv_deleted_at s = None \<and> cl_serviceName line = sv_name s \<and> cl_unit line = sv_unit s
        \<and> cl_price line = sv_unit_price_amount s) \<and>
     parseMilliQuantity (in_Quantity requested) = Inr (cl_milli line) \<and>
     (cl_unit line = ''pcs'' \<longrightarrow> cl_milli line mod 1000 = 0) \<and>
     lineTotalFor (cl_milli line) (cl_price line) = Inr (cl_lineTotal line)"

lemma price_line_Inr:
  assumes "price_line a rq w = (Inr line, w')"
  shows "priced (data w) (a_business_id a) rq line"
proof -
  from assms obtain s u where
    sv: "GetActiveOrderService (a_business_id a) (in_ServiceID rq) w = (Inr s, u)"
    and fin: "(case parseMilliQuantity (in_Quantity rq) of
       Inl _ \<Rightarrow> fail ErrInvalidOrderQuantity
     | Inr milli \<Rightarrow>
         if sv_unit s = ''pcs'' \<and> go_rem milli 1000 \<noteq> 0 then fail ErrInvalidOrderQuantity
         else case lineTotalFor milli (sv_unit_price_amount s) of
           Inl e \<Rightarrow> fail e
         | Inr lineTotal \<Rightarrow>
             ret \<lparr>cl_input = rq, cl_serviceName = sv_name s, cl_unit = sv_unit s,
                  cl_price = sv_unit_price_amount s, cl_milli = milli, cl_lineTotal = lineTotal\<rparr>) u
        = (Inr line, w')"
    unfolding price_line_def by (auto simp: run_inv)
  from fin obtain milli t where m: "parseMilliQuantity (in_Quantity rq) = Inr milli"
    and pcs: "sv_unit s = ''pcs'' \<longrightarrow> go_rem milli 1000 = 0"
    and t: "lineTotalFor milli (sv_unit_price_amount s) = Inr t"
    and line: "line = \<lparr>cl_input = rq, cl_serviceName = sv_name s, cl_unit = sv_unit s,
                  cl_price = sv_unit_price_amount s, cl_milli = milli, cl_lineTotal = t\<rparr>"
    by (auto simp: run_inv split: sum.splits if_splits)
  have "0 \<le> milli" using parseMilliQuantity_bounds [OF m] by simp
  then show ?thesis
    using one_filter_Inr [OF sv [unfolded GetActiveOrderService_def]] m pcs t line
    by (auto simp: priced_def go_rem_nonneg)
qed

lemma price_lines_Inr:
  assumes "price_lines a t items w = (Inr (lines, t'), w')"
  shows "list_all2 (priced (data w) (a_business_id a)) items lines
    \<and> t' = t + sum_list (map cl_lineTotal lines) \<and> (items \<noteq> [] \<longrightarrow> is_int64 t')"
  using assms
proof (induction a t items arbitrary: w lines rule: price_lines.induct)
  case (1 a t)
  then show ?case by (simp add: run_inv)
next
  case (2 a t rq rest)
  then obtain line u lines' where
    l: "price_line a rq w = (Inr line, u)" and i64: "is_int64 (t + cl_lineTotal line)"
    and r: "price_lines a (t + cl_lineTotal line) rest u = (Inr (lines', t'), w')"
    and lines: "lines = line # lines'"
    by (auto simp: run_inv Let_def split: if_splits)
  have "data u = data w" using readsD [OF create_steps_read(5) l] by (simp add: same_data_def)
  with "2.IH" [OF refl _ r] i64 price_line_Inr [OF l] lines r show ?case
    by (cases rest) (auto simp: run_inv)
qed

lemma allocate_Inr:
  assumes "AllocateInvoiceNumber b l day w = (Inr (day', n), v)"
  shows "day' = day \<and> n = next_sequence b l day (invoice_counters (data w))
    \<and> data v = (data w)\<lparr>invoice_counters := bump_counter b l day (now w) (invoice_counters (data w))\<rparr>
    \<and> seqs v = seqs w \<and> now v = now w"
  using assms unfolding AllocateInvoiceNumber_def
  by (auto dest!: stmt_Inr simp: same_data_def Let_def next_sequence_def bump_counter_def
      split: option.splits if_splits)

section \<open>The writes of a creation\<close>

text \<open>What a stored item keeps of its line: the service, and its name, unit and price of that moment.\<close>

definition stores_line :: "calculatedLine \<Rightarrow> item_row \<Rightarrow> bool" where
  "stores_line line x \<longleftrightarrow> it_line_total_amount x = cl_lineTotal line \<and> it_quantity x = cl_milli line
     \<and> it_service_id x = in_ServiceID (cl_input line) \<and> it_unit_price_amount_snapshot x = cl_price line
     \<and> it_service_name_snapshot x = cl_serviceName line \<and> it_service_unit_snapshot x = cl_unit line"

lemma create_line_Inr:
  assumes "create_line a input pf r line w = (Inr x, v)"
  shows "it_business_id x = a_business_id a \<and> it_outlet_id x = ci_OutletID input \<and> it_order_id x = o_id r
    \<and> stores_line line x
    \<and> it_id x = seqs w TItems
    \<and> item_check x \<and> data v = (data w)\<lparr>order_items := order_items (data w) @ [x]\<rparr>
    \<and> seqs v = (seqs w)(TItems := seqs w TItems + 1) \<and> now v = now w"
proof -
  note I = insert_serial_Inr [OF assms [unfolded create_line_def on_err_Inr CreateOrderItem_def]]
  have "item_check x"
    using I by (cases "insert_item_error (data w) x") (auto simp: insert_item_error_def split: if_splits)
  with I show ?thesis by (simp add: stores_line_def)
qed

lemma create_lines_Inr:
  assumes "each (create_line a input pf r) lines w = (Inr xs, v)"
  shows "list_all2 stores_line lines xs
    \<and> list_all (\<lambda>x. it_business_id x = a_business_id a \<and> it_outlet_id x = ci_OutletID input
        \<and> it_order_id x = o_id r \<and> item_check x \<and> seqs w TItems \<le> it_id x \<and> it_id x < seqs v TItems) xs
    \<and> sorted_wrt (\<lambda>x y. it_id x < it_id y) xs
    \<and> data v = (data w)\<lparr>order_items := order_items (data w) @ xs\<rparr> \<and> now v = now w
    \<and> seqs w TItems \<le> seqs v TItems \<and> (\<forall>t. t \<noteq> TItems \<longrightarrow> seqs v t = seqs w t)"
  using assms
proof (induction lines arbitrary: w xs)
  case Nil
  then show ?case by (simp add: run_inv)
next
  case (Cons line lines)
  then obtain x u xs' where x: "create_line a input pf r line w = (Inr x, u)"
    and r: "each (create_line a input pf r) lines u = (Inr xs', v)" and xs: "xs = x # xs'"
    by (auto simp: run_inv)
  note X = create_line_Inr [OF x] and R = Cons.IH [OF r]
  have "list_all (\<lambda>y. seqs w TItems + 1 \<le> it_id y) xs'"
    using X R by (auto simp: list_all_iff)
  then show ?case using X R xs by (auto simp: list_all_iff)
qed

lemma order_write:
  assumes "orders_tbl.fresh w" and "CreateOrder arg w = (Inr r, v)"
  shows "o_id r \<notin> o_id ` set (orders (data w)) \<and> insert_order_error (data w) r = None
    \<and> o_business_id r = cop_BusinessID arg \<and> o_outlet_id r = cop_OutletID arg
    \<and> o_customer_id r = cop_CustomerID arg
    \<and> o_invoice_number r = cop_InvoiceNumber arg \<and> o_status r = ''RECEIVED''
    \<and> o_payment_status r = ''UNPAID'' \<and> o_total_amount r = cop_TotalAmount arg
    \<and> o_idempotency_key r = cop_IdempotencyKey arg \<and> o_request_hash r = cop_RequestHash arg
    \<and> o_due_at r = cop_DueAt arg \<and> data v = (data w)\<lparr>orders := orders (data w) @ [r]\<rparr> \<and> now v = now w"
proof -
  note I = insert_serial_Inr [OF assms(2) [unfolded CreateOrder_def insert_order_def Let_def]]
  have "o_id r = seqs w TOrders" using I by simp
  moreover have "seqs w TOrders \<notin> o_id ` set (orders (data w))"
    using orders_tbl.fresh_below [OF assms(1)] by fastforce
  moreover have "o_business_id r = cop_BusinessID arg \<and> o_outlet_id r = cop_OutletID arg
    \<and> o_customer_id r = cop_CustomerID arg
    \<and> o_invoice_number r = cop_InvoiceNumber arg \<and> o_status r = ''RECEIVED''
    \<and> o_payment_status r = ''UNPAID'' \<and> o_total_amount r = cop_TotalAmount arg
    \<and> o_idempotency_key r = cop_IdempotencyKey arg \<and> o_request_hash r = cop_RequestHash arg
    \<and> o_due_at r = cop_DueAt arg"
    using I by simp
  ultimately show ?thesis using I by auto
qed

lemma insert_order_error_counters [simp]:
  "insert_order_error (d\<lparr>invoice_counters := cs\<rparr>) r = insert_order_error d r"
  by (simp add: insert_order_error_def invoice_taken_def order_key_taken_def outlet_exists_def
      user_exists_def)

lemma Create_write_refines:
  assumes fr: "orders_tbl.fresh w" and clock: "0 \<le> now w" and some: "lines \<noteq> []"
    and total: "is_int64 amount" "amount = sum_list (map cl_lineTotal lines)"
    and run: "Create_write a input outlet pf lines amount w = (Inr res, w')"
  shows "\<exists>r xs. ledger_step (data w) (Placed r xs) (data w')
    \<and> list_all2 stores_line lines xs
    \<and> ocr_Order res = order_from r (out_timezone outlet) (stored_items (data w') r) \<and> \<not> ocr_Replayed res
    \<and> o_business_id r = a_business_id a \<and> o_outlet_id r = ci_OutletID input
    \<and> o_customer_id r = ci_CustomerID input
    \<and> o_idempotency_key r = Some (ci_IdempotencyKey input)
    \<and> o_request_hash r = Some (ci_RequestHash input)
    \<and> due_encodes input \<and> o_due_at r = map_option zt_at (ci_DueAt input)"
proof -
  from run obtain received day u day' n v r x xs y h z au t od where
    tm: "GetOrderTime w = (Inr (received, day), u)"
    and al: "AllocateInvoiceNumber (a_business_id a) (ci_OutletID input) day u = (Inr (day', n), v)"
    and cr: "CreateOrder (create_order_params a input outlet received
        (invoice_number (out_code outlet) day' n) amount) v = (Inr r, x)"
    and it: "each (create_line a input pf r) lines x = (Inr xs, y)"
    and hi: "CreateInitialOrderStatus (a_business_id a) (ci_OutletID input) (o_id r) (a_user_id a) y = (Inr h, z)"
    and aud: "InsertOrderAuditLog (a_business_id a) (Some (ci_OutletID input))
              (Some (a_user_id a)) (Some (o_id r))
              (create_audit_values input (snd pf) (invoice_number (out_code outlet) day' n) amount lines)
              (a_ip a) (audit_user_agent (a_user_agent a)) z = (Inr au, t)"
    and ld: "loadOrder r (out_timezone outlet) t = (Inr od, w')"
    and enc: "due_encodes input"
    and res: "res = \<lparr>ocr_Order = od, ocr_Replayed = False\<rparr>"
    unfolding Create_write_def by (auto simp: run_inv Let_def split: prod.splits if_splits)
  have wu: "same_data w u" using readsD [OF order_queries_read(7) tm] .
  note L = allocate_Inr [OF al]
  have fv: "orders_tbl.fresh v" using fresh_same [OF wu fr] L
    by (auto intro: orders_tbl.fresh_frame)
  note R = order_write [OF fv cr, unfolded create_order_params_def, simplified]
  note X = create_lines_Inr [OF it]
  note H = history_write [OF hi [unfolded CreateInitialOrderStatus_def]]
  note A = audit_write [OF aud [unfolded InsertOrderAuditLog_def]]
  have d: "data u = data w" using wu by (simp add: same_data_def)
  have t: "data w' = data t" using readsD [OF create_steps_read(1) ld] by (simp add: same_data_def)
  have data: "data w' = (data w)\<lparr>orders := orders (data w) @ [r],
      order_items := order_items (data w) @ xs,
      order_status_history := order_status_history (data w) @ [h],
      invoice_counters := bump_counter (o_business_id r) (o_outlet_id r) day (now u) (invoice_counters (data w)),
      audit_logs := audit_logs (data w) @ [au]\<rparr>"
    using L R X H A by (simp add: t d)
  have "ledger_step (data w) (Placed r xs) (data w')"
    unfolding data
  proof (rule ledger_step.placed)
    show "o_id r \<notin> o_id ` set (orders (data w))" using R L d by simp
    show "insert_order_error (data w) r = None" using R L d by simp
    show "is_int64 (o_total_amount r)" using R total by simp
    show "xs \<noteq> []" using X some by auto
    show "list_all (\<lambda>x. item_of r x \<and> item_check x) xs"
      using X R by (auto simp: item_of_def list_all_iff)
    have "list_all2 (\<lambda>line x. cl_lineTotal line = it_line_total_amount x) lines xs"
      using X by (auto simp: stores_line_def elim: list_all2_mono)
    then have "map cl_lineTotal lines = map it_line_total_amount xs"
      by (induction rule: list_all2_induct) simp_all
    then show "o_total_amount r = sum_list (map it_line_total_amount xs)" using R total by simp
    show "o_invoice_number r = invoice_number (out_code outlet) day
       (next_sequence (o_business_id r) (o_outlet_id r) day (invoice_counters (data w)))"
      using R L d by simp
    show "history_of r h" and "h_from_status h = None" and "h_to_status h = ''RECEIVED''"
      using H R by (simp_all add: history_of_def)
    show "audits (Placed r xs) au" using A R by simp
    have "day = jakarta_date (now w)"
      using one_select_Inr [OF tm [unfolded GetOrderTime_def]] by auto
    then show "0 \<le> day" using clock by (simp add: jakarta_date_nonneg)
  qed (use R in simp_all)
  then show ?thesis using loadOrder_Inr [OF ld] t res X R enc by auto
qed

section \<open>Create\<close>

definition may_create :: "db \<Rightarrow> actor \<Rightarrow> outlet_row \<Rightarrow> bool" where
  "may_create d a x \<longleftrightarrow> x \<in> set (outlets d) \<and> out_business_id x = a_business_id a \<and> out_is_active x
     \<and> (is_admin a \<or> assigned d (a_business_id a) (a_user_id a) (out_id x))"

lemma Create_outlet_Inr:
  assumes "Create_outlet a input w = (Inr x, w')"
  shows "may_create (data w) a x \<and> out_id x = ci_OutletID input"
proof -
  from assms obtain u v where lk: "LockOrderIdempotency (order_lock_key a input) w = (Inr (), u)"
    and ot: "GetActiveOrderOutlet (a_business_id a) (ci_OutletID input) u = (Inr x, v)"
    and st: "is_admin a \<or> (\<exists>y z. GetActiveStaffOrderOutlet (a_business_id a) (a_user_id a) (ci_OutletID input) v = (Inr y, z))"
    unfolding Create_outlet_def by (auto simp: run_inv split: if_splits)
  have "same_data w u" by (rule readsD [OF order_queries_read(1) lk])
  moreover note O = one_filter_Inr [OF ot [unfolded GetActiveOrderOutlet_def]]
  ultimately have du: "data u = data w" and dv: "data v = data w" by (simp_all add: same_data_def)
  have "assigned (data w) (a_business_id a) (a_user_id a) (ci_OutletID input)" if "\<not> is_admin a"
  proof -
    from st that obtain y z where
      "GetActiveStaffOrderOutlet (a_business_id a) (a_user_id a) (ci_OutletID input) v = (Inr y, z)" by blast
    from one_select_Inr [OF this [unfolded GetActiveStaffOrderOutlet_def]]
    obtain rs where sel: "[uo_user_id u. u \<leftarrow> user_outlets (data w), r \<leftarrow> outlets (data w),
        out_business_id r = uo_business_id u \<and> out_id r = uo_outlet_id u \<and>
        uo_business_id u = a_business_id a \<and> uo_user_id u = a_user_id a \<and>
        uo_outlet_id u = ci_OutletID input \<and> out_is_active r] = y # rs" (is "?sel = _")
      using dv by auto
    have "y \<in> set ?sel" unfolding sel by simp
    then show ?thesis by (auto simp: assigned_def list_ex_iff split: if_splits)
  qed
  then show ?thesis using O du by (auto simp: may_create_def)
qed

lemma order_lookup_Inr:
  assumes "GetOrderByIdempotencyKey b l k w = (Inr (r, tz), w')"
  shows "r \<in> set (orders (data w)) \<and> o_business_id r = b \<and> o_outlet_id r = l
    \<and> o_idempotency_key r = Some k
    \<and> (\<exists>x \<in> set (outlets (data w)). out_business_id x = b \<and> out_id x = l \<and> out_timezone x = tz)"
proof -
  from one_select_Inr [OF assms [unfolded GetOrderByIdempotencyKey_def with_text_Inr, THEN conjunct2]]
  obtain rs where sel: "[(r, out_timezone x). r \<leftarrow> orders (data w), x \<leftarrow> outlets (data w),
        out_business_id x = o_business_id r \<and> out_id x = o_outlet_id r \<and>
        o_business_id r = b \<and> o_outlet_id r = l \<and> o_idempotency_key r = Some k] = (r, tz) # rs"
    (is "?sel = _") by auto
  have "(r, tz) \<in> set ?sel" unfolding sel by simp
  then show ?thesis by (auto split: if_splits)
qed

text \<open>The two normal ends of Create: the stored order of an earlier request, or a new order.\<close>

definition replays :: "db \<Rightarrow> actor \<Rightarrow> CreateOrderInput \<Rightarrow> OrderCreationResult \<Rightarrow> order_row \<Rightarrow> bool" where
  "replays d a input res r \<longleftrightarrow> ocr_Replayed res \<and> r \<in> set (orders d)
     \<and> o_business_id r = a_business_id a \<and> o_outlet_id r = ci_OutletID input
     \<and> o_idempotency_key r = Some (ci_IdempotencyKey input)
     \<and> o_request_hash r = Some (ci_RequestHash input)
     \<and> (\<exists>tz. ocr_Order res = order_from r tz (stored_items d r))"

definition places ::
  "db \<Rightarrow> actor \<Rightarrow> CreateOrderInput \<Rightarrow> OrderCreationResult \<Rightarrow> order_row \<Rightarrow> item_row list \<Rightarrow> db \<Rightarrow> bool" where
  "places d a input res r xs d' \<longleftrightarrow> \<not> ocr_Replayed res \<and> ledger_step d (Placed r xs) d'
     \<and> o_business_id r = a_business_id a \<and> o_outlet_id r = ci_OutletID input
     \<and> o_customer_id r = ci_CustomerID input
     \<and> o_idempotency_key r = Some (ci_IdempotencyKey input)
     \<and> o_request_hash r = Some (ci_RequestHash input)
     \<and> due_encodes input \<and> o_due_at r = map_option zt_at (ci_DueAt input)
     \<and> (\<exists>lines. list_all2 (priced d (a_business_id a)) (ci_Items input) lines
          \<and> list_all2 stores_line lines xs)
     \<and> (\<exists>tz. ocr_Order res = order_from r tz (stored_items d' r))"

lemma Create_refines:
  assumes fr: "orders_tbl.fresh w" and clock: "0 \<le> now w" and some: "ci_Items input \<noteq> []"
    and run: "Create_body a input w = (Inr res, w')"
  shows "(\<exists>x. may_create (data w) a x \<and> out_id x = ci_OutletID input) \<and>
    ((\<exists>r. replays (data w) a input res r) \<and> data w' = data w
     \<or> (\<exists>r xs. places (data w) a input res r xs (data w')))"
proof -
  from run obtain outlet u found v where
    ol: "Create_outlet a input w = (Inr outlet, u)"
    and look: "GetOrderByIdempotencyKey (a_business_id a) (ci_OutletID input) (ci_IdempotencyKey input) u = (found, v)"
    and fin: "(case found of Inr existing \<Rightarrow> Create_replay input existing
       | Inl e \<Rightarrow> if e = NoRows then Create_new a input outlet else fail (Sql e)) v = (Inr res, w')"
    unfolding Create_body_def by (auto simp: run_inv)
  have wu: "same_data w u" by (rule readsD [OF create_steps_read(2) ol])
  have uv: "same_data u v" by (rule readsD [OF order_queries_read(8) look])
  note wv = same_data_trans [OF wu uv]
  have d: "data u = data w" "data v = data w" using wu wv by (simp_all add: same_data_def)
  have may: "\<exists>x. may_create (data w) a x \<and> out_id x = ci_OutletID input"
    using Create_outlet_Inr [OF ol] by blast
  show ?thesis
  proof (cases found)
    case (Inr existing)
    then obtain r tz where f: "found = Inr (r, tz)" by (cases existing) simp
    from order_lookup_Inr [OF look [unfolded f]] fin f obtain od
      where r: "r \<in> set (orders (data w)) \<and> o_business_id r = a_business_id a
          \<and> o_outlet_id r = ci_OutletID input \<and> o_idempotency_key r = Some (ci_IdempotencyKey input)"
        and h: "o_request_hash r = Some (ci_RequestHash input)"
        and ld: "loadOrder r tz v = (Inr od, w')" and res: "res = \<lparr>ocr_Order = od, ocr_Replayed = True\<rparr>"
      using d by (auto simp: Create_replay_def run_inv split: if_splits)
    have "data w' = data w" using readsD [OF create_steps_read(1) ld] d by (simp add: same_data_def)
    moreover have "replays (data w) a input res r"
      using r h loadOrder_Inr [OF ld] d res by (auto simp: replays_def)
    ultimately show ?thesis using may by blast
  next
    case (Inl e)
    with fin have "Create_new a input outlet v = (Inr res, w')" by (auto simp: run_inv split: if_splits)
    then obtain c x pf y lines amount z where
      cu: "GetActiveOrderCustomer (a_business_id a) (ci_CustomerID input) v = (Inr c, x)"
      and pf: "Create_perfume a input x = (Inr pf, y)"
      and pl: "price_lines a 0 (ci_Items input) y = (Inr (lines, amount), z)"
      and wr: "Create_write a input outlet pf lines amount z = (Inr res, w')"
      unfolding Create_new_def by (auto simp: run_inv split: prod.splits)
    have vy: "same_data v y"
      using readsD [OF order_queries_read(4) cu] readsD [OF create_steps_read(4) pf] same_data_trans by blast
    have yz: "same_data y z" by (rule readsD [OF price_lines_reads pl])
    have dz: "data y = data w" "data z = data w" using d vy yz by (simp_all add: same_data_def)
    note L = price_lines_Inr [OF pl, unfolded dz(1)]
    have fz: "orders_tbl.fresh z" using fr wv vy yz by (blast intro: fresh_same same_data_trans)
    have cz: "0 \<le> now z" using clock wv vy yz by (simp add: same_data_def)
    have "lines \<noteq> []" using L some by auto
    from Create_write_refines [OF fz cz this _ _ wr] L some obtain r xs where
      "ledger_step (data w) (Placed r xs) (data w')"
      "list_all2 stores_line lines xs"
      "ocr_Order res = order_from r (out_timezone outlet) (stored_items (data w') r)" "\<not> ocr_Replayed res"
      "o_business_id r = a_business_id a" "o_outlet_id r = ci_OutletID input"
      "o_customer_id r = ci_CustomerID input"
      "o_idempotency_key r = Some (ci_IdempotencyKey input)"
      "o_request_hash r = Some (ci_RequestHash input)"
      "due_encodes input" "o_due_at r = map_option zt_at (ci_DueAt input)"
      unfolding dz by auto
    with L have "places (data w) a input res r xs (data w')" unfolding places_def by blast
    then show ?thesis using may by blast
  qed
qed

end
