(* ===== verification/Freshness.thy ===== *)
theory Freshness
  imports Payments
begin

text \<open>
  Every statement of the catalogs keeps the keys of every table distinct and below its
  sequence: inserts and updates of one table by the contract of that table, the others because the
  table is not written.
\<close>

section \<open>One table at a time\<close>

lemma insert_order_fresh:
  assumes "\<And>i n d. o_id (mk i n d) = i"
  shows "keeps all_fresh (insert_serial TOrders orders (\<lambda>rs d. d\<lparr>orders := rs\<rparr>) chk mk)"
proof (rule keepsI)
  fix w r w'
  assume F: "all_fresh w" and run: "insert_serial TOrders orders (\<lambda>rs d. d\<lparr>orders := rs\<rparr>) chk mk w = (r, w')"
  have "orders_tbl.fresh w'"
    using F by (intro keepsD [OF orders_tbl.insert_keeps [OF assms] _ run]) (simp add: all_fresh_def)
  then show "all_fresh w'"
    using F insert_frame [OF run] unfolding all_fresh_def
    by (auto intro: items_tbl.fresh_frame history_tbl.fresh_frame payments_tbl.fresh_frame
        audit_tbl.fresh_frame families_tbl.fresh_frame tokens_tbl.fresh_frame)
qed

lemma insert_item_fresh:
  assumes "\<And>i n d. it_id (mk i n d) = i"
  shows "keeps all_fresh (insert_serial TItems order_items (\<lambda>rs d. d\<lparr>order_items := rs\<rparr>) chk mk)"
proof (rule keepsI)
  fix w r w'
  assume F: "all_fresh w" and run: "insert_serial TItems order_items (\<lambda>rs d. d\<lparr>order_items := rs\<rparr>) chk mk w = (r, w')"
  have "items_tbl.fresh w'"
    using F by (intro keepsD [OF items_tbl.insert_keeps [OF assms] _ run]) (simp add: all_fresh_def)
  then show "all_fresh w'"
    using F insert_frame [OF run] unfolding all_fresh_def
    by (auto intro: orders_tbl.fresh_frame history_tbl.fresh_frame payments_tbl.fresh_frame
        audit_tbl.fresh_frame families_tbl.fresh_frame tokens_tbl.fresh_frame)
qed

lemma insert_history_fresh:
  assumes "\<And>i n d. h_id (mk i n d) = i"
  shows "keeps all_fresh (insert_serial THistory order_status_history (\<lambda>rs d. d\<lparr>order_status_history := rs\<rparr>) chk mk)"
proof (rule keepsI)
  fix w r w'
  assume F: "all_fresh w" and run: "insert_serial THistory order_status_history (\<lambda>rs d. d\<lparr>order_status_history := rs\<rparr>) chk mk w = (r, w')"
  have "history_tbl.fresh w'"
    using F by (intro keepsD [OF history_tbl.insert_keeps [OF assms] _ run]) (simp add: all_fresh_def)
  then show "all_fresh w'"
    using F insert_frame [OF run] unfolding all_fresh_def
    by (auto intro: orders_tbl.fresh_frame items_tbl.fresh_frame payments_tbl.fresh_frame
        audit_tbl.fresh_frame families_tbl.fresh_frame tokens_tbl.fresh_frame)
qed

lemma insert_payment_fresh:
  assumes "\<And>i n d. p_id (mk i n d) = i"
  shows "keeps all_fresh (insert_serial TPayments payments (\<lambda>rs d. d\<lparr>payments := rs\<rparr>) chk mk)"
proof (rule keepsI)
  fix w r w'
  assume F: "all_fresh w" and run: "insert_serial TPayments payments (\<lambda>rs d. d\<lparr>payments := rs\<rparr>) chk mk w = (r, w')"
  have "payments_tbl.fresh w'"
    using F by (intro keepsD [OF payments_tbl.insert_keeps [OF assms] _ run]) (simp add: all_fresh_def)
  then show "all_fresh w'"
    using F insert_frame [OF run] unfolding all_fresh_def
    by (auto intro: orders_tbl.fresh_frame items_tbl.fresh_frame history_tbl.fresh_frame
        audit_tbl.fresh_frame families_tbl.fresh_frame tokens_tbl.fresh_frame)
qed

lemma insert_audit_fresh:
  assumes "\<And>i n d. au_id (mk i n d) = i"
  shows "keeps all_fresh (insert_serial TAudit audit_logs (\<lambda>rs d. d\<lparr>audit_logs := rs\<rparr>) chk mk)"
proof (rule keepsI)
  fix w r w'
  assume F: "all_fresh w" and run: "insert_serial TAudit audit_logs (\<lambda>rs d. d\<lparr>audit_logs := rs\<rparr>) chk mk w = (r, w')"
  have "audit_tbl.fresh w'"
    using F by (intro keepsD [OF audit_tbl.insert_keeps [OF assms] _ run]) (simp add: all_fresh_def)
  then show "all_fresh w'"
    using F insert_frame [OF run] unfolding all_fresh_def
    by (auto intro: orders_tbl.fresh_frame items_tbl.fresh_frame history_tbl.fresh_frame
        payments_tbl.fresh_frame families_tbl.fresh_frame tokens_tbl.fresh_frame)
qed

lemma insert_family_fresh:
  assumes "\<And>i n d. sf_id (mk i n d) = i"
  shows "keeps all_fresh (insert_serial TFamilies session_families (\<lambda>rs d. d\<lparr>session_families := rs\<rparr>) chk mk)"
proof (rule keepsI)
  fix w r w'
  assume F: "all_fresh w" and run: "insert_serial TFamilies session_families (\<lambda>rs d. d\<lparr>session_families := rs\<rparr>) chk mk w = (r, w')"
  have "families_tbl.fresh w'"
    using F by (intro keepsD [OF families_tbl.insert_keeps [OF assms] _ run]) (simp add: all_fresh_def)
  then show "all_fresh w'"
    using F insert_frame [OF run] unfolding all_fresh_def
    by (auto intro: orders_tbl.fresh_frame items_tbl.fresh_frame history_tbl.fresh_frame
        payments_tbl.fresh_frame audit_tbl.fresh_frame tokens_tbl.fresh_frame)
qed

lemma insert_token_fresh:
  assumes "\<And>i n d. rt_id (mk i n d) = i"
  shows "keeps all_fresh (insert_serial TTokens refresh_tokens (\<lambda>rs d. d\<lparr>refresh_tokens := rs\<rparr>) chk mk)"
proof (rule keepsI)
  fix w r w'
  assume F: "all_fresh w" and run: "insert_serial TTokens refresh_tokens (\<lambda>rs d. d\<lparr>refresh_tokens := rs\<rparr>) chk mk w = (r, w')"
  have "tokens_tbl.fresh w'"
    using F by (intro keepsD [OF tokens_tbl.insert_keeps [OF assms] _ run]) (simp add: all_fresh_def)
  then show "all_fresh w'"
    using F insert_frame [OF run] unfolding all_fresh_def
    by (auto intro: orders_tbl.fresh_frame items_tbl.fresh_frame history_tbl.fresh_frame
        payments_tbl.fresh_frame audit_tbl.fresh_frame families_tbl.fresh_frame)
qed

lemma update_order_fresh:
  assumes "\<And>n r. o_id (upd n r) = o_id r"
  shows "keeps all_fresh (update_rows orders (\<lambda>rs d. d\<lparr>orders := rs\<rparr>) chk p upd)"
proof (rule keepsI)
  fix w r w'
  assume F: "all_fresh w" and run: "update_rows orders (\<lambda>rs d. d\<lparr>orders := rs\<rparr>) chk p upd w = (r, w')"
  have "orders_tbl.fresh w'"
    using F by (intro keepsD [OF orders_tbl.update_keeps [OF assms] _ run]) (simp add: all_fresh_def)
  then show "all_fresh w'"
    using F update_frame [OF run] unfolding all_fresh_def
    by (auto intro: items_tbl.fresh_frame history_tbl.fresh_frame payments_tbl.fresh_frame
        audit_tbl.fresh_frame families_tbl.fresh_frame tokens_tbl.fresh_frame)
qed

lemma update_payment_fresh:
  assumes "\<And>n r. p_id (upd n r) = p_id r"
  shows "keeps all_fresh (update_rows payments (\<lambda>rs d. d\<lparr>payments := rs\<rparr>) chk p upd)"
proof (rule keepsI)
  fix w r w'
  assume F: "all_fresh w" and run: "update_rows payments (\<lambda>rs d. d\<lparr>payments := rs\<rparr>) chk p upd w = (r, w')"
  have "payments_tbl.fresh w'"
    using F by (intro keepsD [OF payments_tbl.update_keeps [OF assms] _ run]) (simp add: all_fresh_def)
  then show "all_fresh w'"
    using F update_frame [OF run] unfolding all_fresh_def
    by (auto intro: orders_tbl.fresh_frame items_tbl.fresh_frame history_tbl.fresh_frame
        audit_tbl.fresh_frame families_tbl.fresh_frame tokens_tbl.fresh_frame)
qed

lemma update_family_fresh:
  assumes "\<And>n r. sf_id (upd n r) = sf_id r"
  shows "keeps all_fresh (update_rows session_families (\<lambda>rs d. d\<lparr>session_families := rs\<rparr>) chk p upd)"
proof (rule keepsI)
  fix w r w'
  assume F: "all_fresh w" and run: "update_rows session_families (\<lambda>rs d. d\<lparr>session_families := rs\<rparr>) chk p upd w = (r, w')"
  have "families_tbl.fresh w'"
    using F by (intro keepsD [OF families_tbl.update_keeps [OF assms] _ run]) (simp add: all_fresh_def)
  then show "all_fresh w'"
    using F update_frame [OF run] unfolding all_fresh_def
    by (auto intro: orders_tbl.fresh_frame items_tbl.fresh_frame history_tbl.fresh_frame
        payments_tbl.fresh_frame audit_tbl.fresh_frame tokens_tbl.fresh_frame)
qed

lemma update_token_fresh:
  assumes "\<And>n r. rt_id (upd n r) = rt_id r"
  shows "keeps all_fresh (update_rows refresh_tokens (\<lambda>rs d. d\<lparr>refresh_tokens := rs\<rparr>) chk p upd)"
proof (rule keepsI)
  fix w r w'
  assume F: "all_fresh w" and run: "update_rows refresh_tokens (\<lambda>rs d. d\<lparr>refresh_tokens := rs\<rparr>) chk p upd w = (r, w')"
  have "tokens_tbl.fresh w'"
    using F by (intro keepsD [OF tokens_tbl.update_keeps [OF assms] _ run]) (simp add: all_fresh_def)
  then show "all_fresh w'"
    using F update_frame [OF run] unfolding all_fresh_def
    by (auto intro: orders_tbl.fresh_frame items_tbl.fresh_frame history_tbl.fresh_frame
        payments_tbl.fresh_frame audit_tbl.fresh_frame families_tbl.fresh_frame)
qed

section \<open>The statements\<close>

lemma allocate_fresh [keeps_intro]: "keeps all_fresh (AllocateInvoiceNumber b l day)"
  unfolding AllocateInvoiceNumber_def
proof (rule keeps_stmt [OF stable_all_fresh], rule keepsI)
  fix w r w'
  assume "all_fresh w" and "(let cs = invoice_counters (data w); hit = counter_is b l day
     in case find hit cs of
          None \<Rightarrow> if outlet_exists (data w) b l
            then (Inr (day, 1), w\<lparr>data := (data w)\<lparr>invoice_counters :=
                    cs @ [\<lparr>ic_business_id = b, ic_outlet_id = l, ic_counter_date = day, ic_next_number = 2, ic_updated_at = now w\<rparr>]\<rparr>\<rparr>)
            else (Inl (ForeignKeyViolation ''invoice_counters_outlet''), w)
        | Some c \<Rightarrow>
            if is_int64 (ic_next_number c + 1)
            then (Inr (day, ic_next_number c), w\<lparr>data := (data w)\<lparr>invoice_counters :=
                    map (\<lambda>r. if hit r then r\<lparr>ic_next_number := ic_next_number c + 1, ic_updated_at := now w\<rparr> else r) cs\<rparr>\<rparr>)
            else (Inl OutOfRange, w)) = (r, w')"
  then show "all_fresh w'"
    by (auto simp: Let_def all_fresh_def orders_tbl.fresh_def items_tbl.fresh_def history_tbl.fresh_def
        payments_tbl.fresh_def audit_tbl.fresh_def families_tbl.fresh_def tokens_tbl.fresh_def
        split: option.splits if_splits)
qed

lemma writes_fresh [keeps_intro]:
  "keeps all_fresh (CreateOrder arg)" "keeps all_fresh (CreateOrderItem ia)"
  "keeps all_fresh (InsertOrderStatusHistory b l i f t u n)"
  "keeps all_fresh (CreateInitialOrderStatus b l i u)"
  "keeps all_fresh (InsertOrderAuditLog b lo uo io nv ip ua)"
  "keeps all_fresh (InsertOrderLifecycleAuditLog b lo uo act io ov nv ip ua)"
  "keeps all_fresh (TransitionOrderStatus b i t)" "keeps all_fresh (CancelOrder b i u rsn)"
  "keeps all_fresh (CreateConfirmedPayment b l i amt mth ref nts u k h)"
  "keeps all_fresh (UpdateOrderPaymentStatus b l i st)" "keeps all_fresh (VoidConfirmedPayment b l i p u rsn)"
  "keeps all_fresh (InsertPaymentAuditLog b lo uo act io ov nv ip ua)"
  unfolding CreateOrder_def insert_order_def CreateOrderItem_def InsertOrderStatusHistory_def
    CreateInitialOrderStatus_def insert_history_def InsertOrderAuditLog_def
    InsertOrderLifecycleAuditLog_def insert_audit_def TransitionOrderStatus_def CancelOrder_def
    CreateConfirmedPayment_def UpdateOrderPaymentStatus_def VoidConfirmedPayment_def
    InsertPaymentAuditLog_def update_orders_def
  by (intro keeps_intro insert_order_fresh insert_item_fresh insert_history_fresh insert_audit_fresh
      insert_payment_fresh update_order_fresh update_payment_fresh; simp add: Let_def)+

end
