(* ===== verification/Ledger_Invariants.thy ===== *)
theory Ledger_Invariants
  imports Placement Freshness
begin

text \<open>
  What holds of the ledger in every reachable database: the references between its tables, the
  money of each order, the trail of its status, the uniqueness of its keys. Each part is shown to
  survive every event of the contract.
\<close>

section \<open>The invariant\<close>

text \<open>A path of history rows from a state to a state along allowed transitions.\<close>

fun trail_ok :: "string option \<Rightarrow> history_row list \<Rightarrow> string option \<Rightarrow> bool" where
  "trail_ok s [] t = (s = t)"
| "trail_ok s (h # hs) t =
     (h_from_status h = s
      \<and> (case s of None \<Rightarrow> h_to_status h = ''RECEIVED'' | Some f \<Rightarrow> allowedOrderTransition f (h_to_status h))
      \<and> trail_ok (Some (h_to_status h)) hs t)"

definition history_trail :: "db \<Rightarrow> order_row \<Rightarrow> history_row list" where
  "history_trail d r = filter (history_of r) (order_status_history d)"

definition items_total :: "db \<Rightarrow> order_row \<Rightarrow> int" where
  "items_total d r = sum_list (map it_line_total_amount (filter (item_of r) (order_items d)))"

definition numbered :: "db \<Rightarrow> order_row \<Rightarrow> bool" where
  "numbered d r \<longleftrightarrow> (\<exists>code day n. o_invoice_number r = invoice_number code day n
     \<and> 0 \<le> day \<and> 1 \<le> n \<and> n < next_sequence (o_business_id r) (o_outlet_id r) day (invoice_counters d))"

definition order_ok :: "db \<Rightarrow> order_row \<Rightarrow> bool" where
  "order_ok d r \<longleftrightarrow> order_sound d r
     \<and> o_total_amount r = items_total d r
     \<and> trail_ok None (history_trail d r) (Some (o_status r))
     \<and> (o_status r = ''CANCELLED'' \<longrightarrow> paid_on d r = 0)
     \<and> numbered d r"

definition refs_ok :: "db \<Rightarrow> bool" where
  "refs_ok d \<longleftrightarrow>
     (\<forall>x \<in> set (order_items d). item_check x \<and> (\<exists>r \<in> set (orders d). item_of r x)) \<and>
     (\<forall>h \<in> set (order_status_history d). \<exists>r \<in> set (orders d). history_of r h) \<and>
     (\<forall>p \<in> set (payments d). payment_check p \<and> (\<exists>r \<in> set (orders d). payment_of r p))"

text \<open>Two orders of an outlet, or two payments of an order, that a unique index tells apart.\<close>

definition order_clash :: "order_row \<Rightarrow> order_row \<Rightarrow> bool" where
  "order_clash r r' \<longleftrightarrow> same_outlet r r' \<and>
     (o_invoice_number r = o_invoice_number r' \<or>
      o_idempotency_key r \<noteq> None \<and> o_idempotency_key r = o_idempotency_key r')"

definition payment_clash :: "payment_row \<Rightarrow> payment_row \<Rightarrow> bool" where
  "payment_clash p p' \<longleftrightarrow>
     payment_of_order (p_business_id p) (p_outlet_id p) (p_order_id p) p' \<and>
     p_idempotency_key p \<noteq> None \<and> p_idempotency_key p = p_idempotency_key p'"

definition keys_ok :: "db \<Rightarrow> bool" where
  "keys_ok d \<longleftrightarrow>
     distinct (map o_id (orders d)) \<and> distinct (map p_id (payments d)) \<and>
     (\<forall>r \<in> set (orders d). \<forall>r' \<in> set (orders d). order_clash r r' \<longrightarrow> r = r') \<and>
     (\<forall>p \<in> set (payments d). \<forall>p' \<in> set (payments d). payment_clash p p' \<longrightarrow> p = p')"

definition counters_ok :: "db \<Rightarrow> bool" where
  "counters_ok d \<longleftrightarrow> (\<forall>c \<in> set (invoice_counters d). 1 \<le> ic_next_number c)"

definition ledger_ok :: "db \<Rightarrow> bool" where
  "ledger_ok d \<longleftrightarrow> refs_ok d \<and> keys_ok d \<and> counters_ok d \<and> (\<forall>r \<in> set (orders d). order_ok d r)"

section \<open>Frames\<close>

lemma same_termsD:
  assumes "same_terms r r'"
  shows "o_id r' = o_id r" "o_business_id r' = o_business_id r" "o_outlet_id r' = o_outlet_id r"
    "o_customer_id r' = o_customer_id r"
    "o_total_amount r' = o_total_amount r" "o_invoice_number r' = o_invoice_number r"
    "o_idempotency_key r' = o_idempotency_key r" "o_request_hash r' = o_request_hash r"
    "o_received_at r' = o_received_at r" "o_created_at r' = o_created_at r"
    "o_created_by r' = o_created_by r" "o_notes r' = o_notes r" "o_due_at r' = o_due_at r"
    "o_customer_name_snapshot r' = o_customer_name_snapshot r"
    "o_customer_phone_snapshot r' = o_customer_phone_snapshot r"
    "o_outlet_code_snapshot r' = o_outlet_code_snapshot r"
  by (subst assms [unfolded same_terms_def], simp)+

lemma same_terms_of:
  assumes "same_terms r r'"
  shows "item_of r' = item_of r" "history_of r' = history_of r" "payment_of r' = payment_of r"
    "same_outlet r' x = same_outlet r x" "same_outlet x r' = same_outlet x r"
  using same_termsD [OF assms]
  by (auto simp: item_of_def history_of_def same_outlet_def payment_of_order_def fun_eq_iff)

text \<open>What an order's soundness looks at.\<close>

lemma order_ok_frame:
  assumes "order_ok d r" and "filter (item_of r) (order_items d') = filter (item_of r) (order_items d)"
    and "history_trail d' r = history_trail d r" and "paid_on d' r = paid_on d r"
    and "\<And>day. next_sequence (o_business_id r) (o_outlet_id r) day (invoice_counters d)
      \<le> next_sequence (o_business_id r) (o_outlet_id r) day (invoice_counters d')"
  shows "order_ok d' r"
proof -
  from assms(1) obtain code day n where "o_invoice_number r = invoice_number code day n" "0 \<le> day" "1 \<le> n"
    "n < next_sequence (o_business_id r) (o_outlet_id r) day (invoice_counters d)"
    unfolding order_ok_def numbered_def by blast
  with assms(5) [of day] have "numbered d' r" unfolding numbered_def by fastforce
  then show ?thesis
    using assms(1) unfolding order_ok_def order_sound_def items_total_def assms(2-4) by blast
qed

text \<open>A progress of an order that keeps its terms.\<close>

lemma order_ok_progress:
  assumes "order_ok d r" and "same_terms r r'" and "order_check r'"
    and "filter (item_of r) (order_items d') = filter (item_of r) (order_items d)"
    and "trail_ok None (history_trail d' r) (Some (o_status r'))"
    and "paid_on d' r \<le> o_total_amount r"
    and "o_payment_status r' = paymentStatusFor (o_total_amount r) (paid_on d' r)"
    and "o_status r' = ''CANCELLED'' \<longrightarrow> paid_on d' r = 0"
    and "invoice_counters d' = invoice_counters d"
  shows "order_ok d' r'"
proof -
  note T = same_termsD [OF assms(2)] same_terms_of [OF assms(2)]
  have eqs: "paid_on d' r' = paid_on d' r" "items_total d' r' = items_total d r"
    "history_trail d' r' = history_trail d' r" "numbered d' r' = numbered d r"
    by (simp_all add: T paid_on_def items_total_def history_trail_def numbered_def assms(4,9))
  have "is_int64 (o_total_amount r)" "o_total_amount r = items_total d r" "numbered d r"
    using assms(1) unfolding order_ok_def order_sound_def by blast+
  then show ?thesis
    using assms(3,5-8) unfolding order_ok_def order_sound_def eqs T by blast
qed

lemma find_map_same:
  assumes "\<And>x. P (f x) = P x"
  shows "find P (map f xs) = map_option f (find P xs)"
  by (induction xs) (simp_all add: assms)

lemma next_sequence_bump:
  "next_sequence b l day (bump_counter b' l' day' t cs) =
     (if b = b' \<and> l = l' \<and> day = day' then next_sequence b l day cs + 1 else next_sequence b l day cs)"
proof -
  let ?new = "\<lparr>ic_business_id = b', ic_outlet_id = l', ic_counter_date = day', ic_next_number = 2, ic_updated_at = t\<rparr>"
  have app: "find P (cs @ [c]) = (case find P cs of None \<Rightarrow> if P c then Some c else None | Some x \<Rightarrow> Some x)"
    for P and c :: counter_row
    by (induction cs) auto
  have map: "find (counter_is b l day) (map (\<lambda>r. if counter_is b' l' day' r then r\<lparr>ic_next_number := n, ic_updated_at := t\<rparr> else r) cs)
      = map_option (\<lambda>r. if counter_is b' l' day' r then r\<lparr>ic_next_number := n, ic_updated_at := t\<rparr> else r)
          (find (counter_is b l day) cs)" for n
    by (rule find_map_same) (simp add: counter_is_def)
  show ?thesis
  proof (cases "b = b' \<and> l = l' \<and> day = day'")
    case True
    then have eqs: "b' = b" "l' = l" "day' = day" by simp_all
    have new: "counter_is b l day \<lparr>ic_business_id = b, ic_outlet_id = l, ic_counter_date = day,
        ic_next_number = 2, ic_updated_at = t\<rparr>" by (simp add: counter_is_def)
    show ?thesis
    proof (cases "find (counter_is b l day) cs")
      case None
      with new show ?thesis unfolding eqs by (simp add: next_sequence_def bump_counter_def app)
    next
      case (Some c)
      then have "counter_is b l day c" using find_SomeD by fast
      with Some show ?thesis
        unfolding eqs by (simp add: next_sequence_def bump_counter_def map [unfolded eqs])
    qed
  next
    case False
    then have new: "\<not> counter_is b l day ?new" by (auto simp: counter_is_def)
    have other: "(if counter_is b' l' day' c then c\<lparr>ic_next_number := n, ic_updated_at := t\<rparr> else c) = c"
      if "find (counter_is b l day) cs = Some c" for c n
      using find_SomeD [OF that] False by (auto simp: counter_is_def)
    show ?thesis
    proof (cases "find (counter_is b l day) cs")
      case None
      with False new show ?thesis
        by (simp only: next_sequence_def bump_counter_def) (simp add: map app split: option.split)
    next
      case (Some c)
      with False other [OF Some] show ?thesis
        by (simp only: next_sequence_def bump_counter_def) (simp add: map app split: option.split)
    qed
  qed
qed

lemma next_sequence_pos:
  assumes "counters_ok d"
  shows "1 \<le> next_sequence b l day (invoice_counters d)"
  using assms find_SomeD by (fastforce simp: counters_ok_def next_sequence_def split: option.splits)

lemma trail_ok_snoc:
  "trail_ok s hs (Some f) \<Longrightarrow> h_from_status h = Some f \<Longrightarrow> allowedOrderTransition f (h_to_status h) \<Longrightarrow>
     trail_ok s (hs @ [h]) (Some (h_to_status h))"
  by (induction hs arbitrary: s) auto

lemma paymentStatusFor_unpaid: "paymentStatusFor t p = ''UNPAID'' \<longleftrightarrow> p = 0"
  by (simp add: paymentStatusFor_def)

section \<open>Every event keeps the counters and the references\<close>

lemma step_counters: "ledger_step d e d' \<Longrightarrow> counters_ok d \<Longrightarrow> counters_ok d'"
proof (induction rule: ledger_step.induct)
  case (placed r d xs code day h a)
  have pos: "1 \<le> ic_next_number c" if "find (counter_is b l day) (invoice_counters d) = Some c" for b l c
    using placed.prems find_SomeD [OF that] by (simp add: counters_ok_def)
  show ?case
    using placed.prems pos
    by (fastforce simp: counters_ok_def bump_counter_def split: option.splits)
qed (simp_all add: counters_ok_def)

lemma refs_progress:
  assumes refs: "refs_ok d" and st: "same_terms r r'" and r: "r \<in> set (orders d)"
    and d': "orders d' = replace_row r r' (orders d)" "order_items d' = order_items d"
    and hs: "\<And>h. h \<in> set (order_status_history d') \<Longrightarrow> h \<in> set (order_status_history d) \<or> history_of r h"
    and ps: "\<And>p. p \<in> set (payments d') \<Longrightarrow>
      p \<in> set (payments d) \<or> payment_check p \<and> payment_of r p"
  shows "refs_ok d'"
proof -
  have new: "\<exists>x \<in> set (orders d'). Q x" if "\<exists>x \<in> set (orders d). Q x" "Q r' = Q r" for Q
    using that unfolding d' set_replace_row [OF r] by auto
  note T = same_terms_of [OF st]
  have "\<exists>x \<in> set (orders d'). item_of x y" if "y \<in> set (order_items d)" for y
    by (rule new) (use refs that in \<open>auto simp: refs_ok_def T\<close>)
  moreover have "\<exists>x \<in> set (orders d'). history_of x y" if "y \<in> set (order_status_history d')" for y
    by (rule new) (use refs r hs [OF that] in \<open>auto simp: refs_ok_def T\<close>)
  moreover have "payment_check y \<and> (\<exists>x \<in> set (orders d'). payment_of x y)" if "y \<in> set (payments d')" for y
    by (intro conjI new) (use refs r ps [OF that] in \<open>auto simp: refs_ok_def T\<close>)
  ultimately show ?thesis using refs by (simp add: refs_ok_def d')
qed

lemma step_refs: "ledger_step d e d' \<Longrightarrow> refs_ok d \<Longrightarrow> refs_ok d'"
proof (induction rule: ledger_step.induct)
  case (placed r d xs code day h a)
  then show ?case by (auto simp: refs_ok_def list_all_iff)
next
  case (moved r d s r' h a)
  show ?case by (rule refs_progress [OF moved.prems moved(4,1)]) (use moved(8) in auto)
next
  case (paid r d p r' n a)
  have st: "same_terms r r'" unfolding paid(9) by (simp add: same_terms_def)
  show ?case by (rule refs_progress [OF paid.prems st paid(1)]) (use paid(4,5) in auto)
next
  case (voided r d p q n u reason r' a)
  have st: "same_terms r r'" unfolding voided(8) by (simp add: same_terms_def)
  have "payment_of r q" unfolding voided(5) using voided(3) by (simp add: payment_of_order_def)
  then show ?case
    by (intro refs_progress [OF voided.prems st voided(1)])
       (use voided(6) in \<open>auto dest!: in_replace_rowD\<close>)
qed

section \<open>Every event keeps the keys unique\<close>

text \<open>A replaced row that clashes as the old one did.\<close>

lemma clash_replace:
  assumes keys: "\<forall>x \<in> set rs. \<forall>y \<in> set rs. clash x y \<longrightarrow> x = y" and r: "r \<in> set rs"
    and left: "\<And>z. clash r' z = clash r z" and right: "\<And>z. clash z r' = clash z r"
  shows "\<forall>x \<in> set (replace_row r r' rs). \<forall>y \<in> set (replace_row r r' rs). clash x y \<longrightarrow> x = y"
proof (intro ballI impI)
  fix x y
  assume x: "x \<in> set (replace_row r r' rs)" and y: "y \<in> set (replace_row r r' rs)" and c: "clash x y"
  define old where "old z = (if z = r' then r else z)" for z
  have "clash (old x) (old y)" using c by (auto simp: old_def left right)
  moreover have "old x \<in> set rs" "old y \<in> set rs"
    using in_replace_rowD [OF x] in_replace_rowD [OF y] r by (auto simp: old_def)
  ultimately have "old x = old y" using keys by blast
  then show "x = y"
    using in_replace_rowD [OF x] in_replace_rowD [OF y] by (auto simp: old_def split: if_splits)
qed

lemma order_clash_terms:
  assumes "same_terms r r'"
  shows "order_clash r' z = order_clash r z" "order_clash z r' = order_clash z r"
  by (simp_all add: order_clash_def same_termsD [OF assms] same_terms_of [OF assms])

lemma order_clash_sym: "order_clash r r' = order_clash r' r"
  unfolding order_clash_def same_outlet_def by metis

lemma payment_clash_sym: "payment_clash p p' = payment_clash p' p"
  unfolding payment_clash_def payment_of_order_def by metis

lemma placed_no_clash:
  assumes "insert_order_error d r = None" and "x \<in> set (orders d)"
  shows "\<not> order_clash x r"
proof -
  have "\<not> invoice_taken d r" and "\<not> order_key_taken d r"
    using assms(1) by (auto simp: insert_order_error_def split: if_splits)
  with assms(2) show ?thesis
    by (auto simp: order_clash_def invoice_taken_def order_key_taken_def list_ex_iff)
qed

lemma paid_no_clash:
  assumes "\<not> payment_key_taken d p" and "x \<in> set (payments d)"
  shows "\<not> payment_clash p x"
  using assms by (auto simp: payment_clash_def payment_key_taken_def list_ex_iff)

lemma clash_snoc:
  assumes "\<forall>x \<in> set rs. \<forall>y \<in> set rs. clash x y \<longrightarrow> x = y" and "\<And>x. x \<in> set rs \<Longrightarrow> \<not> clash x r"
    and "\<And>x y. clash x y = clash y x"
  shows "\<forall>x \<in> set (rs @ [r]). \<forall>y \<in> set (rs @ [r]). clash x y \<longrightarrow> x = y"
  using assms by auto

lemma step_keys: "ledger_step d e d' \<Longrightarrow> keys_ok d \<Longrightarrow> keys_ok d'"
proof (induction rule: ledger_step.induct)
  case (placed r d xs code day h a)
  have "\<forall>x \<in> set (orders d @ [r]). \<forall>y \<in> set (orders d @ [r]). order_clash x y \<longrightarrow> x = y"
    by (rule clash_snoc [where clash = order_clash])
       (use placed.prems placed_no_clash [OF placed(2)] order_clash_sym in \<open>auto simp: keys_ok_def\<close>)
  with placed(1) placed.prems show ?case unfolding keys_ok_def by simp
next
  case (moved r d s r' h a)
  show ?case
    using moved.prems clash_replace [OF _ moved(1) order_clash_terms [OF moved(4)]]
      map_replace_row [of o_id r' r "orders d"] same_termsD(1) [OF moved(4)]
    unfolding keys_ok_def by simp
next
  case (paid r d p r' n a)
  have st: "same_terms r r'" unfolding paid(9) by (simp add: same_terms_def)
  have "\<forall>x \<in> set (payments d @ [p]). \<forall>y \<in> set (payments d @ [p]). payment_clash x y \<longrightarrow> x = y"
    by (rule clash_snoc [where clash = payment_clash])
       (use paid.prems paid_no_clash [OF paid(6)] payment_clash_sym in \<open>auto simp: keys_ok_def\<close>)
  then show ?case
    using paid.prems paid(3) clash_replace [OF _ paid(1) order_clash_terms [OF st]]
      map_replace_row [of o_id r' r "orders d"] same_termsD(1) [OF st]
    unfolding keys_ok_def by simp
next
  case (voided r d p q n u reason r' a)
  have st: "same_terms r r'" unfolding voided(8) by (simp add: same_terms_def)
  have q: "p_id q = p_id p" "payment_clash q z = payment_clash p z" "payment_clash z q = payment_clash z p" for z
    unfolding voided(5) by (simp_all add: payment_clash_def payment_of_order_def)
  show ?case
    using voided.prems clash_replace [OF _ voided(1) order_clash_terms [OF st]]
      clash_replace [OF _ voided(2) q(2,3)]
      map_replace_row [of o_id r' r "orders d"] map_replace_row [of p_id q p "payments d"]
      q(1) same_termsD(1) [OF st]
    unfolding keys_ok_def by simp
qed

section \<open>Every event keeps every order sound\<close>

lemma other_order:
  assumes "keys_ok d" and "r \<in> set (orders d)" and "r2 \<in> set (orders d)" and "r2 \<noteq> r"
  shows "o_id r2 \<noteq> o_id r"
  using assms by (auto simp: keys_ok_def distinct_map dest: inj_onD)

lemma other_of:
  assumes "o_id r2 \<noteq> o_id r"
  shows "item_of r x \<Longrightarrow> \<not> item_of r2 x" "history_of r h \<Longrightarrow> \<not> history_of r2 h"
    "payment_of r p \<Longrightarrow> \<not> payment_of r2 p"
  using assms by (auto simp: item_of_def history_of_def payment_of_order_def)

lemma paid_on_payments: "payments d' = payments d \<Longrightarrow> paid_on d' r = paid_on d r"
  by (simp add: paid_on_def confirmed_total_def)

lemma paid_on_nonneg: "refs_ok d \<Longrightarrow> 0 \<le> paid_on d r"
  unfolding paid_on_def by (rule confirmed_total_nonneg) (simp add: refs_ok_def)

lemma new_order_empty:
  assumes "refs_ok d" and "o_id r \<notin> o_id ` set (orders d)"
  shows "filter (item_of r) (order_items d) = []" "history_trail d r = []" "paid_on d r = 0"
proof -
  have absent: "\<not> (\<exists>x \<in> set (orders d). o_id x = o_id r)" using assms(2) by (auto simp: image_iff)
  have "\<not> item_of r x" if "x \<in> set (order_items d)" for x
    using assms(1) that absent unfolding refs_ok_def item_of_def by metis
  moreover have "\<not> history_of r x" if "x \<in> set (order_status_history d)" for x
    using assms(1) that absent unfolding refs_ok_def history_of_def by metis
  moreover have "\<not> payment_of r x" if "x \<in> set (payments d)" for x
    using assms(1) that absent unfolding refs_ok_def payment_of_order_def by metis
  ultimately show "filter (item_of r) (order_items d) = []" "history_trail d r = []" "paid_on d r = 0"
    by (auto simp: history_trail_def paid_on_def confirmed_total_def filter_empty_conv)
qed

lemma placed_orders:
  assumes ok: "ledger_ok d" and st: "ledger_step d (Placed r xs) d'" and r2: "r2 \<in> set (orders d')"
  shows "order_ok d' r2"
  using st
proof cases
  case (placed code day h a)
  have refs: "refs_ok d" and keys: "keys_ok d" and cs: "counters_ok d" using ok by (simp_all add: ledger_ok_def)
  have filt: "filter (item_of r) xs = xs" using placed(8) by (auto simp: list_all_iff intro: filter_True)
  have later: "next_sequence b l dy (invoice_counters d) \<le> next_sequence b l dy (invoice_counters d')" for b l dy
    unfolding placed(1) by (simp add: next_sequence_bump)
  have paid: "paid_on d' x = paid_on d x" for x by (rule paid_on_payments) (simp add: placed(1))
  show ?thesis
  proof (cases "r2 = r")
    case True
    note E = new_order_empty [OF refs placed(2)]
    have "order_check r" using placed(3) by (auto simp: insert_order_error_def split: if_splits)
    moreover have "numbered d' r"
      unfolding numbered_def
      by (rule exI [of _ code], rule exI [of _ day],
          rule exI [of _ "next_sequence (o_business_id r) (o_outlet_id r) day (invoice_counters d)"])
         (use placed(10,15) next_sequence_pos [OF cs] in \<open>simp add: placed(1) next_sequence_bump\<close>)
    moreover have "items_total d' r = o_total_amount r"
      by (simp add: items_total_def placed(1) E filt placed(9))
    moreover have "trail_ok None (history_trail d' r) (Some (o_status r))"
      using E placed by (simp add: history_trail_def)
    moreover have "0 \<le> o_total_amount r" using \<open>order_check r\<close> by (simp add: order_check_def)
    ultimately show ?thesis
      using placed E paid True by (simp add: order_ok_def order_sound_def paymentStatusFor_def)
  next
    case False
    with r2 have r2': "r2 \<in> set (orders d)" unfolding placed(1) by simp
    then have ne: "o_id r2 \<noteq> o_id r" using placed(2) by (metis imageI)
    have "filter (item_of r2) xs = []"
      using placed(8) other_of(1) [OF ne] by (auto simp: list_all_iff filter_empty_conv)
    moreover have "\<not> history_of r2 h" by (rule other_of(2) [OF ne]) (rule placed(11))
    ultimately have "filter (item_of r2) (order_items d') = filter (item_of r2) (order_items d)"
      and "history_trail d' r2 = history_trail d r2"
      by (simp_all add: placed(1) history_trail_def)
    moreover have "order_ok d r2" using ok r2' by (simp add: ledger_ok_def)
    ultimately show ?thesis using order_ok_frame paid later by blast
  qed
qed

text \<open>The events that progress one order of the table.\<close>

lemma progress_orders:
  assumes ok: "ledger_ok d" and r: "r \<in> set (orders d)" and st: "same_terms r r'"
    and d': "orders d' = replace_row r r' (orders d)" "order_items d' = order_items d"
      "invoice_counters d' = invoice_counters d"
    and others: "\<And>x. o_id x \<noteq> o_id r \<Longrightarrow> history_trail d' x = history_trail d x \<and> paid_on d' x = paid_on d x"
    and chk: "order_check r'" and trail: "trail_ok None (history_trail d' r) (Some (o_status r'))"
    and paid: "paid_on d' r \<le> o_total_amount r"
      "o_payment_status r' = paymentStatusFor (o_total_amount r) (paid_on d' r)"
      "o_status r' = ''CANCELLED'' \<longrightarrow> paid_on d' r = 0"
    and r2: "r2 \<in> set (orders d')"
  shows "order_ok d' r2"
proof (cases "r2 = r'")
  case True
  have "order_ok d r" using ok r by (simp add: ledger_ok_def)
  then have "order_ok d' r'"
    by (rule order_ok_progress [OF _ st chk]) (use d' trail paid in simp_all)
  with True show ?thesis by simp
next
  case False
  with in_replace_rowD [OF r2 [unfolded d']] have r2': "r2 \<in> set (orders d)" "r2 \<noteq> r" by blast+
  have "keys_ok d" and ok2: "order_ok d r2" using ok r2'(1) unfolding ledger_ok_def by blast+
  then have "o_id r2 \<noteq> o_id r" using r r2' by (blast dest: other_order)
  note O = others [OF this]
  show ?thesis by (rule order_ok_frame [OF ok2]) (simp_all only: O d' order_refl)
qed

lemma step_orders:
  assumes st: "ledger_step d e d'" and ok: "ledger_ok d" and r2: "r2 \<in> set (orders d')"
  shows "order_ok d' r2"
  using st
proof cases
  case (placed r xs code day h a n)
  with st ok r2 show ?thesis by (blast intro: placed_orders)
next
  case (moved r s r' h a)
  have ook: "order_ok d r" and refs: "refs_ok d" using ok moved by (simp_all add: ledger_ok_def)
  have paid: "paid_on d' x = paid_on d x" for x by (rule paid_on_payments) (simp add: moved(2))
  have "o_payment_status r = paymentStatusFor (o_total_amount r) (paid_on d r)" "paid_on d r \<le> o_total_amount r"
    and trail: "trail_ok None (history_trail d r) (Some (o_status r))"
    using ook by (simp_all add: order_ok_def order_sound_def)
  then have p: "o_payment_status r' = paymentStatusFor (o_total_amount r) (paid_on d' r)"
      "paid_on d' r \<le> o_total_amount r"
      "o_status r' = ''CANCELLED'' \<longrightarrow> paid_on d' r = 0"
    using moved(5,7,8) paymentStatusFor_unpaid [of "o_total_amount r"] by (simp_all add: paid)
  show ?thesis
  proof (rule progress_orders [OF ok moved(3) moved(6) _ _ _ _ moved(9) _ p(2) p(1) p(3) r2])
    show "trail_ok None (history_trail d' r) (Some (o_status r'))"
      using trail_ok_snoc [OF trail moved(11)] moved by (simp add: history_trail_def)
    fix x :: order_row
    assume "o_id x \<noteq> o_id r"
    from other_of(2) [OF this moved(10)] have "\<not> history_of x h" .
    then show "history_trail d' x = history_trail d x \<and> paid_on d' x = paid_on d x"
      by (simp add: paid) (simp add: moved(2) history_trail_def)
  qed (simp_all add: moved(2))
next
  case (paid r p r' n a)
  have same: "same_terms r r'" unfolding paid(11) by (simp add: same_terms_def)
  have ook: "order_ok d r" using ok paid by (simp add: ledger_ok_def)
  have amounts: "paid_on d' x = paid_on d x + (if payment_of x p then p_amount p else 0)" for x
    using confirmed_total_append [of d p "o_business_id x" "o_outlet_id x" "o_id x"] paid(9)
    by (simp add: paid_on_def paid(2) confirmed_total_def)
  have st': "o_status r' = o_status r" unfolding paid(11) by simp
  have hist: "history_trail d' x = history_trail d x" for x by (simp add: paid(2) history_trail_def)
  show ?thesis
  proof (rule progress_orders [OF ok paid(3) same _ _ _ _ paid(12) _ _ _ _ r2])
    show "trail_ok None (history_trail d' r) (Some (o_status r'))"
      using ook by (simp add: hist st' order_ok_def)
    show "paid_on d' r \<le> o_total_amount r" using paid(6,10) by (simp add: amounts)
    show "o_payment_status r' = paymentStatusFor (o_total_amount r) (paid_on d' r)"
      unfolding paid(11) using paid(6) by (simp add: amounts)
    show "o_status r' = ''CANCELLED'' \<longrightarrow> paid_on d' r = 0" using paid(4) st' by simp
    fix x :: order_row
    assume "o_id x \<noteq> o_id r"
    from other_of(3) [OF this paid(6)] have "\<not> payment_of x p" .
    then show "history_trail d' x = history_trail d x \<and> paid_on d' x = paid_on d x"
      by (simp add: hist amounts)
  qed (simp_all add: paid(2))
next
  case (voided r p q n u reason r' a)
  have same: "same_terms r r'" unfolding voided(10) by (simp add: same_terms_def)
  have ook: "order_ok d r" and refs: "refs_ok d" and keys: "keys_ok d"
    using ok voided by (simp_all add: ledger_ok_def)
  have dist: "distinct (payments d)" using keys by (simp add: keys_ok_def distinct_map)
  have qv: "p_status q = ''VOIDED''" unfolding voided(7) by simp
  have amounts: "paid_on d' x = paid_on d x - (if payment_of x p then p_amount p else 0)" for x
    using confirmed_total_replace [OF dist voided(4), of q "o_business_id x" "o_outlet_id x" "o_id x"] voided(6) qv
    by (simp add: paid_on_def voided(2) confirmed_total_def)
  have nonneg: "0 \<le> paid_on d' r" using step_refs [OF st refs] by (rule paid_on_nonneg)
  have pos: "0 < p_amount p" using refs voided(4) by (simp add: refs_ok_def payment_check_def)
  have st': "o_status r' = o_status r" unfolding voided(10) by simp
  have hist: "history_trail d' x = history_trail d x" for x by (simp add: voided(2) history_trail_def)
  show ?thesis
  proof (rule progress_orders [OF ok voided(3) same _ _ _ _ voided(11) _ _ _ _ r2])
    show "trail_ok None (history_trail d' r) (Some (o_status r'))"
      using ook by (simp add: hist st' order_ok_def)
    show "paid_on d' r \<le> o_total_amount r" using voided(5,9) by (simp add: amounts)
    show "o_payment_status r' = paymentStatusFor (o_total_amount r) (paid_on d' r)"
      unfolding voided(10) using voided(5) by (simp add: amounts)
    show "o_status r' = ''CANCELLED'' \<longrightarrow> paid_on d' r = 0"
      using ook pos nonneg voided(5) by (auto simp: order_ok_def st' amounts)
    fix x :: order_row
    assume "o_id x \<noteq> o_id r"
    from other_of(3) [OF this voided(5)] have "\<not> payment_of x p" .
    then show "history_trail d' x = history_trail d x \<and> paid_on d' x = paid_on d x"
      by (simp add: hist amounts)
  qed (simp_all add: voided(2))
qed

theorem step_ledger_ok: "ledger_step d e d' \<Longrightarrow> ledger_ok d \<Longrightarrow> ledger_ok d'"
  using step_orders step_refs step_keys step_counters unfolding ledger_ok_def by blast

end
