(* ===== verification/Ledger_System.thy ===== *)
theory Ledger_System
  imports Ledger_Invariants
begin

text \<open>
  The ledger as a system: the worlds the catalogs can produce, in any order of requests, with any
  arguments and any faults of the connection, interleaved with arbitrary changes
  of the other tables. The transactional operations are instances of the contract
  tx_operation, with the invariant of the ledger.
\<close>

text \<open>The clock starts in 1970: dates of the era have four digits for the year.\<close>

definition sys_ok :: "world \<Rightarrow> bool" where
  "sys_ok w \<longleftrightarrow> all_fresh w \<and> 0 \<le> now w \<and> ledger_ok (data w)"

section \<open>The operations are transactions that keep the invariant\<close>

text \<open>The bodies behind the guards of their operations.\<close>

definition guarded :: "bool \<Rightarrow> (svc_error, 'a) m \<Rightarrow> (svc_error, 'a) m" where
  "guarded ok body = (if ok then body else fail ErrInvalidOrder)"

abbreviation create_op_body :: "actor \<Rightarrow> CreateOrderInput \<Rightarrow> (svc_error, OrderCreationResult) m" where
  "create_op_body a input \<equiv> guarded (Create_guard a input = None) (Create_body a input)"

abbreviation transition_op_body ::
  "actor \<Rightarrow> i64 \<Rightarrow> string \<Rightarrow> string option \<Rightarrow> (svc_error, OrderLifecycleResult) m" where
  "transition_op_body a i s notes \<equiv> guarded (validStatusTarget s) (Transition_body a i s notes)"

abbreviation record_op_body ::
  "actor \<Rightarrow> i64 \<Rightarrow> RecordPaymentInput \<Rightarrow> (svc_error, PaymentRecordResult) m" where
  "record_op_body a i input \<equiv> guarded (is_int64 (ri_TenderedAmount input)) (Record_body a i input)"

lemma guarded_True [simp]: "guarded True body = body"
  by (simp add: guarded_def)

lemma guarded_Inr [run_inv]: "guarded ok body w = (Inr a, w') \<longleftrightarrow> ok \<and> body w = (Inr a, w')"
  by (auto simp: guarded_def fail_run)

lemma grows_guarded [grows_intro]: "grows body \<Longrightarrow> grows (guarded ok body)"
  by (auto simp: guarded_def intro: grows_intro)

lemma keeps_guarded [keeps_intro]: "keeps I body \<Longrightarrow> keeps I (guarded ok body)"
  by (auto simp: guarded_def intro: keeps_intro)

lemma bodies_grow [grows_intro]:
  "grows (Create_write a input outlet pf lines amount)" "grows (Create_body a input)"
  "grows (Transition_body a i s notes)" "grows (Cancel_body a i reason)"
  "grows (Record_new a i ri r)" "grows (Record_body a i ri)" "grows (Void_body a i j reason)"
proof -
  show w: "grows (Create_write a input outlet pf lines amount)" for outlet pf lines amount
    unfolding Create_write_def create_line_def
    by (intro grows_intro grows_reads [OF create_steps_read(1)])
  have n: "grows (Create_new a input outlet)" for outlet
    unfolding Create_new_def
    by (intro grows_intro w grows_reads [OF create_steps_read(4)] grows_reads [OF price_lines_reads])
  show "grows (Create_body a input)"
    unfolding Create_body_def
    by (intro grows_intro n grows_reads [OF create_steps_read(2)] grows_reads [OF create_steps_read(3)])
  show "grows (Transition_body a i s notes)" and "grows (Cancel_body a i reason)"
    unfolding Transition_body_def Cancel_body_def insertLifecycleAudit_def
    by (intro grows_intro grows_reads [OF lock_reads])+
  show r: "grows (Record_new a i ri r)" for r
    unfolding Record_new_def insertPaymentAudit_def
    by (intro grows_intro grows_reads [OF payment_steps_read(2)])
  show "grows (Record_body a i ri)"
    unfolding Record_body_def
    by (intro grows_intro r grows_reads [OF lock_reads] grows_reads [OF payment_steps_read(1)]
        grows_reads [OF payment_steps_read(3)])
  show "grows (Void_body a i j reason)"
    unfolding Void_body_def insertPaymentAudit_def
    by (intro grows_intro grows_reads [OF lock_reads] grows_reads [OF payment_steps_read(1)]
        grows_reads [OF payment_steps_read(2)])
qed

lemma bodies_fresh [keeps_intro]:
  "keeps all_fresh (Create_write a input outlet pf lines amount)" "keeps all_fresh (Create_body a input)"
  "keeps all_fresh (Transition_body a i s notes)" "keeps all_fresh (Cancel_body a i reason)"
  "keeps all_fresh (Record_new a i ri r)" "keeps all_fresh (Record_body a i ri)"
  "keeps all_fresh (Void_body a i j reason)"
proof -
  show w: "keeps all_fresh (Create_write a input outlet pf lines amount)" for outlet pf lines amount
    unfolding Create_write_def create_line_def
    by (intro keeps_intro create_steps_read(1) order_queries_read(7))
  have n: "keeps all_fresh (Create_new a input outlet)" for outlet
    unfolding Create_new_def
    by (intro keeps_intro w create_steps_read(4) price_lines_reads order_queries_read(4))
  show "keeps all_fresh (Create_body a input)"
    unfolding Create_body_def
    by (intro keeps_intro n create_steps_read(2,3) order_queries_read(8))
  show "keeps all_fresh (Transition_body a i s notes)" and "keeps all_fresh (Cancel_body a i reason)"
    unfolding Transition_body_def Cancel_body_def insertLifecycleAudit_def
    by (intro keeps_intro lock_reads)+
  show r: "keeps all_fresh (Record_new a i ri r)" for r
    unfolding Record_new_def insertPaymentAudit_def
    by (intro keeps_intro payment_steps_read(2))
  show "keeps all_fresh (Record_body a i ri)"
    unfolding Record_body_def
    by (intro keeps_intro r lock_reads payment_steps_read(1,3) payment_queries_read(1))
  show "keeps all_fresh (Void_body a i j reason)"
    unfolding Void_body_def insertPaymentAudit_def
    by (intro keeps_intro lock_reads payment_steps_read(1,2) payment_queries_read(6))
qed

lemma sys_ok_parts:
  assumes "sys_ok w"
  shows "orders_tbl.fresh w" "payments_tbl.fresh w" "all_fresh w" "ledger_ok (data w)"
    "\<forall>r \<in> set (orders (data w)). order_sound (data w) r"
    "\<forall>p \<in> set (payments (data w)). payment_check p" "0 \<le> now w"
  using assms by (auto simp: sys_ok_def all_fresh_def ledger_ok_def order_ok_def refs_ok_def)

lemma sys_ok_step:
  assumes "sys_ok w" and "all_fresh w'" and "now w' = now w" and "data w' = data w \<or> (\<exists>e. ledger_step (data w) e (data w'))"
  shows "sys_ok w'"
  using assms step_ledger_ok by (auto simp: sys_ok_def)

lemma sys_ok_seqs:
  "sys_ok w \<Longrightarrow> data u = data w \<Longrightarrow> now u = now w \<Longrightarrow> (\<And>t. seqs w t \<le> seqs u t) \<Longrightarrow> sys_ok u"
  unfolding sys_ok_def using all_fresh_seqs by metis

lemma Create_guard_items: "Create_guard a input = None \<Longrightarrow> ci_Items input \<noteq> []"
  by (auto simp: Create_guard_def split: if_splits)

lemma create_op_inv:
  assumes "sys_ok w" and "create_op_body a input w = (Inr res, w')"
  shows "sys_ok w'"
proof -
  from assms(2) have g: "Create_guard a input = None" and run: "Create_body a input w = (Inr res, w')"
    by (simp_all add: guarded_Inr)
  have "all_fresh w'" by (rule keepsD [OF bodies_fresh(2) sys_ok_parts(3) [OF assms(1)] run])
  moreover have "data w' = data w \<or> (\<exists>e. ledger_step (data w) e (data w'))"
    using Create_refines [OF sys_ok_parts(1,7) [OF assms(1)] Create_guard_items [OF g] run]
    by (auto simp: places_def)
  moreover have "now w' = now w" by (rule growsD(2) [OF bodies_grow(2) run])
  ultimately show ?thesis using sys_ok_step [OF assms(1)] by blast
qed

lemma transition_op_inv:
  assumes "sys_ok w" and "transition_op_body a i s notes w = (Inr res, w')"
  shows "sys_ok w'"
proof -
  from assms(2) have v: "validStatusTarget s" and run: "Transition_body a i s notes w = (Inr res, w')"
    by (simp_all add: guarded_Inr)
  have "all_fresh w'" by (rule keepsD [OF bodies_fresh(3) sys_ok_parts(3) [OF assms(1)] run])
  then show ?thesis
    using Transition_refines [OF sys_ok_parts(1) [OF assms(1)] v run] sys_ok_step [OF assms(1)]
      growsD(2) [OF bodies_grow(3) run] by blast
qed

lemma cancel_op_inv:
  assumes "sys_ok w" and run: "Cancel_body a i reason w = (Inr res, w')"
  shows "sys_ok w'"
proof -
  have "all_fresh w'" by (rule keepsD [OF bodies_fresh(4) sys_ok_parts(3) [OF assms(1)] run])
  then show ?thesis
    using Cancel_refines [OF sys_ok_parts(1) [OF assms(1)] run] sys_ok_step [OF assms(1)]
      growsD(2) [OF bodies_grow(4) run] by blast
qed

lemma record_op_inv:
  assumes "sys_ok w" and "record_op_body a i input w = (Inr res, w')"
  shows "sys_ok w'"
proof -
  from assms(2) have t: "is_int64 (ri_TenderedAmount input)" and run: "Record_body a i input w = (Inr res, w')"
    by (simp_all add: guarded_Inr)
  have "all_fresh w'" by (rule keepsD [OF bodies_fresh(6) sys_ok_parts(3) [OF assms(1)] run])
  then show ?thesis
    using Record_refines [OF sys_ok_parts(1,2,5,6) [OF assms(1)] t run] sys_ok_step [OF assms(1)]
      growsD(2) [OF bodies_grow(6) run] by blast
qed

lemma void_op_inv:
  assumes "sys_ok w" and run: "Void_body a i j reason w = (Inr res, w')"
  shows "sys_ok w'"
proof -
  have "all_fresh w'" by (rule keepsD [OF bodies_fresh(7) sys_ok_parts(3) [OF assms(1)] run])
  then show ?thesis
    using Void_refines [OF sys_ok_parts(1,2,5,6) [OF assms(1)] run] sys_ok_step [OF assms(1)]
      growsD(2) [OF bodies_grow(7) run] by blast
qed

interpretation create_op: tx_operation "Sql ConnErr" "create_op_body a input" sys_ok
  for a :: actor and input :: CreateOrderInput
  by unfold_locales (auto intro: grows_intro create_op_inv sys_ok_seqs)

interpretation transition_op: tx_operation "Sql ConnErr" "transition_op_body a i s nts" sys_ok
  for a :: actor and i :: i64 and s :: string and nts :: "string option"
  by unfold_locales (auto intro: grows_intro transition_op_inv sys_ok_seqs)

interpretation cancel_op: tx_operation "Sql ConnErr" "Cancel_body a i reason" sys_ok
  for a :: actor and i :: i64 and reason :: string
  by unfold_locales (auto intro: grows_intro cancel_op_inv sys_ok_seqs)

interpretation record_op: tx_operation "Sql ConnErr" "record_op_body a i input" sys_ok
  for a :: actor and i :: i64 and input :: RecordPaymentInput
  by unfold_locales (auto intro: grows_intro record_op_inv sys_ok_seqs)

interpretation void_op: tx_operation "Sql ConnErr" "Void_body a i j reason" sys_ok
  for a :: actor and i j :: i64 and reason :: string
  by unfold_locales (auto intro: grows_intro void_op_inv sys_ok_seqs)

section \<open>The operations keep the invariant, whatever they return\<close>

lemma Create_keeps: "sys_ok w \<Longrightarrow> OrderCatalog_Create a input w = (r, w') \<Longrightarrow> sys_ok w'"
  using create_op.tx_preserves [where w = w and a = a and input = input]
  by (auto simp: OrderCatalog_Create_def fail_run split: option.splits)

lemma Transition_keeps: "sys_ok w \<Longrightarrow> OrderCatalog_TransitionStatus a i s nts w = (r, w') \<Longrightarrow> sys_ok w'"
  using transition_op.tx_preserves [where w = w and a = a and i = i and s = s and nts = nts]
  by (auto simp: OrderCatalog_TransitionStatus_def fail_run split: if_splits)

lemma Cancel_keeps: "sys_ok w \<Longrightarrow> OrderCatalog_Cancel a i reason w = (r, w') \<Longrightarrow> sys_ok w'"
  using cancel_op.tx_preserves [where w = w and a = a and i = i]
  by (auto simp: OrderCatalog_Cancel_def fail_run Let_def split: if_splits)

lemma Record_keeps:
  "sys_ok w \<Longrightarrow> is_int64 (ri_TenderedAmount input) \<Longrightarrow> PaymentCatalog_Record a i input w = (r, w') \<Longrightarrow> sys_ok w'"
  using record_op.tx_preserves [where w = w and a = a and i = i and input = input]
  by (auto simp: PaymentCatalog_Record_def fail_run split: option.splits)

lemma Void_keeps: "sys_ok w \<Longrightarrow> PaymentCatalog_Void a i j reason w = (r, w') \<Longrightarrow> sys_ok w'"
  using void_op.tx_preserves [where w = w and a = a and i = i and j = j]
  by (auto simp: PaymentCatalog_Void_def fail_run Let_def split: if_splits)

section \<open>Reachable worlds\<close>

definition ledger_empty :: "db \<Rightarrow> bool" where
  "ledger_empty d \<longleftrightarrow> orders d = [] \<and> order_items d = [] \<and> order_status_history d = []
     \<and> invoice_counters d = [] \<and> payments d = []"

text \<open>No other statement of the program writes these tables, apart from appending audit rows; time does not go back.\<close>

definition ledger_untouched :: "db \<Rightarrow> db \<Rightarrow> bool" where
  "ledger_untouched d d' \<longleftrightarrow> orders d' = orders d \<and> order_items d' = order_items d
     \<and> order_status_history d' = order_status_history d \<and> invoice_counters d' = invoice_counters d
     \<and> payments d' = payments d \<and> (\<exists>rows. audit_logs d' = audit_logs d @ rows)"

inductive request :: "world \<Rightarrow> world \<Rightarrow> bool" where
  elsewhere: "ledger_untouched (data w) (data w') \<Longrightarrow> all_fresh w' \<Longrightarrow> now w \<le> now w' \<Longrightarrow> request w w'"
| create: "OrderCatalog_Create a input w = (cr, w') \<Longrightarrow> request w w'"
| transition: "OrderCatalog_TransitionStatus a i s notes w = (tr, w') \<Longrightarrow> request w w'"
| cancel: "OrderCatalog_Cancel a i reason w = (xr, w') \<Longrightarrow> request w w'"
| pay: "is_int64 (ri_TenderedAmount ri) \<Longrightarrow> PaymentCatalog_Record a i ri w = (rr, w') \<Longrightarrow> request w w'"
| void: "PaymentCatalog_Void a i j reason w = (vr, w') \<Longrightarrow> request w w'"

inductive reachable :: "world \<Rightarrow> bool" where
  start: "ledger_empty (data w) \<Longrightarrow> all_fresh w \<Longrightarrow> 0 \<le> now w \<Longrightarrow> reachable w"
| step: "reachable w \<Longrightarrow> request w w' \<Longrightarrow> reachable w'"

lemma ledger_ok_untouched:
  assumes "ledger_untouched d d'" and "ledger_ok d"
  shows "ledger_ok d'"
proof -
  have eqs: "orders d' = orders d" "order_items d' = order_items d"
    "order_status_history d' = order_status_history d" "invoice_counters d' = invoice_counters d"
    "payments d' = payments d"
    using assms(1) by (simp_all add: ledger_untouched_def)
  then have "order_ok d' r = order_ok d r" for r
    by (simp add: order_ok_def order_sound_def paid_on_def confirmed_total_def items_total_def
        history_trail_def numbered_def)
  then show ?thesis
    using assms(2) by (simp add: ledger_ok_def refs_ok_def keys_ok_def counters_ok_def eqs)
qed

lemma request_keeps: "request w w' \<Longrightarrow> sys_ok w \<Longrightarrow> sys_ok w'"
proof (induction rule: request.induct)
  case (elsewhere w w')
  then show ?case using ledger_ok_untouched by (simp add: sys_ok_def)
qed (auto intro: Create_keeps Transition_keeps Cancel_keeps Record_keeps Void_keeps)

lemma reachable_ok: "reachable w \<Longrightarrow> sys_ok w"
proof (induction rule: reachable.induct)
  case (start w)
  then show ?case
    by (simp add: sys_ok_def ledger_ok_def ledger_empty_def refs_ok_def keys_ok_def counters_ok_def)
next
  case (step w w')
  then show ?case using request_keeps by blast
qed

end
