(* ===== verification/Progress.thy ===== *)
theory Progress
  imports Ledger_System
begin

text \<open>
  When the operations succeed: over a calm connection, an authorised actor whose request meets the
  guards and whose texts the server accepts gets a result, never an error. Together with the
  refinement lemmas this says that the events of the contract are not only the only ones that
  happen, they do happen.
\<close>

section \<open>Statements over a calm connection\<close>

lemma insert_serial_calm:
  assumes "faults w = []" and "chk (data w) (mk (seqs w t) (now w) (data w)) = None"
  shows "\<exists>w'. insert_serial t get put chk mk w = (Inr (mk (seqs w t) (now w) (data w)), w')
    \<and> data w' = put (get (data w) @ [mk (seqs w t) (now w) (data w)]) (data w)
    \<and> now w' = now w \<and> faults w' = [] \<and> seqs w' = (seqs w)(t := seqs w t + 1)"
  using assms by (simp add: insert_serial_def Let_def)

lemma update_one_calm:
  assumes "faults w = []" and "filter p (get (data w)) = [r]" and "chk (data w) (upd (now w) r) = None"
  shows "\<exists>w'. only_one (update_rows get put chk p upd) w = (Inr (upd (now w) r), w')
    \<and> data w' = put (map (\<lambda>r. if p r then upd (now w) r else r) (get (data w))) (data w)
    \<and> now w' = now w \<and> faults w' = [] \<and> seqs w' = seqs w"
  using assms by (simp add: only_one_def update_rows_def tbind_def ret_def)

lemma tbind_runs:
  assumes "p w = (Inr a, u)" and "\<exists>b v. f a u = (Inr b, v) \<and> Q b v"
  shows "\<exists>b v. tbind p f w = (Inr b, v) \<and> Q b v"
  using assms by (simp add: tbind_def)

lemma in_tx_calm:
  assumes "faults w = []" and "body w = (Inr a, v)" and "faults v = []"
  shows "in_tx body w = (Inr a, v)"
  using assms by (simp add: with_tx_def)

text \<open>Where the schedule of faults is empty it stays empty.\<close>

lemma all_same_hd:
  assumes "x \<in> set xs" and "\<And>y. y \<in> set xs \<Longrightarrow> y = x"
  shows "\<exists>rest. xs = x # rest"
proof (cases xs)
  case Nil
  with assms(1) show ?thesis by simp
next
  case (Cons y ys)
  then have "y = x" by (intro assms(2)) simp
  with Cons show ?thesis by simp
qed

lemma lock_calm:
  assumes calm: "faults w = []" and ok: "sys_ok w" and may: "may_operate (data w) a r"
  shows "lockLifecycleOrder a (o_id r) w = (Inr r, w)"
proof -
  let ?sel = "[x. x \<leftarrow> orders (data w), y \<leftarrow> outlets (data w), u \<leftarrow> users (data w),
        out_business_id y = o_business_id x \<and> out_id y = o_outlet_id x \<and> out_is_active y \<and>
        u_business_id u = o_business_id x \<and> u_id u = a_user_id a \<and> u_is_active u \<and>
        u_role u = role_of (is_admin a) \<and>
        o_business_id x = a_business_id a \<and> o_id x = o_id r \<and>
        (is_admin a \<or> assigned (data w) (o_business_id x) (a_user_id a) (o_outlet_id x))]"
  have sel: "set ?sel = {x \<in> set (orders (data w)). o_business_id x = a_business_id a \<and> o_id x = o_id r \<and>
      (is_admin a \<or> assigned (data w) (o_business_id x) (a_user_id a) (o_outlet_id x)) \<and>
      (\<exists>y \<in> set (outlets (data w)). out_business_id y = o_business_id x \<and> out_id y = o_outlet_id x \<and> out_is_active y) \<and>
      (\<exists>u \<in> set (users (data w)). u_business_id u = o_business_id x \<and> u_id u = a_user_id a \<and> u_is_active u
        \<and> u_role u = role_of (is_admin a))}"
    by auto
  have m1: "r \<in> set ?sel" unfolding sel using may unfolding may_operate_def by (elim conjE) simp
  have m2: "x = r" if "x \<in> set ?sel" for x
  proof -
    from that [unfolded sel] have "x \<in> set (orders (data w))" "o_id x = o_id r" by auto
    then show ?thesis
      using orders_tbl.key_unique [OF sys_ok_parts(1) [OF ok]] may by (simp add: may_operate_def)
  qed
  obtain rest where "?sel = r # rest" using all_same_hd [OF m1 m2] ..
  then have get: "GetOrderForUpdate (a_business_id a) (o_id r) (is_admin a) (a_user_id a) w = (Inr r, w)"
    by (simp add: GetOrderForUpdate_def one_select_calm calm)
  have "\<exists>v rest. [uo_user_id x. x \<leftarrow> user_outlets (data w),
        uo_business_id x = a_business_id a \<and> uo_user_id x = a_user_id a \<and> uo_outlet_id x = o_outlet_id r]
      = v # rest" (is "\<exists>v rest. ?l = v # rest") if "\<not> is_admin a"
  proof -
    from may that have "assigned (data w) (a_business_id a) (a_user_id a) (o_outlet_id r)"
      by (simp add: may_operate_def)
    then obtain x where "x \<in> set (user_outlets (data w))" "uo_business_id x = a_business_id a"
        "uo_user_id x = a_user_id a" "uo_outlet_id x = o_outlet_id r"
      by (auto simp: assigned_def list_ex_iff)
    then have "a_user_id a \<in> set ?l" by auto
    then show ?thesis by (cases ?l) auto
  qed
  then show ?thesis
    using get by (auto simp: lockLifecycleOrder_def LockCurrentOrderOutletAssignment_def tbind_def
        on_err_def ret_def one_select_calm calm)
qed

section \<open>What the server accepts\<close>

definition audit_fits :: "db \<Rightarrow> actor \<Rightarrow> i64 \<Rightarrow> bool" where
  "audit_fits d a l \<longleftrightarrow> list_ex (\<lambda>b. b_id b = a_business_id a) (businesses d)
     \<and> outlet_exists d (a_business_id a) l \<and> user_exists d (a_business_id a) (a_user_id a)
     \<and> pg_text_opt (audit_user_agent (a_user_agent a))"

lemma may_operate_exists:
  assumes "may_operate d a r"
  shows "outlet_exists d (a_business_id a) (o_outlet_id r)" "user_exists d (a_business_id a) (a_user_id a)"
    "order_exists d (a_business_id a) (o_outlet_id r) (o_id r)"
  using assms by (auto simp: may_operate_def outlet_exists_def user_exists_def order_exists_def list_ex_iff)

lemma audit_calm:
  assumes "faults w = []" and "audit_fits (data w) a l" and "pg_text act" "btrim act \<noteq> []"
    and "jval_ok old" "jval_ok new"
  shows "\<exists>x w'. insertLifecycleAudit a l i act old new w = (Inr x, w') \<and> faults w' = []"
    and "\<exists>x w'. insertPaymentAudit a l i act old new w = (Inr x, w') \<and> faults w' = []"
    and "act = ''ORDER_CREATED'' \<Longrightarrow> \<exists>x w'. InsertOrderAuditLog (a_business_id a) (Some l) (Some (a_user_id a)) (Some i) new
        ip (audit_user_agent (a_user_agent a)) w = (Inr x, w') \<and> faults w' = []"
proof -
  have ent: "btrim ''order'' \<noteq> []" "btrim ''payment'' \<noteq> []" by (simp_all add: btrim_empty_iff blank_def)
  show "\<exists>x w'. insertLifecycleAudit a l i act old new w = (Inr x, w') \<and> faults w' = []"
    and "\<exists>x w'. insertPaymentAudit a l i act old new w = (Inr x, w') \<and> faults w' = []"
    and "act = ''ORDER_CREATED'' \<Longrightarrow> \<exists>x w'. InsertOrderAuditLog (a_business_id a) (Some l) (Some (a_user_id a)) (Some i) new
        ip (audit_user_agent (a_user_agent a)) w = (Inr x, w') \<and> faults w' = []"
    using assms ent
    by (simp_all add: insertLifecycleAudit_def InsertOrderLifecycleAuditLog_def insertPaymentAudit_def
        InsertPaymentAuditLog_def InsertOrderAuditLog_def insert_audit_def on_err_def insert_serial_def
        insert_audit_error_def audit_fits_def Let_def jval_opt_ok_def)
qed

lemma action_texts:
  "pg_text ''ORDER_STATUS_CHANGED''" "btrim ''ORDER_STATUS_CHANGED'' \<noteq> []"
  "pg_text ''ORDER_CANCELLED''" "btrim ''ORDER_CANCELLED'' \<noteq> []"
  "pg_text ''ORDER_CREATED''" "btrim ''ORDER_CREATED'' \<noteq> []"
  "pg_text ''PAYMENT_CONFIRMED''" "btrim ''PAYMENT_CONFIRMED'' \<noteq> []"
  "pg_text ''PAYMENT_VOIDED''" "btrim ''PAYMENT_VOIDED'' \<noteq> []"
  by (simp_all add: pg_text_def in_range_def rune_len_def btrim_empty_iff blank_def)

lemma jval_nullable [simp]:
  "jval_ok (nullable_time t)" "jval_ok (nullableInt i)" "pg_text_opt x \<Longrightarrow> jval_ok (nullable_str x)"
  by (auto simp: nullable_time_def nullableInt_def nullable_str_def pg_text_opt_def pg_text_def
      split: option.splits)

lemma pg_text_nul [simp]: "pg_text x \<Longrightarrow> CHR 0x00 \<notin> set x"
  by (simp add: pg_text_def)

lemma pg_text_optI [simp]: "pg_text x \<Longrightarrow> pg_text_opt (Some x)"
  by (simp add: pg_text_opt_def)

text \<open>A trimmed reason that is not empty is not blank for the server either.\<close>

lemma trim_space_not_blank: "trim_space s \<noteq> [] \<Longrightarrow> \<not> blank (trim_space s)"
proof
  let ?t = "trim_space s"
  assume ne: "?t \<noteq> []" and bl: "blank ?t"
  have zero: "space_at_end ?t = 0" using trim_right_fixed [of "trim_left s"] ne by (simp add: trim_space_def)
  have "starts_with (rev [CHR 0x20]) (rev ?t)"
  proof -
    have "last ?t = CHR '' ''" using ne bl by (simp add: blank_def list_all_iff)
    then show ?thesis using ne by (cases "rev ?t") (auto simp: starts_with_def last_rev [symmetric])
  qed
  moreover have "[CHR 0x20] \<in> set space_codes" by (simp add: space_codes_def)
  ultimately have "find (\<lambda>p. starts_with (rev p) (rev ?t)) space_codes \<noteq> None"
    using find_NoneD [of "\<lambda>p. starts_with (rev p) (rev ?t)" space_codes "[CHR 0x20]"] by blast
  then obtain p where "find (\<lambda>p. starts_with (rev p) (rev ?t)) space_codes = Some p" by blast
  moreover have "\<forall>p \<in> set space_codes. p \<noteq> []" by (simp add: space_codes_def)
  then have "p \<noteq> []" using find_SomeD calculation by fastforce
  ultimately show False using zero by (simp add: space_at_end_def)
qed

lemma status_text:
  "s \<in> set order_statuses \<Longrightarrow> pg_text s" "pg_text ''RECEIVED''" "pg_text ''CANCELLED''"
  by (auto simp: order_statuses_def pg_text_def in_range_def rune_len_def)

lemma allowed_in: "allowedOrderTransition f s \<Longrightarrow> f \<in> {''RECEIVED'', ''PROCESSING'', ''READY_FOR_PICKUP''} \<and> s \<in> set order_statuses"
  by (auto simp: allowedOrderTransition_def order_statuses_def split: if_splits)

lemma allowed_history:
  "allowedOrderTransition f s \<Longrightarrow> h_from_status h = Some f \<Longrightarrow> h_to_status h = s \<Longrightarrow> history_check h"
  by (auto simp: allowedOrderTransition_def history_check_def split: if_splits)

lemma history_calm:
  assumes "faults w = []" and "allowedOrderTransition f s" and "pg_text_opt nts"
    and "order_exists (data w) b l i" and "user_exists (data w) b u"
  shows "\<exists>x w'. InsertOrderStatusHistory b l i (Some f) s u nts w = (Inr x, w') \<and> faults w' = []
     \<and> businesses (data w') = businesses (data w) \<and> outlets (data w') = outlets (data w)
     \<and> users (data w') = users (data w)"
proof -
  have "pg_text f" "pg_text s"
    using allowed_in [OF assms(2)] status_text(1) by (auto simp: order_statuses_def)
  then have "insert_history_error (data w) \<lparr>h_id = seqs w THistory, h_business_id = b, h_outlet_id = l,
      h_order_id = i, h_from_status = Some f, h_to_status = s, h_changed_by = u, h_notes = nts,
      h_changed_at = now w\<rparr> = None"
    using assms allowed_history [OF assms(2)] by (simp add: insert_history_error_def pg_text_opt_def)
  then show ?thesis
    using assms(1) unfolding InsertOrderStatusHistory_def insert_history_def
    by (simp add: insert_serial_def Let_def)
qed

text \<open>An update of the one order with the given key.\<close>

lemma order_update_calm:
  assumes "faults w = []" and "sys_ok w" and "r \<in> set (orders (data w))"
    and "p r" and "\<And>x. p x \<Longrightarrow> o_id x = o_id r"
    and "update_order_error (data w) (upd (now w) r) = None"
  shows "\<exists>w'. only_one (update_orders p upd) w = (Inr (upd (now w) r), w') \<and> faults w' = []
     \<and> data w' = (data w)\<lparr>orders := replace_row r (upd (now w) r) (orders (data w))\<rparr>
     \<and> now w' = now w \<and> seqs w' = seqs w"
proof -
  note fresh = sys_ok_parts(1) [OF assms(2)]
  have "filter p (orders (data w)) = [r]"
    using fresh assms(3,4,5) by (rule orders_tbl.filter_key)
  moreover have "map (\<lambda>x. if p x then upd (now w) x else x) (orders (data w))
      = replace_row r (upd (now w) r) (orders (data w))"
    using fresh assms(3,4,5) by (rule orders_tbl.selects_one)
  ultimately show ?thesis
    using update_one_calm [of w p orders r update_order_error upd "\<lambda>rs d. d\<lparr>orders := rs\<rparr>"] assms(1,6)
    unfolding update_orders_def by auto
qed

lemma order_exists_replace:
  assumes "order_exists d b l i" and "same_terms r r'" and "r \<in> set (orders d)"
  shows "order_exists (d\<lparr>orders := replace_row r r' (orders d)\<rparr>) b l i"
  using assms same_termsD [OF assms(2)] unfolding order_exists_def
  by (simp add: list_ex_replace_row)

section \<open>Progress of an order\<close>

lemma order_check_of: "sys_ok w \<Longrightarrow> r \<in> set (orders (data w)) \<Longrightarrow> order_check r"
  using sys_ok_parts(5) by (auto simp: order_sound_def)

lemma Transition_calm:
  assumes calm: "faults w = []" and ok: "sys_ok w" and may: "may_operate (data w) a r"
    and al: "allowedOrderTransition (o_status r) s" and valid: "validStatusTarget s"
    and nts: "pg_text_opt nts" and aud: "audit_fits (data w) a (o_outlet_id r)"
  shows "\<exists>res w'. Transition_body a (o_id r) s nts w = (Inr res, w') \<and> faults w' = []"
proof -
  have r: "r \<in> set (orders (data w))" and b: "o_business_id r = a_business_id a"
    using may by (simp_all add: may_operate_def)
  let ?upd = "\<lambda>n r. r\<lparr>o_status := s, o_completed_at := (if s = ''COMPLETED'' then Some n else None),
                o_updated_at := n\<rparr>"
  have s: "s \<noteq> ''CANCELLED''" "s \<in> set order_statuses"
    using valid by (auto simp: validStatusTarget_def order_statuses_def)
  have f: "o_status r \<noteq> ''CANCELLED''" using allowed_in [OF al] by auto
  have "order_check (?upd (now w) r)"
    using order_check_of [OF ok r] s f by (cases "o_due_at r") (auto simp: order_check_def)
  moreover have "o_cancelled_by r = None" using order_check_of [OF ok r] f by (simp add: order_check_def)
  ultimately have chk: "update_order_error (data w) (?upd (now w) r) = None"
    by (simp add: update_order_error_def)
  have "\<exists>v. only_one (update_orders (order_is (a_business_id a) (o_id r)) ?upd) w = (Inr (?upd (now w) r), v)
     \<and> faults v = [] \<and> data v = (data w)\<lparr>orders := replace_row r (?upd (now w) r) (orders (data w))\<rparr>
     \<and> now v = now w \<and> seqs v = seqs w"
  proof (rule order_update_calm [where r = r and upd = ?upd, OF calm ok r])
    show "order_is (a_business_id a) (o_id r) r" using b by (simp add: order_is_def)
    show "o_id x = o_id r" if "order_is (a_business_id a) (o_id r) x" for x
      using that by (simp add: order_is_def)
  qed (rule chk)
  then obtain v where v: "TransitionOrderStatus (a_business_id a) (o_id r) s w = (Inr (?upd (now w) r), v)"
      and fv: "faults v = []"
      and dv: "data v = (data w)\<lparr>orders := replace_row r (?upd (now w) r) (orders (data w))\<rparr>"
    using status_text(1) [OF s(2)] calm by (auto simp: TransitionOrderStatus_def)
  have "same_terms r (?upd (now w) r)" by (simp add: same_terms_def)
  then have "order_exists (data v) (a_business_id a) (o_outlet_id r) (o_id r)"
    unfolding dv by (intro order_exists_replace may_operate_exists(3) [OF may] r)
  moreover have "user_exists (data v) (a_business_id a) (a_user_id a)"
    using may_operate_exists(2) [OF may] by (simp add: dv user_exists_def)
  ultimately obtain h x where h: "InsertOrderStatusHistory (a_business_id a) (o_outlet_id r) (o_id r)
      (Some (o_status r)) s (a_user_id a) nts v = (Inr h, x)" and fx: "faults x = []"
      and dx: "businesses (data x) = businesses (data v)" "outlets (data x) = outlets (data v)"
        "users (data x) = users (data v)"
    using history_calm [OF fv al nts] by blast
  have "audit_fits (data x) a (o_outlet_id r)"
    using aud by (simp add: audit_fits_def dx dv outlet_exists_def user_exists_def)
  moreover have "pg_text s" "pg_text (o_status r)"
    using status_text(1) s(2) allowed_in [OF al] by (auto simp: order_statuses_def)
  ultimately have "\<exists>y z. insertLifecycleAudit a (o_outlet_id r) (o_id r) ''ORDER_STATUS_CHANGED''
              (JObj [(''status'', JStr (o_status r)), (''completed_at'', nullable_time (o_completed_at r))])
              (JObj [(''status'', JStr (o_status (?upd (now w) r))),
                     (''completed_at'', nullable_time (o_completed_at (?upd (now w) r))),
                     (''notes'', nullable_str nts)]) x = (Inr y, z) \<and> faults z = []"
    by (intro audit_calm(1) [OF fx] action_texts) (simp_all add: nts)
  then obtain y z where "insertLifecycleAudit a (o_outlet_id r) (o_id r) ''ORDER_STATUS_CHANGED''
              (JObj [(''status'', JStr (o_status r)), (''completed_at'', nullable_time (o_completed_at r))])
              (JObj [(''status'', JStr (o_status (?upd (now w) r))),
                     (''completed_at'', nullable_time (o_completed_at (?upd (now w) r))),
                     (''notes'', nullable_str nts)]) x = (Inr y, z)" and "faults z = []" by blast
  with lock_calm [OF calm ok may] al v h show ?thesis
    by (simp add: Transition_body_def tbind_def on_err_def ret_def)
qed

lemma Cancel_calm:
  assumes calm: "faults w = []" and ok: "sys_ok w" and may: "may_operate (data w) a r"
    and al: "allowedOrderTransition (o_status r) ''CANCELLED''" and unpaid: "o_payment_status r = ''UNPAID''"
    and rsn: "pg_text reason" "\<not> blank reason" and aud: "audit_fits (data w) a (o_outlet_id r)"
  shows "\<exists>res w'. Cancel_body a (o_id r) reason w = (Inr res, w') \<and> faults w' = []"
proof -
  have r: "r \<in> set (orders (data w))" and b: "o_business_id r = a_business_id a"
    using may by (simp_all add: may_operate_def)
  let ?upd = "\<lambda>n r. r\<lparr>o_status := ''CANCELLED'', o_cancelled_at := Some n, o_cancelled_by := Some (a_user_id a),
                o_cancellation_reason := Some reason, o_deleted_at := Some n, o_updated_at := n\<rparr>"
  have f: "o_status r \<noteq> ''COMPLETED''" using allowed_in [OF al] by auto
  have "order_check (?upd (now w) r)"
    using order_check_of [OF ok r] f rsn(2)
    by (cases "o_due_at r") (auto simp: order_check_def order_statuses_def is_blank_def btrim_empty_iff)
  then have chk: "update_order_error (data w) (?upd (now w) r) = None"
    using may_operate_exists(2) [OF may] b by (simp add: update_order_error_def)
  have "\<exists>v. only_one (update_orders (order_is (a_business_id a) (o_id r)) ?upd) w = (Inr (?upd (now w) r), v)
     \<and> faults v = [] \<and> data v = (data w)\<lparr>orders := replace_row r (?upd (now w) r) (orders (data w))\<rparr>
     \<and> now v = now w \<and> seqs v = seqs w"
  proof (rule order_update_calm [where r = r and upd = ?upd, OF calm ok r])
    show "order_is (a_business_id a) (o_id r) r" using b by (simp add: order_is_def)
    show "o_id x = o_id r" if "order_is (a_business_id a) (o_id r) x" for x
      using that by (simp add: order_is_def)
  qed (rule chk)
  then obtain v where v: "CancelOrder (a_business_id a) (o_id r) (a_user_id a) reason w = (Inr (?upd (now w) r), v)"
      and fv: "faults v = []"
      and dv: "data v = (data w)\<lparr>orders := replace_row r (?upd (now w) r) (orders (data w))\<rparr>"
    using rsn calm by (auto simp: CancelOrder_def)
  have "same_terms r (?upd (now w) r)" by (simp add: same_terms_def)
  then have "order_exists (data v) (a_business_id a) (o_outlet_id r) (o_id r)"
    unfolding dv by (intro order_exists_replace may_operate_exists(3) [OF may] r)
  moreover have "user_exists (data v) (a_business_id a) (a_user_id a)"
    using may_operate_exists(2) [OF may] by (simp add: dv user_exists_def)
  moreover have "pg_text_opt (Some reason)" using rsn by simp
  ultimately obtain h x where h: "InsertOrderStatusHistory (a_business_id a) (o_outlet_id r) (o_id r)
      (Some (o_status r)) ''CANCELLED'' (a_user_id a) (Some reason) v = (Inr h, x)" and fx: "faults x = []"
      and dx: "businesses (data x) = businesses (data v)" "outlets (data x) = outlets (data v)"
        "users (data x) = users (data v)"
    using history_calm [OF fv al] by blast
  have "audit_fits (data x) a (o_outlet_id r)"
    using aud by (simp add: audit_fits_def dx dv outlet_exists_def user_exists_def)
  moreover have "pg_text (o_status r)" "pg_text ''UNPAID''"
    using status_text(1) allowed_in [OF al] by (auto simp: order_statuses_def pg_text_def in_range_def rune_len_def)
  ultimately have "\<exists>y z. insertLifecycleAudit a (o_outlet_id r) (o_id r) ''ORDER_CANCELLED''
              (JObj [(''status'', JStr (o_status r)), (''payment_status'', JStr (o_payment_status r))])
              (JObj [(''status'', JStr (o_status (?upd (now w) r))),
                     (''payment_status'', JStr (o_payment_status (?upd (now w) r))),
                     (''cancelled_at'', nullable_time (o_cancelled_at (?upd (now w) r))),
                     (''cancelled_by'', JInt (a_user_id a)), (''cancellation_reason'', JStr reason),
                     (''deleted_at'', nullable_time (o_deleted_at (?upd (now w) r)))]) x = (Inr y, z) \<and> faults z = []"
    by (intro audit_calm(1) [OF fx] action_texts) (simp_all add: rsn unpaid)
  then obtain y z where "insertLifecycleAudit a (o_outlet_id r) (o_id r) ''ORDER_CANCELLED''
              (JObj [(''status'', JStr (o_status r)), (''payment_status'', JStr (o_payment_status r))])
              (JObj [(''status'', JStr (o_status (?upd (now w) r))),
                     (''payment_status'', JStr (o_payment_status (?upd (now w) r))),
                     (''cancelled_at'', nullable_time (o_cancelled_at (?upd (now w) r))),
                     (''cancelled_by'', JInt (a_user_id a)), (''cancellation_reason'', JStr reason),
                     (''deleted_at'', nullable_time (o_deleted_at (?upd (now w) r)))]) x = (Inr y, z)"
    and "faults z = []" by blast
  with lock_calm [OF calm ok may] al v h unpaid show ?thesis
    by (simp add: Cancel_body_def tbind_def on_err_def ret_def)
qed

section \<open>Progress of payments\<close>

definition no_refunds :: "db \<Rightarrow> order_row \<Rightarrow> bool" where
  "no_refunds d r \<longleftrightarrow> \<not> list_ex (\<lambda>x. rf_business_id x = o_business_id r \<and> rf_outlet_id x = o_outlet_id r
     \<and> rf_order_id x = o_id r) (payment_refunds d)"

lemma no_refunds_calm:
  assumes "faults w = []" and "no_refunds (data w) r" and "o_business_id r = b"
  shows "ensureNoPaymentRefunds b (o_outlet_id r) (o_id r) w = (Inr (), w)"
proof -
  have "filter (\<lambda>x. rf_business_id x = b \<and> rf_outlet_id x = o_outlet_id r \<and> rf_order_id x = o_id r)
      (payment_refunds (data w)) = []"
    using assms(2,3) by (auto simp: no_refunds_def filter_empty_conv list_ex_iff)
  then show ?thesis
    using assms(1) by (simp add: ensureNoPaymentRefunds_def CountOrderPaymentRefunds_def tbind_def on_err_def
        ret_def one_select_calm)
qed

lemma paid_within_calm:
  assumes "faults w = []" and "0 \<le> paid_on (data w) r" and "paid_on (data w) r \<le> o_total_amount r"
    and "is_int64 (o_total_amount r)" and "o_business_id r = a_business_id a"
  shows "paid_within a r (o_id r) w = (Inr (paid_on (data w) r), w)"
proof -
  have "is_int64 (paid_on (data w) r)" using assms(2-4) by (simp add: is_int64_def)
  then show ?thesis
    using assms by (simp add: paid_within_def GetConfirmedPaymentTotal_def tbind_def on_err_def ret_def
        one_select_calm paid_on_def)
qed

lemma order_money:
  assumes "sys_ok w" and "r \<in> set (orders (data w))"
  shows "0 \<le> paid_on (data w) r" "paid_on (data w) r \<le> o_total_amount r" "is_int64 (o_total_amount r)"
  using sys_ok_parts(5) [OF assms(1)] assms(2) paid_on_nonneg sys_ok_parts(4) [OF assms(1)]
  by (auto simp: order_sound_def ledger_ok_def)

text \<open>Storing the payment status of the order, after a write to the payments.\<close>

lemma payment_status_calm:
  assumes calm: "faults v = []" and fresh: "orders_tbl.fresh v" and r: "r \<in> set (orders (data v))"
    and chk: "order_check r" and st: "s \<in> set payment_statuses"
    and usr: "\<And>u. o_cancelled_by r = Some u \<Longrightarrow> user_exists (data v) (o_business_id r) u"
  shows "\<exists>x. UpdateOrderPaymentStatus (o_business_id r) (o_outlet_id r) (o_id r) s v
      = (Inr (r\<lparr>o_payment_status := s, o_updated_at := now v\<rparr>), x) \<and> faults x = []
     \<and> businesses (data x) = businesses (data v) \<and> outlets (data x) = outlets (data v)
     \<and> users (data x) = users (data v)"
proof -
  let ?p = "\<lambda>x. o_business_id x = o_business_id r \<and> o_outlet_id x = o_outlet_id r \<and> o_id x = o_id r"
  let ?upd = "\<lambda>n r. r\<lparr>o_payment_status := s, o_updated_at := n\<rparr>"
  have "filter ?p (orders (data v)) = [r]"
    by (rule orders_tbl.filter_key [where p = ?p and r = r, OF fresh r]) auto
  moreover have "order_check (?upd (now v) r)"
    using chk st by (cases "o_due_at r") (auto simp: order_check_def)
  then have "update_order_error (data v) (?upd (now v) r) = None"
    using usr by (simp add: update_order_error_def split: option.split)
  ultimately show ?thesis
    using update_one_calm [of v ?p orders r update_order_error ?upd "\<lambda>rs d. d\<lparr>orders := rs\<rparr>"] calm
    unfolding UpdateOrderPaymentStatus_def update_orders_def by fastforce
qed

lemma paymentStatusFor_in: "paymentStatusFor t p \<in> set payment_statuses"
  by (simp add: paymentStatusFor_def payment_statuses_def)

lemma status_for_text: "pg_text (paymentStatusFor t p)"
  by (simp add: paymentStatusFor_def pg_text_def in_range_def rune_len_def)

lemma method_text: "validPaymentMethod mth \<Longrightarrow> pg_text mth"
  by (auto simp: validPaymentMethod_def pg_text_def in_range_def rune_len_def)

lemma cancelled_by_None:
  "order_check r \<Longrightarrow> o_status r \<noteq> ''CANCELLED'' \<Longrightarrow> o_cancelled_by r = None \<and> o_deleted_at r = None"
  by (simp add: order_check_def)

lemma paymentAmounts_ok:
  assumes "validPaymentMethod m" "0 < t" "0 < out" "m = ''CASH'' \<or> t \<le> out"
  shows "\<exists>amt chg. paymentAmounts m t out = Inr (amt, chg)"
proof (cases "m = ''CASH''")
  case True
  with assms(1-3) show ?thesis unfolding paymentAmounts_def Let_def by simp
next
  case False
  with assms show ?thesis unfolding paymentAmounts_def Let_def by simp
qed

text \<open>What a new payment must satisfy for the server to take it.\<close>

definition payment_fits :: "db \<Rightarrow> order_row \<Rightarrow> RecordPaymentInput \<Rightarrow> bool" where
  "payment_fits d r input \<longleftrightarrow>
     pg_text (ri_IdempotencyKey input) \<and> \<not> blank (ri_IdempotencyKey input) \<and>
     pg_text_opt (ri_ExternalReference input) \<and> pg_text_opt (ri_Notes input) \<and>
     \<not> list_ex (\<lambda>p. payment_of r p \<and> p_idempotency_key p = Some (ri_IdempotencyKey input)) (payments d)"

lemma Record_new_calm:
  assumes calm: "faults w = []" and ok: "sys_ok w" and may: "may_operate (data w) a r"
    and st: "o_status r \<noteq> ''CANCELLED''" and guard: "Record_guard a (o_id r) input = None"
    and i64: "is_int64 (ri_TenderedAmount input)"
    and due: "paid_on (data w) r < o_total_amount r"
    and tender: "ri_Method input = ''CASH'' \<or> ri_TenderedAmount input \<le> o_total_amount r - paid_on (data w) r"
    and fits: "payment_fits (data w) r input" and aud: "audit_fits (data w) a (o_outlet_id r)"
  shows "\<exists>res w'. Record_new a (o_id r) input r w = (Inr res, w') \<and> faults w' = []"
proof -
  have r: "r \<in> set (orders (data w))" and b: "o_business_id r = a_business_id a"
    using may by (simp_all add: may_operate_def)
  note M = order_money [OF ok r]
  let ?out = "o_total_amount r - paid_on (data w) r"
  have out: "wrap64 ?out = ?out" "is_int64 ?out" using M due by (simp_all add: is_int64_def wrap64_id)
  have g: "validPaymentMethod (ri_Method input)" "0 < ri_TenderedAmount input"
      "length (ri_IdempotencyKey input) \<le> 128" "length (ri_RequestHash input) = 32"
    using guard by (auto simp: Record_guard_def split: if_splits)
  have "0 < ?out" using due by simp
  from paymentAmounts_ok [OF g(1,2) this tender] obtain amt chg where pa: "paymentAmounts (ri_Method input) (ri_TenderedAmount input) ?out = Inr (amt, chg)"
    by blast
  note PA = paymentAmounts_Inr [OF pa i64 out(2)]
  let ?mk = "\<lambda>i n d. \<lparr>p_id = i, p_business_id = a_business_id a, p_outlet_id = o_outlet_id r, p_order_id = o_id r,
        p_amount = amt, p_method = ri_Method input, p_status = ''CONFIRMED'',
        p_external_reference = ri_ExternalReference input, p_notes = ri_Notes input, p_confirmed_at = Some n,
        p_voided_at = None, p_voided_by = None, p_void_reason = None, p_created_by = a_user_id a,
        p_created_at = n, p_idempotency_key = Some (ri_IdempotencyKey input), p_request_hash = Some (ri_RequestHash input)\<rparr>"
  have "rune_count (ri_IdempotencyKey input) \<le> 128" using g(3) rune_count_le order_trans by blast
  then have "insert_payment_error (data w) (?mk (seqs w TPayments) (now w) (data w)) = None"
    using fits g PA may_operate_exists [OF may] b
    by (auto simp: insert_payment_error_def payment_text_def payment_fits_def payment_check_def
        payment_key_taken_def list_ex_iff btrim_empty_iff method_text validPaymentMethod_def pg_text_opt_def)
  then obtain v where v: "CreateConfirmedPayment (a_business_id a) (o_outlet_id r) (o_id r) amt (ri_Method input)
        (ri_ExternalReference input) (ri_Notes input) (a_user_id a) (ri_IdempotencyKey input)
        (ri_RequestHash input) w = (Inr (?mk (seqs w TPayments) (now w) (data w)), v)"
      and fv: "faults v = []" and dv: "data v = (data w)\<lparr>payments := payments (data w) @ [?mk (seqs w TPayments) (now w) (data w)]\<rparr>"
      and sv: "seqs v = (seqs w)(TPayments := seqs w TPayments + 1)"
    using insert_serial_calm [OF calm, of insert_payment_error ?mk TPayments payments]
    unfolding CreateConfirmedPayment_def by blast
  have "orders_tbl.fresh v"
    using sys_ok_parts(1) [OF ok] by (rule orders_tbl.fresh_frame) (simp_all add: dv sv)
  moreover have "r \<in> set (orders (data v))" using r by (simp add: dv)
  moreover have chk: "order_check r" by (rule order_check_of [OF ok r])
  moreover have "user_exists (data v) (o_business_id r) u" if "o_cancelled_by r = Some u" for u
    using cancelled_by_None [OF chk st] that by simp
  ultimately obtain x where x: "UpdateOrderPaymentStatus (a_business_id a) (o_outlet_id r) (o_id r)
        (paymentStatusFor (o_total_amount r) (wrap64 (paid_on (data w) r + amt))) v
      = (Inr (r\<lparr>o_payment_status := paymentStatusFor (o_total_amount r) (wrap64 (paid_on (data w) r + amt)),
                o_updated_at := now v\<rparr>), x)" and fx: "faults x = []"
      and dx: "businesses (data x) = businesses (data v)" "outlets (data x) = outlets (data v)"
        "users (data x) = users (data v)"
    using payment_status_calm [OF fv _ _ _ paymentStatusFor_in] b by metis
  have "audit_fits (data x) a (o_outlet_id r)"
    using aud by (simp add: audit_fits_def dx dv outlet_exists_def user_exists_def)
  then have "\<exists>y z. insertPaymentAudit a (o_outlet_id r) (p_id (?mk (seqs w TPayments) (now w) (data w))) ''PAYMENT_CONFIRMED''
       (JObj [(''payment_status'', JStr (paymentStatusFor (o_total_amount r) (paid_on (data w) r))),
              (''paid_amount'', JInt (paid_on (data w) r)), (''outstanding_amount'', JInt ?out)])
       (JObj [(''payment_id'', JInt (p_id (?mk (seqs w TPayments) (now w) (data w)))), (''method'', JStr (ri_Method input)),
              (''amount'', JInt amt), (''payment_status'', JStr (paymentStatusFor (o_total_amount r) (wrap64 (paid_on (data w) r + amt)))),
              (''paid_amount'', JInt (wrap64 (paid_on (data w) r + amt))),
              (''outstanding_amount'', JInt (wrap64 (o_total_amount r - wrap64 (paid_on (data w) r + amt))))]) x
       = (Inr y, z) \<and> faults z = []"
    by (intro audit_calm(2) [OF fx] action_texts) (simp_all add: status_for_text method_text g(1))
  then show ?thesis
    using paid_within_calm [OF calm M(1,2,3) b] v x pa due out
    by (auto simp: Record_new_def tbind_def on_err_def ret_def Let_def)
qed

lemma Record_calm:
  assumes calm: "faults w = []" and ok: "sys_ok w" and may: "may_operate (data w) a r"
    and st: "o_status r \<noteq> ''CANCELLED''" and ref: "no_refunds (data w) r"
    and guard: "Record_guard a (o_id r) input = None" and i64: "is_int64 (ri_TenderedAmount input)"
    and due: "paid_on (data w) r < o_total_amount r"
    and tender: "ri_Method input = ''CASH'' \<or> ri_TenderedAmount input \<le> o_total_amount r - paid_on (data w) r"
    and fits: "payment_fits (data w) r input" and aud: "audit_fits (data w) a (o_outlet_id r)"
  shows "\<exists>res w'. Record_body a (o_id r) input w = (Inr res, w') \<and> faults w' = []"
proof -
  have r: "r \<in> set (orders (data w))" and b: "o_business_id r = a_business_id a"
    using may by (simp_all add: may_operate_def)
  have "filter (\<lambda>p. payment_of_order (a_business_id a) (o_outlet_id r) (o_id r) p
      \<and> p_idempotency_key p = Some (ri_IdempotencyKey input)) (payments (data w)) = []"
    using fits b by (auto simp: payment_fits_def list_ex_iff filter_empty_conv)
  then have look: "GetPaymentByIdempotencyKey (a_business_id a) (o_outlet_id r) (o_id r) (ri_IdempotencyKey input) w
      = (Inl NoRows, w)"
    using fits calm by (simp add: GetPaymentByIdempotencyKey_def one_select_calm payment_fits_def)
  obtain res w' where "Record_new a (o_id r) input r w = (Inr res, w')" "faults w' = []"
    using Record_new_calm [OF calm ok may st guard i64 due tender fits aud] by blast
  then show ?thesis
    using lock_calm [OF calm ok may] no_refunds_calm [OF calm ref b] look st
      cancelled_by_None [OF order_check_of [OF ok r] st]
    by (simp add: Record_body_def tbind_def on_err_def ret_def attempt_def)
qed

lemma Void_calm:
  assumes calm: "faults w = []" and ok: "sys_ok w" and may: "may_operate (data w) a r"
    and ref: "no_refunds (data w) r" and p: "p \<in> set (payments (data w))" "payment_of r p"
    and st: "p_status p = ''CONFIRMED''" and rsn: "pg_text reason" "\<not> blank reason"
    and aud: "audit_fits (data w) a (o_outlet_id r)"
  shows "\<exists>res w'. Void_body a (o_id r) (p_id p) reason w = (Inr res, w') \<and> faults w' = []"
proof -
  have r: "r \<in> set (orders (data w))" and b: "o_business_id r = a_business_id a"
    using may by (simp_all add: may_operate_def)
  note fresh = sys_ok_parts(2) [OF ok] and M = order_money [OF ok r]
  let ?is = "payment_is (a_business_id a) (o_outlet_id r) (o_id r) (p_id p)"
  have isp: "?is p" using p(2) b by (simp add: payment_is_def)
  have f1: "filter ?is (payments (data w)) = [p]"
    using fresh p(1) isp by (rule payments_tbl.filter_key) (simp add: payment_is_def)
  then have look: "GetOrderPaymentForUpdate (a_business_id a) (o_outlet_id r) (o_id r) (p_id p) w = (Inr p, w)"
    by (simp add: GetOrderPaymentForUpdate_def one_select_calm calm)
  let ?conf = "\<lambda>x. ?is x \<and> p_status x = ''CONFIRMED''"
  let ?upd = "\<lambda>n x. x\<lparr>p_status := ''VOIDED'', p_voided_at := Some n, p_voided_by := Some (a_user_id a),
                  p_void_reason := Some reason\<rparr>"
  have key: "p_id x = p_id p" if "?conf x" for x using that by (simp add: payment_is_def)
  have conf: "?conf p" using isp st by simp
  have f2: "filter ?conf (payments (data w)) = [p]"
    using fresh p(1) conf key by (rule payments_tbl.filter_key)
  have m2: "map (\<lambda>x. if ?conf x then ?upd (now w) x else x) (payments (data w))
      = replace_row p (?upd (now w) p) (payments (data w))"
    using fresh p(1) conf key by (rule payments_tbl.selects_one)
  have "payment_check p" using sys_ok_parts(6) [OF ok] p(1) by blast
  then have pc: "payment_check (?upd (now w) p)"
    using st rsn by (simp add: payment_check_def is_blank_def btrim_empty_iff)
  moreover have "p_business_id p = a_business_id a" using p(2) b by (simp add: payment_of_order_def)
  ultimately have chk: "update_payment_error (data w) (?upd (now w) p) = None"
    using may_operate_exists(2) [OF may] by (simp add: update_payment_error_def)
  obtain v where v: "VoidConfirmedPayment (a_business_id a) (o_outlet_id r) (o_id r) (p_id p) (a_user_id a) reason w
      = (Inr (?upd (now w) p), v)" and fv: "faults v = []" and sv: "seqs v = seqs w"
    and dv: "data v = (data w)\<lparr>payments := replace_row p (?upd (now w) p) (payments (data w))\<rparr>"
    using update_one_calm [where p = ?conf and get = payments and r = p and upd = ?upd
        and chk = update_payment_error and put = "\<lambda>rs d. d\<lparr>payments := rs\<rparr>", OF calm f2 chk]
      rsn(1) calm unfolding VoidConfirmedPayment_def m2 by auto
  have paid: "paid_on (data v) r = paid_on (data w) r - p_amount p"
    unfolding dv by (rule paid_on_void [OF fresh p(1,2) st]) simp
  have pos: "0 < p_amount p" using \<open>payment_check p\<close> by (simp add: payment_check_def)
  have "\<forall>x \<in> set (payments (data v)). payment_check x"
    using sys_ok_parts(6) [OF ok] pc by (auto simp: dv dest!: in_replace_rowD)
  then have nonneg: "0 \<le> paid_on (data v) r" unfolding paid_on_def by (rule confirmed_total_nonneg)
  have pw: "paid_within a r (o_id r) v = (Inr (paid_on (data v) r), v)"
    by (rule paid_within_calm [OF fv nonneg _ M(3) b]) (use M pos paid in simp)
  have "orders_tbl.fresh v"
    using sys_ok_parts(1) [OF ok] by (rule orders_tbl.fresh_frame) (simp_all add: dv sv)
  moreover have "r \<in> set (orders (data v))" using r by (simp add: dv)
  moreover have chk: "order_check r" by (rule order_check_of [OF ok r])
  moreover have "user_exists (data v) (o_business_id r) u" if "o_cancelled_by r = Some u" for u
  proof -
    have "o_status r = ''CANCELLED''" using cancelled_by_None [OF chk] that by auto
    then have "paid_on (data w) r = 0"
      using sys_ok_parts(4) [OF ok] r by (simp add: ledger_ok_def order_ok_def)
    with nonneg paid pos show ?thesis by simp
  qed
  ultimately obtain x where x: "UpdateOrderPaymentStatus (a_business_id a) (o_outlet_id r) (o_id r)
        (paymentStatusFor (o_total_amount r) (paid_on (data v) r)) v
      = (Inr (r\<lparr>o_payment_status := paymentStatusFor (o_total_amount r) (paid_on (data v) r),
                o_updated_at := now v\<rparr>), x)" and fx: "faults x = []"
      and dx: "businesses (data x) = businesses (data v)" "outlets (data x) = outlets (data v)"
        "users (data x) = users (data v)"
    using payment_status_calm [OF fv _ _ _ paymentStatusFor_in] b by metis
  have "audit_fits (data x) a (o_outlet_id r)"
    using aud by (simp add: audit_fits_def dx dv outlet_exists_def user_exists_def)
  moreover have "o_payment_status r = paymentStatusFor (o_total_amount r) (paid_on (data w) r)"
    using sys_ok_parts(5) [OF ok] r by (simp add: order_sound_def)
  then have "pg_text (o_payment_status r)" by (simp add: status_for_text)
  moreover have "pg_text ''CONFIRMED''" "pg_text ''VOIDED''"
    by (simp_all add: pg_text_def in_range_def rune_len_def)
  ultimately have "\<exists>y z. insertPaymentAudit a (o_outlet_id r) (p_id p) ''PAYMENT_VOIDED''
              (JObj [(''payment_id'', JInt (p_id p)), (''amount'', JInt (p_amount p)),
                     (''status'', JStr (p_status p)), (''payment_status'', JStr (o_payment_status r))])
              (JObj [(''payment_id'', JInt (p_id p)), (''amount'', JInt (p_amount p)),
                     (''status'', JStr ''VOIDED''), (''voided_by'', JInt (a_user_id a)),
                     (''void_reason'', JStr reason),
                     (''payment_status'', JStr (paymentStatusFor (o_total_amount r) (paid_on (data v) r))),
                     (''paid_amount'', JInt (paid_on (data v) r)),
                     (''outstanding_amount'', JInt (wrap64 (o_total_amount r - paid_on (data v) r)))]) x
       = (Inr y, z) \<and> faults z = []"
    by (intro audit_calm(2) [OF fx] action_texts) (simp_all add: status_for_text rsn st)
  then show ?thesis
    using lock_calm [OF calm ok may] no_refunds_calm [OF calm ref b] look v pw x st
    by (auto simp: Void_body_def tbind_def on_err_def ret_def Let_def)
qed

end
