(* ===== verification/Creation_Progress.thy ===== *)
theory Creation_Progress
  imports Progress
begin

text \<open>
  Invoice numbers never collide, and creating an order succeeds over a calm connection when its
  items can be sold, the rows it refers to are active and its due time can be written.
\<close>

section \<open>Invoice numbers\<close>

lemma split_at_last_dash:
  assumes "xs @ CHR ''-'' # ys = xs' @ CHR ''-'' # ys'" and "CHR ''-'' \<notin> set ys" "CHR ''-'' \<notin> set ys'"
  shows "xs = xs' \<and> ys = ys'"
proof -
  have "rev ys @ CHR ''-'' # rev xs = rev ys' @ CHR ''-'' # rev xs'"
    using arg_cong [OF assms(1), of rev] by simp
  moreover have "takeWhile (\<lambda>c. c \<noteq> CHR ''-'') (rev zs @ CHR ''-'' # r) = rev zs" if "CHR ''-'' \<notin> set zs" for zs r
    using that by (subst takeWhile_append2) auto
  ultimately have "rev ys = rev ys'" using assms(2,3) by metis
  then show ?thesis using assms(1) by simp
qed

lemma dash_not_digits: "list_all is_digit s \<Longrightarrow> CHR ''-'' \<notin> set s"
  by (auto simp: list_all_iff is_digit_def)

lemma invoice_number_inj:
  assumes "invoice_number code day n = invoice_number code' day' n'"
    and "0 \<le> day" "0 \<le> day'" "0 \<le> n" "0 \<le> n'"
  shows "code = code' \<and> day = day' \<and> n = n'"
proof -
  have d: "CHR ''-'' \<notin> set (format_date day)" "CHR ''-'' \<notin> set (format_date day')"
    and m: "CHR ''-'' \<notin> set (fmt_0d 6 n)" "CHR ''-'' \<notin> set (fmt_0d 6 n')"
    using assms(2-5) by (simp_all add: dash_not_digits format_date_digits fmt_0d_digits)
  from assms(1) have "(code @ CHR ''-'' # format_date day) @ CHR ''-'' # fmt_0d 6 n
      = (code' @ CHR ''-'' # format_date day') @ CHR ''-'' # fmt_0d 6 n'"
    by (simp add: invoice_number_def)
  from split_at_last_dash [OF this m] have
    e: "code @ CHR ''-'' # format_date day = code' @ CHR ''-'' # format_date day'"
    and n: "fmt_0d 6 n = fmt_0d 6 n'" by auto
  from split_at_last_dash [OF e d] have "code = code'" "format_date day = format_date day'" by auto
  then show ?thesis
    using n assms(2-5) format_date_inj [of day day'] fmt_0d_inj [of n n' 6] by simp
qed

text \<open>The number the next order would get is not in use, whatever the code of the outlet is.\<close>

lemma next_invoice_free:
  assumes "sys_ok w" and "0 \<le> day" and "r \<in> set (orders (data w))"
    and "o_business_id r = b" "o_outlet_id r = l"
  shows "o_invoice_number r \<noteq> invoice_number code day (next_sequence b l day (invoice_counters (data w)))"
proof
  assume eq: "o_invoice_number r = invoice_number code day (next_sequence b l day (invoice_counters (data w)))"
  have ok: "ledger_ok (data w)" by (rule sys_ok_parts(4) [OF assms(1)])
  then have "numbered (data w) r" using assms(3) by (simp add: ledger_ok_def order_ok_def)
  then obtain code' day' n where n: "o_invoice_number r = invoice_number code' day' n" "0 \<le> day'" "1 \<le> n"
      "n < next_sequence b l day' (invoice_counters (data w))"
    using assms(4,5) unfolding numbered_def by blast
  have "1 \<le> next_sequence b l day (invoice_counters (data w))"
    using ok next_sequence_pos by (simp add: ledger_ok_def)
  then have "day = day' \<and> next_sequence b l day (invoice_counters (data w)) = n"
    using invoice_number_inj [of code day _ code' day' n] eq n assms(2) by fastforce
  then have "n = next_sequence b l day' (invoice_counters (data w))" by blast
  then show False using n(4) by simp
qed

section \<open>Text made of parts\<close>

lemma utf8_head_append:
  "utf8_head s = Some n \<Longrightarrow> utf8_head (s @ t) = Some n \<and> 1 \<le> n \<and> n \<le> length s"
  by (cases s rule: utf8_head.cases; (simp split: if_splits list.splits)?) auto

lemma utf8_valid_append: "utf8_valid s \<Longrightarrow> utf8_valid t \<Longrightarrow> utf8_valid (s @ t)"
proof (induction s rule: utf8_valid.induct)
  case 1
  then show ?case by simp
next
  case (2 c r)
  then obtain n where n: "utf8_head (c # r) = Some n" by auto
  from utf8_head_append [OF n, of t] have a: "utf8_head (c # r @ t) = Some n" "n - 1 \<le> length r"
    by auto
  with 2 n show ?case by (simp add: rune_len_def)
qed

lemma pg_text_append: "pg_text s \<Longrightarrow> pg_text t \<Longrightarrow> pg_text (s @ t)"
  by (simp add: pg_text_def utf8_valid_append)

lemma digits_text: "list_all is_digit s \<Longrightarrow> pg_text s"
proof -
  assume d: "list_all is_digit s"
  then have "list_all (\<lambda>c. byte c < 0x80) s" by (induction s) (auto simp: is_digit_def)
  then have "utf8_valid s" using ascii_runes by blast
  moreover have "CHR 0x00 \<notin> set s" using d by (auto simp: list_all_iff is_digit_def)
  ultimately show ?thesis by (simp add: pg_text_def)
qed

lemma pg_text_ascii1: "pg_text '':''" "pg_text ''-''"
  by (simp_all add: pg_text_def in_range_def rune_len_def)

lemma show_int_text: "0 \<le> i \<Longrightarrow> pg_text (show_int i)"
  by (intro digits_text) (simp add: show_int_def)

section \<open>Creating an order succeeds\<close>

text \<open>The constraints of the master tables (migrations 000001, 000002 and 000017).\<close>

definition master_ok :: "db \<Rightarrow> bool" where
  "master_ok d \<longleftrightarrow>
     list_all (\<lambda>s. pg_text (sv_name s) \<and> btrim (sv_name s) \<noteq> [] \<and> sv_unit s \<in> {''kg'', ''pcs'', ''m'', ''m2''}
       \<and> 0 \<le> sv_unit_price_amount s) (services d) \<and>
     list_all (\<lambda>p. pg_text (pf_name p) \<and> btrim (pf_name p) \<noteq> []) (perfumes d) \<and>
     list_all (\<lambda>x. pg_text (out_code x)) (outlets d)"

lemma unit_text: "u \<in> {''kg'', ''pcs'', ''m'', ''m2''} \<Longrightarrow> pg_text u"
  by (auto simp: pg_text_def in_range_def rune_len_def)

lemma pick_one: "list_ex P xs \<Longrightarrow> \<exists>x rest. filter P xs = x # rest \<and> x \<in> set xs \<and> P x"
  by (induction xs) auto

definition item_fits :: "db \<Rightarrow> actor \<Rightarrow> CreateOrderInput \<Rightarrow> i64 option \<times> string option \<Rightarrow> calculatedLine \<Rightarrow> bool" where
  "item_fits d a input pf line \<longleftrightarrow>
     (\<exists>rq \<in> set (ci_Items input). priced d (a_business_id a) rq line \<and> pg_text_opt (in_Notes rq)) \<and>
     (case pf of
        (None, None) \<Rightarrow> True
      | (Some p, Some nm) \<Rightarrow> pg_text nm \<and> btrim nm \<noteq> []
          \<and> list_ex (\<lambda>x. pf_business_id x = a_business_id a \<and> pf_id x = p) (perfumes d)
      | _ \<Rightarrow> False)"

lemma create_line_calm:
  assumes calm: "faults w = []" and ms: "master_ok (data w)" and fits: "item_fits (data w) a input pf line"
    and ex: "order_exists (data w) (a_business_id a) (ci_OutletID input) (o_id r)"
  shows "\<exists>x v. create_line a input pf r line w = (Inr x, v) \<and> faults v = []
    \<and> data v = (data w)\<lparr>order_items := order_items (data w) @ [x]\<rparr>"
proof -
  let ?mk = "\<lambda>i n d. \<lparr>it_id = i, it_business_id = a_business_id a, it_outlet_id = ci_OutletID input,
        it_order_id = o_id r, it_service_id = in_ServiceID (cl_input line),
        it_perfume_id = fst pf, it_service_name_snapshot = cl_serviceName line,
        it_service_unit_snapshot = cl_unit line, it_unit_price_amount_snapshot = cl_price line,
        it_perfume_name_snapshot = snd pf, it_quantity = cl_milli line,
        it_line_total_amount = cl_lineTotal line, it_notes = in_Notes (cl_input line), it_created_at = n\<rparr>"
  from fits obtain rq where rq: "priced (data w) (a_business_id a) rq line" "pg_text_opt (in_Notes rq)"
    unfolding item_fits_def by blast
  from rq(1) obtain s where s: "s \<in> set (services (data w))" "sv_business_id s = a_business_id a" "sv_id s = in_ServiceID rq"
      "cl_serviceName line = sv_name s" "cl_unit line = sv_unit s" "cl_price line = sv_unit_price_amount s"
    unfolding priced_def by blast
  have svc: "pg_text (sv_name s)" "btrim (sv_name s) \<noteq> []" "sv_unit s \<in> {''kg'', ''pcs'', ''m'', ''m2''}"
      "0 \<le> sv_unit_price_amount s"
    using ms s(1) by (auto simp: master_ok_def list_all_iff)
  have inp: "cl_input line = rq" and m: "parseMilliQuantity (in_Quantity rq) = Inr (cl_milli line)"
    and pcs: "cl_unit line = ''pcs'' \<longrightarrow> cl_milli line mod 1000 = 0"
    and lt: "lineTotalFor (cl_milli line) (cl_price line) = Inr (cl_lineTotal line)"
    using rq(1) by (simp_all add: priced_def)
  note B = parseMilliQuantity_bounds [OF m]
  have t: "cl_lineTotal line = pg_round_milli (cl_milli line * sv_unit_price_amount s)"
    using lineTotalFor_iff [of "cl_milli line" "sv_unit_price_amount s"] lt B svc(4) s(6) by simp
  then have t0: "0 \<le> cl_lineTotal line" using B svc(4) by (simp add: pg_round_milli_nonneg)
  obtain p nm where pf: "pf = (p, nm)" by (cases pf)
  have perf: "pg_text_opt nm" "case p of None \<Rightarrow> nm = None | Some _ \<Rightarrow> \<not> is_blank nm"
      "case p of None \<Rightarrow> True | Some i \<Rightarrow> list_ex (\<lambda>x. pf_business_id x = a_business_id a \<and> pf_id x = i) (perfumes (data w))"
    using fits by (auto simp: item_fits_def pf pg_text_opt_def is_blank_def split: option.splits)
  let ?x = "?mk (seqs w TItems) (now w) (data w)"
  have "item_check ?x"
    using svc s B t t0 pcs perf by (cases p) (simp_all add: item_check_def pf)
  moreover have "item_text ?x"
    using svc s rq(2) unit_text [OF svc(3)] perf by (simp add: item_text_def inp pf)
  moreover have "list_ex (\<lambda>y. sv_business_id y = a_business_id a \<and> sv_id y = in_ServiceID rq) (services (data w))"
    using s by (auto simp: list_ex_iff)
  ultimately have "insert_item_error (data w) ?x = None"
    using ex B perf(3) by (cases p) (simp_all add: insert_item_error_def inp pf)
  then show ?thesis
    using insert_serial_calm [where t = TItems and get = order_items and chk = insert_item_error and mk = ?mk
        and put = "\<lambda>rs d. d\<lparr>order_items := rs\<rparr>", OF calm]
    unfolding create_line_def CreateOrderItem_def on_err_def by fastforce
qed

lemma item_fits_tables:
  "services d' = services d \<Longrightarrow> perfumes d' = perfumes d \<Longrightarrow>
     item_fits d' a input pf line = item_fits d a input pf line"
  by (simp only: item_fits_def priced_def)

lemma item_fits_frame [simp]:
  "item_fits (d\<lparr>order_items := xs\<rparr>) a input pf line = item_fits d a input pf line"
  by (rule item_fits_tables) simp_all

lemma order_items_frame [simp]:
  "master_ok (d\<lparr>order_items := xs\<rparr>) = master_ok d"
  "order_exists (d\<lparr>order_items := xs\<rparr>) b l i = order_exists d b l i"
  by (simp_all add: master_ok_def order_exists_def)

lemma create_lines_calm:
  assumes "faults w = []" and "master_ok (data w)" and "\<forall>line \<in> set lines. item_fits (data w) a input pf line"
    and "order_exists (data w) (a_business_id a) (ci_OutletID input) (o_id r)"
  shows "\<exists>xs v. each (create_line a input pf r) lines w = (Inr xs, v) \<and> faults v = []
    \<and> (\<exists>ys. data v = (data w)\<lparr>order_items := ys\<rparr>)"
  using assms
proof (induction lines arbitrary: w)
  case Nil
  have "\<exists>ys. data w = (data w)\<lparr>order_items := ys\<rparr>" by (rule exI [of _ "order_items (data w)"]) simp
  with Nil(1) show ?case by (simp add: ret_def)
next
  case (Cons line lines)
  from create_line_calm [OF Cons.prems(1,2) _ Cons.prems(4), of pf line] Cons.prems(3)
  obtain x v where x: "create_line a input pf r line w = (Inr x, v)" "faults v = []"
      "data v = (data w)\<lparr>order_items := order_items (data w) @ [x]\<rparr>" by auto
  from Cons.IH [OF x(2)] Cons.prems x(3) obtain xs u ys where
    "each (create_line a input pf r) lines v = (Inr xs, u)" "faults u = []" "data u = (data v)\<lparr>order_items := ys\<rparr>"
    by auto
  with x show ?case by (auto simp: tbind_def ret_def)
qed

text \<open>What a request must satisfy, at the transaction's time, for the outlet it names.\<close>

definition order_fits :: "world \<Rightarrow> actor \<Rightarrow> CreateOrderInput \<Rightarrow> bool" where
  "order_fits w a input \<longleftrightarrow>
     Create_guard a input = None \<and>
     pg_text (ci_IdempotencyKey input) \<and> \<not> blank (ci_IdempotencyKey input) \<and>
     pg_text_opt (ci_Notes input) \<and>
     list_all (\<lambda>rq. pg_text_opt (in_Notes rq)) (ci_Items input) \<and>
     (case ci_DueAt input of None \<Rightarrow> True | Some z \<Rightarrow> now w \<le> zt_at z \<and> json_time_ok z) \<and>
     list_ex (\<lambda>x. out_business_id x = a_business_id a \<and> out_id x = ci_OutletID input \<and> out_is_active x)
       (outlets (data w)) \<and>
     (is_admin a \<or> assigned (data w) (a_business_id a) (a_user_id a) (ci_OutletID input)) \<and>
     user_exists (data w) (a_business_id a) (a_user_id a) \<and>
     list_ex (\<lambda>c. cu_business_id c = a_business_id a \<and> cu_id c = ci_CustomerID input \<and> cu_deleted_at c = None)
       (customers (data w)) \<and>
     (case ci_PerfumeID input of
        None \<Rightarrow> True
      | Some p \<Rightarrow> list_ex (\<lambda>x. pf_business_id x = a_business_id a \<and> pf_id x = p \<and> pf_is_active x
                              \<and> pf_deleted_at x = None) (perfumes (data w))) \<and>
     \<not> list_ex (\<lambda>r. o_business_id r = a_business_id a \<and> o_outlet_id r = ci_OutletID input
                \<and> o_idempotency_key r = Some (ci_IdempotencyKey input)) (orders (data w)) \<and>
     is_int64 (next_sequence (a_business_id a) (ci_OutletID input) (jakarta_date (now w))
                 (invoice_counters (data w)) + 1)"

lemma in_join:
  assumes "x \<in> set xs" and "y \<in> set ys" and "P x y"
  shows "f x y \<in> set [f x y. x \<leftarrow> xs, y \<leftarrow> ys, P x y]"
proof -
  have "f x y \<in> set [f x y. y \<leftarrow> ys, P x y]" using assms(2,3) by (induction ys) auto
  with assms(1) show ?thesis by (induction xs) auto
qed

lemma no_join: "(\<And>x y. x \<in> set xs \<Longrightarrow> \<not> P x y) \<Longrightarrow> [f x y. x \<leftarrow> xs, y \<leftarrow> ys, P x y] = []"
  by (induction xs) (simp_all add: concat_eq_Nil_conv)

lemma outlet_open:
  assumes calm: "faults w = []" and guard: "Create_guard a input = None" and key: "pg_text (ci_IdempotencyKey input)"
    and may: "may_create (data w) a x" and l: "out_id x = ci_OutletID input"
  obtains outlet where "Create_outlet a input w = (Inr outlet, w)" "outlet \<in> set (outlets (data w))"
proof -
  from may have x0: "x \<in> set (outlets (data w))" "out_business_id x = a_business_id a" "out_is_active x"
    by (simp_all add: may_create_def)
  then have "list_ex (\<lambda>x. out_business_id x = a_business_id a \<and> out_id x = ci_OutletID input \<and> out_is_active x)
       (outlets (data w))" using l by (auto simp: list_ex_iff)
  from pick_one [OF this] obtain y rest where y: "filter (\<lambda>x. out_business_id x = a_business_id a
      \<and> out_id x = ci_OutletID input \<and> out_is_active x) (outlets (data w)) = y # rest"
      "y \<in> set (outlets (data w))" by blast
  have pos: "0 \<le> a_business_id a" "0 \<le> ci_OutletID input"
    using guard by (auto simp: Create_guard_def split: if_splits)
  have "pg_text (order_lock_key a input)"
    unfolding order_lock_key_def
    by (intro pg_text_append show_int_text pg_text_ascii1 pos key)
  moreover have "GetActiveOrderOutlet (a_business_id a) (ci_OutletID input) w = (Inr y, w)"
    using y(1) calm by (simp add: GetActiveOrderOutlet_def one_select_calm)
  moreover have "\<exists>z. GetActiveStaffOrderOutlet (a_business_id a) (a_user_id a) (ci_OutletID input) w = (Inr z, w)"
    if "\<not> is_admin a"
  proof -
    let ?l = "[uo_user_id u. u \<leftarrow> user_outlets (data w), r \<leftarrow> outlets (data w),
        out_business_id r = uo_business_id u \<and> out_id r = uo_outlet_id u \<and>
        uo_business_id u = a_business_id a \<and> uo_user_id u = a_user_id a \<and>
        uo_outlet_id u = ci_OutletID input \<and> out_is_active r]"
    from may that l have "assigned (data w) (a_business_id a) (a_user_id a) (ci_OutletID input)"
      by (simp add: may_create_def)
    then obtain u where u: "u \<in> set (user_outlets (data w))" "uo_business_id u = a_business_id a"
        "uo_user_id u = a_user_id a" "uo_outlet_id u = ci_OutletID input"
      by (auto simp: assigned_def list_ex_iff)
    have "uo_user_id u \<in> set ?l"
      by (rule in_join [OF u(1) x0(1)]) (use u x0 l in simp)
    then obtain z zs where "?l = z # zs" by (cases ?l) auto
    then show ?thesis using calm by (simp add: GetActiveStaffOrderOutlet_def one_select_calm)
  qed
  ultimately have "Create_outlet a input w = (Inr y, w)"
    using calm by (auto simp: Create_outlet_def LockOrderIdempotency_def tbind_def on_err_def ret_def)
  with y(2) that show thesis by blast
qed

lemma outlet_calm:
  assumes calm: "faults w = []" and fits: "order_fits w a input" and ms: "master_ok (data w)"
  obtains outlet where "Create_outlet a input w = (Inr outlet, w)" "pg_text (out_code outlet)"
proof -
  from fits obtain x where "may_create (data w) a x" "out_id x = ci_OutletID input"
    by (auto simp: order_fits_def may_create_def list_ex_iff)
  with outlet_open [OF calm] fits obtain y where
    "Create_outlet a input w = (Inr y, w)" "y \<in> set (outlets (data w))"
    unfolding order_fits_def by metis
  with that ms show thesis by (auto simp: master_ok_def list_all_iff)
qed

lemma perfume_calm:
  assumes calm: "faults w = []" and fits: "order_fits w a input" and ms: "master_ok (data w)"
  obtains pf where "Create_perfume a input w = (Inr pf, w)"
    "\<And>rq line. rq \<in> set (ci_Items input) \<Longrightarrow> priced (data w) (a_business_id a) rq line \<Longrightarrow>
       item_fits (data w) a input pf line" "pg_text_opt (snd pf)"
proof (cases "ci_PerfumeID input")
  case None
  have "\<And>rq. rq \<in> set (ci_Items input) \<Longrightarrow> pg_text_opt (in_Notes rq)"
    using fits by (simp add: order_fits_def list_all_iff)
  with None show thesis
    by (intro that [of "(None, None)"]) (auto simp: Create_perfume_def ret_def item_fits_def pg_text_opt_def)
next
  case (Some p)
  with fits have "list_ex (\<lambda>x. pf_business_id x = a_business_id a \<and> pf_id x = p \<and> pf_is_active x
      \<and> pf_deleted_at x = None) (perfumes (data w))" by (simp add: order_fits_def)
  from pick_one [OF this] obtain x rest where x: "filter (\<lambda>x. pf_business_id x = a_business_id a \<and> pf_id x = p
      \<and> pf_is_active x \<and> pf_deleted_at x = None) (perfumes (data w)) = x # rest" "x \<in> set (perfumes (data w))"
      "pf_business_id x = a_business_id a" by blast
  have "pg_text (pf_name x)" "btrim (pf_name x) \<noteq> []" using ms x(2) by (auto simp: master_ok_def list_all_iff)
  moreover have "\<And>rq. rq \<in> set (ci_Items input) \<Longrightarrow> pg_text_opt (in_Notes rq)"
    using fits by (simp add: order_fits_def list_all_iff)
  moreover have "list_ex (\<lambda>y. pf_business_id y = a_business_id a \<and> pf_id y = pf_id x) (perfumes (data w))"
    using x by (auto simp: list_ex_iff)
  moreover have "Create_perfume a input w = (Inr (Some (pf_id x), Some (pf_name x)), w)"
    using x(1) calm Some
    by (simp add: Create_perfume_def GetActiveOrderPerfume_def one_select_calm tbind_def on_err_def ret_def)
  ultimately show thesis
    by (intro that [of "(Some (pf_id x), Some (pf_name x))"]) (auto simp: item_fits_def)
qed

lemma priced_nonneg:
  assumes "priced d b rq line" and "master_ok d"
  shows "0 \<le> cl_lineTotal line"
proof -
  from assms(1) obtain s where s: "s \<in> set (services d)" "cl_price line = sv_unit_price_amount s"
    unfolding priced_def by blast
  then have p: "0 \<le> cl_price line" using assms(2) by (auto simp: master_ok_def list_all_iff)
  have m: "0 \<le> cl_milli line" using assms(1) parseMilliQuantity_bounds [of "in_Quantity rq" "cl_milli line"]
    by (simp add: priced_def)
  have "cl_lineTotal line = pg_round_milli (cl_milli line * cl_price line)"
    using lineTotalFor_iff [OF m p] assms(1) by (simp add: priced_def)
  then show ?thesis using m p by (simp add: pg_round_milli_nonneg)
qed

section \<open>The items of an order that can be sold\<close>

text \<open>
  An item is sold as the one active service of the tenant it names, in the quantity its digits before and after the point
  say: positive, and whole for a service counted in pieces. Its amount is the price for it as the database rounds.
\<close>

type_synonym sale = "service_row \<times> string \<times> string"

definition sells :: "db \<Rightarrow> i64 \<Rightarrow> OrderItemInput \<Rightarrow> sale \<Rightarrow> bool" where
  "sells d b requested sale \<longleftrightarrow> (case sale of (s, whole, fraction) \<Rightarrow>
     filter (\<lambda>x. sv_business_id x = b \<and> sv_id x = in_ServiceID requested \<and> sv_is_active x \<and> sv_deleted_at x = None)
       (services d) = [s]
     \<and> quantity_text (in_Quantity requested) whole fraction \<and> 0 < decimal_milli whole fraction
     \<and> (sv_unit s = ''pcs'' \<longrightarrow> decimal_milli whole fraction mod 1000 = 0))"

definition sale_amount :: "sale \<Rightarrow> int" where
  "sale_amount sale = (case sale of (s, whole, fraction) \<Rightarrow>
     pg_round_milli (decimal_milli whole fraction * sv_unit_price_amount s))"

lemma sells_price: "sells d b rq (s, wh, fr) \<Longrightarrow> master_ok d \<Longrightarrow> s \<in> set (services d) \<and> 0 \<le> sv_unit_price_amount s"
proof -
  assume sl: "sells d b rq (s, wh, fr)" and ms: "master_ok d"
  have "s \<in> set (filter (\<lambda>x. sv_business_id x = b \<and> sv_id x = in_ServiceID rq \<and> sv_is_active x \<and> sv_deleted_at x = None)
      (services d))" using sl by (simp add: sells_def)
  with ms show ?thesis by (auto simp: master_ok_def list_all_iff)
qed

lemma sale_amount_nonneg: "sells d b rq q \<Longrightarrow> master_ok d \<Longrightarrow> 0 \<le> sale_amount q"
proof -
  assume sl: "sells d b rq q" and ms: "master_ok d"
  obtain s wh fr where q: "q = (s, wh, fr)" by (cases q)
  have "0 < decimal_milli wh fr" using sl by (simp add: sells_def q)
  then have "0 \<le> decimal_milli wh fr * sv_unit_price_amount s" using sells_price [OF sl [unfolded q] ms] by simp
  then show ?thesis by (simp add: sale_amount_def q pg_round_milli_nonneg)
qed

lemma priced_amount:
  assumes "priced d b rq line" and "sells d b rq q" and "master_ok d"
  shows "cl_lineTotal line = sale_amount q"
proof -
  obtain s wh fr where q: "q = (s, wh, fr)" by (cases q)
  let ?P = "\<lambda>x. sv_business_id x = b \<and> sv_id x = in_ServiceID rq \<and> sv_is_active x \<and> sv_deleted_at x = None"
  from assms(1) obtain s' where "s' \<in> set (filter ?P (services d))" "cl_price line = sv_unit_price_amount s'"
    unfolding priced_def by auto
  moreover have "filter ?P (services d) = [s]" using assms(2) by (simp add: sells_def q)
  ultimately have p: "cl_price line = sv_unit_price_amount s" by (simp only: list.set singleton_iff)
  have "parseMilliQuantity (in_Quantity rq) = Inr (decimal_milli wh fr)"
    using assms(2) parse_quantity_text [of "in_Quantity rq" wh fr] by (simp add: sells_def q)
  then have m: "cl_milli line = decimal_milli wh fr" using assms(1) by (simp add: priced_def)
  have "0 \<le> cl_milli line" "0 \<le> cl_price line"
    using assms(2) m p sells_price [OF assms(2,3) [unfolded q]] by (simp_all add: sells_def q)
  then show ?thesis using lineTotalFor_iff assms(1) by (simp add: priced_def sale_amount_def q m p)
qed

lemma price_line_sells:
  assumes calm: "faults w = []" and sl: "sells (data w) (a_business_id a) rq q" and ms: "master_ok (data w)"
    and fits: "sale_amount q < 2 ^ 63"
  shows "\<exists>line. price_line a rq w = (Inr line, w) \<and> cl_lineTotal line = sale_amount q"
proof -
  obtain s wh fr where q: "q = (s, wh, fr)" by (cases q)
  define milli where "milli = decimal_milli wh fr"
  have m: "parseMilliQuantity (in_Quantity rq) = Inr milli" "0 \<le> milli"
    using sl parse_quantity_text [of "in_Quantity rq" wh fr] by (simp_all add: sells_def q milli_def)
  have pcs: "\<not> (sv_unit s = ''pcs'' \<and> go_rem milli 1000 \<noteq> 0)" using sl m(2) by (simp add: sells_def q milli_def go_rem_nonneg)
  have t: "lineTotalFor milli (sv_unit_price_amount s) = Inr (sale_amount q)"
    using lineTotalFor_iff [OF m(2)] sells_price [OF sl [unfolded q] ms] fits by (simp add: sale_amount_def q milli_def)
  have "GetActiveOrderService (a_business_id a) (in_ServiceID rq) w = (Inr s, w)"
    using calm sl by (simp add: GetActiveOrderService_def one_select_calm sells_def q)
  then show ?thesis using m pcs t by (auto simp: price_line_def tbind_def on_err_def ret_def)
qed

lemma price_lines_sells:
  assumes "faults w = []" and "list_all2 (sells (data w) (a_business_id a)) items sold" and "master_ok (data w)"
    and "0 \<le> t" and "t + sum_list (map sale_amount sold) < 2 ^ 63"
  shows "\<exists>lines. price_lines a t items w = (Inr (lines, t + sum_list (map sale_amount sold)), w)"
  using assms
proof (induction items arbitrary: t sold)
  case Nil
  then show ?case by (simp add: ret_def)
next
  case (Cons rq rest)
  from Cons.prems(2) obtain q sold' where q: "sold = q # sold'" "sells (data w) (a_business_id a) rq q"
    and r: "list_all2 (sells (data w) (a_business_id a)) rest sold'" by (auto simp: list_all2_Cons1)
  have s: "0 \<le> sum_list (map sale_amount sold')"
    using r by (induction rule: list_all2_induct) (simp_all add: sale_amount_nonneg [OF _ Cons.prems(3)])
  have n: "0 \<le> sale_amount q" by (rule sale_amount_nonneg [OF q(2) Cons.prems(3)])
  obtain line where l: "price_line a rq w = (Inr line, w)" "cl_lineTotal line = sale_amount q"
    using price_line_sells [OF Cons.prems(1) q(2) Cons.prems(3)] Cons.prems(4,5) n s q(1) by auto
  from Cons.IH [OF Cons.prems(1) r Cons.prems(3), of "t + sale_amount q"] Cons.prems(4,5) n q(1) obtain lines where
    "price_lines a (t + sale_amount q) rest w = (Inr (lines, t + sale_amount q + sum_list (map sale_amount sold')), w)"
    by (auto simp: add.assoc)
  moreover have "is_int64 (t + sale_amount q)" using Cons.prems(4,5) n s q(1) by (simp add: is_int64_def)
  ultimately show ?case using l q(1) by (simp add: tbind_def ret_def Let_def add.assoc)
qed

lemma list_all2_maps:
  "list_all2 P xs ys \<Longrightarrow> list_all2 Q xs zs \<Longrightarrow> (\<And>x y z. P x y \<Longrightarrow> Q x z \<Longrightarrow> f y = g z) \<Longrightarrow> map f ys = map g zs"
  by (induction xs arbitrary: ys zs) (auto simp: list_all2_Cons1)

text \<open>What is stored for the items is what they were sold for.\<close>

lemma placed_amounts:
  assumes "places d a input x r xs d'" and "list_all2 (sells d (a_business_id a)) (ci_Items input) sold" and "master_ok d"
  shows "map it_line_total_amount xs = map sale_amount sold"
proof -
  from assms(1) obtain lines where l: "list_all2 (priced d (a_business_id a)) (ci_Items input) lines"
      "list_all2 stores_line lines xs" by (auto simp: places_def)
  have "map cl_lineTotal lines = map sale_amount sold"
    by (rule list_all2_maps [OF l(1) assms(2)]) (rule priced_amount [OF _ _ assms(3)])
  moreover have "map it_line_total_amount xs = map cl_lineTotal lines"
    using l(2) by (induction rule: list_all2_induct) (simp_all add: stores_line_def)
  ultimately show ?thesis by simp
qed

section \<open>The writes of a creation succeed\<close>

lemma invoice_not_blank: "btrim (invoice_number code day n) \<noteq> []"
  by (simp add: btrim_empty_iff blank_def invoice_number_def)

lemma invoice_text:
  assumes "pg_text code" "0 \<le> day" "0 \<le> n"
  shows "pg_text (invoice_number code day n)"
  unfolding invoice_number_def
  by (intro pg_text_append pg_text_ascii1 assms digits_text format_date_digits fmt_0d_digits)
     (use assms in simp)

text \<open>The order row passes every constraint of its table.\<close>

lemma new_order_accepted:
  assumes ok: "sys_ok w" and fits: "order_fits w a input" and code: "pg_text (out_code outlet)"
    and amount: "0 \<le> amount"
    and day: "day = jakarta_date (now w)"
    and num: "number = invoice_number (out_code outlet) day
        (next_sequence (a_business_id a) (ci_OutletID input) day (invoice_counters (data w)))"
    and row: "o_business_id r = a_business_id a" "o_outlet_id r = ci_OutletID input"
      "o_customer_id r = ci_CustomerID input" "o_invoice_number r = number" "o_status r = ''RECEIVED''"
      "o_payment_status r = ''UNPAID''" "o_total_amount r = amount" "o_notes r = ci_Notes input"
      "o_received_at r = now w" "o_due_at r = map_option zt_at (ci_DueAt input)" "o_completed_at r = None"
      "o_cancelled_at r = None" "o_cancelled_by r = None" "o_cancellation_reason r = None"
      "o_deleted_at r = None" "o_created_by r = a_user_id a"
      "o_idempotency_key r = Some (ci_IdempotencyKey input)"
      "o_request_hash r = Some (ci_RequestHash input)" "o_outlet_code_snapshot r = Some (out_code outlet)"
  shows "insert_order_error (data w) r = None"
proof -
  let ?n = "next_sequence (a_business_id a) (ci_OutletID input) day (invoice_counters (data w))"
  have d0: "0 \<le> day" using sys_ok_parts(7) [OF ok] by (simp add: day jakarta_date_nonneg)
  have n0: "1 \<le> ?n" using sys_ok_parts(4) [OF ok] next_sequence_pos by (simp add: ledger_ok_def)
  have "pg_text number" unfolding num using code d0 n0 by (intro invoice_text) simp_all
  then have "order_text r"
    using fits code row by (simp add: order_text_def order_fits_def status_text) (simp add: pg_text_opt_def pg_text_def in_range_def rune_len_def)
  moreover have "order_check r"
    using fits amount row invoice_not_blank
    by (auto simp: order_check_def order_fits_def order_statuses_def payment_statuses_def num btrim_empty_iff
        Create_guard_def split: option.splits if_splits)
  moreover have "\<not> invoice_taken (data w) r"
    using next_invoice_free [OF ok d0] row by (auto simp: invoice_taken_def list_ex_iff same_outlet_def num)
  moreover have "\<not> order_key_taken (data w) r"
    using fits row by (auto simp: order_key_taken_def list_ex_iff same_outlet_def order_fits_def)
  moreover have "outlet_exists (data w) (a_business_id a) (ci_OutletID input)"
    using fits by (auto simp: order_fits_def outlet_exists_def list_ex_iff)
  moreover have "list_ex (\<lambda>c. cu_business_id c = a_business_id a \<and> cu_id c = ci_CustomerID input) (customers (data w))"
    using fits by (auto simp: order_fits_def list_ex_iff)
  ultimately show ?thesis using fits row by (simp add: insert_order_error_def order_fits_def)
qed

lemma allocate_calm:
  assumes "faults w = []" and "outlet_exists (data w) b l"
    and "is_int64 (next_sequence b l day (invoice_counters (data w)) + 1)"
  shows "\<exists>v. AllocateInvoiceNumber b l day w = (Inr (day, next_sequence b l day (invoice_counters (data w))), v)
    \<and> faults v = [] \<and> data v = (data w)\<lparr>invoice_counters := bump_counter b l day (now w) (invoice_counters (data w))\<rparr>
    \<and> seqs v = seqs w \<and> now v = now w"
  using assms
  by (auto simp: AllocateInvoiceNumber_def next_sequence_def bump_counter_def Let_def split: option.splits)

lemma list_items_calm:
  "faults w = [] \<Longrightarrow> \<exists>od. loadOrder r tz w = (Inr od, w)"
  by (simp add: loadOrder_def ListOrderItems_def select_def tbind_def on_err_def ret_def)

lemma quantity_no_nul:
  assumes "parseMilliQuantity s = Inr m"
  shows "CHR 0x00 \<notin> set s"
proof -
  from assms obtain w f where "quantity_text s w f" unfolding parseMilliQuantity_Inr_iff by blast
  moreover have "CHR 0x00 \<notin> set t" if "list_all is_digit t" for t
    using digits_text [OF that] by simp
  ultimately show ?thesis by (auto simp: quantity_text_def split: if_splits)
qed

lemma Create_write_calm:
  assumes calm: "faults w = []" and ok: "sys_ok w" and fits: "order_fits w a input" and ms: "master_ok (data w)"
    and code: "pg_text (out_code outlet)" and pf: "pg_text_opt (snd pf)"
    and lines: "\<forall>line \<in> set lines. item_fits (data w) a input pf line" and amount: "0 \<le> amount"
    and aud: "audit_fits (data w) a (ci_OutletID input)"
  shows "\<exists>res w'. Create_write a input outlet pf lines amount w = (Inr res, w') \<and> faults w' = []"
proof -
  let ?b = "a_business_id a" and ?l = "ci_OutletID input"
  define day where "day = jakarta_date (now w)"
  let ?n = "next_sequence ?b ?l day (invoice_counters (data w))"
  let ?num = "invoice_number (out_code outlet) day ?n"
  have tm: "GetOrderTime w = (Inr (now w, day), w)"
    by (simp add: GetOrderTime_def one_select_calm calm day_def)
  have due: "\<not> (case ci_DueAt input of None \<Rightarrow> False | Some due \<Rightarrow> zt_at due < now w)"
    and enc: "due_encodes input"
    using fits by (auto simp: order_fits_def due_encodes_def split: option.splits)
  have "outlet_exists (data w) ?b ?l" using aud by (simp add: audit_fits_def)
  with fits allocate_calm [OF calm this, of day] obtain v where
    v: "AllocateInvoiceNumber ?b ?l day w = (Inr (day, ?n), v)" "faults v = []"
      "data v = (data w)\<lparr>invoice_counters := bump_counter ?b ?l day (now w) (invoice_counters (data w))\<rparr>"
      "seqs v = seqs w" "now v = now w"
    unfolding order_fits_def day_def by blast
  let ?arg = "create_order_params a input outlet (now w) ?num amount"
  let ?mk = "\<lambda>i n d. let c = customer_of d (cop_BusinessID ?arg) (cop_CustomerID ?arg) in
     \<lparr>o_id = i, o_business_id = cop_BusinessID ?arg, o_outlet_id = cop_OutletID ?arg,
      o_customer_id = cop_CustomerID ?arg, o_invoice_number = cop_InvoiceNumber ?arg,
      o_status = ''RECEIVED'', o_payment_status = ''UNPAID'', o_total_amount = cop_TotalAmount ?arg,
      o_notes = cop_Notes ?arg, o_received_at = cop_ReceivedAt ?arg, o_due_at = cop_DueAt ?arg,
      o_completed_at = None, o_cancelled_at = None, o_cancelled_by = None,
      o_cancellation_reason = None, o_deleted_at = None, o_created_by = cop_CreatedBy ?arg,
      o_created_at = n, o_updated_at = n, o_idempotency_key = cop_IdempotencyKey ?arg,
      o_request_hash = cop_RequestHash ?arg,
      o_customer_name_snapshot = (case c of None \<Rightarrow> [] | Some r \<Rightarrow> cu_name r),
      o_customer_phone_snapshot = (case c of None \<Rightarrow> None | Some r \<Rightarrow> cu_phone r),
      o_outlet_code_snapshot = cop_OutletCodeSnapshot ?arg\<rparr>"
  define r where "r = ?mk (seqs v TOrders) (now v) (data v)"
  have row: "o_id r = seqs v TOrders" "o_business_id r = ?b" "o_outlet_id r = ?l"
    by (simp_all add: r_def Let_def create_order_params_def)
  have "insert_order_error (data w) r = None"
    by (rule new_order_accepted [OF ok fits code amount day_def refl])
       (simp_all add: r_def Let_def create_order_params_def)
  then have err: "insert_order_error (data v) r = None" by (simp add: v(3))
  obtain x where x: "CreateOrder ?arg v = (Inr r, x)" "faults x = []"
      "data x = (data v)\<lparr>orders := orders (data v) @ [r]\<rparr>"
    using insert_serial_calm [where t = TOrders and get = orders and chk = insert_order_error and mk = ?mk
        and put = "\<lambda>rs d. d\<lparr>orders := rs\<rparr>", OF v(2) err [unfolded r_def]]
    unfolding CreateOrder_def insert_order_def r_def by blast
  have ex: "order_exists (data x) ?b ?l (o_id r)" by (simp add: order_exists_def x(3) row)
  have "master_ok (data x)" using ms by (simp add: master_ok_def x(3) v(3))
  moreover have "\<forall>line \<in> set lines. item_fits (data x) a input pf line"
    using lines item_fits_tables [of "data x" "data w"] by (simp add: x(3) v(3))
  ultimately obtain xs y ys where y: "each (create_line a input pf r) lines x = (Inr xs, y)" "faults y = []"
      "data y = (data x)\<lparr>order_items := ys\<rparr>"
    using create_lines_calm [OF x(2) _ _ ex] by blast
  have usr: "user_exists (data y) ?b (a_user_id a)"
    using fits by (simp add: order_fits_def user_exists_def y(3) x(3) v(3))
  have exy: "order_exists (data y) ?b ?l (o_id r)" using ex by (simp add: y(3))
  have "insert_history_error (data y) \<lparr>h_id = seqs y THistory, h_business_id = ?b, h_outlet_id = ?l,
      h_order_id = o_id r, h_from_status = None, h_to_status = ''RECEIVED'', h_changed_by = a_user_id a,
      h_notes = None, h_changed_at = now y\<rparr> = None"
    using usr exy by (simp add: insert_history_error_def pg_text_opt_def status_text history_check_def)
  then obtain h z where z: "CreateInitialOrderStatus ?b ?l (o_id r) (a_user_id a) y = (Inr h, z)" "faults z = []"
      "\<exists>hs. data z = (data y)\<lparr>order_status_history := hs\<rparr>"
    unfolding CreateInitialOrderStatus_def insert_history_def
    by (simp add: insert_serial_def Let_def y(2)) blast
  have af: "audit_fits (data z) a ?l"
    using aud z(3) by (auto simp: audit_fits_def y(3) x(3) v(3) outlet_exists_def user_exists_def)
  have jv: "jval_ok (create_audit_values input (snd pf) ?num amount lines)"
  proof -
    have "pg_text ?num"
      using code sys_ok_parts(4,7) [OF ok] next_sequence_pos [of "data w" ?b ?l day]
      by (intro invoice_text) (auto simp: ledger_ok_def day_def jakarta_date_nonneg)
    moreover have "jval_ok (audit_item input (snd pf) line)" if "line \<in> set lines" for line
    proof -
      from lines that obtain rq where rq: "priced (data w) ?b rq line" by (auto simp: item_fits_def)
      then obtain s where s: "s \<in> set (services (data w))" "cl_serviceName line = sv_name s" "cl_unit line = sv_unit s"
        unfolding priced_def by blast
      then have "pg_text (cl_serviceName line)" "pg_text (cl_unit line)"
        using ms unit_text [of "sv_unit s"] by (auto simp: master_ok_def list_all_iff)
      moreover have "parseMilliQuantity (in_Quantity (cl_input line)) = Inr (cl_milli line)"
        using rq by (simp add: priced_def)
      then have "CHR 0x00 \<notin> set (in_Quantity (cl_input line))" by (rule quantity_no_nul)
      ultimately show ?thesis using pf by (simp add: audit_item_def)
    qed
    ultimately show ?thesis by (simp add: create_audit_values_def list_all_iff)
  qed
  have "\<exists>au t. InsertOrderAuditLog ?b (Some ?l) (Some (a_user_id a)) (Some (o_id r))
        (create_audit_values input (snd pf) ?num amount lines) (a_ip a) (audit_user_agent (a_user_agent a)) z
      = (Inr au, t) \<and> faults t = []"
    by (rule audit_calm(3) [where old = JNull, OF z(2) af action_texts(5,6) _ jv refl]) simp
  then obtain au t where t: "InsertOrderAuditLog ?b (Some ?l) (Some (a_user_id a)) (Some (o_id r))
        (create_audit_values input (snd pf) ?num amount lines) (a_ip a) (audit_user_agent (a_user_agent a)) z = (Inr au, t)"
      "faults t = []" by blast
  obtain od where od: "loadOrder r (out_timezone outlet) t = (Inr od, t)" using list_items_calm [OF t(2)] by blast
  show ?thesis
    using tm due enc v(1) x(1) y(1) z(1) t od by (simp add: Create_write_def tbind_def on_err_def ret_def Let_def)
qed

lemma Create_calm:
  assumes calm: "faults w = []" and ok: "sys_ok w" and fits: "order_fits w a input" and ms: "master_ok (data w)"
    and priced: "price_lines a 0 (ci_Items input) w = (Inr (lines, amount), w)"
    and aud: "audit_fits (data w) a (ci_OutletID input)"
  shows "\<exists>res w'. Create_body a input w = (Inr res, w') \<and> faults w' = []"
proof -
  obtain outlet where ol: "Create_outlet a input w = (Inr outlet, w)" and code: "pg_text (out_code outlet)"
    using outlet_calm [OF calm fits ms] .
  obtain pf where pf: "Create_perfume a input w = (Inr pf, w)" "pg_text_opt (snd pf)"
    and items: "\<And>rq line. rq \<in> set (ci_Items input) \<Longrightarrow> priced (data w) (a_business_id a) rq line \<Longrightarrow>
       item_fits (data w) a input pf line"
    using perfume_calm [OF calm fits ms] by metis
  note P = price_lines_Inr [OF priced]
  have lines: "\<exists>rq \<in> set (ci_Items input). priced (data w) (a_business_id a) rq line" if "line \<in> set lines" for line
    using P that by (metis list_all2_conv_all_nth in_set_conv_nth)
  then have fit: "\<forall>line \<in> set lines. item_fits (data w) a input pf line" using items by blast
  have "0 \<le> amount" using P lines priced_nonneg [OF _ ms] by (fastforce intro: sum_list_nonneg)
  from Create_write_calm [OF calm ok fits ms code pf(2) fit this aud]
  obtain res w' where w: "Create_write a input outlet pf lines amount w = (Inr res, w')" "faults w' = []" by blast
  have "[(r, out_timezone x). r \<leftarrow> orders (data w), x \<leftarrow> outlets (data w),
        out_business_id x = o_business_id r \<and> out_id x = o_outlet_id r \<and>
        o_business_id r = a_business_id a \<and> o_outlet_id r = ci_OutletID input \<and>
        o_idempotency_key r = Some (ci_IdempotencyKey input)] = []"
    by (rule no_join) (use fits in \<open>auto simp: order_fits_def list_ex_iff\<close>)
  note look = one_select_calm [OF calm, where sel = "\<lambda>n d. [(r, out_timezone x). r \<leftarrow> orders d, x \<leftarrow> outlets d,
        out_business_id x = o_business_id r \<and> out_id x = o_outlet_id r \<and>
        o_business_id r = a_business_id a \<and> o_outlet_id r = ci_OutletID input \<and>
        o_idempotency_key r = Some (ci_IdempotencyKey input)]", unfolded this list.case]
  have "pg_text (ci_IdempotencyKey input)" using fits by (simp add: order_fits_def)
  then have look: "GetOrderByIdempotencyKey (a_business_id a) (ci_OutletID input) (ci_IdempotencyKey input) w
      = (Inl NoRows, w)"
    unfolding GetOrderByIdempotencyKey_def with_text_def using look by simp
  have "list_ex (\<lambda>c. cu_business_id c = a_business_id a \<and> cu_id c = ci_CustomerID input \<and> cu_deleted_at c = None)
       (customers (data w))" using fits by (simp add: order_fits_def)
  from pick_one [OF this] obtain c rest where "filter (\<lambda>c. cu_business_id c = a_business_id a
      \<and> cu_id c = ci_CustomerID input \<and> cu_deleted_at c = None) (customers (data w)) = c # rest" by blast
  then have "GetActiveOrderCustomer (a_business_id a) (ci_CustomerID input) w = (Inr c, w)"
    using calm by (simp add: GetActiveOrderCustomer_def one_select_calm)
  with ol look pf priced w show ?thesis
    by (simp add: Create_body_def Create_new_def tbind_def on_err_def attempt_def)
qed

section \<open>The operations succeed\<close>

lemma Create_succeeds:
  assumes "faults w = []" "sys_ok w" "order_fits w a input" "master_ok (data w)"
    and "price_lines a 0 (ci_Items input) w = (Inr (lines, amount), w)"
    and "audit_fits (data w) a (ci_OutletID input)"
  shows "\<exists>res w'. OrderCatalog_Create a input w = (Inr res, w')
     \<and> (\<exists>r xs. places (data w) a input res r xs (data w')) \<and> faults w' = []"
proof -
  obtain res w' where run: "Create_body a input w = (Inr res, w')" "faults w' = []"
    using Create_calm [OF assms] by blast
  have g: "Create_guard a input = None" using assms(3) by (simp add: order_fits_def)
  have "OrderCatalog_Create a input w = (Inr res, w')"
    using assms(1) run g by (simp add: OrderCatalog_Create_def in_tx_calm)
  moreover have "\<not> (\<exists>r. replays (data w) a input res r)"
    using assms(3) by (auto simp: replays_def order_fits_def list_ex_iff)
  then have "\<exists>r xs. places (data w) a input res r xs (data w')"
    using Create_refines [OF sys_ok_parts(1,7) [OF assms(2)] Create_guard_items [OF g] run(1)] by blast
  ultimately show ?thesis using run(2) by blast
qed

end
