(* ===== verification/Operations.thy ===== *)
theory Operations
  imports Creation_Progress
begin

text \<open>
  The operations as the handlers call them: every way a call can end, over any schedule of faults.
  A call that ends in an error has changed nothing, except that a commit whose reply was lost
  leaves the whole event behind the connection error.
\<close>

section \<open>How a transaction ends\<close>

lemma sys_ok_same: "same_data w u \<Longrightarrow> sys_ok w \<Longrightarrow> sys_ok u"
  using sys_ok_seqs by (auto simp: same_data_def)

lemma fails_alone: "fail e w = (r, w') \<Longrightarrow> data w' = data w \<and> r = Inl e"
  by (simp add: fail_run)

section \<open>The five writing operations\<close>

lemma Create_ends:
  assumes ok: "sys_ok w" and run: "OrderCatalog_Create a input w = (res, w')"
  shows "data w' = data w \<and> (\<forall>x. res = Inr x \<longrightarrow> (\<exists>r. replays (data w) a input x r)) \<or>
    (\<exists>x r xs. places (data w) a input x r xs (data w') \<and> (res = Inr x \<or> res = Inl (Sql ConnErr))
       \<and> (\<exists>outlet. may_create (data w) a outlet \<and> out_id outlet = ci_OutletID input))"
proof (cases "Create_guard a input")
  case (Some e)
  then show ?thesis using run fails_alone by (force simp: OrderCatalog_Create_def)
next
  case None
  then have tx: "in_tx (Create_body a input) w = (res, w')" using run by (simp add: OrderCatalog_Create_def)
  from with_tx_ends [OF tx] consider "data w' = data w" "\<forall>x. res \<noteq> Inr x"
    | u x v where "same_data w u" "Create_body a input u = (Inr x, v)" "same_data v w'"
        "res = Inr x \<or> res = Inl (Sql ConnErr)" by blast
  then show ?thesis
  proof cases
    case 1
    then show ?thesis by blast
  next
    case (2 u x v)
    have "sys_ok u" by (rule sys_ok_same [OF 2(1) ok])
    from Create_refines [OF sys_ok_parts(1,7) [OF this] Create_guard_items [OF None] 2(2)] 2
    show ?thesis by (auto simp: same_data_def)
  qed
qed

text \<open>What remains of an operation whose guard passed: the transaction of its body.\<close>

lemma ends_by_body:
  assumes ok: "sys_ok w" and tx: "in_tx body w = (res, w')"
    and refines: "\<And>u x v. sys_ok u \<Longrightarrow> body u = (Inr x, v) \<Longrightarrow> P (data u) (now u) x (data v)"
  shows "data w' = data w \<and> (\<forall>x. res \<noteq> Inr x) \<or>
    (\<exists>x. P (data w) (now w) x (data w') \<and> (res = Inr x \<or> res = Inl (Sql ConnErr)))"
proof -
  from with_tx_ends [OF tx] consider "data w' = data w \<and> (\<forall>x. res \<noteq> Inr x)"
    | u x v where "same_data w u" "body u = (Inr x, v)" "same_data v w'"
        "res = Inr x \<or> res = Inl (Sql ConnErr)" by blast
  then show ?thesis
  proof cases
    case (2 u x v)
    from refines [OF sys_ok_same [OF 2(1) ok] 2(2)] 2
    have "P (data w) (now w) x (data w')" by (simp add: same_data_def)
    with 2(4) show ?thesis by blast
  qed blast
qed

lemma Transition_ends:
  assumes ok: "sys_ok w" and run: "OrderCatalog_TransitionStatus a i s nts w = (res, w')"
  shows "data w' = data w \<and> (\<forall>x. res \<noteq> Inr x) \<or>
    (\<exists>x. validStatusTarget s \<and> (\<exists>r. may_operate (data w) a r \<and> o_id r = i
          \<and> ledger_step (data w) (Moved r s) (data w')
          \<and> olr_OrderID x = i \<and> olr_Status x = s \<and> olr_PaymentStatus x = o_payment_status r)
       \<and> (res = Inr x \<or> res = Inl (Sql ConnErr)))"
proof (cases "i < 1 \<or> a_business_id a < 1 \<or> a_user_id a < 1 \<or> \<not> validStatusTarget s")
  case True
  then show ?thesis using run fails_alone by (force simp: OrderCatalog_TransitionStatus_def)
next
  case False
  then have tx: "in_tx (Transition_body a i s nts) w = (res, w')" and v: "validStatusTarget s"
    using run by (simp_all add: OrderCatalog_TransitionStatus_def)
  from ends_by_body [OF ok tx, where P = "\<lambda>d n x d'. \<exists>r. may_operate d a r \<and> o_id r = i
      \<and> ledger_step d (Moved r s) d' \<and> olr_OrderID x = i \<and> olr_Status x = s
      \<and> olr_PaymentStatus x = o_payment_status r"]
    Transition_refines [OF sys_ok_parts(1) v] v
  show ?thesis by blast
qed

lemma Cancel_ends:
  assumes ok: "sys_ok w" and run: "OrderCatalog_Cancel a i reason w = (res, w')"
  shows "data w' = data w \<and> (\<forall>x. res \<noteq> Inr x) \<or>
    (\<exists>x. (\<exists>r. may_operate (data w) a r \<and> o_id r = i
          \<and> ledger_step (data w) (Moved r ''CANCELLED'') (data w')
          \<and> olr_OrderID x = i \<and> olr_Status x = ''CANCELLED'' \<and> olr_PaymentStatus x = ''UNPAID''
          \<and> olr_CancellationReason x = Some (trim_space reason) \<and> olr_CancelledAt x = Some (now w))
       \<and> (res = Inr x \<or> res = Inl (Sql ConnErr)))"
proof (cases "i < 1 \<or> a_business_id a < 1 \<or> a_user_id a < 1 \<or> trim_space reason = []
    \<or> length (trim_space reason) > 2000")
  case True
  then show ?thesis using run fails_alone by (force simp: OrderCatalog_Cancel_def Let_def)
next
  case False
  then have tx: "in_tx (Cancel_body a i (trim_space reason)) w = (res, w')"
    using run by (simp add: OrderCatalog_Cancel_def Let_def)
  show ?thesis
    by (rule ends_by_body [OF ok tx, where P = "\<lambda>d n x d'. \<exists>r. may_operate d a r \<and> o_id r = i
          \<and> ledger_step d (Moved r ''CANCELLED'') d'
          \<and> olr_OrderID x = i \<and> olr_Status x = ''CANCELLED'' \<and> olr_PaymentStatus x = ''UNPAID''
          \<and> olr_CancellationReason x = Some (trim_space reason) \<and> olr_CancelledAt x = Some n"])
      (rule Cancel_refines [OF sys_ok_parts(1)])
qed

text \<open>What a payment request may have done when it ended well.\<close>

definition records :: "db \<Rightarrow> actor \<Rightarrow> i64 \<Rightarrow> RecordPaymentInput \<Rightarrow> PaymentRecordResult \<Rightarrow> db \<Rightarrow> bool" where
  "records d a i input x d' \<longleftrightarrow>
     (\<exists>r. may_operate d a r \<and> o_id r = i \<and> o_status r \<noteq> ''CANCELLED'' \<and>
       (pr_Replayed x \<and> d' = d
          \<and> (\<exists>p \<in> set (payments d). payment_of r p
               \<and> p_idempotency_key p = Some (ri_IdempotencyKey input)
               \<and> p_request_hash p = Some (ri_RequestHash input) \<and> pr_Payment x = paymentFrom p
               \<and> pr_PaidAmount x = paid_on d r)
        \<or> \<not> pr_Replayed x \<and> (\<exists>p. ledger_step d (Paid r p) d' \<and> pr_Payment x = paymentFrom p
               \<and> pr_PaidAmount x = paid_on d r + p_amount p
               \<and> pr_OutstandingAmount x = o_total_amount r - pr_PaidAmount x
               \<and> pr_PaymentStatus x = paymentStatusFor (o_total_amount r) (pr_PaidAmount x)
               \<and> p_amount p = min (ri_TenderedAmount input) (o_total_amount r - paid_on d r)
               \<and> p_amount p + pr_ChangeAmount x = ri_TenderedAmount input \<and> 0 \<le> pr_ChangeAmount x
               \<and> (ri_Method input \<noteq> ''CASH'' \<longrightarrow> pr_ChangeAmount x = 0)
               \<and> p_idempotency_key p = Some (ri_IdempotencyKey input)
               \<and> p_request_hash p = Some (ri_RequestHash input))))"

definition voids :: "db \<Rightarrow> actor \<Rightarrow> i64 \<Rightarrow> i64 \<Rightarrow> string \<Rightarrow> PaymentVoidResult \<Rightarrow> db \<Rightarrow> bool" where
  "voids d a i j reason x d' \<longleftrightarrow>
     (\<exists>r p. may_operate d a r \<and> o_id r = i \<and> p \<in> set (payments d) \<and> p_id p = j \<and> payment_of r p \<and>
       (d' = d \<and> p_status p = ''VOIDED'' \<and> p_voided_by p = Some (a_user_id a)
          \<and> p_void_reason p = Some reason \<and> pv_Payment x = paymentFrom p
          \<and> pv_PaidAmount x = paid_on d r
        \<or> ledger_step d (Voided r p) d' \<and> pv_PaidAmount x = paid_on d r - p_amount p
          \<and> pa_Status (pv_Payment x) = ''VOIDED'' \<and> pa_ID (pv_Payment x) = j))"

lemma Record_ends:
  assumes ok: "sys_ok w" and i64: "is_int64 (ri_TenderedAmount input)"
    and run: "PaymentCatalog_Record a i input w = (res, w')"
  shows "data w' = data w \<and> (\<forall>x. res \<noteq> Inr x) \<or>
    (\<exists>x. records (data w) a i input x (data w') \<and> (res = Inr x \<or> res = Inl (Sql ConnErr)))"
proof (cases "Record_guard a i input")
  case (Some e)
  then show ?thesis using run fails_alone by (force simp: PaymentCatalog_Record_def)
next
  case None
  then have tx: "in_tx (Record_body a i input) w = (res, w')" using run by (simp add: PaymentCatalog_Record_def)
  show ?thesis
    by (rule ends_by_body [OF ok tx, where P = "\<lambda>d n x d'. records d a i input x d'"],
        unfold records_def, rule Record_refines [OF sys_ok_parts(1,2,5,6) i64])
qed

lemma Void_ends:
  assumes ok: "sys_ok w" and run: "PaymentCatalog_Void a i j reason w = (res, w')"
  shows "data w' = data w \<and> (\<forall>x. res \<noteq> Inr x) \<or>
    (\<exists>x. voids (data w) a i j (trim_space reason) x (data w') \<and> (res = Inr x \<or> res = Inl (Sql ConnErr)))"
proof (cases "i < 1 \<or> j < 1 \<or> a_business_id a < 1 \<or> a_user_id a < 1
    \<or> trim_space (trim_space reason) = [] \<or> rune_count (trim_space reason) > 2000")
  case True
  then show ?thesis using run fails_alone by (force simp: PaymentCatalog_Void_def Let_def)
next
  case False
  then have tx: "in_tx (Void_body a i j (trim_space reason)) w = (res, w')"
    using run by (simp add: PaymentCatalog_Void_def Let_def)
  show ?thesis
    by (rule ends_by_body [OF ok tx, where P = "\<lambda>d n x d'. voids d a i j (trim_space reason) x d'"],
        unfold voids_def, rule Void_refines [OF sys_ok_parts(1,2,5,6)])
qed

section \<open>What an event changes\<close>

text \<open>No event touches the master data; each adds one audit row.\<close>

lemma step_master:
  assumes "ledger_step d e d'"
  shows "businesses d' = businesses d" "outlets d' = outlets d" "users d' = users d"
    "user_outlets d' = user_outlets d" "customers d' = customers d" "services d' = services d"
    "perfumes d' = perfumes d" "payment_refunds d' = payment_refunds d"
    "session_families d' = session_families d" "refresh_tokens d' = refresh_tokens d"
  using assms by (cases; simp)+

lemma step_audit:
  assumes "ledger_step d e d'"
  shows "\<exists>a. audit_logs d' = audit_logs d @ [a] \<and> audits e a"
  using assms by cases auto

lemma placed_effect:
  assumes "ledger_step d (Placed r xs) d'"
  shows "orders d' = orders d @ [r]" "order_items d' = order_items d @ xs" "payments d' = payments d"
    "o_status r = ''RECEIVED''" "o_payment_status r = ''UNPAID''"
    "o_total_amount r = sum_list (map it_line_total_amount xs)"
    "o_id r \<notin> o_id ` set (orders d)"
  using assms by (cases rule: placedE; simp)+

lemma moved_order:
  assumes "ledger_step d (Moved r s) d'"
  shows "\<exists>r'. orders d' = replace_row r r' (orders d) \<and> same_terms r r' \<and> o_status r' = s
    \<and> o_payment_status r' = o_payment_status r"
  by (rule movedE [OF assms]) (simp, rule exI, intro conjI, (rule refl | assumption)+)

lemma moved_effect:
  assumes "ledger_step d (Moved r s) d'"
  shows "payments d' = payments d" "r \<in> set (orders d)" "allowedOrderTransition (o_status r) s"
    "s = ''CANCELLED'' \<longrightarrow> o_payment_status r = ''UNPAID''"
  using assms by (cases rule: movedE; simp)+

lemma paid_order:
  assumes "ledger_step d (Paid r p) d'"
  shows "\<exists>n. orders d' = replace_row r (r\<lparr>o_payment_status :=
          paymentStatusFor (o_total_amount r) (paid_on d r + p_amount p), o_updated_at := n\<rparr>) (orders d)"
  by (rule paidE [OF assms]) (simp, rule exI, rule refl)

lemma paid_effect:
  assumes "ledger_step d (Paid r p) d'"
  shows "payments d' = payments d @ [p]" "payment_of r p" "p_status p = ''CONFIRMED''"
    "r \<in> set (orders d)" "o_status r \<noteq> ''CANCELLED''" "paid_on d r + p_amount p \<le> o_total_amount r"
    "payment_check p" "\<not> payment_key_taken d p"
  using assms by (cases rule: paidE; simp)+

section \<open>The operations end well when nothing stands in their way\<close>

text \<open>
  The request limits of the guards, the actor's standing, text the server accepts, and a calm
  connection are enough: the operation returns its result and performs its event.
\<close>

lemma Transition_succeeds:
  assumes calm: "faults w = []" and ok: "sys_ok w" and may: "may_operate (data w) a r"
    and ids: "1 \<le> o_id r" "1 \<le> a_business_id a" "1 \<le> a_user_id a"
    and al: "allowedOrderTransition (o_status r) s" "validStatusTarget s"
    and nts: "pg_text_opt nts" and aud: "audit_fits (data w) a (o_outlet_id r)"
  shows "\<exists>x w'. OrderCatalog_TransitionStatus a (o_id r) s nts w = (Inr x, w') \<and> faults w' = []
    \<and> ledger_step (data w) (Moved r s) (data w') \<and> olr_Status x = s"
proof -
  from Transition_calm [OF calm ok may al nts aud] obtain x w' where
    run: "Transition_body a (o_id r) s nts w = (Inr x, w')" and f: "faults w' = []" by blast
  have "OrderCatalog_TransitionStatus a (o_id r) s nts w = (Inr x, w')"
    using in_tx_calm [where w = w, OF calm _ f] run ids al by (simp add: OrderCatalog_TransitionStatus_def)
  moreover obtain r2 where "may_operate (data w) a r2" "o_id r2 = o_id r"
    "ledger_step (data w) (Moved r2 s) (data w')" "olr_Status x = s"
    using Transition_refines [OF sys_ok_parts(1) [OF ok] al(2) run] by blast
  moreover from this have "r2 = r" using orders_tbl.key_unique [OF sys_ok_parts(1) [OF ok]] may
    by (simp add: may_operate_def)
  ultimately show ?thesis using f by blast
qed

lemma Cancel_succeeds:
  assumes calm: "faults w = []" and ok: "sys_ok w" and may: "may_operate (data w) a r"
    and ids: "1 \<le> o_id r" "1 \<le> a_business_id a" "1 \<le> a_user_id a"
    and al: "allowedOrderTransition (o_status r) ''CANCELLED''" and unpaid: "o_payment_status r = ''UNPAID''"
    and rsn: "trim_space reason \<noteq> []" "length (trim_space reason) \<le> 2000" "pg_text (trim_space reason)"
    and aud: "audit_fits (data w) a (o_outlet_id r)"
  shows "\<exists>x w'. OrderCatalog_Cancel a (o_id r) reason w = (Inr x, w') \<and> faults w' = []
    \<and> ledger_step (data w) (Moved r ''CANCELLED'') (data w') \<and> olr_Status x = ''CANCELLED''"
proof -
  from Cancel_calm [OF calm ok may al unpaid rsn(3) trim_space_not_blank [OF rsn(1)] aud] obtain x w' where
    run: "Cancel_body a (o_id r) (trim_space reason) w = (Inr x, w')" and f: "faults w' = []" by blast
  have "OrderCatalog_Cancel a (o_id r) reason w = (Inr x, w')"
    using in_tx_calm [where w = w, OF calm _ f] run ids rsn by (simp add: OrderCatalog_Cancel_def Let_def)
  moreover obtain r2 where "may_operate (data w) a r2" "o_id r2 = o_id r"
    "ledger_step (data w) (Moved r2 ''CANCELLED'') (data w')" "olr_Status x = ''CANCELLED''"
    using Cancel_refines [OF sys_ok_parts(1) [OF ok] run] by blast
  moreover from this have "r2 = r" using orders_tbl.key_unique [OF sys_ok_parts(1) [OF ok]] may
    by (simp add: may_operate_def)
  ultimately show ?thesis using f by blast
qed

lemma Record_succeeds:
  assumes calm: "faults w = []" and ok: "sys_ok w" and may: "may_operate (data w) a r"
    and st: "o_status r \<noteq> ''CANCELLED''" and ref: "no_refunds (data w) r"
    and guard: "Record_guard a (o_id r) input = None" and i64: "is_int64 (ri_TenderedAmount input)"
    and due: "paid_on (data w) r < o_total_amount r"
    and tender: "ri_Method input = ''CASH'' \<or> ri_TenderedAmount input \<le> o_total_amount r - paid_on (data w) r"
    and fits: "payment_fits (data w) r input" and aud: "audit_fits (data w) a (o_outlet_id r)"
  shows "\<exists>x w' p. PaymentCatalog_Record a (o_id r) input w = (Inr x, w') \<and> faults w' = []
    \<and> ledger_step (data w) (Paid r p) (data w') \<and> \<not> pr_Replayed x \<and> pr_Payment x = paymentFrom p
    \<and> p_amount p = min (ri_TenderedAmount input) (o_total_amount r - paid_on (data w) r)
    \<and> pr_ChangeAmount x = ri_TenderedAmount input - p_amount p
    \<and> p_idempotency_key p = Some (ri_IdempotencyKey input) \<and> p_request_hash p = Some (ri_RequestHash input)"
proof -
  from Record_calm [OF calm ok may st ref guard i64 due tender fits aud] obtain x w' where
    run: "Record_body a (o_id r) input w = (Inr x, w')" and f: "faults w' = []" by blast
  have "PaymentCatalog_Record a (o_id r) input w = (Inr x, w')"
    using in_tx_calm [where w = w, OF calm _ f] run guard by (simp add: PaymentCatalog_Record_def)
  moreover have "\<exists>p. ledger_step (data w) (Paid r p) (data w') \<and> \<not> pr_Replayed x \<and> pr_Payment x = paymentFrom p
      \<and> p_amount p = min (ri_TenderedAmount input) (o_total_amount r - paid_on (data w) r)
      \<and> p_amount p + pr_ChangeAmount x = ri_TenderedAmount input
      \<and> p_idempotency_key p = Some (ri_IdempotencyKey input) \<and> p_request_hash p = Some (ri_RequestHash input)"
  proof -
    obtain r2 where "may_operate (data w) a r2" "o_id r2 = o_id r"
      and alt: "(\<exists>p \<in> set (payments (data w)). payment_of r2 p
            \<and> p_idempotency_key p = Some (ri_IdempotencyKey input))
        \<or> \<not> pr_Replayed x \<and> (\<exists>p. ledger_step (data w) (Paid r2 p) (data w') \<and> pr_Payment x = paymentFrom p
            \<and> p_amount p = min (ri_TenderedAmount input) (o_total_amount r2 - paid_on (data w) r2)
            \<and> p_amount p + pr_ChangeAmount x = ri_TenderedAmount input
            \<and> p_idempotency_key p = Some (ri_IdempotencyKey input) \<and> p_request_hash p = Some (ri_RequestHash input))"
      using Record_refines [OF sys_ok_parts(1,2,5,6) [OF ok] i64 run] by blast
    then have "r2 = r" using orders_tbl.key_unique [OF sys_ok_parts(1) [OF ok]] may
      by (simp add: may_operate_def)
    with alt fits show ?thesis by (auto simp: payment_fits_def list_ex_iff)
  qed
  ultimately show ?thesis using f by fastforce
qed

lemma Void_succeeds:
  assumes calm: "faults w = []" and ok: "sys_ok w" and may: "may_operate (data w) a r"
    and ids: "1 \<le> o_id r" "1 \<le> p_id p" "1 \<le> a_business_id a" "1 \<le> a_user_id a"
    and ref: "no_refunds (data w) r" and p: "p \<in> set (payments (data w))" "payment_of r p"
    and st: "p_status p = ''CONFIRMED''"
    and rsn: "trim_space reason \<noteq> []" "rune_count (trim_space reason) \<le> 2000" "pg_text (trim_space reason)"
    and aud: "audit_fits (data w) a (o_outlet_id r)"
  shows "\<exists>x w'. PaymentCatalog_Void a (o_id r) (p_id p) reason w = (Inr x, w') \<and> faults w' = []
    \<and> ledger_step (data w) (Voided r p) (data w') \<and> pv_PaidAmount x = paid_on (data w) r - p_amount p"
proof -
  from Void_calm [OF calm ok may ref p st rsn(3) trim_space_not_blank [OF rsn(1)] aud] obtain x w' where
    run: "Void_body a (o_id r) (p_id p) (trim_space reason) w = (Inr x, w')" and f: "faults w' = []" by blast
  have "PaymentCatalog_Void a (o_id r) (p_id p) reason w = (Inr x, w')"
    using in_tx_calm [where w = w, OF calm _ f] run ids rsn by (simp add: PaymentCatalog_Void_def Let_def)
  moreover have "ledger_step (data w) (Voided r p) (data w') \<and> pv_PaidAmount x = paid_on (data w) r - p_amount p"
  proof -
    obtain r2 p2 where "may_operate (data w) a r2" "o_id r2 = o_id r" and p2: "p2 \<in> set (payments (data w))"
      "p_id p2 = p_id p" and alt: "p_status p2 = ''VOIDED''
        \<or> ledger_step (data w) (Voided r2 p2) (data w') \<and> pv_PaidAmount x = paid_on (data w) r2 - p_amount p2"
      using Void_refines [OF sys_ok_parts(1,2,5,6) [OF ok] run] by blast
    then have "r2 = r" using orders_tbl.key_unique [OF sys_ok_parts(1) [OF ok]] may
      by (simp add: may_operate_def)
    moreover have "p2 = p" using payments_tbl.key_unique [OF sys_ok_parts(2) [OF ok] p2(1) p(1) p2(2)] .
    ultimately show ?thesis using alt st by auto
  qed
  ultimately show ?thesis using f by blast
qed

end
