(* ===== verification/Sample.thy ===== *)
theory Sample
  imports Operations
begin

text \<open>
  A small laundry to apply the theorems to: one business with one outlet, an administrator and
  two members of staff of whom one is assigned to the outlet, a customer, two services and a
  perfume; an order of two lines and what happens to it.
\<close>

section \<open>Master data\<close>

definition sample_time :: time where
  "sample_time = 1717210800000000"

definition sample_user :: "i64 \<Rightarrow> string \<Rightarrow> user_row" where
  "sample_user i role = \<lparr>u_id = i, u_business_id = 1, u_email = ''u'' @ show_int i, u_full_name = ''User'',
     u_password_hash = ''x'', u_role = role, u_is_active = True, u_last_login_at = None, u_created_at = 0, u_updated_at = 0\<rparr>"

definition sample_service :: "i64 \<Rightarrow> string \<Rightarrow> string \<Rightarrow> i64 \<Rightarrow> service_row" where
  "sample_service i name unit price = \<lparr>sv_id = i, sv_business_id = 1, sv_name = name, sv_unit = unit,
     sv_unit_price_amount = price, sv_estimated_duration_minutes = 60, sv_is_active = True,
     sv_created_at = 0, sv_updated_at = 0, sv_deleted_at = None, sv_description = None\<rparr>"

definition sample_db :: db where
  "sample_db = \<lparr>
     businesses = [\<lparr>b_id = 1, b_name = ''Laundry'', b_timezone = ''Asia/Jakarta'', b_phone = None,
       b_address = None, b_is_active = True, b_created_at = 0, b_updated_at = 0\<rparr>],
     outlets = [\<lparr>out_id = 1, out_business_id = 1, out_code = ''001'', out_name = ''Main'', out_phone = None,
       out_address = None, out_is_active = True, out_created_at = 0, out_updated_at = 0,
       out_timezone = ''Asia/Jakarta'', out_legacy_code = None\<rparr>],
     users = [sample_user 1 ''ADMIN'', sample_user 2 ''LAUNDRY_STAFF'', sample_user 3 ''LAUNDRY_STAFF''],
     user_outlets = [\<lparr>uo_business_id = 1, uo_user_id = 2, uo_outlet_id = 1, uo_assigned_at = 0\<rparr>],
     user_permissions = [],
     customers = [\<lparr>cu_id = 1, cu_business_id = 1, cu_name = ''Siti'', cu_phone = None, cu_email = None,
       cu_address = None, cu_notes = None, cu_created_at = 0, cu_updated_at = 0, cu_deleted_at = None\<rparr>],
     services = [sample_service 1 ''Wash'' ''kg'' 7000, sample_service 2 ''Iron'' ''pcs'' 5000],
     perfumes = [\<lparr>pf_id = 1, pf_business_id = 1, pf_name = ''Rose'', pf_description = None,
       pf_is_active = True, pf_created_at = 0, pf_updated_at = 0, pf_deleted_at = None, pf_version = 1\<rparr>],
     orders = [], order_items = [], order_status_history = [], invoice_counters = [], payments = [],
     payment_refunds = [], audit_logs = [], session_families = [], refresh_tokens = [],
     expense_categories = [], expenses = [], outlet_counters = [], permissions = []\<rparr>"

definition sample_world :: world where
  "sample_world = \<lparr>data = sample_db, seqs = (\<lambda>_. 1), now = sample_time, wall = sample_time, faults = []\<rparr>"

definition sample_actor :: "i64 \<Rightarrow> string \<Rightarrow> actor" where
  "sample_actor i role = \<lparr>a_business_id = 1, a_user_id = i, a_role = role, a_outlet_ids = [1],
     a_ip = None, a_user_agent = ''test''\<rparr>"

abbreviation "admin \<equiv> sample_actor 1 ''ADMIN''"
abbreviation "staff \<equiv> sample_actor 2 ''LAUNDRY_STAFF''"
abbreviation "outsider \<equiv> sample_actor 3 ''LAUNDRY_STAFF''"

definition sample_order :: CreateOrderInput where
  "sample_order = \<lparr>ci_OutletID = 1, ci_CustomerID = 1, ci_PerfumeID = Some 1, ci_DueAt = None,
     ci_Notes = None,
     ci_Items = [\<lparr>in_ServiceID = 1, in_Quantity = ''2.5'', in_Notes = None\<rparr>,
                 \<lparr>in_ServiceID = 2, in_Quantity = ''3'', in_Notes = None\<rparr>],
     ci_IdempotencyKey = ''k1'', ci_RequestHash = replicate 32 CHR ''a''\<rparr>"

definition sample_payment :: RecordPaymentInput where
  "sample_payment = \<lparr>ri_TenderedAmount = 20000, ri_Method = ''CASH'', ri_ExternalReference = None,
     ri_Notes = None, ri_IdempotencyKey = ''p1'', ri_RequestHash = replicate 32 CHR ''b''\<rparr>"

lemmas sample_defs = sample_world_def sample_db_def sample_actor_def sample_user_def sample_service_def

section \<open>The order is placed\<close>

lemma sample_reachable: "reachable sample_world"
proof (rule reachable.start)
  show "ledger_empty (data sample_world)" by (simp add: sample_defs ledger_empty_def)
  show "all_fresh sample_world"
    by (simp add: sample_defs all_fresh_def orders_tbl.fresh_def items_tbl.fresh_def history_tbl.fresh_def
        payments_tbl.fresh_def audit_tbl.fresh_def families_tbl.fresh_def tokens_tbl.fresh_def)
  show "0 \<le> now sample_world" by (simp add: sample_defs sample_time_def)
qed

lemma sample_calm: "faults sample_world = []"
  by (simp add: sample_defs)

lemma sample_order_fits: "order_fits sample_world admin sample_order"
  by code_simp

lemma sample_master: "master_ok (data sample_world)"
  by code_simp

lemma sample_audit_fits: "i \<in> {1, 2, 3} \<Longrightarrow> audit_fits (data sample_world) (sample_actor i r) 1"
  by (auto simp: sample_defs audit_fits_def outlet_exists_def user_exists_def audit_user_agent_def
      pg_text_opt_def pg_text_def Let_def rune_len_def)

lemma sample_quantities:
  "parseMilliQuantity ''2.5'' = Inr 2500" "parseMilliQuantity ''3'' = Inr 3000"
  "lineTotalFor 2500 7000 = Inr 17500" "lineTotalFor 3000 5000 = Inr 15000"
  by code_simp+

lemma sample_priced:
  "\<exists>lines. price_lines admin 0 (ci_Items sample_order) sample_world = (Inr (lines, 32500), sample_world)"
  by (simp add: sample_order_def price_line_def GetActiveOrderService_def sample_defs sample_quantities
      tbind_def on_err_def only_one_def select_def stmt_def ret_def go_rem_def go_quo_def is_int64_def)

definition world_placed :: world where
  "world_placed = snd (OrderCatalog_Create admin sample_order sample_world)"

definition placed_order :: order_row where
  "placed_order = hd (orders (data world_placed))"

text \<open>The amount of a line follows from the services and the quantity.\<close>

lemma sample_line:
  assumes "priced sample_db 1 rq line" and "rq \<in> set (ci_Items sample_order)"
  shows "cl_lineTotal line = (if in_ServiceID rq = 1 then 17500 else 15000)"
proof -
  obtain s where s: "s \<in> set (services sample_db)" "sv_id s = in_ServiceID rq" "cl_price line = sv_unit_price_amount s"
    and m: "parseMilliQuantity (in_Quantity rq) = Inr (cl_milli line)"
    and t: "lineTotalFor (cl_milli line) (cl_price line) = Inr (cl_lineTotal line)"
    using assms(1) unfolding priced_def by blast
  then show ?thesis using assms(2)
    by (auto simp: sample_order_def sample_db_def sample_service_def sample_quantities)
qed

lemma sample_items: "ci_Items sample_order = [\<lparr>in_ServiceID = 1, in_Quantity = ''2.5'', in_Notes = None\<rparr>,
     \<lparr>in_ServiceID = 2, in_Quantity = ''3'', in_Notes = None\<rparr>]"
  by (simp add: sample_order_def)

lemma sample_created:
  "\<exists>res r xs. OrderCatalog_Create admin sample_order sample_world = (Inr res, world_placed)
     \<and> places (data sample_world) admin sample_order res r xs (data world_placed) \<and> faults world_placed = []"
proof -
  obtain lines where "price_lines admin 0 (ci_Items sample_order) sample_world = (Inr (lines, 32500), sample_world)"
    using sample_priced by blast
  moreover have "audit_fits (data sample_world) admin (ci_OutletID sample_order)"
    using sample_audit_fits by (simp add: sample_order_def)
  ultimately show ?thesis
    using Create_succeeds [OF sample_calm reachable_ok [OF sample_reachable] sample_order_fits sample_master]
    by (fastforce simp: world_placed_def)
qed

lemma world_placed_reachable: "reachable world_placed"
  using sample_created reachable.step [OF sample_reachable request.create] by blast

lemma world_placed_ok: "sys_ok world_placed"
  by (rule reachable_ok [OF world_placed_reachable])

lemma world_placed_calm: "faults world_placed = []"
  using sample_created by blast

lemma placed_facts:
  shows "orders (data world_placed) = [placed_order]" "payments (data world_placed) = []"
    "o_business_id placed_order = 1" "o_outlet_id placed_order = 1" "o_status placed_order = ''RECEIVED''"
    "o_payment_status placed_order = ''UNPAID''" "o_total_amount placed_order = 32500"
    "o_idempotency_key placed_order = Some ''k1''"
    "o_request_hash placed_order = Some (replicate 32 CHR ''a'')"
    "outlets (data world_placed) = outlets sample_db" "users (data world_placed) = users sample_db"
    "user_outlets (data world_placed) = user_outlets sample_db"
    "businesses (data world_placed) = businesses sample_db"
    "payment_refunds (data world_placed) = []"
proof -
  obtain res r xs where pl: "places sample_db admin sample_order res r xs (data world_placed)"
    using sample_created by (auto simp: sample_world_def)
  then have st: "ledger_step sample_db (Placed r xs) (data world_placed)" by (simp add: places_def)
  obtain lines where pr: "list_all2 (priced sample_db 1) (ci_Items sample_order) lines"
    and ls: "list_all2 stores_line lines xs"
    using pl by (auto simp: places_def sample_actor_def)
  from pr obtain l1 l2 where lines: "lines = [l1, l2]"
    and p: "priced sample_db 1 \<lparr>in_ServiceID = 1, in_Quantity = ''2.5'', in_Notes = None\<rparr> l1"
      "priced sample_db 1 \<lparr>in_ServiceID = 2, in_Quantity = ''3'', in_Notes = None\<rparr> l2"
    unfolding sample_items by (auto simp: list_all2_Cons1)
  have "sum_list (map it_line_total_amount xs) = 32500"
    using ls sample_line [OF p(1)] sample_line [OF p(2)] unfolding lines sample_items stores_line_def
    by (auto simp: list_all2_Cons1)
  moreover have o: "orders (data world_placed) = [r]"
    using placed_effect(1) [OF st] by (simp add: sample_db_def)
  moreover from o have "placed_order = r" by (simp add: placed_order_def)
  moreover note placed_effect(4-6) [OF st] step_master [OF st]
  moreover have "payments (data world_placed) = []" using placed_effect(3) [OF st] by (simp add: sample_db_def)
  moreover have "payment_refunds sample_db = []" by (simp add: sample_db_def)
  moreover from pl have "o_business_id r = 1" "o_outlet_id r = 1" "o_idempotency_key r = Some ''k1''"
      "o_request_hash r = Some (replicate 32 CHR ''a'')"
    by (simp_all add: places_def sample_actor_def sample_order_def)
  ultimately show "orders (data world_placed) = [placed_order]" "payments (data world_placed) = []"
    "o_business_id placed_order = 1" "o_outlet_id placed_order = 1" "o_status placed_order = ''RECEIVED''"
    "o_payment_status placed_order = ''UNPAID''" "o_total_amount placed_order = 32500"
    "o_idempotency_key placed_order = Some ''k1''"
    "o_request_hash placed_order = Some (replicate 32 CHR ''a'')"
    "outlets (data world_placed) = outlets sample_db" "users (data world_placed) = users sample_db"
    "user_outlets (data world_placed) = user_outlets sample_db"
    "businesses (data world_placed) = businesses sample_db"
    "payment_refunds (data world_placed) = []" by simp_all
qed

lemma placed_id: "1 \<le> o_id placed_order"
  using orders_tbl.fresh_pos(1) [OF sys_ok_parts(1) [OF world_placed_ok]] placed_facts(1) by simp

lemma placed_may: "a \<in> {admin, staff} \<Longrightarrow> may_operate (data world_placed) a placed_order"
  by (auto simp: may_operate_def assigned_def placed_facts sample_db_def sample_user_def sample_actor_def role_of_def)

lemma placed_audit_fits: "a \<in> {admin, staff} \<Longrightarrow> audit_fits (data world_placed) a (o_outlet_id placed_order)"
  using sample_audit_fits by (auto simp: audit_fits_def outlet_exists_def user_exists_def placed_facts sample_world_def)

section \<open>What happens to the order\<close>

definition world_moved :: world where
  "world_moved = snd (OrderCatalog_TransitionStatus staff (o_id placed_order) ''PROCESSING'' None world_placed)"

definition world_cancelled :: world where
  "world_cancelled = snd (OrderCatalog_Cancel admin (o_id placed_order) ''mistake'' world_placed)"

definition world_paid :: world where
  "world_paid = snd (PaymentCatalog_Record staff (o_id placed_order) sample_payment world_placed)"

lemma sample_reason: "trim_space ''mistake'' = ''mistake''" "pg_text ''mistake''"
  by code_simp+

lemma sample_moved:
  "\<exists>x. OrderCatalog_TransitionStatus staff (o_id placed_order) ''PROCESSING'' None world_placed = (Inr x, world_moved)
     \<and> ledger_step (data world_placed) (Moved placed_order ''PROCESSING'') (data world_moved)"
proof -
  have "allowedOrderTransition (o_status placed_order) ''PROCESSING''" "validStatusTarget ''PROCESSING''"
      "pg_text_opt None" "1 \<le> a_business_id staff" "1 \<le> a_user_id staff"
    by (simp_all add: placed_facts allowedOrderTransition_def validStatusTarget_def pg_text_opt_def sample_actor_def)
  moreover have "may_operate (data world_placed) staff placed_order"
      "audit_fits (data world_placed) staff (o_outlet_id placed_order)"
    using placed_may placed_audit_fits by blast+
  ultimately obtain x w' where
    "OrderCatalog_TransitionStatus staff (o_id placed_order) ''PROCESSING'' None world_placed = (Inr x, w')"
    "ledger_step (data world_placed) (Moved placed_order ''PROCESSING'') (data w')"
    using Transition_succeeds [OF world_placed_calm world_placed_ok _ placed_id] by blast
  then show ?thesis by (simp add: world_moved_def)
qed

lemma sample_cancelled:
  "\<exists>x. OrderCatalog_Cancel admin (o_id placed_order) ''mistake'' world_placed = (Inr x, world_cancelled)
     \<and> ledger_step (data world_placed) (Moved placed_order ''CANCELLED'') (data world_cancelled)"
proof -
  have "allowedOrderTransition (o_status placed_order) ''CANCELLED''" "o_payment_status placed_order = ''UNPAID''"
      "trim_space ''mistake'' \<noteq> []" "length (trim_space ''mistake'') \<le> 2000" "pg_text (trim_space ''mistake'')"
      "1 \<le> a_business_id admin" "1 \<le> a_user_id admin"
    by (simp_all add: placed_facts allowedOrderTransition_def sample_reason sample_actor_def)
  moreover have "may_operate (data world_placed) admin placed_order"
      "audit_fits (data world_placed) admin (o_outlet_id placed_order)"
    using placed_may placed_audit_fits by blast+
  ultimately obtain x w' where
    "OrderCatalog_Cancel admin (o_id placed_order) ''mistake'' world_placed = (Inr x, w')"
    "ledger_step (data world_placed) (Moved placed_order ''CANCELLED'') (data w')"
    using Cancel_succeeds [OF world_placed_calm world_placed_ok _ placed_id] by blast
  then show ?thesis by (simp add: world_cancelled_def)
qed

lemma placed_unpaid: "paid_on (data world_placed) placed_order = 0" "no_refunds (data world_placed) placed_order"
  by (simp_all add: paid_on_def confirmed_total_def no_refunds_def placed_facts)

lemma sample_paid:
  "\<exists>x p. PaymentCatalog_Record staff (o_id placed_order) sample_payment world_placed = (Inr x, world_paid)
     \<and> ledger_step (data world_placed) (Paid placed_order p) (data world_paid) \<and> p_amount p = 20000
     \<and> p_idempotency_key p = Some ''p1'' \<and> p_request_hash p = Some (ri_RequestHash sample_payment)
     \<and> faults world_paid = []"
proof -
  have "Record_guard staff (o_id placed_order) sample_payment = None"
    using placed_id by (simp add: Record_guard_def sample_payment_def sample_actor_def validPaymentMethod_def
        exceedsPaymentTextLimit_def)
  moreover have "payment_fits (data world_placed) placed_order sample_payment"
    by (simp add: payment_fits_def placed_facts sample_payment_def pg_text_def pg_text_opt_def rune_len_def blank_def)
  moreover have "is_int64 (ri_TenderedAmount sample_payment)" "ri_Method sample_payment = ''CASH''"
      "ri_TenderedAmount sample_payment = 20000" "ri_IdempotencyKey sample_payment = ''p1''"
    by (simp_all add: sample_payment_def is_int64_def)
  moreover have "may_operate (data world_placed) staff placed_order"
      "audit_fits (data world_placed) staff (o_outlet_id placed_order)"
    using placed_may placed_audit_fits by blast+
  moreover have "o_status placed_order \<noteq> ''CANCELLED''"
      "paid_on (data world_placed) placed_order < o_total_amount placed_order"
    by (simp_all add: placed_facts placed_unpaid)
  ultimately obtain x w' p where
    "PaymentCatalog_Record staff (o_id placed_order) sample_payment world_placed = (Inr x, w')" "faults w' = []"
    "ledger_step (data world_placed) (Paid placed_order p) (data w')"
    "p_amount p = min 20000 (o_total_amount placed_order - paid_on (data world_placed) placed_order)"
    "p_idempotency_key p = Some ''p1''" "p_request_hash p = Some (ri_RequestHash sample_payment)"
    using Record_succeeds [OF world_placed_calm world_placed_ok _ _ placed_unpaid(2)] by metis
  then show ?thesis by (auto simp: world_paid_def placed_facts placed_unpaid)
qed

lemma world_moved_reachable: "reachable world_moved"
  using sample_moved reachable.step [OF world_placed_reachable request.transition] by blast

lemma world_cancelled_reachable: "reachable world_cancelled"
  using sample_cancelled reachable.step [OF world_placed_reachable request.cancel] by blast

lemma world_paid_reachable: "reachable world_paid"
proof -
  have "is_int64 (ri_TenderedAmount sample_payment)" by (simp add: sample_payment_def is_int64_def)
  then show ?thesis using sample_paid reachable.step [OF world_placed_reachable request.pay] by blast
qed

definition cancelled_order :: order_row where
  "cancelled_order = hd (orders (data world_cancelled))"

definition paid_order :: order_row where
  "paid_order = hd (orders (data world_paid))"

definition paid_payment :: payment_row where
  "paid_payment = hd (payments (data world_paid))"

lemma cancelled_facts:
  "orders (data world_cancelled) = [cancelled_order]" "o_status cancelled_order = ''CANCELLED''"
proof -
  from sample_cancelled have st: "ledger_step (data world_placed) (Moved placed_order ''CANCELLED'') (data world_cancelled)"
    by blast
  from moved_order [OF st] obtain r' where
    "orders (data world_cancelled) = [r']" "o_status r' = ''CANCELLED''"
    by (auto simp: placed_facts(1) replace_row_def)
  then show "orders (data world_cancelled) = [cancelled_order]" "o_status cancelled_order = ''CANCELLED''"
    by (simp_all add: cancelled_order_def)
qed

lemma paid_facts:
  shows "orders (data world_paid) = [paid_order]" "payments (data world_paid) = [paid_payment]"
    "o_id paid_order = o_id placed_order" "o_business_id paid_order = 1" "o_outlet_id paid_order = 1"
    "o_status paid_order = ''RECEIVED''" "o_payment_status paid_order = ''PARTIALLY_PAID''"
    "o_total_amount paid_order = 32500" "p_amount paid_payment = 20000" "p_status paid_payment = ''CONFIRMED''"
    "payment_of paid_order paid_payment" "paid_on (data world_paid) paid_order = 20000"
    "o_idempotency_key paid_order = Some ''k1''"
    "outlets (data world_paid) = outlets sample_db" "users (data world_paid) = users sample_db"
    "user_outlets (data world_paid) = user_outlets sample_db"
    "businesses (data world_paid) = businesses sample_db" "payment_refunds (data world_paid) = []"
    "p_idempotency_key paid_payment = Some ''p1''" "p_request_hash paid_payment = Some (ri_RequestHash sample_payment)"
proof -
  from sample_paid obtain p where st: "ledger_step (data world_placed) (Paid placed_order p) (data world_paid)"
    and amt: "p_amount p = 20000" "p_idempotency_key p = Some ''p1''"
      "p_request_hash p = Some (ri_RequestHash sample_payment)" by blast
  from paid_order [OF st] obtain n where
    o: "orders (data world_paid) = [placed_order\<lparr>o_payment_status := ''PARTIALLY_PAID'', o_updated_at := n\<rparr>]"
    by (auto simp: placed_facts replace_row_def placed_unpaid amt paymentStatusFor_def)
  then have po: "paid_order = placed_order\<lparr>o_payment_status := ''PARTIALLY_PAID'', o_updated_at := n\<rparr>"
    by (simp add: paid_order_def)
  have pp: "payments (data world_paid) = [p]" using paid_effect(1) [OF st] by (simp add: placed_facts)
  then have q: "paid_payment = p" by (simp add: paid_payment_def)
  have po': "payment_of placed_order p" and c: "p_status p = ''CONFIRMED''" using paid_effect(2,3) [OF st] by blast+
  show "orders (data world_paid) = [paid_order]" "payments (data world_paid) = [paid_payment]"
    using o po pp q by simp_all
  show "o_id paid_order = o_id placed_order" "o_business_id paid_order = 1" "o_outlet_id paid_order = 1"
    "o_status paid_order = ''RECEIVED''" "o_payment_status paid_order = ''PARTIALLY_PAID''"
    "o_total_amount paid_order = 32500" "p_amount paid_payment = 20000" "p_status paid_payment = ''CONFIRMED''"
    "payment_of paid_order paid_payment" "o_idempotency_key paid_order = Some ''k1''"
    "p_idempotency_key paid_payment = Some ''p1''" "p_request_hash paid_payment = Some (ri_RequestHash sample_payment)"
    using amt po' c by (simp_all add: po q placed_facts)
  show "paid_on (data world_paid) paid_order = 20000"
    using amt po' c by (simp add: paid_on_def confirmed_total_def pp po)
  show "outlets (data world_paid) = outlets sample_db" "users (data world_paid) = users sample_db"
    "user_outlets (data world_paid) = user_outlets sample_db"
    "businesses (data world_paid) = businesses sample_db" "payment_refunds (data world_paid) = []"
    using step_master [OF st] by (simp_all add: placed_facts)
qed

lemma world_paid_calm: "faults world_paid = []"
  using sample_paid by blast

lemma paid_may: "a \<in> {admin, staff} \<Longrightarrow> may_operate (data world_paid) a paid_order"
  by (auto simp: may_operate_def assigned_def paid_facts sample_db_def sample_user_def sample_actor_def role_of_def)

lemma paid_audit_fits: "a \<in> {admin, staff} \<Longrightarrow> audit_fits (data world_paid) a (o_outlet_id paid_order)"
  using sample_audit_fits by (auto simp: audit_fits_def outlet_exists_def user_exists_def paid_facts sample_world_def)

lemma placed_no_outsider: "\<not> may_operate (data world_placed) outsider r"
  by (auto simp: may_operate_def assigned_def placed_facts sample_db_def sample_user_def sample_actor_def)

end
