(* ===== verification/Ledger_Properties.thy ===== *)
theory Ledger_Properties
  imports Sample
begin

text \<open>
  What holds of the ledger in every state the requests can reach, whatever the connection does:
  money, status, numbering, the audit trail, and what no request can do.
\<close>

section \<open>Facts the properties share\<close>

lemma reachable_order_ok:
  assumes "reachable w" and "r \<in> set (orders (data w))"
  shows "order_ok (data w) r" "refs_ok (data w)" "keys_ok (data w)"
  using reachable_ok [OF assms(1)] assms(2) by (auto simp: sys_ok_def ledger_ok_def)

lemma same_key_same_order:
  assumes "keys_ok d" and "r \<in> set (orders d)" "r' \<in> set (orders d)" and "same_outlet r r'"
    and "o_idempotency_key r = Some k" "o_idempotency_key r' = Some k"
  shows "r = r'"
  using assms by (auto simp: keys_ok_def order_clash_def)

lemma same_key_same_payment:
  assumes "keys_ok d" and "p \<in> set (payments d)" "p' \<in> set (payments d)" and "payment_of r p" "payment_of r p'"
    and "p_idempotency_key p = Some k" "p_idempotency_key p' = Some k"
  shows "p = p'"
  using assms by (auto simp: keys_ok_def payment_clash_def payment_of_order_def)

lemma placed_key_free:
  assumes "ledger_step d (Placed r xs) d'" and "x \<in> set (orders d)" and "same_outlet x r"
    and "o_idempotency_key r = Some k"
  shows "o_idempotency_key x \<noteq> Some k"
proof -
  from assms(1) have "insert_order_error d r = None" by (rule placedE)
  then have "\<not> order_key_taken d r" by (auto simp: insert_order_error_def split: if_splits)
  then show ?thesis using assms(2-4) by (auto simp: order_key_taken_def list_ex_iff)
qed

text \<open>What a request did to the database.\<close>

lemma request_steps:
  assumes ok: "sys_ok w" and req: "request w w'"
  shows "data w' = data w \<or> (\<exists>e. ledger_step (data w) e (data w')) \<or> ledger_untouched (data w) (data w')"
  using req
proof cases
  case (create a input cr)
  then show ?thesis using Create_ends [OF ok create] by (auto simp: places_def)
next
  case (transition a i s nts tr)
  then show ?thesis using Transition_ends [OF ok transition] by blast
next
  case (cancel a i reason xr)
  then show ?thesis using Cancel_ends [OF ok cancel] by blast
next
  case (pay ri a i rr)
  then show ?thesis using Record_ends [OF ok pay] by (fastforce simp: records_def)
next
  case (void a i j reason vr)
  then show ?thesis using Void_ends [OF ok void] by (fastforce simp: voids_def)
qed blast

lemma replace_row_in: "r \<in> set xs \<Longrightarrow> x \<in> set xs \<Longrightarrow> (if x = r then r' else x) \<in> set (replace_row r r' xs)"
  by (auto simp: replace_row_def)

lemma same_terms_refl [simp]: "same_terms r r"
  by (simp add: same_terms_def)

lemma same_terms_payment [simp]: "same_terms r (r\<lparr>o_payment_status := s, o_updated_at := n\<rparr>)"
  by (simp add: same_terms_def)

text \<open>An event leaves every order but its own as it is, and the terms of its own.\<close>

lemma step_order_kept:
  assumes "ledger_step d e d'" and x: "x \<in> set (orders d)"
  shows "\<exists>x' \<in> set (orders d'). same_terms x x'
    \<and> (o_status x' = o_status x \<or> allowedOrderTransition (o_status x) (o_status x'))"
  using assms(1)
proof cases
  case (placed r xs code day h a n)
  then show ?thesis using x by (intro bexI [of _ x]) simp_all
next
  case (moved r s r' h a)
  then show ?thesis using replace_row_in [OF moved(3) x, of r'] by (intro bexI) auto
next
  case (paid r p r' n a)
  then show ?thesis using replace_row_in [OF paid(3) x, of r'] by (intro bexI) auto
next
  case (voided r p q n u reason r' a)
  then show ?thesis using replace_row_in [OF voided(3) x, of r'] by (intro bexI) auto
qed

section \<open>Money\<close>

text \<open>C1: In every reachable state the total of an order is the sum of its items, the confirmed
  payments of an order never exceed its total and never go below zero, and the stored payment status
  is exactly the one that follows from the two amounts.\<close>

theorem reachable_money:
  assumes "reachable w" and "r \<in> set (orders (data w))"
  shows "0 \<le> paid_on (data w) r \<and> paid_on (data w) r \<le> o_total_amount r \<and> is_int64 (o_total_amount r)
    \<and> o_total_amount r = items_total (data w) r
    \<and> o_payment_status r = paymentStatusFor (o_total_amount r) (paid_on (data w) r)"
  using reachable_order_ok [OF assms] paid_on_nonneg by (auto simp: order_ok_def order_sound_def)

theorem reachable_money_witness:
  "paid_on (data world_paid) paid_order = 20000 \<and> items_total (data world_paid) paid_order = 32500
    \<and> o_payment_status paid_order = ''PARTIALLY_PAID''"
  using reachable_money [OF world_paid_reachable, of paid_order] paid_facts by simp

text \<open>C2: The status history of an order is a walk through the allowed transitions that starts
  at RECEIVED and ends at its current status, and no money lies on a cancelled order.\<close>

theorem reachable_trail:
  assumes "reachable w" and "r \<in> set (orders (data w))"
  shows "trail_ok None (history_trail (data w) r) (Some (o_status r))
    \<and> (o_status r = ''CANCELLED'' \<longrightarrow> paid_on (data w) r = 0 \<and> o_payment_status r = ''UNPAID'')"
  using reachable_order_ok [OF assms] by (auto simp: order_ok_def order_sound_def paymentStatusFor_def)

theorem reachable_trail_witness:
  "trail_ok None (history_trail (data world_cancelled) cancelled_order) (Some ''CANCELLED'')
    \<and> paid_on (data world_cancelled) cancelled_order = 0"
  using reachable_trail [OF world_cancelled_reachable, of cancelled_order] cancelled_facts by simp

text \<open>No two orders of an outlet carry the same invoice number or the same idempotency key,
  and no two payments of an order the same idempotency key.\<close>

lemma reachable_unique:
  assumes "reachable w"
  shows "(\<forall>r \<in> set (orders (data w)). \<forall>r' \<in> set (orders (data w)). same_outlet r r' \<and>
      (o_invoice_number r = o_invoice_number r'
       \<or> o_idempotency_key r \<noteq> None \<and> o_idempotency_key r = o_idempotency_key r') \<longrightarrow> r = r')
    \<and> (\<forall>p \<in> set (payments (data w)). \<forall>p' \<in> set (payments (data w)).
      payment_of_order (p_business_id p) (p_outlet_id p) (p_order_id p) p'
       \<and> p_idempotency_key p \<noteq> None \<and> p_idempotency_key p = p_idempotency_key p' \<longrightarrow> p = p')"
proof -
  have "keys_ok (data w)" using reachable_ok [OF assms] by (simp add: sys_ok_def ledger_ok_def)
  then show ?thesis unfolding keys_ok_def order_clash_def payment_clash_def by (elim conjE) (rule conjI)
qed

section \<open>What no request can do\<close>

text \<open>C5: No request deletes an order or changes its terms (customer, amount, invoice, key, items'
  total, snapshots); its status stays or moves along one allowed transition.\<close>

theorem request_keeps_terms:
  assumes "reachable w" and "request w w'" and "r \<in> set (orders (data w))"
  shows "\<exists>r' \<in> set (orders (data w')). same_terms r r'
    \<and> (o_status r' = o_status r \<or> allowedOrderTransition (o_status r) (o_status r'))"
proof -
  consider "data w' = data w" | e where "ledger_step (data w) e (data w')" | "ledger_untouched (data w) (data w')"
    using request_steps [OF reachable_ok [OF assms(1)] assms(2)] by blast
  then show ?thesis
  proof cases
    case 2
    then show ?thesis using step_order_kept assms(3) by blast
  qed (use assms(3) in \<open>auto simp: ledger_untouched_def intro: bexI [of _ r]\<close>)
qed

theorem request_keeps_terms_witness:
  "\<exists>r' \<in> set (orders (data world_cancelled)). same_terms placed_order r'"
proof -
  have "request world_placed world_cancelled" using sample_cancelled request.cancel by blast
  then show ?thesis
    using request_keeps_terms [OF world_placed_reachable, of world_cancelled placed_order] placed_facts(1) by auto
qed

text \<open>A completed or cancelled order keeps its status through any sequence of requests.\<close>

lemma final_status_stays:
  assumes "rtranclp request w w'" and "reachable w" and "r \<in> set (orders (data w))"
    and "o_status r = ''COMPLETED'' \<or> o_status r = ''CANCELLED''"
  shows "\<exists>r' \<in> set (orders (data w')). o_id r' = o_id r \<and> o_status r' = o_status r"
  using assms
proof (induction rule: rtranclp_induct)
  case base
  then show ?case by blast
next
  case (step u v)
  then obtain x where x: "x \<in> set (orders (data u))" "o_id x = o_id r" "o_status x = o_status r" by blast
  have "reachable u" using step(1) step.prems(1) by (induction rule: rtranclp_induct) (auto intro: reachable.step)
  then have "sys_ok u" by (rule reachable_ok)
  from request_steps [OF this step(2)]
  consider "orders (data v) = orders (data u)" | e where "ledger_step (data u) e (data v)"
    by (auto simp: ledger_untouched_def)
  then show ?case
  proof cases
    case 1
    then show ?thesis using x by auto
  next
    case 2
    from step_order_kept [OF this x(1)] obtain x' where x': "x' \<in> set (orders (data v))" "same_terms x x'"
      "o_status x' = o_status x \<or> allowedOrderTransition (o_status x) (o_status x')" by blast
    moreover have "\<not> allowedOrderTransition (o_status x) (o_status x')"
      using step.prems(3) x(3) by (auto simp: allowedOrderTransition_def)
    ultimately show ?thesis using x same_termsD(1) [OF x'(2)] by (intro bexI [of _ x']) auto
  qed
qed

text \<open>C6: The audit log only grows, and a request that changes an order or a payment performed one
  event of the ledger and left exactly one audit row that names the event, its entity and its tenant.\<close>

theorem request_audited:
  assumes "reachable w" and "request w w'"
  shows "\<exists>rows. audit_logs (data w') = audit_logs (data w) @ rows
    \<and> (orders (data w') \<noteq> orders (data w) \<or> payments (data w') \<noteq> payments (data w) \<longrightarrow>
        (\<exists>e a. ledger_step (data w) e (data w') \<and> rows = [a] \<and> audits e a))"
proof -
  consider "data w' = data w" | e where "ledger_step (data w) e (data w')" | "ledger_untouched (data w) (data w')"
    using request_steps [OF reachable_ok [OF assms(1)] assms(2)] by blast
  then show ?thesis
  proof cases
    case 2
    from step_audit [OF 2] obtain a where "audit_logs (data w') = audit_logs (data w) @ [a]" "audits e a" by blast
    with 2 show ?thesis by blast
  qed (auto simp: ledger_untouched_def)
qed

theorem request_audited_witness:
  "\<exists>a. audit_logs (data world_paid) = audit_logs (data world_placed) @ [a]"
proof -
  have "is_int64 (ri_TenderedAmount sample_payment)" by (simp add: sample_payment_def is_int64_def)
  then have "request world_placed world_paid" using sample_paid request.pay by blast
  moreover have "payments (data world_paid) \<noteq> payments (data world_placed)"
    using paid_facts(2) placed_facts(2) by simp
  ultimately show ?thesis using request_audited [OF world_placed_reachable, of world_paid] by blast
qed

section \<open>Tenants and standing\<close>

text \<open>The requests of an actor, whatever their input and however they end.\<close>

definition request_of :: "actor \<Rightarrow> world \<Rightarrow> world \<Rightarrow> bool" where
  "request_of a w w' \<longleftrightarrow>
     (\<exists>input res. OrderCatalog_Create a input w = (res, w')) \<or>
     (\<exists>i s nts res. OrderCatalog_TransitionStatus a i s nts w = (res, w')) \<or>
     (\<exists>i reason res. OrderCatalog_Cancel a i reason w = (res, w')) \<or>
     (\<exists>i input res. is_int64 (ri_TenderedAmount input) \<and> PaymentCatalog_Record a i input w = (res, w')) \<or>
     (\<exists>i j reason res. PaymentCatalog_Void a i j reason w = (res, w'))"

fun event_order :: "ledger_event \<Rightarrow> order_row" where
  "event_order (Placed r xs) = r"
| "event_order (Moved r s) = r"
| "event_order (Paid r p) = r"
| "event_order (Voided r p) = r"

text \<open>The rows of the tenants other than b are the same, in the same order.\<close>

definition other_tenants_kept :: "i64 \<Rightarrow> db \<Rightarrow> db \<Rightarrow> bool" where
  "other_tenants_kept b d d' \<longleftrightarrow>
     filter (\<lambda>r. o_business_id r \<noteq> b) (orders d') = filter (\<lambda>r. o_business_id r \<noteq> b) (orders d) \<and>
     filter (\<lambda>x. it_business_id x \<noteq> b) (order_items d') = filter (\<lambda>x. it_business_id x \<noteq> b) (order_items d) \<and>
     filter (\<lambda>h. h_business_id h \<noteq> b) (order_status_history d') =
       filter (\<lambda>h. h_business_id h \<noteq> b) (order_status_history d) \<and>
     filter (\<lambda>c. ic_business_id c \<noteq> b) (invoice_counters d') = filter (\<lambda>c. ic_business_id c \<noteq> b) (invoice_counters d) \<and>
     filter (\<lambda>p. p_business_id p \<noteq> b) (payments d') = filter (\<lambda>p. p_business_id p \<noteq> b) (payments d) \<and>
     filter (\<lambda>a. au_business_id a \<noteq> b) (audit_logs d') = filter (\<lambda>a. au_business_id a \<noteq> b) (audit_logs d)"

lemma filter_other_row: "\<not> P r \<Longrightarrow> \<not> P r' \<Longrightarrow> filter P (replace_row r r' xs) = filter P xs"
  by (induction xs) (auto simp: replace_row_def)

lemma filter_bump:
  "filter (\<lambda>c. ic_business_id c \<noteq> b) (bump_counter b l day t cs) = filter (\<lambda>c. ic_business_id c \<noteq> b) cs"
proof -
  have "filter (\<lambda>c. ic_business_id c \<noteq> b)
      (map (\<lambda>r. if counter_is b l day r then r\<lparr>ic_next_number := n, ic_updated_at := t\<rparr> else r) cs)
    = filter (\<lambda>c. ic_business_id c \<noteq> b) cs" for n
    by (induction cs) (auto simp: counter_is_def)
  then show ?thesis by (simp add: bump_counter_def split: option.splits)
qed

lemma step_tenant:
  assumes "ledger_step d e d'" and "o_business_id (event_order e) = b"
  shows "other_tenants_kept b d d'"
  using assms
proof cases
  case (placed r xs code day h a n)
  have "filter (\<lambda>x. it_business_id x \<noteq> b) xs = []"
    using placed(9) assms(2) placed(1) by (auto simp: filter_empty_conv list_all_iff item_of_def)
  then show ?thesis
    using placed assms(2) filter_bump by (simp add: other_tenants_kept_def history_of_def)
next
  case (moved r s r' h a)
  then show ?thesis using assms(2) same_termsD(2) [OF moved(6)]
    by (simp add: other_tenants_kept_def filter_other_row history_of_def)
next
  case (paid r p r' n a)
  then show ?thesis using assms(2)
    by (simp add: other_tenants_kept_def filter_other_row payment_of_order_def)
next
  case (voided r p q n u reason r' a)
  then show ?thesis using assms(2)
    by (simp add: other_tenants_kept_def filter_other_row payment_of_order_def)
qed

text \<open>What an actor may do now.\<close>

fun permitted :: "db \<Rightarrow> actor \<Rightarrow> ledger_event \<Rightarrow> bool" where
  "permitted d a (Placed r xs) \<longleftrightarrow> o_business_id r = a_business_id a
     \<and> (\<exists>x. may_create d a x \<and> out_id x = o_outlet_id r)"
| "permitted d a (Moved r s) \<longleftrightarrow> may_operate d a r"
| "permitted d a (Paid r p) \<longleftrightarrow> may_operate d a r"
| "permitted d a (Voided r p) \<longleftrightarrow> may_operate d a r"

lemma permitted_tenant: "permitted d a e \<Longrightarrow> o_business_id (event_order e) = a_business_id a"
  by (cases e) (auto simp: may_operate_def)

text \<open>A request of an actor changes nothing or performs one event the actor may perform now.\<close>

lemma request_of_step:
  assumes ok: "sys_ok w" and req: "request_of a w w'"
  shows "data w' = data w \<or> (\<exists>e. ledger_step (data w) e (data w') \<and> permitted (data w) a e)"
  using req unfolding request_of_def
proof (elim disjE exE conjE)
  fix input res assume "OrderCatalog_Create a input w = (res, w')"
  from Create_ends [OF ok this] consider "data w' = data w"
    | x r xs outlet where "places (data w) a input x r xs (data w')" "may_create (data w) a outlet"
      "out_id outlet = ci_OutletID input" by blast
  then show ?thesis
  proof cases
    case 2
    then have "ledger_step (data w) (Placed r xs) (data w')" "permitted (data w) a (Placed r xs)"
      by (auto simp: places_def)
    then show ?thesis by blast
  qed blast
next
  fix i s nts res assume "OrderCatalog_TransitionStatus a i s nts w = (res, w')"
  from Transition_ends [OF ok this] show ?thesis using permitted.simps(2) by blast
next
  fix i reason res assume "OrderCatalog_Cancel a i reason w = (res, w')"
  from Cancel_ends [OF ok this] show ?thesis using permitted.simps(2) by blast
next
  fix i input res assume "is_int64 (ri_TenderedAmount input)" "PaymentCatalog_Record a i input w = (res, w')"
  from Record_ends [OF ok this] show ?thesis using permitted.simps(3) unfolding records_def by blast
next
  fix i j reason res assume "PaymentCatalog_Void a i j reason w = (res, w')"
  from Void_ends [OF ok this] show ?thesis using permitted.simps(4) unfolding voids_def by blast
qed

text \<open>C7: A request of an actor of one tenant leaves every row of every other tenant as it was:
  orders, items, history, invoice counters, payments and audit rows.\<close>

theorem request_stays_in_tenant:
  assumes "reachable w" and "request_of a w w'"
  shows "other_tenants_kept (a_business_id a) (data w) (data w')"
proof -
  from request_of_step [OF reachable_ok [OF assms(1)] assms(2)] show ?thesis
    using step_tenant permitted_tenant by (auto simp: other_tenants_kept_def)
qed

theorem request_stays_in_tenant_witness:
  "other_tenants_kept 1 (data world_placed) (data world_paid)"
proof -
  have "is_int64 (ri_TenderedAmount sample_payment)" by (simp add: sample_payment_def is_int64_def)
  then have "request_of staff world_placed world_paid" using sample_paid unfolding request_of_def by blast
  from request_stays_in_tenant [OF world_placed_reachable this] show ?thesis by (simp add: sample_actor_def)
qed

text \<open>C8: An actor without a current standing on an order (the account active and still in its role,
  the outlet active and of the actor's tenant, staff still assigned to it) gets no result from the status,
  cancellation, payment and void operations on it and changes nothing.\<close>

theorem no_standing_no_effect:
  assumes "reachable w" and "\<forall>r. o_id r = i \<longrightarrow> \<not> may_operate (data w) a r"
    and "OrderCatalog_TransitionStatus a i s nts w = (tr, w1)" and "OrderCatalog_Cancel a i reason w = (cr, w2)"
    and "PaymentCatalog_Record a i input w = (pr, w3)" and "is_int64 (ri_TenderedAmount input)"
    and "PaymentCatalog_Void a i j reason w = (vr, w4)"
  shows "data w1 = data w \<and> (\<forall>x. tr \<noteq> Inr x) \<and> data w2 = data w \<and> (\<forall>x. cr \<noteq> Inr x)
    \<and> data w3 = data w \<and> (\<forall>x. pr \<noteq> Inr x) \<and> data w4 = data w \<and> (\<forall>x. vr \<noteq> Inr x)"
proof -
  note ok = reachable_ok [OF assms(1)]
  have "data w1 = data w \<and> (\<forall>x. tr \<noteq> Inr x)" using Transition_ends [OF ok assms(3)] assms(2) by blast
  moreover have "data w2 = data w \<and> (\<forall>x. cr \<noteq> Inr x)" using Cancel_ends [OF ok assms(4)] assms(2) by blast
  moreover have "data w3 = data w \<and> (\<forall>x. pr \<noteq> Inr x)"
    using Record_ends [OF ok assms(6,5)] assms(2) unfolding records_def by blast
  moreover have "data w4 = data w \<and> (\<forall>x. vr \<noteq> Inr x)"
    using Void_ends [OF ok assms(7)] assms(2) unfolding voids_def by blast
  ultimately show ?thesis by blast
qed

theorem no_standing_no_effect_witness:
  "data (snd (OrderCatalog_Cancel outsider (o_id placed_order) ''mistake'' world_placed)) = data world_placed"
proof -
  have "is_int64 (ri_TenderedAmount sample_payment)" by (simp add: sample_payment_def is_int64_def)
  then show ?thesis
    using no_standing_no_effect [OF world_placed_reachable, of "o_id placed_order" outsider
        "''PROCESSING''" None _ _ "''mistake''" _ _ sample_payment _ _ 1] placed_no_outsider
    by (metis prod.collapse)
qed

end
