(* ===== verification/Order_Properties.thy ===== *)
theory Order_Properties
  imports Ledger_Properties
begin

text \<open>
  The operations of the order catalog: what a creation leaves behind, its idempotence and its retry
  after a lost reply, the moves of an order and its cancellation, quantities and invoice numbers.
\<close>

section \<open>Creation\<close>

text \<open>C11: A creation either changes nothing (and then returns an error, or the order stored
  earlier under the same key with the same request hash), or it stores one new order with its priced
  lines, history row, number and audit row, at an outlet the actor may create at; the only error it may
  then return is the lost reply of the commit.\<close>

theorem create_outcome:
  assumes "reachable w" and "OrderCatalog_Create a input w = (res, w')"
  shows "data w' = data w \<and> (\<forall>x. res = Inr x \<longrightarrow> (\<exists>r. replays (data w) a input x r)) \<or>
    (\<exists>x r xs. places (data w) a input x r xs (data w') \<and> (res = Inr x \<or> res = Inl (Sql ConnErr))
       \<and> (\<exists>outlet. may_create (data w) a outlet \<and> out_id outlet = ci_OutletID input))"
  using Create_ends [OF reachable_ok [OF assms(1)] assms(2)] .

theorem create_outcome_witness:
  "\<exists>x r xs. places (data sample_world) admin sample_order x r xs (data world_placed)"
proof -
  obtain res where run: "OrderCatalog_Create admin sample_order sample_world = (Inr res, world_placed)"
    using sample_created by blast
  have "data world_placed \<noteq> data sample_world"
    using placed_facts(1) by (auto simp: sample_world_def sample_db_def)
  then show ?thesis using create_outcome [OF sample_reachable run] by blast
qed

text \<open>C10: Once an order exists under an idempotency key of an outlet, a creation with that key
  changes nothing, and any result it returns is that order, marked as replayed, and only when the request
  hash is the one stored with it.\<close>

theorem create_once:
  assumes "reachable w" and "r \<in> set (orders (data w))"
    and "o_business_id r = a_business_id a" "o_outlet_id r = ci_OutletID input"
    and "o_idempotency_key r = Some (ci_IdempotencyKey input)"
    and "OrderCatalog_Create a input w = (res, w')"
  shows "data w' = data w \<and> (\<forall>x. res = Inr x \<longrightarrow> ocr_Replayed x \<and> od_ID (ocr_Order x) = o_id r
    \<and> o_request_hash r = Some (ci_RequestHash input))"
proof -
  have keys: "keys_ok (data w)" using reachable_order_ok [OF assms(1,2)] by simp
  have same: "r' = r" if "replays (data w) a input x r'" for x r'
  proof (rule same_key_same_order [OF keys])
    show "r' \<in> set (orders (data w))" "same_outlet r' r" "o_idempotency_key r' = Some (ci_IdempotencyKey input)"
      using that assms(3,4) by (simp_all add: replays_def same_outlet_def)
  qed (use assms in simp_all)
  have no: "\<not> places (data w) a input x r' xs (data w')" for x r' xs
  proof
    assume "places (data w) a input x r' xs (data w')"
    then have "ledger_step (data w) (Placed r' xs) (data w')" "same_outlet r r'"
      "o_idempotency_key r' = Some (ci_IdempotencyKey input)"
      using assms(3,4) by (simp_all add: places_def same_outlet_def)
    from placed_key_free [OF this(1) assms(2) this(2,3)] show False using assms(5) by simp
  qed
  have "od_ID (ocr_Order x) = o_id r' \<and> ocr_Replayed x \<and> o_request_hash r' = Some (ci_RequestHash input)"
    if "replays (data w) a input x r'" for x r'
    using that by (auto simp: replays_def order_from_def)
  with Create_ends [OF reachable_ok [OF assms(1)] assms(6)] no same show ?thesis by blast
qed

theorem create_once_witness:
  "data (snd (OrderCatalog_Create admin sample_order world_placed)) = data world_placed"
proof -
  obtain res w' where run: "OrderCatalog_Create admin sample_order world_placed = (res, w')" by fastforce
  have "o_business_id placed_order = a_business_id admin" "o_outlet_id placed_order = ci_OutletID sample_order"
    "o_idempotency_key placed_order = Some (ci_IdempotencyKey sample_order)"
    by (simp_all add: placed_facts sample_actor_def sample_order_def)
  then show ?thesis
    using create_once [OF world_placed_reachable _ _ _ _ run, of placed_order] placed_facts(1) run by simp
qed

lemma key_lookup_calm:
  assumes calm: "faults w = []" and ok: "sys_ok w" and r: "r \<in> set (orders (data w))"
    and x: "x \<in> set (outlets (data w))" "out_business_id x = o_business_id r" "out_id x = o_outlet_id r"
    and key: "o_idempotency_key r = Some k" "pg_text k"
  shows "\<exists>tz. GetOrderByIdempotencyKey (o_business_id r) (o_outlet_id r) k w = (Inr (r, tz), w)"
proof -
  let ?P = "\<lambda>r' x. out_business_id x = o_business_id r' \<and> out_id x = o_outlet_id r' \<and>
        o_business_id r' = o_business_id r \<and> o_outlet_id r' = o_outlet_id r \<and> o_idempotency_key r' = Some k"
  let ?l = "[(r', out_timezone x). r' \<leftarrow> orders (data w), x \<leftarrow> outlets (data w), ?P r' x]"
  have "(r, out_timezone x) \<in> set ?l"
    by (rule in_join [OF r x(1)]) (use x key in simp)
  then obtain y ys where l: "?l = y # ys" by (cases ?l) auto
  have run: "GetOrderByIdempotencyKey (o_business_id r) (o_outlet_id r) k w = (Inr y, w)"
    using calm key(2) l by (simp add: GetOrderByIdempotencyKey_def one_select_calm)
  obtain r' tz where y: "y = (r', tz)" by (cases y)
  from order_lookup_Inr [OF run [unfolded y]] have "r' = r"
    using same_key_same_order [of "data w" r' r k] r key(1) ok
    by (simp add: sys_ok_def ledger_ok_def same_outlet_def)
  with run y show ?thesis by blast
qed

text \<open>A retry succeeds. When the first answer was lost, or the client simply sends the same
  request again, a creation with the key and the hash of a stored order returns that order, provided the
  outlet is still active, the actor may still create there and the connection is calm.\<close>

lemma create_retry_returns:
  assumes "reachable w" and "faults w = []" and "r \<in> set (orders (data w))"
    and "o_business_id r = a_business_id a" "o_outlet_id r = ci_OutletID input"
    and "o_idempotency_key r = Some (ci_IdempotencyKey input)" "o_request_hash r = Some (ci_RequestHash input)"
    and "Create_guard a input = None" "pg_text (ci_IdempotencyKey input)"
    and "may_create (data w) a outlet" "out_id outlet = ci_OutletID input"
  shows "\<exists>x w'. OrderCatalog_Create a input w = (Inr x, w') \<and> ocr_Replayed x
    \<and> od_ID (ocr_Order x) = o_id r \<and> data w' = data w"
proof -
  note ok = reachable_ok [OF assms(1)]
  obtain y where y: "Create_outlet a input w = (Inr y, w)"
    using outlet_open [OF assms(2,8,9,10,11)] by blast
  have o: "outlet \<in> set (outlets (data w))" "out_business_id outlet = o_business_id r" "out_id outlet = o_outlet_id r"
    using assms(4,5,10,11) by (simp_all add: may_create_def)
  obtain tz where look: "GetOrderByIdempotencyKey (a_business_id a) (ci_OutletID input) (ci_IdempotencyKey input) w
      = (Inr (r, tz), w)"
    using key_lookup_calm [OF assms(2) ok assms(3) o assms(6,9)] assms(4,5) by auto
  obtain od where od: "loadOrder r tz w = (Inr od, w)" using list_items_calm [OF assms(2)] by blast
  have "Create_body a input w = (Inr \<lparr>ocr_Order = od, ocr_Replayed = True\<rparr>, w)"
    using y look od assms(7)
    by (simp add: Create_body_def Create_replay_def tbind_def attempt_def ret_def)
  then have run: "OrderCatalog_Create a input w = (Inr \<lparr>ocr_Order = od, ocr_Replayed = True\<rparr>, w)"
    using assms(2,8) in_tx_calm [where w = w] by (simp add: OrderCatalog_Create_def)
  have "od_ID od = o_id r" using loadOrder_Inr [OF od] by (simp add: order_from_def)
  with run show ?thesis by simp
qed

text \<open>C13: A well-formed order is stored: of an actor who may create at the outlet, for items that can be sold and whose amounts
  sum to a 64-bit integer, with a due time that is not past and that json.Marshal can write, with master data as the
  server accepts it. The creation returns the order it placed; its lines have the amounts the items are sold for, and its
  total is their sum.\<close>

theorem create_returns:
  assumes "reachable w" and "faults w = []" and "order_fits w a input" and "master_ok (data w)"
    and "list_all2 (sells (data w) (a_business_id a)) (ci_Items input) sold"
    and "sum_list (map sale_amount sold) < 2 ^ 63"
    and "audit_fits (data w) a (ci_OutletID input)"
  shows "\<exists>x w' r xs. OrderCatalog_Create a input w = (Inr x, w') \<and> places (data w) a input x r xs (data w')
    \<and> orders (data w') = orders (data w) @ [r] \<and> order_items (data w') = order_items (data w) @ xs
    \<and> map it_line_total_amount xs = map sale_amount sold \<and> o_total_amount r = sum_list (map sale_amount sold)"
proof -
  obtain lines where "price_lines a 0 (ci_Items input) w = (Inr (lines, sum_list (map sale_amount sold)), w)"
    using price_lines_sells [OF assms(2,5,4), of 0] assms(6) by auto
  then obtain x w' r xs where run: "OrderCatalog_Create a input w = (Inr x, w')" and pl: "places (data w) a input x r xs (data w')"
    using Create_succeeds [OF assms(2) reachable_ok [OF assms(1)] assms(3,4) _ assms(7)] by blast
  then have st: "ledger_step (data w) (Placed r xs) (data w')" by (simp add: places_def)
  have am: "map it_line_total_amount xs = map sale_amount sold" by (rule placed_amounts [OF pl assms(5,4)])
  moreover have "o_total_amount r = sum_list (map it_line_total_amount xs)"
    using st by (auto elim: ledger_step.cases)
  ultimately show ?thesis using placed_effect(1,2) [OF st] run pl by auto
qed

definition sample_sales :: "sale list" where
  "sample_sales = [(sample_service 1 ''Wash'' ''kg'' 7000, ''2'', ''5''), (sample_service 2 ''Iron'' ''pcs'' 5000, ''3'', [])]"

theorem create_returns_witness:
  "\<exists>x w' r xs. OrderCatalog_Create admin sample_order sample_world = (Inr x, w')
    \<and> places (data sample_world) admin sample_order x r xs (data w')
    \<and> orders (data w') = orders (data sample_world) @ [r]
    \<and> order_items (data w') = order_items (data sample_world) @ xs
    \<and> map it_line_total_amount xs = [17500, 15000] \<and> o_total_amount r = 32500"
proof -
  have "list_all2 (sells (data sample_world) (a_business_id admin)) (ci_Items sample_order) sample_sales" by code_simp
  moreover have amounts: "map sale_amount sample_sales = [17500, 15000]" by code_simp
  moreover have "audit_fits (data sample_world) admin (ci_OutletID sample_order)"
    using sample_audit_fits by (simp add: sample_order_def)
  ultimately show ?thesis
    using create_returns [OF sample_reachable sample_calm sample_order_fits sample_master, of sample_sales] by simp
qed

text \<open>An order whose due time json.Marshal cannot write is not stored: the audit values are marshalled inside the
  transaction, after the writes, and the error rolls them back. The parser of the handler lets such times through: an offset
  of 24 hours, or of 23 hours and 60 minutes, is read but cannot be written.\<close>

lemma unwritable_due_refused:
  assumes "reachable w" and "OrderCatalog_Create a input w = (res, w')" and "\<not> due_encodes input"
  shows "data w' = data w \<and> (\<forall>x. res = Inr x \<longrightarrow> ocr_Replayed x)"
  using Create_ends [OF reachable_ok [OF assms(1)] assms(2)] assms(3) by (auto simp: places_def replays_def)

section \<open>The life of an order\<close>

text \<open>A status request changes nothing and returns an error, or moves exactly the order it
  names to the requested status along an allowed transition, for an actor with standing on it; the only
  error it may then return is the lost reply of the commit.\<close>

lemma transition_outcome:
  assumes "reachable w" and "OrderCatalog_TransitionStatus a i s nts w = (res, w')"
  shows "data w' = data w \<and> (\<forall>x. res \<noteq> Inr x) \<or>
    (\<exists>x. validStatusTarget s \<and> (\<exists>r. may_operate (data w) a r \<and> o_id r = i
          \<and> ledger_step (data w) (Moved r s) (data w')
          \<and> olr_OrderID x = i \<and> olr_Status x = s \<and> olr_PaymentStatus x = o_payment_status r)
       \<and> (res = Inr x \<or> res = Inl (Sql ConnErr)))"
  using Transition_ends [OF reachable_ok [OF assms(1)] assms(2)] .

text \<open>A status request along an allowed transition succeeds for an actor with standing on the
  order when the connection is calm and the texts are ones the server accepts.\<close>

lemma transition_returns:
  assumes "reachable w" and "faults w = []" and "may_operate (data w) a r"
    and "1 \<le> a_business_id a" "1 \<le> a_user_id a"
    and "allowedOrderTransition (o_status r) s" "validStatusTarget s" "pg_text_opt nts"
    and "audit_fits (data w) a (o_outlet_id r)"
  shows "\<exists>x w'. OrderCatalog_TransitionStatus a (o_id r) s nts w = (Inr x, w')
    \<and> ledger_step (data w) (Moved r s) (data w') \<and> olr_Status x = s"
proof -
  note ok = reachable_ok [OF assms(1)]
  have "1 \<le> o_id r"
    using orders_tbl.fresh_pos(1) [OF sys_ok_parts(1) [OF ok]] assms(3) by (simp add: may_operate_def)
  from Transition_succeeds [OF assms(2) ok assms(3) this assms(4-9)] show ?thesis by blast
qed

text \<open>A cancellation changes nothing and returns an error, or cancels exactly the unpaid
  order it names with the trimmed reason and the time of the transaction; the only error it may then
  return is the lost reply of the commit.\<close>

lemma cancel_outcome:
  assumes "reachable w" and "OrderCatalog_Cancel a i reason w = (res, w')"
  shows "data w' = data w \<and> (\<forall>x. res \<noteq> Inr x) \<or>
    (\<exists>x. (\<exists>r. may_operate (data w) a r \<and> o_id r = i \<and> o_payment_status r = ''UNPAID'' \<and> paid_on (data w) r = 0
          \<and> ledger_step (data w) (Moved r ''CANCELLED'') (data w')
          \<and> olr_OrderID x = i \<and> olr_Status x = ''CANCELLED'' \<and> olr_PaymentStatus x = ''UNPAID''
          \<and> olr_CancellationReason x = Some (trim_space reason) \<and> olr_CancelledAt x = Some (now w))
       \<and> (res = Inr x \<or> res = Inl (Sql ConnErr)))"
proof -
  have "o_payment_status r = ''UNPAID'' \<and> paid_on (data w) r = 0"
    if st: "ledger_step (data w) (Moved r ''CANCELLED'') (data w')" for r
  proof -
    have "o_payment_status r = ''UNPAID''" "order_ok (data w) r"
      using moved_effect(2,4) [OF st] reachable_order_ok(1) [OF assms(1)] by blast+
    moreover from this(2) have "o_payment_status r = paymentStatusFor (o_total_amount r) (paid_on (data w) r)"
      by (simp add: order_ok_def order_sound_def)
    ultimately show ?thesis using paymentStatusFor_unpaid by metis
  qed
  with Cancel_ends [OF reachable_ok [OF assms(1)] assms(2)] show ?thesis by blast
qed

text \<open>An unpaid order that is not final can be cancelled by an actor with standing on it
  when the connection is calm; the reason is what remains after trimming.\<close>

lemma cancel_returns:
  assumes "reachable w" and "faults w = []" and "may_operate (data w) a r"
    and "1 \<le> a_business_id a" "1 \<le> a_user_id a"
    and "o_status r \<noteq> ''COMPLETED''" "o_status r \<noteq> ''CANCELLED''" "paid_on (data w) r = 0"
    and "trim_space reason \<noteq> []" "length (trim_space reason) \<le> 2000" "pg_text (trim_space reason)"
    and "audit_fits (data w) a (o_outlet_id r)"
  shows "\<exists>x w'. OrderCatalog_Cancel a (o_id r) reason w = (Inr x, w')
    \<and> ledger_step (data w) (Moved r ''CANCELLED'') (data w') \<and> olr_Status x = ''CANCELLED''"
proof -
  note ok = reachable_ok [OF assms(1)]
  have r: "r \<in> set (orders (data w))" using assms(3) by (simp add: may_operate_def)
  have id: "1 \<le> o_id r" using orders_tbl.fresh_pos(1) [OF sys_ok_parts(1) [OF ok] r] .
  have s: "order_check r" "o_payment_status r = ''UNPAID''"
    using reachable_order_ok(1) [OF assms(1) r] assms(8)
    by (simp_all add: order_ok_def order_sound_def paymentStatusFor_unpaid)
  then have "allowedOrderTransition (o_status r) ''CANCELLED''"
    using assms(6,7) by (auto simp: order_check_def order_statuses_def allowedOrderTransition_def)
  from Cancel_succeeds [OF assms(2) ok assms(3) id assms(4,5) this s(2) assms(9-12)] show ?thesis by blast
qed

text \<open>The transitions the service allows are exactly those the database accepts in the
  status history: neither check refuses what the other allows.\<close>

lemma transitions_agree:
  "history_check (h\<lparr>h_from_status := Some f, h_to_status := s\<rparr>) = allowedOrderTransition f s
    \<and> (validStatusTarget s \<or> s = ''CANCELLED'' \<longleftrightarrow> (\<exists>f. allowedOrderTransition f s))"
proof
  show "history_check (h\<lparr>h_from_status := Some f, h_to_status := s\<rparr>) = allowedOrderTransition f s"
    by (simp add: history_check_def allowedOrderTransition_def)
  show "validStatusTarget s \<or> s = ''CANCELLED'' \<longleftrightarrow> (\<exists>f. allowedOrderTransition f s)"
  proof
    show "\<exists>f. allowedOrderTransition f s" if s: "validStatusTarget s \<or> s = ''CANCELLED''"
    proof -
      have "allowedOrderTransition ''RECEIVED'' s \<or> allowedOrderTransition ''PROCESSING'' s
          \<or> allowedOrderTransition ''READY_FOR_PICKUP'' s"
        using s by (auto simp: validStatusTarget_def allowedOrderTransition_def)
      then show ?thesis by blast
    qed
    show "validStatusTarget s \<or> s = ''CANCELLED''" if "\<exists>f. allowedOrderTransition f s"
      using that by (auto simp: validStatusTarget_def allowedOrderTransition_def split: if_splits)
  qed
qed

section \<open>Quantities and amounts\<close>

text \<open>C16: A quantity is accepted exactly when it is one to nine digits, with or without a dot and
  one to three digits after it, and not zero; the value read is that number in thousandths.\<close>

theorem quantity_accepted:
  "parseMilliQuantity s = Inr m \<longleftrightarrow>
     (\<exists>w f. quantity_text s w f \<and> 0 < decimal_milli w f \<and> m = decimal_milli w f)"
  by (rule parseMilliQuantity_Inr_iff)

text \<open>C17: What the server prints of a stored quantity is a quantity the server reads back as the
  same number, for every value the column can hold.\<close>

theorem quantity_roundtrip:
  assumes "0 < m" and "m \<le> 999999999999"
  shows "parseMilliQuantity (FormatQuantity (numeric_text m)) = Inr m"
  by (rule parse_format_quantity [OF assms])

theorem quantity_roundtrip_witness:
  "FormatQuantity (numeric_text 2500) = ''2.5'' \<and> parseMilliQuantity ''2.5'' = Inr 2500"
proof -
  have "FormatQuantity (numeric_text 2500) = ''2.5''" by code_simp
  then show ?thesis using quantity_roundtrip [of 2500] by simp
qed

text \<open>C15: The amount the service computes for a line is the one the database checks (the product
  rounded half away from zero), it is within half a rupiah of the exact product, and it is refused only
  when it does not fit 64 bits.\<close>

theorem line_amount:
  assumes "0 \<le> milli" and "0 \<le> price"
  shows "(lineTotalFor milli price = Inr t \<longleftrightarrow> t = pg_round_milli (milli * price) \<and> t < 2 ^ 63)
    \<and> 1000 * pg_round_milli (milli * price) - 500 \<le> milli * price
    \<and> milli * price < 1000 * pg_round_milli (milli * price) + 500"
proof -
  have "0 \<le> milli * price" using assms by simp
  from pg_round_milli_nearest [OF this] lineTotalFor_iff [OF assms] show ?thesis by blast
qed

theorem line_amount_witness:
  "lineTotalFor 2500 7001 = Inr 17503 \<and> pg_round_milli (2500 * 7001) = 17503"
proof -
  have "pg_round_milli (2500 * 7001) = 17503" by (simp add: pg_round_milli_def)
  then show ?thesis using line_amount [of 2500 7001 17503] by simp
qed

text \<open>Invoice numbers of one outlet code are different on different days and for different
  numbers of a day, and no code, day and number gives the number of another.\<close>

lemma invoice_numbers_differ:
  assumes "0 \<le> day" "0 \<le> day'" "0 \<le> n" "0 \<le> n'"
  shows "invoice_number code day n = invoice_number code' day' n' \<longleftrightarrow> code = code' \<and> day = day' \<and> n = n'"
  using invoice_number_inj [OF _ assms] by blast

section \<open>Listing\<close>

lemma limit_offset_Inr:
  assumes "limit_offset lim off p w = (Inr rs, w')"
  shows "0 \<le> lim \<and> (\<exists>all. p w = (Inr all, w') \<and> rs = take (nat lim) (drop (nat off) all))"
proof (cases "lim < 0 \<or> off < 0")
  case True
  then show ?thesis using assms stmt_Inr [of "fail InvalidLimit" w rs w'] by (auto simp: limit_offset_def fail_run)
next
  case False
  then show ?thesis using assms by (auto simp: limit_offset_def run_inv)
qed

lemma ListOrders_Inr:
  assumes "ListOrders b adm ls lo st off lim w = (Inr rows, w')"
  shows "int (length rows) \<le> lim \<and> (\<forall>x \<in> set rows. fst x \<in> set (orders (data w)) \<and> order_matches b adm ls lo st (fst x))"
proof -
  from assms obtain all where lim: "0 \<le> lim" and rows: "rows = take (nat lim) (drop (nat off) all)"
    and all: "select (\<lambda>n d. sort_key (\<lambda>(r, _). - o_created_at r) (sort_key (\<lambda>(r, _). - o_id r)
         [(r, out_timezone x). r \<leftarrow> orders d, x \<leftarrow> outlets d,
            out_business_id x = o_business_id r \<and> out_id x = o_outlet_id r \<and> order_matches b adm ls lo st r])) w = (Inr all, w')"
    unfolding ListOrders_def with_text_Inr by (auto dest: limit_offset_Inr)
  have "set rows \<subseteq> set all" unfolding rows by (meson order_trans set_drop_subset set_take_subset)
  moreover have "\<forall>x \<in> set all. fst x \<in> set (orders (data w)) \<and> order_matches b adm ls lo st (fst x)"
    using select_Inr [OF all] by auto
  moreover have "int (length rows) \<le> lim" using lim by (simp add: rows)
  ultimately show ?thesis by blast
qed

text \<open>A page of orders holds at most the page size, each entry is the summary of an order of
  the actor's tenant that the filter selects and, for staff, of an outlet of the token; the count is the
  number of those orders, and listing changes nothing.\<close>

lemma orders_listed:
  assumes "OrderCatalog_List a filt w = (Inr (xs, n), w')"
  shows "data w' = data w \<and> int (length xs) \<le> of_PageLimit filt
    \<and> n = int (length (filter (order_matches (a_business_id a) (is_admin a) (a_outlet_ids a)
        (of_OutletID filt) (of_Status filt)) (orders (data w))))
    \<and> (\<forall>x \<in> set xs. \<exists>r \<in> set (orders (data w)). \<exists>tz. x = orderSummaryFrom r tz
        \<and> order_matches (a_business_id a) (is_admin a) (a_outlet_ids a) (of_OutletID filt) (of_Status filt) r)"
proof -
  from assms obtain rows u where
    l: "ListOrders (a_business_id a) (is_admin a) (a_outlet_ids a) (of_OutletID filt)
          (of_Status filt) (of_PageOffset filt) (of_PageLimit filt) w = (Inr rows, u)"
    and c: "CountOrders (a_business_id a) (is_admin a) (a_outlet_ids a) (of_OutletID filt) (of_Status filt) u = (Inr n, w')"
    and xs: "xs = map (\<lambda>(r, timezone). orderSummaryFrom r timezone) rows"
    unfolding OrderCatalog_List_def by (auto simp: run_inv)
  have same: "same_data w u" "same_data u w'"
    using readsD [OF order_queries_read(13) l] readsD [OF order_queries_read(14) c] .
  then have d: "data u = data w" "data w' = data w" by (simp_all add: same_data_def)
  from c have n: "n = int (length (filter (order_matches (a_business_id a) (is_admin a) (a_outlet_ids a)
        (of_OutletID filt) (of_Status filt)) (orders (data w))))"
    unfolding CountOrders_def with_text_Inr by (auto dest!: one_select_Inr simp: d)
  note rows = ListOrders_Inr [OF l]
  have "\<exists>r \<in> set (orders (data w)). \<exists>tz. x = orderSummaryFrom r tz
        \<and> order_matches (a_business_id a) (is_admin a) (a_outlet_ids a) (of_OutletID filt) (of_Status filt) r"
    if "x \<in> set xs" for x
  proof -
    from that obtain row where "row \<in> set rows" "x = orderSummaryFrom (fst row) (snd row)" by (auto simp: xs)
    then show ?thesis using rows by blast
  qed
  moreover have "length xs = length rows" by (simp add: xs)
  ultimately show ?thesis using d n rows by simp
qed

end
