(* ===== verification/Payment_Properties.thy ===== *)
theory Payment_Properties
  imports Ledger_Properties
begin

text \<open>
  The operations of the payment catalog: what recording and voiding a payment leave behind, that a
  payment is taken once per key, and that both succeed when nothing stands in their way.
\<close>

section \<open>Recording\<close>

text \<open>C12: A payment request changes nothing and returns an error, or returns the payment stored
  earlier under its key, or adds one confirmed payment of exactly what is still due of the tender, with
  the rest as change (cash only) and the outstanding amount and status that follow; the only error it may
  then return is the lost reply of the commit.\<close>

theorem record_outcome:
  assumes "reachable w" and "is_int64 (ri_TenderedAmount input)"
    and "PaymentCatalog_Record a i input w = (res, w')"
  shows "data w' = data w \<and> (\<forall>x. res \<noteq> Inr x) \<or>
    (\<exists>x. records (data w) a i input x (data w') \<and> (res = Inr x \<or> res = Inl (Sql ConnErr)))"
  using Record_ends [OF reachable_ok [OF assms(1)] assms(2,3)] .

theorem record_outcome_witness:
  "\<exists>x. records (data world_placed) staff (o_id placed_order) sample_payment x (data world_paid)"
proof -
  obtain x where run: "PaymentCatalog_Record staff (o_id placed_order) sample_payment world_placed = (Inr x, world_paid)"
    using sample_paid by blast
  have "is_int64 (ri_TenderedAmount sample_payment)" by (simp add: sample_payment_def is_int64_def)
  from record_outcome [OF world_placed_reachable this run] show ?thesis by blast
qed

text \<open>C9: Money is taken once per key: when the order already carries a payment under the
  idempotency key, recording again changes nothing, and any result it returns is that payment, marked
  as replayed, and only when the request hash is the one stored with it.\<close>

theorem record_once:
  assumes "reachable w" and "is_int64 (ri_TenderedAmount input)"
    and "r \<in> set (orders (data w))" "o_id r = i" and "p \<in> set (payments (data w))" "payment_of r p"
    and "p_idempotency_key p = Some (ri_IdempotencyKey input)"
    and "PaymentCatalog_Record a i input w = (res, w')"
  shows "data w' = data w \<and> (\<forall>x. res = Inr x \<longrightarrow> pr_Replayed x \<and> pr_Payment x = paymentFrom p
    \<and> p_request_hash p = Some (ri_RequestHash input))"
proof -
  note ok = reachable_ok [OF assms(1)]
  have keys: "keys_ok (data w)" using reachable_order_ok [OF assms(1,3)] by simp
  have "data w' = data w \<and> pr_Replayed x \<and> pr_Payment x = paymentFrom p \<and> p_request_hash p = Some (ri_RequestHash input)"
    if "records (data w) a i input x (data w')" for x
  proof -
    from that obtain r2 where "may_operate (data w) a r2" "o_id r2 = i"
      and alt: "pr_Replayed x \<and> data w' = data w
          \<and> (\<exists>q \<in> set (payments (data w)). payment_of r2 q
               \<and> p_idempotency_key q = Some (ri_IdempotencyKey input)
               \<and> p_request_hash q = Some (ri_RequestHash input) \<and> pr_Payment x = paymentFrom q)
        \<or> (\<exists>q. ledger_step (data w) (Paid r2 q) (data w') \<and> p_idempotency_key q = Some (ri_IdempotencyKey input))"
      unfolding records_def by blast
    then have r2: "r2 = r" using orders_tbl.key_unique [OF sys_ok_parts(1) [OF ok]] assms(3,4)
      by (simp add: may_operate_def)
    have "\<not> ledger_step (data w) (Paid r q) (data w')" if "p_idempotency_key q = Some (ri_IdempotencyKey input)" for q
    proof
      assume st: "ledger_step (data w) (Paid r q) (data w')"
      from paid_effect(2,8) [OF this] have "payment_of r q" "\<not> payment_key_taken (data w) q" by blast+
      then show False using assms(5,6,7) that
        by (auto simp: payment_key_taken_def list_ex_iff payment_of_order_def)
    qed
    with alt r2 show ?thesis using same_key_same_payment [OF keys assms(5) _ assms(6) _ assms(7)] by metis
  qed
  with Record_ends [OF ok assms(2,8)] show ?thesis by blast
qed

theorem record_once_witness:
  "data (snd (PaymentCatalog_Record staff (o_id paid_order) sample_payment world_paid)) = data world_paid"
proof -
  obtain res w' where run: "PaymentCatalog_Record staff (o_id paid_order) sample_payment world_paid = (res, w')" by fastforce
  have "is_int64 (ri_TenderedAmount sample_payment)" "p_idempotency_key paid_payment = Some (ri_IdempotencyKey sample_payment)"
    by (simp_all add: sample_payment_def is_int64_def paid_facts)
  then show ?thesis
    using record_once [OF world_paid_reachable _ _ refl _ _ _ run, of paid_payment] paid_facts(1,2,11) run by simp
qed

text \<open>A payment within the limits of the request is taken when the connection is calm: for an
  order with a balance, on which the actor has standing and no refund exists, by cash of any amount or by
  another method up to the balance, under a new key.\<close>

lemma record_returns:
  assumes "reachable w" and "faults w = []" and "may_operate (data w) a r"
    and "o_status r \<noteq> ''CANCELLED''" "no_refunds (data w) r"
    and "Record_guard a (o_id r) input = None" "is_int64 (ri_TenderedAmount input)"
    and "paid_on (data w) r < o_total_amount r"
    and "ri_Method input = ''CASH'' \<or> ri_TenderedAmount input \<le> o_total_amount r - paid_on (data w) r"
    and "payment_fits (data w) r input" and "audit_fits (data w) a (o_outlet_id r)"
  shows "\<exists>x w' p. PaymentCatalog_Record a (o_id r) input w = (Inr x, w') \<and> ledger_step (data w) (Paid r p) (data w')
    \<and> \<not> pr_Replayed x \<and> p_amount p = min (ri_TenderedAmount input) (o_total_amount r - paid_on (data w) r)"
  using Record_succeeds [OF assms(2) reachable_ok [OF assms(1)] assms(3-11)] by blast

section \<open>Voiding\<close>

text \<open>The payment of the sample may be voided.\<close>

lemma sample_void_hyps:
  "1 \<le> a_business_id admin" "1 \<le> a_user_id admin" "no_refunds (data world_paid) paid_order"
  "paid_payment \<in> set (payments (data world_paid))" "trim_space ''mistake'' \<noteq> []" "pg_text (trim_space ''mistake'')"
  "rune_count (trim_space ''mistake'') \<le> 2000"
proof -
  show "rune_count (trim_space ''mistake'') \<le> 2000"
    unfolding sample_reason by (rule order_trans [OF rune_count_le]) simp
qed (simp_all add: paid_facts no_refunds_def sample_reason sample_actor_def)

lemma sample_voided:
  "\<exists>x w'. PaymentCatalog_Void admin (o_id paid_order) (p_id paid_payment) ''mistake'' world_paid = (Inr x, w')
    \<and> ledger_step (data world_paid) (Voided paid_order paid_payment) (data w')"
proof -
  have ids: "1 \<le> o_id paid_order" "1 \<le> p_id paid_payment"
    using payments_tbl.fresh_pos(1) [OF sys_ok_parts(2) [OF reachable_ok [OF world_paid_reachable]]] placed_id
    by (simp_all add: paid_facts)
  show ?thesis
    using Void_succeeds [OF world_paid_calm reachable_ok [OF world_paid_reachable] paid_may [of admin] ids,
        of "''mistake''"] paid_audit_fits [of admin] paid_facts(11)
    by (simp add: sample_void_hyps paid_facts) blast
qed

text \<open>A void changes nothing and returns an error, or changes nothing because the actor
  voided that payment before with the same reason, or voids exactly the confirmed payment it names and
  lowers the paid amount by it; the only error it may then return is the lost reply of the commit.\<close>

lemma void_outcome:
  assumes "reachable w" and "PaymentCatalog_Void a i j reason w = (res, w')"
  shows "data w' = data w \<and> (\<forall>x. res \<noteq> Inr x) \<or>
    (\<exists>x. voids (data w) a i j (trim_space reason) x (data w') \<and> (res = Inr x \<or> res = Inl (Sql ConnErr)))"
  using Void_ends [OF reachable_ok [OF assms(1)] assms(2)] .

text \<open>A confirmed payment of an order without refunds can be voided by an actor with standing
  when the connection is calm: the paid amount falls by it and the payment is kept as VOIDED.\<close>

lemma void_returns:
  assumes "reachable w" and "faults w = []" and "may_operate (data w) a r"
    and "1 \<le> a_business_id a" "1 \<le> a_user_id a" and "no_refunds (data w) r"
    and "p \<in> set (payments (data w))" "payment_of r p" "p_status p = ''CONFIRMED''"
    and "trim_space reason \<noteq> []" "rune_count (trim_space reason) \<le> 2000" "pg_text (trim_space reason)"
    and "audit_fits (data w) a (o_outlet_id r)"
  shows "\<exists>x w'. PaymentCatalog_Void a (o_id r) (p_id p) reason w = (Inr x, w')
    \<and> ledger_step (data w) (Voided r p) (data w') \<and> pv_PaidAmount x = paid_on (data w) r - p_amount p"
proof -
  note ok = reachable_ok [OF assms(1)]
  have "1 \<le> o_id r" "1 \<le> p_id p"
    using orders_tbl.fresh_pos(1) [OF sys_ok_parts(1) [OF ok]] payments_tbl.fresh_pos(1) [OF sys_ok_parts(2) [OF ok]]
      assms(3,7) by (simp_all add: may_operate_def)
  from Void_succeeds [OF assms(2) ok assms(3) this assms(4-13)] show ?thesis by blast
qed

section \<open>The arithmetic of a payment\<close>

text \<open>C14: What the service takes of a tender is positive and no more than the balance and the
  tender; cash gives the rest back as change, other methods take the tender whole, and neither amount
  wraps around.\<close>

theorem tender_split:
  assumes "paymentAmounts method tendered outstanding = Inr (applied, chg)"
    and "is_int64 tendered" and "is_int64 outstanding"
  shows "validPaymentMethod method \<and> 0 < applied \<and> applied \<le> outstanding \<and> applied + chg = tendered \<and> 0 \<le> chg
    \<and> (method \<noteq> ''CASH'' \<longrightarrow> chg = 0) \<and> (0 < chg \<longrightarrow> applied = outstanding)"
  using paymentAmounts_Inr [OF assms] by auto

theorem tender_split_witness:
  "paymentAmounts ''CASH'' 50000 32500 = Inr (32500, 17500) \<and> (32500 :: int) + 17500 = 50000"
  using tender_split [of "''CASH''" 50000 32500 32500 17500]
  by (simp add: paymentAmounts_def validPaymentMethod_def is_int64_def)

end
