(* ===== verification/Session_Queries.thy ===== *)
theory Session_Queries
  imports Table Order_Queries "HOL-Library.List_Lexorder"
begin

text \<open>
  The statements of internal/repository/postgresql/auth.sql.go and the audit insert of
  management.sql.go, over the tables of migrations 000001 (accounts, refresh tokens) and 000008
  (session families). A join on a primary key is written as the existence of the joined row. The server's lower() and its
  collation of permission codes are parameters.
\<close>

section \<open>Constraints\<close>

definition family_check :: "family_row \<Rightarrow> bool" where
  "family_check r \<longleftrightarrow> (case sf_revoked_at r of None \<Rightarrow> True | Some t \<Rightarrow> sf_created_at r \<le> t)"

definition insert_family_error :: "db \<Rightarrow> family_row \<Rightarrow> pgerr option" where
  "insert_family_error d r =
     (if \<not> family_check r then Some (CheckViolation ''session_families'')
      else if \<not> user_exists d (sf_business_id r) (sf_user_id r)
        then Some (ForeignKeyViolation ''session_families_user'')
      else None)"

definition update_family_error :: "db \<Rightarrow> family_row \<Rightarrow> pgerr option" where
  "update_family_error d r = (if family_check r then None else Some (CheckViolation ''session_families''))"

definition token_check :: "token_row \<Rightarrow> bool" where
  "token_check r \<longleftrightarrow> btrim (rt_token_hash r) \<noteq> [] \<and> rt_created_at r < rt_expires_at r
     \<and> (case rt_revoked_at r of None \<Rightarrow> True | Some t \<Rightarrow> rt_created_at r \<le> t)"

definition family_of :: "i64 \<Rightarrow> i64 \<Rightarrow> i64 \<Rightarrow> family_row \<Rightarrow> bool" where
  "family_of i b u f \<longleftrightarrow> sf_id f = i \<and> sf_business_id f = b \<and> sf_user_id f = u"

definition hash_taken :: "db \<Rightarrow> string \<Rightarrow> bool" where
  "hash_taken d h = list_ex (\<lambda>t. rt_token_hash t = h) (refresh_tokens d)"

definition insert_token_error :: "db \<Rightarrow> token_row \<Rightarrow> pgerr option" where
  "insert_token_error d r =
     (if \<not> pg_text (rt_token_hash r) then Some InvalidText
      else if \<not> token_check r then Some (CheckViolation ''refresh_tokens'')
      else if hash_taken d (rt_token_hash r) then Some (UniqueViolation ''refresh_tokens_token_hash_key'')
      else if \<not> user_exists d (rt_business_id r) (rt_user_id r)
        then Some (ForeignKeyViolation ''refresh_tokens_user'')
      else if \<not> list_ex (family_of (rt_family_id r) (rt_business_id r) (rt_user_id r)) (session_families d)
        then Some (ForeignKeyViolation ''refresh_tokens_family_fk'')
      else None)"

definition update_token_error :: "db \<Rightarrow> token_row \<Rightarrow> pgerr option" where
  "update_token_error d r = (if token_check r then None else Some (CheckViolation ''refresh_tokens''))"

section \<open>Accounts\<close>

definition business_active :: "db \<Rightarrow> i64 \<Rightarrow> bool" where
  "business_active d b = list_ex (\<lambda>x. b_id x = b \<and> b_is_active x) (businesses d)"

definition GetUserForLogin :: "(string \<Rightarrow> string) \<Rightarrow> string \<Rightarrow> (pgerr, user_row) m" where
  "GetUserForLogin lower email = with_text (pg_text email) (only_one (select (\<lambda>n d.
     filter (\<lambda>u. business_active d (u_business_id u) \<and> lower (u_email u) = lower email) (users d))))"

definition GetActiveUser :: "i64 \<Rightarrow> i64 \<Rightarrow> (pgerr, user_row) m" where
  "GetActiveUser userID businessID = only_one (select (\<lambda>n d.
     filter (\<lambda>u. business_active d (u_business_id u) \<and> u_id u = userID \<and> u_business_id u = businessID
                 \<and> u_is_active u) (users d)))"

definition outlet_active :: "db \<Rightarrow> i64 \<Rightarrow> i64 \<Rightarrow> bool" where
  "outlet_active d b l = list_ex (\<lambda>x. out_id x = l \<and> out_business_id x = b \<and> out_is_active x) (outlets d)"

definition active_outlet_ids :: "db \<Rightarrow> i64 \<Rightarrow> i64 \<Rightarrow> i64 list" where
  "active_outlet_ids d b u =
     sort (map uo_outlet_id (filter (\<lambda>x. uo_business_id x = b \<and> uo_user_id x = u
       \<and> outlet_active d b (uo_outlet_id x)) (user_outlets d)))"

definition ListUserOutletIDs :: "i64 \<Rightarrow> i64 \<Rightarrow> (pgerr, i64 list) m" where
  "ListUserOutletIDs businessID userID = select (\<lambda>n d. active_outlet_ids d businessID userID)"

definition ListUserOutlets :: "i64 \<Rightarrow> i64 \<Rightarrow> (pgerr, (i64 \<times> string) list) m" where
  "ListUserOutlets businessID userID = select (\<lambda>n d.
     sort_key fst [(out_id x, out_timezone x). x \<leftarrow> outlets d, y \<leftarrow> user_outlets d,
       uo_business_id y = out_business_id x \<and> uo_outlet_id y = out_id x \<and>
       out_business_id x = businessID \<and> uo_user_id y = userID \<and> out_is_active x])"

definition ListUserPermissionCodes :: "(string \<Rightarrow> nat list) \<Rightarrow> i64 \<Rightarrow> i64 \<Rightarrow> (pgerr, string list) m" where
  "ListUserPermissionCodes collation businessID userID = select (\<lambda>n d.
     sort_key collation (map up_code
       (filter (\<lambda>p. up_business_id p = businessID \<and> up_user_id p = userID) (user_permissions d))))"

section \<open>Session families and refresh tokens\<close>

definition CreateSessionFamily :: "i64 \<Rightarrow> i64 \<Rightarrow> (pgerr, i64) m" where
  "CreateSessionFamily businessID userID =
     tbind (insert_serial TFamilies session_families (\<lambda>rs d. d\<lparr>session_families := rs\<rparr>) insert_family_error
       (\<lambda>i n d. \<lparr>sf_id = i, sf_business_id = businessID, sf_user_id = userID, sf_created_at = n,
          sf_revoked_at = None\<rparr>)) (\<lambda>r. ret (sf_id r))"

definition CreateRefreshToken :: "i64 \<Rightarrow> i64 \<Rightarrow> i64 \<Rightarrow> string \<Rightarrow> time \<Rightarrow> (pgerr, token_row) m" where
  "CreateRefreshToken businessID userID familyID tokenHash expiresAt =
     insert_serial TTokens refresh_tokens (\<lambda>rs d. d\<lparr>refresh_tokens := rs\<rparr>) insert_token_error
       (\<lambda>i n d. \<lparr>rt_id = i, rt_business_id = businessID, rt_user_id = userID, rt_token_hash = tokenHash,
          rt_expires_at = expiresAt, rt_revoked_at = None, rt_created_at = n, rt_family_id = familyID\<rparr>)"

definition FindRefreshTokenFamily :: "string \<Rightarrow> (pgerr, token_row) m" where
  "FindRefreshTokenFamily tokenHash = with_text (pg_text tokenHash) (only_one (select (\<lambda>n d.
     filter (\<lambda>t. rt_token_hash t = tokenHash) (refresh_tokens d))))"

definition GetRefreshTokenForUpdate :: "string \<Rightarrow> (pgerr, token_row) m" where
  "GetRefreshTokenForUpdate tokenHash = with_text (pg_text tokenHash) (only_one (select (\<lambda>n d.
     filter (\<lambda>t. rt_token_hash t = tokenHash) (refresh_tokens d))))"

definition GetRefreshTokenByID :: "i64 \<Rightarrow> i64 \<Rightarrow> i64 \<Rightarrow> (pgerr, token_row) m" where
  "GetRefreshTokenByID i businessID userID = only_one (select (\<lambda>n d.
     filter (\<lambda>t. rt_id t = i \<and> rt_business_id t = businessID \<and> rt_user_id t = userID) (refresh_tokens d)))"

definition LockSessionFamily :: "i64 \<Rightarrow> i64 \<Rightarrow> i64 \<Rightarrow> (pgerr, family_row) m" where
  "LockSessionFamily i businessID userID = only_one (select (\<lambda>n d.
     filter (family_of i businessID userID) (session_families d)))"

text \<open>The token's family, as the joins of the session queries see it.\<close>

definition family_live :: "db \<Rightarrow> token_row \<Rightarrow> bool" where
  "family_live d t = list_ex (\<lambda>f. family_of (rt_family_id t) (rt_business_id t) (rt_user_id t) f
     \<and> sf_revoked_at f = None) (session_families d)"

definition GetActiveRefreshSession :: "i64 \<Rightarrow> i64 \<Rightarrow> i64 \<Rightarrow> (pgerr, token_row) m" where
  "GetActiveRefreshSession i businessID userID = only_one (select (\<lambda>n d.
     filter (\<lambda>t. rt_id t = i \<and> rt_business_id t = businessID \<and> rt_user_id t = userID
               \<and> rt_revoked_at t = None \<and> n < rt_expires_at t \<and> family_live d t) (refresh_tokens d)))"

definition GetLogoutSession :: "i64 \<Rightarrow> i64 \<Rightarrow> i64 \<Rightarrow> (pgerr, token_row) m" where
  "GetLogoutSession i businessID userID = only_one (select (\<lambda>n d.
     filter (\<lambda>t. rt_id t = i \<and> rt_business_id t = businessID \<and> rt_user_id t = userID
               \<and> n < rt_expires_at t \<and> family_live d t) (refresh_tokens d)))"

definition RevokeRefreshToken :: "i64 \<Rightarrow> i64 \<Rightarrow> i64 \<Rightarrow> (pgerr, i64) m" where
  "RevokeRefreshToken i businessID userID =
     tbind (update_rows refresh_tokens (\<lambda>rs d. d\<lparr>refresh_tokens := rs\<rparr>) update_token_error
       (\<lambda>t. rt_id t = i \<and> rt_business_id t = businessID \<and> rt_user_id t = userID \<and> rt_revoked_at t = None)
       (\<lambda>n t. t\<lparr>rt_revoked_at := Some n\<rparr>)) (\<lambda>rs. ret (int (length rs)))"

definition RevokeSessionFamily :: "i64 \<Rightarrow> i64 \<Rightarrow> i64 \<Rightarrow> (pgerr, unit) m" where
  "RevokeSessionFamily i businessID userID =
     tbind (update_rows session_families (\<lambda>rs d. d\<lparr>session_families := rs\<rparr>) update_family_error
       (\<lambda>f. family_of i businessID userID f \<and> sf_revoked_at f = None)
       (\<lambda>n f. f\<lparr>sf_revoked_at := Some n\<rparr>)) (\<lambda>rs. ret ())"

definition InsertAuditLog ::
  "i64 \<Rightarrow> i64 option \<Rightarrow> string \<Rightarrow> string \<Rightarrow> i64 option \<Rightarrow> jval option \<Rightarrow> jval option \<Rightarrow> string option \<Rightarrow>
   string option \<Rightarrow> (pgerr, unit) m" where
  "InsertAuditLog businessID actorUserID action entityType entityID oldValues newValues ipAddress userAgent =
     tbind (insert_audit (\<lambda>i n d.
       \<lparr>au_id = i, au_business_id = businessID, au_outlet_id = None,
        au_actor_user_id = actorUserID, au_action = action, au_entity_type = entityType,
        au_entity_id = entityID, au_old_values = oldValues, au_new_values = newValues,
        au_ip_address = ipAddress, au_user_agent = userAgent, au_occurred_at = n,
        au_actor_platform_admin_id = None, au_support_session_id = None, au_platform_audit_id = None\<rparr>))
       (\<lambda>r. ret ())"

section \<open>What the statements leave alone\<close>

lemma session_queries_read [reads_intro]:
  "reads (GetUserForLogin lower e)" "reads (GetActiveUser u b)" "reads (ListUserOutletIDs b u)"
  "reads (ListUserOutlets b u)" "reads (ListUserPermissionCodes col b u)" "reads (FindRefreshTokenFamily h)"
  "reads (GetRefreshTokenForUpdate h)" "reads (GetRefreshTokenByID i b u)" "reads (LockSessionFamily i b u)"
  "reads (GetActiveRefreshSession i b u)" "reads (GetLogoutSession i b u)"
  unfolding GetUserForLogin_def GetActiveUser_def ListUserOutletIDs_def ListUserOutlets_def
    ListUserPermissionCodes_def FindRefreshTokenFamily_def GetRefreshTokenForUpdate_def
    GetRefreshTokenByID_def LockSessionFamily_def GetActiveRefreshSession_def GetLogoutSession_def
  by (intro reads_intro)+

lemma session_writes_grow [grows_intro]:
  "grows (CreateSessionFamily b u)" "grows (CreateRefreshToken b u f h e)" "grows (RevokeRefreshToken i b u)"
  "grows (RevokeSessionFamily i b u)" "grows (InsertAuditLog b ao act et ei ov nv ip ua)"
  unfolding CreateSessionFamily_def CreateRefreshToken_def RevokeRefreshToken_def RevokeSessionFamily_def
    InsertAuditLog_def insert_audit_def
  by (intro grows_intro)+

lemmas session_queries_grow [grows_intro] = session_queries_read [THEN grows_reads]

end
