(* ===== verification/Security.thy ===== *)
theory Security
  imports Service_Base
begin

text \<open>
  Credentials (internal/security/token.go and password.go). The primitives the package calls are
  parameters of the model, collected in one record: SHA-256, bcrypt's comparison and hash, the JWT library's
  signing and parsing, its rounding of dates. What is modelled is what the source does around
  them: the claims it builds and the claims it refuses, the encoding and the hash of a refresh token, the
  limits of passwords.
\<close>

section \<open>What lies outside\<close>

record AccessClaims =
  ac_BusinessID :: i64
  ac_Role :: string
  ac_OutletIDs :: "i64 list"
  ac_SessionID :: i64
  ac_Issuer :: string
  ac_Subject :: string
  ac_Audience :: "string list"
  ac_IssuedAt :: time
  ac_ExpiresAt :: time

text \<open>
  jwt_parse key t raw is the library's ParseWithClaims at the time t under the options the source
  gives it: HS256 with the key, the issuer and the audience of the source, an expiry required. en_offset
  is the offset of the server's own time zone from UTC at an instant, in seconds.
\<close>

record primitives =
  en_sha256 :: "string \<Rightarrow> nat list"
  en_bcrypt_matches :: "string \<Rightarrow> string \<Rightarrow> bool"
  en_bcrypt_hash :: "string \<Rightarrow> nat \<Rightarrow> string option"
  en_jwt_sign :: "string \<Rightarrow> AccessClaims \<Rightarrow> string option"
  en_jwt_parse :: "string \<Rightarrow> time \<Rightarrow> string \<Rightarrow> AccessClaims option"
  en_numeric_date :: "time \<Rightarrow> time"
  en_lower :: "string \<Rightarrow> string"
  en_collation :: "string \<Rightarrow> nat list"
  en_ilike :: "string \<Rightarrow> string \<Rightarrow> bool"
  en_offset :: "time \<Rightarrow> int"

definition issuer :: string where
  "issuer = ''launlog-api''"

section \<open>Access tokens\<close>

record TokenManager =
  tm_key :: string
  tm_accessTTL :: time

definition NewTokenManager :: "string \<Rightarrow> time \<Rightarrow> TokenManager option" where
  "NewTokenManager key accessTTL =
     (if length key < 32 \<or> key = ''replace-with-a-random-secret-of-at-least-32-bytes'' then None
      else Some \<lparr>tm_key = key, tm_accessTTL = accessTTL\<rparr>)"

definition access_claims :: "primitives \<Rightarrow> i64 \<Rightarrow> i64 \<Rightarrow> i64 \<Rightarrow> string \<Rightarrow> i64 list \<Rightarrow> time \<Rightarrow> time \<Rightarrow> AccessClaims" where
  "access_claims en userID businessID sessionID role outletIDs t expiresAt =
     \<lparr>ac_BusinessID = businessID, ac_Role = role, ac_OutletIDs = outletIDs, ac_SessionID = sessionID,
      ac_Issuer = issuer, ac_Subject = show_int userID, ac_Audience = [issuer],
      ac_IssuedAt = en_numeric_date en t, ac_ExpiresAt = en_numeric_date en expiresAt\<rparr>"

definition NewAccessToken ::
  "primitives \<Rightarrow> TokenManager \<Rightarrow> i64 \<Rightarrow> i64 \<Rightarrow> i64 \<Rightarrow> string \<Rightarrow> i64 list \<Rightarrow> time \<Rightarrow> (string \<times> time) option" where
  "NewAccessToken en m userID businessID sessionID role outletIDs t =
     (let expiresAt = en_numeric_date en (t + tm_accessTTL m)
      in case en_jwt_sign en (tm_key m) (access_claims en userID businessID sessionID role outletIDs t expiresAt) of
           None \<Rightarrow> None
         | Some signed \<Rightarrow> Some (signed, expiresAt))"

definition ParseAccessToken :: "primitives \<Rightarrow> TokenManager \<Rightarrow> time \<Rightarrow> string \<Rightarrow> AccessClaims option" where
  "ParseAccessToken en m t raw =
     (case en_jwt_parse en (tm_key m) t raw of
        None \<Rightarrow> None
      | Some claims \<Rightarrow>
          if ac_BusinessID claims < 1 \<or> ac_SessionID claims < 1 \<or> ac_Subject claims = [] then None
          else Some claims)"

definition SubjectID :: "AccessClaims \<Rightarrow> i64 option" where
  "SubjectID claims =
     (case parse_int 64 (ac_Subject claims) of
        None \<Rightarrow> None
      | Some i \<Rightarrow> if i < 1 then None else Some i)"

section \<open>Refresh tokens\<close>

text \<open>base64.RawURLEncoding: the URL alphabet without padding.\<close>

definition base64_alphabet :: string where
  "base64_alphabet = ''ABCDEFGHIJKLMNOPQRSTUVWXYZabcdefghijklmnopqrstuvwxyz0123456789-_''"

definition base64_char :: "nat \<Rightarrow> char" where
  "base64_char n = base64_alphabet ! n"

fun base64_url :: "nat list \<Rightarrow> string" where
  "base64_url (a # b # c # r) =
     base64_char (a div 4) # base64_char ((a mod 4) * 16 + b div 16) #
     base64_char ((b mod 16) * 4 + c div 64) # base64_char (c mod 64) # base64_url r"
| "base64_url [a, b] =
     [base64_char (a div 4), base64_char ((a mod 4) * 16 + b div 16), base64_char ((b mod 16) * 4)]"
| "base64_url [a] = [base64_char (a div 4), base64_char ((a mod 4) * 16)]"
| "base64_url [] = []"

definition HashRefreshToken :: "primitives \<Rightarrow> string \<Rightarrow> string" where
  "HashRefreshToken en raw = base64_url (en_sha256 en raw)"

text \<open>The argument is what rand.Read returned: 32 bytes, or an error.\<close>

definition NewRefreshToken :: "primitives \<Rightarrow> nat list option \<Rightarrow> (string \<times> string) option" where
  "NewRefreshToken en random =
     (case random of
        None \<Rightarrow> None
      | Some bytes \<Rightarrow> (let raw = base64_url bytes in Some (raw, HashRefreshToken en raw)))"

section \<open>Passwords\<close>

definition bcryptCost :: nat where
  "bcryptCost = 12"

definition MaxBcryptPasswordBytes :: nat where
  "MaxBcryptPasswordBytes = 72"

datatype password_error = PasswordLength | PasswordTooLong | HashFailed

definition ValidateNewPassword :: "string \<Rightarrow> password_error option" where
  "ValidateNewPassword password =
     (if \<not> utf8_valid password \<or> rune_count password < 8 \<or> rune_count password > 128 then Some PasswordLength
      else if length password > MaxBcryptPasswordBytes then Some PasswordTooLong
      else None)"

definition HashPassword :: "primitives \<Rightarrow> string \<Rightarrow> password_error + string" where
  "HashPassword en password =
     (case ValidateNewPassword password of
        Some e \<Rightarrow> Inl e
      | None \<Rightarrow> (case en_bcrypt_hash en password bcryptCost of None \<Rightarrow> Inl HashFailed | Some h \<Rightarrow> Inr h))"

definition VerifyPassword :: "primitives \<Rightarrow> string \<Rightarrow> string \<Rightarrow> bool" where
  "VerifyPassword en hash password =
     (if \<not> utf8_valid password \<or> length password > MaxBcryptPasswordBytes then False
      else en_bcrypt_matches en hash password)"

section \<open>What the library is relied on for\<close>

lemma utf8_show_int: "utf8_valid (show_int z)"
proof -
  have "list_all (\<lambda>c. byte c < 0x80) (show_nat n)" for n
    using show_nat_digits [of n] unfolding list_all_iff by (auto simp: is_digit_def)
  then have "list_all (\<lambda>c. byte c < 0x80) (show_int z)" by (simp add: show_int_def)
  then show ?thesis using ascii_runes by blast
qed

text \<open>
  A token the library signed is read back by it, with the claims it was signed with, while it has
  not expired, provided the claims survive JSON: strings that are UTF-8, dates already rounded as the library
  rounds them. Rounding a rounded date changes nothing.
\<close>

definition jwt_reads_back :: "primitives \<Rightarrow> bool" where
  "jwt_reads_back en \<longleftrightarrow> (\<forall>t. en_numeric_date en (en_numeric_date en t) = en_numeric_date en t) \<and>
     (\<forall>key claims s t. en_jwt_sign en key claims = Some s
     \<longrightarrow> utf8_valid (ac_Role claims) \<longrightarrow> utf8_valid (ac_Subject claims)
     \<longrightarrow> en_numeric_date en (ac_IssuedAt claims) = ac_IssuedAt claims
     \<longrightarrow> en_numeric_date en (ac_ExpiresAt claims) = ac_ExpiresAt claims
     \<longrightarrow> ac_Issuer claims = issuer \<longrightarrow> ac_Audience claims = [issuer] \<longrightarrow> t < ac_ExpiresAt claims
     \<longrightarrow> en_jwt_parse en key t s = Some claims)"

lemma NewAccessToken_read_back:
  assumes jwt: "jwt_reads_back en" and ids: "1 \<le> u" "is_int64 u" "1 \<le> b" "1 \<le> sid" "utf8_valid role"
    and mk: "NewAccessToken en m u b sid role outs t = Some (raw, expiry)"
    and live: "t' < en_numeric_date en expiry"
  shows "\<exists>claims. ParseAccessToken en m t' raw = Some claims \<and> SubjectID claims = Some u
    \<and> ac_BusinessID claims = b \<and> ac_SessionID claims = sid \<and> ac_Role claims = role \<and> ac_OutletIDs claims = outs"
proof -
  let ?claims = "access_claims en u b sid role outs t expiry"
  have sign: "en_jwt_sign en (tm_key m) ?claims = Some raw"
    using mk by (auto simp: NewAccessToken_def Let_def split: option.splits)
  have "utf8_valid (show_int u)" by (rule utf8_show_int)
  then have "en_jwt_parse en (tm_key m) t' raw = Some ?claims"
    using jwt sign live ids(5) by (auto simp: jwt_reads_back_def access_claims_def)
  moreover have "show_int u \<noteq> []" using ids(1) by (simp add: show_int_def)
  ultimately have "ParseAccessToken en m t' raw = Some ?claims"
    using ids by (simp add: ParseAccessToken_def access_claims_def)
  moreover have "SubjectID ?claims = Some u"
    using ids parse_int_show_int [of u] by (simp add: SubjectID_def access_claims_def)
  ultimately show ?thesis by (auto simp: access_claims_def)
qed

section \<open>The text of a refresh token\<close>

lemma base64_char_ascii: "n < 64 \<Longrightarrow> byte (base64_char n) < 0x80 \<and> base64_char n \<noteq> CHR 0x00 \<and> base64_char n \<noteq> CHR '' ''"
proof -
  have "list_all (\<lambda>c. byte c < 0x80 \<and> c \<noteq> CHR 0x00 \<and> c \<noteq> CHR '' '') base64_alphabet" by code_simp
  moreover have "length base64_alphabet = 64" by code_simp
  ultimately show "n < 64 \<Longrightarrow> ?thesis" unfolding base64_char_def list_all_length by simp
qed

lemma base64_url_ascii:
  "list_all (\<lambda>b. b < 256) bs \<Longrightarrow> list_all (\<lambda>c. byte c < 0x80 \<and> c \<noteq> CHR 0x00 \<and> c \<noteq> CHR '' '') (base64_url bs)"
proof (induction bs rule: base64_url.induct)
  case (1 a b c r)
  have "a div 4 < 64" "(a mod 4) * 16 + b div 16 < 64" "(b mod 16) * 4 + c div 64 < 64" "c mod 64 < 64"
    using 1(2) by auto
  with 1 show ?case using base64_char_ascii by simp
next
  case (2 a b)
  have "a div 4 < 64" "(a mod 4) * 16 + b div 16 < 64" "(b mod 16) * 4 < 64" using 2 by auto
  then show ?case using base64_char_ascii by simp
next
  case (3 a)
  have "a div 4 < 64" "(a mod 4) * 16 < 64" using 3 by auto
  then show ?case using base64_char_ascii by simp
qed simp

lemma length_base64_url: "length (base64_url bs) = (4 * length bs + 2) div 3"
  by (induction bs rule: base64_url.induct) simp_all

text \<open>The database stores the hash of any refresh token: it is ASCII text that is not blank.\<close>

lemma hash_text:
  assumes "list_all (\<lambda>b. b < 256) (en_sha256 en raw)" and "en_sha256 en raw \<noteq> []"
  shows "pg_text (HashRefreshToken en raw)" "btrim (HashRefreshToken en raw) \<noteq> []"
proof -
  have all: "list_all (\<lambda>c. byte c < 0x80 \<and> c \<noteq> CHR 0x00 \<and> c \<noteq> CHR '' '') (HashRefreshToken en raw)"
    unfolding HashRefreshToken_def by (rule base64_url_ascii [OF assms(1)])
  then have "list_all (\<lambda>c. byte c < 0x80) (HashRefreshToken en raw)" by (auto simp: list_all_iff)
  then show "pg_text (HashRefreshToken en raw)"
    using ascii_runes all by (auto simp: pg_text_def list_all_iff)
  have "length (HashRefreshToken en raw) = (4 * length (en_sha256 en raw) + 2) div 3"
    by (simp add: HashRefreshToken_def length_base64_url)
  then have "length (HashRefreshToken en raw) \<noteq> 0" using assms(2) by (cases "en_sha256 en raw") simp_all
  then show "btrim (HashRefreshToken en raw) \<noteq> []"
    using all by (cases "HashRefreshToken en raw") (auto simp: btrim_empty_iff blank_def)
qed

end
