(* ===== verification/Sessions.thy ===== *)
theory Sessions
  imports Session_Queries Security
begin

text \<open>
  Sessions of a tenant's accounts: the credentials internal/service/tenant_sessions.go builds inside the
  caller's transaction, and the handlers of internal/handlers/auth.go that log in, rotate a refresh token and
  log out. A request is its decoded body and what the audit row records of the client; the
  random bytes a handler draws are an argument. time.Now() is the same instant throughout a request.
\<close>

section \<open>Requests and replies\<close>

text \<open>
  The replies that are not successes, with the code of their body (internal/handlers and
  internal/middleware).
\<close>

datatype http_error =
    BadRequest string | TooLarge | Unauthorized | Forbidden string | TooMany int | NotFound
  | Conflict string | Internal | PreconditionRequired

text \<open>What the JSON decoder of the standard library says of one value of the body.\<close>

datatype decode_error = BodyTooLarge | Malformed | EndOfBody

text \<open>The first value, decoded with DisallowUnknownFields, and what follows it.\<close>

type_synonym 'a body = "(decode_error + 'a) \<times> (decode_error + unit)"

definition decodeAuthBody :: "'a body \<Rightarrow> decode_error + 'a" where
  "decodeAuthBody body =
     (case fst body of
        Inl e \<Rightarrow> Inl e
      | Inr dst \<Rightarrow>
          (case snd body of
             Inl EndOfBody \<Rightarrow> Inr dst
           | Inl e \<Rightarrow> Inl e
           | Inr extra \<Rightarrow> Inl Malformed))"

definition authBodyError :: "decode_error \<Rightarrow> http_error" where
  "authBodyError e = (if e = BodyTooLarge then TooLarge else BadRequest ''INVALID_REQUEST'')"

record client =
  cl_address :: "string option"
  cl_user_agent :: string

record loginRequest =
  lq_Email :: string
  lq_Password :: string

record Principal =
  pc_UserID :: i64
  pc_BusinessID :: i64
  pc_SessionID :: i64
  pc_Email :: string
  pc_FullName :: string
  pc_Role :: string
  pc_OutletIDs :: "i64 list"
  pc_Permissions :: "string list"

section \<open>Building credentials\<close>

record TenantIdentity =
  ti_ID :: i64
  ti_BusinessID :: i64
  ti_Email :: string
  ti_FullName :: string
  ti_Role :: string

record TenantSessions =
  ts_refreshTTL :: time
  ts_tokens :: "TokenManager option"

record SessionResponse =
  sr_AccessToken :: string
  sr_RefreshToken :: string
  sr_AccessTokenExpiresAt :: time
  sr_RefreshTokenExpiresAt :: time
  sr_Outlets :: "(i64 \<times> string) list"
  sr_User :: TenantIdentity
  sr_OutletIDs :: "i64 list"
  sr_Permissions :: "string list"

datatype session_error = SessionSql pgerr | NoActiveOutlet | NoRandom | NoToken

definition newAccess ::
  "primitives \<Rightarrow> TenantSessions \<Rightarrow> i64 \<Rightarrow> i64 \<Rightarrow> i64 \<Rightarrow> string \<Rightarrow> i64 list \<Rightarrow> time \<Rightarrow> (string \<times> time) option" where
  "newAccess en s userID businessID sessionID role outletIDs t =
     (case ts_tokens s of
        None \<Rightarrow> None
      | Some m \<Rightarrow> NewAccessToken en m userID businessID sessionID role outletIDs t)"

definition or_fail :: "'e \<Rightarrow> 'a option \<Rightarrow> ('e, 'a) m" where
  "or_fail e x = (case x of None \<Rightarrow> fail e | Some a \<Rightarrow> ret a)"

definition TenantSessions_Response ::
  "primitives \<Rightarrow> TenantSessions \<Rightarrow> TenantIdentity \<Rightarrow> i64 \<Rightarrow> string \<Rightarrow> time \<Rightarrow> i64 list \<Rightarrow> string list \<Rightarrow>
   (session_error, SessionResponse) m" where
  "TenantSessions_Response en s u sid refresh refreshExpiry outs perms =
     tbind (on_err SessionSql (ListUserOutlets (ti_BusinessID u) (ti_ID u))) (\<lambda>outlets.
     tbind time_now (\<lambda>t.
     tbind (or_fail NoToken (newAccess en s (ti_ID u) (ti_BusinessID u) sid (ti_Role u) outs t))
       (\<lambda>(access, accessExp).
     ret \<lparr>sr_AccessToken = access, sr_RefreshToken = refresh, sr_AccessTokenExpiresAt = accessExp,
          sr_RefreshTokenExpiresAt = refreshExpiry, sr_Outlets = outlets, sr_User = u,
          sr_OutletIDs = outs, sr_Permissions = perms\<rparr>)))"

definition TenantSessions_Create ::
  "primitives \<Rightarrow> TenantSessions \<Rightarrow> nat list option \<Rightarrow> TenantIdentity \<Rightarrow> i64 list \<Rightarrow> string list \<Rightarrow>
   (session_error, SessionResponse \<times> i64) m" where
  "TenantSessions_Create en s random u outs perms =
     tbind (on_err SessionSql (CreateSessionFamily (ti_BusinessID u) (ti_ID u))) (\<lambda>familyID.
     tbind (or_fail NoRandom (NewRefreshToken en random)) (\<lambda>(raw, hash).
     tbind time_now (\<lambda>t.
     tbind (on_err SessionSql (CreateRefreshToken (ti_BusinessID u) (ti_ID u) familyID hash
              (t + ts_refreshTTL s))) (\<lambda>session.
     tbind (TenantSessions_Response en s u (rt_id session) raw (rt_expires_at session) outs perms)
       (\<lambda>response.
     ret (response, familyID))))))"

section \<open>Shared steps of the handlers\<close>

definition authorization ::
  "primitives \<Rightarrow> i64 \<Rightarrow> i64 \<Rightarrow> string \<Rightarrow> (session_error, i64 list \<times> string list) m" where
  "authorization en bid uid role =
     tbind (on_err SessionSql (ListUserOutletIDs bid uid)) (\<lambda>outs.
     if role = ''LAUNDRY_STAFF'' \<and> outs = [] then fail NoActiveOutlet
     else
     tbind (on_err SessionSql (ListUserPermissionCodes (en_collation en) bid uid)) (\<lambda>perms.
     ret (outs, perms)))"

definition auditSession :: "client \<Rightarrow> i64 \<Rightarrow> i64 \<Rightarrow> i64 \<Rightarrow> string \<Rightarrow> (pgerr, unit) m" where
  "auditSession c businessID userID familyID action =
     InsertAuditLog businessID (Some userID) action ''session_family'' (Some familyID) None
       (Some (JObj [(''event'', JStr action)])) (cl_address c) (audit_user_agent (cl_user_agent c))"

definition as_internal :: "('e, 'a) m \<Rightarrow> (http_error, 'a) m" where
  "as_internal = on_err (\<lambda>_. Internal)"

definition as_unauthorized :: "('e, 'a) m \<Rightarrow> (http_error, 'a) m" where
  "as_unauthorized = on_err (\<lambda>_. Unauthorized)"

section \<open>Login\<close>

definition issue_body ::
  "primitives \<Rightarrow> TenantSessions \<Rightarrow> client \<Rightarrow> nat list option \<Rightarrow> TenantIdentity \<Rightarrow> (http_error, SessionResponse) m" where
  "issue_body en s c random u =
       (tbind (as_unauthorized (authorization en (ti_BusinessID u) (ti_ID u) (ti_Role u))) (\<lambda>(outs, perms).
        tbind (as_internal (TenantSessions_Create en s random u outs perms)) (\<lambda>(response, familyID).
        tbind (as_internal (auditSession c (ti_BusinessID u) (ti_ID u) familyID ''AUTH_SESSION_CREATED''))
          (\<lambda>_.
        ret response))))"

definition issue ::
  "primitives \<Rightarrow> TenantSessions \<Rightarrow> client \<Rightarrow> nat list option \<Rightarrow> TenantIdentity \<Rightarrow> (http_error, SessionResponse) m" where
  "issue en s c random u = with_tx Internal (issue_body en s c random u)"

definition identity_of :: "user_row \<Rightarrow> TenantIdentity" where
  "identity_of u = \<lparr>ti_ID = u_id u, ti_BusinessID = u_business_id u, ti_Email = u_email u,
     ti_FullName = u_full_name u, ti_Role = u_role u\<rparr>"

definition AuthHandler_Login ::
  "primitives \<Rightarrow> TenantSessions \<Rightarrow> client \<Rightarrow> nat list option \<Rightarrow> loginRequest body \<Rightarrow> (http_error, SessionResponse) m" where
  "AuthHandler_Login en s c random body =
     (case decodeAuthBody body of
        Inl e \<Rightarrow> fail (authBodyError e)
      | Inr req \<Rightarrow>
          if trim_space (lq_Email req) = [] \<or> lq_Password req = [] then fail (BadRequest ''INVALID_REQUEST'')
          else
          tbind (attempt (GetUserForLogin (en_lower en) (trim_space (lq_Email req)))) (\<lambda>found.
          case found of
            Inl e \<Rightarrow> fail (if e = NoRows then Unauthorized else Internal)
          | Inr u \<Rightarrow>
              if length (lq_Password req) > MaxBcryptPasswordBytes then fail Unauthorized
              else if \<not> VerifyPassword en (u_password_hash u) (lq_Password req) \<or> \<not> u_is_active u
                then fail Unauthorized
              else issue en s c random (identity_of u)))"

section \<open>Refresh\<close>

text \<open>A replayed token revokes its family; the transaction commits and the reply is still 401.\<close>

definition Refresh_replay :: "client \<Rightarrow> family_row \<Rightarrow> (http_error, unit) m" where
  "Refresh_replay c family =
     tbind (as_internal (RevokeSessionFamily (sf_id family) (sf_business_id family) (sf_user_id family))) (\<lambda>_.
     as_internal (auditSession c (sf_business_id family) (sf_user_id family) (sf_id family)
       ''AUTH_REFRESH_REPLAY_DETECTED''))"

definition Refresh_rotate ::
  "primitives \<Rightarrow> TenantSessions \<Rightarrow> client \<Rightarrow> nat list option \<Rightarrow> family_row \<Rightarrow> token_row \<Rightarrow>
   (http_error, SessionResponse) m" where
  "Refresh_rotate en s c random family session =
     tbind time_now (\<lambda>t.
     if \<not> t < rt_expires_at session then fail Unauthorized
     else
     tbind (as_unauthorized (GetActiveUser (sf_user_id family) (sf_business_id family))) (\<lambda>u.
     tbind (as_unauthorized (authorization en (u_business_id u) (u_id u) (u_role u))) (\<lambda>(outs, perms).
     tbind (or_fail Internal (NewRefreshToken en random)) (\<lambda>(raw, tokenHash).
     tbind (as_internal (CreateRefreshToken (u_business_id u) (u_id u) (sf_id family) tokenHash
              (t + ts_refreshTTL s))) (\<lambda>newSession.
     tbind (as_internal (TenantSessions_Response en s (identity_of u) (rt_id newSession) raw
              (rt_expires_at newSession) outs perms)) (\<lambda>response.
     tbind (as_internal (RevokeRefreshToken (rt_id session) (rt_business_id session) (rt_user_id session)))
       (\<lambda>affected.
     if affected \<noteq> 1 then fail Internal
     else
     tbind (as_internal (auditSession c (sf_business_id family) (sf_user_id family) (sf_id family)
              ''AUTH_SESSION_REFRESHED'')) (\<lambda>_.
     ret response))))))))"

definition Refresh_body ::
  "primitives \<Rightarrow> TenantSessions \<Rightarrow> client \<Rightarrow> nat list option \<Rightarrow> string \<Rightarrow> token_row \<Rightarrow>
   (http_error, SessionResponse option) m" where
  "Refresh_body en s c random hash lookup =
     tbind (as_unauthorized (LockSessionFamily (rt_family_id lookup) (rt_business_id lookup) (rt_user_id lookup)))
       (\<lambda>family.
     if sf_revoked_at family \<noteq> None then fail Unauthorized
     else
     tbind (as_unauthorized (GetRefreshTokenForUpdate hash)) (\<lambda>session.
     if rt_family_id session \<noteq> sf_id family \<or> rt_user_id session \<noteq> sf_user_id family then fail Unauthorized
     else if rt_revoked_at session \<noteq> None
       then tbind (Refresh_replay c family) (\<lambda>_. ret None)
     else tbind (Refresh_rotate en s c random family session) (\<lambda>response. ret (Some response))))"

definition AuthHandler_Refresh ::
  "primitives \<Rightarrow> TenantSessions \<Rightarrow> client \<Rightarrow> nat list option \<Rightarrow> string body \<Rightarrow> (http_error, SessionResponse) m" where
  "AuthHandler_Refresh en s c random body =
     (case decodeAuthBody body of
        Inl e \<Rightarrow> fail (authBodyError e)
      | Inr refreshToken \<Rightarrow>
          if refreshToken = [] then fail (BadRequest ''INVALID_REQUEST'')
          else let hash = HashRefreshToken en refreshToken in
          tbind (attempt (FindRefreshTokenFamily hash)) (\<lambda>found.
          case found of
            Inl e \<Rightarrow> fail (if e = NoRows then Unauthorized else Internal)
          | Inr lookup \<Rightarrow>
              tbind (with_tx Internal (Refresh_body en s c random hash lookup)) (\<lambda>outcome.
              case outcome of None \<Rightarrow> fail Unauthorized | Some response \<Rightarrow> ret response)))"

section \<open>Logout and the session's owner\<close>

definition Logout_body :: "client \<Rightarrow> Principal \<Rightarrow> token_row \<Rightarrow> (http_error, unit) m" where
  "Logout_body c p lookup =
     tbind (as_unauthorized (LockSessionFamily (rt_family_id lookup) (pc_BusinessID p) (pc_UserID p))) (\<lambda>family.
     if sf_revoked_at family \<noteq> None then fail Unauthorized
     else
     tbind (as_unauthorized (GetRefreshTokenByID (pc_SessionID p) (pc_BusinessID p) (pc_UserID p))) (\<lambda>bearer.
     if rt_family_id bearer \<noteq> sf_id family then fail Unauthorized
     else
     tbind (as_internal (RevokeSessionFamily (sf_id family) (sf_business_id family) (sf_user_id family))) (\<lambda>_.
     as_internal (auditSession c (sf_business_id family) (sf_user_id family) (sf_id family)
       ''AUTH_SESSION_REVOKED''))))"

definition AuthHandler_Logout ::
  "primitives \<Rightarrow> client \<Rightarrow> Principal option \<Rightarrow> string body \<Rightarrow> (http_error, unit) m" where
  "AuthHandler_Logout en c who body =
     (case who of
        None \<Rightarrow> fail Unauthorized
      | Some p \<Rightarrow>
          case decodeAuthBody body of
            Inl e \<Rightarrow> fail (authBodyError e)
          | Inr refreshToken \<Rightarrow>
              if refreshToken = [] then fail (BadRequest ''INVALID_REQUEST'')
              else
              tbind (as_unauthorized (FindRefreshTokenFamily (HashRefreshToken en refreshToken))) (\<lambda>lookup.
              if rt_business_id lookup \<noteq> pc_BusinessID p \<or> rt_user_id lookup \<noteq> pc_UserID p then fail Unauthorized
              else with_tx Internal (Logout_body c p lookup)))"

record MeResponse =
  me_Principal :: Principal
  me_Outlets :: "(i64 \<times> string) list"

definition AuthHandler_Me :: "Principal option \<Rightarrow> (http_error, MeResponse) m" where
  "AuthHandler_Me who =
     (case who of
        None \<Rightarrow> fail Unauthorized
      | Some p \<Rightarrow>
          tbind (as_internal (ListUserOutlets (pc_BusinessID p) (pc_UserID p))) (\<lambda>outlets.
          ret \<lparr>me_Principal = p, me_Outlets = outlets\<rparr>))"

end
