(* ===== verification/Access.thy ===== *)
theory Access
  imports Sessions "HOL-Library.AList"
begin

text \<open>
  The middleware in front of the handlers (internal/middleware/auth.go and auth_limits.go): the check of a bearer
  token against the current state of the database, permissions and roles, and the limiter of
  attempts in front of login and refresh. A middleware is its decision: an error reply, or what the
  next handler is called with.
\<close>

section \<open>Authenticate\<close>

text \<open>strings.Fields: the parts between runs of white space.\<close>

fun fields_acc :: "string \<Rightarrow> string \<Rightarrow> string list" where
  "fields_acc part [] = (if part = [] then [] else [part])"
| "fields_acc part (c # r) =
     (let n = space_at (c # r) in
      if n = 0 then fields_acc (part @ [c]) r
      else (if part = [] then [] else [part]) @ fields_acc [] (drop (n - 1) r))"

definition string_fields :: "string \<Rightarrow> string list" where
  "string_fields s = fields_acc [] s"

fun same :: "i64 list \<Rightarrow> i64 list \<Rightarrow> bool" where
  "same [] [] = True"
| "same (x # xs) (y # ys) = (if x \<noteq> y then False else same xs ys)"
| "same _ _ = False"

definition bearer :: "string \<Rightarrow> string option" where
  "bearer header =
     (let parts = string_fields header in
      if length parts \<noteq> 2 \<or> parts ! 0 \<noteq> ''Bearer'' then None else Some (parts ! 1))"

definition authenticate ::
  "primitives \<Rightarrow> TokenManager \<Rightarrow> bool \<Rightarrow> string \<Rightarrow> (http_error, Principal) m" where
  "authenticate en m forLogout header =
     tbind (or_fail Unauthorized (bearer header)) (\<lambda>raw.
     tbind time_now (\<lambda>t.
     tbind (or_fail Unauthorized (ParseAccessToken en m t raw)) (\<lambda>claims.
     tbind (or_fail Unauthorized (SubjectID claims)) (\<lambda>uid.
     tbind (as_unauthorized
              (if forLogout then GetLogoutSession (ac_SessionID claims) (ac_BusinessID claims) uid
               else GetActiveRefreshSession (ac_SessionID claims) (ac_BusinessID claims) uid)) (\<lambda>_.
     tbind (as_unauthorized (GetActiveUser uid (ac_BusinessID claims))) (\<lambda>u.
     if u_role u \<noteq> ac_Role claims then fail Unauthorized
     else
     tbind (as_unauthorized (ListUserOutletIDs (ac_BusinessID claims) uid)) (\<lambda>outs.
     if \<not> same outs (ac_OutletIDs claims) then fail Unauthorized
     else if u_role u = ''LAUNDRY_STAFF'' \<and> outs = [] then fail Unauthorized
     else
     tbind (as_unauthorized (ListUserPermissionCodes (en_collation en) (ac_BusinessID claims) uid)) (\<lambda>perms.
     ret \<lparr>pc_UserID = uid, pc_BusinessID = ac_BusinessID claims, pc_SessionID = ac_SessionID claims,
          pc_Email = u_email u, pc_FullName = u_full_name u, pc_Role = u_role u, pc_OutletIDs = outs,
          pc_Permissions = perms\<rparr>))))))))"

definition Authenticate :: "primitives \<Rightarrow> TokenManager \<Rightarrow> string \<Rightarrow> (http_error, Principal) m" where
  "Authenticate en m = authenticate en m False"

definition AuthenticateForLogout :: "primitives \<Rightarrow> TokenManager \<Rightarrow> string \<Rightarrow> (http_error, Principal) m" where
  "AuthenticateForLogout en m = authenticate en m True"

section \<open>Permissions and roles\<close>

text \<open>None lets the request through.\<close>

definition RequirePermission :: "string \<Rightarrow> Principal option \<Rightarrow> http_error option" where
  "RequirePermission permission who =
     (case who of
        None \<Rightarrow> Some Unauthorized
      | Some p \<Rightarrow>
          if pc_Role p = ''ADMIN'' then None
          else if list_ex (\<lambda>v. v = permission) (pc_Permissions p) then None
          else Some (Forbidden ''FORBIDDEN''))"

definition RequireAdmin :: "Principal option \<Rightarrow> http_error option" where
  "RequireAdmin who =
     (case who of
        None \<Rightarrow> Some Unauthorized
      | Some p \<Rightarrow> if pc_Role p \<noteq> ''ADMIN'' then Some (Forbidden ''FORBIDDEN'') else None)"

section \<open>The limiter\<close>

record rateEntry =
  re_count :: int
  re_until :: time

record AuthLimiter =
  al_entries :: "(string \<times> rateEntry) list"
  al_capacity :: int
  al_limit :: int
  al_window :: time

definition NewAuthLimiter :: "int \<Rightarrow> int \<Rightarrow> time \<Rightarrow> AuthLimiter" where
  "NewAuthLimiter capacity limit window =
     \<lparr>al_entries = [], al_capacity = capacity, al_limit = limit, al_window = window\<rparr>"

text \<open>int(retry.Seconds()) + 1, at least 1.\<close>

definition tooMany :: "time \<Rightarrow> http_error" where
  "tooMany retry = (let seconds = go_quo retry 1000000 + 1 in TooMany (if seconds < 1 then 1 else seconds))"

definition live_entries :: "time \<Rightarrow> (string \<times> rateEntry) list \<Rightarrow> (string \<times> rateEntry) list" where
  "live_entries t = filter (\<lambda>(k, v). t < re_until v)"

text \<open>The decision on a request with this key at time t; the clock is read again for Retry-After.\<close>

definition limiter_step ::
  "AuthLimiter \<Rightarrow> string \<Rightarrow> time \<Rightarrow> time \<Rightarrow> AuthLimiter \<times> http_error option" where
  "limiter_step l key t t' =
     (let before = map_of (al_entries l) key;
          found = (case before of None \<Rightarrow> False | Some e \<Rightarrow> t < re_until e);
          kept = (if before \<noteq> None \<and> \<not> found then AList.delete key (al_entries l) else al_entries l);
          swept = (if \<not> found \<and> al_capacity l \<le> int (length kept) then live_entries t kept else kept)
      in if \<not> found \<and> al_capacity l \<le> int (length swept)
         then (l\<lparr>al_entries := swept\<rparr>, Some (tooMany (al_window l)))
         else
           let entry = (if found then the before else \<lparr>re_count = 0, re_until = t + al_window l\<rparr>);
               counted = (if re_count entry \<le> al_limit l then entry\<lparr>re_count := re_count entry + 1\<rparr> else entry)
           in (l\<lparr>al_entries := AList.update key counted swept\<rparr>,
               if al_limit l < re_count counted then Some (tooMany (re_until counted - t')) else None))"

definition limiter_key :: "string \<Rightarrow> string \<Rightarrow> string" where
  "limiter_key path realIP = path @ '':'' @ realIP"

definition AuthBodyLimit :: "int \<Rightarrow> int \<Rightarrow> http_error option" where
  "AuthBodyLimit limit contentLength = (if contentLength > limit then Some TooLarge else None)"

section \<open>The middleware only reads\<close>

lemma same_iff [simp]: "same xs ys \<longleftrightarrow> xs = ys"
  by (induction xs ys rule: same.induct) auto

lemma reads_or_fail [reads_intro]: "reads (or_fail e x)"
  unfolding or_fail_def by (cases x) (simp_all add: reads_ret reads_fail)

lemma or_fail_Inr [run_inv]: "or_fail e x w = (Inr a, w') \<longleftrightarrow> x = Some a \<and> w' = w"
  by (cases x) (auto simp: or_fail_def run_inv)

lemma as_error_Inr [run_inv]:
  "as_unauthorized p w = (Inr a, w') \<longleftrightarrow> p w = (Inr a, w')" "as_internal p w = (Inr a, w') \<longleftrightarrow> p w = (Inr a, w')"
  by (simp_all add: as_unauthorized_def as_internal_def run_inv)

lemma reads_as_error [reads_intro]: "reads p \<Longrightarrow> reads (as_unauthorized p)" "reads p \<Longrightarrow> reads (as_internal p)"
  by (simp_all add: as_unauthorized_def as_internal_def reads_on_err)

lemma authenticate_reads: "reads (authenticate en m forLogout header)"
  unfolding authenticate_def by (intro reads_intro)

lemma space_at_plain:
  assumes "0x20 < byte c" "byte c < 0x80"
  shows "space_at (c # r) = 0"
proof -
  have "list_all (\<lambda>p. p \<noteq> [] \<and> (byte (hd p) \<le> 0x20 \<or> 0x80 \<le> byte (hd p))) space_codes" by code_simp
  then have "p \<noteq> [] \<and> hd p \<noteq> c" if "p \<in> set space_codes" for p using that assms by (auto simp: list_all_iff)
  moreover have "hd p = c" if "p \<noteq> []" "starts_with p (c # r)" for p
    using that by (cases p) (simp_all add: starts_with_def)
  ultimately have "find (\<lambda>p. starts_with p (c # r)) space_codes = None" by (auto simp: find_None_iff)
  then show ?thesis by (simp add: space_at_def)
qed

lemma fields_acc_plain:
  "list_all (\<lambda>c. 0x20 < byte c \<and> byte c < 0x80) s \<Longrightarrow> part @ s \<noteq> [] \<Longrightarrow> fields_acc part s = [part @ s]"
proof (induction s arbitrary: part)
  case (Cons c s)
  then show ?case using space_at_plain [of c s] by (simp add: Let_def)
qed simp

lemma fields_acc_until_space:
  "list_all (\<lambda>c. 0x20 < byte c \<and> byte c < 0x80) s \<Longrightarrow> part @ s \<noteq> [] \<Longrightarrow>
     fields_acc part (s @ CHR '' '' # r) = (part @ s) # fields_acc [] r"
proof (induction s arbitrary: part)
  case Nil
  have "space_at (CHR '' '' # r) = 1" by (simp add: space_at_def space_codes_def starts_with_def)
  with Nil show ?case by simp
next
  case (Cons c s)
  then show ?case using space_at_plain [of c "s @ CHR '' '' # r"] by (simp add: Let_def)
qed

text \<open>A header the server writes for a token is read back by the middleware.\<close>

lemma bearer_header:
  assumes "raw \<noteq> []" and "list_all (\<lambda>c. 0x20 < byte c \<and> byte c < 0x80) raw"
  shows "bearer (''Bearer '' @ raw) = Some raw"
proof -
  have "list_all (\<lambda>c. 0x20 < byte c \<and> byte c < 0x80) ''Bearer''" by code_simp
  from fields_acc_until_space [OF this, of "[]" raw] have "string_fields (''Bearer '' @ raw) = [''Bearer'', raw]"
    using fields_acc_plain [OF assms(2), of "[]"] assms(1) by (simp add: string_fields_def)
  then show ?thesis by (simp add: bearer_def)
qed

section \<open>What the limiter keeps\<close>

definition limiter_ok :: "AuthLimiter \<Rightarrow> bool" where
  "limiter_ok l \<longleftrightarrow> distinct (map fst (al_entries l)) \<and> int (length (al_entries l)) \<le> max 0 (al_capacity l)"

lemma limiter_starts: "limiter_ok (NewAuthLimiter capacity limit window)"
  by (simp add: limiter_ok_def NewAuthLimiter_def)

lemma length_update_known: "k \<in> fst ` set es \<Longrightarrow> length (AList.update k v es) = length es"
  by (induction es) auto

lemma length_update_new: "length (AList.update k v es) \<le> Suc (length es)"
  by (induction es) auto

lemma distinct_filter_fst: "distinct (map fst es) \<Longrightarrow> distinct (map fst (filter P es))"
  by (induction es) auto

lemma length_delete_le: "length (AList.delete k es) \<le> length es"
  by (simp add: AList.delete_eq)

text \<open>The step, by cases on what the table holds for the key.\<close>

definition key_live :: "AuthLimiter \<Rightarrow> string \<Rightarrow> time \<Rightarrow> bool" where
  "key_live l key t \<longleftrightarrow> (\<exists>e. map_of (al_entries l) key = Some e \<and> t < re_until e)"

lemma limiter_step_known:
  assumes "map_of (al_entries l) key = Some e" and "t < re_until e"
  shows "limiter_step l key t t' =
    (let counted = (if re_count e \<le> al_limit l then e\<lparr>re_count := re_count e + 1\<rparr> else e)
     in (l\<lparr>al_entries := AList.update key counted (al_entries l)\<rparr>,
         if al_limit l < re_count counted then Some (tooMany (re_until counted - t')) else None))"
  using assms by (simp add: limiter_step_def Let_def)

text \<open>The table the step writes into: what it swept was dead, and it made room for a new key.\<close>

lemma live_entries_map_of:
  "distinct (map fst es) \<Longrightarrow> map_of es k = Some e \<Longrightarrow> t < re_until e \<Longrightarrow> map_of (live_entries t es) k = Some e"
  unfolding live_entries_def by (induction es) (auto split: if_splits)

lemma limiter_step_shape:
  assumes "distinct (map fst (al_entries l))" and "limiter_step l key t t' = (l', r)"
  obtains swept where "distinct (map fst swept)" "length swept \<le> length (al_entries l)"
    "\<And>k e. k \<noteq> key \<Longrightarrow> map_of (al_entries l) k = Some e \<Longrightarrow> t < re_until e \<Longrightarrow> map_of swept k = Some e"
    "l' = l\<lparr>al_entries := swept\<rparr> \<or>
      (key \<in> fst ` set swept \<or> int (length swept) < al_capacity l) \<and> (\<exists>v. l' = l\<lparr>al_entries := AList.update key v swept\<rparr>)"
proof -
  let ?es = "al_entries l"
  define found where "found = (case map_of ?es key of None \<Rightarrow> False | Some e \<Rightarrow> t < re_until e)"
  define kept where "kept = (if map_of ?es key \<noteq> None \<and> \<not> found then AList.delete key ?es else ?es)"
  define swept where "swept = (if \<not> found \<and> al_capacity l \<le> int (length kept) then live_entries t kept else kept)"
  have kept: "distinct (map fst kept)" "length kept \<le> length ?es"
    "k \<noteq> key \<Longrightarrow> map_of kept k = map_of ?es k" for k
    using assms(1) length_delete_le [of key ?es] by (simp_all add: kept_def AList.distinct_delete AList.delete_conv')
  have "distinct (map fst swept)" "length swept \<le> length ?es"
    using kept(1,2) le_trans [OF length_filter_le kept(2)]
    by (simp_all add: swept_def live_entries_def distinct_filter_fst)
  moreover have "map_of swept k = Some e" if "k \<noteq> key" "map_of ?es k = Some e" "t < re_until e" for k e
    using that kept live_entries_map_of [OF kept(1), of k e t] by (simp add: swept_def)
  moreover have "key \<in> fst ` set swept" if found
  proof -
    from that obtain e where "map_of ?es key = Some e" by (auto simp: found_def split: option.splits)
    from map_of_SomeD [OF this] that show ?thesis by (force simp: swept_def kept_def)
  qed
  moreover have "l' = l\<lparr>al_entries := swept\<rparr> \<or>
      (found \<or> int (length swept) < al_capacity l) \<and> (\<exists>v. l' = l\<lparr>al_entries := AList.update key v swept\<rparr>)"
    using assms(2) unfolding limiter_step_def Let_def found_def [symmetric] kept_def [symmetric] swept_def [symmetric]
    by (auto split: if_splits)
  ultimately show thesis using that by blast
qed

lemma limiter_step_other:
  assumes "limiter_step l key t t' = (l', r)" and "map_of (al_entries l) k = Some e" and "k \<noteq> key" and "t < re_until e"
    and "distinct (map fst (al_entries l))"
  shows "map_of (al_entries l') k = Some e"
proof -
  obtain swept where "map_of swept k = Some e"
    and "l' = l\<lparr>al_entries := swept\<rparr> \<or> (\<exists>v. l' = l\<lparr>al_entries := AList.update key v swept\<rparr>)"
    using limiter_step_shape [OF assms(5,1)] assms(2-4) by metis
  then show ?thesis using assms(3) by (auto simp: AList.update_conv')
qed

lemma limiter_step_config:
  assumes "limiter_step l key t t' = (l', r)"
  shows "al_limit l' = al_limit l" "al_window l' = al_window l" "al_capacity l' = al_capacity l"
  using assms by (auto simp: limiter_step_def Let_def split: if_splits)

lemma limiter_step_ok:
  assumes "limiter_ok l" and "limiter_step l key t t' = (l', r)"
  shows "limiter_ok l'"
proof -
  have d: "distinct (map fst (al_entries l))" and n: "int (length (al_entries l)) \<le> max 0 (al_capacity l)"
    using assms(1) by (simp_all add: limiter_ok_def)
  obtain swept where ds: "distinct (map fst swept)" "length swept \<le> length (al_entries l)"
    and alt: "l' = l\<lparr>al_entries := swept\<rparr> \<or>
      (key \<in> fst ` set swept \<or> int (length swept) < al_capacity l) \<and> (\<exists>v. l' = l\<lparr>al_entries := AList.update key v swept\<rparr>)"
    using limiter_step_shape [OF d assms(2)] by metis
  have len: "int (length swept) \<le> max 0 (al_capacity l)" using ds(2) n by simp
  have "int (length (AList.update key v swept)) \<le> max 0 (al_capacity l)"
    if "key \<in> fst ` set swept \<or> int (length swept) < al_capacity l" for v
    using that
  proof
    assume "key \<in> fst ` set swept"
    with len show ?thesis by (simp only: length_update_known)
  next
    assume "int (length swept) < al_capacity l"
    with length_update_new [of key v swept] show ?thesis by simp
  qed
  moreover have "distinct (map fst (AList.update key v swept))" for v
    using ds(1) by (simp add: AList.distinct_update)
  ultimately have upd: "limiter_ok (l\<lparr>al_entries := AList.update key v swept\<rparr>)"
    if "key \<in> fst ` set swept \<or> int (length swept) < al_capacity l" for v
    using that by (simp add: limiter_ok_def)
  show ?thesis using alt
  proof
    assume "l' = l\<lparr>al_entries := swept\<rparr>"
    with ds(1) len show ?thesis by (simp add: limiter_ok_def)
  qed (use upd in blast)
qed

text \<open>A run of requests, each with its key, its time and the time its reply is written.\<close>

fun limiter_run :: "AuthLimiter \<Rightarrow> (string \<times> time \<times> time) list \<Rightarrow> (string \<times> http_error option) list \<times> AuthLimiter" where
  "limiter_run l [] = ([], l)"
| "limiter_run l ((key, t, t') # reqs) =
     (case limiter_step l key t t' of (l', r) \<Rightarrow>
        (case limiter_run l' reqs of (rs, l'') \<Rightarrow> ((key, r) # rs, l'')))"

definition passed :: "string \<Rightarrow> (string \<times> http_error option) list \<Rightarrow> nat" where
  "passed key rs = length (filter (\<lambda>(k, r). k = key \<and> r = None) rs)"

lemma limiter_run_ok: "limiter_ok l \<Longrightarrow> limiter_run l reqs = (rs, l') \<Longrightarrow> limiter_ok l'"
proof (induction l reqs arbitrary: rs rule: limiter_run.induct)
  case (2 l key t t' reqs)
  then show ?case by (auto split: prod.splits dest: limiter_step_ok)
qed simp

lemma passed_within_window:
  assumes "limiter_ok l" and "map_of (al_entries l) key = Some e" and "\<forall>(k, t, t') \<in> set reqs. t < re_until e"
    and "limiter_run l reqs = (rs, l')"
  shows "int (passed key rs) \<le> max 0 (al_limit l - re_count e)"
  using assms
proof (induction l reqs arbitrary: e rs rule: limiter_run.induct)
  case (1 l)
  then show ?case by (simp add: passed_def)
next
  case (2 l k t t' reqs)
  obtain l1 r where st: "limiter_step l k t t' = (l1, r)" by (cases "limiter_step l k t t'")
  obtain rs1 where rn: "limiter_run l1 reqs = (rs1, l')" and rs: "rs = (k, r) # rs1"
    using "2.prems"(4) st by (auto split: prod.splits)
  have ok: "limiter_ok l1" by (rule limiter_step_ok [OF "2.prems"(1) st])
  have t: "t < re_until e" and later: "\<forall>(k, t, t') \<in> set reqs. t < re_until e" using "2.prems"(3) by auto
  have cfg: "al_limit l1 = al_limit l" using limiter_step_config [OF st] by simp
  show ?case
  proof (cases "k = key")
    case False
    have "map_of (al_entries l1) key = Some e"
      using limiter_step_other [OF st "2.prems"(2) _ t] False "2.prems"(1) by (simp add: limiter_ok_def)
    from "2.IH" [OF st [symmetric] ok this later rn] False show ?thesis by (simp add: rs passed_def cfg)
  next
    case True
    define c where "c = (if re_count e \<le> al_limit l then e\<lparr>re_count := re_count e + 1\<rparr> else e)"
    have s: "l1 = l\<lparr>al_entries := AList.update key c (al_entries l)\<rparr>"
      "r = (if al_limit l < re_count c then Some (tooMany (re_until c - t')) else None)"
      using st [unfolded True limiter_step_known [OF "2.prems"(2) t, of t'] Let_def c_def [symmetric]] by auto
    have "map_of (al_entries l1) key = Some c" "re_until c = re_until e"
      by (simp_all add: s c_def AList.update_conv')
    then have "int (passed key rs1) \<le> max 0 (al_limit l - re_count c)"
      using "2.IH" [OF st [symmetric] ok _ _ rn, of c] later cfg by simp
    moreover have "int (passed key rs) = (if r = None then 1 else 0) + int (passed key rs1)"
      by (simp add: rs passed_def True)
    ultimately show ?thesis using s(2) by (simp add: c_def split: if_splits)
  qed
qed

text \<open>A window counted from any moment at which the key has no entry that is still running.\<close>

definition key_idle :: "AuthLimiter \<Rightarrow> string \<Rightarrow> time \<Rightarrow> bool" where
  "key_idle l key t0 \<longleftrightarrow> (\<forall>e. map_of (al_entries l) key = Some e \<longrightarrow> re_until e \<le> t0)"

lemma live_entries_subset: "distinct (map fst es) \<Longrightarrow> map_of (live_entries t es) k = Some e \<Longrightarrow> map_of es k = Some e"
  unfolding live_entries_def by (auto simp: distinct_filter_fst)

lemma limiter_step_idle:
  assumes "distinct (map fst (al_entries l))" and "key_idle l key t0" and "t0 \<le> t" and "limiter_step l key t t' = (l', r)"
  shows "key_idle l' key t0 \<and> r \<noteq> None \<or>
    (\<exists>e. map_of (al_entries l') key = Some e \<and> re_until e = t + al_window l
       \<and> re_count e = (if 0 \<le> al_limit l then 1 else 0) \<and> (r = None \<longleftrightarrow> re_count e \<le> al_limit l))"
proof -
  let ?es = "al_entries l"
  have nf: "\<not> (case map_of ?es key of None \<Rightarrow> False | Some e \<Rightarrow> t < re_until e)"
    using assms(2,3) by (auto simp: key_idle_def split: option.splits)
  define kept where "kept = (if map_of ?es key \<noteq> None then AList.delete key ?es else ?es)"
  define swept where "swept = (if al_capacity l \<le> int (length kept) then live_entries t kept else kept)"
  have k: "distinct (map fst kept)" "map_of kept key = None"
    using assms(1) by (cases "map_of ?es key"; simp add: kept_def AList.distinct_delete AList.delete_conv')+
  then have "map_of swept key = None"
    using live_entries_subset [of kept t key] by (cases "map_of (live_entries t kept) key") (auto simp: swept_def)
  then have idle: "key_idle (l\<lparr>al_entries := swept\<rparr>) key t0" by (simp add: key_idle_def)
  have "limiter_step l key t t' =
      (if al_capacity l \<le> int (length swept) then (l\<lparr>al_entries := swept\<rparr>, Some (tooMany (al_window l)))
       else let counted = \<lparr>re_count = (if 0 \<le> al_limit l then 1 else 0), re_until = t + al_window l\<rparr>
         in (l\<lparr>al_entries := AList.update key counted swept\<rparr>,
             if al_limit l < re_count counted then Some (tooMany (re_until counted - t')) else None))"
    unfolding limiter_step_def Let_def swept_def kept_def using nf by simp
  then show ?thesis
    using assms(4) idle by (auto simp: Let_def AList.update_conv' split: if_splits)
qed

lemma limiter_step_other_idle:
  assumes "distinct (map fst (al_entries l))" and "key_idle l key t0" and "k \<noteq> key" and "limiter_step l k t t' = (l', r)"
  shows "key_idle l' key t0"
proof -
  let ?es = "al_entries l"
  define found where "found = (case map_of ?es k of None \<Rightarrow> False | Some e \<Rightarrow> t < re_until e)"
  define kept where "kept = (if map_of ?es k \<noteq> None \<and> \<not> found then AList.delete k ?es else ?es)"
  define swept where "swept = (if \<not> found \<and> al_capacity l \<le> int (length kept) then live_entries t kept else kept)"
  have k: "distinct (map fst kept)" "map_of kept key = map_of ?es key"
    using assms(1,3) by (auto simp: kept_def AList.distinct_delete AList.delete_conv')
  have "map_of swept key = Some e \<Longrightarrow> map_of ?es key = Some e" for e
    using k live_entries_subset [OF k(1), of t key e] by (simp add: swept_def split: if_splits)
  moreover have "l' = l\<lparr>al_entries := swept\<rparr> \<or> (\<exists>v. l' = l\<lparr>al_entries := AList.update k v swept\<rparr>)"
    using assms(4) unfolding limiter_step_def Let_def found_def [symmetric] kept_def [symmetric] swept_def [symmetric]
    by (auto split: if_splits)
  ultimately show ?thesis using assms(2,3) by (auto simp: key_idle_def AList.update_conv')
qed

lemma passed_in_window:
  assumes "limiter_ok l" and "key_idle l key t0" and "\<forall>(k, t, t') \<in> set reqs. t0 \<le> t \<and> t < t0 + al_window l"
    and "limiter_run l reqs = (rs, l')"
  shows "int (passed key rs) \<le> max 0 (al_limit l)"
  using assms
proof (induction l reqs arbitrary: rs rule: limiter_run.induct)
  case (1 l)
  then show ?case by (simp add: passed_def)
next
  case (2 l k t t' reqs)
  obtain l1 r where st: "limiter_step l k t t' = (l1, r)" by (cases "limiter_step l k t t'")
  obtain rs1 where rn: "limiter_run l1 reqs = (rs1, l')" and rs: "rs = (k, r) # rs1"
    using "2.prems"(4) st by (auto split: prod.splits)
  have d: "distinct (map fst (al_entries l))" using "2.prems"(1) by (simp add: limiter_ok_def)
  have ok: "limiter_ok l1" by (rule limiter_step_ok [OF "2.prems"(1) st])
  note cfg = limiter_step_config [OF st]
  have t: "t0 \<le> t" and later: "\<forall>(k, t, t') \<in> set reqs. t0 \<le> t \<and> t < t0 + al_window l1"
    using "2.prems"(3) cfg(2) by auto
  have IH: "int (passed key rs1) \<le> max 0 (al_limit l)" if "key_idle l1 key t0"
    using "2.IH" [OF st [symmetric] ok that later rn] cfg(1) by simp
  have sum: "int (passed key rs) = (if k = key \<and> r = None then 1 else 0) + int (passed key rs1)"
    by (simp add: rs passed_def)
  show ?case
  proof (cases "k = key")
    case False
    then show ?thesis using IH [OF limiter_step_other_idle [OF d "2.prems"(2) False st]] sum by simp
  next
    case True
    from limiter_step_idle [OF d "2.prems"(2) t st [unfolded True]] show ?thesis
    proof
      assume "key_idle l1 key t0 \<and> r \<noteq> None"
      then show ?thesis using IH sum by auto
    next
      assume "\<exists>e. map_of (al_entries l1) key = Some e \<and> re_until e = t + al_window l
         \<and> re_count e = (if 0 \<le> al_limit l then 1 else 0) \<and> (r = None \<longleftrightarrow> re_count e \<le> al_limit l)"
      then obtain e where e: "map_of (al_entries l1) key = Some e" "re_until e = t + al_window l"
        "re_count e = (if 0 \<le> al_limit l then 1 else 0)" "r = None \<longleftrightarrow> re_count e \<le> al_limit l" by blast
      have "\<forall>(k, s, s') \<in> set reqs. s < re_until e" using later t e(2) cfg(2) by auto
      from passed_within_window [OF ok e(1) this rn] show ?thesis
        using sum e(3,4) cfg(1) True by (auto split: if_splits)
    qed
  qed
qed

lemma limiter_run_config:
  "limiter_run l reqs = (rs, l') \<Longrightarrow> al_limit l' = al_limit l \<and> al_window l' = al_window l \<and> al_capacity l' = al_capacity l"
proof (induction l reqs arbitrary: rs rule: limiter_run.induct)
  case (2 l k t t' reqs)
  then show ?case using limiter_step_config by (auto split: prod.splits)
qed simp

end
