(* ===== verification/Session_System.thy ===== *)
theory Session_System
  imports Access Ledger Freshness
begin

text \<open>
  Sessions as a system: what a login, a rotation, a replay and a logout do to the families and tokens
  (session_step), that the handlers' transactions do exactly that, the invariant of the two
  tables, and the worlds the handlers can reach.
\<close>

section \<open>What the operations do to the tables\<close>

datatype session_event =
    Opened family_row token_row
  | Rotated family_row token_row token_row
  | Closed family_row

definition session_audit :: "string \<Rightarrow> family_row \<Rightarrow> audit_row \<Rightarrow> bool" where
  "session_audit act f a \<longleftrightarrow> au_action a = act \<and> au_entity_type a = ''session_family''
     \<and> au_entity_id a = Some (sf_id f) \<and> au_business_id a = sf_business_id f
     \<and> au_actor_user_id a = Some (sf_user_id f)"

definition account_live :: "db \<Rightarrow> i64 \<Rightarrow> i64 \<Rightarrow> bool" where
  "account_live d b u \<longleftrightarrow> business_active d b
     \<and> list_ex (\<lambda>x. u_id x = u \<and> u_business_id x = b \<and> u_is_active x) (users d)"

abbreviation token_family :: "token_row \<Rightarrow> family_row \<Rightarrow> bool" where
  "token_family t \<equiv> family_of (rt_family_id t) (rt_business_id t) (rt_user_id t)"

inductive session_step :: "time \<Rightarrow> db \<Rightarrow> session_event \<Rightarrow> db \<Rightarrow> bool" where
  opened:
    "sf_id f \<notin> sf_id ` set (session_families d) \<Longrightarrow> insert_family_error d f = None \<Longrightarrow>
     sf_revoked_at f = None \<Longrightarrow> sf_created_at f = n \<Longrightarrow>
     rt_id t \<notin> rt_id ` set (refresh_tokens d) \<Longrightarrow>
     insert_token_error (d\<lparr>session_families := session_families d @ [f]\<rparr>) t = None \<Longrightarrow>
     token_family t f \<Longrightarrow> rt_revoked_at t = None \<Longrightarrow> rt_created_at t = n \<Longrightarrow>
     session_audit ''AUTH_SESSION_CREATED'' f a \<Longrightarrow>
     session_step n d (Opened f t)
       (d\<lparr>session_families := session_families d @ [f], refresh_tokens := refresh_tokens d @ [t],
          audit_logs := audit_logs d @ [a]\<rparr>)"
| rotated:
    "f \<in> set (session_families d) \<Longrightarrow> sf_revoked_at f = None \<Longrightarrow>
     t \<in> set (refresh_tokens d) \<Longrightarrow> token_family t f \<Longrightarrow> rt_revoked_at t = None \<Longrightarrow>
     account_live d (sf_business_id f) (sf_user_id f) \<Longrightarrow>
     rt_id t' \<notin> rt_id ` set (refresh_tokens d) \<Longrightarrow> insert_token_error d t' = None \<Longrightarrow>
     token_family t' f \<Longrightarrow> rt_revoked_at t' = None \<Longrightarrow> rt_created_at t' = n \<Longrightarrow>
     token_check (t\<lparr>rt_revoked_at := Some n\<rparr>) \<Longrightarrow>
     session_audit ''AUTH_SESSION_REFRESHED'' f a \<Longrightarrow>
     session_step n d (Rotated f t t')
       (d\<lparr>refresh_tokens := replace_row t (t\<lparr>rt_revoked_at := Some n\<rparr>) (refresh_tokens d) @ [t'],
          audit_logs := audit_logs d @ [a]\<rparr>)"
| closed:
    "f \<in> set (session_families d) \<Longrightarrow> sf_revoked_at f = None \<Longrightarrow>
     family_check (f\<lparr>sf_revoked_at := Some n\<rparr>) \<Longrightarrow>
     act \<in> {''AUTH_REFRESH_REPLAY_DETECTED'', ''AUTH_SESSION_REVOKED''} \<Longrightarrow> session_audit act f a \<Longrightarrow>
     session_step n d (Closed f)
       (d\<lparr>session_families := replace_row f (f\<lparr>sf_revoked_at := Some n\<rparr>) (session_families d),
          audit_logs := audit_logs d @ [a]\<rparr>)"

inductive_cases openedE: "session_step n d (Opened f t) d'"
inductive_cases rotatedE: "session_step n d (Rotated f t t') d'"
inductive_cases closedE: "session_step n d (Closed f) d'"

section \<open>The effects of the statements\<close>

lemma family_write:
  assumes "families_tbl.fresh w" and "CreateSessionFamily b u w = (Inr i, v)"
  shows "\<exists>f. sf_id f = i \<and> sf_business_id f = b \<and> sf_user_id f = u \<and> sf_revoked_at f = None \<and> sf_created_at f = now w
    \<and> sf_id f \<notin> sf_id ` set (session_families (data w)) \<and> insert_family_error (data w) f = None
    \<and> data v = (data w)\<lparr>session_families := session_families (data w) @ [f]\<rparr> \<and> now v = now w \<and> wall v = wall w
    \<and> seqs v = (seqs w)(TFamilies := seqs w TFamilies + 1)"
proof -
  obtain f where ins: "insert_serial TFamilies session_families (\<lambda>rs d. d\<lparr>session_families := rs\<rparr>) insert_family_error
       (\<lambda>i n d. \<lparr>sf_id = i, sf_business_id = b, sf_user_id = u, sf_created_at = n, sf_revoked_at = None\<rparr>) w = (Inr f, v)"
    and i: "i = sf_id f"
    using assms(2) unfolding CreateSessionFamily_def by (auto simp: run_inv)
  note I = insert_serial_Inr [OF ins]
  then have f: "sf_id f = seqs w TFamilies" "sf_business_id f = b" "sf_user_id f = u" "sf_revoked_at f = None"
    "sf_created_at f = now w" by simp_all
  then have "sf_id f \<notin> sf_id ` set (session_families (data w))"
    using families_tbl.fresh_below [OF assms(1)] by fastforce
  with I i f show ?thesis by blast
qed

lemma token_write:
  assumes "tokens_tbl.fresh w" and "CreateRefreshToken b u f h e w = (Inr t, v)"
  shows "rt_business_id t = b \<and> rt_user_id t = u \<and> rt_family_id t = f \<and> rt_token_hash t = h \<and> rt_expires_at t = e
    \<and> rt_revoked_at t = None \<and> rt_created_at t = now w
    \<and> rt_id t \<notin> rt_id ` set (refresh_tokens (data w)) \<and> insert_token_error (data w) t = None
    \<and> data v = (data w)\<lparr>refresh_tokens := refresh_tokens (data w) @ [t]\<rparr> \<and> now v = now w \<and> wall v = wall w
    \<and> seqs v = (seqs w)(TTokens := seqs w TTokens + 1)"
proof -
  note I = insert_serial_Inr [OF assms(2) [unfolded CreateRefreshToken_def]]
  then have t: "rt_id t = seqs w TTokens" "rt_business_id t = b" "rt_user_id t = u" "rt_family_id t = f"
    "rt_token_hash t = h" "rt_expires_at t = e" "rt_revoked_at t = None" "rt_created_at t = now w" by simp_all
  then have "rt_id t \<notin> rt_id ` set (refresh_tokens (data w))"
    using tokens_tbl.fresh_below [OF assms(1)] by fastforce
  with I t show ?thesis by blast
qed

lemma session_audit_write:
  assumes "auditSession c b u i act w = (Inr x, v)"
  shows "\<exists>a. data v = (data w)\<lparr>audit_logs := audit_logs (data w) @ [a]\<rparr> \<and> now v = now w
    \<and> au_action a = act \<and> au_entity_type a = ''session_family'' \<and> au_entity_id a = Some i \<and> au_business_id a = b
    \<and> au_actor_user_id a = Some u"
proof -
  obtain a where "insert_audit (\<lambda>i' n d.
       \<lparr>au_id = i', au_business_id = b, au_outlet_id = None,
        au_actor_user_id = Some u, au_action = act, au_entity_type = ''session_family'',
        au_entity_id = Some i, au_old_values = None, au_new_values = Some (JObj [(''event'', JStr act)]),
        au_ip_address = cl_address c, au_user_agent = audit_user_agent (cl_user_agent c), au_occurred_at = n,
        au_actor_platform_admin_id = None, au_support_session_id = None, au_platform_audit_id = None\<rparr>) w = (Inr a, v)"
    using assms unfolding auditSession_def InsertAuditLog_def by (auto simp: run_inv)
  from audit_write [OF this] show ?thesis by (intro exI [of _ a]) simp
qed

lemma close_write:
  assumes "families_tbl.fresh w" and "f \<in> set (session_families (data w))" and "sf_revoked_at f = None"
    and "RevokeSessionFamily (sf_id f) (sf_business_id f) (sf_user_id f) w = (Inr x, v)"
  shows "data v = (data w)\<lparr>session_families :=
        replace_row f (f\<lparr>sf_revoked_at := Some (now w)\<rparr>) (session_families (data w))\<rparr>
    \<and> family_check (f\<lparr>sf_revoked_at := Some (now w)\<rparr>) \<and> now v = now w"
proof -
  let ?p = "\<lambda>x. family_of (sf_id f) (sf_business_id f) (sf_user_id f) x \<and> sf_revoked_at x = None"
  obtain rs where "update_rows session_families (\<lambda>rs d. d\<lparr>session_families := rs\<rparr>) update_family_error
       ?p (\<lambda>n f. f\<lparr>sf_revoked_at := Some n\<rparr>) w = (Inr rs, v)"
    using assms(4) unfolding RevokeSessionFamily_def by (auto simp: run_inv)
  note U = update_rows_Inr [OF this]
  have p: "?p f" "\<And>x. ?p x \<Longrightarrow> sf_id x = sf_id f" using assms(3) by (simp_all add: family_of_def)
  have "filter ?p (session_families (data w)) = [f]" by (rule families_tbl.filter_key [where p = ?p, OF assms(1,2) p])
  moreover have "map (\<lambda>x. if ?p x then x\<lparr>sf_revoked_at := Some (now w)\<rparr> else x) (session_families (data w))
      = replace_row f (f\<lparr>sf_revoked_at := Some (now w)\<rparr>) (session_families (data w))"
    by (rule families_tbl.selects_one [where p = ?p, OF assms(1,2) p])
  ultimately show ?thesis using U by (auto simp: update_family_error_def split: if_splits)
qed

lemma consume_write:
  assumes "tokens_tbl.fresh w" and "t \<in> set (refresh_tokens (data w))" and "rt_revoked_at t = None"
    and "RevokeRefreshToken (rt_id t) (rt_business_id t) (rt_user_id t) w = (Inr n, v)"
  shows "data v = (data w)\<lparr>refresh_tokens :=
        replace_row t (t\<lparr>rt_revoked_at := Some (now w)\<rparr>) (refresh_tokens (data w))\<rparr>
    \<and> token_check (t\<lparr>rt_revoked_at := Some (now w)\<rparr>) \<and> n = 1 \<and> now v = now w"
proof -
  let ?p = "\<lambda>x. rt_id x = rt_id t \<and> rt_business_id x = rt_business_id t \<and> rt_user_id x = rt_user_id t \<and> rt_revoked_at x = None"
  obtain rs where "update_rows refresh_tokens (\<lambda>rs d. d\<lparr>refresh_tokens := rs\<rparr>) update_token_error
       ?p (\<lambda>n t. t\<lparr>rt_revoked_at := Some n\<rparr>) w = (Inr rs, v)" and n: "n = int (length rs)"
    using assms(4) unfolding RevokeRefreshToken_def by (auto simp: run_inv)
  note U = update_rows_Inr [OF this(1)]
  have p: "?p t" "\<And>x. ?p x \<Longrightarrow> rt_id x = rt_id t" using assms(3) by simp_all
  have "filter ?p (refresh_tokens (data w)) = [t]" by (rule tokens_tbl.filter_key [where p = ?p, OF assms(1,2) p])
  moreover have "map (\<lambda>x. if ?p x then x\<lparr>rt_revoked_at := Some (now w)\<rparr> else x) (refresh_tokens (data w))
      = replace_row t (t\<lparr>rt_revoked_at := Some (now w)\<rparr>) (refresh_tokens (data w))"
    by (rule tokens_tbl.selects_one [where p = ?p, OF assms(1,2) p])
  ultimately show ?thesis using U n by (auto simp: update_token_error_def split: if_splits)
qed

lemma session_writes_fresh [keeps_intro]:
  "keeps all_fresh (CreateSessionFamily b u)" "keeps all_fresh (CreateRefreshToken b u f h e)"
  "keeps all_fresh (RevokeRefreshToken i b u)" "keeps all_fresh (RevokeSessionFamily i b u)"
  "keeps all_fresh (auditSession c b u i act)"
  unfolding CreateSessionFamily_def CreateRefreshToken_def RevokeRefreshToken_def RevokeSessionFamily_def
    auditSession_def InsertAuditLog_def insert_audit_def
  by (intro keeps_intro insert_family_fresh insert_token_fresh update_token_fresh update_family_fresh
      insert_audit_fresh; simp)+

section \<open>The handlers do what the events say\<close>

lemma authorization_Inr:
  assumes "authorization en b u role w = (Inr (outs, perms), v)"
  shows "same_data w v \<and> outs = active_outlet_ids (data w) b u \<and> (role = ''LAUNDRY_STAFF'' \<longrightarrow> outs \<noteq> [])"
proof -
  obtain x where o: "ListUserOutletIDs b u w = (Inr outs, x)" and "role = ''LAUNDRY_STAFF'' \<longrightarrow> outs \<noteq> []"
    and p: "ListUserPermissionCodes (en_collation en) b u x = (Inr perms, v)"
    using assms unfolding authorization_def by (auto simp: run_inv split: if_splits)
  moreover have "outs = active_outlet_ids (data w) b u \<and> same_data w x"
    using select_Inr [OF o [unfolded ListUserOutletIDs_def]] by simp
  moreover have "same_data x v" by (rule readsD [OF session_queries_read(5) p])
  ultimately show ?thesis by (blast intro: same_data_trans)
qed

lemma Response_Inr:
  assumes "TenantSessions_Response en s u sid refresh expiry outs perms w = (Inr r, v)"
  shows "same_data w v \<and> sr_RefreshToken r = refresh \<and> sr_RefreshTokenExpiresAt r = expiry \<and> sr_User r = u
    \<and> sr_OutletIDs r = outs \<and> sr_Permissions r = perms
    \<and> newAccess en s (ti_ID u) (ti_BusinessID u) sid (ti_Role u) outs (wall w)
        = Some (sr_AccessToken r, sr_AccessTokenExpiresAt r)"
proof -
  obtain outlets x acc exp where o: "ListUserOutlets (ti_BusinessID u) (ti_ID u) w = (Inr outlets, x)"
    and "newAccess en s (ti_ID u) (ti_BusinessID u) sid (ti_Role u) outs (wall x) = Some (acc, exp)" and v: "v = x"
    and r: "r = \<lparr>sr_AccessToken = acc, sr_RefreshToken = refresh, sr_AccessTokenExpiresAt = exp,
          sr_RefreshTokenExpiresAt = expiry, sr_Outlets = outlets, sr_User = u,
          sr_OutletIDs = outs, sr_Permissions = perms\<rparr>"
    using assms unfolding TenantSessions_Response_def by (auto simp: run_inv)
  moreover have "same_data w x" by (rule readsD [OF session_queries_read(4) o])
  ultimately show ?thesis by (simp add: same_data_def)
qed

lemma NewRefreshToken_Some: "NewRefreshToken en random = Some (raw, h) \<Longrightarrow> h = HashRefreshToken en raw"
  by (auto simp: NewRefreshToken_def Let_def split: option.splits)

text \<open>What the response of a session says of the token behind it.\<close>

definition response_for :: "primitives \<Rightarrow> TenantSessions \<Rightarrow> time \<Rightarrow> db \<Rightarrow> TenantIdentity \<Rightarrow> token_row \<Rightarrow> SessionResponse \<Rightarrow> bool" where
  "response_for en s t d u tok r \<longleftrightarrow>
     rt_token_hash tok = HashRefreshToken en (sr_RefreshToken r) \<and> rt_expires_at tok = t + ts_refreshTTL s
     \<and> sr_RefreshTokenExpiresAt r = rt_expires_at tok \<and> sr_User r = u
     \<and> sr_OutletIDs r = active_outlet_ids d (ti_BusinessID u) (ti_ID u)
     \<and> newAccess en s (ti_ID u) (ti_BusinessID u) (rt_id tok) (ti_Role u) (sr_OutletIDs r) t
         = Some (sr_AccessToken r, sr_AccessTokenExpiresAt r)"

lemma issue_refines:
  assumes fr: "families_tbl.fresh w" "tokens_tbl.fresh w"
    and run: "issue_body en s c random u w = (Inr resp, v)"
  shows "\<exists>f t. session_step (now w) (data w) (Opened f t) (data v) \<and> sf_business_id f = ti_BusinessID u
    \<and> sf_user_id f = ti_ID u \<and> response_for en s (wall w) (data w) u t resp"
proof -
  let ?b = "ti_BusinessID u" and ?u = "ti_ID u"
  from run obtain outs perms w1 i w2 raw h t w3 w4 where
    au: "authorization en ?b ?u (ti_Role u) w = (Inr (outs, perms), w1)"
    and cf: "CreateSessionFamily ?b ?u w1 = (Inr i, w2)"
    and rt: "NewRefreshToken en random = Some (raw, h)"
    and ct: "CreateRefreshToken ?b ?u i h (wall w2 + ts_refreshTTL s) w2 = (Inr t, w3)"
    and rs: "TenantSessions_Response en s u (rt_id t) raw (rt_expires_at t) outs perms w3 = (Inr resp, w4)"
    and as: "auditSession c ?b ?u i ''AUTH_SESSION_CREATED'' w4 = (Inr (), v)"
    unfolding issue_body_def TenantSessions_Create_def by (auto simp: run_inv)
  note A = authorization_Inr [OF au]
  have s1: "data w1 = data w" "now w1 = now w" "wall w1 = wall w" "seqs w1 = seqs w" using A by (simp_all add: same_data_def)
  have f1: "families_tbl.fresh w1" "tokens_tbl.fresh w1"
    using fr families_tbl.fresh_same_data tokens_tbl.fresh_same_data A by blast+
  obtain f where F: "sf_id f = i" "sf_business_id f = ?b" "sf_user_id f = ?u" "sf_revoked_at f = None"
    "sf_created_at f = now w" "sf_id f \<notin> sf_id ` set (session_families (data w))"
    "insert_family_error (data w) f = None"
    and d2: "data w2 = (data w)\<lparr>session_families := session_families (data w) @ [f]\<rparr>"
    and n2: "now w2 = now w" "wall w2 = wall w" and q2: "seqs w2 = (seqs w)(TFamilies := seqs w TFamilies + 1)"
    using family_write [OF f1(1) cf] s1 by auto
  have f2: "tokens_tbl.fresh w2" by (rule tokens_tbl.fresh_frame [OF f1(2)]) (simp_all add: d2 s1 q2)
  note T = token_write [OF f2 ct]
  note R = Response_Inr [OF rs]
  have s4: "data w4 = data w3" "now w4 = now w3" "wall w3 = wall w" using R T n2 by (simp_all add: same_data_def)
  obtain a where a: "data v = (data w4)\<lparr>audit_logs := audit_logs (data w4) @ [a]\<rparr>"
    "session_audit ''AUTH_SESSION_CREATED'' f a"
    using session_audit_write [OF as] F(1-3) by (auto simp: session_audit_def)
  have dv: "data v = (data w)\<lparr>session_families := session_families (data w) @ [f],
      refresh_tokens := refresh_tokens (data w) @ [t], audit_logs := audit_logs (data w) @ [a]\<rparr>"
    using a(1) T by (simp add: s4 d2)
  have "session_step (now w) (data w) (Opened f t) (data v)"
    unfolding dv by (rule session_step.opened) (use F T d2 n2 a(2) in \<open>simp_all add: family_of_def\<close>)
  moreover have "response_for en s (wall w) (data w) u t resp"
    using R T A NewRefreshToken_Some [OF rt] n2 s4 by (simp add: response_for_def)
  ultimately show ?thesis using F(2,3) by blast
qed

lemma one_session_filter:
  assumes "only_one (select (\<lambda>n d. filter (P n d) (get d))) w = (Inr r, w')"
  shows "r \<in> set (get (data w)) \<and> P (now w) (data w) r \<and> same_data w w'"
proof -
  from one_select_Inr [OF assms] obtain rs where f: "filter (P (now w) (data w)) (get (data w)) = r # rs"
    and s: "same_data w w'" by auto
  have "r \<in> set (filter (P (now w) (data w)) (get (data w)))" unfolding f by simp
  with s show ?thesis by simp
qed

lemma session_lookups:
  "LockSessionFamily i b u w = (Inr f, v) \<Longrightarrow> f \<in> set (session_families (data w)) \<and> family_of i b u f \<and> same_data w v"
  "GetRefreshTokenForUpdate h w = (Inr t, v) \<Longrightarrow> t \<in> set (refresh_tokens (data w)) \<and> rt_token_hash t = h \<and> same_data w v"
  "FindRefreshTokenFamily h w = (Inr t, v) \<Longrightarrow> t \<in> set (refresh_tokens (data w)) \<and> rt_token_hash t = h \<and> same_data w v"
  "GetRefreshTokenByID i b u w = (Inr t, v) \<Longrightarrow>
     t \<in> set (refresh_tokens (data w)) \<and> rt_id t = i \<and> rt_business_id t = b \<and> rt_user_id t = u \<and> same_data w v"
  unfolding LockSessionFamily_def GetRefreshTokenForUpdate_def FindRefreshTokenFamily_def GetRefreshTokenByID_def
    with_text_Inr
  by (auto dest: one_session_filter)

lemma active_user_Inr:
  assumes "GetActiveUser u b w = (Inr r, v)"
  shows "account_live (data w) b u \<and> r \<in> set (users (data w)) \<and> u_id r = u \<and> u_business_id r = b \<and> u_is_active r
    \<and> same_data w v"
  using one_session_filter [OF assms [unfolded GetActiveUser_def]] by (auto simp: account_live_def list_ex_iff)

section \<open>The invariant of the two tables\<close>

text \<open>
  A token belongs to a family of its account; its hash is its own; a family has at most one
  token that is not consumed; nothing was created after the present.
\<close>

definition sess_ok :: "time \<Rightarrow> db \<Rightarrow> bool" where
  "sess_ok n d \<longleftrightarrow>
     (\<forall>f \<in> set (session_families d). family_check f \<and> sf_created_at f \<le> n)
     \<and> (\<forall>t \<in> set (refresh_tokens d). token_check t \<and> rt_created_at t \<le> n
          \<and> (\<exists>f \<in> set (session_families d). token_family t f))
     \<and> (\<forall>t \<in> set (refresh_tokens d). \<forall>t' \<in> set (refresh_tokens d).
          rt_token_hash t = rt_token_hash t' \<longrightarrow> t = t')
     \<and> (\<forall>t \<in> set (refresh_tokens d). \<forall>t' \<in> set (refresh_tokens d).
          rt_family_id t = rt_family_id t' \<and> rt_revoked_at t = None \<and> rt_revoked_at t' = None \<longrightarrow> t = t')"

definition session_sys :: "world \<Rightarrow> bool" where
  "session_sys w \<longleftrightarrow> all_fresh w \<and> sess_ok (now w) (data w)"

lemma session_sysD:
  assumes "session_sys w"
  shows "families_tbl.fresh w" "tokens_tbl.fresh w" "sess_ok (now w) (data w)" "all_fresh w"
  using assms by (simp_all add: session_sys_def all_fresh_def)

lemma sess_okD:
  assumes "sess_ok n d"
  shows "f \<in> set (session_families d) \<Longrightarrow> family_check f \<and> sf_created_at f \<le> n"
    and "t \<in> set (refresh_tokens d) \<Longrightarrow> token_check t \<and> rt_created_at t \<le> n"
    and "t \<in> set (refresh_tokens d) \<Longrightarrow> \<exists>f \<in> set (session_families d). token_family t f"
    and "t \<in> set (refresh_tokens d) \<Longrightarrow> t' \<in> set (refresh_tokens d) \<Longrightarrow> rt_token_hash t = rt_token_hash t' \<Longrightarrow> t = t'"
    and "t \<in> set (refresh_tokens d) \<Longrightarrow> t' \<in> set (refresh_tokens d) \<Longrightarrow> rt_family_id t = rt_family_id t' \<Longrightarrow>
      rt_revoked_at t = None \<Longrightarrow> rt_revoked_at t' = None \<Longrightarrow> t = t'"
  using assms unfolding sess_ok_def by blast+

lemma sess_ok_later: "sess_ok n d \<Longrightarrow> n \<le> n' \<Longrightarrow> sess_ok n' d"
  unfolding sess_ok_def by (meson order_trans)

lemma sess_ok_frame:
  "sess_ok n d \<Longrightarrow> session_families d' = session_families d \<Longrightarrow> refresh_tokens d' = refresh_tokens d \<Longrightarrow> sess_ok n d'"
  by (simp add: sess_ok_def)

lemma session_sys_same: "same_data w u \<Longrightarrow> session_sys w \<Longrightarrow> session_sys u"
  using all_fresh_seqs [of w u] by (simp add: session_sys_def same_data_def)

text \<open>The family of a token, found by its id.\<close>

lemma token_family_by_id:
  assumes "session_sys w" and "t \<in> set (refresh_tokens (data w))" and "f \<in> set (session_families (data w))"
    and "rt_family_id t = sf_id f"
  shows "token_family t f"
proof -
  obtain g where g: "g \<in> set (session_families (data w))" "token_family t g"
    using sess_okD(3) [OF session_sysD(3) [OF assms(1)] assms(2)] by blast
  then have "sf_id g = sf_id f" using assms(4) by (simp add: family_of_def)
  then have "g = f" by (rule families_tbl.key_unique [OF session_sysD(1) [OF assms(1)] g(1) assms(3)])
  with g(2) show ?thesis by simp
qed

lemma rotate_refines:
  assumes sys: "session_sys w"
    and f: "f \<in> set (session_families (data w))" "sf_revoked_at f = None"
    and t: "t \<in> set (refresh_tokens (data w))" "token_family t f" "rt_revoked_at t = None"
    and run: "Refresh_rotate en s c random f t w = (Inr resp, v)"
  shows "wall w < rt_expires_at t \<and> (\<exists>t' u. session_step (now w) (data w) (Rotated f t t') (data v)
    \<and> u \<in> set (users (data w)) \<and> u_id u = sf_user_id f \<and> u_business_id u = sf_business_id f \<and> u_is_active u
    \<and> response_for en s (wall w) (data w) (identity_of u) t' resp)"
proof -
  from run obtain u w1 outs perms w2 raw h t' w3 w4 k w5 where
    e: "wall w < rt_expires_at t"
    and gu: "GetActiveUser (sf_user_id f) (sf_business_id f) w = (Inr u, w1)"
    and au: "authorization en (u_business_id u) (u_id u) (u_role u) w1 = (Inr (outs, perms), w2)"
    and rt: "NewRefreshToken en random = Some (raw, h)"
    and ct: "CreateRefreshToken (u_business_id u) (u_id u) (sf_id f) h (wall w + ts_refreshTTL s) w2 = (Inr t', w3)"
    and rs: "TenantSessions_Response en s (identity_of u) (rt_id t') raw (rt_expires_at t') outs perms w3 = (Inr resp, w4)"
    and rv: "RevokeRefreshToken (rt_id t) (rt_business_id t) (rt_user_id t) w4 = (Inr k, w5)"
    and as: "auditSession c (sf_business_id f) (sf_user_id f) (sf_id f) ''AUTH_SESSION_REFRESHED'' w5 = (Inr (), v)"
    unfolding Refresh_rotate_def by (auto simp: run_inv split: if_splits)
  note U = active_user_Inr [OF gu] and A = authorization_Inr [OF au] and R = Response_Inr [OF rs]
  have w2: "same_data w w2" using U A same_data_trans by blast
  note d2 = same_dataD [OF w2]
  note T = token_write [OF tokens_tbl.fresh_same_data [OF session_sysD(2) [OF sys] w2] ct, unfolded d2]
  have w4: "data w4 = data w3" "seqs w4 = seqs w3" "now w4 = now w3" "wall w3 = wall w"
    using R T by (simp_all add: same_data_def)
  have d3: "data w3 = (data w)\<lparr>refresh_tokens := refresh_tokens (data w) @ [t']\<rparr>" and id: "rt_id t' \<notin> rt_id ` set (refresh_tokens (data w))"
    using T by blast+
  have "all_fresh w3"
    by (rule keepsD [OF session_writes_fresh(2) session_sysD(4) [OF session_sys_same [OF w2 sys]] ct])
  then have f4: "tokens_tbl.fresh w4" using w4 by (simp add: all_fresh_def tokens_tbl.fresh_def)
  have t4: "t \<in> set (refresh_tokens (data w4))" using t(1) by (simp add: w4 d3)
  note V = consume_write [OF f4 t4 t(3) rv]
  have neq: "t' \<noteq> t" using id t(1) by auto
  obtain a where a: "data v = (data w5)\<lparr>audit_logs := audit_logs (data w5) @ [a]\<rparr>"
    "session_audit ''AUTH_SESSION_REFRESHED'' f a"
    using session_audit_write [OF as] by (auto simp: session_audit_def)
  have n3: "now w3 = now w" using T by simp
  then have n4: "now w4 = now w" using w4 by simp
  have dv: "data v = (data w)\<lparr>refresh_tokens := replace_row t (t\<lparr>rt_revoked_at := Some (now w)\<rparr>) (refresh_tokens (data w)) @ [t'],
      audit_logs := audit_logs (data w) @ [a]\<rparr>"
    using a(1) V neq by (simp add: w4 n3 d3 replace_row_def)
  have "session_step (now w) (data w) (Rotated f t t') (data v)"
    unfolding dv by (rule session_step.rotated) (use f t T U V a(2) n4 in \<open>simp_all add: family_of_def\<close>)
  moreover have "response_for en s (wall w) (data w) (identity_of u) t' resp"
    using R T A U NewRefreshToken_Some [OF rt] w4 d2 same_dataD [of w w1]
    by (simp add: response_for_def identity_of_def)
  ultimately show ?thesis using U e by blast
qed

text \<open>A family is closed: by a replay, or by a logout.\<close>

lemma close_refines:
  assumes sys: "session_sys w"
    and f: "f \<in> set (session_families (data w))" "sf_revoked_at f = None"
    and act: "act \<in> {''AUTH_REFRESH_REPLAY_DETECTED'', ''AUTH_SESSION_REVOKED''}"
    and rv: "RevokeSessionFamily (sf_id f) (sf_business_id f) (sf_user_id f) w = (Inr x, u)"
    and as: "auditSession c (sf_business_id f) (sf_user_id f) (sf_id f) act u = (Inr y, v)"
  shows "session_step (now w) (data w) (Closed f) (data v)"
proof -
  note C = close_write [OF session_sysD(1) [OF sys] f rv]
  obtain a where a: "data v = (data u)\<lparr>audit_logs := audit_logs (data u) @ [a]\<rparr>" "session_audit act f a"
    using session_audit_write [OF as] by (auto simp: session_audit_def)
  have "data v = (data w)\<lparr>session_families :=
        replace_row f (f\<lparr>sf_revoked_at := Some (now w)\<rparr>) (session_families (data w)),
      audit_logs := audit_logs (data w) @ [a]\<rparr>"
    using a(1) C by simp
  then show ?thesis using session_step.closed [OF f _ act a(2), of "now w"] C by simp
qed

text \<open>What a refresh did when its transaction ended well.\<close>

definition refreshed ::
  "primitives \<Rightarrow> TenantSessions \<Rightarrow> string \<Rightarrow> time \<Rightarrow> time \<Rightarrow> db \<Rightarrow> SessionResponse option \<Rightarrow> db \<Rightarrow> bool" where
  "refreshed en s hash n t d out d' \<longleftrightarrow>
     (\<exists>f tok. f \<in> set (session_families d) \<and> sf_revoked_at f = None \<and> tok \<in> set (refresh_tokens d)
        \<and> token_family tok f \<and> rt_token_hash tok = hash \<and>
        (case out of
           None \<Rightarrow> rt_revoked_at tok \<noteq> None \<and> session_step n d (Closed f) d'
         | Some resp \<Rightarrow> rt_revoked_at tok = None \<and> t < rt_expires_at tok
             \<and> (\<exists>tok' u. session_step n d (Rotated f tok tok') d' \<and> u \<in> set (users d) \<and> u_id u = sf_user_id f
                  \<and> u_business_id u = sf_business_id f \<and> u_is_active u
                  \<and> response_for en s t d (identity_of u) tok' resp)))"

lemma Refresh_refines:
  assumes sys: "session_sys w" and run: "Refresh_body en s c random hash lookup w = (Inr out, v)"
  shows "refreshed en s hash (now w) (wall w) (data w) out (data v)"
proof -
  from run obtain f w1 tok w2 where
    lf: "LockSessionFamily (rt_family_id lookup) (rt_business_id lookup) (rt_user_id lookup) w = (Inr f, w1)"
    and live: "sf_revoked_at f = None"
    and gt: "GetRefreshTokenForUpdate hash w1 = (Inr tok, w2)"
    and fam: "rt_family_id tok = sf_id f"
    and rest: "(if rt_revoked_at tok \<noteq> None then tbind (Refresh_replay c f) (\<lambda>_. ret None)
     else tbind (Refresh_rotate en s c random f tok) (\<lambda>response. ret (Some response))) w2 = (Inr out, v)"
    unfolding Refresh_body_def by (auto simp: run_inv split: if_splits)
  note L = session_lookups(1) [OF lf] and G = session_lookups(2) [OF gt]
  have w2: "same_data w w2" using L G same_data_trans by blast
  note d2 = same_dataD [OF w2]
  have sys2: "session_sys w2" by (rule session_sys_same [OF w2 sys])
  have mem: "f \<in> set (session_families (data w2))" "tok \<in> set (refresh_tokens (data w2))" "rt_token_hash tok = hash"
    using L G w2 by (simp_all add: same_data_def)
  have tf: "token_family tok f" by (rule token_family_by_id [OF sys2 mem(2,1) fam])
  show ?thesis
  proof (cases "rt_revoked_at tok")
    case None
    then obtain resp where rot: "Refresh_rotate en s c random f tok w2 = (Inr resp, v)" and out: "out = Some resp"
      using rest by (auto simp: run_inv)
    show ?thesis
      unfolding refreshed_def out option.case
      using rotate_refines [OF sys2 mem(1) live mem(2) tf None rot] mem live tf None unfolding d2 by blast
  next
    case (Some z)
    then obtain x1 u1 where out: "out = None"
      and rv: "RevokeSessionFamily (sf_id f) (sf_business_id f) (sf_user_id f) w2 = (Inr x1, u1)"
      and as: "auditSession c (sf_business_id f) (sf_user_id f) (sf_id f) ''AUTH_REFRESH_REPLAY_DETECTED'' u1 = (Inr (), v)"
      using rest by (auto simp: run_inv Refresh_replay_def)
    have "session_step (now w2) (data w2) (Closed f) (data v)"
      by (rule close_refines [OF sys2 mem(1) live _ rv as]) simp
    then show ?thesis
      unfolding refreshed_def out option.case using mem live tf Some unfolding d2 by blast
  qed
qed

lemma Logout_refines:
  assumes sys: "session_sys w" and run: "Logout_body c p lookup w = (Inr (), v)"
  shows "\<exists>f bearer. f \<in> set (session_families (data w)) \<and> sf_revoked_at f = None
    \<and> family_of (rt_family_id lookup) (pc_BusinessID p) (pc_UserID p) f
    \<and> bearer \<in> set (refresh_tokens (data w)) \<and> rt_id bearer = pc_SessionID p \<and> token_family bearer f
    \<and> session_step (now w) (data w) (Closed f) (data v)"
proof -
  from run obtain f w1 b w2 x w3 where
    lf: "LockSessionFamily (rt_family_id lookup) (pc_BusinessID p) (pc_UserID p) w = (Inr f, w1)"
    and live: "sf_revoked_at f = None"
    and gt: "GetRefreshTokenByID (pc_SessionID p) (pc_BusinessID p) (pc_UserID p) w1 = (Inr b, w2)"
    and fam: "rt_family_id b = sf_id f"
    and rv: "RevokeSessionFamily (sf_id f) (sf_business_id f) (sf_user_id f) w2 = (Inr x, w3)"
    and as: "auditSession c (sf_business_id f) (sf_user_id f) (sf_id f) ''AUTH_SESSION_REVOKED'' w3 = (Inr (), v)"
    unfolding Logout_body_def by (auto simp: run_inv split: if_splits)
  note L = session_lookups(1) [OF lf] and G = session_lookups(4) [OF gt]
  have w2: "same_data w w2" using L G same_data_trans by blast
  note d2 = same_dataD [OF w2]
  have sys2: "session_sys w2" by (rule session_sys_same [OF w2 sys])
  have mem: "f \<in> set (session_families (data w2))" "b \<in> set (refresh_tokens (data w2))" "rt_id b = pc_SessionID p"
    "family_of (rt_family_id lookup) (pc_BusinessID p) (pc_UserID p) f"
    using L G w2 by (simp_all add: same_data_def)
  have tf: "token_family b f" by (rule token_family_by_id [OF sys2 mem(2,1) fam])
  have "session_step (now w2) (data w2) (Closed f) (data v)"
    by (rule close_refines [OF sys2 mem(1) live _ rv as]) simp
  then show ?thesis using mem live tf by (auto simp: d2)
qed

section \<open>The events keep the invariant\<close>

lemma hash_taken_image: "hash_taken d h \<longleftrightarrow> h \<in> rt_token_hash ` set (refresh_tokens d)"
  by (auto simp: hash_taken_def list_ex_iff)

lemma insert_token_okD:
  assumes "insert_token_error d t = None"
  shows "token_check t" "\<not> hash_taken d (rt_token_hash t)"
    "\<exists>f \<in> set (session_families d). token_family t f"
  using assms by (auto simp: insert_token_error_def list_ex_iff split: if_splits)

lemma token_added:
  assumes ok: "sess_ok n d" and e: "insert_token_error d t = None" and n: "rt_created_at t = n"
    and alone: "\<And>x. x \<in> set (refresh_tokens d) \<Longrightarrow> rt_family_id x = rt_family_id t \<Longrightarrow> rt_revoked_at x \<noteq> None"
  shows "sess_ok n (d\<lparr>refresh_tokens := refresh_tokens d @ [t]\<rparr>)"
proof -
  have "rt_token_hash x \<noteq> rt_token_hash t" if "x \<in> set (refresh_tokens d)" for x
    using insert_token_okD(2) [OF e] that by (auto simp: hash_taken_def list_ex_iff)
  moreover have "x = y" if "x \<in> set (refresh_tokens d)" "y \<in> set (refresh_tokens d)" "rt_token_hash x = rt_token_hash y" for x y
    using sess_okD(4) [OF ok that] .
  ultimately have h: "\<forall>x \<in> set (refresh_tokens d @ [t]). \<forall>y \<in> set (refresh_tokens d @ [t]).
      rt_token_hash x = rt_token_hash y \<longrightarrow> x = y"
    unfolding set_append list.set by (metis UnE empty_iff insert_iff)
  have l: "\<forall>x \<in> set (refresh_tokens d @ [t]). \<forall>y \<in> set (refresh_tokens d @ [t]).
      rt_family_id x = rt_family_id y \<and> rt_revoked_at x = None \<and> rt_revoked_at y = None \<longrightarrow> x = y"
    unfolding set_append list.set using sess_okD(5) [OF ok] alone by (metis UnE empty_iff insert_iff)
  have k: "\<forall>x \<in> set (refresh_tokens d @ [t]). token_check x \<and> rt_created_at x \<le> n
      \<and> (\<exists>f \<in> set (session_families d). token_family x f)"
    using sess_okD(2,3) [OF ok] insert_token_okD(1,3) [OF e] n by auto
  show ?thesis unfolding sess_ok_def using h l k sess_okD(1) [OF ok] by simp
qed

lemma token_consumed:
  assumes ok: "sess_ok n d" and t: "t \<in> set (refresh_tokens d)" and c: "token_check (t\<lparr>rt_revoked_at := Some n\<rparr>)"
  shows "sess_ok n (d\<lparr>refresh_tokens := replace_row t (t\<lparr>rt_revoked_at := Some n\<rparr>) (refresh_tokens d)\<rparr>)"
proof -
  let ?t = "t\<lparr>rt_revoked_at := Some n\<rparr>" and ?ts = "replace_row t (t\<lparr>rt_revoked_at := Some n\<rparr>) (refresh_tokens d)"
  have old: "\<exists>y \<in> set (refresh_tokens d). x = (if y = t then ?t else y)" if "x \<in> set ?ts" for x
    using that unfolding replace_row_def by auto
  have k: "token_check x \<and> rt_created_at x \<le> n \<and> (\<exists>f \<in> set (session_families d). token_family x f)" if x: "x \<in> set ?ts" for x
  proof -
    obtain y where y: "y \<in> set (refresh_tokens d)" "x = (if y = t then ?t else y)" using old [OF x] by blast
    then show ?thesis using sess_okD(2,3) [OF ok y(1)] c by (cases "y = t") auto
  qed
  have h: "x = x'" if x: "x \<in> set ?ts" "x' \<in> set ?ts" "rt_token_hash x = rt_token_hash x'" for x x'
  proof -
    obtain y y' where y: "y \<in> set (refresh_tokens d)" "x = (if y = t then ?t else y)"
      and y': "y' \<in> set (refresh_tokens d)" "x' = (if y' = t then ?t else y')"
      using old [OF x(1)] old [OF x(2)] by blast
    have "rt_token_hash y = rt_token_hash y'" using x(3) y(2) y'(2) by (simp split: if_splits)
    then have "y = y'" using sess_okD(4) [OF ok y(1) y'(1)] by blast
    then show ?thesis using y(2) y'(2) by simp
  qed
  have l: "x = x'" if x: "x \<in> set ?ts" "x' \<in> set ?ts" "rt_family_id x = rt_family_id x'"
      "rt_revoked_at x = None" "rt_revoked_at x' = None" for x x'
  proof -
    obtain y y' where y: "y \<in> set (refresh_tokens d)" "x = (if y = t then ?t else y)"
      and y': "y' \<in> set (refresh_tokens d)" "x' = (if y' = t then ?t else y')"
      using old [OF x(1)] old [OF x(2)] by blast
    have "x = y" "x' = y'" using x(4,5) y(2) y'(2) by (auto split: if_splits)
    then show ?thesis using sess_okD(5) [OF ok] y(1) y'(1) x(3-5) by blast
  qed
  show ?thesis unfolding sess_ok_def using k h l sess_okD(1) [OF ok] by simp
qed

lemma family_closed:
  assumes ok: "sess_ok n d" and f: "f \<in> set (session_families d)" and c: "family_check (f\<lparr>sf_revoked_at := Some n\<rparr>)"
  shows "sess_ok n (d\<lparr>session_families := replace_row f (f\<lparr>sf_revoked_at := Some n\<rparr>) (session_families d)\<rparr>)"
proof -
  let ?f = "f\<lparr>sf_revoked_at := Some n\<rparr>" and ?fs = "replace_row f (f\<lparr>sf_revoked_at := Some n\<rparr>) (session_families d)"
  have "family_check g \<and> sf_created_at g \<le> n" if "g \<in> set ?fs" for g
    using in_replace_rowD [OF that] sess_okD(1) [OF ok] f c by auto
  moreover have "\<exists>g \<in> set ?fs. token_family x g" if x: "x \<in> set (refresh_tokens d)" for x
  proof -
    obtain g where g: "g \<in> set (session_families d)" "token_family x g" using sess_okD(3) [OF ok x] by blast
    then have "(if g = f then ?f else g) \<in> set ?fs" "token_family x (if g = f then ?f else g)"
      by (auto simp: replace_row_def family_of_def)
    then show ?thesis by blast
  qed
  ultimately show ?thesis unfolding sess_ok_def using sess_okD [OF ok] by simp
qed

lemma session_step_ok:
  assumes "session_step n d e d'" and ok: "sess_ok n d"
  shows "sess_ok n d'"
  using assms(1)
proof cases
  case (opened f t a)
  let ?d = "d\<lparr>session_families := session_families d @ [f]\<rparr>"
  have fc: "family_check f" using opened(4) by (simp add: insert_family_error_def split: if_splits)
  have ok1: "sess_ok n ?d"
    unfolding sess_ok_def using sess_okD [OF ok] fc opened(6) by (auto simp: sess_ok_def)
  have "rt_family_id x \<noteq> rt_family_id t" if x: "x \<in> set (refresh_tokens d)" for x
  proof -
    obtain g where "g \<in> set (session_families d)" "token_family x g" using sess_okD(3) [OF ok x] by blast
    then show ?thesis using opened(3,9) by (metis family_of_def imageI)
  qed
  then have "sess_ok n (?d\<lparr>refresh_tokens := refresh_tokens ?d @ [t]\<rparr>)"
    using opened(11) by (intro token_added [OF ok1 opened(8)]) auto
  then show ?thesis by (rule sess_ok_frame) (simp_all add: opened(2))
next
  case (rotated f t t' a)
  let ?d = "d\<lparr>refresh_tokens := replace_row t (t\<lparr>rt_revoked_at := Some n\<rparr>) (refresh_tokens d)\<rparr>"
  have ok1: "sess_ok n ?d" by (rule token_consumed [OF ok rotated(5,14)])
  have "rt_token_hash ` set (refresh_tokens ?d) = rt_token_hash ` set (refresh_tokens d)"
    using map_replace_row [of rt_token_hash "t\<lparr>rt_revoked_at := Some n\<rparr>" t "refresh_tokens d"]
    by (simp flip: set_map)
  then have "hash_taken ?d h = hash_taken d h" for h
    by (simp add: hash_taken_image)
  then have e: "insert_token_error ?d t' = None"
    using rotated(10) by (simp add: insert_token_error_def user_exists_def split: if_splits)
  have "rt_revoked_at x \<noteq> None" if x: "x \<in> set (refresh_tokens ?d)" "rt_family_id x = rt_family_id t'" for x
  proof -
    have "rt_family_id x = rt_family_id t" using x(2) rotated(6,11) by (simp add: family_of_def)
    moreover from x(1) have "x = t\<lparr>rt_revoked_at := Some n\<rparr> \<or> x \<in> set (refresh_tokens d) \<and> x \<noteq> t"
      by (auto dest: in_replace_rowD)
    ultimately show ?thesis using sess_okD(5) [OF ok _ rotated(5)] rotated(7) by auto
  qed
  then have "sess_ok n (?d\<lparr>refresh_tokens := refresh_tokens ?d @ [t']\<rparr>)"
    using rotated(13) by (intro token_added [OF ok1 e]) auto
  then show ?thesis by (rule sess_ok_frame) (simp_all add: rotated(2))
next
  case (closed f act a)
  then show ?thesis using family_closed [OF ok closed(3,5)] by (auto intro: sess_ok_frame)
qed

end
