(* ===== verification/Session_Worlds.thy ===== *)
theory Session_Worlds
  imports Session_System Ledger_System
begin

text \<open>
  The worlds the session handlers can reach, in any order, with any arguments and any faults of the
  connection, interleaved with arbitrary changes of other tables; and
  how the session handlers and the ledger leave each other alone.
\<close>

section \<open>The transactions keep the invariant\<close>

lemma reads_authorization [reads_intro]: "reads (authorization en b u role)"
  unfolding authorization_def by (intro reads_intro session_queries_read(5))

lemma reads_Response [reads_intro]: "reads (TenantSessions_Response en s u sid refresh expiry outs perms)"
  unfolding TenantSessions_Response_def by (intro reads_intro)

lemma as_error_keeps [keeps_intro]:
  "keeps I p \<Longrightarrow> keeps I (as_unauthorized p)" "keeps I p \<Longrightarrow> keeps I (as_internal p)"
  by (simp_all add: as_unauthorized_def as_internal_def keeps_on_err)

lemma as_error_grows [grows_intro]: "grows p \<Longrightarrow> grows (as_unauthorized p)" "grows p \<Longrightarrow> grows (as_internal p)"
  by (simp_all add: as_unauthorized_def as_internal_def grows_on_err)

lemma or_fail_keeps [keeps_intro]: "keeps I (or_fail e x)"
  by (cases x) (simp_all add: or_fail_def keeps_ret keeps_fail)

lemma or_fail_grows [grows_intro]: "grows (or_fail e x)"
  by (cases x) (simp_all add: or_fail_def grows_ret grows_fail)

lemma audit_session_grows [grows_intro]: "grows (auditSession c b u i act)"
  unfolding auditSession_def by (intro grows_intro)

lemma session_bodies_grow [grows_intro]:
  "grows (issue_body en s c random u)" "grows (Refresh_body en s c random hash lookup)" "grows (Logout_body c p lookup)"
  unfolding issue_body_def TenantSessions_Create_def Refresh_body_def Refresh_replay_def Refresh_rotate_def
    Logout_body_def
  by (intro grows_intro grows_reads [OF reads_authorization] grows_reads [OF reads_Response])+

lemma session_bodies_fresh [keeps_intro]:
  "keeps all_fresh (issue_body en s c random u)" "keeps all_fresh (Refresh_body en s c random hash lookup)"
  "keeps all_fresh (Logout_body c p lookup)"
  unfolding issue_body_def TenantSessions_Create_def Refresh_body_def Refresh_replay_def Refresh_rotate_def
    Logout_body_def
  by (intro as_error_keeps or_fail_keeps session_writes_fresh keeps_intro reads_authorization reads_Response
      session_queries_read reads_time_now)+

lemma session_sys_seqs:
  "session_sys w \<Longrightarrow> data u = data w \<Longrightarrow> now u = now w \<Longrightarrow> (\<And>t. seqs w t \<le> seqs u t) \<Longrightarrow> session_sys u"
  unfolding session_sys_def using all_fresh_seqs by metis

lemma session_body_inv:
  assumes sys: "session_sys w" and "keeps all_fresh body" "grows body" and run: "body w = (Inr x, v)"
    and "\<exists>e. session_step (now w) (data w) e (data v)"
  shows "session_sys v"
  using keepsD [OF assms(2) session_sysD(4) [OF sys] run] growsD(2) [OF assms(3) run] assms(5)
    session_step_ok [OF _ session_sysD(3) [OF sys]]
  by (auto simp: session_sys_def)

lemma refreshed_step: "refreshed en s h n t d out d' \<Longrightarrow> \<exists>e. session_step n d e d'"
  unfolding refreshed_def by (cases out) auto

interpretation issue_op: tx_operation Internal "issue_body en s c random u" session_sys
  for en :: primitives and s :: TenantSessions and c :: client and random :: "nat list option" and u :: TenantIdentity
proof
  show "session_sys w \<Longrightarrow> issue_body en s c random u w = (Inr a, w') \<Longrightarrow> session_sys w'" for w a w'
    using issue_refines [OF session_sysD(1,2)] session_body_inv [OF _ session_bodies_fresh(1) session_bodies_grow(1)] by blast
qed (auto intro: session_bodies_grow session_sys_seqs)

interpretation refresh_op: tx_operation Internal "Refresh_body en s c random hash lookup" session_sys
  for en :: primitives and s :: TenantSessions and c :: client and random :: "nat list option" and hash :: string
    and lookup :: token_row
proof
  show "session_sys w \<Longrightarrow> Refresh_body en s c random hash lookup w = (Inr a, w') \<Longrightarrow> session_sys w'" for w a w'
    by (rule session_body_inv [OF _ session_bodies_fresh(2) session_bodies_grow(2) _ refreshed_step [OF Refresh_refines]])
qed (auto intro: session_bodies_grow session_sys_seqs)

interpretation logout_op: tx_operation Internal "Logout_body c p lookup" session_sys
  for c :: client and p :: Principal and lookup :: token_row
proof
  show "session_sys w \<Longrightarrow> Logout_body c p lookup w = (Inr a, w') \<Longrightarrow> session_sys w'" for w a w'
    using Logout_refines [of w c p lookup w'] session_body_inv [OF _ session_bodies_fresh(3) session_bodies_grow(3)]
    by (metis old.unit.exhaust)
qed (auto intro: session_bodies_grow session_sys_seqs)

section \<open>How the handlers end\<close>

lemma session_tx_ends:
  assumes sys: "session_sys w" and tx: "with_tx Internal body w = (res, w')"
    and refines: "\<And>u x v. session_sys u \<Longrightarrow> body u = (Inr x, v) \<Longrightarrow> P (now u) (wall u) (data u) x (data v)"
  shows "data w' = data w \<and> (\<forall>x. res \<noteq> Inr x) \<or>
    (\<exists>x. P (now w) (wall w) (data w) x (data w') \<and> (res = Inr x \<or> res = Inl Internal))"
proof -
  from with_tx_ends [OF tx] consider "data w' = data w \<and> (\<forall>x. res \<noteq> Inr x)"
    | u x v where "same_data w u" "body u = (Inr x, v)" "same_data v w'" "res = Inr x \<or> res = Inl Internal" by blast
  then show ?thesis
  proof cases
    case (2 u x v)
    from refines [OF session_sys_same [OF 2(1) sys] 2(2)] 2
    have "P (now w) (wall w) (data w) x (data w')" by (simp add: same_data_def)
    with 2(4) show ?thesis by blast
  qed blast
qed

lemma issue_ends:
  assumes "session_sys w" and "issue en s c random u w = (res, w')"
  shows "data w' = data w \<and> (\<forall>x. res \<noteq> Inr x) \<or>
    (\<exists>x. (\<exists>f t. session_step (now w) (data w) (Opened f t) (data w') \<and> sf_business_id f = ti_BusinessID u
           \<and> sf_user_id f = ti_ID u \<and> response_for en s (wall w) (data w) u t x)
       \<and> (res = Inr x \<or> res = Inl Internal))"
  by (rule session_tx_ends [OF assms(1) assms(2) [unfolded issue_def],
        where P = "\<lambda>n t d x d'. \<exists>f tok. session_step n d (Opened f tok) d' \<and> sf_business_id f = ti_BusinessID u
           \<and> sf_user_id f = ti_ID u \<and> response_for en s t d u tok x"])
    (rule issue_refines [OF session_sysD(1,2)])

text \<open>A login that returns a session found the account by its e-mail and the password matched.\<close>

definition logs_in :: "primitives \<Rightarrow> db \<Rightarrow> loginRequest \<Rightarrow> user_row \<Rightarrow> bool" where
  "logs_in en d req u \<longleftrightarrow> u \<in> set (users d) \<and> en_lower en (u_email u) = en_lower en (trim_space (lq_Email req))
     \<and> business_active d (u_business_id u) \<and> u_is_active u \<and> length (lq_Password req) \<le> 72
     \<and> utf8_valid (lq_Password req) \<and> en_bcrypt_matches en (u_password_hash u) (lq_Password req)"

lemma Login_cases:
  assumes run: "AuthHandler_Login en s c random body w = (res, w')"
  shows "same_data w w' \<and> (\<forall>x. res \<noteq> Inr x) \<or>
    (\<exists>req u w1. decodeAuthBody body = Inr req \<and> same_data w w1 \<and> logs_in en (data w) req u
       \<and> issue en s c random (identity_of u) w1 = (res, w'))"
proof (cases "decodeAuthBody body")
  case (Inl e)
  then show ?thesis using run by (auto simp: AuthHandler_Login_def fail_run)
next
  case (Inr req)
  show ?thesis
  proof (cases "trim_space (lq_Email req) = [] \<or> lq_Password req = []")
    case True
    then show ?thesis using run Inr by (auto simp: AuthHandler_Login_def fail_run)
  next
    case False
    obtain found w1 where g: "GetUserForLogin (en_lower en) (trim_space (lq_Email req)) w = (found, w1)" by fastforce
    have w1: "same_data w w1" by (rule readsD [OF session_queries_read(1) g])
    have rest: "(case found of Inl e \<Rightarrow> fail (if e = NoRows then Unauthorized else Internal)
          | Inr u \<Rightarrow>
              if length (lq_Password req) > MaxBcryptPasswordBytes then fail Unauthorized
              else if \<not> VerifyPassword en (u_password_hash u) (lq_Password req) \<or> \<not> u_is_active u
                then fail Unauthorized
              else issue en s c random (identity_of u)) w1 = (res, w')"
      using run Inr False g by (simp add: AuthHandler_Login_def tbind_def attempt_def)
    show ?thesis
    proof (cases found)
      case (Inl e)
      then show ?thesis using rest w1 by (auto simp: fail_run)
    next
      case fu: (Inr u)
      have u: "u \<in> set (users (data w))" "en_lower en (u_email u) = en_lower en (trim_space (lq_Email req))"
        "business_active (data w) (u_business_id u)"
        using g [unfolded fu GetUserForLogin_def with_text_Inr] by (auto dest!: one_session_filter)
      show ?thesis
      proof (cases "length (lq_Password req) > 72 \<or> \<not> VerifyPassword en (u_password_hash u) (lq_Password req) \<or> \<not> u_is_active u")
        case True
        then have "res = Inl Unauthorized" "w' = w1"
          using rest fu by (auto simp: fail_run MaxBcryptPasswordBytes_def split: if_splits)
        then show ?thesis using w1 by simp
      next
        case False
        then have "issue en s c random (identity_of u) w1 = (res, w')"
          using rest fu by (simp add: MaxBcryptPasswordBytes_def)
        moreover have "logs_in en (data w) req u"
          using False u by (auto simp: logs_in_def VerifyPassword_def split: if_splits)
        ultimately show ?thesis using Inr w1 by blast
      qed
    qed
  qed
qed

lemma Refresh_ends:
  assumes sys: "session_sys w" and run: "AuthHandler_Refresh en s c random body w = (res, w')"
  shows "data w' = data w \<and> (\<forall>x. res \<noteq> Inr x) \<or>
    (\<exists>token out. decodeAuthBody body = Inr token
       \<and> refreshed en s (HashRefreshToken en token) (now w) (wall w) (data w) out (data w')
       \<and> (case out of None \<Rightarrow> res = Inl Unauthorized \<or> res = Inl Internal
          | Some x \<Rightarrow> res = Inr x \<or> res = Inl Internal))"
proof (cases "decodeAuthBody body")
  case (Inl e)
  then show ?thesis using run by (auto simp: AuthHandler_Refresh_def fail_run)
next
  case (Inr token)
  let ?h = "HashRefreshToken en token"
  show ?thesis
  proof (cases "token = []")
    case True
    then show ?thesis using run Inr by (auto simp: AuthHandler_Refresh_def fail_run)
  next
    case False
    obtain found w1 where g: "FindRefreshTokenFamily ?h w = (found, w1)" by fastforce
    have w1: "same_data w w1" by (rule readsD [OF session_queries_read(6) g])
    show ?thesis
    proof (cases found)
      case (Inl e)
      then have "res = Inl (if e = NoRows then Unauthorized else Internal)" "w' = w1"
        using run g Inr False by (auto simp: AuthHandler_Refresh_def tbind_def attempt_def fail_run Let_def)
      then show ?thesis using w1 by (simp add: same_data_def)
    next
      case lk: (Inr lookup)
      obtain r w2 where tx: "with_tx Internal (Refresh_body en s c random ?h lookup) w1 = (r, w2)" by fastforce
      have fin: "(res, w') = (case r of Inl e \<Rightarrow> (Inl e, w2) | Inr None \<Rightarrow> (Inl Unauthorized, w2) | Inr (Some x) \<Rightarrow> (Inr x, w2))"
        using run g Inr False lk tx
        by (auto simp: AuthHandler_Refresh_def tbind_def attempt_def ret_def fail_def Let_def split: sum.splits option.splits)
      have "data w2 = data w1 \<and> (\<forall>x. r \<noteq> Inr x) \<or>
          (\<exists>x. refreshed en s ?h (now w1) (wall w1) (data w1) x (data w2) \<and> (r = Inr x \<or> r = Inl Internal))"
        by (rule session_tx_ends [OF session_sys_same [OF w1 sys] tx, where P = "\<lambda>n t d x d'. refreshed en s ?h n t d x d'"])
          (rule Refresh_refines)
      then show ?thesis
      proof
        assume "data w2 = data w1 \<and> (\<forall>x. r \<noteq> Inr x)"
        then show ?thesis using fin w1 by (auto simp: same_data_def split: sum.splits)
      next
        assume "\<exists>x. refreshed en s ?h (now w1) (wall w1) (data w1) x (data w2) \<and> (r = Inr x \<or> r = Inl Internal)"
        then obtain x where "refreshed en s ?h (now w) (wall w) (data w) x (data w2)" "r = Inr x \<or> r = Inl Internal"
          using w1 by (auto simp: same_data_def)
        moreover have "case x of None \<Rightarrow> res = Inl Unauthorized \<or> res = Inl Internal | Some y \<Rightarrow> res = Inr y \<or> res = Inl Internal"
          using fin calculation(2) by (auto split: option.splits)
        moreover have "w' = w2" using fin by (auto split: sum.splits option.splits)
        ultimately show ?thesis using Inr by blast
      qed
    qed
  qed
qed

text \<open>What a logout did when it ended well.\<close>

definition logged_out :: "primitives \<Rightarrow> Principal \<Rightarrow> string \<Rightarrow> time \<Rightarrow> db \<Rightarrow> db \<Rightarrow> bool" where
  "logged_out en p token n d d' \<longleftrightarrow>
     (\<exists>f tok bearer. f \<in> set (session_families d) \<and> sf_revoked_at f = None
        \<and> sf_business_id f = pc_BusinessID p \<and> sf_user_id f = pc_UserID p
        \<and> tok \<in> set (refresh_tokens d) \<and> rt_token_hash tok = HashRefreshToken en token \<and> token_family tok f
        \<and> bearer \<in> set (refresh_tokens d) \<and> rt_id bearer = pc_SessionID p \<and> token_family bearer f
        \<and> session_step n d (Closed f) d')"

lemma Logout_ends:
  assumes sys: "session_sys w" and run: "AuthHandler_Logout en c who body w = (res, w')"
  shows "data w' = data w \<and> (\<forall>x. res \<noteq> Inr x) \<or>
    (\<exists>p token. who = Some p \<and> decodeAuthBody body = Inr token \<and> logged_out en p token (now w) (data w) (data w')
       \<and> (res = Inr () \<or> res = Inl Internal))"
proof (cases "who = None \<or> (\<exists>e. decodeAuthBody body = Inl e) \<or> decodeAuthBody body = Inr []")
  case True
  then show ?thesis using run by (auto simp: AuthHandler_Logout_def fail_run split: option.splits sum.splits)
next
  case False
  then obtain p token where who: "who = Some p" and token: "decodeAuthBody body = Inr token" "token \<noteq> []"
    by (cases "decodeAuthBody body") auto
  obtain found w1 where g: "FindRefreshTokenFamily (HashRefreshToken en token) w = (found, w1)" by fastforce
  have w1: "same_data w w1" by (rule readsD [OF session_queries_read(6) g])
  show ?thesis
  proof (cases "\<exists>tok. found = Inr tok \<and> rt_business_id tok = pc_BusinessID p \<and> rt_user_id tok = pc_UserID p")
    case False
    then have "res = Inl Unauthorized" "w' = w1"
      using run g who token
      by (auto simp: AuthHandler_Logout_def tbind_def as_unauthorized_def on_err_def fail_def split: sum.splits if_splits)
    then show ?thesis using w1 by (simp add: same_data_def)
  next
    case True
    then obtain tok where tok: "found = Inr tok" "rt_business_id tok = pc_BusinessID p" "rt_user_id tok = pc_UserID p" by blast
    then have tx: "with_tx Internal (Logout_body c p tok) w1 = (res, w')"
      using run g who token by (simp add: AuthHandler_Logout_def tbind_def as_unauthorized_def on_err_def)
    have mem: "tok \<in> set (refresh_tokens (data w))" "rt_token_hash tok = HashRefreshToken en token"
      using session_lookups(3) [of _ w tok w1] g tok(1) by blast+
    let ?P = "\<lambda>n t d x d'. \<exists>f bearer. f \<in> set (session_families d) \<and> sf_revoked_at f = None
        \<and> family_of (rt_family_id tok) (pc_BusinessID p) (pc_UserID p) f
        \<and> bearer \<in> set (refresh_tokens d) \<and> rt_id bearer = pc_SessionID p \<and> token_family bearer f
        \<and> session_step n d (Closed f) d'"
    have "data w' = data w1 \<and> (\<forall>x. res \<noteq> Inr x) \<or>
        (\<exists>x. ?P (now w1) (wall w1) (data w1) x (data w') \<and> (res = Inr x \<or> res = Inl Internal))"
      by (rule session_tx_ends [OF session_sys_same [OF w1 sys] tx, where P = ?P]) (rule Logout_refines; simp)
    moreover have "logged_out en p token (now w) (data w) (data w')" if "?P (now w1) (wall w1) (data w1) x (data w')" for x
    proof -
      from that obtain f bearer where "f \<in> set (session_families (data w))" "sf_revoked_at f = None"
        "family_of (rt_family_id tok) (pc_BusinessID p) (pc_UserID p) f" "bearer \<in> set (refresh_tokens (data w))"
        "rt_id bearer = pc_SessionID p" "token_family bearer f" "session_step (now w) (data w) (Closed f) (data w')"
        using w1 by (auto simp: same_data_def)
      moreover from this(3) have "token_family tok f" "sf_business_id f = pc_BusinessID p" "sf_user_id f = pc_UserID p"
        using tok by (simp_all add: family_of_def)
      ultimately show ?thesis unfolding logged_out_def using mem by blast
    qed
    ultimately show ?thesis using who token w1 by (auto simp: same_data_def)
  qed
qed

section \<open>Reachable worlds\<close>

text \<open>
  The transactions of the handlers, with what their lookups found at any earlier time as arguments: whatever
  runs between the lookup of a handler and its transaction is covered. Owner registration, which opens a first session,
  and the platform administration, which revokes the families of a deactivated business, also write these two tables;
  they are not modelled and not covered here.
\<close>

definition sessions_untouched :: "db \<Rightarrow> db \<Rightarrow> bool" where
  "sessions_untouched d d' \<longleftrightarrow> session_families d' = session_families d \<and> refresh_tokens d' = refresh_tokens d"

inductive session_request :: "world \<Rightarrow> world \<Rightarrow> bool" where
  elsewhere: "sessions_untouched (data w) (data w') \<Longrightarrow> all_fresh w' \<Longrightarrow> now w \<le> now w' \<Longrightarrow> session_request w w'"
| login: "issue en s c random u w = (r, w') \<Longrightarrow> session_request w w'"
| refresh: "with_tx Internal (Refresh_body en s c random hash lookup) w = (r', w') \<Longrightarrow> session_request w w'"
| logout: "with_tx Internal (Logout_body c p lookup) w = (r'', w') \<Longrightarrow> session_request w w'"

inductive session_reachable :: "world \<Rightarrow> bool" where
  start: "session_families (data w) = [] \<Longrightarrow> refresh_tokens (data w) = [] \<Longrightarrow> all_fresh w \<Longrightarrow> session_reachable w"
| step: "session_reachable w \<Longrightarrow> session_request w w' \<Longrightarrow> session_reachable w'"

lemma session_request_sys:
  assumes "session_request w w'" and "session_sys w"
  shows "session_sys w'"
  using assms
proof cases
  case elsewhere
  then show ?thesis
    using sess_ok_later [OF sess_ok_frame [OF session_sysD(3) [OF assms(2)]]] by (simp add: session_sys_def sessions_untouched_def)
next
  case (login en s c random u r)
  from issue_op.tx_preserves [OF assms(2) this [unfolded issue_def]] show ?thesis .
next
  case (refresh en s c random hash lookup r)
  from refresh_op.tx_preserves [OF assms(2) this] show ?thesis .
next
  case (logout c p lookup r)
  from logout_op.tx_preserves [OF assms(2) this] show ?thesis .
qed

lemma session_reachable_sys: "session_reachable w \<Longrightarrow> session_sys w"
proof (induction rule: session_reachable.induct)
  case (start w)
  then show ?case by (simp add: session_sys_def sess_ok_def)
next
  case (step w w')
  then show ?case using session_request_sys by blast
qed

text \<open>A transaction changed nothing, or did one event.\<close>

lemma session_tx_steps:
  assumes sys: "session_sys w"
  shows "issue en s c random u w = (r, w') \<Longrightarrow>
      data w' = data w \<or> (\<exists>e. session_step (now w) (data w) e (data w'))"
    and "with_tx Internal (Refresh_body en s c random hash lookup) w = (r', w') \<Longrightarrow>
      data w' = data w \<or> (\<exists>e. session_step (now w) (data w) e (data w'))"
    and "with_tx Internal (Logout_body c p lookup) w = (r'', w') \<Longrightarrow>
      data w' = data w \<or> (\<exists>e. session_step (now w) (data w) e (data w'))"
proof -
  show "data w' = data w \<or> (\<exists>e. session_step (now w) (data w) e (data w'))" if "issue en s c random u w = (r, w')"
    using issue_ends [OF sys that] by blast
  show "data w' = data w \<or> (\<exists>e. session_step (now w) (data w) e (data w'))"
    if tx: "with_tx Internal (Refresh_body en s c random hash lookup) w = (r', w')"
  proof -
    have "data w' = data w \<and> (\<forall>x. r' \<noteq> Inr x) \<or> (\<exists>x. (\<exists>e. session_step (now w) (data w) e (data w')) \<and> (r' = Inr x \<or> r' = Inl Internal))"
      by (rule session_tx_ends [OF sys tx, where P = "\<lambda>n t d x d'. \<exists>e. session_step n d e d'"])
        (rule refreshed_step [OF Refresh_refines])
    then show ?thesis by blast
  qed
  show "data w' = data w \<or> (\<exists>e. session_step (now w) (data w) e (data w'))"
    if tx: "with_tx Internal (Logout_body c p lookup) w = (r'', w')"
  proof -
    have "data w' = data w \<and> (\<forall>x. r'' \<noteq> Inr x) \<or> (\<exists>x. (\<exists>e. session_step (now w) (data w) e (data w')) \<and> (r'' = Inr x \<or> r'' = Inl Internal))"
    proof (rule session_tx_ends [OF sys tx, where P = "\<lambda>n t d x d'. \<exists>e. session_step n d e d'"])
      show "\<exists>e. session_step (now u) (data u) e (data v)" if "session_sys u" "Logout_body c p lookup u = (Inr x, v)" for u x v
        using Logout_refines [OF that(1), of c p lookup v] that(2) by auto
    qed
    then show ?thesis by blast
  qed
qed

lemma session_request_steps:
  assumes "session_request w w'" and sys: "session_sys w"
  shows "sessions_untouched (data w) (data w') \<or> (\<exists>e. session_step (now w) (data w) e (data w'))"
  using assms(1)
proof cases
  case (login en s c random u r)
  from session_tx_steps(1) [OF sys this] show ?thesis by (auto simp: sessions_untouched_def)
next
  case (refresh en s c random hash lookup r)
  from session_tx_steps(2) [OF sys this] show ?thesis by (auto simp: sessions_untouched_def)
next
  case (logout c p lookup r)
  from session_tx_steps(3) [OF sys this] show ?thesis by (auto simp: sessions_untouched_def)
qed simp

text \<open>A revoked family stays as it is, a token keeps its family and its hash, a consumed token stays consumed.\<close>

definition same_token :: "token_row \<Rightarrow> token_row \<Rightarrow> bool" where
  "same_token t t' \<longleftrightarrow> rt_id t' = rt_id t \<and> rt_business_id t' = rt_business_id t \<and> rt_user_id t' = rt_user_id t
     \<and> rt_token_hash t' = rt_token_hash t \<and> rt_family_id t' = rt_family_id t \<and> rt_expires_at t' = rt_expires_at t
     \<and> (rt_revoked_at t \<noteq> None \<longrightarrow> rt_revoked_at t' = rt_revoked_at t)"

lemma same_token_refl [simp]: "same_token t t"
  by (simp add: same_token_def)

lemma same_token_trans: "same_token t t' \<Longrightarrow> same_token t' t'' \<Longrightarrow> same_token t t''"
  by (auto simp: same_token_def)

lemma session_step_kept:
  assumes "session_step n d e d'"
  shows "f \<in> set (session_families d) \<Longrightarrow> sf_revoked_at f \<noteq> None \<Longrightarrow> f \<in> set (session_families d')"
    and "t \<in> set (refresh_tokens d) \<Longrightarrow> \<exists>t' \<in> set (refresh_tokens d'). same_token t t'"
proof -
  show "f \<in> set (session_families d')" if f: "f \<in> set (session_families d)" "sf_revoked_at f \<noteq> None"
    using assms
  proof cases
    case (closed g act a)
    then have "f \<noteq> g" using f(2) by auto
    with closed f(1) show ?thesis by (auto simp: set_replace_row)
  qed (use f in simp_all)
  show "\<exists>t' \<in> set (refresh_tokens d'). same_token t t'" if t: "t \<in> set (refresh_tokens d)"
    using assms
  proof cases
    case (rotated f x x' a)
    let ?x = "x\<lparr>rt_revoked_at := Some n\<rparr>"
    have "(if t = x then ?x else t) \<in> set (replace_row x ?x (refresh_tokens d))" using t by (auto simp: replace_row_def)
    then have "(if t = x then ?x else t) \<in> set (refresh_tokens d')" by (simp add: rotated(2))
    moreover have "same_token t (if t = x then ?x else t)" using rotated(7) by (simp add: same_token_def)
    ultimately show ?thesis by blast
  next
    case (opened f x a)
    then show ?thesis using t by (intro bexI [of _ t]) simp_all
  next
    case (closed f act a)
    then show ?thesis using t by (intro bexI [of _ t]) simp_all
  qed
qed

lemma session_requests_kept:
  assumes "session_request\<^sup>*\<^sup>* w w'" and "session_sys w"
  shows "session_sys w'"
    and "f \<in> set (session_families (data w)) \<Longrightarrow> sf_revoked_at f \<noteq> None \<Longrightarrow> f \<in> set (session_families (data w'))"
    and "t \<in> set (refresh_tokens (data w)) \<Longrightarrow> \<exists>t' \<in> set (refresh_tokens (data w')). same_token t t'"
proof -
  have "session_sys w' \<and> (f \<in> set (session_families (data w)) \<longrightarrow> sf_revoked_at f \<noteq> None \<longrightarrow> f \<in> set (session_families (data w')))
    \<and> (t \<in> set (refresh_tokens (data w)) \<longrightarrow> (\<exists>t' \<in> set (refresh_tokens (data w')). same_token t t'))"
    using assms
  proof (induction rule: rtranclp_induct)
    case base
    then show ?case using same_token_refl by blast
  next
    case (step u v)
    then have sys: "session_sys u" by blast
    from session_request_steps [OF step(2) sys] consider "sessions_untouched (data u) (data v)"
      | e where "session_step (now u) (data u) e (data v)" by blast
    then show ?case
    proof cases
      case 1
      then show ?thesis using step session_request_sys [OF step(2) sys] by (simp add: sessions_untouched_def)
    next
      case 2
      note kept = session_step_kept [OF 2]
      show ?thesis using step kept session_request_sys [OF step(2) sys] same_token_trans by blast
    qed
  qed
  then show "session_sys w'"
    and "f \<in> set (session_families (data w)) \<Longrightarrow> sf_revoked_at f \<noteq> None \<Longrightarrow> f \<in> set (session_families (data w'))"
    and "t \<in> set (refresh_tokens (data w)) \<Longrightarrow> \<exists>t' \<in> set (refresh_tokens (data w')). same_token t t'" by blast+
qed

section \<open>The handlers are requests\<close>

lemma same_data_request: "session_sys w \<Longrightarrow> same_data w u \<Longrightarrow> session_request w u"
  by (rule session_request.elsewhere)
    (use session_sys_same session_sysD(4) in \<open>auto simp: same_data_def sessions_untouched_def\<close>)

lemma Login_requests:
  assumes sys: "session_sys w" and run: "AuthHandler_Login en s c random body w = (res, w')"
  shows "session_request\<^sup>*\<^sup>* w w'"
  using Login_cases [OF run] same_data_request [OF sys] session_request.login by (meson r_into_rtranclp rtranclp.rtrancl_into_rtrancl)

lemma Refresh_requests:
  assumes sys: "session_sys w" and run: "AuthHandler_Refresh en s c random body w = (res, w')"
  shows "session_request\<^sup>*\<^sup>* w w'"
proof -
  have find: "session_request w w1" if "FindRefreshTokenFamily h w = (found, w1)" for h found w1
    using same_data_request [OF sys readsD [OF session_queries_read(6) that]] .
  have "w' = w \<or> session_request w w' \<or> (\<exists>w1. session_request w w1 \<and> session_request w1 w')"
    using run unfolding AuthHandler_Refresh_def Let_def
    by (auto simp: tbind_def attempt_def fail_def ret_def split: sum.splits if_splits option.splits prod.splits
        dest!: find session_request.refresh)
  then show ?thesis by (meson r_into_rtranclp rtranclp.rtrancl_into_rtrancl rtranclp.rtrancl_refl)
qed

lemma Logout_requests:
  assumes sys: "session_sys w" and run: "AuthHandler_Logout en c who body w = (res, w')"
  shows "session_request\<^sup>*\<^sup>* w w'"
proof -
  have find: "session_request w w1" if "FindRefreshTokenFamily h w = (found, w1)" for h found w1
    using same_data_request [OF sys readsD [OF session_queries_read(6) that]] .
  have "w' = w \<or> session_request w w' \<or> (\<exists>w1. session_request w w1 \<and> session_request w1 w')"
    using run unfolding AuthHandler_Logout_def Let_def
    by (auto simp: tbind_def as_unauthorized_def on_err_def fail_def ret_def
        split: sum.splits if_splits option.splits prod.splits dest!: find session_request.logout)
  then show ?thesis by (meson r_into_rtranclp rtranclp.rtrancl_into_rtrancl rtranclp.rtrancl_refl)
qed

end
