(* ===== verification/Session_Progress.thy ===== *)
theory Session_Progress
  imports Session_Worlds
begin

text \<open>
  Sessions over a calm connection: a replay is contained when the audit row can be written and is not when
  it cannot, a logout closes the family, and an access token is accepted as long as the state it was
  issued for stands.
\<close>

section \<open>Statements over a calm connection\<close>

lemma calm_lookup:
  assumes "faults w = []" and "x \<in> set (get (data w))" and "P (now w) (data w) x"
    and "\<And>y. y \<in> set (get (data w)) \<Longrightarrow> P (now w) (data w) y \<Longrightarrow> y = x"
  shows "only_one (select (\<lambda>n d. filter (P n d) (get d))) w = (Inr x, w)"
proof -
  have "x \<in> set (filter (P (now w) (data w)) (get (data w)))" using assms(2,3) by simp
  then obtain y ys where l: "filter (P (now w) (data w)) (get (data w)) = y # ys"
    by (cases "filter (P (now w) (data w)) (get (data w))") auto
  then have "y \<in> set (filter (P (now w) (data w)) (get (data w)))" by simp
  then have "y = x" using assms(4) by simp
  with l show ?thesis using assms(1) by (simp add: one_select_calm)
qed

lemma tbind_attempt: "p w = (r, u) \<Longrightarrow> tbind (attempt p) f w = f r u"
  by (simp add: tbind_def attempt_def)

lemma guard_Inr: "(if b then fail e else p) w = (Inr x, w') \<longleftrightarrow> \<not> b \<and> p w = (Inr x, w')"
  by (simp add: fail_def)

text \<open>What the audit row of a session needs: the account, and a user agent the server accepts.\<close>

definition session_audit_fits :: "db \<Rightarrow> i64 \<Rightarrow> i64 \<Rightarrow> client \<Rightarrow> bool" where
  "session_audit_fits d b u c \<longleftrightarrow> list_ex (\<lambda>x. b_id x = b) (businesses d) \<and> user_exists d b u
     \<and> pg_text_opt (audit_user_agent (cl_user_agent c))"

lemma session_audit_calm:
  assumes "faults w = []" and "session_audit_fits (data w) b u c" and "pg_text act" "btrim act \<noteq> []"
  shows "\<exists>v. auditSession c b u i act w = (Inr (), v) \<and> faults v = []"
proof -
  have "CHR 0x00 \<notin> set act" using assms(3) by (simp add: pg_text_def)
  moreover have "btrim ''session_family'' \<noteq> []" by code_simp
  ultimately show ?thesis
    using assms unfolding auditSession_def InsertAuditLog_def insert_audit_def
    by (simp add: insert_serial_def tbind_def ret_def Let_def insert_audit_error_def session_audit_fits_def jval_opt_ok_def)
qed

lemma session_audit_refused:
  assumes "faults w = []" and "\<not> pg_text_opt (audit_user_agent (cl_user_agent c))"
  shows "\<exists>v. auditSession c b u i act w = (Inl InvalidText, v) \<and> faults v = []"
  using assms unfolding auditSession_def InsertAuditLog_def insert_audit_def
  by (simp add: insert_serial_def tbind_def ret_def Let_def insert_audit_error_def)

lemma close_calm:
  assumes sys: "session_sys w" and calm: "faults w = []"
    and f: "f \<in> set (session_families (data w))" "sf_revoked_at f = None"
  shows "\<exists>v. RevokeSessionFamily (sf_id f) (sf_business_id f) (sf_user_id f) w = (Inr (), v) \<and> faults v = []
    \<and> data v = (data w)\<lparr>session_families := replace_row f (f\<lparr>sf_revoked_at := Some (now w)\<rparr>) (session_families (data w))\<rparr>"
proof -
  let ?p = "\<lambda>x. family_of (sf_id f) (sf_business_id f) (sf_user_id f) x \<and> sf_revoked_at x = None"
  have p: "?p f" "\<And>x. ?p x \<Longrightarrow> sf_id x = sf_id f" using f(2) by (simp_all add: family_of_def)
  have F: "filter ?p (session_families (data w)) = [f]"
    by (rule families_tbl.filter_key [where p = ?p, OF session_sysD(1) [OF sys] f(1) p])
  have M: "map (\<lambda>x. if ?p x then x\<lparr>sf_revoked_at := Some (now w)\<rparr> else x) (session_families (data w))
      = replace_row f (f\<lparr>sf_revoked_at := Some (now w)\<rparr>) (session_families (data w))"
    by (rule families_tbl.selects_one [where p = ?p, OF session_sysD(1) [OF sys] f(1) p])
  have "family_check (f\<lparr>sf_revoked_at := Some (now w)\<rparr>)"
    using sess_okD(1) [OF session_sysD(3) [OF sys] f(1)] by (simp add: family_check_def)
  then have "update_family_error (data w) (f\<lparr>sf_revoked_at := Some (now w)\<rparr>) = None" by (simp add: update_family_error_def)
  then have "update_rows session_families (\<lambda>rs d. d\<lparr>session_families := rs\<rparr>) update_family_error ?p
      (\<lambda>n f. f\<lparr>sf_revoked_at := Some n\<rparr>) w = (Inr [f\<lparr>sf_revoked_at := Some (now w)\<rparr>],
        w\<lparr>data := (data w)\<lparr>session_families := replace_row f (f\<lparr>sf_revoked_at := Some (now w)\<rparr>) (session_families (data w))\<rparr>\<rparr>)"
    unfolding update_rows_def stmt_calm [OF calm] F M by simp
  then show ?thesis unfolding RevokeSessionFamily_def tbind_def by (simp add: ret_def calm)
qed

lemma find_token_calm:
  assumes "session_sys w" and "faults w = []" and "tok \<in> set (refresh_tokens (data w))" and "pg_text (rt_token_hash tok)"
  shows "FindRefreshTokenFamily (rt_token_hash tok) w = (Inr tok, w)"
    "GetRefreshTokenForUpdate (rt_token_hash tok) w = (Inr tok, w)"
proof -
  have "only_one (select (\<lambda>n d. filter (\<lambda>t. rt_token_hash t = rt_token_hash tok) (refresh_tokens d))) w = (Inr tok, w)"
    by (rule calm_lookup [where P = "\<lambda>n d t. rt_token_hash t = rt_token_hash tok" and get = refresh_tokens])
      (use assms sess_okD(4) [OF session_sysD(3) [OF assms(1)]] in auto)
  then show "FindRefreshTokenFamily (rt_token_hash tok) w = (Inr tok, w)"
    "GetRefreshTokenForUpdate (rt_token_hash tok) w = (Inr tok, w)"
    using assms(2,4) by (simp_all add: FindRefreshTokenFamily_def GetRefreshTokenForUpdate_def)
qed

lemma lock_family_calm:
  assumes "session_sys w" and "faults w = []" and "f \<in> set (session_families (data w))" and "family_of i b u f"
  shows "LockSessionFamily i b u w = (Inr f, w)"
  unfolding LockSessionFamily_def
  by (rule calm_lookup [where P = "\<lambda>n d x. family_of i b u x" and get = session_families])
    (use assms families_tbl.key_unique [OF session_sysD(1) [OF assms(1)]] in \<open>auto simp: family_of_def\<close>)

section \<open>A replayed token\<close>

lemma replay_body:
  assumes sys: "session_sys w" and calm: "faults w = []"
    and tok: "tok \<in> set (refresh_tokens (data w))" "pg_text (rt_token_hash tok)" "rt_revoked_at tok \<noteq> None"
    and f: "f \<in> set (session_families (data w))" "token_family tok f" "sf_revoked_at f = None"
  shows "Refresh_body en s c random (rt_token_hash tok) tok w = (tbind (Refresh_replay c f) (\<lambda>_. ret None)) w"
  using lock_family_calm [OF sys calm f(1,2)] find_token_calm(2) [OF sys calm tok(1,2)] tok(3) f(2,3)
  by (simp add: Refresh_body_def tbind_def as_unauthorized_def on_err_def family_of_def)

lemma replay_handler:
  assumes sys: "session_sys w" and calm: "faults w = []"
    and token: "decodeAuthBody body = Inr token" "token \<noteq> []" "rt_token_hash tok = HashRefreshToken en token"
    and tok: "tok \<in> set (refresh_tokens (data w))" "pg_text (rt_token_hash tok)"
  shows "AuthHandler_Refresh en s c random body w =
    tbind (with_tx Internal (Refresh_body en s c random (rt_token_hash tok) tok)) (\<lambda>outcome.
      case outcome of None \<Rightarrow> fail Unauthorized | Some response \<Rightarrow> ret response) w"
  using find_token_calm(1) [OF sys calm tok] token
  by (simp add: AuthHandler_Refresh_def Let_def tbind_attempt)

lemma replay_contained:
  assumes sys: "session_sys w" and calm: "faults w = []"
    and token: "decodeAuthBody body = Inr token" "token \<noteq> []" "rt_token_hash tok = HashRefreshToken en token"
    and tok: "tok \<in> set (refresh_tokens (data w))" "pg_text (rt_token_hash tok)" "rt_revoked_at tok \<noteq> None"
    and f: "f \<in> set (session_families (data w))" "token_family tok f" "sf_revoked_at f = None"
    and fits: "session_audit_fits (data w) (sf_business_id f) (sf_user_id f) c"
  shows "\<exists>w'. AuthHandler_Refresh en s c random body w = (Inl Unauthorized, w') \<and> faults w' = []
    \<and> session_step (now w) (data w) (Closed f) (data w')"
proof -
  obtain u where rv: "RevokeSessionFamily (sf_id f) (sf_business_id f) (sf_user_id f) w = (Inr (), u)" and fu: "faults u = []"
    and du: "data u = (data w)\<lparr>session_families := replace_row f (f\<lparr>sf_revoked_at := Some (now w)\<rparr>) (session_families (data w))\<rparr>"
    using close_calm [OF sys calm f(1,3)] by blast
  have "session_audit_fits (data u) (sf_business_id f) (sf_user_id f) c"
    using fits by (simp add: du session_audit_fits_def user_exists_def)
  moreover have "pg_text ''AUTH_REFRESH_REPLAY_DETECTED''" "btrim ''AUTH_REFRESH_REPLAY_DETECTED'' \<noteq> []" by code_simp+
  ultimately obtain v where as: "auditSession c (sf_business_id f) (sf_user_id f) (sf_id f) ''AUTH_REFRESH_REPLAY_DETECTED'' u = (Inr (), v)"
    and fv: "faults v = []" using session_audit_calm [OF fu] by blast
  have "Refresh_body en s c random (rt_token_hash tok) tok w = (Inr None, v)"
    unfolding replay_body [OF sys calm tok f]
    by (simp add: Refresh_replay_def tbind_def as_internal_def on_err_def rv as ret_def)
  then have "with_tx Internal (Refresh_body en s c random (rt_token_hash tok) tok) w = (Inr None, v)"
    by (simp add: with_tx_def calm fv)
  then have "AuthHandler_Refresh en s c random body w = (Inl Unauthorized, v)"
    unfolding replay_handler [OF sys calm token tok(1,2)] by (simp add: tbind_def fail_def)
  moreover have "session_step (now w) (data w) (Closed f) (data v)"
    by (rule close_refines [OF sys f(1,3) _ rv as]) simp
  ultimately show ?thesis using fv by blast
qed

text \<open>
  The audit row is written in the same transaction: a client whose user agent the server refuses
  as text makes it fail, and with it the containment.
\<close>

lemma replay_not_contained:
  assumes sys: "session_sys w" and calm: "faults w = []"
    and token: "decodeAuthBody body = Inr token" "token \<noteq> []" "rt_token_hash tok = HashRefreshToken en token"
    and tok: "tok \<in> set (refresh_tokens (data w))" "pg_text (rt_token_hash tok)" "rt_revoked_at tok \<noteq> None"
    and f: "f \<in> set (session_families (data w))" "token_family tok f" "sf_revoked_at f = None"
    and ua: "\<not> pg_text_opt (audit_user_agent (cl_user_agent c))"
  shows "\<exists>w'. AuthHandler_Refresh en s c random body w = (Inl Internal, w') \<and> data w' = data w"
proof -
  obtain u where rv: "RevokeSessionFamily (sf_id f) (sf_business_id f) (sf_user_id f) w = (Inr (), u)" and fu: "faults u = []"
    using close_calm [OF sys calm f(1,3)] by blast
  obtain v where as: "auditSession c (sf_business_id f) (sf_user_id f) (sf_id f) ''AUTH_REFRESH_REPLAY_DETECTED'' u = (Inl InvalidText, v)"
    and fv: "faults v = []" using session_audit_refused [OF fu ua] by blast
  have "Refresh_body en s c random (rt_token_hash tok) tok w = (Inl Internal, v)"
    unfolding replay_body [OF sys calm tok f]
    by (simp add: Refresh_replay_def tbind_def as_internal_def on_err_def rv as)
  then have "with_tx Internal (Refresh_body en s c random (rt_token_hash tok) tok) w = (Inl Internal, v\<lparr>data := data w\<rparr>)"
    by (simp add: with_tx_def calm fv)
  then show ?thesis
    unfolding replay_handler [OF sys calm token tok(1,2)] by (simp add: tbind_def)
qed

section \<open>What a bearer token is accepted for\<close>

lemma authenticate_Inr:
  assumes "authenticate en m logout header w = (Inr p, w')"
  shows "data w' = data w \<and> account_live (data w) (pc_BusinessID p) (pc_UserID p)
    \<and> (\<exists>u \<in> set (users (data w)). u_id u = pc_UserID p \<and> u_business_id u = pc_BusinessID p \<and> u_is_active u
         \<and> u_role u = pc_Role p \<and> u_email u = pc_Email p)
    \<and> pc_OutletIDs p = active_outlet_ids (data w) (pc_BusinessID p) (pc_UserID p)
    \<and> (pc_Role p = ''LAUNDRY_STAFF'' \<longrightarrow> pc_OutletIDs p \<noteq> [])
    \<and> (\<exists>t \<in> set (refresh_tokens (data w)). rt_id t = pc_SessionID p \<and> rt_business_id t = pc_BusinessID p
         \<and> rt_user_id t = pc_UserID p \<and> now w < rt_expires_at t \<and> family_live (data w) t
         \<and> (logout \<or> rt_revoked_at t = None))
    \<and> (\<exists>raw claims. bearer header = Some raw \<and> ParseAccessToken en m (wall w) raw = Some claims
         \<and> ac_Role claims = pc_Role p \<and> ac_OutletIDs claims = pc_OutletIDs p)"
proof -
  from assms obtain raw claims uid t w1 u w2 outs w3 perms where
    h: "bearer header = Some raw" "ParseAccessToken en m (wall w) raw = Some claims" "SubjectID claims = Some uid"
    and s: "(if logout then GetLogoutSession (ac_SessionID claims) (ac_BusinessID claims) uid
               else GetActiveRefreshSession (ac_SessionID claims) (ac_BusinessID claims) uid) w = (Inr t, w1)"
    and gu: "GetActiveUser uid (ac_BusinessID claims) w1 = (Inr u, w2)" and role: "u_role u = ac_Role claims"
    and o: "ListUserOutletIDs (ac_BusinessID claims) uid w2 = (Inr outs, w3)" "outs = ac_OutletIDs claims"
      "u_role u = ''LAUNDRY_STAFF'' \<longrightarrow> outs \<noteq> []"
    and pm: "ListUserPermissionCodes (en_collation en) (ac_BusinessID claims) uid w3 = (Inr perms, w')"
    and p: "p = \<lparr>pc_UserID = uid, pc_BusinessID = ac_BusinessID claims, pc_SessionID = ac_SessionID claims,
          pc_Email = u_email u, pc_FullName = u_full_name u, pc_Role = u_role u, pc_OutletIDs = outs,
          pc_Permissions = perms\<rparr>"
    unfolding authenticate_def tbind_Inr or_fail_Inr time_now_run as_error_Inr guard_Inr ret_run same_iff
    by blast
  have T: "t \<in> set (refresh_tokens (data w)) \<and> rt_id t = ac_SessionID claims \<and> rt_business_id t = ac_BusinessID claims
      \<and> rt_user_id t = uid \<and> now w < rt_expires_at t \<and> family_live (data w) t \<and> (logout \<or> rt_revoked_at t = None)
      \<and> same_data w w1"
    using s unfolding GetLogoutSession_def GetActiveRefreshSession_def
    by (auto dest!: one_session_filter split: if_splits)
  note U = active_user_Inr [OF gu]
  have O: "outs = active_outlet_ids (data w2) (ac_BusinessID claims) uid \<and> same_data w2 w3"
    using select_Inr [OF o(1) [unfolded ListUserOutletIDs_def]] by simp
  have d: "data w1 = data w" "data w2 = data w" "data w3 = data w" "data w' = data w"
    using T U O readsD [OF session_queries_read(5) pm] by (simp_all add: same_data_def)
  show ?thesis using T U O h role o p unfolding d by auto
qed

text \<open>The account is found by its primary key.\<close>

definition accounts_keyed :: "db \<Rightarrow> bool" where
  "accounts_keyed d \<longleftrightarrow> distinct (map u_id (users d))"

lemma accounts_keyedD: "accounts_keyed d \<Longrightarrow> u \<in> set (users d) \<Longrightarrow> u' \<in> set (users d) \<Longrightarrow> u_id u = u_id u' \<Longrightarrow> u = u'"
  by (auto simp: accounts_keyed_def distinct_map inj_on_def)

lemma select_calm: "faults w = [] \<Longrightarrow> select sel w = (Inr (sel (now w) (data w)), w)"
  by (simp add: select_def)

lemma authenticate_calm:
  assumes sys: "session_sys w" and calm: "faults w = []" and keyed: "accounts_keyed (data w)"
    and claims: "bearer header = Some raw" "ParseAccessToken en m (wall w) raw = Some claims" "SubjectID claims = Some (u_id u)"
      "ac_BusinessID claims = u_business_id u" "ac_SessionID claims = rt_id tok" "ac_Role claims = u_role u"
      "ac_OutletIDs claims = active_outlet_ids (data w) (u_business_id u) (u_id u)"
    and tok: "tok \<in> set (refresh_tokens (data w))" "rt_business_id tok = u_business_id u" "rt_user_id tok = u_id u"
      "rt_revoked_at tok = None" "now w < rt_expires_at tok" "family_live (data w) tok"
    and u: "u \<in> set (users (data w))" "u_is_active u" "business_active (data w) (u_business_id u)"
      "u_role u = ''LAUNDRY_STAFF'' \<longrightarrow> active_outlet_ids (data w) (u_business_id u) (u_id u) \<noteq> []"
  shows "\<exists>p. Authenticate en m header w = (Inr p, w) \<and> pc_UserID p = u_id u \<and> pc_BusinessID p = u_business_id u
    \<and> pc_SessionID p = rt_id tok \<and> pc_Role p = u_role u
    \<and> pc_OutletIDs p = active_outlet_ids (data w) (u_business_id u) (u_id u)"
proof -
  have "GetActiveRefreshSession (rt_id tok) (u_business_id u) (u_id u) w = (Inr tok, w)"
    unfolding GetActiveRefreshSession_def
    by (rule calm_lookup [where get = refresh_tokens and P = "\<lambda>n d t. rt_id t = rt_id tok \<and> rt_business_id t = u_business_id u
          \<and> rt_user_id t = u_id u \<and> rt_revoked_at t = None \<and> n < rt_expires_at t \<and> family_live d t"])
      (use calm tok tokens_tbl.key_unique [OF session_sysD(2) [OF sys]] in auto)
  moreover have "GetActiveUser (u_id u) (u_business_id u) w = (Inr u, w)"
    unfolding GetActiveUser_def
    by (rule calm_lookup [where get = users and P = "\<lambda>n d x. business_active d (u_business_id x) \<and> u_id x = u_id u
          \<and> u_business_id x = u_business_id u \<and> u_is_active x"])
      (use calm u accounts_keyedD [OF keyed] in auto)
  ultimately show ?thesis
    using claims u(4)
    by (simp add: Authenticate_def authenticate_def or_fail_def tbind_def ret_def fail_def time_now_def
        as_unauthorized_def on_err_def ListUserOutletIDs_def ListUserPermissionCodes_def select_calm [OF calm])
qed

lemma session_accepted:
  assumes sys: "session_sys w" and calm: "faults w = []" and keyed: "accounts_keyed (data w)"
    and jwt: "jwt_reads_back en" and m: "ts_tokens s = Some m"
    and resp: "response_for en s t0 d0 (identity_of u) tok r"
    and ids: "1 \<le> u_id u" "is_int64 (u_id u)" "1 \<le> u_business_id u"
    and role: "utf8_valid (u_role u)"
    and raw: "sr_AccessToken r \<noteq> []" "list_all (\<lambda>c. 0x20 < byte c \<and> byte c < 0x80) (sr_AccessToken r)"
    and time: "wall w < en_numeric_date en (sr_AccessTokenExpiresAt r)"
    and tok: "tok \<in> set (refresh_tokens (data w))" "rt_business_id tok = u_business_id u" "rt_user_id tok = u_id u"
      "rt_revoked_at tok = None" "now w < rt_expires_at tok" "family_live (data w) tok"
    and u: "u \<in> set (users (data w))" "u_is_active u" "business_active (data w) (u_business_id u)"
      "u_role u = ''LAUNDRY_STAFF'' \<longrightarrow> sr_OutletIDs r \<noteq> []"
      "sr_OutletIDs r = active_outlet_ids (data w) (u_business_id u) (u_id u)"
  shows "\<exists>p. Authenticate en m (''Bearer '' @ sr_AccessToken r) w = (Inr p, w) \<and> pc_UserID p = u_id u
    \<and> pc_BusinessID p = u_business_id u \<and> pc_SessionID p = rt_id tok \<and> pc_Role p = u_role u
    \<and> pc_OutletIDs p = sr_OutletIDs r"
proof -
  have sid: "1 \<le> rt_id tok" using tokens_tbl.fresh_pos(1) [OF session_sysD(2) [OF sys] tok(1)] .
  have "NewAccessToken en m (u_id u) (u_business_id u) (rt_id tok) (u_role u) (sr_OutletIDs r) t0
      = Some (sr_AccessToken r, sr_AccessTokenExpiresAt r)"
    using resp m by (auto simp: response_for_def newAccess_def identity_of_def)
  from NewAccessToken_read_back [OF jwt ids sid role this time] obtain claims where
    "ParseAccessToken en m (wall w) (sr_AccessToken r) = Some claims" "SubjectID claims = Some (u_id u)"
    "ac_BusinessID claims = u_business_id u" "ac_SessionID claims = rt_id tok" "ac_Role claims = u_role u"
    "ac_OutletIDs claims = sr_OutletIDs r" by blast
  then show ?thesis
    using authenticate_calm [OF sys calm keyed bearer_header [OF raw], where claims = claims and u = u and tok = tok and en = en and m = m] tok u
    by simp
qed

end
