(* ===== verification/Session_Sample.thy ===== *)
theory Session_Sample
  imports Session_Progress Sample
begin

text \<open>
  A concrete run of the session handlers over the sample database: a clerk logs in, rotates the
  refresh token, and the old token is replayed; used to show that the hypotheses of the
  properties can hold. The primitives are instantiated with concrete functions.
\<close>

definition sample_claims :: "i64 \<Rightarrow> AccessClaims" where
  "sample_claims sid = \<lparr>ac_BusinessID = 1, ac_Role = ''LAUNDRY_STAFF'', ac_OutletIDs = [1], ac_SessionID = sid,
     ac_Issuer = issuer, ac_Subject = ''2'', ac_Audience = [issuer], ac_IssuedAt = sample_time,
     ac_ExpiresAt = sample_time + 900000000\<rparr>"

definition sample_en :: primitives where
  "sample_en = \<lparr>en_sha256 = (\<lambda>s. take 32 (map of_char s)), en_bcrypt_matches = (\<lambda>h p. h = p),
     en_bcrypt_hash = (\<lambda>p c. Some p),
     en_jwt_sign = (\<lambda>key c. if c = sample_claims 1 then Some ''t1'' else if c = sample_claims 2 then Some ''t2'' else None),
     en_jwt_parse = (\<lambda>key t s. if t < sample_time + 900000000 then
        (if s = ''t1'' then Some (sample_claims 1) else if s = ''t2'' then Some (sample_claims 2) else None) else None),
     en_numeric_date = (\<lambda>t. t), en_lower = (\<lambda>s. s), en_collation = map of_char,
     en_ilike = (\<lambda>s p. s = p), en_offset = (\<lambda>_. 25200)\<rparr>"

definition sample_tokens :: TokenManager where
  "sample_tokens = \<lparr>tm_key = ''0123456789abcdef0123456789abcdef'', tm_accessTTL = 900000000\<rparr>"

definition sample_sessions :: TenantSessions where
  "sample_sessions = \<lparr>ts_refreshTTL = 2592000000000, ts_tokens = Some sample_tokens\<rparr>"

definition sample_client :: client where
  "sample_client = \<lparr>cl_address = None, cl_user_agent = ''test''\<rparr>"

definition sample_login :: "loginRequest body" where
  "sample_login = (Inr \<lparr>lq_Email = ''u2'', lq_Password = ''x''\<rparr>, Inl EndOfBody)"

definition world_in :: world where
  "world_in = snd (AuthHandler_Login sample_en sample_sessions sample_client (Some (replicate 32 1)) sample_login sample_world)"

definition token_body :: "nat \<Rightarrow> string body" where
  "token_body b = (Inr (base64_url (replicate 32 b)), Inl EndOfBody)"

definition world_turned :: world where
  "world_turned = snd (AuthHandler_Refresh sample_en sample_sessions sample_client (Some (replicate 32 2)) (token_body 1) world_in)"

section \<open>The worlds are reachable\<close>

lemma sample_session_reachable: "session_reachable sample_world"
  by (rule session_reachable.start) (use sample_reachable in \<open>simp_all add: sample_defs all_fresh_def orders_tbl.fresh_def
      items_tbl.fresh_def history_tbl.fresh_def payments_tbl.fresh_def audit_tbl.fresh_def families_tbl.fresh_def tokens_tbl.fresh_def\<close>)

lemma session_requests_reachable: "session_request\<^sup>*\<^sup>* w w' \<Longrightarrow> session_reachable w \<Longrightarrow> session_reachable w'"
  by (induction rule: rtranclp_induct) (blast intro: session_reachable.step)+

lemma session_run_reachable:
  assumes "session_reachable w"
  shows "AuthHandler_Login en s c random login w = (r, w') \<Longrightarrow> session_reachable w'"
    and "AuthHandler_Refresh en s c random body w = (r, w') \<Longrightarrow> session_reachable w'"
    and "AuthHandler_Logout en c who body w = (r'', w') \<Longrightarrow> session_reachable w'"
  using Login_requests Refresh_requests Logout_requests session_requests_reachable session_reachable_sys assms by metis+

lemma world_in_reachable: "session_reachable world_in"
  using session_run_reachable(1) [OF sample_session_reachable] unfolding world_in_def by (metis prod.collapse)

lemma world_turned_reachable: "session_reachable world_turned"
  using session_run_reachable(2) [OF world_in_reachable] unfolding world_turned_def by (metis prod.collapse)

section \<open>What happened\<close>

definition sample_family :: family_row where
  "sample_family = \<lparr>sf_id = 1, sf_business_id = 1, sf_user_id = 2, sf_created_at = sample_time, sf_revoked_at = None\<rparr>"

definition sample_token :: "nat \<Rightarrow> time option \<Rightarrow> token_row" where
  "sample_token b revoked = \<lparr>rt_id = int b, rt_business_id = 1, rt_user_id = 2,
     rt_token_hash = HashRefreshToken sample_en (base64_url (replicate 32 b)),
     rt_expires_at = sample_time + 2592000000000, rt_revoked_at = revoked, rt_created_at = sample_time, rt_family_id = 1\<rparr>"

lemma logged_in:
  "fst (AuthHandler_Login sample_en sample_sessions sample_client (Some (replicate 32 1)) sample_login sample_world)
     = Inr \<lparr>sr_AccessToken = ''t1'', sr_RefreshToken = base64_url (replicate 32 1),
         sr_AccessTokenExpiresAt = sample_time + 900000000, sr_RefreshTokenExpiresAt = sample_time + 2592000000000,
         sr_Outlets = [(1, ''Asia/Jakarta'')], sr_User = identity_of (sample_user 2 ''LAUNDRY_STAFF''),
         sr_OutletIDs = [1], sr_Permissions = []\<rparr>"
  by code_simp

lemma turned:
  "fst (AuthHandler_Refresh sample_en sample_sessions sample_client (Some (replicate 32 2)) (token_body 1) world_in)
     = Inr \<lparr>sr_AccessToken = ''t2'', sr_RefreshToken = base64_url (replicate 32 2),
         sr_AccessTokenExpiresAt = sample_time + 900000000, sr_RefreshTokenExpiresAt = sample_time + 2592000000000,
         sr_Outlets = [(1, ''Asia/Jakarta'')], sr_User = identity_of (sample_user 2 ''LAUNDRY_STAFF''),
         sr_OutletIDs = [1], sr_Permissions = []\<rparr>"
  by code_simp

lemma in_tables:
  "session_families (data world_in) = [sample_family]" "refresh_tokens (data world_in) = [sample_token 1 None]"
  "users (data world_in) = users sample_db" "businesses (data world_in) = businesses sample_db"
  "faults world_in = []" "now world_in = sample_time" "wall world_in = sample_time"
  by code_simp+

lemma turned_tables:
  "session_families (data world_turned) = [sample_family]"
  "refresh_tokens (data world_turned) = [sample_token 1 (Some sample_time), sample_token 2 None]"
  "users (data world_turned) = users sample_db" "businesses (data world_turned) = businesses sample_db"
  "faults world_turned = []" "now world_turned = sample_time" "wall world_turned = sample_time"
  by code_simp+

lemma sample_jwt: "jwt_reads_back sample_en"
  by (auto simp: jwt_reads_back_def sample_en_def sample_claims_def split: if_splits)

lemma sample_session_audit_fits: "session_audit_fits (data world_turned) 1 2 sample_client"
  by code_simp

section \<open>The clerk logs out\<close>

definition sample_principal :: Principal where
  "sample_principal = \<lparr>pc_UserID = 2, pc_BusinessID = 1, pc_SessionID = 2, pc_Email = ''u2'', pc_FullName = ''User'',
     pc_Role = ''LAUNDRY_STAFF'', pc_OutletIDs = [1], pc_Permissions = []\<rparr>"

definition world_out :: world where
  "world_out = snd (AuthHandler_Logout sample_en sample_client (Some sample_principal) (token_body 2) world_turned)"

lemma sample_logout:
  "AuthHandler_Logout sample_en sample_client (Some sample_principal) (token_body 2) world_turned = (Inr (), world_out)"
proof -
  have "fst (AuthHandler_Logout sample_en sample_client (Some sample_principal) (token_body 2) world_turned) = Inr ()"
    by code_simp
  then show ?thesis unfolding world_out_def by (metis prod.collapse)
qed

lemma world_out_reachable: "session_reachable world_out"
  by (rule session_run_reachable(3) [OF world_turned_reachable sample_logout])

lemma out_tables:
  "session_families (data world_out) = [sample_family\<lparr>sf_revoked_at := Some sample_time\<rparr>]"
  "refresh_tokens (data world_out) = [sample_token 1 (Some sample_time), sample_token 2 None]"
  by code_simp+

text \<open>The reply of the refresh, and a client whose user agent is not UTF-8.\<close>

definition turned_response :: SessionResponse where
  "turned_response = \<lparr>sr_AccessToken = ''t2'', sr_RefreshToken = base64_url (replicate 32 2),
     sr_AccessTokenExpiresAt = sample_time + 900000000, sr_RefreshTokenExpiresAt = sample_time + 2592000000000,
     sr_Outlets = [(1, ''Asia/Jakarta'')], sr_User = identity_of (sample_user 2 ''LAUNDRY_STAFF''),
     sr_OutletIDs = [1], sr_Permissions = []\<rparr>"

lemma turned_response:
  "response_for sample_en sample_sessions sample_time (data world_turned) (identity_of (sample_user 2 ''LAUNDRY_STAFF''))
     (sample_token 2 None) turned_response"
  by code_simp

lemma sample_hash_text: "pg_text (HashRefreshToken sample_en (base64_url (replicate 32 1)))"
  by code_simp

definition bad_client :: client where
  "bad_client = \<lparr>cl_address = None, cl_user_agent = [CHR 0xFF]\<rparr>"

lemma bad_user_agent: "\<not> pg_text_opt (audit_user_agent (cl_user_agent bad_client))"
  by code_simp

text \<open>What a replay of the first token finds.\<close>

lemma sample_replay:
  "decodeAuthBody (token_body 1) = Inr (base64_url (replicate 32 1))"
  "base64_url (replicate 32 1) \<noteq> []"
  "rt_token_hash (sample_token 1 (Some sample_time)) = HashRefreshToken sample_en (base64_url (replicate 32 1))"
  "sample_token 1 (Some sample_time) \<in> set (refresh_tokens (data world_turned))"
  "pg_text (rt_token_hash (sample_token 1 (Some sample_time)))"
  "rt_revoked_at (sample_token 1 (Some sample_time)) \<noteq> None"
  "sample_family \<in> set (session_families (data world_turned))"
  "token_family (sample_token 1 (Some sample_time)) sample_family"
  "sf_revoked_at sample_family = None"
proof -
  show "base64_url (replicate 32 1) \<noteq> []" by code_simp
qed (use sample_hash_text in \<open>simp_all add: token_body_def decodeAuthBody_def sample_token_def sample_family_def
    turned_tables family_of_def\<close>)

end
