(* ===== verification/Session_Properties.thy ===== *)
theory Session_Properties
  imports Session_Sample
begin

text \<open>
  The properties of sessions: the invariant of families and tokens, what login, refresh and logout do, that
  a refresh token is used once and a closed family stays closed, what an accepted bearer token says of the
  account, and the limiter in front of the handlers.
\<close>

section \<open>Families and tokens\<close>

text \<open>C18: In every state the handlers can reach, every refresh token belongs to a session family of its
  own account, expires after it was created, is the only token with its hash, and while it is not consumed it is the only
  such token of its family.\<close>

theorem one_live_token:
  assumes "session_reachable w" and "t \<in> set (refresh_tokens (data w))"
  shows "(\<exists>f \<in> set (session_families (data w)). token_family t f)
    \<and> rt_created_at t < rt_expires_at t
    \<and> filter (\<lambda>x. rt_token_hash x = rt_token_hash t) (refresh_tokens (data w)) = [t]
    \<and> (rt_revoked_at t = None \<longrightarrow>
        filter (\<lambda>x. rt_family_id x = rt_family_id t \<and> rt_revoked_at x = None) (refresh_tokens (data w)) = [t])"
proof -
  note sys = session_reachable_sys [OF assms(1)]
  note ok = session_sysD(3) [OF sys]
  have d: "distinct (refresh_tokens (data w))"
    using session_sysD(2) [OF sys] by (simp add: tokens_tbl.fresh_def distinct_map)
  have "filter (\<lambda>x. rt_token_hash x = rt_token_hash t) (refresh_tokens (data w)) = [t]"
    by (rule filter_only [OF d assms(2)]) (use sess_okD(4) [OF ok _ assms(2)] in auto)
  moreover have "filter (\<lambda>x. rt_family_id x = rt_family_id t \<and> rt_revoked_at x = None) (refresh_tokens (data w)) = [t]"
    if "rt_revoked_at t = None"
    by (rule filter_only [OF d assms(2)]) (use that sess_okD(5) [OF ok _ assms(2)] in auto)
  ultimately show ?thesis using sess_okD(2,3) [OF ok assms(2)] by (simp add: token_check_def)
qed

theorem one_live_token_witness:
  "filter (\<lambda>x. rt_family_id x = 1 \<and> rt_revoked_at x = None) (refresh_tokens (data world_turned)) = [sample_token 2 None]"
  using one_live_token [OF world_turned_reachable, of "sample_token 2 None"]
  by (simp add: turned_tables sample_token_def)

section \<open>Login, refresh and logout\<close>

lemma opened_stored: "session_step n d (Opened f t) d' \<Longrightarrow> f \<in> set (session_families d') \<and> t \<in> set (refresh_tokens d')"
  by (erule openedE) simp

text \<open>A login fails and leaves the data as it was, or found an active account of an active tenant by
  its e-mail whose password matched and opened one family with one token for it, of which the reply carries the
  raw token, its expiry and an access token; the only error after that is a lost reply of the commit.\<close>

lemma login_outcome:
  assumes "session_reachable w" and "AuthHandler_Login en s c random body w = (res, w')"
  shows "data w' = data w \<and> (\<forall>x. res \<noteq> Inr x) \<or>
    (\<exists>req u x f t. decodeAuthBody body = Inr req \<and> logs_in en (data w) req u
       \<and> session_step (now w) (data w) (Opened f t) (data w')
       \<and> sf_business_id f = u_business_id u \<and> sf_user_id f = u_id u
       \<and> response_for en s (wall w) (data w) (identity_of u) t x \<and> (res = Inr x \<or> res = Inl Internal))"
proof -
  note sys = session_reachable_sys [OF assms(1)]
  from Login_cases [OF assms(2)] consider "same_data w w'" "\<forall>x. res \<noteq> Inr x"
    | req u w1 where "decodeAuthBody body = Inr req" "same_data w w1" "logs_in en (data w) req u"
        "issue en s c random (identity_of u) w1 = (res, w')" by blast
  then show ?thesis
  proof cases
    case 1
    then show ?thesis by (simp add: same_data_def)
  next
    case 2
    show ?thesis
      using issue_ends [OF session_sys_same [OF 2(2) sys] 2(4), unfolded same_dataD [OF 2(2)]] 2(1,3)
      by (simp add: identity_of_def) blast
  qed
qed

text \<open>C21: A refresh fails and leaves the data as it was, or its token was the unconsumed and unexpired token of an
  open family and was exchanged for a new token of that family, for an account that is active now; or
  the token had been consumed before, and its family was closed and no session returned.\<close>

theorem refresh_outcome:
  assumes "session_reachable w" and "AuthHandler_Refresh en s c random body w = (res, w')"
  shows "data w' = data w \<and> (\<forall>x. res \<noteq> Inr x) \<or>
    (\<exists>token f tok. decodeAuthBody body = Inr token \<and> f \<in> set (session_families (data w)) \<and> sf_revoked_at f = None
       \<and> tok \<in> set (refresh_tokens (data w)) \<and> token_family tok f \<and> rt_token_hash tok = HashRefreshToken en token
       \<and> (rt_revoked_at tok \<noteq> None \<and> session_step (now w) (data w) (Closed f) (data w')
            \<and> (res = Inl Unauthorized \<or> res = Inl Internal)
          \<or> rt_revoked_at tok = None \<and> wall w < rt_expires_at tok
            \<and> (\<exists>tok' u x. session_step (now w) (data w) (Rotated f tok tok') (data w') \<and> u \<in> set (users (data w))
                 \<and> u_id u = sf_user_id f \<and> u_business_id u = sf_business_id f \<and> u_is_active u
                 \<and> response_for en s (wall w) (data w) (identity_of u) tok' x \<and> (res = Inr x \<or> res = Inl Internal))))"
proof -
  from Refresh_ends [OF session_reachable_sys [OF assms(1)] assms(2)] consider "data w' = data w" "\<forall>x. res \<noteq> Inr x"
    | token out where "decodeAuthBody body = Inr token"
        "refreshed en s (HashRefreshToken en token) (now w) (wall w) (data w) out (data w')"
        "case out of None \<Rightarrow> res = Inl Unauthorized \<or> res = Inl Internal | Some x \<Rightarrow> res = Inr x \<or> res = Inl Internal"
    by blast
  then show ?thesis
  proof cases
    case (2 token out)
    then show ?thesis unfolding refreshed_def by (cases out) (simp; blast)+
  qed blast
qed

theorem refresh_outcome_witness:
  "\<exists>f tok tok'. session_step (now world_in) (data world_in) (Rotated f tok tok') (data world_turned)
    \<and> rt_token_hash tok = HashRefreshToken sample_en (base64_url (replicate 32 1))"
proof -
  obtain x where run: "AuthHandler_Refresh sample_en sample_sessions sample_client (Some (replicate 32 2)) (token_body 1) world_in
      = (Inr x, world_turned)"
    using turned unfolding world_turned_def by (metis prod.collapse)
  have "decodeAuthBody (token_body 1) = Inr (base64_url (replicate 32 1))" by (simp add: token_body_def decodeAuthBody_def)
  with refresh_outcome [OF world_in_reachable run] show ?thesis by force
qed

text \<open>A logout fails and leaves the data as it was, or closes an open family of the principal's account, the
  family of both the refresh token it was given and the bearer token it was called with.\<close>

lemma logout_outcome:
  assumes "session_reachable w" and "AuthHandler_Logout en c who body w = (res, w')"
  shows "data w' = data w \<and> (\<forall>x. res \<noteq> Inr x) \<or>
    (\<exists>p token. who = Some p \<and> decodeAuthBody body = Inr token \<and> logged_out en p token (now w) (data w) (data w')
       \<and> (res = Inr () \<or> res = Inl Internal))"
  by (rule Logout_ends [OF session_reachable_sys [OF assms(1)] assms(2)])

section \<open>A token is used once, a closed family stays closed\<close>

lemma Refresh_session:
  assumes "session_sys w" and "AuthHandler_Refresh en s c random body w = (Inr x, w')"
  shows "\<exists>token f tok. decodeAuthBody body = Inr token \<and> f \<in> set (session_families (data w)) \<and> sf_revoked_at f = None
    \<and> tok \<in> set (refresh_tokens (data w)) \<and> token_family tok f \<and> rt_token_hash tok = HashRefreshToken en token
    \<and> rt_revoked_at tok = None"
proof -
  let ?r = "Inr x :: http_error + SessionResponse"
  from Refresh_ends [OF assms] obtain token out where t: "decodeAuthBody body = Inr token"
    and r: "refreshed en s (HashRefreshToken en token) (now w) (wall w) (data w) out (data w')"
    and o: "case out of None \<Rightarrow> ?r = Inl Unauthorized \<or> ?r = Inl Internal | Some y \<Rightarrow> ?r = Inr y \<or> ?r = Inl Internal"
    by blast
  from o obtain y where "out = Some y" by (cases out) auto
  with r t show ?thesis unfolding refreshed_def by auto
qed

text \<open>A session whose family is closed is found by neither query of the middleware.\<close>

lemma bearer_family:
  assumes "session_sys w" and "authenticate en m b header w = (Inr p, u)" and "tok \<in> set (refresh_tokens (data w))"
    and "pc_SessionID p = rt_id tok"
  shows "family_live (data w) tok"
proof -
  from authenticate_Inr [OF assms(2)] obtain t where t: "t \<in> set (refresh_tokens (data w))" "rt_id t = pc_SessionID p"
    "family_live (data w) t" by blast
  have "t = tok" by (rule tokens_tbl.key_unique [OF session_sysD(2) [OF assms(1)] t(1) assms(3)]) (simp add: t(2) assms(4))
  with t(3) show ?thesis by simp
qed

text \<open>C19: Once a refresh token has been consumed, no later refresh with it returns a session, whatever
  requests come in between.\<close>

theorem consumed_token_dead:
  assumes "session_reachable w" and "tok \<in> set (refresh_tokens (data w))" and "rt_revoked_at tok \<noteq> None"
    and "session_request\<^sup>*\<^sup>* w w'" and "decodeAuthBody body = Inr token" and "HashRefreshToken en token = rt_token_hash tok"
    and "AuthHandler_Refresh en s c random body w' = (res, w'')"
  shows "\<forall>x. res \<noteq> Inr x"
proof (intro allI notI)
  fix x
  assume res: "res = Inr x"
  note sys = session_reachable_sys [OF assms(1)]
  note sys' = session_requests_kept(1) [OF assms(4) sys]
  obtain tok' where tok': "tok' \<in> set (refresh_tokens (data w'))" "same_token tok tok'"
    using session_requests_kept(3) [OF assms(4) sys assms(2)] by blast
  from Refresh_session [OF sys' assms(7) [unfolded res]] obtain t where
    "t \<in> set (refresh_tokens (data w'))" "rt_token_hash t = rt_token_hash tok" "rt_revoked_at t = None"
    using assms(5,6) by auto
  with sess_okD(4) [OF session_sysD(3) [OF sys'] _ tok'(1)] tok'(2) assms(3) show False
    by (auto simp: same_token_def)
qed

theorem consumed_token_dead_witness:
  "\<forall>x. fst (AuthHandler_Refresh sample_en sample_sessions sample_client (Some (replicate 32 3)) (token_body 1) world_turned) \<noteq> Inr x"
  by (rule consumed_token_dead [OF world_turned_reachable sample_replay(4,6) rtranclp.rtrancl_refl sample_replay(1)
        sample_replay(3) [symmetric] prod.collapse [symmetric]])

text \<open>C20: Once a family has been closed, by a logout or by a replay, no access token of any of its sessions is
  accepted, not even by the logout, and no refresh token of it gives a session, whatever requests come in between.\<close>

theorem closed_family_dead:
  assumes "session_reachable w" and "f \<in> set (session_families (data w))" and "sf_revoked_at f \<noteq> None"
    and "tok \<in> set (refresh_tokens (data w))" and "token_family tok f" and "session_request\<^sup>*\<^sup>* w w'"
  shows "(\<forall>m header p u. Authenticate en m header w' = (Inr p, u) \<longrightarrow> pc_SessionID p \<noteq> rt_id tok)
    \<and> (\<forall>m header p u. AuthenticateForLogout en m header w' = (Inr p, u) \<longrightarrow> pc_SessionID p \<noteq> rt_id tok)
    \<and> (\<forall>s c random body token x u. decodeAuthBody body = Inr token \<longrightarrow> HashRefreshToken en token = rt_token_hash tok \<longrightarrow>
         AuthHandler_Refresh en s c random body w' \<noteq> (Inr x, u))"
proof -
  note sys = session_reachable_sys [OF assms(1)]
  note sys' = session_requests_kept(1) [OF assms(6) sys]
  have f: "f \<in> set (session_families (data w'))" by (rule session_requests_kept(2) [OF assms(6) sys assms(2,3)])
  obtain tok' where tok': "tok' \<in> set (refresh_tokens (data w'))" "same_token tok tok'"
    using session_requests_kept(3) [OF assms(6) sys assms(4)] by blast
  have only: "g = f" if "g \<in> set (session_families (data w'))" "token_family tok' g" for g
    using families_tbl.key_unique [OF session_sysD(1) [OF sys'] that(1) f] that(2) tok'(2) assms(5)
    by (simp add: same_token_def family_of_def)
  have dead: "\<not> family_live (data w') tok'"
    using only assms(3) by (auto simp: family_live_def list_ex_iff)
  have bearer: "pc_SessionID p \<noteq> rt_id tok" if "authenticate en m b header w' = (Inr p, u)" for m b header p u
    using bearer_family [OF sys' that tok'(1)] dead tok'(2) by (auto simp: same_token_def)
  have refresh: "AuthHandler_Refresh en s c random body w' \<noteq> (Inr x, u)"
    if given: "decodeAuthBody body = Inr token" "HashRefreshToken en token = rt_token_hash tok" for s c random body token x u
  proof
    assume "AuthHandler_Refresh en s c random body w' = (Inr x, u)"
    from Refresh_session [OF sys' this] obtain g t where g: "g \<in> set (session_families (data w'))" "sf_revoked_at g = None"
      and t: "t \<in> set (refresh_tokens (data w'))" "token_family t g" "rt_token_hash t = rt_token_hash tok"
      using given by auto
    have "t = tok'"
      using sess_okD(4) [OF session_sysD(3) [OF sys'] t(1) tok'(1)] t(3) tok'(2) by (simp add: same_token_def)
    then have "token_family tok' g" using t(2) by simp
    then have "g = f" by (rule only [OF g(1)])
    with g(2) assms(3) show False by simp
  qed
  show ?thesis
    unfolding Authenticate_def AuthenticateForLogout_def
    by (intro conjI allI impI) (erule bearer, erule bearer, rule refresh)
qed

theorem closed_family_dead_witness:
  "\<forall>x u. AuthHandler_Refresh sample_en sample_sessions sample_client (Some (replicate 32 3)) (token_body 2) world_out \<noteq> (Inr x, u)"
proof -
  let ?f = "sample_family\<lparr>sf_revoked_at := Some sample_time\<rparr>" and ?t = "sample_token 2 None"
  have "decodeAuthBody (token_body 2) = Inr (base64_url (replicate 32 2))"
    "HashRefreshToken sample_en (base64_url (replicate 32 2)) = rt_token_hash ?t"
    by (simp_all add: token_body_def decodeAuthBody_def sample_token_def)
  moreover have "?f \<in> set (session_families (data world_out))" "sf_revoked_at ?f \<noteq> None"
    "?t \<in> set (refresh_tokens (data world_out))" "token_family ?t ?f"
    by (simp_all add: out_tables sample_token_def sample_family_def family_of_def)
  from closed_family_dead [OF world_out_reachable this rtranclp.rtrancl_refl, of sample_en]
  have "\<forall>s c random body token x u. decodeAuthBody body = Inr token \<longrightarrow>
      HashRefreshToken sample_en token = rt_token_hash ?t \<longrightarrow>
      AuthHandler_Refresh sample_en s c random body world_out \<noteq> (Inr x, u)" by (elim conjE)
  ultimately show ?thesis by blast
qed

section \<open>A replayed token\<close>

text \<open>C22: Over a connection without faults, a refresh with a consumed token of an open family closes the
  family, writes the audit row of it and answers 401, provided the audit row can be written.\<close>

theorem replay_closes_family:
  assumes "session_reachable w" and "faults w = []"
    and "decodeAuthBody body = Inr token" "token \<noteq> []" "rt_token_hash tok = HashRefreshToken en token"
    and "tok \<in> set (refresh_tokens (data w))" "pg_text (rt_token_hash tok)" "rt_revoked_at tok \<noteq> None"
    and "f \<in> set (session_families (data w))" "token_family tok f" "sf_revoked_at f = None"
    and "session_audit_fits (data w) (sf_business_id f) (sf_user_id f) c"
  shows "\<exists>w'. AuthHandler_Refresh en s c random body w = (Inl Unauthorized, w')
    \<and> session_step (now w) (data w) (Closed f) (data w')"
  using replay_contained [OF session_reachable_sys [OF assms(1)] assms(2-12)] by blast

theorem replay_closes_family_witness:
  "\<exists>w'. AuthHandler_Refresh sample_en sample_sessions sample_client (Some (replicate 32 3)) (token_body 1) world_turned
      = (Inl Unauthorized, w') \<and> session_step (now world_turned) (data world_turned) (Closed sample_family) (data w')"
proof -
  have "session_audit_fits (data world_turned) (sf_business_id sample_family) (sf_user_id sample_family) sample_client"
    using sample_session_audit_fits by (simp add: sample_family_def)
  then show ?thesis by (rule replay_closes_family [OF world_turned_reachable turned_tables(5) sample_replay])
qed

text \<open>C23: The same refresh by a client whose user agent the server refuses as text (bytes that are not UTF-8,
  or a rune that the cut at 512 bytes splits) answers 500 and leaves the family open: the failing audit row takes the
  containment with it.\<close>

theorem replay_escapes:
  assumes "session_reachable w" and "faults w = []"
    and "decodeAuthBody body = Inr token" "token \<noteq> []" "rt_token_hash tok = HashRefreshToken en token"
    and "tok \<in> set (refresh_tokens (data w))" "pg_text (rt_token_hash tok)" "rt_revoked_at tok \<noteq> None"
    and "f \<in> set (session_families (data w))" "token_family tok f" "sf_revoked_at f = None"
    and "\<not> pg_text_opt (audit_user_agent (cl_user_agent c))"
  shows "\<exists>w'. AuthHandler_Refresh en s c random body w = (Inl Internal, w') \<and> data w' = data w"
  by (rule replay_not_contained [OF session_reachable_sys [OF assms(1)] assms(2-12)])

theorem replay_escapes_witness:
  "\<exists>d. (\<exists>w'. AuthHandler_Refresh sample_en sample_sessions bad_client (Some (replicate 32 3)) (token_body 1) world_turned
      = (Inl Internal, w') \<and> d = data w') \<and> session_families d = [sample_family]"
proof -
  obtain w' where "AuthHandler_Refresh sample_en sample_sessions bad_client (Some (replicate 32 3)) (token_body 1) world_turned
      = (Inl Internal, w')" "data w' = data world_turned"
    using replay_escapes [OF world_turned_reachable turned_tables(5) sample_replay bad_user_agent] by blast
  then show ?thesis using turned_tables(1) by metis
qed

section \<open>Bearer tokens\<close>

text \<open>C24: What the middleware accepts is true of the present: the account and its tenant are active, the
  role is the account's role, the outlets are its active outlets in order, the session's token is unexpired and
  its family open, and the claims of the token say the same; the check changes nothing.\<close>

theorem accepted_is_current:
  assumes "Authenticate en m header w = (Inr p, w')"
  shows "data w' = data w \<and> account_live (data w) (pc_BusinessID p) (pc_UserID p)
    \<and> (\<exists>u \<in> set (users (data w)). u_id u = pc_UserID p \<and> u_business_id u = pc_BusinessID p \<and> u_is_active u
         \<and> u_role u = pc_Role p \<and> u_email u = pc_Email p)
    \<and> pc_OutletIDs p = active_outlet_ids (data w) (pc_BusinessID p) (pc_UserID p)
    \<and> (pc_Role p = ''LAUNDRY_STAFF'' \<longrightarrow> pc_OutletIDs p \<noteq> [])
    \<and> (\<exists>t \<in> set (refresh_tokens (data w)). rt_id t = pc_SessionID p \<and> rt_business_id t = pc_BusinessID p
         \<and> rt_user_id t = pc_UserID p \<and> now w < rt_expires_at t \<and> family_live (data w) t \<and> rt_revoked_at t = None)
    \<and> (\<exists>raw claims. bearer header = Some raw \<and> ParseAccessToken en m (wall w) raw = Some claims
         \<and> ac_Role claims = pc_Role p \<and> ac_OutletIDs claims = pc_OutletIDs p)"
  using authenticate_Inr [OF assms [unfolded Authenticate_def]] unfolding simp_thms .

theorem accepted_is_current_witness:
  "\<exists>p. fst (Authenticate sample_en sample_tokens (''Bearer t2'') world_turned) = Inr p
    \<and> pc_OutletIDs p = active_outlet_ids (data world_turned) (pc_BusinessID p) (pc_UserID p)"
proof -
  have r: "fst (Authenticate sample_en sample_tokens (''Bearer t2'') world_turned) = Inr sample_principal"
    by code_simp
  then have "Authenticate sample_en sample_tokens (''Bearer t2'') world_turned
      = (Inr sample_principal, snd (Authenticate sample_en sample_tokens (''Bearer t2'') world_turned))"
    by (metis prod.collapse)
  from accepted_is_current [OF this] r show ?thesis by blast
qed

text \<open>The access token of a login or a refresh is accepted, over a connection without faults and
  until it expires, for the account and the session it was issued for, as long as the session's token is
  unconsumed and its family open, the account and its tenant active, and its outlets what they were.\<close>

lemma issued_is_accepted:
  assumes "session_reachable w" and "faults w = []" and "accounts_keyed (data w)" and "jwt_reads_back en"
    and "ts_tokens s = Some m" and "response_for en s t0 d0 (identity_of u) tok r"
    and "1 \<le> u_id u" "is_int64 (u_id u)" "1 \<le> u_business_id u" "utf8_valid (u_role u)"
    and "sr_AccessToken r \<noteq> []" "list_all (\<lambda>c. 0x20 < byte c \<and> byte c < 0x80) (sr_AccessToken r)"
    and "wall w < en_numeric_date en (sr_AccessTokenExpiresAt r)"
    and "tok \<in> set (refresh_tokens (data w))" "rt_business_id tok = u_business_id u" "rt_user_id tok = u_id u"
      "rt_revoked_at tok = None" "now w < rt_expires_at tok" "family_live (data w) tok"
    and "u \<in> set (users (data w))" "u_is_active u" "business_active (data w) (u_business_id u)"
      "u_role u = ''LAUNDRY_STAFF'' \<longrightarrow> sr_OutletIDs r \<noteq> []"
      "sr_OutletIDs r = active_outlet_ids (data w) (u_business_id u) (u_id u)"
  shows "\<exists>p. Authenticate en m (''Bearer '' @ sr_AccessToken r) w = (Inr p, w) \<and> pc_UserID p = u_id u
    \<and> pc_BusinessID p = u_business_id u \<and> pc_SessionID p = rt_id tok \<and> pc_Role p = u_role u
    \<and> pc_OutletIDs p = sr_OutletIDs r"
  by (rule session_accepted [OF session_reachable_sys [OF assms(1)] assms(2-)])

section \<open>The limiter\<close>

text \<open>C25: From the server's start on, the limiter keeps at most its capacity of entries, and from any moment at
  which a key has no running entry it lets at most its limit of requests with the key through within its window, refused or
  not for whatever reason in between.\<close>

theorem limiter_bounds:
  assumes "limiter_run (NewAuthLimiter capacity limit window) before = (rs0, l)"
    and "key_idle l key t0" and "\<forall>(k, t, t') \<in> set reqs. t0 \<le> t \<and> t < t0 + window"
    and "limiter_run l reqs = (rs, l')"
  shows "int (passed key rs) \<le> max 0 limit \<and> int (length (al_entries l')) \<le> max 0 capacity"
proof -
  have ok: "limiter_ok l" by (rule limiter_run_ok [OF limiter_starts assms(1)])
  note cfg = limiter_run_config [OF assms(1)] limiter_run_config [OF assms(4)]
  have "int (passed key rs) \<le> max 0 (al_limit l)"
    by (rule passed_in_window [OF ok assms(2) _ assms(4)]) (use assms(3) cfg in \<open>simp add: NewAuthLimiter_def\<close>)
  moreover have "limiter_ok l'" by (rule limiter_run_ok [OF ok assms(4)])
  ultimately show ?thesis using cfg by (simp add: limiter_ok_def NewAuthLimiter_def)
qed

theorem limiter_bounds_witness:
  "passed ''k'' (fst (limiter_run (NewAuthLimiter 2 1 60) [(''k'', 0, 0), (''k'', 1, 1), (''k'', 59, 59)])) \<le> 1"
proof -
  obtain rs l where r: "limiter_run (NewAuthLimiter 2 1 60) [(''k'', 0, 0), (''k'', 1, 1), (''k'', 59, 59)] = (rs, l)"
    by fastforce
  have "int (passed ''k'' rs) \<le> max 0 1"
    using limiter_bounds [OF limiter_run.simps(1) _ _ r, of "''k''" 0] by (simp add: key_idle_def NewAuthLimiter_def)
  then show ?thesis using r by simp
qed

end
