(* ===== verification/Master_Queries.thy ===== *)
theory Master_Queries
  imports Session_Queries Security
begin

text \<open>
  The statements of internal/repository/postgresql/services.sql.go, perfumes.sql.go and customers.sql.go over the
  master data of migrations 000002, 000010, 000011, 000017 and 000019: services, perfumes and
  customers of a tenant, which are deactivated by a deletion time and never removed. The server's lower(),
  its collation and its ILIKE are parameters.
\<close>

section \<open>Constraints\<close>

definition service_units :: "string list" where
  "service_units = [''kg'', ''pcs'', ''m'', ''m2'']"

definition service_check :: "service_row \<Rightarrow> bool" where
  "service_check r \<longleftrightarrow> btrim (sv_name r) \<noteq> [] \<and> sv_unit r \<in> set service_units
     \<and> 0 \<le> sv_unit_price_amount r \<and> 0 \<le> sv_estimated_duration_minutes r"

text \<open>services_business_name_unit_uq: the rows that are not deleted.\<close>

definition service_alike :: "(string \<Rightarrow> string) \<Rightarrow> service_row \<Rightarrow> service_row \<Rightarrow> bool" where
  "service_alike lower r x \<longleftrightarrow> sv_business_id x = sv_business_id r \<and> lower (sv_name x) = lower (sv_name r)
     \<and> sv_unit x = sv_unit r \<and> sv_deleted_at x = None \<and> sv_deleted_at r = None"

definition service_taken :: "(string \<Rightarrow> string) \<Rightarrow> db \<Rightarrow> service_row \<Rightarrow> bool" where
  "service_taken lower d r = list_ex (\<lambda>x. sv_id x \<noteq> sv_id r \<and> service_alike lower r x) (services d)"

definition business_exists :: "db \<Rightarrow> i64 \<Rightarrow> bool" where
  "business_exists d b = list_ex (\<lambda>x. b_id x = b) (businesses d)"

definition write_service_error :: "(string \<Rightarrow> string) \<Rightarrow> db \<Rightarrow> service_row \<Rightarrow> pgerr option" where
  "write_service_error lower d r =
     (if \<not> (pg_text (sv_name r) \<and> pg_text (sv_unit r) \<and> pg_text_opt (sv_description r)) then Some InvalidText
      else if \<not> service_check r then Some (CheckViolation ''services'')
      else if service_taken lower d r then Some (UniqueViolation ''services_business_name_unit_uq'')
      else if \<not> business_exists d (sv_business_id r) then Some (ForeignKeyViolation ''services_business_id_fkey'')
      else None)"

definition perfume_check :: "perfume_row \<Rightarrow> bool" where
  "perfume_check r \<longleftrightarrow> btrim (pf_name r) \<noteq> [] \<and> 0 < pf_version r"

definition perfume_alike :: "(string \<Rightarrow> string) \<Rightarrow> perfume_row \<Rightarrow> perfume_row \<Rightarrow> bool" where
  "perfume_alike lower r x \<longleftrightarrow> pf_business_id x = pf_business_id r \<and> lower (pf_name x) = lower (pf_name r)
     \<and> pf_deleted_at x = None \<and> pf_deleted_at r = None"

definition perfume_taken :: "(string \<Rightarrow> string) \<Rightarrow> db \<Rightarrow> perfume_row \<Rightarrow> bool" where
  "perfume_taken lower d r = list_ex (\<lambda>x. pf_id x \<noteq> pf_id r \<and> perfume_alike lower r x) (perfumes d)"

definition write_perfume_error :: "(string \<Rightarrow> string) \<Rightarrow> db \<Rightarrow> perfume_row \<Rightarrow> pgerr option" where
  "write_perfume_error lower d r =
     (if \<not> (pg_text (pf_name r) \<and> pg_text_opt (pf_description r)) then Some InvalidText
      else if \<not> is_int64 (pf_version r) then Some OutOfRange
      else if \<not> perfume_check r then Some (CheckViolation ''perfumes'')
      else if perfume_taken lower d r then Some (UniqueViolation ''perfumes_business_name_uq'')
      else if \<not> business_exists d (pf_business_id r) then Some (ForeignKeyViolation ''perfumes_business_id_fkey'')
      else None)"

definition customer_check :: "customer_row \<Rightarrow> bool" where
  "customer_check r \<longleftrightarrow> btrim (cu_name r) \<noteq> []"

definition write_customer_error :: "db \<Rightarrow> customer_row \<Rightarrow> pgerr option" where
  "write_customer_error d r =
     (if \<not> (pg_text (cu_name r) \<and> pg_text_opt (cu_phone r) \<and> pg_text_opt (cu_address r)) then Some InvalidText
      else if \<not> customer_check r then Some (CheckViolation ''customers'')
      else if \<not> business_exists d (cu_business_id r) then Some (ForeignKeyViolation ''customers_business_id_fkey'')
      else None)"

text \<open>What a search selects: everything, or the texts that contain it.\<close>

definition found_by :: "(string \<Rightarrow> string \<Rightarrow> bool) \<Rightarrow> string \<Rightarrow> string \<Rightarrow> string option \<Rightarrow> bool" where
  "found_by ilike search name other \<longleftrightarrow> search = [] \<or> ilike name (''%'' @ search @ ''%'')
     \<or> ilike (case other of None \<Rightarrow> [] | Some s \<Rightarrow> s) (''%'' @ search @ ''%'')"

definition chosen :: "'a option \<Rightarrow> 'a \<Rightarrow> bool" where
  "chosen want have \<longleftrightarrow> (case want of None \<Rightarrow> True | Some v \<Rightarrow> have = v)"

section \<open>Services\<close>

definition service_matches :: "primitives \<Rightarrow> i64 \<Rightarrow> string \<Rightarrow> string option \<Rightarrow> bool option \<Rightarrow> service_row \<Rightarrow> bool" where
  "service_matches en businessID search unit isActive r \<longleftrightarrow> sv_business_id r = businessID \<and> sv_deleted_at r = None
     \<and> found_by (en_ilike en) search (sv_name r) (sv_description r)
     \<and> chosen unit (sv_unit r) \<and> chosen isActive (sv_is_active r)"

definition service_order :: "primitives \<Rightarrow> service_row list \<Rightarrow> service_row list" where
  "service_order en rs = sort_key (\<lambda>r. en_collation en (en_lower en (sv_name r)))
     (sort_key (\<lambda>r. en_collation en (sv_unit r)) (sort_key sv_id rs))"

definition ListServices ::
  "primitives \<Rightarrow> i64 \<Rightarrow> string \<Rightarrow> string option \<Rightarrow> bool option \<Rightarrow> i32 \<Rightarrow> i32 \<Rightarrow> (pgerr, service_row list) m" where
  "ListServices en businessID search unit isActive pageOffset pageLimit =
     with_text (pg_text search \<and> pg_text_opt unit) (limit_offset pageLimit pageOffset (select (\<lambda>n d.
       service_order en (filter (service_matches en businessID search unit isActive) (services d)))))"

definition CountServices :: "primitives \<Rightarrow> i64 \<Rightarrow> string \<Rightarrow> string option \<Rightarrow> bool option \<Rightarrow> (pgerr, i64) m" where
  "CountServices en businessID search unit isActive =
     with_text (pg_text search \<and> pg_text_opt unit) (only_one (select (\<lambda>n d.
       [int (length (filter (service_matches en businessID search unit isActive) (services d)))])))"

definition service_is :: "i64 \<Rightarrow> i64 \<Rightarrow> service_row \<Rightarrow> bool" where
  "service_is businessID serviceID r \<longleftrightarrow> sv_business_id r = businessID \<and> sv_id r = serviceID \<and> sv_deleted_at r = None"

definition GetService :: "i64 \<Rightarrow> i64 \<Rightarrow> (pgerr, service_row) m" where
  "GetService businessID serviceID = only_one (select (\<lambda>n d. filter (service_is businessID serviceID) (services d)))"

definition GetServiceForUpdate :: "i64 \<Rightarrow> i64 \<Rightarrow> (pgerr, service_row) m" where
  "GetServiceForUpdate businessID serviceID =
     only_one (select (\<lambda>n d. filter (service_is businessID serviceID) (services d)))"

definition CreateService ::
  "primitives \<Rightarrow> i64 \<Rightarrow> string \<Rightarrow> string option \<Rightarrow> string \<Rightarrow> i64 \<Rightarrow> i32 \<Rightarrow> (pgerr, service_row) m" where
  "CreateService en businessID name description unit unitPriceAmount duration =
     insert_serial TServices services (\<lambda>rs d. d\<lparr>services := rs\<rparr>) (write_service_error (en_lower en))
       (\<lambda>i n d. \<lparr>sv_id = i, sv_business_id = businessID, sv_name = name, sv_unit = unit,
          sv_unit_price_amount = unitPriceAmount, sv_estimated_duration_minutes = duration, sv_is_active = True,
          sv_created_at = n, sv_updated_at = n, sv_deleted_at = None, sv_description = description\<rparr>)"

definition UpdateService ::
  "primitives \<Rightarrow> i64 \<Rightarrow> i64 \<Rightarrow> string \<Rightarrow> string option \<Rightarrow> string \<Rightarrow> i64 \<Rightarrow> i32 \<Rightarrow> bool \<Rightarrow> (pgerr, service_row) m" where
  "UpdateService en businessID serviceID name description unit unitPriceAmount duration isActive =
     only_one (update_rows services (\<lambda>rs d. d\<lparr>services := rs\<rparr>) (write_service_error (en_lower en))
       (service_is businessID serviceID)
       (\<lambda>n r. r\<lparr>sv_name := name, sv_description := description, sv_unit := unit,
          sv_unit_price_amount := unitPriceAmount, sv_estimated_duration_minutes := duration,
          sv_is_active := isActive, sv_updated_at := n\<rparr>))"

definition SoftDeleteService :: "primitives \<Rightarrow> i64 \<Rightarrow> i64 \<Rightarrow> (pgerr, i64) m" where
  "SoftDeleteService en businessID serviceID =
     tbind (only_one (update_rows services (\<lambda>rs d. d\<lparr>services := rs\<rparr>) (write_service_error (en_lower en))
       (service_is businessID serviceID)
       (\<lambda>n r. r\<lparr>sv_is_active := False, sv_deleted_at := Some n, sv_updated_at := n\<rparr>))) (\<lambda>r. ret (sv_id r))"

section \<open>Perfumes\<close>

definition perfume_matches :: "primitives \<Rightarrow> i64 \<Rightarrow> string \<Rightarrow> bool option \<Rightarrow> perfume_row \<Rightarrow> bool" where
  "perfume_matches en businessID search isActive r \<longleftrightarrow> pf_business_id r = businessID \<and> pf_deleted_at r = None
     \<and> found_by (en_ilike en) search (pf_name r) (pf_description r) \<and> chosen isActive (pf_is_active r)"

definition perfume_order :: "primitives \<Rightarrow> perfume_row list \<Rightarrow> perfume_row list" where
  "perfume_order en rs = sort_key (\<lambda>r. en_collation en (en_lower en (pf_name r))) (sort_key pf_id rs)"

definition ListPerfumes ::
  "primitives \<Rightarrow> i64 \<Rightarrow> string \<Rightarrow> bool option \<Rightarrow> i32 \<Rightarrow> i32 \<Rightarrow> (pgerr, perfume_row list) m" where
  "ListPerfumes en businessID search isActive pageOffset pageLimit =
     with_text (pg_text search) (limit_offset pageLimit pageOffset (select (\<lambda>n d.
       perfume_order en (filter (perfume_matches en businessID search isActive) (perfumes d)))))"

definition CountPerfumes :: "primitives \<Rightarrow> i64 \<Rightarrow> string \<Rightarrow> bool option \<Rightarrow> (pgerr, i64) m" where
  "CountPerfumes en businessID search isActive = with_text (pg_text search) (only_one (select (\<lambda>n d.
     [int (length (filter (perfume_matches en businessID search isActive) (perfumes d)))])))"

definition perfume_is :: "i64 \<Rightarrow> i64 \<Rightarrow> perfume_row \<Rightarrow> bool" where
  "perfume_is businessID perfumeID r \<longleftrightarrow> pf_business_id r = businessID \<and> pf_id r = perfumeID \<and> pf_deleted_at r = None"

definition GetPerfume :: "i64 \<Rightarrow> i64 \<Rightarrow> (pgerr, perfume_row) m" where
  "GetPerfume businessID perfumeID = only_one (select (\<lambda>n d. filter (perfume_is businessID perfumeID) (perfumes d)))"

definition GetPerfumeForUpdate :: "i64 \<Rightarrow> i64 \<Rightarrow> (pgerr, perfume_row) m" where
  "GetPerfumeForUpdate businessID perfumeID =
     only_one (select (\<lambda>n d. filter (perfume_is businessID perfumeID) (perfumes d)))"

definition CreatePerfume :: "primitives \<Rightarrow> i64 \<Rightarrow> string \<Rightarrow> string option \<Rightarrow> (pgerr, perfume_row) m" where
  "CreatePerfume en businessID name description =
     insert_serial TPerfumes perfumes (\<lambda>rs d. d\<lparr>perfumes := rs\<rparr>) (write_perfume_error (en_lower en))
       (\<lambda>i n d. \<lparr>pf_id = i, pf_business_id = businessID, pf_name = name, pf_description = description,
          pf_is_active = True, pf_created_at = n, pf_updated_at = n, pf_deleted_at = None, pf_version = 1\<rparr>)"

definition UpdatePerfume ::
  "primitives \<Rightarrow> i64 \<Rightarrow> i64 \<Rightarrow> string \<Rightarrow> string option \<Rightarrow> bool \<Rightarrow> (pgerr, perfume_row) m" where
  "UpdatePerfume en businessID perfumeID name description isActive =
     only_one (update_rows perfumes (\<lambda>rs d. d\<lparr>perfumes := rs\<rparr>) (write_perfume_error (en_lower en))
       (perfume_is businessID perfumeID)
       (\<lambda>n r. r\<lparr>pf_version := pf_version r + 1, pf_name := name, pf_description := description,
          pf_is_active := isActive, pf_updated_at := n\<rparr>))"

definition SoftDeletePerfume :: "primitives \<Rightarrow> i64 \<Rightarrow> i64 \<Rightarrow> (pgerr, i64) m" where
  "SoftDeletePerfume en businessID perfumeID =
     tbind (only_one (update_rows perfumes (\<lambda>rs d. d\<lparr>perfumes := rs\<rparr>) (write_perfume_error (en_lower en))
       (perfume_is businessID perfumeID)
       (\<lambda>n r. r\<lparr>pf_version := pf_version r + 1, pf_is_active := False, pf_deleted_at := Some n, pf_updated_at := n\<rparr>)))
       (\<lambda>r. ret (pf_id r))"

section \<open>Customers\<close>

definition customer_matches :: "primitives \<Rightarrow> i64 \<Rightarrow> string \<Rightarrow> customer_row \<Rightarrow> bool" where
  "customer_matches en businessID search r \<longleftrightarrow> cu_business_id r = businessID \<and> cu_deleted_at r = None
     \<and> found_by (en_ilike en) search (cu_name r) (cu_phone r)"

definition customer_order :: "primitives \<Rightarrow> customer_row list \<Rightarrow> customer_row list" where
  "customer_order en rs = sort_key (\<lambda>r. en_collation en (en_lower en (cu_name r))) (sort_key cu_id rs)"

definition ListCustomers :: "primitives \<Rightarrow> i64 \<Rightarrow> string \<Rightarrow> i32 \<Rightarrow> i32 \<Rightarrow> (pgerr, customer_row list) m" where
  "ListCustomers en businessID search pageOffset pageLimit =
     with_text (pg_text search) (limit_offset pageLimit pageOffset (select (\<lambda>n d.
       customer_order en (filter (customer_matches en businessID search) (customers d)))))"

definition CountCustomers :: "primitives \<Rightarrow> i64 \<Rightarrow> string \<Rightarrow> (pgerr, i64) m" where
  "CountCustomers en businessID search = with_text (pg_text search) (only_one (select (\<lambda>n d.
     [int (length (filter (customer_matches en businessID search) (customers d)))])))"

definition customer_is :: "i64 \<Rightarrow> i64 \<Rightarrow> customer_row \<Rightarrow> bool" where
  "customer_is businessID customerID r \<longleftrightarrow> cu_business_id r = businessID \<and> cu_id r = customerID \<and> cu_deleted_at r = None"

definition GetCustomer :: "i64 \<Rightarrow> i64 \<Rightarrow> (pgerr, customer_row) m" where
  "GetCustomer businessID customerID = only_one (select (\<lambda>n d. filter (customer_is businessID customerID) (customers d)))"

definition GetCustomerForUpdate :: "i64 \<Rightarrow> i64 \<Rightarrow> (pgerr, customer_row) m" where
  "GetCustomerForUpdate businessID customerID =
     only_one (select (\<lambda>n d. filter (customer_is businessID customerID) (customers d)))"

text \<open>The history of a customer is read although the customer is deactivated.\<close>

definition GetCustomerForHistory :: "i64 \<Rightarrow> i64 \<Rightarrow> (pgerr, i64) m" where
  "GetCustomerForHistory businessID customerID = only_one (select (\<lambda>n d.
     map cu_id (filter (\<lambda>r. cu_business_id r = businessID \<and> cu_id r = customerID) (customers d))))"

definition CreateCustomer :: "i64 \<Rightarrow> string \<Rightarrow> string option \<Rightarrow> string option \<Rightarrow> (pgerr, customer_row) m" where
  "CreateCustomer businessID name phone address =
     insert_serial TCustomers customers (\<lambda>rs d. d\<lparr>customers := rs\<rparr>) write_customer_error
       (\<lambda>i n d. \<lparr>cu_id = i, cu_business_id = businessID, cu_name = name, cu_phone = phone, cu_email = None,
          cu_address = address, cu_notes = None, cu_created_at = n, cu_updated_at = n, cu_deleted_at = None\<rparr>)"

definition UpdateCustomer :: "i64 \<Rightarrow> i64 \<Rightarrow> string \<Rightarrow> string option \<Rightarrow> string option \<Rightarrow> (pgerr, customer_row) m" where
  "UpdateCustomer businessID customerID name phone address =
     only_one (update_rows customers (\<lambda>rs d. d\<lparr>customers := rs\<rparr>) write_customer_error
       (customer_is businessID customerID)
       (\<lambda>n r. r\<lparr>cu_name := name, cu_phone := phone, cu_address := address, cu_updated_at := n\<rparr>))"

definition DeactivateCustomer :: "i64 \<Rightarrow> i64 \<Rightarrow> (pgerr, customer_row) m" where
  "DeactivateCustomer businessID customerID =
     only_one (update_rows customers (\<lambda>rs d. d\<lparr>customers := rs\<rparr>) write_customer_error
       (customer_is businessID customerID)
       (\<lambda>n r. r\<lparr>cu_deleted_at := Some n, cu_updated_at := n\<rparr>))"

definition history_matches :: "i64 \<Rightarrow> i64 \<Rightarrow> bool \<Rightarrow> i64 list \<Rightarrow> order_row \<Rightarrow> bool" where
  "history_matches businessID customerID isAdmin outletIds r \<longleftrightarrow> o_business_id r = businessID
     \<and> o_customer_id r = customerID \<and> (isAdmin \<or> o_outlet_id r \<in> set outletIds)"

definition ListCustomerOrderHistory ::
  "i64 \<Rightarrow> i64 \<Rightarrow> bool \<Rightarrow> i64 list \<Rightarrow> i32 \<Rightarrow> i32 \<Rightarrow> (pgerr, (order_row \<times> string) list) m" where
  "ListCustomerOrderHistory businessID customerID isAdmin outletIds pageOffset pageLimit =
     limit_offset pageLimit pageOffset (select (\<lambda>n d.
       sort_key (\<lambda>(r, _). - o_created_at r) (sort_key (\<lambda>(r, _). - o_id r)
         [(r, out_timezone x). r \<leftarrow> orders d, x \<leftarrow> outlets d,
            out_business_id x = o_business_id r \<and> out_id x = o_outlet_id r \<and>
            history_matches businessID customerID isAdmin outletIds r])))"

definition CountCustomerOrderHistory :: "i64 \<Rightarrow> i64 \<Rightarrow> bool \<Rightarrow> i64 list \<Rightarrow> (pgerr, i64) m" where
  "CountCustomerOrderHistory businessID customerID isAdmin outletIds = only_one (select (\<lambda>n d.
     [int (length (filter (history_matches businessID customerID isAdmin outletIds) (orders d)))]))"

section \<open>What the statements leave alone\<close>

lemma master_queries_read [reads_intro]:
  "reads (ListServices en b s u ac off lim)" "reads (CountServices en b s u ac)" "reads (GetService b i)"
  "reads (GetServiceForUpdate b i)" "reads (ListPerfumes en b s ac off lim)" "reads (CountPerfumes en b s ac)"
  "reads (GetPerfume b i)" "reads (GetPerfumeForUpdate b i)" "reads (ListCustomers en b s off lim)"
  "reads (CountCustomers en b s)" "reads (GetCustomer b i)" "reads (GetCustomerForUpdate b i)"
  "reads (GetCustomerForHistory b i)" "reads (ListCustomerOrderHistory b i ad ls off lim)"
  "reads (CountCustomerOrderHistory b i ad ls)"
  unfolding ListServices_def CountServices_def GetService_def GetServiceForUpdate_def ListPerfumes_def
    CountPerfumes_def GetPerfume_def GetPerfumeForUpdate_def ListCustomers_def CountCustomers_def GetCustomer_def
    GetCustomerForUpdate_def GetCustomerForHistory_def ListCustomerOrderHistory_def CountCustomerOrderHistory_def
  by (intro reads_intro)+

lemmas master_queries_grow [grows_intro] = master_queries_read [THEN grows_reads]

lemma master_writes_grow [grows_intro]:
  "grows (CreateService en b nm ds un pr du)" "grows (UpdateService en b i nm ds un pr du ac)" "grows (SoftDeleteService en b i)"
  "grows (CreatePerfume en b nm ds)" "grows (UpdatePerfume en b i nm ds ac)" "grows (SoftDeletePerfume en b i)"
  "grows (CreateCustomer b nm ph ad)" "grows (UpdateCustomer b i nm ph ad)" "grows (DeactivateCustomer b i)"
  unfolding CreateService_def UpdateService_def SoftDeleteService_def CreatePerfume_def UpdatePerfume_def
    SoftDeletePerfume_def CreateCustomer_def UpdateCustomer_def DeactivateCustomer_def
  by (intro grows_intro)+

end
