(* ===== verification/Soft_Table.thy ===== *)
theory Soft_Table
  imports Freshness Master_Queries
begin

text \<open>
  Tables whose rows are retired and never removed: a row belongs to a tenant, at most one of the rows that
  compete (by name, say) is not retired, every row passes the table's checks. The locale states what such a
  table promises when a row is added, changed or retired; it is interpreted on services, perfumes and
  customers.
\<close>

datatype 'r change = Added 'r | Changed 'r 'r

locale soft_table = serial_table get put key t
  for get :: "db \<Rightarrow> 'r list" and put :: "'r list \<Rightarrow> db \<Rightarrow> db" and key :: "'r \<Rightarrow> int" and t :: tbl +
  fixes owner :: "'r \<Rightarrow> i64"
    and retired :: "'r \<Rightarrow> time option"
    and alike :: "'r \<Rightarrow> 'r \<Rightarrow> bool"
    and valid :: "'r \<Rightarrow> bool"
  assumes alike_sym: "alike r x \<Longrightarrow> alike x r"
    and alike_live: "alike r x \<Longrightarrow> retired r = None"
    and alike_owner: "alike r x \<Longrightarrow> owner r = owner x"
begin

definition taken :: "db \<Rightarrow> 'r \<Rightarrow> bool" where
  "taken d r \<longleftrightarrow> (\<exists>x \<in> set (get d). key x \<noteq> key r \<and> alike r x)"

definition sound :: "db \<Rightarrow> bool" where
  "sound d \<longleftrightarrow> (\<forall>r \<in> set (get d). valid r)
     \<and> (\<forall>r \<in> set (get d). \<forall>x \<in> set (get d). alike r x \<longrightarrow> r = x)"

text \<open>What a write of this table may do: a change keeps the key and the owner, and is made to a row that is not retired.\<close>

definition changes :: "db \<Rightarrow> 'r change \<Rightarrow> 'r list \<Rightarrow> bool" where
  "changes d c rs = (case c of
       Added r \<Rightarrow> key r \<notin> key ` set (get d) \<and> retired r = None \<and> valid r \<and> \<not> taken d r \<and> rs = get d @ [r]
     | Changed r r' \<Rightarrow> r \<in> set (get d) \<and> retired r = None \<and> key r' = key r \<and> owner r' = owner r \<and> valid r'
         \<and> \<not> taken d r' \<and> rs = replace_row r r' (get d))"

lemma takenI: "x \<in> set (get d) \<Longrightarrow> key x \<noteq> key r \<Longrightarrow> alike r x \<Longrightarrow> taken d r"
  unfolding taken_def by blast

lemma soundD:
  assumes "sound d"
  shows "r \<in> set (get d) \<Longrightarrow> valid r"
    and "r \<in> set (get d) \<Longrightarrow> x \<in> set (get d) \<Longrightarrow> alike r x \<Longrightarrow> r = x"
  using assms unfolding sound_def by blast+

lemma changes_sound:
  assumes "changes d c rs" and "sound d" and "distinct (map key (get d))"
  shows "sound (put rs d)"
proof (cases c)
  case (Added r)
  then have r: "key r \<notin> key ` set (get d)" "valid r" "\<not> taken d r" and rs: "rs = get d @ [r]"
    using assms(1) by (simp_all add: changes_def)
  have no: "\<not> alike r x" if "x \<in> set (get d)" for x
  proof -
    have "key x \<noteq> key r" using r(1) that by (metis imageI)
    with takenI [OF that] r(3) show ?thesis by blast
  qed
  then have no': "\<not> alike x r" if "x \<in> set (get d)" for x
    using alike_sym that by blast
  have "alike x y \<Longrightarrow> x = y" if "x \<in> set rs" "y \<in> set rs" for x y
    using that no no' soundD(2) [OF assms(2)] unfolding rs by auto
  moreover have "valid x" if "x \<in> set rs" for x
    using that r(2) soundD(1) [OF assms(2)] unfolding rs by auto
  ultimately show ?thesis unfolding sound_def by simp
next
  case (Changed r r')
  then have r: "r \<in> set (get d)" "key r' = key r" "valid r'" "\<not> taken d r'" and rs: "rs = replace_row r r' (get d)"
    using assms(1) by (simp_all add: changes_def)
  have other: "key x \<noteq> key r'" if "x \<in> set (get d)" "x \<noteq> r" for x
    using that r(1,2) assms(3) unfolding distinct_map inj_on_def by metis
  have no: "\<not> alike r' x" if "x \<in> set (get d)" "x \<noteq> r" for x
    using takenI [OF that(1) other [OF that]] r(4) by blast
  then have no': "\<not> alike x r'" if "x \<in> set (get d)" "x \<noteq> r" for x
    using alike_sym that by blast
  have "alike x y \<Longrightarrow> x = y" if "x \<in> set rs" "y \<in> set rs" for x y
    using in_replace_rowD [OF that(1) [unfolded rs]] in_replace_rowD [OF that(2) [unfolded rs]] no no'
      soundD(2) [OF assms(2)] by blast
  moreover have "valid x" if "x \<in> set rs" for x
    using in_replace_rowD [OF that [unfolded rs]] r(3) soundD(1) [OF assms(2)] by blast
  ultimately show ?thesis unfolding sound_def by simp
qed

text \<open>A retired row is never touched again, and no row disappears.\<close>

lemma changes_kept:
  assumes "changes d c rs"
  shows "r \<in> set (get d) \<Longrightarrow> retired r \<noteq> None \<Longrightarrow> r \<in> set rs"
    and "r \<in> set (get d) \<Longrightarrow> \<exists>x \<in> set rs. key x = key r \<and> owner x = owner r"
    and "key ` set (get d) \<subseteq> key ` set rs"
proof -
  show a: "r \<in> set (get d) \<Longrightarrow> \<exists>x \<in> set rs. key x = key r \<and> owner x = owner r" for r
    using assms by (cases c) (auto simp: changes_def set_replace_row)
  show "key ` set (get d) \<subseteq> key ` set rs" 
  proof
    fix k
    assume "k \<in> key ` set (get d)"
    then obtain r where "r \<in> set (get d)" "k = key r" by blast
    with a show "k \<in> key ` set rs" by (metis imageI)
  qed
  show "r \<in> set (get d) \<Longrightarrow> retired r \<noteq> None \<Longrightarrow> r \<in> set rs"
    using assms by (cases c) (auto simp: changes_def set_replace_row)
qed

lemma sound_frame: "sound d \<Longrightarrow> get d' = get d \<Longrightarrow> sound d'"
  by (simp add: sound_def)

text \<open>The statements do such changes.\<close>

lemma insert_changes:
  assumes "fresh w" and run: "insert_serial t get put chk mk w = (Inr r, w')"
    and mk: "\<And>i n d. key (mk i n d) = i" "\<And>i n d. retired (mk i n d) = None"
    and chk: "\<And>d x. chk d x = None \<Longrightarrow> valid x \<and> \<not> taken d x"
  shows "changes (data w) (Added r) (get (data w')) \<and> data w' = put (get (data w')) (data w)
    \<and> now w' = now w \<and> r = mk (seqs w t) (now w) (data w)"
proof -
  note I = insert_serial_Inr [OF run]
  have "key r \<notin> key ` set (get (data w))" using fresh_below [OF assms(1)] I mk(1) by fastforce
  moreover have "valid r \<and> \<not> taken (data w) r" using I chk by blast
  moreover have "retired r = None" using I mk(2) by simp
  ultimately have "changes (data w) (Added r) (get (data w'))" using I by (simp add: changes_def)
  with I show ?thesis by simp
qed

lemma update_changes:
  assumes "fresh w" and "r \<in> set (get (data w))" and "p r"
    and run: "only_one (update_rows get put chk p upd) w = (Inr r', w')"
    and "\<And>x. p x \<Longrightarrow> key x = key r" and live: "retired r = None"
    and upd: "\<And>n x. key (upd n x) = key x" "\<And>n x. owner (upd n x) = owner x"
    and chk: "\<And>d x. chk d x = None \<Longrightarrow> valid x \<and> \<not> taken d x"
  shows "changes (data w) (Changed r r') (get (data w')) \<and> data w' = put (get (data w')) (data w)
    \<and> now w' = now w \<and> r' = upd (now w) r"
proof -
  note U = update_one [OF assms(1-3) assms(5) run]
  have "valid r' \<and> \<not> taken (data w) r'" using U by (intro chk) blast
  with U have "changes (data w) (Changed r r') (get (data w'))" using assms(2) live upd by (simp add: changes_def)
  with U show ?thesis by simp
qed

end

section \<open>Services, perfumes and customers\<close>

text \<open>Every tenant reads names under the same lower(): it is a parameter of the interpretation.\<close>

interpretation services_tbl: soft_table services "\<lambda>rs d. d\<lparr>services := rs\<rparr>" sv_id TServices
    sv_business_id sv_deleted_at "service_alike lower" service_check
  for lower :: "string \<Rightarrow> string"
  by unfold_locales (auto simp: service_alike_def)

interpretation perfumes_tbl: soft_table perfumes "\<lambda>rs d. d\<lparr>perfumes := rs\<rparr>" pf_id TPerfumes
    pf_business_id pf_deleted_at "perfume_alike lower" perfume_check
  for lower :: "string \<Rightarrow> string"
  by unfold_locales (auto simp: perfume_alike_def)

interpretation customers_tbl: soft_table customers "\<lambda>rs d. d\<lparr>customers := rs\<rparr>" cu_id TCustomers
    cu_business_id cu_deleted_at "\<lambda>r x. False" customer_check
  by unfold_locales simp_all

lemma write_checks:
  "write_service_error lower d r = None \<Longrightarrow> service_check r \<and> \<not> services_tbl.taken lower d r"
  "write_perfume_error lower d p = None \<Longrightarrow> perfume_check p \<and> \<not> perfumes_tbl.taken lower d p"
  "write_customer_error d c = None \<Longrightarrow> customer_check c \<and> \<not> customers_tbl.taken d c"
  by (auto simp: write_service_error_def write_perfume_error_def write_customer_error_def service_taken_def
      perfume_taken_def services_tbl.taken_def perfumes_tbl.taken_def customers_tbl.taken_def list_ex_iff split: if_splits)

text \<open>The sequences of the three tables.\<close>

definition master_fresh :: "world \<Rightarrow> bool" where
  "master_fresh w \<longleftrightarrow> services_tbl.fresh w \<and> perfumes_tbl.fresh w \<and> customers_tbl.fresh w"

lemma stable_master_fresh [simp]: "stable master_fresh"
  unfolding stable_def master_fresh_def
  using services_tbl.fresh_same_data perfumes_tbl.fresh_same_data customers_tbl.fresh_same_data by blast

lemma master_fresh_seqs:
  assumes "master_fresh w" and "services (data u) = services (data w)" "perfumes (data u) = perfumes (data w)"
    "customers (data u) = customers (data w)" and "\<And>t. seqs w t \<le> seqs u t"
  shows "master_fresh u"
  using assms unfolding master_fresh_def
  by (auto intro: services_tbl.fresh_frame perfumes_tbl.fresh_frame customers_tbl.fresh_frame)

end
