(* ===== verification/Http.thy ===== *)
theory Http
  imports Access
begin

text \<open>
  What the handlers of internal/handlers share (management.go): the reading of bodies, path identifiers and page
  parameters, the replies for errors, the audit row of a handler. A request is given by its parts: the principal
  the middleware attached, the raw path and query parameters, the body. A handler returns an
  error reply or the contents of its reply.
\<close>

section \<open>Replies\<close>

definition notFound :: http_error where
  "notFound = NotFound"

definition conflict :: "string \<Rightarrow> http_error" where
  "conflict code = Conflict code"

definition dbWriteError :: "pgerr \<Rightarrow> http_error" where
  "dbWriteError e = (case e of UniqueViolation _ \<Rightarrow> conflict ''DUPLICATE_RESOURCE'' | _ \<Rightarrow> Internal)"

definition with_principal :: "Principal option \<Rightarrow> (Principal \<Rightarrow> (http_error, 'a) m) \<Rightarrow> (http_error, 'a) m" where
  "with_principal who f = (case who of None \<Rightarrow> fail Unauthorized | Some p \<Rightarrow> f p)"

section \<open>Reading a request\<close>

definition decodeManagementJSON :: "'a body \<Rightarrow> decode_error + 'a" where
  "decodeManagementJSON body =
     (case fst body of
        Inl e \<Rightarrow> Inl e
      | Inr dst \<Rightarrow> (case snd body of Inl EndOfBody \<Rightarrow> Inr dst | _ \<Rightarrow> Inl Malformed))"

definition with_body :: "string \<Rightarrow> 'b body \<Rightarrow> ('b \<Rightarrow> (http_error, 'a) m) \<Rightarrow> (http_error, 'a) m" where
  "with_body code body f = (case decodeManagementJSON body of Inl _ \<Rightarrow> fail (BadRequest code) | Inr req \<Rightarrow> f req)"

definition pathID :: "string \<Rightarrow> i64 option" where
  "pathID raw = (case parse_int 64 raw of None \<Rightarrow> None | Some i \<Rightarrow> if i < 1 then None else Some i)"

definition with_id :: "string \<Rightarrow> (i64 \<Rightarrow> (http_error, 'a) m) \<Rightarrow> (http_error, 'a) m" where
  "with_id raw f = (case pathID raw of None \<Rightarrow> fail (BadRequest ''INVALID_ID'') | Some i \<Rightarrow> f i)"

text \<open>A query parameter that is absent is the empty string; page and size as 32-bit numbers.\<close>

definition page_number :: "string \<Rightarrow> int option" where
  "page_number raw = (if raw = [] then Some 1
     else case parse_int 32 raw of None \<Rightarrow> None | Some page \<Rightarrow> if page < 1 then None else Some page)"

definition page_size :: "string \<Rightarrow> int option" where
  "page_size raw = (if raw = [] then Some 20
     else case parse_int 32 raw of None \<Rightarrow> None
       | Some pageSize \<Rightarrow> if pageSize < 1 \<or> pageSize > 100 then None else Some pageSize)"

definition pagination :: "string \<Rightarrow> string \<Rightarrow> (i32 \<times> i32 \<times> i32) option" where
  "pagination rawPage rawSize =
     (case page_number rawPage of
        None \<Rightarrow> None
      | Some page \<Rightarrow>
          (case page_size rawSize of
             None \<Rightarrow> None
           | Some pageSize \<Rightarrow>
               let offset = wrap64 ((page - 1) * pageSize) in
               if offset > 2 ^ 31 - 1 then None else Some (wrap32 page, wrap32 pageSize, wrap32 offset)))"

definition with_page ::
  "string \<Rightarrow> string \<Rightarrow> (i32 \<times> i32 \<times> i32 \<Rightarrow> (http_error, 'a) m) \<Rightarrow> (http_error, 'a) m" where
  "with_page rawPage rawSize f =
     (case pagination rawPage rawSize of None \<Rightarrow> fail (BadRequest ''INVALID_PAGINATION'') | Some pg \<Rightarrow> f pg)"

record pageInfo =
  pg_page :: i32
  pg_pageSize :: i32
  pg_totalItems :: i64
  pg_totalPages :: i64

definition pageInfo_of :: "i32 \<Rightarrow> i32 \<Rightarrow> i64 \<Rightarrow> pageInfo" where
  "pageInfo_of page pageSize totalItems = \<lparr>pg_page = page, pg_pageSize = pageSize, pg_totalItems = totalItems,
     pg_totalPages = (if totalItems > 0 then go_quo (wrap64 (totalItems + pageSize - 1)) pageSize else 0)\<rparr>"

fun unique_acc :: "'a list \<Rightarrow> ('a \<Rightarrow> bool) \<Rightarrow> 'a list \<Rightarrow> 'a list" where
  "unique_acc seen ok [] = []"
| "unique_acc seen ok (x # xs) =
     (if ok x \<and> x \<notin> set seen then x # unique_acc (x # seen) ok xs else unique_acc seen ok xs)"

definition uniqueIDs :: "i64 list \<Rightarrow> i64 list" where
  "uniqueIDs input = unique_acc [] (\<lambda>i. i > 0) input"

definition uniqueStrings :: "string list \<Rightarrow> string list" where
  "uniqueStrings input = unique_acc [] (\<lambda>s. s \<noteq> []) (map trim_space input)"

section \<open>Audit rows and actors\<close>

definition writeAudit ::
  "Principal \<Rightarrow> client \<Rightarrow> string \<Rightarrow> string \<Rightarrow> i64 \<Rightarrow> jval option \<Rightarrow> jval option \<Rightarrow> (http_error, unit) m" where
  "writeAudit p c action entity i oldValues newValues =
     as_internal (InsertAuditLog (pc_BusinessID p) (Some (pc_UserID p)) action entity (Some i) oldValues newValues
       (cl_address c) (audit_user_agent (cl_user_agent c)))"

text \<open>serviceActor and perfumeActor leave the role and the outlets empty; orderActor fills them in.\<close>

definition serviceActor :: "Principal \<Rightarrow> client \<Rightarrow> actor" where
  "serviceActor p c = \<lparr>a_business_id = pc_BusinessID p, a_user_id = pc_UserID p, a_role = [], a_outlet_ids = [],
     a_ip = cl_address c, a_user_agent = cl_user_agent c\<rparr>"

definition orderActor :: "Principal \<Rightarrow> client \<Rightarrow> actor" where
  "orderActor p c = \<lparr>a_business_id = pc_BusinessID p, a_user_id = pc_UserID p, a_role = pc_Role p,
     a_outlet_ids = pc_OutletIDs p, a_ip = cl_address c, a_user_agent = cl_user_agent c\<rparr>"

section \<open>Pages\<close>

lemma parse_digits_nonneg: "parse_digits raw = Some i \<Longrightarrow> 0 \<le> i"
  using digits_val_bounds by (auto simp: parse_digits_def split: if_splits)

lemma parse_int_bits: "parse_int 32 raw = Some i \<Longrightarrow> - (2 ^ 31) \<le> i \<and> i < 2 ^ 31"
  using parse_digits_nonneg [of raw] parse_digits_nonneg [of "tl raw"]
  by (fastforce simp: parse_int_def Let_def split: if_splits option.splits)

lemma pagination_Some:
  assumes "pagination rawPage rawSize = Some (page, pageSize, offset)"
  shows "1 \<le> page \<and> page < 2 ^ 31 \<and> 1 \<le> pageSize \<and> pageSize \<le> 100 \<and> offset = (page - 1) * pageSize \<and> 0 \<le> offset \<and> offset < 2 ^ 31"
proof -
  obtain pg sz where pg: "page_number rawPage = Some pg" and sz: "page_size rawSize = Some sz"
    and off: "\<not> wrap64 ((pg - 1) * sz) > 2 ^ 31 - 1"
    and eqs: "page = wrap32 pg" "pageSize = wrap32 sz" "offset = wrap32 (wrap64 ((pg - 1) * sz))"
    using assms unfolding pagination_def Let_def by (auto split: option.splits if_splits)
  have p: "1 \<le> pg" "pg < 2 ^ 31"
    using pg parse_int_bits [of rawPage] by (auto simp: page_number_def split: if_splits option.splits)
  have s: "1 \<le> sz" "sz \<le> 100" using sz by (auto simp: page_size_def split: if_splits option.splits)
  have "0 \<le> (pg - 1) * sz" using p s by simp
  moreover have "(pg - 1) * sz \<le> 2 ^ 31 * 100" using p s by (intro mult_mono) auto
  ultimately have "is_int64 ((pg - 1) * sz)" by (simp add: is_int64_def)
  then have w: "wrap64 ((pg - 1) * sz) = (pg - 1) * sz" by simp
  then have "(pg - 1) * sz < 2 ^ 31" using off by simp
  then have "wrap32 pg = pg" "wrap32 sz = sz" "wrap32 ((pg - 1) * sz) = (pg - 1) * sz"
    using p s \<open>0 \<le> (pg - 1) * sz\<close> by (simp_all add: wrap32_def)
  then show ?thesis using eqs p s w \<open>0 \<le> (pg - 1) * sz\<close> \<open>(pg - 1) * sz < 2 ^ 31\<close> by simp
qed

lemma pagination_show:
  assumes "1 \<le> k" "k < 2 ^ 31" "1 \<le> n" "n \<le> 100" "(k - 1) * n < 2 ^ 31"
  shows "pagination (show_int k) (show_int n) = Some (k, n, (k - 1) * n)"
proof -
  have p: "parse_int 32 (show_int i) = Some i" if "0 \<le> i" "i < 2 ^ 31" for i
    using that show_nat_hd [of "nat i"] by (auto simp: parse_int_def show_int_def Let_def)
  have ne: "show_int i \<noteq> []" if "0 \<le> i" for i using that by (simp add: show_int_def)
  have "page_number (show_int k) = Some k" "page_size (show_int n) = Some n"
    using p ne assms by (simp_all add: page_number_def page_size_def)
  moreover have "0 \<le> (k - 1) * n" using assms by simp
  then have "wrap64 ((k - 1) * n) = (k - 1) * n" "wrap32 k = k" "wrap32 n = n" "wrap32 ((k - 1) * n) = (k - 1) * n"
    using assms by (simp_all add: wrap32_def wrap64_def)
  ultimately show ?thesis using assms by (simp add: pagination_def)
qed

text \<open>The number of pages is the number of items divided by the size, rounded up.\<close>

lemma pageInfo_pages:
  assumes "0 \<le> totalItems" "totalItems \<le> 2 ^ 62" "1 \<le> pageSize" "pageSize \<le> 100"
  shows "(pg_totalPages (pageInfo_of page pageSize totalItems) - 1) * pageSize < totalItems \<or> pg_totalPages (pageInfo_of page pageSize totalItems) = 0"
    and "totalItems \<le> pg_totalPages (pageInfo_of page pageSize totalItems) * pageSize"
proof -
  have "pg_totalPages (pageInfo_of page pageSize totalItems) = (totalItems + pageSize - 1) div pageSize"
  proof (cases "totalItems > 0")
    case True
    have "is_int64 (totalItems + pageSize - 1)" using assms by (simp add: is_int64_def)
    then show ?thesis using True assms by (simp add: pageInfo_of_def go_quo_nonneg)
  next
    case False
    then show ?thesis using assms by (simp add: pageInfo_of_def)
  qed
  moreover have "totalItems \<le> (totalItems + pageSize - 1) div pageSize * pageSize"
    using assms by (smt (verit) div_mult_mod_eq pos_mod_bound)
  moreover have "(totalItems + pageSize - 1) div pageSize * pageSize \<le> totalItems + pageSize - 1"
    using assms by (smt (verit) div_mult_mod_eq pos_mod_sign)
  ultimately show "(pg_totalPages (pageInfo_of page pageSize totalItems) - 1) * pageSize < totalItems \<or> pg_totalPages (pageInfo_of page pageSize totalItems) = 0"
    and "totalItems \<le> pg_totalPages (pageInfo_of page pageSize totalItems) * pageSize"
    using assms by (simp_all add: left_diff_distrib)
qed

text \<open>Following the pages from the first to the last shows every item once, in order.\<close>

lemma pages_cover:
  assumes "0 < k" and "length xs \<le> n * k"
  shows "concat (map (\<lambda>i. take k (drop (i * k) xs)) [0..<n]) = xs"
proof -
  have "concat (map (\<lambda>i. take k (drop (i * k) xs)) [0..<n]) = take (n * k) xs"
  proof (induction n)
    case (Suc n)
    have "take (Suc n * k) xs = take (n * k) xs @ take k (drop (n * k) xs)"
      by (simp only: mult_Suc add.commute [of k] take_add)
    with Suc show ?case by simp
  qed simp
  with assms(2) show ?thesis by simp
qed

section \<open>Duplicates\<close>

lemma unique_acc_set: "set (unique_acc seen ok xs) = {x \<in> set xs. ok x} - set seen"
  by (induction xs arbitrary: seen) auto

lemma unique_acc_distinct: "distinct (unique_acc seen ok xs)"
  by (induction xs arbitrary: seen) (auto simp: unique_acc_set)

lemma length_unique_acc: "length (unique_acc seen ok xs) \<le> length xs"
  by (induction xs arbitrary: seen) (auto simp: le_SucI)

lemma unique_acc_full:
  "length (unique_acc seen ok xs) = length xs \<longleftrightarrow> distinct xs \<and> (\<forall>x \<in> set xs. ok x \<and> x \<notin> set seen)"
proof (induction xs arbitrary: seen)
  case (Cons x xs)
  have "\<not> length (unique_acc seen ok xs) = Suc (length xs)" using length_unique_acc [of seen ok xs] by simp
  then show ?case using Cons by auto
qed simp

section \<open>The combinators\<close>

lemma reads_with [reads_intro]:
  "(\<And>p. reads (f p)) \<Longrightarrow> reads (with_principal who f)" "(\<And>r. reads (g r)) \<Longrightarrow> reads (with_body code body g)"
  "(\<And>i. reads (h i)) \<Longrightarrow> reads (with_id raw h)" "(\<And>pg. reads (k pg)) \<Longrightarrow> reads (with_page rp rs k)"
  by (auto simp: with_principal_def with_body_def with_id_def with_page_def split: option.splits sum.splits
      intro: reads_fail)

lemma with_Inr [run_inv]:
  "with_principal who f w = (Inr x, w') \<longleftrightarrow> (\<exists>p. who = Some p \<and> f p w = (Inr x, w'))"
  "with_body code body g w = (Inr y, w') \<longleftrightarrow> (\<exists>r. decodeManagementJSON body = Inr r \<and> g r w = (Inr y, w'))"
  "with_id raw h w = (Inr z, w') \<longleftrightarrow> (\<exists>i. pathID raw = Some i \<and> h i w = (Inr z, w'))"
  "with_page rp rs k w = (Inr v, w') \<longleftrightarrow> (\<exists>pg. pagination rp rs = Some pg \<and> k pg w = (Inr v, w'))"
  by (auto simp: with_principal_def with_body_def with_id_def with_page_def fail_run split: option.splits sum.splits)

end
