(* ===== verification/Customers.thy ===== *)
theory Customers
  imports Http Master_Queries
begin

text \<open>
  The customers of a tenant (internal/handlers/customers.go): the handlers speak to the queries themselves, each
  write in a transaction with its audit row, which never holds the customer's personal data.
\<close>

section \<open>Values\<close>

record customerInput =
  cq_Name :: string
  cq_Phone :: "string option"
  cq_Address :: "string option"

record customerResponse =
  cr_ID :: i64
  cr_BusinessID :: i64
  cr_Name :: string
  cr_Phone :: "string option"
  cr_Address :: "string option"
  cr_CreatedAt :: time
  cr_UpdatedAt :: time

record customerOrderResponse =
  co_OutletTimezone :: string
  co_ID :: i64
  co_BusinessID :: i64
  co_OutletID :: i64
  co_CustomerID :: i64
  co_InvoiceNumber :: string
  co_Status :: string
  co_PaymentStatus :: string
  co_TotalAmount :: i64
  co_ReceivedAt :: time
  co_DueAt :: "time option"
  co_CompletedAt :: "time option"
  co_CancelledAt :: "time option"
  co_CreatedAt :: time

definition customerResponseFrom :: "customer_row \<Rightarrow> customerResponse" where
  "customerResponseFrom r = \<lparr>cr_ID = cu_id r, cr_BusinessID = cu_business_id r, cr_Name = cu_name r,
     cr_Phone = cu_phone r, cr_Address = cu_address r, cr_CreatedAt = cu_created_at r, cr_UpdatedAt = cu_updated_at r\<rparr>"

definition customer_order_from :: "order_row \<times> string \<Rightarrow> customerOrderResponse" where
  "customer_order_from x = (case x of (r, zone) \<Rightarrow>
     \<lparr>co_OutletTimezone = zone, co_ID = o_id r, co_BusinessID = o_business_id r, co_OutletID = o_outlet_id r,
      co_CustomerID = o_customer_id r, co_InvoiceNumber = o_invoice_number r, co_Status = o_status r,
      co_PaymentStatus = o_payment_status r, co_TotalAmount = o_total_amount r, co_ReceivedAt = o_received_at r,
      co_DueAt = o_due_at r, co_CompletedAt = o_completed_at r, co_CancelledAt = o_cancelled_at r,
      co_CreatedAt = o_created_at r\<rparr>)"

definition customerOptionalText :: "string option \<Rightarrow> string option" where
  "customerOptionalText v = (case v of None \<Rightarrow> None
     | Some s \<Rightarrow> let trimmed = trim_space s in if trimmed = [] then None else Some trimmed)"

definition customerAuditValues :: "i64 \<Rightarrow> string \<Rightarrow> string option \<Rightarrow> string option \<Rightarrow> jval" where
  "customerAuditValues i name phone address =
     JObj [(''id'', JInt i), (''personal_data'', JStr ''[REDACTED]'')]"

definition customer_audit :: "customer_row \<Rightarrow> jval" where
  "customer_audit r = customerAuditValues (cu_id r) (cu_name r) (cu_phone r) (cu_address r)"

text \<open>"if errors.Is(err, pgx.ErrNoRows) return notFound(c); if err != nil return internalError(c)".\<close>

definition or_not_found :: "(pgerr, 'a) m \<Rightarrow> (http_error, 'a) m" where
  "or_not_found p = on_err (\<lambda>e. if e = NoRows then notFound else Internal) p"

section \<open>Reading\<close>

definition CustomerHandler_List ::
  "primitives \<Rightarrow> Principal option \<Rightarrow> string \<Rightarrow> string \<Rightarrow> string \<Rightarrow> (http_error, customerResponse list \<times> pageInfo) m" where
  "CustomerHandler_List en who rawPage rawSize q =
     with_principal who (\<lambda>p. with_page rawPage rawSize (\<lambda>(page, pageSize, offset).
       let search = trim_space q in
       tbind (as_internal (ListCustomers en (pc_BusinessID p) search offset pageSize)) (\<lambda>items.
       tbind (as_internal (CountCustomers en (pc_BusinessID p) search)) (\<lambda>totalItems.
       ret (map customerResponseFrom items, pageInfo_of page pageSize totalItems)))))"

definition CustomerHandler_Get :: "Principal option \<Rightarrow> string \<Rightarrow> (http_error, customerResponse) m" where
  "CustomerHandler_Get who rawID =
     with_principal who (\<lambda>p. with_id rawID (\<lambda>i.
       tbind (or_not_found (GetCustomer (pc_BusinessID p) i)) (\<lambda>item. ret (customerResponseFrom item))))"

text \<open>Only administrators see the orders of every outlet.\<close>

definition CustomerHandler_OrderHistory ::
  "Principal option \<Rightarrow> string \<Rightarrow> string \<Rightarrow> string \<Rightarrow> (http_error, customerOrderResponse list \<times> pageInfo) m" where
  "CustomerHandler_OrderHistory who rawID rawPage rawSize =
     with_principal who (\<lambda>p. with_id rawID (\<lambda>i. with_page rawPage rawSize (\<lambda>(page, pageSize, offset).
       tbind (or_not_found (GetCustomerForHistory (pc_BusinessID p) i)) (\<lambda>_.
       let isAdmin = (pc_Role p = ''ADMIN'') in
       tbind (as_internal (ListCustomerOrderHistory (pc_BusinessID p) i isAdmin (pc_OutletIDs p) offset pageSize)) (\<lambda>items.
       tbind (as_internal (CountCustomerOrderHistory (pc_BusinessID p) i isAdmin (pc_OutletIDs p))) (\<lambda>totalItems.
       ret (map customer_order_from items, pageInfo_of page pageSize totalItems)))))))"

section \<open>Writing\<close>

definition CreateCustomer_body ::
  "Principal \<Rightarrow> client \<Rightarrow> string \<Rightarrow> customerInput \<Rightarrow> (http_error, customerResponse) m" where
  "CreateCustomer_body p c name req =
     tbind (as_internal (CreateCustomer (pc_BusinessID p) name (customerOptionalText (cq_Phone req))
              (customerOptionalText (cq_Address req)))) (\<lambda>item.
     tbind (writeAudit p c ''CUSTOMER_CREATED'' ''customer'' (cu_id item) None (Some (customer_audit item))) (\<lambda>_.
     ret (customerResponseFrom item)))"

definition CustomerHandler_Create ::
  "Principal option \<Rightarrow> client \<Rightarrow> customerInput body \<Rightarrow> (http_error, customerResponse) m" where
  "CustomerHandler_Create who c body =
     with_principal who (\<lambda>p. with_body ''INVALID_REQUEST'' body (\<lambda>req.
       let name = trim_space (cq_Name req) in
       if name = [] then fail (BadRequest ''INVALID_REQUEST'')
       else with_tx Internal (CreateCustomer_body p c name req)))"

definition UpdateCustomer_body ::
  "Principal \<Rightarrow> client \<Rightarrow> i64 \<Rightarrow> string \<Rightarrow> customerInput \<Rightarrow> (http_error, customerResponse) m" where
  "UpdateCustomer_body p c i name req =
     tbind (or_not_found (GetCustomerForUpdate (pc_BusinessID p) i)) (\<lambda>old.
     tbind (as_internal (UpdateCustomer (pc_BusinessID p) i name (customerOptionalText (cq_Phone req))
              (customerOptionalText (cq_Address req)))) (\<lambda>item.
     tbind (writeAudit p c ''CUSTOMER_UPDATED'' ''customer'' (cu_id item) (Some (customer_audit old))
              (Some (customer_audit item))) (\<lambda>_.
     ret (customerResponseFrom item))))"

definition CustomerHandler_Update ::
  "Principal option \<Rightarrow> client \<Rightarrow> string \<Rightarrow> customerInput body \<Rightarrow> (http_error, customerResponse) m" where
  "CustomerHandler_Update who c rawID body =
     with_principal who (\<lambda>p. with_id rawID (\<lambda>i. with_body ''INVALID_REQUEST'' body (\<lambda>req.
       let name = trim_space (cq_Name req) in
       if name = [] then fail (BadRequest ''INVALID_REQUEST'')
       else with_tx Internal (UpdateCustomer_body p c i name req))))"

definition DeactivateCustomer_body :: "Principal \<Rightarrow> client \<Rightarrow> i64 \<Rightarrow> (http_error, unit) m" where
  "DeactivateCustomer_body p c i =
     tbind (or_not_found (GetCustomerForUpdate (pc_BusinessID p) i)) (\<lambda>old.
     tbind (as_internal (DeactivateCustomer (pc_BusinessID p) i)) (\<lambda>item.
     writeAudit p c ''CUSTOMER_DEACTIVATED'' ''customer'' (cu_id item) (Some (customer_audit old))
       (Some (JObj [(''deleted'', JBool True)]))))"

definition CustomerHandler_Deactivate :: "Principal option \<Rightarrow> client \<Rightarrow> string \<Rightarrow> (http_error, unit) m" where
  "CustomerHandler_Deactivate who c rawID =
     with_principal who (\<lambda>p. with_id rawID (\<lambda>i. with_tx Internal (DeactivateCustomer_body p c i)))"

section \<open>What the handlers leave alone\<close>

lemma reads_or_not_found [reads_intro]: "reads p \<Longrightarrow> reads (or_not_found p)"
  unfolding or_not_found_def by (intro reads_intro)

lemma customer_reads:
  "reads (CustomerHandler_List en who rp rs q)" "reads (CustomerHandler_Get who raw)"
  "reads (CustomerHandler_OrderHistory who raw rp rs)"
  unfolding CustomerHandler_List_def CustomerHandler_Get_def CustomerHandler_OrderHistory_def as_internal_def
  by (intro reads_intro)+

end
