(* ===== verification/Catalogs.thy ===== *)
theory Catalogs
  imports Master_Queries
begin

text \<open>
  The service catalog (internal/service/services.go) and the perfume catalog (internal/service/perfumes.go):
  validation, listing, and the writes, each in a transaction with its audit row.
\<close>

section \<open>Values\<close>

text \<open>What the catalogs return of a row.\<close>

record Service =
  se_ID :: i64
  se_BusinessID :: i64
  se_Name :: string
  se_Description :: "string option"
  se_Unit :: string
  se_UnitPriceAmount :: i64
  se_EstimatedDurationMinutes :: i32
  se_IsActive :: bool
  se_CreatedAt :: time
  se_UpdatedAt :: time

record ServiceInput =
  si_Name :: string
  si_Description :: "string option"
  si_Unit :: string
  si_UnitPriceAmount :: i64
  si_EstimatedDurationMinutes :: i32
  si_IsActive :: bool

record ServiceFilter =
  sl_Search :: string
  sl_Unit :: "string option"
  sl_IsActive :: "bool option"
  sl_PageOffset :: i32
  sl_PageLimit :: i32

record Perfume =
  pe_ID :: i64
  pe_BusinessID :: i64
  pe_Name :: string
  pe_Description :: "string option"
  pe_IsActive :: bool
  pe_CreatedAt :: time
  pe_UpdatedAt :: time

record PerfumeInput =
  pi_Name :: string
  pi_Description :: "string option"
  pi_IsActive :: bool

record PerfumeFilter =
  pl_Search :: string
  pl_IsActive :: "bool option"
  pl_PageOffset :: i32
  pl_PageLimit :: i32

section \<open>Validation\<close>

definition ValidUnit :: "string \<Rightarrow> bool" where
  "ValidUnit unit \<longleftrightarrow> unit = ''kg'' \<or> unit = ''pcs'' \<or> unit = ''m'' \<or> unit = ''m2''"

text \<open>A description is trimmed, and dropped when nothing remains.\<close>

definition trimmed_text :: "string option \<Rightarrow> string option" where
  "trimmed_text text = (case text of None \<Rightarrow> None
     | Some s \<Rightarrow> let value = trim_space s in if value = [] then None else Some value)"

definition validateServiceInput :: "ServiceInput \<Rightarrow> svc_error + ServiceInput" where
  "validateServiceInput input =
     (let name = trim_space (si_Name input) in
      if name = [] then Inl ErrInvalidName
      else if \<not> ValidUnit (si_Unit input) then Inl ErrInvalidUnit
      else if si_UnitPriceAmount input < 0 then Inl ErrInvalidPrice
      else if si_EstimatedDurationMinutes input < 0 then Inl ErrInvalidDuration
      else Inr (input\<lparr>si_Name := name, si_Description := trimmed_text (si_Description input)\<rparr>))"

definition normalizePerfume :: "PerfumeInput \<Rightarrow> svc_error + PerfumeInput" where
  "normalizePerfume input =
     (let name = trim_space (pi_Name input) in
      if name = [] then Inl ErrInvalidPerfumeName
      else Inr (input\<lparr>pi_Name := name, pi_Description := trimmed_text (pi_Description input)\<rparr>))"

section \<open>Rows, errors and audit rows\<close>

definition serviceFromRow :: "service_row \<Rightarrow> Service" where
  "serviceFromRow r = \<lparr>se_ID = sv_id r, se_BusinessID = sv_business_id r, se_Name = sv_name r,
     se_Description = sv_description r, se_Unit = sv_unit r, se_UnitPriceAmount = sv_unit_price_amount r,
     se_EstimatedDurationMinutes = sv_estimated_duration_minutes r, se_IsActive = sv_is_active r,
     se_CreatedAt = sv_created_at r, se_UpdatedAt = sv_updated_at r\<rparr>"

definition perfumeFromRow :: "perfume_row \<Rightarrow> Perfume" where
  "perfumeFromRow r = \<lparr>pe_ID = pf_id r, pe_BusinessID = pf_business_id r, pe_Name = pf_name r,
     pe_Description = pf_description r, pe_IsActive = pf_is_active r, pe_CreatedAt = pf_created_at r,
     pe_UpdatedAt = pf_updated_at r\<rparr>"

definition serviceWriteError :: "pgerr \<Rightarrow> svc_error" where
  "serviceWriteError e = (case e of UniqueViolation _ \<Rightarrow> ErrConflict | _ \<Rightarrow> Sql e)"

definition perfumeWriteError :: "pgerr \<Rightarrow> svc_error" where
  "perfumeWriteError e = (case e of UniqueViolation _ \<Rightarrow> ErrPerfumeConflict | _ \<Rightarrow> Sql e)"

definition json_text :: "string option \<Rightarrow> jval" where
  "json_text s = (case s of None \<Rightarrow> JNull | Some t \<Rightarrow> JStr t)"

definition service_json :: "Service \<Rightarrow> jval" where
  "service_json s = JObj [(''id'', JInt (se_ID s)), (''business_id'', JInt (se_BusinessID s)), (''name'', JStr (se_Name s)),
     (''description'', json_text (se_Description s)), (''unit'', JStr (se_Unit s)),
     (''unit_price_amount'', JInt (se_UnitPriceAmount s)),
     (''estimated_duration_minutes'', JInt (se_EstimatedDurationMinutes s)), (''is_active'', JBool (se_IsActive s)),
     (''created_at'', JTime (se_CreatedAt s)), (''updated_at'', JTime (se_UpdatedAt s))]"

definition perfume_json :: "Perfume \<Rightarrow> jval" where
  "perfume_json s = JObj [(''id'', JInt (pe_ID s)), (''business_id'', JInt (pe_BusinessID s)), (''name'', JStr (pe_Name s)),
     (''description'', json_text (pe_Description s)), (''is_active'', JBool (pe_IsActive s)),
     (''created_at'', JTime (pe_CreatedAt s)), (''updated_at'', JTime (pe_UpdatedAt s))]"

definition deleted_json :: jval where
  "deleted_json = JObj [(''deleted'', JBool True)]"

definition auditService :: "actor \<Rightarrow> string \<Rightarrow> i64 \<Rightarrow> jval option \<Rightarrow> jval option \<Rightarrow> (svc_error, unit) m" where
  "auditService a action entityID before after =
     exec (InsertAuditLog (a_business_id a) (Some (a_user_id a)) action ''service'' (Some entityID) before after
       (a_ip a) (audit_user_agent (a_user_agent a)))"

definition auditPerfume :: "actor \<Rightarrow> string \<Rightarrow> i64 \<Rightarrow> jval option \<Rightarrow> jval option \<Rightarrow> (svc_error, unit) m" where
  "auditPerfume a action entityID before after =
     exec (InsertAuditLog (a_business_id a) (Some (a_user_id a)) action ''perfume'' (Some entityID) before after
       (a_ip a) (audit_user_agent (a_user_agent a)))"

section \<open>The service catalog\<close>

definition ServiceCatalog_List ::
  "primitives \<Rightarrow> i64 \<Rightarrow> ServiceFilter \<Rightarrow> (svc_error, Service list \<times> i64) m" where
  "ServiceCatalog_List en businessID filt =
     (if (case sl_Unit filt of None \<Rightarrow> False | Some u \<Rightarrow> \<not> ValidUnit u) then fail ErrInvalidUnit
      else let search = trim_space (sl_Search filt) in
      tbind (exec (ListServices en businessID search (sl_Unit filt) (sl_IsActive filt) (sl_PageOffset filt)
               (sl_PageLimit filt))) (\<lambda>items.
      tbind (exec (CountServices en businessID search (sl_Unit filt) (sl_IsActive filt))) (\<lambda>total.
      ret (map serviceFromRow items, total))))"

definition ServiceCatalog_Get :: "i64 \<Rightarrow> i64 \<Rightarrow> (svc_error, Service) m" where
  "ServiceCatalog_Get businessID serviceID =
     tbind (on_err (no_rows ErrNotFound) (GetService businessID serviceID)) (\<lambda>item. ret (serviceFromRow item))"

definition CreateService_body :: "primitives \<Rightarrow> actor \<Rightarrow> ServiceInput \<Rightarrow> (svc_error, Service) m" where
  "CreateService_body en a input =
     tbind (on_err serviceWriteError (CreateService en (a_business_id a) (si_Name input) (si_Description input)
              (si_Unit input) (si_UnitPriceAmount input) (si_EstimatedDurationMinutes input))) (\<lambda>item.
     let created = serviceFromRow item in
     tbind (auditService a ''SERVICE_CREATED'' (sv_id item) None (Some (service_json created))) (\<lambda>_.
     ret created))"

definition ServiceCatalog_Create :: "primitives \<Rightarrow> actor \<Rightarrow> ServiceInput \<Rightarrow> (svc_error, Service) m" where
  "ServiceCatalog_Create en a input =
     (case validateServiceInput input of Inl e \<Rightarrow> fail e | Inr input' \<Rightarrow> in_tx (CreateService_body en a input'))"

definition change_action :: "string \<Rightarrow> bool \<Rightarrow> bool \<Rightarrow> string" where
  "change_action entity before after = entity @
     (if before \<and> \<not> after then ''_DEACTIVATED'' else if \<not> before \<and> after then ''_REACTIVATED'' else ''_UPDATED'')"

definition UpdateService_body :: "primitives \<Rightarrow> actor \<Rightarrow> i64 \<Rightarrow> ServiceInput \<Rightarrow> (svc_error, Service) m" where
  "UpdateService_body en a serviceID input =
     tbind (on_err (no_rows ErrNotFound) (GetServiceForUpdate (a_business_id a) serviceID)) (\<lambda>old.
     tbind (on_err serviceWriteError (UpdateService en (a_business_id a) serviceID (si_Name input) (si_Description input)
              (si_Unit input) (si_UnitPriceAmount input) (si_EstimatedDurationMinutes input) (si_IsActive input)))
       (\<lambda>item.
     let before = serviceFromRow old; updated = serviceFromRow item in
     tbind (auditService a (change_action ''SERVICE'' (se_IsActive before) (se_IsActive updated)) serviceID
              (Some (service_json before)) (Some (service_json updated))) (\<lambda>_.
     ret updated)))"

definition ServiceCatalog_Update :: "primitives \<Rightarrow> actor \<Rightarrow> i64 \<Rightarrow> ServiceInput \<Rightarrow> (svc_error, Service) m" where
  "ServiceCatalog_Update en a serviceID input =
     (case validateServiceInput input of Inl e \<Rightarrow> fail e | Inr input' \<Rightarrow> in_tx (UpdateService_body en a serviceID input'))"

definition DeleteService_body :: "primitives \<Rightarrow> actor \<Rightarrow> i64 \<Rightarrow> (svc_error, unit) m" where
  "DeleteService_body en a serviceID =
     tbind (on_err (no_rows ErrNotFound) (GetServiceForUpdate (a_business_id a) serviceID)) (\<lambda>old.
     tbind (exec (SoftDeleteService en (a_business_id a) serviceID)) (\<lambda>_.
     auditService a ''SERVICE_DELETED'' serviceID (Some (service_json (serviceFromRow old))) (Some deleted_json)))"

definition ServiceCatalog_Delete :: "primitives \<Rightarrow> actor \<Rightarrow> i64 \<Rightarrow> (svc_error, unit) m" where
  "ServiceCatalog_Delete en a serviceID = in_tx (DeleteService_body en a serviceID)"

section \<open>The perfume catalog\<close>

definition PerfumeCatalog_List ::
  "primitives \<Rightarrow> i64 \<Rightarrow> PerfumeFilter \<Rightarrow> (svc_error, Perfume list \<times> i64) m" where
  "PerfumeCatalog_List en businessID filt =
     (let search = trim_space (pl_Search filt) in
      tbind (exec (ListPerfumes en businessID search (pl_IsActive filt) (pl_PageOffset filt) (pl_PageLimit filt))) (\<lambda>items.
      tbind (exec (CountPerfumes en businessID search (pl_IsActive filt))) (\<lambda>total.
      ret (map perfumeFromRow items, total))))"

definition PerfumeCatalog_Get :: "i64 \<Rightarrow> i64 \<Rightarrow> (svc_error, Perfume) m" where
  "PerfumeCatalog_Get businessID perfumeID =
     tbind (on_err (no_rows ErrPerfumeNotFound) (GetPerfume businessID perfumeID)) (\<lambda>item. ret (perfumeFromRow item))"

definition CreatePerfume_body :: "primitives \<Rightarrow> actor \<Rightarrow> PerfumeInput \<Rightarrow> (svc_error, Perfume) m" where
  "CreatePerfume_body en a input =
     tbind (on_err perfumeWriteError (CreatePerfume en (a_business_id a) (pi_Name input) (pi_Description input))) (\<lambda>item.
     let created = perfumeFromRow item in
     tbind (auditPerfume a ''PERFUME_CREATED'' (pf_id item) None (Some (perfume_json created))) (\<lambda>_.
     ret created))"

definition PerfumeCatalog_Create :: "primitives \<Rightarrow> actor \<Rightarrow> PerfumeInput \<Rightarrow> (svc_error, Perfume) m" where
  "PerfumeCatalog_Create en a input =
     (case normalizePerfume input of Inl e \<Rightarrow> fail e | Inr input' \<Rightarrow> in_tx (CreatePerfume_body en a input'))"

definition UpdatePerfume_body :: "primitives \<Rightarrow> actor \<Rightarrow> i64 \<Rightarrow> PerfumeInput \<Rightarrow> (svc_error, Perfume) m" where
  "UpdatePerfume_body en a perfumeID input =
     tbind (on_err (no_rows ErrPerfumeNotFound) (GetPerfumeForUpdate (a_business_id a) perfumeID)) (\<lambda>old.
     tbind (on_err perfumeWriteError (UpdatePerfume en (a_business_id a) perfumeID (pi_Name input) (pi_Description input)
              (pi_IsActive input))) (\<lambda>item.
     let before = perfumeFromRow old; updated = perfumeFromRow item in
     tbind (auditPerfume a (change_action ''PERFUME'' (pe_IsActive before) (pe_IsActive updated)) perfumeID
              (Some (perfume_json before)) (Some (perfume_json updated))) (\<lambda>_.
     ret updated)))"

definition PerfumeCatalog_Update :: "primitives \<Rightarrow> actor \<Rightarrow> i64 \<Rightarrow> PerfumeInput \<Rightarrow> (svc_error, Perfume) m" where
  "PerfumeCatalog_Update en a perfumeID input =
     (case normalizePerfume input of Inl e \<Rightarrow> fail e | Inr input' \<Rightarrow> in_tx (UpdatePerfume_body en a perfumeID input'))"

definition DeletePerfume_body :: "primitives \<Rightarrow> actor \<Rightarrow> i64 \<Rightarrow> (svc_error, unit) m" where
  "DeletePerfume_body en a perfumeID =
     tbind (on_err (no_rows ErrPerfumeNotFound) (GetPerfumeForUpdate (a_business_id a) perfumeID)) (\<lambda>old.
     tbind (exec (SoftDeletePerfume en (a_business_id a) perfumeID)) (\<lambda>_.
     auditPerfume a ''PERFUME_DELETED'' perfumeID (Some (perfume_json (perfumeFromRow old))) (Some deleted_json)))"

definition PerfumeCatalog_Delete :: "primitives \<Rightarrow> actor \<Rightarrow> i64 \<Rightarrow> (svc_error, unit) m" where
  "PerfumeCatalog_Delete en a perfumeID = in_tx (DeletePerfume_body en a perfumeID)"

section \<open>What validation accepts\<close>

lemma validateServiceInput_Inr:
  assumes "validateServiceInput input = Inr input'"
  shows "si_Name input' = trim_space (si_Name input)" "si_Name input' \<noteq> []"
    "si_Description input' = trimmed_text (si_Description input)" "si_Unit input' = si_Unit input"
    "si_UnitPriceAmount input' = si_UnitPriceAmount input" "0 \<le> si_UnitPriceAmount input"
    "si_EstimatedDurationMinutes input' = si_EstimatedDurationMinutes input" "0 \<le> si_EstimatedDurationMinutes input"
    "si_IsActive input' = si_IsActive input" "ValidUnit (si_Unit input)"
  using assms by (auto simp: validateServiceInput_def Let_def split: if_splits)

lemma normalizePerfume_Inr:
  assumes "normalizePerfume input = Inr input'"
  shows "pi_Name input' = trim_space (pi_Name input)" "pi_Name input' \<noteq> []"
    "pi_Description input' = trimmed_text (pi_Description input)" "pi_IsActive input' = pi_IsActive input"
  using assms by (auto simp: normalizePerfume_def Let_def split: if_splits)

end
