(* ===== verification/Handlers.thy ===== *)
theory Handlers
  imports Customers Catalogs Payments
begin

text \<open>
  The handlers over the catalogs: internal/handlers/services.go, perfumes.go, and of orders.go and
  payments.go those that read, move, cancel and void. They check the request, call the catalog with the actor of the principal
  and translate its errors. A query parameter that may be repeated is the list of its values, if it is there.
\<close>

section \<open>Services\<close>

record serviceRequest =
  sq_Name :: "string option"
  sq_Description :: "string option"
  sq_Unit :: "string option"
  sq_UnitPriceAmount :: "i64 option"
  sq_EstimatedDurationMinutes :: "i32 option"
  sq_IsActive :: "bool option"

definition service_input :: "serviceRequest \<Rightarrow> bool \<Rightarrow> ServiceInput option" where
  "service_input r update =
     (case (sq_Name r, sq_Unit r, sq_UnitPriceAmount r) of
        (Some name, Some unit, Some price) \<Rightarrow>
          (if update \<and> (sq_EstimatedDurationMinutes r = None \<or> sq_IsActive r = None) then None
           else let duration = (case sq_EstimatedDurationMinutes r of None \<Rightarrow> 0 | Some d \<Rightarrow> d);
                    active = (if update then (case sq_IsActive r of None \<Rightarrow> True | Some b \<Rightarrow> b) else True) in
           if \<not> update \<and> sq_IsActive r \<noteq> None then None
           else Some \<lparr>si_Name = name, si_Description = sq_Description r, si_Unit = unit, si_UnitPriceAmount = price,
                      si_EstimatedDurationMinutes = duration, si_IsActive = active\<rparr>)
      | _ \<Rightarrow> None)"

definition serviceError :: "svc_error \<Rightarrow> http_error" where
  "serviceError e =
     (if e \<in> {ErrInvalidName, ErrInvalidUnit, ErrInvalidPrice, ErrInvalidDuration} then BadRequest ''INVALID_SERVICE''
      else if e = ErrNotFound then notFound
      else if e = ErrConflict then conflict ''SERVICE_CONFLICT''
      else Internal)"

definition with_input :: "'b option \<Rightarrow> ('b \<Rightarrow> (http_error, 'a) m) \<Rightarrow> (http_error, 'a) m" where
  "with_input input f = (case input of None \<Rightarrow> fail (BadRequest ''INVALID_REQUEST'') | Some x \<Rightarrow> f x)"

definition unit_filter :: "string list option \<Rightarrow> http_error + string option" where
  "unit_filter vals = (case vals of None \<Rightarrow> Inr None
     | Some vs \<Rightarrow> if length vs \<noteq> 1 \<or> \<not> ValidUnit (vs ! 0) then Inl (BadRequest ''INVALID_UNIT'') else Inr (Some (vs ! 0)))"

definition active_filter :: "string list option \<Rightarrow> http_error + bool option" where
  "active_filter vals = (case vals of None \<Rightarrow> Inr None
     | Some vs \<Rightarrow> if length vs \<noteq> 1 \<or> (vs ! 0 \<noteq> ''true'' \<and> vs ! 0 \<noteq> ''false'') then Inl (BadRequest ''INVALID_ACTIVE_FILTER'')
       else Inr (Some (vs ! 0 = ''true'')))"

definition ServiceHandler_List ::
  "primitives \<Rightarrow> Principal option \<Rightarrow> string \<Rightarrow> string \<Rightarrow> string \<Rightarrow> string list option \<Rightarrow> string list option \<Rightarrow>
   (http_error, Service list \<times> pageInfo) m" where
  "ServiceHandler_List en who rawPage rawSize q units actives =
     with_principal who (\<lambda>p. with_page rawPage rawSize (\<lambda>(page, pageSize, offset).
       case unit_filter units of Inl e \<Rightarrow> fail e | Inr unit \<Rightarrow>
       (case active_filter actives of Inl e \<Rightarrow> fail e | Inr active \<Rightarrow>
        tbind (on_err serviceError (ServiceCatalog_List en (pc_BusinessID p)
                 \<lparr>sl_Search = q, sl_Unit = unit, sl_IsActive = active, sl_PageOffset = offset, sl_PageLimit = pageSize\<rparr>))
          (\<lambda>(items, totalItems). ret (items, pageInfo_of page pageSize totalItems)))))"

definition ServiceHandler_Get :: "Principal option \<Rightarrow> string \<Rightarrow> (http_error, Service) m" where
  "ServiceHandler_Get who rawID = with_principal who (\<lambda>p. with_id rawID (\<lambda>i.
     on_err serviceError (ServiceCatalog_Get (pc_BusinessID p) i)))"

definition ServiceHandler_Create ::
  "primitives \<Rightarrow> Principal option \<Rightarrow> client \<Rightarrow> serviceRequest body \<Rightarrow> (http_error, Service) m" where
  "ServiceHandler_Create en who c body = with_principal who (\<lambda>p. with_body ''INVALID_REQUEST'' body (\<lambda>req.
     with_input (service_input req False) (\<lambda>input.
     on_err serviceError (ServiceCatalog_Create en (serviceActor p c) input))))"

definition ServiceHandler_Update ::
  "primitives \<Rightarrow> Principal option \<Rightarrow> client \<Rightarrow> string \<Rightarrow> serviceRequest body \<Rightarrow> (http_error, Service) m" where
  "ServiceHandler_Update en who c rawID body = with_principal who (\<lambda>p. with_id rawID (\<lambda>i.
     with_body ''INVALID_REQUEST'' body (\<lambda>req. with_input (service_input req True) (\<lambda>input.
     on_err serviceError (ServiceCatalog_Update en (serviceActor p c) i input)))))"

definition ServiceHandler_Delete :: "primitives \<Rightarrow> Principal option \<Rightarrow> client \<Rightarrow> string \<Rightarrow> (http_error, unit) m" where
  "ServiceHandler_Delete en who c rawID = with_principal who (\<lambda>p. with_id rawID (\<lambda>i.
     on_err serviceError (ServiceCatalog_Delete en (serviceActor p c) i)))"

section \<open>Perfumes\<close>

record perfumeRequest =
  pq_Name :: "string option"
  pq_Description :: "string option"
  pq_IsActive :: "bool option"

definition perfume_input :: "perfumeRequest \<Rightarrow> bool \<Rightarrow> PerfumeInput option" where
  "perfume_input r update =
     (case pq_Name r of
        None \<Rightarrow> None
      | Some name \<Rightarrow>
          (if update \<and> pq_IsActive r = None then None
           else if \<not> update \<and> pq_IsActive r \<noteq> None then None
           else Some \<lparr>pi_Name = name, pi_Description = pq_Description r,
                      pi_IsActive = (if update then (case pq_IsActive r of None \<Rightarrow> True | Some b \<Rightarrow> b) else True)\<rparr>))"

definition perfumeActor :: "Principal \<Rightarrow> client \<Rightarrow> actor" where
  "perfumeActor p c = \<lparr>a_business_id = pc_BusinessID p, a_user_id = pc_UserID p, a_role = [], a_outlet_ids = [],
     a_ip = cl_address c, a_user_agent = cl_user_agent c\<rparr>"

definition perfumeError :: "svc_error \<Rightarrow> http_error" where
  "perfumeError e =
     (if e = ErrInvalidPerfumeName then BadRequest ''INVALID_PERFUME''
      else if e = ErrPerfumeNotFound then notFound
      else if e = ErrPerfumeConflict then conflict ''PERFUME_CONFLICT''
      else Internal)"

definition PerfumeHandler_List ::
  "primitives \<Rightarrow> Principal option \<Rightarrow> string \<Rightarrow> string \<Rightarrow> string \<Rightarrow> string list option \<Rightarrow>
   (http_error, Perfume list \<times> pageInfo) m" where
  "PerfumeHandler_List en who rawPage rawSize q actives =
     with_principal who (\<lambda>p. with_page rawPage rawSize (\<lambda>(page, pageSize, offset).
       case active_filter actives of Inl e \<Rightarrow> fail e | Inr active \<Rightarrow>
       tbind (on_err perfumeError (PerfumeCatalog_List en (pc_BusinessID p)
                \<lparr>pl_Search = q, pl_IsActive = active, pl_PageOffset = offset, pl_PageLimit = pageSize\<rparr>))
         (\<lambda>(items, totalItems). ret (items, pageInfo_of page pageSize totalItems))))"

definition PerfumeHandler_Get :: "Principal option \<Rightarrow> string \<Rightarrow> (http_error, Perfume) m" where
  "PerfumeHandler_Get who rawID = with_principal who (\<lambda>p. with_id rawID (\<lambda>i.
     on_err perfumeError (PerfumeCatalog_Get (pc_BusinessID p) i)))"

definition PerfumeHandler_Create ::
  "primitives \<Rightarrow> Principal option \<Rightarrow> client \<Rightarrow> perfumeRequest body \<Rightarrow> (http_error, Perfume) m" where
  "PerfumeHandler_Create en who c body = with_principal who (\<lambda>p. with_body ''INVALID_REQUEST'' body (\<lambda>req.
     with_input (perfume_input req False) (\<lambda>input.
     on_err perfumeError (PerfumeCatalog_Create en (perfumeActor p c) input))))"

definition PerfumeHandler_Update ::
  "primitives \<Rightarrow> Principal option \<Rightarrow> client \<Rightarrow> string \<Rightarrow> perfumeRequest body \<Rightarrow> (http_error, Perfume) m" where
  "PerfumeHandler_Update en who c rawID body = with_principal who (\<lambda>p. with_id rawID (\<lambda>i.
     with_body ''INVALID_REQUEST'' body (\<lambda>req. with_input (perfume_input req True) (\<lambda>input.
     on_err perfumeError (PerfumeCatalog_Update en (perfumeActor p c) i input)))))"

definition PerfumeHandler_Delete :: "primitives \<Rightarrow> Principal option \<Rightarrow> client \<Rightarrow> string \<Rightarrow> (http_error, unit) m" where
  "PerfumeHandler_Delete en who c rawID = with_principal who (\<lambda>p. with_id rawID (\<lambda>i.
     on_err perfumeError (PerfumeCatalog_Delete en (perfumeActor p c) i)))"

section \<open>Orders\<close>

definition orderError :: "svc_error \<Rightarrow> http_error" where
  "orderError e =
     (if e = ErrInvalidOrderQuantity then BadRequest ''INVALID_QUANTITY''
      else if e = ErrOrderDueAtBeforeReceive then BadRequest ''INVALID_DUE_AT''
      else if e \<in> {ErrInvalidOrder, ErrOrderTotalOverflow} then BadRequest ''INVALID_ORDER''
      else if e = ErrInvalidCancellation then BadRequest ''INVALID_CANCELLATION''
      else if e = ErrInvalidOrderTransition then conflict ''INVALID_STATUS_TRANSITION''
      else if e = ErrOrderRequiresRefund then conflict ''REFUND_POLICY_REQUIRED''
      else if e = ErrOrderOutletForbidden then Forbidden ''FORBIDDEN''
      else if e = ErrOrderIdempotencyConflict then conflict ''IDEMPOTENCY_CONFLICT''
      else if e \<in> {ErrOrderNotFound, ErrOrderCustomerNotFound, ErrOrderServiceNotFound, ErrOrderPerfumeNotFound} then notFound
      else Internal)"

record transitionOrderStatusRequest =
  tq_Status :: "string option"
  tq_Notes :: "string option"

record cancelOrderRequest =
  xq_Reason :: "string option"

text \<open>A body that does not decode and a body without its required field have the same reply.\<close>

definition with_required ::
  "string \<Rightarrow> 'b body \<Rightarrow> ('b \<Rightarrow> 'c option) \<Rightarrow> ('b \<Rightarrow> 'c \<Rightarrow> (http_error, 'a) m) \<Rightarrow> (http_error, 'a) m" where
  "with_required code body field f =
     with_body code body (\<lambda>req. case field req of None \<Rightarrow> fail (BadRequest code) | Some v \<Rightarrow> f req v)"

definition OrderHandler_TransitionStatus ::
  "Principal option \<Rightarrow> client \<Rightarrow> string \<Rightarrow> transitionOrderStatusRequest body \<Rightarrow> (http_error, OrderLifecycleResult) m" where
  "OrderHandler_TransitionStatus who c rawID body = with_principal who (\<lambda>p. with_id rawID (\<lambda>i.
     with_required ''INVALID_REQUEST'' body tq_Status (\<lambda>req status.
     on_err orderError (OrderCatalog_TransitionStatus (orderActor p c) i status (tq_Notes req)))))"

definition OrderHandler_Cancel ::
  "Principal option \<Rightarrow> client \<Rightarrow> string \<Rightarrow> cancelOrderRequest body \<Rightarrow> (http_error, OrderLifecycleResult) m" where
  "OrderHandler_Cancel who c rawID body = with_principal who (\<lambda>p. with_id rawID (\<lambda>i.
     with_required ''INVALID_CANCELLATION'' body xq_Reason (\<lambda>req reason.
     on_err orderError (OrderCatalog_Cancel (orderActor p c) i reason))))"

definition OrderHandler_StatusHistory ::
  "Principal option \<Rightarrow> client \<Rightarrow> string \<Rightarrow> (http_error, OrderStatusHistoryEntry list) m" where
  "OrderHandler_StatusHistory who c rawID = with_principal who (\<lambda>p. with_id rawID (\<lambda>i.
     on_err orderError (OrderCatalog_StatusHistory (orderActor p c) i)))"

definition OrderHandler_Get :: "Principal option \<Rightarrow> client \<Rightarrow> string \<Rightarrow> (http_error, Order) m" where
  "OrderHandler_Get who c rawID = with_principal who (\<lambda>p. with_id rawID (\<lambda>i.
     on_err orderError (OrderCatalog_Get (orderActor p c) i)))"

fun orderHasOutlet :: "i64 list \<Rightarrow> i64 \<Rightarrow> bool" where
  "orderHasOutlet [] outletID = False"
| "orderHasOutlet (i # rest) outletID = (if i = outletID then True else orderHasOutlet rest outletID)"

definition outlet_filter :: "Principal \<Rightarrow> string \<Rightarrow> http_error + i64 option" where
  "outlet_filter p raw =
     (if raw = [] then Inr None
      else case parse_int 64 raw of
             None \<Rightarrow> Inl (BadRequest ''INVALID_OUTLET_ID'')
           | Some i \<Rightarrow>
               if i < 1 then Inl (BadRequest ''INVALID_OUTLET_ID'')
               else if pc_Role p \<noteq> ''ADMIN'' \<and> \<not> orderHasOutlet (pc_OutletIDs p) i then Inl (Forbidden ''FORBIDDEN'')
               else Inr (Some i))"

definition status_filter :: "string \<Rightarrow> http_error + string option" where
  "status_filter raw =
     (if raw = [] then Inr None
      else if raw \<in> {''RECEIVED'', ''PROCESSING'', ''READY_FOR_PICKUP'', ''COMPLETED'', ''CANCELLED''} then Inr (Some raw)
      else Inl (BadRequest ''INVALID_STATUS''))"

definition OrderHandler_List ::
  "Principal option \<Rightarrow> client \<Rightarrow> string \<Rightarrow> string \<Rightarrow> string \<Rightarrow> string \<Rightarrow> (http_error, OrderSummary list \<times> pageInfo) m" where
  "OrderHandler_List who c rawPage rawSize rawOutlet rawStatus =
     with_principal who (\<lambda>p. with_page rawPage rawSize (\<lambda>(page, pageSize, offset).
       case outlet_filter p rawOutlet of Inl e \<Rightarrow> fail e | Inr outlet \<Rightarrow>
       (case status_filter rawStatus of Inl e \<Rightarrow> fail e | Inr status \<Rightarrow>
        tbind (on_err orderError (OrderCatalog_List (orderActor p c)
                 \<lparr>of_OutletID = outlet, of_Status = status, of_PageOffset = offset, of_PageLimit = pageSize\<rparr>))
          (\<lambda>(items, totalItems). ret (items, pageInfo_of page pageSize totalItems)))))"

section \<open>Payments\<close>

definition paymentError :: "svc_error \<Rightarrow> http_error" where
  "paymentError e =
     (if e = ErrInvalidPayment then BadRequest ''INVALID_PAYMENT''
      else if e = ErrInvalidPaymentVoid then BadRequest ''INVALID_PAYMENT_VOID''
      else if e = ErrOrderOutletForbidden then Forbidden ''FORBIDDEN''
      else if e = ErrPaymentNotFound then notFound
      else if e = ErrPaymentOverpayment then conflict ''OVERPAYMENT''
      else if e = ErrPaymentNoBalance then conflict ''NO_OUTSTANDING_BALANCE''
      else if e = ErrPaymentOrderCancelled then conflict ''ORDER_CANCELLED''
      else if e = ErrPaymentNotVoidable then conflict ''PAYMENT_NOT_VOIDABLE''
      else if e = ErrPaymentRefundsUnsupported then conflict ''REFUND_POLICY_REQUIRED''
      else if e = ErrPaymentIdempotencyConflict then conflict ''IDEMPOTENCY_CONFLICT''
      else Internal)"

record voidPaymentRequest =
  vq_Reason :: "string option"

definition PaymentHandler_Void ::
  "Principal option \<Rightarrow> client \<Rightarrow> string \<Rightarrow> string \<Rightarrow> voidPaymentRequest body \<Rightarrow> (http_error, PaymentVoidResult) m" where
  "PaymentHandler_Void who c rawOrder rawPayment body = with_principal who (\<lambda>p. with_id rawOrder (\<lambda>orderID.
     with_id rawPayment (\<lambda>paymentID. with_required ''INVALID_PAYMENT_VOID'' body vq_Reason (\<lambda>req reason.
     on_err paymentError (PaymentCatalog_Void (orderActor p c) orderID paymentID reason)))))"

definition PaymentHandler_List ::
  "Principal option \<Rightarrow> client \<Rightarrow> string \<Rightarrow> string \<Rightarrow> string \<Rightarrow> (http_error, PaymentListResult \<times> pageInfo) m" where
  "PaymentHandler_List who c rawOrder rawPage rawSize = with_principal who (\<lambda>p. with_id rawOrder (\<lambda>orderID.
     with_page rawPage rawSize (\<lambda>(page, pageSize, offset).
     tbind (on_err paymentError (PaymentCatalog_List (orderActor p c) orderID offset pageSize)) (\<lambda>result.
     ret (result, pageInfo_of page pageSize (pl_TotalItems result))))))"

section \<open>What the handlers rely on\<close>

lemma orderHasOutlet_iff [simp]: "orderHasOutlet xs i \<longleftrightarrow> i \<in> set xs"
  by (induction xs) auto

lemma with_request_Inr [run_inv]:
  "with_input input f w = (Inr x, w') \<longleftrightarrow> (\<exists>v. input = Some v \<and> f v w = (Inr x, w'))"
  "with_required code body field g w = (Inr y, w') \<longleftrightarrow>
     (\<exists>req v. decodeManagementJSON body = Inr req \<and> field req = Some v \<and> g req v w = (Inr y, w'))"
  by (auto simp: with_input_def with_required_def with_Inr fail_run split: option.splits)

end
