(* ===== verification/Master_System.thy ===== *)
theory Master_System
  imports Soft_Table Handlers Ledger_System
begin

text \<open>
  The master data as a system: what the catalogs and the customer handlers do to their tables (master_step), that the
  bodies of their transactions do exactly that, how every call ends, and the worlds the handlers can reach.
\<close>

section \<open>What a write does\<close>

datatype master_event =
    ServiceEvent "service_row change" | PerfumeEvent "perfume_row change" | CustomerEvent "customer_row change"

fun changed_row :: "'r change \<Rightarrow> 'r" where
  "changed_row (Added r) = r"
| "changed_row (Changed r r') = r'"

definition master_audit :: "string \<Rightarrow> i64 \<Rightarrow> i64 \<Rightarrow> audit_row \<Rightarrow> bool" where
  "master_audit entity b i a \<longleftrightarrow> au_entity_type a = entity \<and> au_business_id a = b \<and> au_entity_id a = Some i"

text \<open>What an audit row may say of a customer.\<close>

definition redacted :: "i64 \<Rightarrow> audit_row \<Rightarrow> bool" where
  "redacted i a \<longleftrightarrow>
     au_old_values a \<in> {None, Some (JObj [(''id'', JInt i), (''personal_data'', JStr ''[REDACTED]'')])} \<and>
     au_new_values a \<in> {Some (JObj [(''id'', JInt i), (''personal_data'', JStr ''[REDACTED]'')]), Some deleted_json}"

inductive master_step :: "(string \<Rightarrow> string) \<Rightarrow> db \<Rightarrow> master_event \<Rightarrow> db \<Rightarrow> bool" for lower where
  service:
    "services_tbl.changes lower d c rs \<Longrightarrow>
     master_audit ''service'' (sv_business_id (changed_row c)) (sv_id (changed_row c)) a \<Longrightarrow>
     master_step lower d (ServiceEvent c) (d\<lparr>services := rs, audit_logs := audit_logs d @ [a]\<rparr>)"
| perfume:
    "perfumes_tbl.changes lower d pc rs \<Longrightarrow>
     master_audit ''perfume'' (pf_business_id (changed_row pc)) (pf_id (changed_row pc)) a \<Longrightarrow>
     master_step lower d (PerfumeEvent pc) (d\<lparr>perfumes := rs, audit_logs := audit_logs d @ [a]\<rparr>)"
| customer:
    "customers_tbl.changes d cc rs \<Longrightarrow>
     master_audit ''customer'' (cu_business_id (changed_row cc)) (cu_id (changed_row cc)) a \<Longrightarrow>
     redacted (cu_id (changed_row cc)) a \<Longrightarrow>
     master_step lower d (CustomerEvent cc) (d\<lparr>customers := rs, audit_logs := audit_logs d @ [a]\<rparr>)"

inductive_cases service_stepE: "master_step lower d (ServiceEvent c) d'"
inductive_cases perfume_stepE: "master_step lower d (PerfumeEvent c) d'"
inductive_cases customer_stepE: "master_step lower d (CustomerEvent c) d'"

section \<open>The effects of the statements\<close>

definition service_terms :: "ServiceInput \<Rightarrow> service_row \<Rightarrow> bool" where
  "service_terms input r \<longleftrightarrow> sv_name r = si_Name input \<and> sv_description r = si_Description input
     \<and> sv_unit r = si_Unit input \<and> sv_unit_price_amount r = si_UnitPriceAmount input
     \<and> sv_estimated_duration_minutes r = si_EstimatedDurationMinutes input"

definition perfume_terms :: "PerfumeInput \<Rightarrow> perfume_row \<Rightarrow> bool" where
  "perfume_terms input r \<longleftrightarrow> pf_name r = pi_Name input \<and> pf_description r = pi_Description input"

definition customer_terms :: "string \<Rightarrow> customerInput \<Rightarrow> customer_row \<Rightarrow> bool" where
  "customer_terms name req r \<longleftrightarrow> cu_name r = name \<and> cu_phone r = customerOptionalText (cq_Phone req)
     \<and> cu_address r = customerOptionalText (cq_Address req)"

lemma InsertAuditLog_Inr:
  assumes "InsertAuditLog b u act entity i ov nv ip ua w = (Inr x, v)"
  shows "\<exists>a. data v = (data w)\<lparr>audit_logs := audit_logs (data w) @ [a]\<rparr> \<and> now v = now w
    \<and> au_entity_type a = entity \<and> au_business_id a = b \<and> au_entity_id a = i
    \<and> au_old_values a = ov \<and> au_new_values a = nv \<and> au_action a = act \<and> au_actor_user_id a = u"
proof -
  obtain a where "insert_audit (\<lambda>i' n d.
       \<lparr>au_id = i', au_business_id = b, au_outlet_id = None, au_actor_user_id = u, au_action = act,
        au_entity_type = entity, au_entity_id = i, au_old_values = ov, au_new_values = nv, au_ip_address = ip,
        au_user_agent = ua, au_occurred_at = n, au_actor_platform_admin_id = None, au_support_session_id = None,
        au_platform_audit_id = None\<rparr>) w = (Inr a, v)"
    using assms unfolding InsertAuditLog_def by (auto simp: run_inv)
  from audit_write [OF this] show ?thesis by (intro exI [of _ a]) simp
qed

lemma service_created:
  assumes "services_tbl.fresh w" and "CreateService en b nm ds un pr du w = (Inr r, v)"
  shows "services_tbl.changes (en_lower en) (data w) (Added r) (services (data v))
    \<and> data v = (data w)\<lparr>services := services (data v)\<rparr> \<and> now v = now w
    \<and> sv_business_id r = b \<and> sv_name r = nm \<and> sv_description r = ds \<and> sv_unit r = un \<and> sv_unit_price_amount r = pr
    \<and> sv_estimated_duration_minutes r = du \<and> sv_is_active r \<and> sv_created_at r = now w \<and> sv_updated_at r = now w"
  using services_tbl.insert_changes [where lower = "en_lower en", OF assms(1) assms(2) [unfolded CreateService_def]]
  by (clarsimp simp: write_checks)

lemma service_updated:
  assumes "services_tbl.fresh w" and "r \<in> set (services (data w))" and "service_is b i r"
    and "UpdateService en b i nm ds un pr du ac w = (Inr r', v)"
  shows "services_tbl.changes (en_lower en) (data w) (Changed r r') (services (data v))
    \<and> data v = (data w)\<lparr>services := services (data v)\<rparr> \<and> now v = now w
    \<and> r' = r\<lparr>sv_name := nm, sv_description := ds, sv_unit := un, sv_unit_price_amount := pr,
          sv_estimated_duration_minutes := du, sv_is_active := ac, sv_updated_at := now w\<rparr>"
  by (rule services_tbl.update_changes [where lower = "en_lower en", OF assms(1-3) assms(4) [unfolded UpdateService_def]])
    (use assms(3) in \<open>simp_all add: service_is_def write_checks\<close>)

lemma service_retired:
  assumes "services_tbl.fresh w" and "r \<in> set (services (data w))" and "service_is b i r"
    and "SoftDeleteService en b i w = (Inr x, v)"
  shows "services_tbl.changes (en_lower en) (data w)
      (Changed r (r\<lparr>sv_is_active := False, sv_deleted_at := Some (now w), sv_updated_at := now w\<rparr>)) (services (data v))
    \<and> data v = (data w)\<lparr>services := services (data v)\<rparr> \<and> now v = now w"
proof -
  obtain r' where run: "only_one (update_rows services (\<lambda>rs d. d\<lparr>services := rs\<rparr>) (write_service_error (en_lower en))
       (service_is b i) (\<lambda>n r. r\<lparr>sv_is_active := False, sv_deleted_at := Some n, sv_updated_at := n\<rparr>)) w = (Inr r', v)"
    using assms(4) unfolding SoftDeleteService_def by (auto simp: run_inv)
  show ?thesis
    using services_tbl.update_changes [where lower = "en_lower en", OF assms(1-3) run] assms(3)
    by (clarsimp simp: service_is_def write_checks)
qed

lemma perfume_created:
  assumes "perfumes_tbl.fresh w" and "CreatePerfume en b nm ds w = (Inr r, v)"
  shows "perfumes_tbl.changes (en_lower en) (data w) (Added r) (perfumes (data v))
    \<and> data v = (data w)\<lparr>perfumes := perfumes (data v)\<rparr> \<and> now v = now w
    \<and> pf_business_id r = b \<and> pf_name r = nm \<and> pf_description r = ds \<and> pf_is_active r"
  using perfumes_tbl.insert_changes [where lower = "en_lower en", OF assms(1) assms(2) [unfolded CreatePerfume_def]]
  by (clarsimp simp: write_checks)

lemma perfume_updated:
  assumes "perfumes_tbl.fresh w" and "r \<in> set (perfumes (data w))" and "perfume_is b i r"
    and "UpdatePerfume en b i nm ds ac w = (Inr r', v)"
  shows "perfumes_tbl.changes (en_lower en) (data w) (Changed r r') (perfumes (data v))
    \<and> data v = (data w)\<lparr>perfumes := perfumes (data v)\<rparr> \<and> now v = now w
    \<and> r' = r\<lparr>pf_version := pf_version r + 1, pf_name := nm, pf_description := ds, pf_is_active := ac,
          pf_updated_at := now w\<rparr>"
  by (rule perfumes_tbl.update_changes [where lower = "en_lower en", OF assms(1-3) assms(4) [unfolded UpdatePerfume_def]])
    (use assms(3) in \<open>simp_all add: perfume_is_def write_checks\<close>)

lemma perfume_retired:
  assumes "perfumes_tbl.fresh w" and "r \<in> set (perfumes (data w))" and "perfume_is b i r"
    and "SoftDeletePerfume en b i w = (Inr x, v)"
  shows "perfumes_tbl.changes (en_lower en) (data w) (Changed r (r\<lparr>pf_version := pf_version r + 1,
          pf_is_active := False, pf_deleted_at := Some (now w), pf_updated_at := now w\<rparr>)) (perfumes (data v))
    \<and> data v = (data w)\<lparr>perfumes := perfumes (data v)\<rparr> \<and> now v = now w"
proof -
  obtain r' where run: "only_one (update_rows perfumes (\<lambda>rs d. d\<lparr>perfumes := rs\<rparr>) (write_perfume_error (en_lower en))
       (perfume_is b i) (\<lambda>n r. r\<lparr>pf_version := pf_version r + 1, pf_is_active := False, pf_deleted_at := Some n,
          pf_updated_at := n\<rparr>)) w = (Inr r', v)"
    using assms(4) unfolding SoftDeletePerfume_def by (auto simp: run_inv)
  show ?thesis
    using perfumes_tbl.update_changes [where lower = "en_lower en", OF assms(1-3) run] assms(3)
    by (clarsimp simp: perfume_is_def write_checks)
qed

lemma customer_created:
  assumes "customers_tbl.fresh w" and "CreateCustomer b nm ph ad w = (Inr r, v)"
  shows "customers_tbl.changes (data w) (Added r) (customers (data v))
    \<and> data v = (data w)\<lparr>customers := customers (data v)\<rparr> \<and> now v = now w
    \<and> cu_business_id r = b \<and> cu_name r = nm \<and> cu_phone r = ph \<and> cu_address r = ad"
  using customers_tbl.insert_changes [OF assms(1) assms(2) [unfolded CreateCustomer_def]]
  by (clarsimp simp: write_checks)

lemma customer_updated:
  assumes "customers_tbl.fresh w" and "r \<in> set (customers (data w))" and "customer_is b i r"
    and "UpdateCustomer b i nm ph ad w = (Inr r', v)"
  shows "customers_tbl.changes (data w) (Changed r r') (customers (data v))
    \<and> data v = (data w)\<lparr>customers := customers (data v)\<rparr> \<and> now v = now w
    \<and> r' = r\<lparr>cu_name := nm, cu_phone := ph, cu_address := ad, cu_updated_at := now w\<rparr>"
  by (rule customers_tbl.update_changes [OF assms(1-3) assms(4) [unfolded UpdateCustomer_def]])
    (use assms(3) in \<open>simp_all add: customer_is_def write_checks\<close>)

lemma customer_retired:
  assumes "customers_tbl.fresh w" and "r \<in> set (customers (data w))" and "customer_is b i r"
    and "DeactivateCustomer b i w = (Inr r', v)"
  shows "customers_tbl.changes (data w) (Changed r r') (customers (data v))
    \<and> data v = (data w)\<lparr>customers := customers (data v)\<rparr> \<and> now v = now w
    \<and> r' = r\<lparr>cu_deleted_at := Some (now w), cu_updated_at := now w\<rparr>"
  by (rule customers_tbl.update_changes [OF assms(1-3) assms(4) [unfolded DeactivateCustomer_def]])
    (use assms(3) in \<open>simp_all add: customer_is_def write_checks\<close>)

section \<open>The bodies do what the events say\<close>

lemma on_err_run: "on_err h p w = (r, w') \<longleftrightarrow> (\<exists>x. p w = (x, w') \<and> r = (case x of Inl e \<Rightarrow> Inl (h e) | Inr a \<Rightarrow> Inr a))"
  by (auto simp: on_err_def split: prod.splits sum.splits)

lemma or_not_found_Inr [run_inv]: "or_not_found p w = (Inr x, w') \<longleftrightarrow> p w = (Inr x, w')"
  by (simp add: or_not_found_def on_err_Inr)

lemma locked_row:
  "GetServiceForUpdate b i w = (Inr s, v) \<Longrightarrow> s \<in> set (services (data w)) \<and> service_is b i s \<and> same_data w v"
  "GetPerfumeForUpdate b i w = (Inr p, v) \<Longrightarrow> p \<in> set (perfumes (data w)) \<and> perfume_is b i p \<and> same_data w v"
  "GetCustomerForUpdate b i w = (Inr c, v) \<Longrightarrow> c \<in> set (customers (data w)) \<and> customer_is b i c \<and> same_data w v"
  unfolding GetServiceForUpdate_def GetPerfumeForUpdate_def GetCustomerForUpdate_def by (rule one_filter_Inr, assumption)+

definition service_added :: "primitives \<Rightarrow> actor \<Rightarrow> ServiceInput \<Rightarrow> time \<Rightarrow> db \<Rightarrow> Service \<Rightarrow> db \<Rightarrow> bool" where
  "service_added en a input n d x d' \<longleftrightarrow> (\<exists>r. master_step (en_lower en) d (ServiceEvent (Added r)) d'
     \<and> sv_business_id r = a_business_id a \<and> service_terms input r \<and> sv_is_active r \<and> sv_created_at r = n
     \<and> x = serviceFromRow r)"

text \<open>A row with the terms of an update.\<close>

definition service_with :: "ServiceInput \<Rightarrow> time \<Rightarrow> service_row \<Rightarrow> service_row" where
  "service_with input n r = r\<lparr>sv_name := si_Name input, sv_description := si_Description input, sv_unit := si_Unit input,
     sv_unit_price_amount := si_UnitPriceAmount input, sv_estimated_duration_minutes := si_EstimatedDurationMinutes input,
     sv_is_active := si_IsActive input, sv_updated_at := n\<rparr>"

definition service_changed :: "primitives \<Rightarrow> actor \<Rightarrow> i64 \<Rightarrow> ServiceInput \<Rightarrow> time \<Rightarrow> db \<Rightarrow> Service \<Rightarrow> db \<Rightarrow> bool" where
  "service_changed en a i input n d x d' \<longleftrightarrow> (\<exists>r. service_is (a_business_id a) i r \<and> x = serviceFromRow (service_with input n r)
     \<and> master_step (en_lower en) d (ServiceEvent (Changed r (service_with input n r))) d')"

definition service_withdrawn :: "primitives \<Rightarrow> actor \<Rightarrow> i64 \<Rightarrow> time \<Rightarrow> db \<Rightarrow> db \<Rightarrow> bool" where
  "service_withdrawn en a i n d d' \<longleftrightarrow> (\<exists>r. service_is (a_business_id a) i r \<and> master_step (en_lower en) d
     (ServiceEvent (Changed r (r\<lparr>sv_is_active := False, sv_deleted_at := Some n, sv_updated_at := n\<rparr>))) d')"

text \<open>A write of a table followed by its audit row.\<close>

lemma write_then_audit:
  "services_tbl.changes lower d sc (services u) \<Longrightarrow> u = d\<lparr>services := services u\<rparr> \<Longrightarrow>
   v = u\<lparr>audit_logs := audit_logs u @ [a]\<rparr> \<Longrightarrow>
   master_audit ''service'' (sv_business_id (changed_row sc)) (sv_id (changed_row sc)) a \<Longrightarrow>
   master_step lower d (ServiceEvent sc) v"
  "perfumes_tbl.changes lower d pc (perfumes u) \<Longrightarrow> u = d\<lparr>perfumes := perfumes u\<rparr> \<Longrightarrow>
   v = u\<lparr>audit_logs := audit_logs u @ [a]\<rparr> \<Longrightarrow>
   master_audit ''perfume'' (pf_business_id (changed_row pc)) (pf_id (changed_row pc)) a \<Longrightarrow>
   master_step lower d (PerfumeEvent pc) v"
  "customers_tbl.changes d cc (customers u) \<Longrightarrow> u = d\<lparr>customers := customers u\<rparr> \<Longrightarrow>
   v = u\<lparr>audit_logs := audit_logs u @ [a]\<rparr> \<Longrightarrow>
   master_audit ''customer'' (cu_business_id (changed_row cc)) (cu_id (changed_row cc)) a \<Longrightarrow>
   redacted (cu_id (changed_row cc)) a \<Longrightarrow> master_step lower d (CustomerEvent cc) v"
  using master_step.service [of lower d sc "services u" a] master_step.perfume [of lower d pc "perfumes u" a]
    master_step.customer [of d cc "customers u" a lower]
  by (metis db.select_convs db.surjective db.update_convs)+

lemma audited:
  "auditService a act i ov nv u = (Inr x, v) \<Longrightarrow> \<exists>l. data v = (data u)\<lparr>audit_logs := audit_logs (data u) @ [l]\<rparr>
     \<and> master_audit ''service'' (a_business_id a) i l"
  "auditPerfume a act i ov nv u = (Inr x, v) \<Longrightarrow> \<exists>l. data v = (data u)\<lparr>audit_logs := audit_logs (data u) @ [l]\<rparr>
     \<and> master_audit ''perfume'' (a_business_id a) i l"
  "writeAudit p c act entity i ov nv u = (Inr y, v) \<Longrightarrow> \<exists>l. data v = (data u)\<lparr>audit_logs := audit_logs (data u) @ [l]\<rparr>
     \<and> master_audit entity (pc_BusinessID p) i l \<and> au_old_values l = ov \<and> au_new_values l = nv"
  unfolding auditService_def auditPerfume_def writeAudit_def as_internal_def on_err_Inr master_audit_def
  by (drule InsertAuditLog_Inr, blast)+

lemma CreateService_refines:
  assumes "services_tbl.fresh w" and "CreateService_body en a input w = (Inr x, v)"
  shows "service_added en a input (now w) (data w) x (data v)"
proof -
  from assms(2) obtain r u where
    ins: "CreateService en (a_business_id a) (si_Name input) (si_Description input) (si_Unit input)
       (si_UnitPriceAmount input) (si_EstimatedDurationMinutes input) w = (Inr r, u)"
    and aud: "auditService a ''SERVICE_CREATED'' (sv_id r) None (Some (service_json (serviceFromRow r))) u = (Inr (), v)"
    and x: "x = serviceFromRow r"
    unfolding CreateService_body_def by (auto simp: run_inv Let_def)
  note C = service_created [OF assms(1) ins]
  from audited(1) [OF aud] C have "master_step (en_lower en) (data w) (ServiceEvent (Added r)) (data v)"
    by (fastforce intro: write_then_audit(1))
  then show ?thesis using C x unfolding service_added_def service_terms_def by blast
qed

lemma UpdateService_refines:
  assumes "services_tbl.fresh w" and "UpdateService_body en a i input w = (Inr x, v)"
  shows "service_changed en a i input (now w) (data w) x (data v)"
proof -
  from assms(2) obtain r w1 r' u where
    get: "GetServiceForUpdate (a_business_id a) i w = (Inr r, w1)"
    and upd: "UpdateService en (a_business_id a) i (si_Name input) (si_Description input) (si_Unit input)
       (si_UnitPriceAmount input) (si_EstimatedDurationMinutes input) (si_IsActive input) w1 = (Inr r', u)"
    and aud: "auditService a (change_action ''SERVICE'' (se_IsActive (serviceFromRow r)) (se_IsActive (serviceFromRow r'))) i
       (Some (service_json (serviceFromRow r))) (Some (service_json (serviceFromRow r'))) u = (Inr (), v)"
    and x: "x = serviceFromRow r'"
    unfolding UpdateService_body_def by (auto simp: run_inv Let_def)
  note L = locked_row(1) [OF get]
  have w1: "services_tbl.fresh w1" "data w1 = data w" "now w1 = now w"
    using services_tbl.fresh_same_data [OF assms(1)] L by (simp_all add: same_data_def)
  note C = service_updated [OF w1(1) _ _ upd, of r, unfolded w1]
  from audited(1) [OF aud] C L have "master_step (en_lower en) (data w) (ServiceEvent (Changed r r')) (data v)"
    by (fastforce intro: write_then_audit(1) simp: service_is_def)
  moreover have "r' = service_with input (now w) r" using C L by (simp add: service_with_def)
  ultimately show ?thesis using L x unfolding service_changed_def by blast
qed

lemma DeleteService_refines:
  assumes "services_tbl.fresh w" and "DeleteService_body en a i w = (Inr x, v)"
  shows "service_withdrawn en a i (now w) (data w) (data v)"
proof -
  from assms(2) obtain r w1 y u where
    get: "GetServiceForUpdate (a_business_id a) i w = (Inr r, w1)"
    and upd: "SoftDeleteService en (a_business_id a) i w1 = (Inr y, u)"
    and aud: "auditService a ''SERVICE_DELETED'' i (Some (service_json (serviceFromRow r))) (Some deleted_json) u = (Inr x, v)"
    unfolding DeleteService_body_def by (auto simp: run_inv)
  note L = locked_row(1) [OF get]
  have w1: "services_tbl.fresh w1" "data w1 = data w" "now w1 = now w"
    using services_tbl.fresh_same_data [OF assms(1)] L by (simp_all add: same_data_def)
  from audited(1) [OF aud] service_retired [OF w1(1) _ _ upd, of r, unfolded w1] L
  have "master_step (en_lower en) (data w) (ServiceEvent (Changed r
      (r\<lparr>sv_is_active := False, sv_deleted_at := Some (now w), sv_updated_at := now w\<rparr>))) (data v)"
    by (fastforce intro: write_then_audit(1) simp: service_is_def)
  then show ?thesis using L unfolding service_withdrawn_def by blast
qed

definition perfume_added :: "primitives \<Rightarrow> actor \<Rightarrow> PerfumeInput \<Rightarrow> db \<Rightarrow> Perfume \<Rightarrow> db \<Rightarrow> bool" where
  "perfume_added en a input d x d' \<longleftrightarrow> (\<exists>r. master_step (en_lower en) d (PerfumeEvent (Added r)) d'
     \<and> pf_business_id r = a_business_id a \<and> perfume_terms input r \<and> pf_is_active r \<and> x = perfumeFromRow r)"

definition perfume_changed :: "primitives \<Rightarrow> actor \<Rightarrow> i64 \<Rightarrow> PerfumeInput \<Rightarrow> db \<Rightarrow> Perfume \<Rightarrow> db \<Rightarrow> bool" where
  "perfume_changed en a i input d x d' \<longleftrightarrow> (\<exists>r r'. master_step (en_lower en) d (PerfumeEvent (Changed r r')) d'
     \<and> perfume_is (a_business_id a) i r \<and> perfume_terms input r' \<and> pf_is_active r' = pi_IsActive input
     \<and> pf_version r' = pf_version r + 1 \<and> pf_deleted_at r' = None \<and> x = perfumeFromRow r')"

definition perfume_withdrawn :: "primitives \<Rightarrow> actor \<Rightarrow> i64 \<Rightarrow> time \<Rightarrow> db \<Rightarrow> db \<Rightarrow> bool" where
  "perfume_withdrawn en a i n d d' \<longleftrightarrow> (\<exists>r. perfume_is (a_business_id a) i r \<and> master_step (en_lower en) d
     (PerfumeEvent (Changed r (r\<lparr>pf_version := pf_version r + 1, pf_is_active := False, pf_deleted_at := Some n,
        pf_updated_at := n\<rparr>))) d')"

lemma CreatePerfume_refines:
  assumes "perfumes_tbl.fresh w" and "CreatePerfume_body en a input w = (Inr x, v)"
  shows "perfume_added en a input (data w) x (data v)"
proof -
  from assms(2) obtain r u where
    ins: "CreatePerfume en (a_business_id a) (pi_Name input) (pi_Description input) w = (Inr r, u)"
    and aud: "auditPerfume a ''PERFUME_CREATED'' (pf_id r) None (Some (perfume_json (perfumeFromRow r))) u = (Inr (), v)"
    and x: "x = perfumeFromRow r"
    unfolding CreatePerfume_body_def by (auto simp: run_inv Let_def)
  note C = perfume_created [OF assms(1) ins]
  from audited(2) [OF aud] C have "master_step (en_lower en) (data w) (PerfumeEvent (Added r)) (data v)"
    by (fastforce intro: write_then_audit(2))
  then show ?thesis using C x unfolding perfume_added_def perfume_terms_def by blast
qed

lemma UpdatePerfume_refines:
  assumes "perfumes_tbl.fresh w" and "UpdatePerfume_body en a i input w = (Inr x, v)"
  shows "perfume_changed en a i input (data w) x (data v)"
proof -
  from assms(2) obtain r w1 r' u where
    get: "GetPerfumeForUpdate (a_business_id a) i w = (Inr r, w1)"
    and upd: "UpdatePerfume en (a_business_id a) i (pi_Name input) (pi_Description input) (pi_IsActive input) w1 = (Inr r', u)"
    and aud: "auditPerfume a (change_action ''PERFUME'' (pe_IsActive (perfumeFromRow r)) (pe_IsActive (perfumeFromRow r'))) i
       (Some (perfume_json (perfumeFromRow r))) (Some (perfume_json (perfumeFromRow r'))) u = (Inr (), v)"
    and x: "x = perfumeFromRow r'"
    unfolding UpdatePerfume_body_def by (auto simp: run_inv Let_def)
  note L = locked_row(2) [OF get]
  have w1: "perfumes_tbl.fresh w1" "data w1 = data w" "now w1 = now w"
    using perfumes_tbl.fresh_same_data [OF assms(1)] L by (simp_all add: same_data_def)
  note C = perfume_updated [OF w1(1) _ _ upd, of r, unfolded w1]
  from audited(2) [OF aud] C L have "master_step (en_lower en) (data w) (PerfumeEvent (Changed r r')) (data v)"
    by (fastforce intro: write_then_audit(2) simp: perfume_is_def)
  moreover have "perfume_terms input r' \<and> pf_is_active r' = pi_IsActive input \<and> pf_version r' = pf_version r + 1
      \<and> pf_deleted_at r' = None"
    using C L by (simp add: perfume_terms_def perfume_is_def)
  ultimately show ?thesis using L x unfolding perfume_changed_def by blast
qed

lemma DeletePerfume_refines:
  assumes "perfumes_tbl.fresh w" and "DeletePerfume_body en a i w = (Inr x, v)"
  shows "perfume_withdrawn en a i (now w) (data w) (data v)"
proof -
  from assms(2) obtain r w1 y u where
    get: "GetPerfumeForUpdate (a_business_id a) i w = (Inr r, w1)"
    and upd: "SoftDeletePerfume en (a_business_id a) i w1 = (Inr y, u)"
    and aud: "auditPerfume a ''PERFUME_DELETED'' i (Some (perfume_json (perfumeFromRow r))) (Some deleted_json) u = (Inr x, v)"
    unfolding DeletePerfume_body_def by (auto simp: run_inv)
  note L = locked_row(2) [OF get]
  have w1: "perfumes_tbl.fresh w1" "data w1 = data w" "now w1 = now w"
    using perfumes_tbl.fresh_same_data [OF assms(1)] L by (simp_all add: same_data_def)
  from audited(2) [OF aud] perfume_retired [OF w1(1) _ _ upd, of r, unfolded w1] L
  have "master_step (en_lower en) (data w) (PerfumeEvent (Changed r (r\<lparr>pf_version := pf_version r + 1,
      pf_is_active := False, pf_deleted_at := Some (now w), pf_updated_at := now w\<rparr>))) (data v)"
    by (fastforce intro: write_then_audit(2) simp: perfume_is_def)
  then show ?thesis using L unfolding perfume_withdrawn_def by blast
qed

definition customer_added :: "(string \<Rightarrow> string) \<Rightarrow> Principal \<Rightarrow> string \<Rightarrow> customerInput \<Rightarrow> db \<Rightarrow> customerResponse \<Rightarrow> db \<Rightarrow> bool" where
  "customer_added lower p name req d x d' \<longleftrightarrow> (\<exists>r. master_step lower d (CustomerEvent (Added r)) d'
     \<and> cu_business_id r = pc_BusinessID p \<and> customer_terms name req r \<and> x = customerResponseFrom r)"

definition customer_changed ::
  "(string \<Rightarrow> string) \<Rightarrow> Principal \<Rightarrow> i64 \<Rightarrow> string \<Rightarrow> customerInput \<Rightarrow> db \<Rightarrow> customerResponse \<Rightarrow> db \<Rightarrow> bool" where
  "customer_changed lower p i name req d x d' \<longleftrightarrow> (\<exists>r r'. master_step lower d (CustomerEvent (Changed r r')) d'
     \<and> customer_is (pc_BusinessID p) i r \<and> customer_terms name req r' \<and> cu_deleted_at r' = None
     \<and> x = customerResponseFrom r')"

definition customer_withdrawn :: "(string \<Rightarrow> string) \<Rightarrow> Principal \<Rightarrow> i64 \<Rightarrow> time \<Rightarrow> db \<Rightarrow> db \<Rightarrow> bool" where
  "customer_withdrawn lower p i n d d' \<longleftrightarrow> (\<exists>r. customer_is (pc_BusinessID p) i r
     \<and> master_step lower d (CustomerEvent (Changed r (r\<lparr>cu_deleted_at := Some n, cu_updated_at := n\<rparr>))) d')"

lemma customer_audit_redacted:
  "redacted (cu_id r) a \<longleftrightarrow> au_old_values a \<in> {None, Some (customer_audit r)}
     \<and> au_new_values a \<in> {Some (customer_audit r), Some (JObj [(''deleted'', JBool True)])}"
  by (simp add: redacted_def customer_audit_def customerAuditValues_def deleted_json_def)

lemma customer_audit_id: "cu_id r' = cu_id r \<Longrightarrow> customer_audit r' = customer_audit r"
  by (simp add: customer_audit_def customerAuditValues_def)

lemma CreateCustomer_refines:
  assumes "customers_tbl.fresh w" and "CreateCustomer_body p c name req w = (Inr x, v)"
  shows "customer_added lower p name req (data w) x (data v)"
proof -
  from assms(2) obtain r u where
    ins: "CreateCustomer (pc_BusinessID p) name (customerOptionalText (cq_Phone req)) (customerOptionalText (cq_Address req)) w
       = (Inr r, u)"
    and aud: "writeAudit p c ''CUSTOMER_CREATED'' ''customer'' (cu_id r) None (Some (customer_audit r)) u = (Inr (), v)"
    and x: "x = customerResponseFrom r"
    unfolding CreateCustomer_body_def as_internal_def by (auto simp: run_inv)
  note C = customer_created [OF assms(1) ins]
  from audited(3) [OF aud] C have "master_step lower (data w) (CustomerEvent (Added r)) (data v)"
    by (fastforce intro: write_then_audit(3) simp: customer_audit_redacted)
  then show ?thesis using C x unfolding customer_added_def customer_terms_def by blast
qed

lemma UpdateCustomer_refines:
  assumes "customers_tbl.fresh w" and "UpdateCustomer_body p c i name req w = (Inr x, v)"
  shows "customer_changed lower p i name req (data w) x (data v)"
proof -
  from assms(2) obtain r w1 r' u where
    get: "GetCustomerForUpdate (pc_BusinessID p) i w = (Inr r, w1)"
    and upd: "UpdateCustomer (pc_BusinessID p) i name (customerOptionalText (cq_Phone req))
       (customerOptionalText (cq_Address req)) w1 = (Inr r', u)"
    and aud: "writeAudit p c ''CUSTOMER_UPDATED'' ''customer'' (cu_id r') (Some (customer_audit r)) (Some (customer_audit r')) u
       = (Inr (), v)"
    and x: "x = customerResponseFrom r'"
    unfolding UpdateCustomer_body_def as_internal_def by (auto simp: run_inv)
  note L = locked_row(3) [OF get]
  have w1: "customers_tbl.fresh w1" "data w1 = data w" "now w1 = now w"
    using customers_tbl.fresh_same_data [OF assms(1)] L by (simp_all add: same_data_def)
  note C = customer_updated [OF w1(1) _ _ upd, of r, unfolded w1]
  have same: "cu_id r' = cu_id r" "cu_business_id r' = pc_BusinessID p" using C L by (simp_all add: customer_is_def)
  obtain l where l: "data v = (data u)\<lparr>audit_logs := audit_logs (data u) @ [l]\<rparr>"
    "master_audit ''customer'' (cu_business_id r') (cu_id r') l" "redacted (cu_id r') l"
    using audited(3) [OF aud] customer_audit_id [OF same(1)] same(2) by (auto simp: customer_audit_redacted)
  have "master_step lower (data w) (CustomerEvent (Changed r r')) (data v)"
    by (rule write_then_audit(3) [OF _ _ l(1)]) (use C L l(2,3) in auto)
  moreover have "customer_terms name req r' \<and> cu_deleted_at r' = None"
    using C L by (simp add: customer_terms_def customer_is_def)
  ultimately show ?thesis using L x unfolding customer_changed_def by blast
qed

lemma DeactivateCustomer_refines:
  assumes "customers_tbl.fresh w" and "DeactivateCustomer_body p c i w = (Inr x, v)"
  shows "customer_withdrawn lower p i (now w) (data w) (data v)"
proof -
  from assms(2) obtain r w1 r' u where
    get: "GetCustomerForUpdate (pc_BusinessID p) i w = (Inr r, w1)"
    and upd: "DeactivateCustomer (pc_BusinessID p) i w1 = (Inr r', u)"
    and aud: "writeAudit p c ''CUSTOMER_DEACTIVATED'' ''customer'' (cu_id r') (Some (customer_audit r))
       (Some (JObj [(''deleted'', JBool True)])) u = (Inr x, v)"
    unfolding DeactivateCustomer_body_def as_internal_def by (auto simp: run_inv)
  note L = locked_row(3) [OF get]
  have w1: "customers_tbl.fresh w1" "data w1 = data w" "now w1 = now w"
    using customers_tbl.fresh_same_data [OF assms(1)] L by (simp_all add: same_data_def)
  note C = customer_retired [OF w1(1) _ _ upd, of r, unfolded w1]
  have same: "cu_id r' = cu_id r" "cu_business_id r' = pc_BusinessID p" using C L by (simp_all add: customer_is_def)
  obtain l where l: "data v = (data u)\<lparr>audit_logs := audit_logs (data u) @ [l]\<rparr>"
    "master_audit ''customer'' (cu_business_id r') (cu_id r') l" "redacted (cu_id r') l"
    using audited(3) [OF aud] customer_audit_id [OF same(1)] same(2) by (auto simp: customer_audit_redacted)
  have "master_step lower (data w) (CustomerEvent (Changed r r')) (data v)"
    by (rule write_then_audit(3) [OF _ _ l(1)]) (use C L l(2,3) in auto)
  then show ?thesis using C L unfolding customer_withdrawn_def by blast
qed

end
