(* ===== verification/Master_Worlds.thy ===== *)
theory Master_Worlds
  imports Master_System
begin

text \<open>
  The worlds the master data handlers can reach, with any requests in any order and any faults of the connection: the
  transactions are instances of tx_operation with the invariant of the three tables, and leave the ledger and the
  sessions untouched.
\<close>

section \<open>Keys and sequences\<close>

definition world_fresh :: "world \<Rightarrow> bool" where
  "world_fresh w \<longleftrightarrow> all_fresh w \<and> master_fresh w"

lemma world_freshD:
  assumes "world_fresh w"
  shows "all_fresh w" "services_tbl.fresh w" "perfumes_tbl.fresh w" "customers_tbl.fresh w"
  using assms by (simp_all add: world_fresh_def master_fresh_def)

lemma stable_world_fresh [simp]: "stable world_fresh"
  using stable_all_fresh stable_master_fresh unfolding stable_def world_fresh_def by blast

lemma all_fresh_frame:
  assumes "all_fresh w" and "orders (data u) = orders (data w)" "order_items (data u) = order_items (data w)"
    "order_status_history (data u) = order_status_history (data w)" "payments (data u) = payments (data w)"
    "audit_logs (data u) = audit_logs (data w)" "session_families (data u) = session_families (data w)"
    "refresh_tokens (data u) = refresh_tokens (data w)" and "\<And>t. seqs w t \<le> seqs u t"
  shows "all_fresh u"
  using assms unfolding all_fresh_def
  by (auto intro: orders_tbl.fresh_frame items_tbl.fresh_frame history_tbl.fresh_frame payments_tbl.fresh_frame
      audit_tbl.fresh_frame families_tbl.fresh_frame tokens_tbl.fresh_frame)

lemma world_fresh_seqs:
  "world_fresh w \<Longrightarrow> data u = data w \<Longrightarrow> (\<And>t. seqs w t \<le> seqs u t) \<Longrightarrow> world_fresh u"
  unfolding world_fresh_def using all_fresh_frame [of w u] master_fresh_seqs [of w u] by simp

lemma insert_service_fresh:
  assumes "\<And>i n d. sv_id (mk i n d) = i"
  shows "keeps world_fresh (insert_serial TServices services (\<lambda>rs d. d\<lparr>services := rs\<rparr>) chk mk)"
proof (rule keepsI)
  fix w r w'
  assume F: "world_fresh w" and run: "insert_serial TServices services (\<lambda>rs d. d\<lparr>services := rs\<rparr>) chk mk w = (r, w')"
  have "services_tbl.fresh w'"
    by (rule keepsD [OF services_tbl.insert_keeps [OF assms] world_freshD(2) [OF F] run])
  then show "world_fresh w'"
    using F insert_frame [OF run] unfolding world_fresh_def master_fresh_def
    by (auto intro: all_fresh_frame perfumes_tbl.fresh_frame customers_tbl.fresh_frame)
qed

lemma insert_perfume_fresh:
  assumes "\<And>i n d. pf_id (mk i n d) = i"
  shows "keeps world_fresh (insert_serial TPerfumes perfumes (\<lambda>rs d. d\<lparr>perfumes := rs\<rparr>) chk mk)"
proof (rule keepsI)
  fix w r w'
  assume F: "world_fresh w" and run: "insert_serial TPerfumes perfumes (\<lambda>rs d. d\<lparr>perfumes := rs\<rparr>) chk mk w = (r, w')"
  have "perfumes_tbl.fresh w'"
    by (rule keepsD [OF perfumes_tbl.insert_keeps [OF assms] world_freshD(3) [OF F] run])
  then show "world_fresh w'"
    using F insert_frame [OF run] unfolding world_fresh_def master_fresh_def
    by (auto intro: all_fresh_frame services_tbl.fresh_frame customers_tbl.fresh_frame)
qed

lemma insert_customer_fresh:
  assumes "\<And>i n d. cu_id (mk i n d) = i"
  shows "keeps world_fresh (insert_serial TCustomers customers (\<lambda>rs d. d\<lparr>customers := rs\<rparr>) chk mk)"
proof (rule keepsI)
  fix w r w'
  assume F: "world_fresh w" and run: "insert_serial TCustomers customers (\<lambda>rs d. d\<lparr>customers := rs\<rparr>) chk mk w = (r, w')"
  have "customers_tbl.fresh w'"
    by (rule keepsD [OF customers_tbl.insert_keeps [OF assms] world_freshD(4) [OF F] run])
  then show "world_fresh w'"
    using F insert_frame [OF run] unfolding world_fresh_def master_fresh_def
    by (auto intro: all_fresh_frame services_tbl.fresh_frame perfumes_tbl.fresh_frame)
qed

lemma update_service_fresh:
  assumes "\<And>n r. sv_id (upd n r) = sv_id r"
  shows "keeps world_fresh (update_rows services (\<lambda>rs d. d\<lparr>services := rs\<rparr>) chk p upd)"
proof (rule keepsI)
  fix w r w'
  assume F: "world_fresh w" and run: "update_rows services (\<lambda>rs d. d\<lparr>services := rs\<rparr>) chk p upd w = (r, w')"
  have "services_tbl.fresh w'"
    by (rule keepsD [OF services_tbl.update_keeps [OF assms] world_freshD(2) [OF F] run])
  then show "world_fresh w'"
    using F update_frame [OF run] unfolding world_fresh_def master_fresh_def
    by (auto intro: all_fresh_frame perfumes_tbl.fresh_frame customers_tbl.fresh_frame)
qed

lemma update_perfume_fresh:
  assumes "\<And>n r. pf_id (upd n r) = pf_id r"
  shows "keeps world_fresh (update_rows perfumes (\<lambda>rs d. d\<lparr>perfumes := rs\<rparr>) chk p upd)"
proof (rule keepsI)
  fix w r w'
  assume F: "world_fresh w" and run: "update_rows perfumes (\<lambda>rs d. d\<lparr>perfumes := rs\<rparr>) chk p upd w = (r, w')"
  have "perfumes_tbl.fresh w'"
    by (rule keepsD [OF perfumes_tbl.update_keeps [OF assms] world_freshD(3) [OF F] run])
  then show "world_fresh w'"
    using F update_frame [OF run] unfolding world_fresh_def master_fresh_def
    by (auto intro: all_fresh_frame services_tbl.fresh_frame customers_tbl.fresh_frame)
qed

lemma update_customer_fresh:
  assumes "\<And>n r. cu_id (upd n r) = cu_id r"
  shows "keeps world_fresh (update_rows customers (\<lambda>rs d. d\<lparr>customers := rs\<rparr>) chk p upd)"
proof (rule keepsI)
  fix w r w'
  assume F: "world_fresh w" and run: "update_rows customers (\<lambda>rs d. d\<lparr>customers := rs\<rparr>) chk p upd w = (r, w')"
  have "customers_tbl.fresh w'"
    by (rule keepsD [OF customers_tbl.update_keeps [OF assms] world_freshD(4) [OF F] run])
  then show "world_fresh w'"
    using F update_frame [OF run] unfolding world_fresh_def master_fresh_def
    by (auto intro: all_fresh_frame services_tbl.fresh_frame perfumes_tbl.fresh_frame)
qed

lemma audit_fresh:
  assumes "\<And>i n d. au_id (mk i n d) = i"
  shows "keeps world_fresh (insert_audit mk)"
  unfolding insert_audit_def
proof (rule keepsI)
  fix w r w'
  assume F: "world_fresh w"
    and run: "insert_serial TAudit audit_logs (\<lambda>rs d. d\<lparr>audit_logs := rs\<rparr>) insert_audit_error mk w = (r, w')"
  have "all_fresh w'" by (rule keepsD [OF insert_audit_fresh [OF assms] world_freshD(1) [OF F] run])
  moreover have "master_fresh w'"
    using F insert_frame [OF run] unfolding world_fresh_def by (auto intro: master_fresh_seqs)
  ultimately show "world_fresh w'" by (simp add: world_fresh_def)
qed

lemma master_writes_fresh [keeps_intro]:
  "keeps world_fresh (CreateService en b nm ds un pr du)" "keeps world_fresh (UpdateService en b i nm ds un pr du ac)"
  "keeps world_fresh (SoftDeleteService en b i)" "keeps world_fresh (CreatePerfume en b nm ds)"
  "keeps world_fresh (UpdatePerfume en b i nm ds ac)" "keeps world_fresh (SoftDeletePerfume en b i)"
  "keeps world_fresh (CreateCustomer b nm ph ad)" "keeps world_fresh (UpdateCustomer b i nm ph ad)"
  "keeps world_fresh (DeactivateCustomer b i)" "keeps world_fresh (InsertAuditLog b uo act et eo ov nv ip ua)"
  unfolding CreateService_def UpdateService_def SoftDeleteService_def CreatePerfume_def UpdatePerfume_def
    SoftDeletePerfume_def CreateCustomer_def UpdateCustomer_def DeactivateCustomer_def InsertAuditLog_def
  by (intro keeps_intro insert_service_fresh update_service_fresh insert_perfume_fresh update_perfume_fresh
      insert_customer_fresh update_customer_fresh audit_fresh; simp)+

lemma master_locks_fresh [keeps_intro]:
  "keeps world_fresh (GetServiceForUpdate b i)" "keeps world_fresh (GetPerfumeForUpdate b i)"
  "keeps world_fresh (GetCustomerForUpdate b i)"
  by (rule keeps_reads [OF stable_world_fresh], rule master_queries_read)+

lemma master_bodies_fresh:
  "keeps world_fresh (CreateService_body en a si)" "keeps world_fresh (UpdateService_body en a i si)"
  "keeps world_fresh (DeleteService_body en a i)" "keeps world_fresh (CreatePerfume_body en a pi)"
  "keeps world_fresh (UpdatePerfume_body en a i pi)" "keeps world_fresh (DeletePerfume_body en a i)"
  "keeps world_fresh (CreateCustomer_body p c nm req)" "keeps world_fresh (UpdateCustomer_body p c i nm req)"
  "keeps world_fresh (DeactivateCustomer_body p c i)"
  unfolding CreateService_body_def UpdateService_body_def DeleteService_body_def CreatePerfume_body_def
    UpdatePerfume_body_def DeletePerfume_body_def CreateCustomer_body_def UpdateCustomer_body_def
    DeactivateCustomer_body_def auditService_def auditPerfume_def writeAudit_def as_internal_def or_not_found_def
  by (intro keeps_intro)+

lemma master_bodies_grow [grows_intro]:
  "grows (CreateService_body en a si)" "grows (UpdateService_body en a i si)" "grows (DeleteService_body en a i)"
  "grows (CreatePerfume_body en a pi)" "grows (UpdatePerfume_body en a i pi)" "grows (DeletePerfume_body en a i)"
  "grows (CreateCustomer_body p c nm req)" "grows (UpdateCustomer_body p c i nm req)" "grows (DeactivateCustomer_body p c i)"
  unfolding CreateService_body_def UpdateService_body_def DeleteService_body_def CreatePerfume_body_def
    UpdatePerfume_body_def DeletePerfume_body_def CreateCustomer_body_def UpdateCustomer_body_def
    DeactivateCustomer_body_def auditService_def auditPerfume_def writeAudit_def as_internal_def or_not_found_def
  by (intro grows_intro)+

section \<open>The invariant\<close>

definition catalog_ok :: "(string \<Rightarrow> string) \<Rightarrow> db \<Rightarrow> bool" where
  "catalog_ok lower d \<longleftrightarrow> services_tbl.sound lower d \<and> perfumes_tbl.sound lower d \<and> customers_tbl.sound d"

definition catalog_sys :: "(string \<Rightarrow> string) \<Rightarrow> world \<Rightarrow> bool" where
  "catalog_sys lower w \<longleftrightarrow> world_fresh w \<and> catalog_ok lower (data w)"

lemma catalog_sysD:
  assumes "catalog_sys lower w"
  shows "services_tbl.fresh w" "perfumes_tbl.fresh w" "customers_tbl.fresh w" "world_fresh w" "catalog_ok lower (data w)"
  using assms by (simp_all add: catalog_sys_def world_freshD)

lemma catalog_ok_frame:
  "catalog_ok lower d \<Longrightarrow> services d' = services d \<Longrightarrow> perfumes d' = perfumes d \<Longrightarrow> customers d' = customers d \<Longrightarrow>
   catalog_ok lower d'"
  by (simp add: catalog_ok_def services_tbl.sound_def perfumes_tbl.sound_def customers_tbl.sound_def)

lemma catalog_sys_seqs:
  "catalog_sys lower w \<Longrightarrow> data u = data w \<Longrightarrow> (\<And>t. seqs w t \<le> seqs u t) \<Longrightarrow> catalog_sys lower u"
  unfolding catalog_sys_def using world_fresh_seqs [of w u] by simp

lemma catalog_sys_same: "same_data w u \<Longrightarrow> catalog_sys lower w \<Longrightarrow> catalog_sys lower u"
  using catalog_sys_seqs [of lower w u] by (simp add: same_data_def)

lemma step_catalog_ok:
  assumes "master_step lower (data w) e d'" and sys: "catalog_sys lower w"
  shows "catalog_ok lower d'"
  using assms(1)
proof cases
  case (service c rs a)
  then show ?thesis
    using services_tbl.changes_sound [where lower = lower, OF service(3)] services_tbl.fresh_distinct [OF catalog_sysD(1) [OF sys]]
      catalog_sysD(5) [OF sys]
    by (simp add: catalog_ok_def services_tbl.sound_def perfumes_tbl.sound_def customers_tbl.sound_def)
next
  case (perfume c rs a)
  then show ?thesis
    using perfumes_tbl.changes_sound [where lower = lower, OF perfume(3)] perfumes_tbl.fresh_distinct [OF catalog_sysD(2) [OF sys]]
      catalog_sysD(5) [OF sys]
    by (simp add: catalog_ok_def services_tbl.sound_def perfumes_tbl.sound_def customers_tbl.sound_def)
next
  case (customer c rs a)
  then show ?thesis
    using customers_tbl.changes_sound [OF customer(3)] customers_tbl.fresh_distinct [OF catalog_sysD(3) [OF sys]]
      catalog_sysD(5) [OF sys]
    by (simp add: catalog_ok_def services_tbl.sound_def perfumes_tbl.sound_def customers_tbl.sound_def)
qed

lemma stepping_body:
  assumes "keeps world_fresh body" and "catalog_sys lower w" and "body w = (Inr x, v)"
    and "\<exists>e. master_step lower (data w) e (data v)"
  shows "catalog_sys lower v"
  using keepsD [OF assms(1) catalog_sysD(4) [OF assms(2)] assms(3)] step_catalog_ok assms(2,4)
  unfolding catalog_sys_def [of lower v] by blast

text \<open>What the bodies do is a step.\<close>

lemma outcome_steps:
  "service_added en a si n d x d' \<Longrightarrow> \<exists>e. master_step (en_lower en) d e d'"
  "service_changed en a i si n d x d' \<Longrightarrow> \<exists>e. master_step (en_lower en) d e d'"
  "service_withdrawn en a i n d d' \<Longrightarrow> \<exists>e. master_step (en_lower en) d e d'"
  "perfume_added en a pi d y d' \<Longrightarrow> \<exists>e. master_step (en_lower en) d e d'"
  "perfume_changed en a i pi d y d' \<Longrightarrow> \<exists>e. master_step (en_lower en) d e d'"
  "perfume_withdrawn en a i n d d' \<Longrightarrow> \<exists>e. master_step (en_lower en) d e d'"
  "customer_added lower p nm req d z d' \<Longrightarrow> \<exists>e. master_step lower d e d'"
  "customer_changed lower p i nm req d z d' \<Longrightarrow> \<exists>e. master_step lower d e d'"
  "customer_withdrawn lower p i n d d' \<Longrightarrow> \<exists>e. master_step lower d e d'"
  unfolding service_added_def service_changed_def service_withdrawn_def perfume_added_def perfume_changed_def
    perfume_withdrawn_def customer_added_def customer_changed_def customer_withdrawn_def
  by blast+

lemmas body_refines =
  CreateService_refines [OF catalog_sysD(1)] UpdateService_refines [OF catalog_sysD(1)]
  DeleteService_refines [OF catalog_sysD(1)] CreatePerfume_refines [OF catalog_sysD(2)]
  UpdatePerfume_refines [OF catalog_sysD(2)] DeletePerfume_refines [OF catalog_sysD(2)]
  CreateCustomer_refines [OF catalog_sysD(3)] UpdateCustomer_refines [OF catalog_sysD(3)]
  DeactivateCustomer_refines [OF catalog_sysD(3)]

lemmas body_keeps = master_bodies_fresh [THEN stepping_body]

lemma body_inv:
  "catalog_sys (en_lower en) w \<Longrightarrow> CreateService_body en a si w = (Inr x, v) \<Longrightarrow> catalog_sys (en_lower en) v"
  "catalog_sys (en_lower en) w \<Longrightarrow> UpdateService_body en a i si w = (Inr x, v) \<Longrightarrow> catalog_sys (en_lower en) v"
  "catalog_sys (en_lower en) w \<Longrightarrow> DeleteService_body en a i w = (Inr u, v) \<Longrightarrow> catalog_sys (en_lower en) v"
  "catalog_sys (en_lower en) w \<Longrightarrow> CreatePerfume_body en a pi w = (Inr y, v) \<Longrightarrow> catalog_sys (en_lower en) v"
  "catalog_sys (en_lower en) w \<Longrightarrow> UpdatePerfume_body en a i pi w = (Inr y, v) \<Longrightarrow> catalog_sys (en_lower en) v"
  "catalog_sys (en_lower en) w \<Longrightarrow> DeletePerfume_body en a i w = (Inr u, v) \<Longrightarrow> catalog_sys (en_lower en) v"
  "catalog_sys lower w \<Longrightarrow> CreateCustomer_body p c nm req w = (Inr z, v) \<Longrightarrow> catalog_sys lower v"
  "catalog_sys lower w \<Longrightarrow> UpdateCustomer_body p c i nm req w = (Inr z, v) \<Longrightarrow> catalog_sys lower v"
  "catalog_sys lower w \<Longrightarrow> DeactivateCustomer_body p c i w = (Inr u, v) \<Longrightarrow> catalog_sys lower v"
  subgoal by (blast intro: body_keeps(1) outcome_steps(1) body_refines(1))
  subgoal by (blast intro: body_keeps(2) outcome_steps(2) body_refines(2))
  subgoal by (blast intro: body_keeps(3) outcome_steps(3) body_refines(3))
  subgoal by (blast intro: body_keeps(4) outcome_steps(4) body_refines(4))
  subgoal by (blast intro: body_keeps(5) outcome_steps(5) body_refines(5))
  subgoal by (blast intro: body_keeps(6) outcome_steps(6) body_refines(6))
  subgoal by (blast intro: body_keeps(7) outcome_steps(7) body_refines(7))
  subgoal by (blast intro: body_keeps(8) outcome_steps(8) body_refines(8))
  subgoal by (blast intro: body_keeps(9) outcome_steps(9) body_refines(9))
  done

interpretation create_service: tx_operation "Sql ConnErr" "CreateService_body en a input" "catalog_sys (en_lower en)"
  for en :: primitives and a :: actor and input :: ServiceInput
  by unfold_locales (auto intro: grows_intro body_inv(1) catalog_sys_seqs)

interpretation update_service: tx_operation "Sql ConnErr" "UpdateService_body en a i input" "catalog_sys (en_lower en)"
  for en :: primitives and a :: actor and i :: i64 and input :: ServiceInput
  by unfold_locales (auto intro: grows_intro body_inv(2) catalog_sys_seqs)

interpretation delete_service: tx_operation "Sql ConnErr" "DeleteService_body en a i" "catalog_sys (en_lower en)"
  for en :: primitives and a :: actor and i :: i64
  by unfold_locales (auto intro: grows_intro body_inv(3) catalog_sys_seqs)

interpretation create_perfume: tx_operation "Sql ConnErr" "CreatePerfume_body en a input" "catalog_sys (en_lower en)"
  for en :: primitives and a :: actor and input :: PerfumeInput
  by unfold_locales (auto intro: grows_intro body_inv(4) catalog_sys_seqs)

interpretation update_perfume: tx_operation "Sql ConnErr" "UpdatePerfume_body en a i input" "catalog_sys (en_lower en)"
  for en :: primitives and a :: actor and i :: i64 and input :: PerfumeInput
  by unfold_locales (auto intro: grows_intro body_inv(5) catalog_sys_seqs)

interpretation delete_perfume: tx_operation "Sql ConnErr" "DeletePerfume_body en a i" "catalog_sys (en_lower en)"
  for en :: primitives and a :: actor and i :: i64
  by unfold_locales (auto intro: grows_intro body_inv(6) catalog_sys_seqs)

interpretation create_customer: tx_operation Internal "CreateCustomer_body p c name req" "catalog_sys lower"
  for p :: Principal and c :: client and name :: string and req :: customerInput and lower :: "string \<Rightarrow> string"
  by unfold_locales (auto intro: grows_intro body_inv(7) catalog_sys_seqs)

interpretation update_customer: tx_operation Internal "UpdateCustomer_body p c i name req" "catalog_sys lower"
  for p :: Principal and c :: client and i :: i64 and name :: string and req :: customerInput and lower :: "string \<Rightarrow> string"
  by unfold_locales (auto intro: grows_intro body_inv(8) catalog_sys_seqs)

interpretation deactivate_customer: tx_operation Internal "DeactivateCustomer_body p c i" "catalog_sys lower"
  for p :: Principal and c :: client and i :: i64 and lower :: "string \<Rightarrow> string"
  by unfold_locales (auto intro: grows_intro body_inv(9) catalog_sys_seqs)

section \<open>How a call ends\<close>

text \<open>Nothing was written and the reply is an error.\<close>

definition refused :: "world \<Rightarrow> 'e + 'a \<Rightarrow> world \<Rightarrow> bool" where
  "refused w res w' \<longleftrightarrow> data w' = data w \<and> (\<forall>x. res \<noteq> Inr x)"

lemma refused_on_err: "refused w res w' \<Longrightarrow> refused w (case res of Inl e \<Rightarrow> Inl (h e) | Inr x \<Rightarrow> Inr x) w'"
  by (auto simp: refused_def split: sum.splits)

lemma refused_fail [simp]: "fail e w = (res, w') \<Longrightarrow> refused w res w'"
  by (simp add: refused_def fail_run)

lemma parsed_or_refused:
  "with_principal who f w = (r, w') \<Longrightarrow> refused w r w' \<or> (\<exists>p. who = Some p \<and> f p w = (r, w'))"
  "with_id raw g w = (r, w') \<Longrightarrow> refused w r w' \<or> (\<exists>i. pathID raw = Some i \<and> g i w = (r, w'))"
  "with_body code body h w = (r, w') \<Longrightarrow> refused w r w' \<or> (\<exists>q. decodeManagementJSON body = Inr q \<and> h q w = (r, w'))"
  "with_input inp k w = (r, w') \<Longrightarrow> refused w r w' \<or> (\<exists>v. inp = Some v \<and> k v w = (r, w'))"
  by (auto simp: with_principal_def with_id_def with_body_def with_input_def split: option.splits sum.splits)

lemma transaction_ends:
  assumes "catalog_sys lower w" and "with_tx conn body w = (res, w')"
    and refines: "\<And>u x v. catalog_sys lower u \<Longrightarrow> body u = (Inr x, v) \<Longrightarrow> P (now u) (data u) x (data v)"
  shows "refused w res w' \<or> (\<exists>x. P (now w) (data w) x (data w') \<and> (res = Inr x \<or> res = Inl conn))"
  using with_tx_ends [OF assms(2)]
proof
  assume "\<exists>u x v. same_data w u \<and> body u = (Inr x, v) \<and> same_data v w' \<and> (res = Inr x \<or> res = Inl conn)"
  then obtain u x v where e: "same_data w u" "body u = (Inr x, v)" "same_data v w'" "res = Inr x \<or> res = Inl conn" by blast
  from refines [OF catalog_sys_same [OF e(1) assms(1)] e(2)] e have "P (now w) (data w) x (data w')"
    by (simp add: same_data_def)
  with e(4) show ?thesis by blast
qed (simp add: refused_def)

text \<open>The same with the error translated by the handler.\<close>

lemma translated_ends:
  assumes "catalog_sys lower w" and "on_err h (with_tx conn body) w = (res, w')"
    and "\<And>u x v. catalog_sys lower u \<Longrightarrow> body u = (Inr x, v) \<Longrightarrow> P (now u) (data u) x (data v)"
  shows "refused w res w' \<or> (\<exists>x. P (now w) (data w) x (data w') \<and> (res = Inr x \<or> res = Inl (h conn)))"
proof -
  from assms(2) obtain r where r: "with_tx conn body w = (r, w')"
    "res = (case r of Inl e \<Rightarrow> Inl (h e) | Inr x \<Rightarrow> Inr x)" by (auto simp: on_err_run)
  from transaction_ends [OF assms(1) r(1), of P] assms(3) show ?thesis
    using refused_on_err [of w r w' h] r(2) by auto
qed

lemma ServiceHandler_Create_ends:
  assumes "catalog_sys (en_lower en) w" and "ServiceHandler_Create en who c body w = (res, w')"
    and no: "\<not> refused w res w'"
  shows "\<exists>p req input input' x. who = Some p \<and> decodeManagementJSON body = Inr req
    \<and> service_input req False = Some input \<and> validateServiceInput input = Inr input'
    \<and> service_added en (serviceActor p c) input' (now w) (data w) x (data w') \<and> (res = Inr x \<or> res = Inl Internal)"
proof -
  obtain p req input where parsed: "who = Some p" "decodeManagementJSON body = Inr req" "service_input req False = Some input"
    and run: "on_err serviceError (ServiceCatalog_Create en (serviceActor p c) input) w = (res, w')"
    using assms(2) no unfolding ServiceHandler_Create_def by (blast dest!: parsed_or_refused)
  then obtain input' where v: "validateServiceInput input = Inr input'"
    using no by (cases "validateServiceInput input") (auto simp: ServiceCatalog_Create_def on_err_run refused_def fail_run)
  from translated_ends [OF assms(1) run [unfolded ServiceCatalog_Create_def v sum.case], where
      P = "service_added en (serviceActor p c) input'"] body_refines(1) no parsed v
  show ?thesis
    by (fastforce simp: serviceError_def)
qed

lemma ServiceHandler_Update_ends:
  assumes "catalog_sys (en_lower en) w" and "ServiceHandler_Update en who c raw body w = (res, w')"
    and no: "\<not> refused w res w'"
  shows "\<exists>p i req input input' x. who = Some p \<and> pathID raw = Some i
    \<and> decodeManagementJSON body = Inr req \<and> service_input req True = Some input \<and> validateServiceInput input = Inr input'
    \<and> service_changed en (serviceActor p c) i input' (now w) (data w) x (data w') \<and> (res = Inr x \<or> res = Inl Internal)"
proof -
  obtain p i req input where parsed: "who = Some p" "pathID raw = Some i" "decodeManagementJSON body = Inr req"
      "service_input req True = Some input"
    and run: "on_err serviceError (ServiceCatalog_Update en (serviceActor p c) i input) w = (res, w')"
    using assms(2) no unfolding ServiceHandler_Update_def by (blast dest!: parsed_or_refused)
  then obtain input' where v: "validateServiceInput input = Inr input'"
    using no by (cases "validateServiceInput input") (auto simp: ServiceCatalog_Update_def on_err_run refused_def fail_run)
  from translated_ends [OF assms(1) run [unfolded ServiceCatalog_Update_def v sum.case], where
      P = "service_changed en (serviceActor p c) i input'"] body_refines(2) no parsed v
  show ?thesis
    by (fastforce simp: serviceError_def)
qed

lemma ServiceHandler_Delete_ends:
  assumes "catalog_sys (en_lower en) w" and "ServiceHandler_Delete en who c raw w = (res, w')"
    and no: "\<not> refused w res w'"
  shows "\<exists>p i. who = Some p \<and> pathID raw = Some i
    \<and> service_withdrawn en (serviceActor p c) i (now w) (data w) (data w') \<and> (res = Inr () \<or> res = Inl Internal)"
proof -
  obtain p i where parsed: "who = Some p" "pathID raw = Some i"
    and run: "on_err serviceError (ServiceCatalog_Delete en (serviceActor p c) i) w = (res, w')"
    using assms(2) no unfolding ServiceHandler_Delete_def by (blast dest!: parsed_or_refused)
  from translated_ends [OF assms(1) run [unfolded ServiceCatalog_Delete_def], where
      P = "\<lambda>n d x d'. service_withdrawn en (serviceActor p c) i n d d'"] body_refines(3) no parsed
  show ?thesis
    by (auto simp: serviceError_def)
qed

lemma PerfumeHandler_Create_ends:
  assumes "catalog_sys (en_lower en) w" and "PerfumeHandler_Create en who c body w = (res, w')"
    and no: "\<not> refused w res w'"
  shows "\<exists>p req input input' x. who = Some p \<and> decodeManagementJSON body = Inr req
    \<and> perfume_input req False = Some input \<and> normalizePerfume input = Inr input'
    \<and> perfume_added en (perfumeActor p c) input' (data w) x (data w') \<and> (res = Inr x \<or> res = Inl Internal)"
proof -
  obtain p req input where parsed: "who = Some p" "decodeManagementJSON body = Inr req" "perfume_input req False = Some input"
    and run: "on_err perfumeError (PerfumeCatalog_Create en (perfumeActor p c) input) w = (res, w')"
    using assms(2) no unfolding PerfumeHandler_Create_def by (blast dest!: parsed_or_refused)
  then obtain input' where v: "normalizePerfume input = Inr input'"
    using no by (cases "normalizePerfume input") (auto simp: PerfumeCatalog_Create_def on_err_run refused_def fail_run)
  from translated_ends [OF assms(1) run [unfolded PerfumeCatalog_Create_def v sum.case], where
      P = "\<lambda>n. perfume_added en (perfumeActor p c) input'"] body_refines(4) no parsed v
  show ?thesis
    by (fastforce simp: perfumeError_def)
qed

lemma PerfumeHandler_Update_ends:
  assumes "catalog_sys (en_lower en) w" and "PerfumeHandler_Update en who c raw body w = (res, w')"
    and no: "\<not> refused w res w'"
  shows "\<exists>p i req input input' x. who = Some p \<and> pathID raw = Some i
    \<and> decodeManagementJSON body = Inr req \<and> perfume_input req True = Some input \<and> normalizePerfume input = Inr input'
    \<and> perfume_changed en (perfumeActor p c) i input' (data w) x (data w') \<and> (res = Inr x \<or> res = Inl Internal)"
proof -
  obtain p i req input where parsed: "who = Some p" "pathID raw = Some i" "decodeManagementJSON body = Inr req"
      "perfume_input req True = Some input"
    and run: "on_err perfumeError (PerfumeCatalog_Update en (perfumeActor p c) i input) w = (res, w')"
    using assms(2) no unfolding PerfumeHandler_Update_def by (blast dest!: parsed_or_refused)
  then obtain input' where v: "normalizePerfume input = Inr input'"
    using no by (cases "normalizePerfume input") (auto simp: PerfumeCatalog_Update_def on_err_run refused_def fail_run)
  from translated_ends [OF assms(1) run [unfolded PerfumeCatalog_Update_def v sum.case], where
      P = "\<lambda>n. perfume_changed en (perfumeActor p c) i input'"] body_refines(5) no parsed v
  show ?thesis
    by (fastforce simp: perfumeError_def)
qed

lemma PerfumeHandler_Delete_ends:
  assumes "catalog_sys (en_lower en) w" and "PerfumeHandler_Delete en who c raw w = (res, w')"
    and no: "\<not> refused w res w'"
  shows "\<exists>p i. who = Some p \<and> pathID raw = Some i
    \<and> perfume_withdrawn en (perfumeActor p c) i (now w) (data w) (data w') \<and> (res = Inr () \<or> res = Inl Internal)"
proof -
  obtain p i where parsed: "who = Some p" "pathID raw = Some i"
    and run: "on_err perfumeError (PerfumeCatalog_Delete en (perfumeActor p c) i) w = (res, w')"
    using assms(2) no unfolding PerfumeHandler_Delete_def by (blast dest!: parsed_or_refused)
  from translated_ends [OF assms(1) run [unfolded PerfumeCatalog_Delete_def], where
      P = "\<lambda>n d x d'. perfume_withdrawn en (perfumeActor p c) i n d d'"] body_refines(6) no parsed
  show ?thesis
    by (auto simp: perfumeError_def)
qed

lemma CustomerHandler_Create_ends:
  assumes "catalog_sys lower w" and "CustomerHandler_Create who c body w = (res, w')"
    and no: "\<not> refused w res w'"
  shows "\<exists>p req x. who = Some p \<and> decodeManagementJSON body = Inr req \<and> trim_space (cq_Name req) \<noteq> []
    \<and> customer_added lower p (trim_space (cq_Name req)) req (data w) x (data w') \<and> (res = Inr x \<or> res = Inl Internal)"
proof -
  obtain p req where parsed: "who = Some p" "decodeManagementJSON body = Inr req"
    and run: "(let name = trim_space (cq_Name req) in if name = [] then fail (BadRequest ''INVALID_REQUEST'')
       else with_tx Internal (CreateCustomer_body p c name req)) w = (res, w')"
    using assms(2) no unfolding CustomerHandler_Create_def by (blast dest!: parsed_or_refused)
  then have n: "trim_space (cq_Name req) \<noteq> []" using no by (auto simp: Let_def)
  with run have tx: "with_tx Internal (CreateCustomer_body p c (trim_space (cq_Name req)) req) w = (res, w')"
    by (simp add: Let_def)
  from transaction_ends [OF assms(1) tx, where P = "\<lambda>n. customer_added lower p (trim_space (cq_Name req)) req"]
    body_refines(7) no parsed n
  show ?thesis by fastforce
qed

lemma CustomerHandler_Update_ends:
  assumes "catalog_sys lower w" and "CustomerHandler_Update who c raw body w = (res, w')"
    and no: "\<not> refused w res w'"
  shows "\<exists>p i req x. who = Some p \<and> pathID raw = Some i \<and> decodeManagementJSON body = Inr req
    \<and> trim_space (cq_Name req) \<noteq> []
    \<and> customer_changed lower p i (trim_space (cq_Name req)) req (data w) x (data w') \<and> (res = Inr x \<or> res = Inl Internal)"
proof -
  obtain p i req where parsed: "who = Some p" "pathID raw = Some i" "decodeManagementJSON body = Inr req"
    and run: "(let name = trim_space (cq_Name req) in if name = [] then fail (BadRequest ''INVALID_REQUEST'')
       else with_tx Internal (UpdateCustomer_body p c i name req)) w = (res, w')"
    using assms(2) no unfolding CustomerHandler_Update_def by (blast dest!: parsed_or_refused)
  then have n: "trim_space (cq_Name req) \<noteq> []" using no by (auto simp: Let_def)
  with run have tx: "with_tx Internal (UpdateCustomer_body p c i (trim_space (cq_Name req)) req) w = (res, w')"
    by (simp add: Let_def)
  from transaction_ends [OF assms(1) tx, where P = "\<lambda>n. customer_changed lower p i (trim_space (cq_Name req)) req"]
    body_refines(8) no parsed n
  show ?thesis by fastforce
qed

lemma CustomerHandler_Deactivate_ends:
  assumes "catalog_sys lower w" and "CustomerHandler_Deactivate who c raw w = (res, w')"
    and no: "\<not> refused w res w'"
  shows "\<exists>p i. who = Some p \<and> pathID raw = Some i
    \<and> customer_withdrawn lower p i (now w) (data w) (data w') \<and> (res = Inr () \<or> res = Inl Internal)"
proof -
  obtain p i where parsed: "who = Some p" "pathID raw = Some i"
    and tx: "with_tx Internal (DeactivateCustomer_body p c i) w = (res, w')"
    using assms(2) no unfolding CustomerHandler_Deactivate_def by (blast dest!: parsed_or_refused)
  from transaction_ends [OF assms(1) tx, where P = "\<lambda>n d x d'. customer_withdrawn lower p i n d d'"] body_refines(9) no parsed
  show ?thesis by auto
qed

section \<open>Reachable worlds\<close>

text \<open>The writing handlers of the master data.\<close>

inductive master_call :: "primitives \<Rightarrow> world \<Rightarrow> world \<Rightarrow> bool" for en where
  service_create: "ServiceHandler_Create en who c sb w = (sr, w') \<Longrightarrow> master_call en w w'"
| service_update: "ServiceHandler_Update en who c raw sb w = (sr, w') \<Longrightarrow> master_call en w w'"
| service_delete: "ServiceHandler_Delete en who c raw w = (ur, w') \<Longrightarrow> master_call en w w'"
| perfume_create: "PerfumeHandler_Create en who c pb w = (pr, w') \<Longrightarrow> master_call en w w'"
| perfume_update: "PerfumeHandler_Update en who c raw pb w = (pr, w') \<Longrightarrow> master_call en w w'"
| perfume_delete: "PerfumeHandler_Delete en who c raw w = (ur, w') \<Longrightarrow> master_call en w w'"
| customer_create: "CustomerHandler_Create who c cb w = (cr, w') \<Longrightarrow> master_call en w w'"
| customer_update: "CustomerHandler_Update who c raw cb w = (cr, w') \<Longrightarrow> master_call en w w'"
| customer_deactivate: "CustomerHandler_Deactivate who c raw w = (ur, w') \<Longrightarrow> master_call en w w'"

lemma refused_orI: "(\<not> refused w r w' \<Longrightarrow> Q) \<Longrightarrow> data w' = data w \<or> Q"
  by (auto simp: refused_def)

text \<open>A call does nothing or one event.\<close>

lemma call_steps:
  assumes "master_call en w w'" and "catalog_sys (en_lower en) w"
  shows "data w' = data w \<or> (\<exists>e. master_step (en_lower en) (data w) e (data w'))"
  using assms(1)
proof cases
  case (service_create who c sb sr)
  show ?thesis by (rule refused_orI) (blast dest: ServiceHandler_Create_ends [OF assms(2) service_create] outcome_steps(1))
next
  case (service_update who c raw sb sr)
  show ?thesis by (rule refused_orI) (blast dest: ServiceHandler_Update_ends [OF assms(2) service_update] outcome_steps(2))
next
  case (service_delete who c raw ur)
  show ?thesis by (rule refused_orI) (blast dest: ServiceHandler_Delete_ends [OF assms(2) service_delete] outcome_steps(3))
next
  case (perfume_create who c pb pr)
  show ?thesis by (rule refused_orI) (blast dest: PerfumeHandler_Create_ends [OF assms(2) perfume_create] outcome_steps(4))
next
  case (perfume_update who c raw pb pr)
  show ?thesis by (rule refused_orI) (blast dest: PerfumeHandler_Update_ends [OF assms(2) perfume_update] outcome_steps(5))
next
  case (perfume_delete who c raw ur)
  show ?thesis by (rule refused_orI) (blast dest: PerfumeHandler_Delete_ends [OF assms(2) perfume_delete] outcome_steps(6))
next
  case (customer_create who c cb cr)
  show ?thesis by (rule refused_orI) (blast dest: CustomerHandler_Create_ends [OF assms(2) customer_create] outcome_steps(7))
next
  case (customer_update who c raw cb cr)
  show ?thesis by (rule refused_orI) (blast dest: CustomerHandler_Update_ends [OF assms(2) customer_update] outcome_steps(8))
next
  case (customer_deactivate who c raw ur)
  show ?thesis by (rule refused_orI) (blast dest: CustomerHandler_Deactivate_ends [OF assms(2) customer_deactivate] outcome_steps(9))
qed

text \<open>Every call keeps the invariant, whatever it returns.\<close>

lemma keeps_parsed [keeps_intro]:
  "(\<And>p. keeps I (f p)) \<Longrightarrow> keeps I (with_principal who f)" "(\<And>i. keeps I (g i)) \<Longrightarrow> keeps I (with_id raw g)"
  "(\<And>q. keeps I (h q)) \<Longrightarrow> keeps I (with_body code body h)" "(\<And>v. keeps I (k v)) \<Longrightarrow> keeps I (with_input inp k)"
  by (auto simp: with_principal_def with_id_def with_body_def with_input_def intro: keeps_fail split: option.splits sum.splits)

lemma master_transactions_keep [keeps_intro]:
  "keeps (catalog_sys (en_lower en)) (in_tx (CreateService_body en a si))"
  "keeps (catalog_sys (en_lower en)) (in_tx (UpdateService_body en a i si))"
  "keeps (catalog_sys (en_lower en)) (in_tx (DeleteService_body en a i))"
  "keeps (catalog_sys (en_lower en)) (in_tx (CreatePerfume_body en a pi))"
  "keeps (catalog_sys (en_lower en)) (in_tx (UpdatePerfume_body en a i pi))"
  "keeps (catalog_sys (en_lower en)) (in_tx (DeletePerfume_body en a i))"
  "keeps (catalog_sys lower) (with_tx Internal (CreateCustomer_body p c nm req))"
  "keeps (catalog_sys lower) (with_tx Internal (UpdateCustomer_body p c i nm req))"
  "keeps (catalog_sys lower) (with_tx Internal (DeactivateCustomer_body p c i))"
  by (rule keepsI, erule (1) create_service.tx_preserves update_service.tx_preserves delete_service.tx_preserves
      create_perfume.tx_preserves update_perfume.tx_preserves delete_perfume.tx_preserves
      create_customer.tx_preserves update_customer.tx_preserves deactivate_customer.tx_preserves)+

lemma master_handlers_keep:
  "keeps (catalog_sys (en_lower en)) (ServiceHandler_Create en who c sb)"
  "keeps (catalog_sys (en_lower en)) (ServiceHandler_Update en who c raw sb)"
  "keeps (catalog_sys (en_lower en)) (ServiceHandler_Delete en who c raw)"
  "keeps (catalog_sys (en_lower en)) (PerfumeHandler_Create en who c pb)"
  "keeps (catalog_sys (en_lower en)) (PerfumeHandler_Update en who c raw pb)"
  "keeps (catalog_sys (en_lower en)) (PerfumeHandler_Delete en who c raw)"
  "keeps (catalog_sys lower) (CustomerHandler_Create who c cb)"
  "keeps (catalog_sys lower) (CustomerHandler_Update who c raw cb)"
  "keeps (catalog_sys lower) (CustomerHandler_Deactivate who c raw)"
  unfolding ServiceHandler_Create_def ServiceHandler_Update_def ServiceHandler_Delete_def
    PerfumeHandler_Create_def PerfumeHandler_Update_def PerfumeHandler_Delete_def CustomerHandler_Create_def
    CustomerHandler_Update_def CustomerHandler_Deactivate_def ServiceCatalog_Create_def ServiceCatalog_Update_def
    ServiceCatalog_Delete_def PerfumeCatalog_Create_def PerfumeCatalog_Update_def PerfumeCatalog_Delete_def
  by (intro keeps_intro)+

lemma grows_parsed [grows_intro]:
  "(\<And>p. grows (f p)) \<Longrightarrow> grows (with_principal who f)" "(\<And>i. grows (g i)) \<Longrightarrow> grows (with_id raw g)"
  "(\<And>q. grows (h q)) \<Longrightarrow> grows (with_body code body h)" "(\<And>v. grows (k v)) \<Longrightarrow> grows (with_input inp k)"
  by (auto simp: with_principal_def with_id_def with_body_def with_input_def intro: grows_fail split: option.splits sum.splits)

lemma master_handlers_grow:
  "grows (ServiceHandler_Create en who c sb)" "grows (ServiceHandler_Update en who c raw sb)"
  "grows (ServiceHandler_Delete en who c raw)" "grows (PerfumeHandler_Create en who c pb)"
  "grows (PerfumeHandler_Update en who c raw pb)" "grows (PerfumeHandler_Delete en who c raw)"
  "grows (CustomerHandler_Create who c cb)" "grows (CustomerHandler_Update who c raw cb)"
  "grows (CustomerHandler_Deactivate who c raw)"
  unfolding ServiceHandler_Create_def ServiceHandler_Update_def ServiceHandler_Delete_def
    PerfumeHandler_Create_def PerfumeHandler_Update_def PerfumeHandler_Delete_def CustomerHandler_Create_def
    CustomerHandler_Update_def CustomerHandler_Deactivate_def ServiceCatalog_Create_def ServiceCatalog_Update_def
    ServiceCatalog_Delete_def PerfumeCatalog_Create_def PerfumeCatalog_Update_def PerfumeCatalog_Delete_def
  by (intro grows_intro)+

lemma call_keeps: "master_call en w w' \<Longrightarrow> catalog_sys (en_lower en) w \<Longrightarrow> catalog_sys (en_lower en) w'"
  by (induction rule: master_call.induct) (auto intro: master_handlers_keep [THEN keepsD])

lemma call_now: "master_call en w w' \<Longrightarrow> now w' = now w"
  by (induction rule: master_call.induct) (auto dest: master_handlers_grow [THEN growsD(2)])

text \<open>
  The rest of what is modelled writes other tables. The platform administration, which is not modelled and not covered here,
  also writes one of these: a support session edits the description of a perfume (platform_tenants.sql.go).
\<close>

definition master_untouched :: "db \<Rightarrow> db \<Rightarrow> bool" where
  "master_untouched d d' \<longleftrightarrow> services d' = services d \<and> perfumes d' = perfumes d \<and> customers d' = customers d"

inductive master_request :: "primitives \<Rightarrow> world \<Rightarrow> world \<Rightarrow> bool" for en where
  elsewhere: "master_untouched (data w) (data w') \<Longrightarrow> world_fresh w' \<Longrightarrow> master_request en w w'"
| call: "master_call en w w' \<Longrightarrow> master_request en w w'"

inductive master_reachable :: "primitives \<Rightarrow> world \<Rightarrow> bool" for en where
  start: "services (data w) = [] \<Longrightarrow> perfumes (data w) = [] \<Longrightarrow> customers (data w) = [] \<Longrightarrow> world_fresh w \<Longrightarrow>
    master_reachable en w"
| step: "master_reachable en w \<Longrightarrow> master_request en w w' \<Longrightarrow> master_reachable en w'"

lemma request_catalog_sys: "master_request en w w' \<Longrightarrow> catalog_sys (en_lower en) w \<Longrightarrow> catalog_sys (en_lower en) w'"
proof (induction rule: master_request.induct)
  case (elsewhere w w')
  then show ?case unfolding catalog_sys_def master_untouched_def using catalog_ok_frame by blast
qed (rule call_keeps)

lemma master_reachable_sys: "master_reachable en w \<Longrightarrow> catalog_sys (en_lower en) w"
proof (induction rule: master_reachable.induct)
  case (start w)
  then show ?case
    by (simp add: catalog_sys_def catalog_ok_def services_tbl.sound_def perfumes_tbl.sound_def customers_tbl.sound_def)
qed (rule request_catalog_sys)

text \<open>For the ledger, these calls are among the changes elsewhere: it stays reachable.\<close>

lemma step_untouched: "master_step lower d e d' \<Longrightarrow> ledger_untouched d d'"
  by (induction rule: master_step.induct) (auto simp: ledger_untouched_def)

lemma call_request:
  assumes "master_call en w w'" and "catalog_sys (en_lower en) w"
  shows "request w w'"
proof (rule request.elsewhere)
  show "ledger_untouched (data w) (data w')"
    using call_steps [OF assms] step_untouched by (auto simp: ledger_untouched_def)
  show "all_fresh w'" by (rule world_freshD(1) [OF catalog_sysD(4) [OF call_keeps [OF assms]]])
  show "now w \<le> now w'" using call_now [OF assms(1)] by simp
qed

end
