(* ===== verification/Master_Sample.thy ===== *)
theory Master_Sample
  imports Master_Worlds Session_Sample
begin

text \<open>
  A concrete run of the master data handlers: the administrator of a laundry without a catalog adds a
  service, a perfume and a customer, raises the price of the service and takes an order; or withdraws the service.
\<close>

definition bare_db :: db where
  "bare_db = sample_db\<lparr>services := [], perfumes := [], customers := []\<rparr>"

definition bare_world :: world where
  "bare_world = sample_world\<lparr>data := bare_db\<rparr>"

definition boss :: Principal where
  "boss = \<lparr>pc_UserID = 1, pc_BusinessID = 1, pc_SessionID = 1, pc_Email = ''u1'', pc_FullName = ''User'',
     pc_Role = ''ADMIN'', pc_OutletIDs = [], pc_Permissions = []\<rparr>"

definition wash_body :: "i64 \<Rightarrow> bool \<Rightarrow> serviceRequest body" where
  "wash_body price update = (Inr \<lparr>sq_Name = Some '' Wash '', sq_Description = None, sq_Unit = Some ''kg'',
     sq_UnitPriceAmount = Some price, sq_EstimatedDurationMinutes = Some 60,
     sq_IsActive = (if update then Some True else None)\<rparr>, Inl EndOfBody)"

definition rose_body :: "perfumeRequest body" where
  "rose_body = (Inr \<lparr>pq_Name = Some ''Rose'', pq_Description = Some '' '', pq_IsActive = None\<rparr>, Inl EndOfBody)"

definition siti_body :: "customerInput body" where
  "siti_body = (Inr \<lparr>cq_Name = ''Siti'', cq_Phone = Some ''0812'', cq_Address = None\<rparr>, Inl EndOfBody)"

definition world_service :: world where
  "world_service = snd (ServiceHandler_Create sample_en (Some boss) sample_client (wash_body 7000 False) bare_world)"

definition world_perfume :: world where
  "world_perfume = snd (PerfumeHandler_Create sample_en (Some boss) sample_client rose_body world_service)"

definition world_customer :: world where
  "world_customer = snd (CustomerHandler_Create (Some boss) sample_client siti_body world_service)"

definition world_raised :: world where
  "world_raised = snd (ServiceHandler_Update sample_en (Some boss) sample_client ''1'' (wash_body 8000 True) world_customer)"

definition world_withdrawn :: world where
  "world_withdrawn = snd (ServiceHandler_Delete sample_en (Some boss) sample_client ''1'' world_service)"

definition wash_row :: "i64 \<Rightarrow> service_row" where
  "wash_row price = \<lparr>sv_id = 1, sv_business_id = 1, sv_name = ''Wash'', sv_unit = ''kg'', sv_unit_price_amount = price,
     sv_estimated_duration_minutes = 60, sv_is_active = True, sv_created_at = sample_time, sv_updated_at = sample_time,
     sv_deleted_at = None, sv_description = None\<rparr>"

definition withdrawn_row :: service_row where
  "withdrawn_row = (wash_row 7000)\<lparr>sv_is_active := False, sv_deleted_at := Some sample_time\<rparr>"

section \<open>The worlds are reachable\<close>

lemma bare_reachable: "reachable bare_world" "master_reachable en bare_world"
proof -
  have f: "world_fresh bare_world"
    by (simp add: bare_world_def bare_db_def sample_defs world_fresh_def master_fresh_def services_tbl.fresh_def
        perfumes_tbl.fresh_def customers_tbl.fresh_def all_fresh_def orders_tbl.fresh_def
        items_tbl.fresh_def history_tbl.fresh_def payments_tbl.fresh_def audit_tbl.fresh_def families_tbl.fresh_def
        tokens_tbl.fresh_def)
  show "master_reachable en bare_world"
    by (rule master_reachable.start) (use f in \<open>simp_all add: bare_world_def bare_db_def\<close>)
  show "reachable bare_world"
    by (rule reachable.start)
       (use f in \<open>simp_all add: world_fresh_def bare_world_def bare_db_def sample_defs ledger_empty_def sample_time_def\<close>)
qed

lemma call_reachable:
  assumes "master_call en w w'" and "reachable w" "master_reachable en w"
  shows "reachable w'" "master_reachable en w'"
  using assms call_request master_reachable_sys reachable.step master_reachable.step master_request.call by blast+

lemma sample_calls:
  "master_call sample_en bare_world world_service" "master_call sample_en world_service world_perfume" "master_call sample_en world_service world_customer"
  "master_call sample_en world_customer world_raised" "master_call sample_en world_service world_withdrawn"
  unfolding world_service_def world_perfume_def world_customer_def world_raised_def world_withdrawn_def
  by (blast intro: master_call.intros prod.collapse [symmetric])+

lemma sample_worlds_reachable:
  "reachable world_customer" "master_reachable sample_en world_customer"
  "reachable world_raised" "master_reachable sample_en world_raised"
  "master_reachable sample_en world_perfume" "reachable world_withdrawn" "master_reachable sample_en world_withdrawn"
  using bare_reachable sample_calls call_reachable by metis+

section \<open>What happened\<close>

lemma raised:
  "ServiceHandler_Update sample_en (Some boss) sample_client ''1'' (wash_body 8000 True) world_customer
     = (Inr (serviceFromRow (wash_row 8000)), world_raised)"
proof -
  have "fst (ServiceHandler_Update sample_en (Some boss) sample_client ''1'' (wash_body 8000 True) world_customer)
     = Inr (serviceFromRow (wash_row 8000))" by code_simp
  then show ?thesis unfolding world_raised_def by (metis prod.collapse)
qed

definition rose_row :: perfume_row where
  "rose_row = \<lparr>pf_id = 1, pf_business_id = 1, pf_name = ''Rose'', pf_description = None, pf_is_active = True,
     pf_created_at = sample_time, pf_updated_at = sample_time, pf_deleted_at = None, pf_version = 1\<rparr>"

lemma perfume_tables: "services (data world_perfume) = [wash_row 7000]" "perfumes (data world_perfume) = [rose_row]"
  by code_simp+

lemma customer_tables: "services (data world_customer) = [wash_row 7000]" "length (customers (data world_customer)) = 1"
  by code_simp+

lemma raised_tables: "services (data world_raised) = [wash_row 8000]" "orders (data world_raised) = []" "faults world_raised = []"
  by code_simp+

lemma withdrawn_tables: "services (data world_withdrawn) = [withdrawn_row]" "faults world_withdrawn = []"
  by code_simp+

definition wash_order :: CreateOrderInput where
  "wash_order = \<lparr>ci_OutletID = 1, ci_CustomerID = 1, ci_PerfumeID = None, ci_DueAt = None, ci_Notes = None,
     ci_Items = [\<lparr>in_ServiceID = 1, in_Quantity = ''2.5'', in_Notes = None\<rparr>],
     ci_IdempotencyKey = ''k1'', ci_RequestHash = replicate 32 CHR ''a''\<rparr>"

text \<open>The order of two and a half kilograms, at the raised price.\<close>

lemma raised_order_fits: "order_fits world_raised admin wash_order"
  by code_simp

lemma raised_master: "master_ok (data world_raised)"
  by code_simp

lemma raised_audit: "audit_fits (data world_raised) admin 1"
  by code_simp

lemma raised_quantities: "parseMilliQuantity ''2.5'' = Inr 2500" "lineTotalFor 2500 8000 = Inr 20000"
  by code_simp+

lemma raised_priced:
  "\<exists>lines. price_lines admin 0 (ci_Items wash_order) world_raised = (Inr (lines, 20000), world_raised)"
  by (simp add: wash_order_def price_line_def GetActiveOrderService_def raised_tables wash_row_def sample_actor_def
      raised_quantities tbind_def on_err_def only_one_def select_def stmt_def ret_def go_rem_def go_quo_def is_int64_def)

lemma wash_ordered:
  "\<exists>res r xs. OrderCatalog_Create admin wash_order world_raised = (Inr res, snd (OrderCatalog_Create admin wash_order world_raised))
     \<and> places (data world_raised) admin wash_order res r xs (data (snd (OrderCatalog_Create admin wash_order world_raised)))"
proof -
  obtain lines where "price_lines admin 0 (ci_Items wash_order) world_raised = (Inr (lines, 20000), world_raised)"
    using raised_priced by blast
  moreover have "audit_fits (data world_raised) admin (ci_OutletID wash_order)"
    using raised_audit by (simp add: wash_order_def)
  ultimately show ?thesis
    using Create_succeeds [OF raised_tables(3) reachable_ok [OF sample_worlds_reachable(3)] raised_order_fits raised_master]
    by fastforce
qed

end
