(* ===== verification/Master_Properties.thy ===== *)
theory Master_Properties
  imports Master_Sample
begin

text \<open>
  The properties of the master data: what holds of the catalogs in every reachable world, what an update does, that
  what is withdrawn stays withdrawn, what an order is charged, what the audit rows say of a customer, and that
  the pages of a listing show it whole.
\<close>

section \<open>The catalogs\<close>

lemma catalog_okD:
  assumes "catalog_ok lower d"
  shows "s \<in> set (services d) \<Longrightarrow> service_check s"
    and "s \<in> set (services d) \<Longrightarrow> x \<in> set (services d) \<Longrightarrow> service_alike lower s x \<Longrightarrow> s = x"
    and "p \<in> set (perfumes d) \<Longrightarrow> perfume_check p"
    and "p \<in> set (perfumes d) \<Longrightarrow> y \<in> set (perfumes d) \<Longrightarrow> perfume_alike lower p y \<Longrightarrow> p = y"
    and "c \<in> set (customers d) \<Longrightarrow> customer_check c"
  using assms unfolding catalog_ok_def services_tbl.sound_def perfumes_tbl.sound_def customers_tbl.sound_def by blast+

text \<open>In every state the handlers can reach, every service has a name, a known unit, a price and a duration
  that are not negative, and while it is not withdrawn it is the only such service of its tenant with its unit and its name
  (as the server's lower() compares names); and likewise every perfume.\<close>

lemma catalog_names_unique:
  assumes "master_reachable en w" and "s \<in> set (services (data w))" and "p \<in> set (perfumes (data w))"
  shows "btrim (sv_name s) \<noteq> [] \<and> ValidUnit (sv_unit s) \<and> 0 \<le> sv_unit_price_amount s \<and> 0 \<le> sv_estimated_duration_minutes s
    \<and> (sv_deleted_at s = None \<longrightarrow> filter (\<lambda>x. sv_deleted_at x = None \<and> sv_business_id x = sv_business_id s
          \<and> sv_unit x = sv_unit s \<and> en_lower en (sv_name x) = en_lower en (sv_name s)) (services (data w)) = [s])
    \<and> btrim (pf_name p) \<noteq> [] \<and> 0 < pf_version p
    \<and> (pf_deleted_at p = None \<longrightarrow> filter (\<lambda>y. pf_deleted_at y = None \<and> pf_business_id y = pf_business_id p
          \<and> en_lower en (pf_name y) = en_lower en (pf_name p)) (perfumes (data w)) = [p])"
proof -
  note sys = master_reachable_sys [OF assms(1)]
  note ok = catalog_okD [OF catalog_sysD(5) [OF sys]]
  have "filter (\<lambda>x. sv_deleted_at x = None \<and> sv_business_id x = sv_business_id s
      \<and> sv_unit x = sv_unit s \<and> en_lower en (sv_name x) = en_lower en (sv_name s)) (services (data w)) = [s]"
    if "sv_deleted_at s = None"
    by (rule filter_only [OF _ assms(2)])
       (use that services_tbl.fresh_distinct [OF catalog_sysD(1) [OF sys]] ok(2) [OF assms(2)] in
         \<open>auto simp: service_alike_def distinct_map\<close>)
  moreover have "filter (\<lambda>y. pf_deleted_at y = None \<and> pf_business_id y = pf_business_id p
      \<and> en_lower en (pf_name y) = en_lower en (pf_name p)) (perfumes (data w)) = [p]"
    if "pf_deleted_at p = None"
    by (rule filter_only [OF _ assms(3)])
       (use that perfumes_tbl.fresh_distinct [OF catalog_sysD(2) [OF sys]] ok(4) [OF assms(3)] in
         \<open>auto simp: perfume_alike_def distinct_map\<close>)
  ultimately show ?thesis
    using ok(1) [OF assms(2)] ok(3) [OF assms(3)]
    by (auto simp: service_check_def perfume_check_def service_units_def ValidUnit_def)
qed

text \<open>C26: A request to change a service is refused and changes nothing, or it was made by someone for a live service of
  the own tenant with a name, a known unit and amounts that are not negative: then the row has exactly the trimmed terms of the body,
  every other row is as it was, one audit row of the service is added, and the reply is the new row (or the error of a commit
  whose reply was lost).\<close>

theorem service_update_outcome:
  assumes "master_reachable en w" and "ServiceHandler_Update en who c raw body w = (res, w')"
  shows "refused w res w' \<or>
    (\<exists>p i req name unit price dur act r r' a. who = Some p \<and> pathID raw = Some i \<and> decodeManagementJSON body = Inr req
       \<and> sq_Name req = Some name \<and> sq_Unit req = Some unit \<and> sq_UnitPriceAmount req = Some price
       \<and> sq_EstimatedDurationMinutes req = Some dur \<and> sq_IsActive req = Some act
       \<and> trim_space name \<noteq> [] \<and> ValidUnit unit \<and> 0 \<le> price \<and> 0 \<le> dur
       \<and> r \<in> set (services (data w)) \<and> sv_business_id r = pc_BusinessID p \<and> sv_id r = i \<and> sv_deleted_at r = None
       \<and> r' = r\<lparr>sv_name := trim_space name, sv_description := trimmed_text (sq_Description req), sv_unit := unit,
           sv_unit_price_amount := price, sv_estimated_duration_minutes := dur, sv_is_active := act, sv_updated_at := now w\<rparr>
       \<and> data w' = (data w)\<lparr>services := replace_row r r' (services (data w)), audit_logs := audit_logs (data w) @ [a]\<rparr>
       \<and> master_audit ''service'' (pc_BusinessID p) i a \<and> (res = Inr (serviceFromRow r') \<or> res = Inl Internal))"
proof (cases "refused w res w'")
  case False
  obtain p i req input input' x where q: "who = Some p" "pathID raw = Some i" "decodeManagementJSON body = Inr req"
      "service_input req True = Some input" "validateServiceInput input = Inr input'"
    and ch: "service_changed en (serviceActor p c) i input' (now w) (data w) x (data w')" and res: "res = Inr x \<or> res = Inl Internal"
    using ServiceHandler_Update_ends [OF master_reachable_sys [OF assms(1)] assms(2) False] by blast
  note V = validateServiceInput_Inr [OF q(5)]
  obtain name unit price dur act where f: "sq_Name req = Some name" "sq_Unit req = Some unit" "sq_UnitPriceAmount req = Some price"
      "sq_EstimatedDurationMinutes req = Some dur" "sq_IsActive req = Some act"
      "si_Name input = name" "si_Description input = sq_Description req" "si_Unit input = unit"
      "si_UnitPriceAmount input = price" "si_EstimatedDurationMinutes input = dur" "si_IsActive input = act"
    using q(4) by (auto simp: service_input_def Let_def split: option.splits if_splits)
  from ch obtain r where r: "service_is (pc_BusinessID p) i r" and x: "x = serviceFromRow (service_with input' (now w) r)"
    and st: "master_step (en_lower en) (data w) (ServiceEvent (Changed r (service_with input' (now w) r))) (data w')"
    unfolding service_changed_def serviceActor_def by auto
  have w': "service_with input' (now w) r = r\<lparr>sv_name := trim_space name, sv_description := trimmed_text (sq_Description req),
      sv_unit := unit, sv_unit_price_amount := price, sv_estimated_duration_minutes := dur, sv_is_active := act,
      sv_updated_at := now w\<rparr>"
    using V f by (simp add: service_with_def)
  from st obtain rs a where chg: "services_tbl.changes (en_lower en) (data w) (Changed r (service_with input' (now w) r)) rs"
    and d: "data w' = (data w)\<lparr>services := rs, audit_logs := audit_logs (data w) @ [a]\<rparr>"
    and a: "master_audit ''service'' (sv_business_id (service_with input' (now w) r)) (sv_id (service_with input' (now w) r)) a"
    by (auto elim!: service_stepE)
  have "r \<in> set (services (data w))" "rs = replace_row r (service_with input' (now w) r) (services (data w))"
    using chg by (simp_all add: services_tbl.changes_def)
  moreover have "master_audit ''service'' (pc_BusinessID p) i a" using a r by (simp add: service_with_def service_is_def)
  ultimately show ?thesis
    using q(1-3) f(1-5) V(2,6,8,10) r d x res unfolding w' service_is_def f(6,8,9,10) V(1) by blast
qed simp

theorem service_update_outcome_witness:
  "\<exists>r' a. data world_raised = (data world_customer)\<lparr>services := replace_row (wash_row 7000) r' (services (data world_customer)),
       audit_logs := audit_logs (data world_customer) @ [a]\<rparr> \<and> sv_unit_price_amount r' = 8000"
proof -
  have "\<not> refused world_customer (Inr (serviceFromRow (wash_row 8000)) :: http_error + Service) world_raised"
    by (simp add: refused_def)
  with service_update_outcome [OF sample_worlds_reachable(2) raised] obtain p i req name unit price dur act r r' a where
    e: "decodeManagementJSON (wash_body 8000 True) = Inr req" "sq_UnitPriceAmount req = Some price"
      "r \<in> set (services (data world_customer))"
      "r' = r\<lparr>sv_name := trim_space name, sv_description := trimmed_text (sq_Description req), sv_unit := unit,
         sv_unit_price_amount := price, sv_estimated_duration_minutes := dur, sv_is_active := act,
         sv_updated_at := now world_customer\<rparr>"
      "data world_raised = (data world_customer)\<lparr>services := replace_row r r' (services (data world_customer)),
         audit_logs := audit_logs (data world_customer) @ [a]\<rparr>" by blast
  have "r = wash_row 7000" using e(3) by (simp add: customer_tables)
  moreover have "price = 8000" using e(1,2) by (auto simp: wash_body_def decodeManagementJSON_def)
  ultimately show ?thesis using e(4,5) by auto
qed

section \<open>What is withdrawn\<close>

lemma request_keeps_withdrawn:
  assumes "master_request en w w'" and "catalog_sys (en_lower en) w" and "r \<in> set (services (data w))" and "sv_deleted_at r \<noteq> None"
  shows "r \<in> set (services (data w'))"
  using assms(1)
proof cases
  case elsewhere
  then show ?thesis using assms(3) by (simp add: master_untouched_def)
next
  case call
  from call_steps [OF this assms(2)] show ?thesis
  proof
    assume "\<exists>e. master_step (en_lower en) (data w) e (data w')"
    then obtain e where "master_step (en_lower en) (data w) e (data w')" ..
    then show ?thesis
      by cases (use assms(3,4) services_tbl.changes_kept(1) [where lower = "en_lower en"] in auto)
  qed (use assms(3) in simp)
qed

lemma requests_keep_withdrawn:
  assumes "(master_request en)\<^sup>*\<^sup>* w w'" and "master_reachable en w" and "r \<in> set (services (data w))" and "sv_deleted_at r \<noteq> None"
  shows "master_reachable en w' \<and> r \<in> set (services (data w'))"
  using assms(1)
proof (induction rule: rtranclp_induct)
  case (step u v)
  then show ?case
    using request_keeps_withdrawn [OF _ master_reachable_sys _ assms(4)] master_reachable.step by blast
qed (use assms in simp)

text \<open>A withdrawn service cannot be the live row a request selects.\<close>

lemma withdrawn_not_selected:
  assumes "services_tbl.fresh w" and "r \<in> set (services (data w))" and "sv_deleted_at r \<noteq> None"
    and "x \<in> set (services (data w))" and "sv_id x = sv_id r"
  shows "sv_deleted_at x \<noteq> None"
  using services_tbl.key_unique [OF assms(1,4,2,5)] assms(3) by simp

text \<open>A withdrawn service stays in the table unchanged, whatever the handlers are asked to do afterwards: no later request
  reads it, changes it or withdraws it again.\<close>

lemma withdrawn_service_stays:
  assumes "master_reachable en w" and "r \<in> set (services (data w))" and "sv_deleted_at r \<noteq> None"
    and "(master_request en)\<^sup>*\<^sup>* w w'" and "pathID raw = Some (sv_id r)"
  shows "r \<in> set (services (data w'))
    \<and> refused w' (fst (ServiceHandler_Get who raw w')) (snd (ServiceHandler_Get who raw w'))
    \<and> refused w' (fst (ServiceHandler_Update en who c raw body w')) (snd (ServiceHandler_Update en who c raw body w'))
    \<and> refused w' (fst (ServiceHandler_Delete en who c raw w')) (snd (ServiceHandler_Delete en who c raw w'))"
proof -
  note K = requests_keep_withdrawn [OF assms(4,1-3)]
  note sys = master_reachable_sys [OF conjunct1 [OF K]]
  have gone: "\<not> (x \<in> set (services (data w')) \<and> service_is b (sv_id r) x)" for b x
    using withdrawn_not_selected [OF catalog_sysD(1) [OF sys] conjunct2 [OF K] assms(3), of x] by (auto simp: service_is_def)
  have g: "refused w' res u" if "ServiceHandler_Get who raw w' = (res, u)" for res u
  proof -
    have "reads (ServiceHandler_Get who raw)"
      unfolding ServiceHandler_Get_def ServiceCatalog_Get_def by (intro reads_intro)
    from readsD [OF this that] have "data u = data w'" by (simp add: same_data_def)
    moreover have "\<forall>x. res \<noteq> Inr x"
    proof (intro allI notI)
      fix x
      assume "res = Inr x"
      with that assms(5) obtain p :: Principal and s v where "GetService (pc_BusinessID p) (sv_id r) w' = (Inr s, v)"
        by (auto simp: ServiceHandler_Get_def ServiceCatalog_Get_def run_inv)
      from one_filter_Inr [OF this [unfolded GetService_def]] gone show False by blast
    qed
    ultimately show ?thesis by (simp add: refused_def)
  qed
  have u: "refused w' res v" if "ServiceHandler_Update en who c raw body w' = (res, v)" for res v
  proof (rule ccontr)
    assume "\<not> refused w' res v"
    with ServiceHandler_Update_ends [OF sys that] assms(5) obtain p input x where
      "service_changed en (serviceActor p c) (sv_id r) input (now w') (data w') x (data v)" by auto
    then show False using gone unfolding service_changed_def by (auto elim!: service_stepE simp: services_tbl.changes_def)
  qed
  have d: "refused w' res v" if "ServiceHandler_Delete en who c raw w' = (res, v)" for res v
  proof (rule ccontr)
    assume "\<not> refused w' res v"
    with ServiceHandler_Delete_ends [OF sys that] assms(5) obtain p where
      "service_withdrawn en (serviceActor p c) (sv_id r) (now w') (data w') (data v)" by auto
    then show False using gone unfolding service_withdrawn_def by (auto elim!: service_stepE simp: services_tbl.changes_def)
  qed
  show ?thesis using K g u d by (metis prod.collapse)
qed

section \<open>What an order is charged\<close>

lemma ordered_lines:
  assumes "places d a input res r xs d'" and "it \<in> set xs"
  obtains rq line where "rq \<in> set (ci_Items input)" "priced d (a_business_id a) rq line" "stores_line line it"
proof -
  from assms(1) obtain lines where l: "list_all2 (priced d (a_business_id a)) (ci_Items input) lines"
    "list_all2 stores_line lines xs" unfolding places_def by blast
  from assms(2) obtain k where k: "k < length xs" "it = xs ! k" by (auto simp: in_set_conv_nth)
  with l have "k < length (ci_Items input)" by (simp add: list_all2_lengthD)
  with k l that show thesis by (metis list_all2_lengthD list_all2_nthD nth_mem)
qed

text \<open>C27: After a service was changed, every order placed next is charged for it at the new price, under its new name and unit,
  and only if it is active; the orders placed before keep their lines and totals.\<close>

theorem price_in_force:
  assumes "reachable w" and "master_reachable en w"
    and "ServiceHandler_Update en who c raw body w = (Inr x, w1)"
    and "OrderCatalog_Create a input w1 = (Inr res, w2)" and "\<not> ocr_Replayed res"
    and "a_business_id a = se_BusinessID x"
  shows "orders (data w1) = orders (data w) \<and> order_items (data w1) = order_items (data w)
    \<and> (\<exists>r xs. places (data w1) a input res r xs (data w2) \<and>
         (\<forall>it \<in> set xs. it_service_id it = se_ID x \<longrightarrow> it_unit_price_amount_snapshot it = se_UnitPriceAmount x
            \<and> it_service_name_snapshot it = se_Name x \<and> it_service_unit_snapshot it = se_Unit x \<and> se_IsActive x))"
proof -
  note sys = master_reachable_sys [OF assms(2)]
  have call: "master_call en w w1" using assms(3) by (rule master_call.service_update)
  have u: "ledger_untouched (data w) (data w1)"
    using call_steps [OF call sys] step_untouched by (auto simp: ledger_untouched_def)
  have r1: "reachable w1" by (rule reachable.step [OF assms(1) call_request [OF call sys]])
  have fr: "services_tbl.fresh w1" by (rule catalog_sysD(1) [OF call_keeps [OF call sys]])
  have "\<not> refused w (Inr x :: http_error + Service) w1" by (simp add: refused_def)
  from ServiceHandler_Update_ends [OF sys assms(3) this] obtain p i input'
    where "service_changed en (serviceActor p c) i input' (now w) (data w) x (data w1)" by blast
  then obtain r0 where x: "x = serviceFromRow (service_with input' (now w) r0)"
    and "master_step (en_lower en) (data w) (ServiceEvent (Changed r0 (service_with input' (now w) r0))) (data w1)"
    unfolding service_changed_def by blast
  from this(2) have "service_with input' (now w) r0 \<in> set (services (data w1))"
    by (auto elim!: service_stepE simp: services_tbl.changes_def set_replace_row)
  with x obtain s where s: "s \<in> set (services (data w1))" "x = serviceFromRow s" by blast
  obtain r xs where pl: "places (data w1) a input res r xs (data w2)"
    using Create_ends [OF reachable_ok [OF r1] assms(4)] assms(5) by (auto simp: replays_def)
  have "it_unit_price_amount_snapshot it = se_UnitPriceAmount x \<and> it_service_name_snapshot it = se_Name x
      \<and> it_service_unit_snapshot it = se_Unit x \<and> se_IsActive x"
    if it: "it \<in> set xs" "it_service_id it = se_ID x" for it
  proof -
    from ordered_lines [OF pl it(1)] obtain rq line where line: "priced (data w1) (a_business_id a) rq line" "stores_line line it" .
    from line(1) obtain t where t: "t \<in> set (services (data w1))" "sv_id t = in_ServiceID rq" "sv_is_active t"
      "cl_serviceName line = sv_name t" "cl_unit line = sv_unit t" "cl_price line = sv_unit_price_amount t" "cl_input line = rq"
      unfolding priced_def by blast
    have "sv_id t = sv_id s" using t line(2) it(2) s(2) by (simp add: stores_line_def serviceFromRow_def)
    then have "t = s" by (rule services_tbl.key_unique [OF fr t(1) s(1)])
    then show ?thesis using t line(2) s(2) by (simp add: stores_line_def serviceFromRow_def)
  qed
  then show ?thesis using u pl unfolding ledger_untouched_def by blast
qed

theorem price_in_force_witness:
  "\<exists>r xs res. places (data world_raised) admin wash_order res r xs (data (snd (OrderCatalog_Create admin wash_order world_raised)))
     \<and> filter (\<lambda>it. it_service_id it = 1 \<and> it_unit_price_amount_snapshot it \<noteq> 8000) xs = []"
proof -
  obtain res r xs where o: "OrderCatalog_Create admin wash_order world_raised
      = (Inr res, snd (OrderCatalog_Create admin wash_order world_raised))"
    and "places (data world_raised) admin wash_order res r xs (data (snd (OrderCatalog_Create admin wash_order world_raised)))"
    using wash_ordered by blast
  then have "\<not> ocr_Replayed res" by (simp add: places_def)
  moreover have "a_business_id admin = se_BusinessID (serviceFromRow (wash_row 8000))"
    by (simp add: sample_actor_def serviceFromRow_def wash_row_def)
  ultimately obtain r' xs' where
    "places (data world_raised) admin wash_order res r' xs' (data (snd (OrderCatalog_Create admin wash_order world_raised)))"
    "\<forall>it \<in> set xs'. it_service_id it = se_ID (serviceFromRow (wash_row 8000)) \<longrightarrow>
       it_unit_price_amount_snapshot it = se_UnitPriceAmount (serviceFromRow (wash_row 8000))"
    using price_in_force [OF sample_worlds_reachable(1,2) raised o] by blast
  then show ?thesis by (intro exI conjI) (auto simp: filter_empty_conv serviceFromRow_def wash_row_def)
qed

text \<open>C28: A service that is withdrawn or inactive is not sold: an order that asks for it changes nothing, and is answered with an
  error unless it repeats an order placed before.\<close>

theorem withdrawn_not_sold:
  assumes "reachable w" and "master_reachable en w" and "s \<in> set (services (data w))"
    and "\<not> (sv_is_active s \<and> sv_deleted_at s = None)"
    and "rq \<in> set (ci_Items input)" and "in_ServiceID rq = sv_id s"
    and "OrderCatalog_Create a input w = (res, w')"
  shows "data w' = data w \<and> (\<forall>x. res = Inr x \<longrightarrow> ocr_Replayed x)"
proof -
  have False if pl: "places (data w) a input x r xs (data w')" for x r xs
  proof -
    from pl obtain lines where "list_all2 (priced (data w) (a_business_id a)) (ci_Items input) lines"
      unfolding places_def by blast
    with assms(5) obtain line where "priced (data w) (a_business_id a) rq line"
      by (auto simp: list_all2_conv_all_nth in_set_conv_nth)
    then obtain t where t: "t \<in> set (services (data w))" "sv_id t = in_ServiceID rq" "sv_is_active t" "sv_deleted_at t = None"
      unfolding priced_def by blast
    have "t = s"
      using services_tbl.key_unique [OF catalog_sysD(1) [OF master_reachable_sys [OF assms(2)]] t(1) assms(3)] t(2) assms(6) by simp
    with t assms(4) show False by blast
  qed
  then show ?thesis using Create_ends [OF reachable_ok [OF assms(1)] assms(7)] by (auto simp: replays_def)
qed

theorem withdrawn_not_sold_witness:
  "data (snd (OrderCatalog_Create admin wash_order world_withdrawn)) = data world_withdrawn"
proof -
  obtain res w' where o: "OrderCatalog_Create admin wash_order world_withdrawn = (res, w')" by fastforce
  have "withdrawn_row \<in> set (services (data world_withdrawn))" "\<not> (sv_is_active withdrawn_row \<and> sv_deleted_at withdrawn_row = None)"
    "\<lparr>in_ServiceID = 1, in_Quantity = ''2.5'', in_Notes = None\<rparr> \<in> set (ci_Items wash_order)"
    "in_ServiceID \<lparr>in_ServiceID = 1, in_Quantity = ''2.5'', in_Notes = None\<rparr> = sv_id withdrawn_row"
    by (simp_all add: withdrawn_tables wash_order_def, simp_all add: withdrawn_row_def wash_row_def)
  from withdrawn_not_sold [OF sample_worlds_reachable(6,7) this o] o show ?thesis by simp
qed

section \<open>Personal data\<close>

text \<open>C29: A request to a master data handler writes at most one audit row, and what an audit row of a customer records is the
  customer's key and that the row was there or was withdrawn: never the name, the telephone number or the address.\<close>

theorem audit_hides_customers:
  assumes "master_reachable en w" and "master_call en w w'"
  shows "\<exists>rows. audit_logs (data w') = audit_logs (data w) @ rows \<and> length rows \<le> 1 \<and>
    (\<forall>a \<in> set rows. au_entity_type a = ''customer'' \<longrightarrow> (\<exists>i. au_entity_id a = Some i \<and> redacted i a))"
  using call_steps [OF assms(2) master_reachable_sys [OF assms(1)]]
proof
  assume "\<exists>e. master_step (en_lower en) (data w) e (data w')"
  then obtain e where "master_step (en_lower en) (data w) e (data w')" ..
  then show ?thesis by cases (auto simp: master_audit_def)
qed (intro exI [of _ "[]"], simp)

theorem audit_hides_customers_witness:
  "\<exists>rows. audit_logs (data world_customer) = audit_logs (data world_service) @ rows \<and> length rows \<le> 1"
  using audit_hides_customers [OF call_reachable(2) [OF sample_calls(1) bare_reachable] sample_calls(3)] by blast

section \<open>Pages\<close>

text \<open>What a search lists, in its order.\<close>

definition service_listing :: "primitives \<Rightarrow> i64 \<Rightarrow> string \<Rightarrow> string option \<Rightarrow> bool option \<Rightarrow> db \<Rightarrow> Service list" where
  "service_listing en b q unit active d =
     map serviceFromRow (service_order en (filter (service_matches en b (trim_space q) unit active) (services d)))"

lemma calm_listing:
  assumes "faults w = []" and "unit_filter units = Inr u" and "active_filter actives = Inr ac" and "pg_text (trim_space q)"
    and "pagination rawPage rawSize = Some (k, n, off)" and "0 \<le> n" "0 \<le> off"
  shows "ServiceHandler_List en (Some p) rawPage rawSize q units actives w =
    (Inr (take (nat n) (drop (nat off) (service_listing en (pc_BusinessID p) q u ac (data w))),
       pageInfo_of k n (int (length (service_listing en (pc_BusinessID p) q u ac (data w))))), w)"
proof -
  have u: "case u of None \<Rightarrow> True | Some s \<Rightarrow> ValidUnit s"
    using assms(2) by (auto simp: unit_filter_def split: option.splits if_splits)
  then have t: "pg_text_opt u"
    using unit_text by (auto simp: pg_text_opt_def ValidUnit_def split: option.splits)
  let ?rows = "service_order en (filter (service_matches en (pc_BusinessID p) (trim_space q) u ac) (services (data w)))"
  have "ListServices en (pc_BusinessID p) (trim_space q) u ac off n w = (Inr (take (nat n) (drop (nat off) ?rows)), w)"
    using assms(1,4,6,7) t
    by (simp add: ListServices_def with_text_def limit_offset_def tbind_def select_def stmt_def ret_def)
  moreover have "CountServices en (pc_BusinessID p) (trim_space q) u ac w = (Inr (int (length ?rows)), w)"
    using assms(1,4) t
    by (simp add: CountServices_def with_text_def only_one_def tbind_def select_def stmt_def ret_def service_order_def)
  moreover have "\<not> (case u of None \<Rightarrow> False | Some s \<Rightarrow> \<not> ValidUnit s)" using u by (simp split: option.splits)
  ultimately have "ServiceCatalog_List en (pc_BusinessID p)
      \<lparr>sl_Search = q, sl_Unit = u, sl_IsActive = ac, sl_PageOffset = off, sl_PageLimit = n\<rparr> w
      = (Inr (map serviceFromRow (take (nat n) (drop (nat off) ?rows)), int (length ?rows)), w)"
    by (simp add: ServiceCatalog_List_def Let_def tbind_def on_err_def ret_def)
  then show ?thesis
    by (simp add: ServiceHandler_List_def with_principal_def with_page_def assms(2,3,5) tbind_def on_err_def ret_def
        service_listing_def take_map drop_map)
qed

text \<open>C30: Reading the pages of the service catalog from the first to the last, with any size the handler accepts, shows every
  service the search selects exactly once and in order, and every page tells the same number of items and pages.\<close>

theorem service_pages:
  assumes "faults w = []" and "unit_filter units = Inr u" and "active_filter actives = Inr ac" and "pg_text (trim_space q)"
    and "1 \<le> n" and "n \<le> 100"
    and "listing = service_listing en (pc_BusinessID p) q u ac (data w)" and "length listing < 2 ^ 31"
    and "pages = pg_totalPages (pageInfo_of 1 n (int (length listing)))"
  shows "\<exists>items. concat (map items [0..<nat pages]) = listing \<and>
    (\<forall>k < nat pages. ServiceHandler_List en (Some p) (show_int (int k + 1)) (show_int n) q units actives w
       = (Inr (items k, \<lparr>pg_page = int k + 1, pg_pageSize = n, pg_totalItems = int (length listing), pg_totalPages = pages\<rparr>), w))"
proof (intro exI conjI allI impI)
  let ?items = "\<lambda>k. take (nat n) (drop (k * nat n) listing)"
  have tot: "int (length listing) \<le> 2 ^ 62" using assms(8) by simp
  note P = pageInfo_pages [OF _ tot assms(5,6), of 1, folded assms(9)]
  have small: "int (length listing) < 2 ^ 31" using assms(8) by simp
  have len: "length listing \<le> nat pages * nat n"
  proof -
    have "0 \<le> pages"
      using P(2) assms(5) by (metis linorder_not_le mult_less_0_iff not_one_le_zero of_nat_0_le_iff order.trans zero_le_one order_less_le_trans)
    then have "int (nat pages * nat n) = pages * n" using assms(5) by simp
    then show ?thesis using P(2) by linarith
  qed
  show "concat (map ?items [0..<nat pages]) = listing" by (rule pages_cover [OF _ len]) (use assms(5) in simp)
  fix k
  assume k: "k < nat pages"
  have "int k \<le> pages - 1" using k by linarith
  then have "int k * n \<le> (pages - 1) * n" using assms(5) by (intro mult_right_mono) auto
  also have "\<dots> < int (length listing)" using P(1) k by auto
  finally have off: "int k * n < 2 ^ 31" using small by linarith
  moreover have "int k * 1 \<le> int k * n" using assms(5) by (intro mult_left_mono) auto
  moreover have "int k * n < int (length listing)" using \<open>int k * n \<le> (pages - 1) * n\<close> P(1) k by auto
  ultimately have "int k + 1 < 2 ^ 31" using small by linarith
  with off assms(5,6) have pg: "pagination (show_int (int k + 1)) (show_int n) = Some (int k + 1, n, int k * n)"
    using pagination_show [of "int k + 1" n] by simp
  have "nat (int k * n) = k * nat n" using assms(5) by (simp add: nat_mult_distrib)
  moreover have "pageInfo_of (int k + 1) n (int (length listing))
      = \<lparr>pg_page = int k + 1, pg_pageSize = n, pg_totalItems = int (length listing), pg_totalPages = pages\<rparr>"
    using assms(9) by (simp add: pageInfo_of_def)
  ultimately show "ServiceHandler_List en (Some p) (show_int (int k + 1)) (show_int n) q units actives w
       = (Inr (?items k, \<lparr>pg_page = int k + 1, pg_pageSize = n, pg_totalItems = int (length listing), pg_totalPages = pages\<rparr>), w)"
    using calm_listing [OF assms(1-4) pg] assms(5,7) by simp
qed

lemma empty_trim: "trim_space [] = []"
  by code_simp

theorem service_pages_witness:
  "\<exists>items. concat (map items [0..<1]) = [serviceFromRow (wash_row 8000)]
     \<and> fst (ServiceHandler_List sample_en (Some boss) (show_int 1) (show_int 1) [] None None world_raised)
         = Inr (items 0, \<lparr>pg_page = 1, pg_pageSize = 1, pg_totalItems = 1, pg_totalPages = 1\<rparr>)"
proof -
  let ?l = "service_listing sample_en (pc_BusinessID boss) [] None None (data world_raised)"
  have l: "?l = [serviceFromRow (wash_row 8000)]"
    by (simp add: service_listing_def raised_tables service_order_def service_matches_def found_by_def chosen_def
        wash_row_def boss_def empty_trim)
  have one: "pg_totalPages (pageInfo_of 1 1 (int (length ?l))) = 1"
    unfolding l by code_simp
  obtain items where "concat (map items [0..<nat 1]) = ?l" "\<forall>k < nat 1.
      ServiceHandler_List sample_en (Some boss) (show_int (int k + 1)) (show_int 1) [] None None world_raised
       = (Inr (items k, \<lparr>pg_page = int k + 1, pg_pageSize = 1, pg_totalItems = int (length ?l), pg_totalPages = 1\<rparr>), world_raised)"
    using service_pages [of world_raised None None None None "[]" 1 ?l sample_en boss 1, OF raised_tables(3) _ _ _ _ _ refl _ one [symmetric]]
    by (auto simp: unit_filter_def active_filter_def pg_text_def empty_trim l rune_len_def)
  then show ?thesis unfolding l by (intro exI [of _ items]) simp
qed

end
