(* ===== verification/Canonical.thy ===== *)
theory Canonical
  imports Go_Base
begin

text \<open>
  The canonical text of a request: what json.Marshal writes of a struct (package encoding/json with its default
  escaping of HTML). Strings are escaped byte by byte and rune by rune; a nil pointer is null; fields come in the order of
  the declaration.
\<close>

section \<open>Strings\<close>

definition hex_digit :: "nat \<Rightarrow> char" where
  "hex_digit n = (if n < 10 then char_of (48 + n) else char_of (87 + n))"

definition hex_value :: "char \<Rightarrow> nat" where
  "hex_value c = (if of_char c < (58 :: nat) then of_char c - 48 else of_char c - 87)"

text \<open>htmlSafeSet: what stands for itself.\<close>

definition html_safe :: "char \<Rightarrow> bool" where
  "html_safe c \<longleftrightarrow> 0x20 \<le> byte c \<and> c \<notin> {CHR 0x22, CHR 0x5C, CHR ''<'', CHR ''>'', CHR ''&''}"

definition ascii_escape :: "char \<Rightarrow> string" where
  "ascii_escape c =
     (if c = CHR 0x22 \<or> c = CHR 0x5C then [CHR 0x5C, c]
      else if c = CHR 0x08 then [CHR 0x5C, CHR ''b'']
      else if c = CHR 0x0C then [CHR 0x5C, CHR ''f'']
      else if c = CHR 0x0A then [CHR 0x5C, CHR ''n'']
      else if c = CHR 0x0D then [CHR 0x5C, CHR ''r'']
      else if c = CHR 0x09 then [CHR 0x5C, CHR ''t'']
      else [CHR 0x5C, CHR ''u'', CHR ''0'', CHR ''0'', hex_digit (byte c div 16), hex_digit (byte c mod 16)])"

text \<open>U+2028 and U+2029 are escaped, and a byte that starts no rune is written as U+FFFD.\<close>

fun json_chars :: "string \<Rightarrow> string" where
  "json_chars [] = []"
| "json_chars (c # r) =
     (if byte c < 0x80 then (if html_safe c then [c] else ascii_escape c) @ json_chars r
      else case utf8_head (c # r) of
             None \<Rightarrow> [CHR 0x5C, CHR ''u'', CHR ''f'', CHR ''f'', CHR ''f'', CHR ''d''] @ json_chars r
           | Some n \<Rightarrow>
               let rune = take n (c # r) in
               (if rune = [CHR 0xE2, CHR 0x80, CHR 0xA8] then [CHR 0x5C, CHR ''u'', CHR ''2'', CHR ''0'', CHR ''2'', CHR ''8'']
                else if rune = [CHR 0xE2, CHR 0x80, CHR 0xA9] then [CHR 0x5C, CHR ''u'', CHR ''2'', CHR ''0'', CHR ''2'', CHR ''9'']
                else rune) @ json_chars (drop (n - 1) r))"

definition json_string :: "string \<Rightarrow> string" where
  "json_string s = [CHR 0x22] @ json_chars s @ [CHR 0x22]"

lemma json_chars_examples:
  "json_chars ''a<b'' = ''a'' @ [CHR 0x5C] @ ''u003cb''" "json_chars [CHR 0x0A] = [CHR 0x5C, CHR ''n'']"
  "json_chars [CHR 0xE2, CHR 0x80, CHR 0xA8] = [CHR 0x5C] @ ''u2028''"
  by code_simp+

section \<open>Values\<close>

definition json_null :: string where
  "json_null = ''null''"

definition json_opt :: "('a \<Rightarrow> string) \<Rightarrow> 'a option \<Rightarrow> string" where
  "json_opt enc v = (case v of None \<Rightarrow> json_null | Some x \<Rightarrow> enc x)"

fun json_rest :: "('a \<Rightarrow> string) \<Rightarrow> 'a list \<Rightarrow> string" where
  "json_rest enc [] = '']''"
| "json_rest enc (x # xs) = '','' @ enc x @ json_rest enc xs"

fun json_array :: "('a \<Rightarrow> string) \<Rightarrow> 'a list \<Rightarrow> string" where
  "json_array enc [] = ''[]''"
| "json_array enc (x # xs) = ''['' @ enc x @ json_rest enc xs"

text \<open>The name of a field and the colon after it.\<close>

definition json_key :: "string \<Rightarrow> string" where
  "json_key name = [CHR 0x22] @ name @ [CHR 0x22, CHR '':'']"

section \<open>Reading a string back\<close>

text \<open>What stands before the closing quote, and what follows it.\<close>

fun json_read :: "string \<Rightarrow> (string \<times> string) option" where
  "json_read [] = None"
| "json_read (c # r) =
     (if c = CHR 0x22 then Some ([], r)
      else if c = CHR 0x5C then
        (case r of
           [] \<Rightarrow> None
         | e # r' \<Rightarrow>
             if e = CHR ''u'' then
               (case r' of
                  h1 # h2 # h3 # h4 # r'' \<Rightarrow>
                    (let code = if h1 = CHR ''0'' then [char_of (16 * hex_value h3 + hex_value h4)]
                                else if h1 = CHR ''2'' then [CHR 0xE2, CHR 0x80, if h4 = CHR ''8'' then CHR 0xA8 else CHR 0xA9]
                                else [CHR 0xEF, CHR 0xBF, CHR 0xBD]
                     in map_option (\<lambda>(s, x). (code @ s, x)) (json_read r''))
                | _ \<Rightarrow> None)
             else
               (let code = if e = CHR ''b'' then CHR 0x08 else if e = CHR ''f'' then CHR 0x0C else if e = CHR ''n'' then CHR 0x0A
                           else if e = CHR ''r'' then CHR 0x0D else if e = CHR ''t'' then CHR 0x09 else e
                in map_option (\<lambda>(s, x). (code # s, x)) (json_read r')))
      else map_option (\<lambda>(s, x). (c # s, x)) (json_read r))"

lemma hex_value_digit: "n < 16 \<Longrightarrow> hex_value (hex_digit n) = n"
  by (simp add: hex_value_def hex_digit_def)

lemma read_safe: "c \<noteq> CHR 0x22 \<Longrightarrow> c \<noteq> CHR 0x5C \<Longrightarrow> json_read (c # x) = map_option (\<lambda>(s, y). (c # s, y)) (json_read x)"
  by simp

lemma read_escape:
  assumes "byte c < 0x80"
  shows "json_read (ascii_escape c @ x) = map_option (\<lambda>(s, y). (c # s, y)) (json_read x)"
proof -
  have "char_of (16 * (byte c div 16) + byte c mod 16) = c" by (simp add: mult.commute)
  moreover have "byte c div 16 < 16" "byte c mod 16 < 16" using assms by auto
  ultimately show ?thesis by (simp add: ascii_escape_def hex_value_digit)
qed

lemma read_plain:
  assumes "list_all (\<lambda>c. 0x80 \<le> byte c) u"
  shows "json_read (u @ x) = map_option (\<lambda>(s, y). (u @ s, y)) (json_read x)"
  using assms
proof (induction u)
  case Nil
  then show ?case by (simp add: option.map_ident_strong split_beta)
next
  case (Cons c u)
  then have "c \<noteq> CHR 0x22" "c \<noteq> CHR 0x5C" by auto
  then have "json_read (c # (u @ x)) = map_option (\<lambda>(s, y). (c # s, y)) (json_read (u @ x))" by (rule read_safe)
  with Cons show ?case by (simp add: option.map_comp comp_def split_beta)
qed

lemma utf8_head_bytes:
  assumes "utf8_head (c # r) = Some n" and "0x80 \<le> byte c"
  shows "list_all (\<lambda>c. 0x80 \<le> byte c) (take n (c # r)) \<and> 1 \<le> n"
  using assms by (auto simp: in_range_def split: if_splits list.splits)

text \<open>A string that is UTF-8 is read back.\<close>

lemma json_read_chars:
  "utf8_valid s \<Longrightarrow> json_read (json_chars s @ x) = map_option (\<lambda>(t, y). (s @ t, y)) (json_read x)"
proof (induction s rule: json_chars.induct)
  case 1
  then show ?case by (simp add: option.map_ident_strong split_beta)
next
  case (2 c r)
  show ?case
  proof (cases "byte c < 0x80")
    case True
    then have "utf8_head (c # r) = Some 1" by simp
    then have "utf8_valid r" using "2.prems" by (simp add: rune_len_def)
    with "2.IH"(1) [OF True] have IH: "json_read (json_chars r @ x) = map_option (\<lambda>(t, y). (r @ t, y)) (json_read x)" by simp
    have "json_read ((if html_safe c then [c] else ascii_escape c) @ y) = map_option (\<lambda>(s, z). (c # s, z)) (json_read y)" for y
      using read_escape [OF True] by (auto simp: html_safe_def)
    with True IH show ?thesis by (simp add: option.map_comp comp_def split_beta)
  next
    case False
    then obtain n where n: "utf8_head (c # r) = Some n" using "2.prems" by (auto simp del: utf8_head.simps)
    have v: "utf8_valid (drop (n - 1) r)" using "2.prems" n by (simp add: rune_len_def del: utf8_head.simps)
    note B = utf8_head_bytes [OF n] False
    let ?u = "take n (c # r)"
    from "2.IH"(3) [OF False n refl v]
    have IH: "json_read (json_chars (drop (n - 1) r) @ x) = map_option (\<lambda>(t, y). (drop (n - 1) r @ t, y)) (json_read x)" .
    have s: "c # r = ?u @ drop (n - 1) r" using B by (cases n) auto
    have enc: "json_read ((if ?u = [CHR 0xE2, CHR 0x80, CHR 0xA8] then [CHR 0x5C, CHR ''u'', CHR ''2'', CHR ''0'', CHR ''2'', CHR ''8'']
        else if ?u = [CHR 0xE2, CHR 0x80, CHR 0xA9] then [CHR 0x5C, CHR ''u'', CHR ''2'', CHR ''0'', CHR ''2'', CHR ''9'']
        else ?u) @ y) = map_option (\<lambda>(t, z). (?u @ t, z)) (json_read y)" for y
      using read_plain [of ?u y] B by auto
    have j: "?u @ drop (n - Suc 0) r @ t = c # r @ t" for t
      using s by (metis One_nat_def append_Cons append_assoc)
    have k: "json_chars (c # r) @ x = (if ?u = [CHR 0xE2, CHR 0x80, CHR 0xA8] then [CHR 0x5C, CHR ''u'', CHR ''2'', CHR ''0'', CHR ''2'', CHR ''8'']
        else if ?u = [CHR 0xE2, CHR 0x80, CHR 0xA9] then [CHR 0x5C, CHR ''u'', CHR ''2'', CHR ''0'', CHR ''2'', CHR ''9'']
        else ?u) @ json_chars (drop (n - 1) r) @ x"
      using False n by (simp add: Let_def del: utf8_head.simps)
    show ?thesis
      unfolding k enc IH option.map_comp by (simp add: comp_def split_beta j)
  qed
qed

lemma json_string_read: "utf8_valid s \<Longrightarrow> json_read (tl (json_string s @ x)) = Some (s, x)"
  using json_read_chars [of s "[CHR 0x22] @ x"] by (simp add: json_string_def)

section \<open>Unambiguous texts\<close>

text \<open>
  What may follow a number without being read as a part of it, and the contract of the text of a value inside an object
  or an array: no text begins like a null or like the end of an array, and the text of a value and
  what follows it determine both.
\<close>

fun no_digit_next :: "string \<Rightarrow> bool" where
  "no_digit_next [] = True"
| "no_digit_next (c # r) = (\<not> is_digit c)"

locale json_code =
  fixes enc :: "'a \<Rightarrow> string"
    and ok :: "'a \<Rightarrow> bool"
  assumes head: "ok x \<Longrightarrow> enc x \<noteq> [] \<and> hd (enc x) \<noteq> CHR ''n'' \<and> hd (enc x) \<noteq> CHR '']''"
    and unique: "ok x \<Longrightarrow> ok y \<Longrightarrow> no_digit_next r \<Longrightarrow> no_digit_next r' \<Longrightarrow> enc x @ r = enc y @ r' \<Longrightarrow> x = y \<and> r = r'"
begin

lemma no_null: "ok x \<Longrightarrow> enc x @ r \<noteq> json_null @ r'"
  using head [of x] by (cases "enc x") (auto simp: json_null_def)

lemma opt_unique:
  assumes "pred_option ok x" "pred_option ok y" "no_digit_next r" "no_digit_next r'"
    and "json_opt enc x @ r = json_opt enc y @ r'"
  shows "x = y \<and> r = r'"
proof (cases x)
  case None
  with assms(2,5) have "y = None" using no_null [symmetric] by (cases y) (auto simp: json_opt_def)
  with None assms(5) show ?thesis by (simp add: json_opt_def)
next
  case (Some a)
  with assms(1,5) obtain b where "y = Some b" using no_null by (cases y) (auto simp: json_opt_def)
  with Some assms show ?thesis using unique [of a b r r'] by (simp add: json_opt_def)
qed

lemma rest_unique:
  assumes "list_all ok xs" "list_all ok ys" "json_rest enc xs @ r = json_rest enc ys @ r'"
  shows "xs = ys \<and> r = r'"
  using assms
proof (induction xs arbitrary: ys)
  case Nil
  then show ?case by (cases ys) auto
next
  case (Cons x xs)
  then obtain y ys' where ys: "ys = y # ys'" by (cases ys) auto
  have nd: "no_digit_next (json_rest enc zs @ q)" for zs q by (cases zs) (simp_all add: is_digit_def)
  from Cons.prems have "enc x @ (json_rest enc xs @ r) = enc y @ (json_rest enc ys' @ r')" "ok x" "ok y"
    by (simp_all add: ys)
  from unique [OF this(2,3) nd nd this(1)] Cons.prems Cons.IH [of ys'] show ?case by (simp add: ys)
qed

lemma array_unique:
  assumes "list_all ok xs" "list_all ok ys" "json_array enc xs @ r = json_array enc ys @ r'"
  shows "xs = ys \<and> r = r'"
proof (cases xs)
  case Nil
  with assms head show ?thesis by (cases ys) (auto simp: hd_append split: if_splits, metis append_is_Nil_conv hd_append2 list.sel(1))
next
  case (Cons x xs')
  then obtain y ys' where ys: "ys = y # ys'"
    using assms head by (cases ys) (auto, metis hd_append2 list.sel(1))
  have nd: "no_digit_next (json_rest enc zs @ q)" for zs q by (cases zs) (simp_all add: is_digit_def)
  from assms have "enc x @ (json_rest enc xs' @ r) = enc y @ (json_rest enc ys' @ r')" "ok x" "ok y"
      "list_all ok xs'" "list_all ok ys'"
    by (simp_all add: ys Cons)
  with unique [OF this(2,3) nd nd this(1)] rest_unique [of xs' ys' r r'] show ?thesis by (simp add: ys Cons)
qed

end

lemma show_int_head: "show_int i \<noteq> [] \<and> (hd (show_int i) = CHR ''-'' \<or> is_digit (hd (show_int i)))"
proof -
  have "is_digit (hd (show_nat n))" for n
    using show_nat_digits [of n] show_nat_ne [of n] by (cases "show_nat n") auto
  then show ?thesis by (simp add: show_int_def)
qed

lemma show_nat_unique:
  assumes "no_digit_next r" "no_digit_next r'" "show_nat m @ r = show_nat n @ r'"
  shows "m = n \<and> r = r'"
proof -
  have split: "takeWhile is_digit (show_nat k @ q) = show_nat k" "dropWhile is_digit (show_nat k @ q) = q"
    if "no_digit_next q" for k q
  proof -
    have "takeWhile is_digit q = []" "dropWhile is_digit q = q" using that by (cases q; simp)+
    then show "takeWhile is_digit (show_nat k @ q) = show_nat k" "dropWhile is_digit (show_nat k @ q) = q"
      using show_nat_digits [of k] by (simp_all add: list_all_iff takeWhile_append2 dropWhile_append2)
  qed
  have "show_nat m = show_nat n" "r = r'" using split [OF assms(1), of m] split [OF assms(2), of n] assms(3) by auto
  moreover have "show_nat m = show_nat n \<Longrightarrow> m = n" by (metis digits_val_show_nat of_nat_eq_iff)
  ultimately show ?thesis by blast
qed

interpretation json_ints: json_code show_int "\<lambda>i. True"
proof
  fix x
  show "show_int x \<noteq> [] \<and> hd (show_int x) \<noteq> CHR ''n'' \<and> hd (show_int x) \<noteq> CHR '']''"
    using show_int_head [of x] by (auto simp: is_digit_def)
next
  fix x y r r'
  assume A: "no_digit_next r" "no_digit_next r'" "show_int x @ r = show_int y @ r'"
  have no: "show_nat m @ q \<noteq> CHR ''-'' # q'" for m q q'
    using show_nat_digits [of m] show_nat_ne [of m] by (cases "show_nat m") (auto simp: is_digit_def)
  show "x = y \<and> r = r'"
  proof (cases "x < 0")
    case True
    then have "y < 0" using A(3) no [symmetric] by (cases "y < 0") (simp_all add: show_int_def)
    with True A(3) have "show_nat (nat (- x)) @ r = show_nat (nat (- y)) @ r'" by (simp add: show_int_def)
    from show_nat_unique [OF A(1,2) this] True \<open>y < 0\<close> show ?thesis by (simp add: eq_nat_nat_iff)
  next
    case False
    then have "\<not> y < 0" using A(3) no by (cases "y < 0") (simp_all add: show_int_def)
    with False A(3) have "show_nat (nat x) @ r = show_nat (nat y) @ r'" by (simp add: show_int_def)
    from show_nat_unique [OF A(1,2) this] False \<open>\<not> y < 0\<close> show ?thesis by (simp add: eq_nat_nat_iff)
  qed
qed

interpretation json_strings: json_code json_string utf8_valid
proof
  fix x
  show "json_string x \<noteq> [] \<and> hd (json_string x) \<noteq> CHR ''n'' \<and> hd (json_string x) \<noteq> CHR '']''"
    by (simp add: json_string_def)
next
  fix x y r r'
  assume "utf8_valid x" "utf8_valid y" "json_string x @ r = json_string y @ r'"
  then have "Some (x, r) = Some (y, r')" by (metis json_string_read)
  then show "x = y \<and> r = r'" by simp
qed

end
