(* ===== verification/Instants.thy ===== *)
theory Instants
  imports Calendar
begin

text \<open>
  Dates and instants as texts: time.Parse with the layouts 2006-01-02 and RFC3339Nano, and Time.Format with the
  first (package time). The parser reads the elements of the layout from left to right; the hour may have one
  digit, the fraction may follow a comma, and an offset may be as large as 24:60. A parsed time keeps its offset; the
  instant is cut to microseconds, as the driver sends it.
\<close>

section \<open>Days of the civil calendar\<close>

text \<open>Dates count from 0000-03-01, as in the theory Calendar.\<close>

definition day_of :: "int \<Rightarrow> int \<Rightarrow> int \<Rightarrow> date" where
  "day_of year month day =
     (let y = (if month \<le> 2 then year - 1 else year);
          m = (if month \<le> 2 then month + 9 else month - 3)
      in 365 * y + y div 4 - y div 100 + y div 400 + (153 * m + 2) div 5 + day - 1 - 719468)"

definition leap_year :: "int \<Rightarrow> bool" where
  "leap_year y \<longleftrightarrow> y mod 4 = 0 \<and> (y mod 100 \<noteq> 0 \<or> y mod 400 = 0)"

definition days_in :: "int \<Rightarrow> int \<Rightarrow> int" where
  "days_in year month =
     (if month = 2 then (if leap_year year then 29 else 28) else if month \<in> {4, 6, 9, 11} then 30 else 31)"

lemma day_of_civil: "day_of (civil_year z) (civil_month z) (civil_day z) = z"
proof -
  let ?y = "400 * cyc400 z + 100 * cyc100 z + 4 * cyc4 z + cyc1 z"
  have y: "(if civil_month z \<le> 2 then civil_year z - 1 else civil_year z) = ?y" by (simp add: civil_year_def)
  have m: "(if civil_month z \<le> 2 then civil_month z + 9 else civil_month z - 3) = march_month z"
    by (simp add: march_month_of_civil)
  note B = cyc100_bounds [of z] cyc4_bounds [of z] cyc1_bounds [of z]
  have e: "?y div 400 = cyc400 z" "?y div 100 = 4 * cyc400 z + cyc100 z" "?y div 4 = 100 * cyc400 z + 25 * cyc100 z + cyc4 z"
    using B by linarith+
  have "(153 * march_month z + 2) div 5 = year_day z + 1 - civil_day z" by (simp add: civil_day_def)
  then show ?thesis using day_decompose [of z] unfolding day_of_def Let_def y m e by simp
qed

section \<open>Reading the elements of a layout\<close>

definition skip_byte :: "char \<Rightarrow> string \<Rightarrow> string option" where
  "skip_byte c s = (case s of [] \<Rightarrow> None | a # r \<Rightarrow> if a = c then Some r else None)"

fun getnum :: "bool \<Rightarrow> string \<Rightarrow> (int \<times> string) option" where
  "getnum fixed [] = None"
| "getnum fixed [a] = (if is_digit a \<and> \<not> fixed then Some (digit_val a, []) else None)"
| "getnum fixed (a # b # r) =
     (if \<not> is_digit a then None
      else if is_digit b then Some (10 * digit_val a + digit_val b, r)
      else if fixed then None else Some (digit_val a, b # r))"

definition getyear :: "string \<Rightarrow> (int \<times> string) option" where
  "getyear s = (if length s < 4 \<or> \<not> list_all is_digit (take 4 s) then None else Some (digits_val (take 4 s), drop 4 s))"

text \<open>A number of an element, refused outside its range.\<close>

definition getrange :: "bool \<Rightarrow> int \<Rightarrow> int \<Rightarrow> string \<Rightarrow> (int \<times> string) option" where
  "getrange fixed lo hi s =
     (case getnum fixed s of None \<Rightarrow> None | Some (v, r) \<Rightarrow> if lo \<le> v \<and> v \<le> hi then Some (v, r) else None)"

definition scan_date :: "string \<Rightarrow> (date \<times> string) option" where
  "scan_date s =
     Option.bind (getyear s) (\<lambda>(year, s).
     Option.bind (skip_byte CHR ''-'' s) (\<lambda>s.
     Option.bind (getrange True 1 12 s) (\<lambda>(month, s).
     Option.bind (skip_byte CHR ''-'' s) (\<lambda>s.
     Option.bind (getnum True s) (\<lambda>(day, s).
       if 1 \<le> day \<and> day \<le> days_in year month then Some (day_of year month day, s) else None)))))"

text \<open>The layout 2006-01-02.\<close>

definition parse_date :: "string \<Rightarrow> date option" where
  "parse_date s = (case scan_date s of Some (day, []) \<Rightarrow> Some day | _ \<Rightarrow> None)"

definition format_day :: "date \<Rightarrow> string" where
  "format_day z = fmt_0d 4 (civil_year z) @ ''-'' @ fmt_0d 2 (civil_month z) @ ''-'' @ fmt_0d 2 (civil_day z)"

text \<open>Nanoseconds after the seconds, if a digit follows a point or a comma; digits after the ninth are dropped.\<close>

definition scan_fraction :: "string \<Rightarrow> int \<times> string" where
  "scan_fraction s =
     (case s of
        p # d # r \<Rightarrow>
          (if (p = CHR ''.'' \<or> p = CHR '','') \<and> is_digit d
           then let run = takeWhile is_digit (d # r); used = take 9 run
                in (digits_val used * 10 ^ (9 - length used), drop (length run) (d # r))
           else (0, s))
      | _ \<Rightarrow> (0, s))"

text \<open>The offset from UTC in seconds.\<close>

definition scan_zone :: "string \<Rightarrow> (int \<times> string) option" where
  "scan_zone s =
     (case s of
        [] \<Rightarrow> None
      | c # r \<Rightarrow>
          if c = CHR ''Z'' then Some (0, r)
          else if length s < 6 \<or> s ! 3 \<noteq> CHR '':'' then None
          else Option.bind (getrange True 0 24 [s ! 1, s ! 2]) (\<lambda>(hr, _).
               Option.bind (getrange True 0 60 [s ! 4, s ! 5]) (\<lambda>(mm, _).
                 let off = (hr * 60 + mm) * 60 in
                 if c = CHR ''+'' then Some (off, drop 6 s)
                 else if c = CHR ''-'' then Some (- off, drop 6 s) else None)))"

definition parse_rfc3339 :: "string \<Rightarrow> zoned option" where
  "parse_rfc3339 s =
     Option.bind (scan_date s) (\<lambda>(day, s).
     Option.bind (skip_byte CHR ''T'' s) (\<lambda>s.
     Option.bind (getrange False 0 23 s) (\<lambda>(hour, s).
     Option.bind (skip_byte CHR '':'' s) (\<lambda>s.
     Option.bind (getrange True 0 59 s) (\<lambda>(minute, s).
     Option.bind (skip_byte CHR '':'' s) (\<lambda>s.
     Option.bind (getrange True 0 59 s) (\<lambda>(second, s).
     let (nanos, s) = scan_fraction s in
     Option.bind (scan_zone s) (\<lambda>(off, s).
       if s = []
      then Some \<lparr>zt_at = (day * 86400 + hour * 3600 + minute * 60 + second - off) * 1000000 + nanos div 1000, zt_offset = off\<rparr>
       else None))))))))"

text \<open>The start of the Unix epoch, a fraction cut to microseconds, an offset, and texts that are refused.\<close>

lemma parse_rfc3339_examples:
  "parse_rfc3339 ''1970-01-01T00:00:00Z'' = Some \<lparr>zt_at = 0, zt_offset = 0\<rparr>"
  "parse_rfc3339 ''1970-01-01T07:00:00.1234567+07:00'' = Some \<lparr>zt_at = 123456, zt_offset = 25200\<rparr>"
  "parse_rfc3339 ''2024-02-29T0:00:00Z'' = Some \<lparr>zt_at = 1709164800000000, zt_offset = 0\<rparr>"
  "parse_rfc3339 ''2023-02-29T00:00:00Z'' = None" "parse_rfc3339 ''1970-01-01T00:00:00'' = None"
  by code_simp+

section \<open>A date is read back from its text\<close>

lemma civil_day_days_in: "civil_day z \<le> days_in (civil_year z) (civil_month z)"
proof -
  define y where "y = year_day z"
  define q where "q = march_month z"
  have q: "q = (5 * y + 2) div 153" "0 \<le> q" "q \<le> 11"
    using march_month_bounds [of z] by (simp_all add: q_def y_def march_month_def)
  have d: "civil_day z = y - (153 * q + 2) div 5 + 1" by (simp add: civil_day_def y_def q_def)
  have mth: "civil_month z = (if q < 10 then q + 3 else q - 9)" by (simp add: civil_month_def q_def)
  have up: "5 * y + 2 < 153 * (q + 1)"
  proof -
    obtain e where e: "e = (5 * y + 2) mod 153" by simp
    then have "5 * y + 2 = 153 * q + e" "e < 153" by (simp_all add: q(1))
    then show ?thesis by simp
  qed
  have y365: "y \<le> 365" using year_day_bounds [of z] by (simp add: y_def)
  show ?thesis
  proof (cases "q = 11")
    case True
    have m2: "civil_month z = 2" using mth True by simp
    have last: "y = 365 \<Longrightarrow> leap_year (civil_year z)"
    proof -
      assume "y = 365"
      then have c: "in4 z = 365 * cyc1 z + 365" by (simp add: y_def year_day_def)
      then have c1: "cyc1 z = 3" using in4_bounds [of z] cyc1_bounds [of z] by (simp add: cyc1_def min_def split: if_splits)
      with c have "in4 z = 1460" by simp
      then have i: "in100 z = 1461 * cyc4 z + 1460" unfolding cyc4_def in4_def by (metis add.commute div_mult_mod_eq mult.commute)
      have yr: "civil_year z = 400 * cyc400 z + 100 * cyc100 z + 4 * (cyc4 z + 1)" by (simp add: civil_year_def m2 c1)
      show "leap_year (civil_year z)"
      proof (cases "cyc4 z = 24")
        case True
        then have "in100 z = 36524" using i by simp
        then have "(z + 719468) mod 146097 = 36524 * (cyc100 z + 1)" by (simp add: in100_def)
        then have "cyc100 z = 3" unfolding cyc100_def min_def by (auto split: if_splits)
        with True yr have "civil_year z = 400 * (cyc400 z + 1)" by simp
        then show ?thesis by (simp add: leap_year_def)
      next
        case False
        then have b: "1 \<le> cyc4 z + 1" "cyc4 z + 1 \<le> 24" using cyc4_bounds [of z] by simp_all
        have "civil_year z = 4 * (cyc4 z + 1) + 100 * (4 * cyc400 z + cyc100 z)" using yr by simp
        then have "civil_year z mod 100 = 4 * (cyc4 z + 1) mod 100" by (simp only: mod_mult_self2)
        then have "civil_year z mod 100 = 4 * (cyc4 z + 1)" using b by simp
        then have "civil_year z mod 100 \<noteq> 0" using b by simp
        moreover have "civil_year z = 4 * (100 * cyc400 z + 25 * cyc100 z + cyc4 z + 1)" using yr by simp
        then have "civil_year z mod 4 = 0" by simp
        ultimately show ?thesis by (simp add: leap_year_def)
      qed
    qed
    have "civil_day z = y - 336" using d True by simp
    then show ?thesis using last y365 m2 by (cases "y = 365") (simp_all add: days_in_def)
  next
    case False
    then have "q \<in> {0, 1, 2, 3, 4, 5, 6, 7, 8, 9, 10}"
      using q(2,3) by (simp del: q(1)) presburger
    then show ?thesis using up d mth by (auto simp: days_in_def)
  qed
qed

lemma fmt_0d_2: "0 \<le> v \<Longrightarrow> v < 100 \<Longrightarrow> \<exists>a b. fmt_0d 2 v = [a, b] \<and> is_digit a \<and> is_digit b \<and> 10 * digit_val a + digit_val b = v"
proof -
  assume v: "0 \<le> v" "v < 100"
  have l: "length (fmt_0d 2 v) = 2" using v by (intro length_fmt_0d) simp_all
  then obtain a b where ab: "fmt_0d 2 v = [a, b]" by (cases "fmt_0d 2 v") (auto simp: length_Suc_conv numeral_2_eq_2)
  with fmt_0d_digits [of v 2] fmt_0d_value [of v 2] v show ?thesis by (auto simp: digits_val_Cons)
qed

lemma getnum_2: "0 \<le> v \<Longrightarrow> v < 100 \<Longrightarrow> getnum fixed (fmt_0d 2 v @ r) = Some (v, r)"
  using fmt_0d_2 by fastforce

lemma getyear_4: "0 \<le> v \<Longrightarrow> v < 10000 \<Longrightarrow> getyear (fmt_0d 4 v @ r) = Some (v, r)"
proof -
  assume v: "0 \<le> v" "v < 10000"
  have "length (fmt_0d 4 v) = 4" using v by (intro length_fmt_0d) simp_all
  then show ?thesis using fmt_0d_digits [of v 4] fmt_0d_value [of v 4] v by (simp add: getyear_def)
qed

lemma scan_format_day:
  assumes "0 \<le> civil_year z" "civil_year z < 10000"
  shows "scan_date (format_day z @ r) = Some (z, r)"
proof -
  note m = civil_month_bounds [of z] and d = civil_day_bounds [of z]
  have 1: "getyear (format_day z @ r) = Some (civil_year z, ''-'' @ fmt_0d 2 (civil_month z) @ ''-'' @ fmt_0d 2 (civil_day z) @ r)"
    using getyear_4 [OF assms] by (simp add: format_day_def)
  have 2: "getrange True 1 12 (fmt_0d 2 (civil_month z) @ s) = Some (civil_month z, s)" for s
    using m getnum_2 [of "civil_month z"] by (simp add: getrange_def)
  have 3: "getnum True (fmt_0d 2 (civil_day z) @ r) = Some (civil_day z, r)" using d by (intro getnum_2) simp_all
  show ?thesis
    unfolding scan_date_def 1 using 2 3 d civil_day_days_in [of z] day_of_civil [of z] by (simp add: skip_byte_def)
qed

lemma parse_format_day: "0 \<le> civil_year z \<Longrightarrow> civil_year z < 10000 \<Longrightarrow> parse_date (format_day z) = Some z"
  using scan_format_day [of z "[]"] by (simp add: parse_date_def)

end
