(* ===== verification/Intake.thy ===== *)
theory Intake
  imports Handlers Canonical Instants
begin

text \<open>
  The handlers that take in an order and a payment (Create of internal/handlers/orders.go, Record of payments.go):
  the idempotency key of the header, the decoded body, and the SHA-256 of its canonical text, which the catalogs store
  and compare when a key comes back. The canonical text of a decoded body determines the body.
\<close>

section \<open>Requests\<close>

record createOrderItemRequest =
  jq_ServiceID :: "i64 option"
  jq_Quantity :: "string option"
  jq_Notes :: "string option"

record createOrderRequest =
  oq_OutletID :: "i64 option"
  oq_CustomerID :: "i64 option"
  oq_PerfumeID :: "i64 option"
  oq_DueAt :: "string option"
  oq_Notes :: "string option"
  oq_Items :: "createOrderItemRequest list"

record recordPaymentRequest =
  yq_Amount :: "i64 option"
  yq_Method :: "string option"
  yq_ExternalReference :: "string option"
  yq_Notes :: "string option"

text \<open>orderIdempotencyKeyPattern.\<close>

definition key_char :: "char \<Rightarrow> bool" where
  "key_char c \<longleftrightarrow> in_range 65 90 c \<or> in_range 97 122 c \<or> is_digit c \<or> c \<in> {CHR ''.'', CHR ''_'', CHR '':'', CHR ''-''}"

definition idempotency_key :: "string \<Rightarrow> bool" where
  "idempotency_key key \<longleftrightarrow> 1 \<le> length key \<and> length key \<le> 128 \<and> list_all key_char key"

section \<open>Canonical texts\<close>

definition item_json :: "createOrderItemRequest \<Rightarrow> string" where
  "item_json q = ''{'' @ json_key ''serviceId'' @ json_opt show_int (jq_ServiceID q)
     @ '','' @ json_key ''quantity'' @ json_opt json_string (jq_Quantity q)
     @ '','' @ json_key ''notes'' @ json_opt json_string (jq_Notes q) @ ''}''"

definition order_json :: "createOrderRequest \<Rightarrow> string" where
  "order_json q = ''{'' @ json_key ''outletId'' @ json_opt show_int (oq_OutletID q)
     @ '','' @ json_key ''customerId'' @ json_opt show_int (oq_CustomerID q)
     @ '','' @ json_key ''perfumeId'' @ json_opt show_int (oq_PerfumeID q)
     @ '','' @ json_key ''dueAt'' @ json_opt json_string (oq_DueAt q)
     @ '','' @ json_key ''notes'' @ json_opt json_string (oq_Notes q)
     @ '','' @ json_key ''items'' @ json_array item_json (oq_Items q) @ ''}''"

definition payment_json :: "recordPaymentRequest \<Rightarrow> string" where
  "payment_json q = ''{'' @ json_key ''amount'' @ json_opt show_int (yq_Amount q)
     @ '','' @ json_key ''method'' @ json_opt json_string (yq_Method q)
     @ '','' @ json_key ''externalReference'' @ json_opt json_string (yq_ExternalReference q)
     @ '','' @ json_key ''notes'' @ json_opt json_string (yq_Notes q) @ ''}''"

text \<open>sha256.Sum256 of a text, as bytes.\<close>

definition request_hash :: "primitives \<Rightarrow> string \<Rightarrow> string" where
  "request_hash en text = map char_of (en_sha256 en text)"

section \<open>Orders\<close>

definition due_time :: "string option \<Rightarrow> http_error + zoned option" where
  "due_time raw = (case raw of None \<Rightarrow> Inr None
     | Some s \<Rightarrow> (case parse_rfc3339 s of None \<Rightarrow> Inl (BadRequest ''INVALID_DUE_AT'') | Some t \<Rightarrow> Inr (Some t)))"

fun item_inputs :: "createOrderItemRequest list \<Rightarrow> http_error + OrderItemInput list" where
  "item_inputs [] = Inr []"
| "item_inputs (q # qs) =
     (case (jq_ServiceID q, jq_Quantity q) of
        (Some service, Some quantity) \<Rightarrow>
          (case item_inputs qs of
             Inl e \<Rightarrow> Inl e
           | Inr rest \<Rightarrow> Inr (\<lparr>in_ServiceID = service, in_Quantity = quantity, in_Notes = jq_Notes q\<rparr> # rest))
      | _ \<Rightarrow> Inl (BadRequest ''INVALID_ORDER''))"

definition order_input :: "primitives \<Rightarrow> string \<Rightarrow> createOrderRequest \<Rightarrow> http_error + CreateOrderInput" where
  "order_input en key req =
     (case (oq_OutletID req, oq_CustomerID req) of
        (Some outlet, Some customer) \<Rightarrow>
          (if oq_Items req = [] then Inl (BadRequest ''INVALID_ORDER'')
           else case due_time (oq_DueAt req) of
             Inl e \<Rightarrow> Inl e
           | Inr due \<Rightarrow>
              (case item_inputs (oq_Items req) of
                 Inl e \<Rightarrow> Inl e
               | Inr items \<Rightarrow>
                   Inr \<lparr>ci_OutletID = outlet, ci_CustomerID = customer, ci_PerfumeID = oq_PerfumeID req, ci_DueAt = due,
                        ci_Notes = oq_Notes req, ci_Items = items, ci_IdempotencyKey = key,
                        ci_RequestHash = request_hash en (order_json req)\<rparr>))
      | _ \<Rightarrow> Inl (BadRequest ''INVALID_ORDER''))"

text \<open>The reply is the order and whether the header Idempotency-Replayed is set.\<close>

definition with_key :: "string \<Rightarrow> (http_error, 'a) m \<Rightarrow> (http_error, 'a) m" where
  "with_key key p = (if idempotency_key key then p else fail (BadRequest ''INVALID_IDEMPOTENCY_KEY''))"

definition OrderHandler_Create ::
  "primitives \<Rightarrow> Principal option \<Rightarrow> client \<Rightarrow> string \<Rightarrow> createOrderRequest body \<Rightarrow> (http_error, Order \<times> bool) m" where
  "OrderHandler_Create en who c key body = with_principal who (\<lambda>p. with_key key (with_body ''INVALID_REQUEST'' body (\<lambda>req.
     case order_input en key req of
       Inl e \<Rightarrow> fail e
     | Inr input \<Rightarrow> tbind (on_err orderError (OrderCatalog_Create (orderActor p c) input)) (\<lambda>result.
         ret (ocr_Order result, ocr_Replayed result)))))"

section \<open>Payments\<close>

definition payment_input :: "primitives \<Rightarrow> string \<Rightarrow> recordPaymentRequest \<Rightarrow> RecordPaymentInput option" where
  "payment_input en key req =
     (case (yq_Amount req, yq_Method req) of
        (Some amount, Some meth) \<Rightarrow>
          Some \<lparr>ri_TenderedAmount = amount, ri_Method = meth, ri_ExternalReference = yq_ExternalReference req,
                ri_Notes = yq_Notes req, ri_IdempotencyKey = key, ri_RequestHash = request_hash en (payment_json req)\<rparr>
      | _ \<Rightarrow> None)"

definition PaymentHandler_Record ::
  "primitives \<Rightarrow> Principal option \<Rightarrow> client \<Rightarrow> string \<Rightarrow> string \<Rightarrow> recordPaymentRequest body \<Rightarrow> (http_error, PaymentRecordResult) m" where
  "PaymentHandler_Record en who c rawOrder key body = with_principal who (\<lambda>p. with_id rawOrder (\<lambda>orderID. with_key key
     (with_required ''INVALID_PAYMENT'' body (payment_input en key) (\<lambda>req input.
        on_err paymentError (PaymentCatalog_Record (orderActor p c) orderID input)))))"

section \<open>The canonical text determines the request\<close>

text \<open>encoding/json decodes every string to UTF-8.\<close>

abbreviation text_opt :: "string option \<Rightarrow> bool" where
  "text_opt \<equiv> pred_option utf8_valid"

definition item_decoded :: "createOrderItemRequest \<Rightarrow> bool" where
  "item_decoded q \<longleftrightarrow> text_opt (jq_Quantity q) \<and> text_opt (jq_Notes q)"

definition order_decoded :: "createOrderRequest \<Rightarrow> bool" where
  "order_decoded q \<longleftrightarrow> text_opt (oq_DueAt q) \<and> text_opt (oq_Notes q) \<and> list_all item_decoded (oq_Items q)"

definition payment_decoded :: "recordPaymentRequest \<Rightarrow> bool" where
  "payment_decoded q \<longleftrightarrow> text_opt (yq_Method q) \<and> text_opt (yq_ExternalReference q) \<and> text_opt (yq_Notes q)"

lemma punctuation [simp]: "\<not> is_digit CHR '',''" "\<not> is_digit CHR ''}''" "\<not> is_digit CHR '']''"
  by (simp_all add: is_digit_def)

lemma int_then [simp]:
  "json_opt show_int x @ CHR '','' # r = json_opt show_int y @ CHR '','' # r' \<longleftrightarrow> x = y \<and> r = r'"
  using json_ints.opt_unique [of x y "CHR '','' # r" "CHR '','' # r'"] by (cases x; cases y; auto)

lemma text_then [simp]:
  assumes "text_opt x" "text_opt y"
  shows "json_opt json_string x @ CHR '','' # r = json_opt json_string y @ CHR '','' # r' \<longleftrightarrow> x = y \<and> r = r'"
    and "json_opt json_string x @ CHR ''}'' # r = json_opt json_string y @ CHR ''}'' # r' \<longleftrightarrow> x = y \<and> r = r'"
    and "json_opt json_string x = json_opt json_string y \<longleftrightarrow> x = y"
proof -
  show "json_opt json_string x @ CHR '','' # r = json_opt json_string y @ CHR '','' # r' \<longleftrightarrow> x = y \<and> r = r'"
    using json_strings.opt_unique [OF assms, of "CHR '','' # r" "CHR '','' # r'"] by auto
  show "json_opt json_string x @ CHR ''}'' # r = json_opt json_string y @ CHR ''}'' # r' \<longleftrightarrow> x = y \<and> r = r'"
    using json_strings.opt_unique [OF assms, of "CHR ''}'' # r" "CHR ''}'' # r'"] by auto
  show "json_opt json_string x = json_opt json_string y \<longleftrightarrow> x = y"
    using json_strings.opt_unique [OF assms, of "[]" "[]"] by auto
qed

interpretation json_items: json_code item_json item_decoded
  by unfold_locales (auto simp: item_json_def item_decoded_def)

lemma items_then:
  "list_all item_decoded xs \<Longrightarrow> list_all item_decoded ys \<Longrightarrow>
   json_array item_json xs = json_array item_json ys \<longleftrightarrow> xs = ys"
  using json_items.array_unique [of xs ys "[]" "[]"] by auto

lemma order_json_inj: "order_decoded x \<Longrightarrow> order_decoded y \<Longrightarrow> order_json x = order_json y \<Longrightarrow> x = y"
  by (simp add: order_decoded_def order_json_def items_then)

lemma payment_json_inj: "payment_decoded x \<Longrightarrow> payment_decoded y \<Longrightarrow> payment_json x = payment_json y \<Longrightarrow> x = y"
  by (simp add: payment_decoded_def payment_json_def)

section \<open>What a success says\<close>

lemma parsed_Inr [run_inv]:
  "(case parsed of Inl e \<Rightarrow> fail e | Inr v \<Rightarrow> f v) w = (Inr x, w') \<longleftrightarrow> (\<exists>v. parsed = Inr v \<and> f v w = (Inr x, w'))"
  by (auto simp: fail_run split: sum.splits)

lemma with_key_Inr [run_inv]: "with_key key p w = (Inr x, w') \<longleftrightarrow> idempotency_key key \<and> p w = (Inr x, w')"
  by (simp add: with_key_def fail_run)

lemma order_input_Inr:
  assumes "order_input en key req = Inr input"
  shows "oq_OutletID req = Some (ci_OutletID input)" "ci_IdempotencyKey input = key"
    "ci_RequestHash input = request_hash en (order_json req)"
  using assms by (auto simp: order_input_def split: option.splits sum.splits if_splits)

lemma payment_input_Some:
  assumes "payment_input en key req = Some input"
  shows "yq_Amount req = Some (ri_TenderedAmount input)" "ri_IdempotencyKey input = key"
    "ri_RequestHash input = request_hash en (payment_json req)"
  using assms by (auto simp: payment_input_def split: option.splits)

lemma OrderHandler_Create_Inr:
  assumes "OrderHandler_Create en who c key body w = (Inr (x, replayed), w')"
  obtains p req input result where "who = Some p" "idempotency_key key" "decodeManagementJSON body = Inr req"
    "order_input en key req = Inr input" "OrderCatalog_Create (orderActor p c) input w = (Inr result, w')"
    "x = ocr_Order result" "replayed = ocr_Replayed result"
  using assms unfolding OrderHandler_Create_def by (auto simp: run_inv)

lemma PaymentHandler_Record_Inr:
  assumes "PaymentHandler_Record en who c raw key body w = (Inr result, w')"
  obtains p i req input where "who = Some p" "pathID raw = Some i" "idempotency_key key" "decodeManagementJSON body = Inr req"
    "payment_input en key req = Some input" "PaymentCatalog_Record (orderActor p c) i input w = (Inr result, w')"
  using assms unfolding PaymentHandler_Record_def by (auto simp: run_inv)

end
