(* ===== verification/Intake_Properties.thy ===== *)
theory Intake_Properties
  imports Intake Ledger_Properties Session_Sample
begin

text \<open>
  A key is bound to one request: what the handlers store under an idempotency key, and that a key which comes
  back with another body is refused, unless two canonical texts have the same SHA-256.
\<close>

section \<open>The sample request\<close>

definition desk_principal :: "i64 \<Rightarrow> string \<Rightarrow> Principal" where
  "desk_principal i role = \<lparr>pc_UserID = i, pc_BusinessID = 1, pc_SessionID = 1, pc_Email = ''u'', pc_FullName = ''User'',
     pc_Role = role, pc_OutletIDs = [1], pc_Permissions = []\<rparr>"

definition order_request :: createOrderRequest where
  "order_request = \<lparr>oq_OutletID = Some 1, oq_CustomerID = Some 1, oq_PerfumeID = Some 1, oq_DueAt = None, oq_Notes = None,
     oq_Items = [\<lparr>jq_ServiceID = Some 1, jq_Quantity = Some ''2.5'', jq_Notes = None\<rparr>,
                 \<lparr>jq_ServiceID = Some 2, jq_Quantity = Some ''3'', jq_Notes = None\<rparr>]\<rparr>"

definition payment_request :: recordPaymentRequest where
  "payment_request = \<lparr>yq_Amount = Some 20000, yq_Method = Some ''CASH'', yq_ExternalReference = None, yq_Notes = None\<rparr>"

definition request_input :: CreateOrderInput where
  "request_input = sample_order\<lparr>ci_RequestHash := request_hash sample_en (order_json order_request)\<rparr>"

lemma request_parsed: "order_decoded order_request" "order_input sample_en ''k1'' order_request = Inr request_input"
  by (simp_all add: order_decoded_def item_decoded_def order_request_def order_input_def request_input_def sample_order_def
      due_time_def) (simp_all add: utf8_valid.simps rune_len_def)

lemma request_key: "idempotency_key ''k1''" "idempotency_key ''p1''"
  by code_simp+

lemma request_input_fits: "order_fits sample_world admin request_input"
proof -
  have "Create_guard admin request_input = None" by code_simp
  then show ?thesis using sample_order_fits by (simp add: order_fits_def request_input_def)
qed

lemma sample_actors: "orderActor (desk_principal i role) sample_client = sample_actor i role"
  by (simp add: orderActor_def desk_principal_def sample_client_def sample_actor_def)

lemma request_taken:
  "\<exists>x w'. OrderHandler_Create sample_en (Some (desk_principal 1 ''ADMIN'')) sample_client ''k1'' (Inr order_request, Inl EndOfBody)
     sample_world = (Inr (x, False), w')"
proof -
  obtain lines where "price_lines admin 0 (ci_Items request_input) sample_world = (Inr (lines, 32500), sample_world)"
    using sample_priced by (auto simp: request_input_def)
  moreover have "audit_fits (data sample_world) admin (ci_OutletID request_input)"
    using sample_audit_fits by (simp add: request_input_def sample_order_def)
  ultimately obtain res w' where "OrderCatalog_Create admin request_input sample_world = (Inr res, w')" "\<not> ocr_Replayed res"
    using Create_succeeds [OF sample_calm reachable_ok [OF sample_reachable] request_input_fits sample_master]
    by (auto simp: places_def)
  then show ?thesis
    by (simp add: OrderHandler_Create_def with_principal_def with_key_def request_key with_body_def decodeManagementJSON_def
        request_parsed sample_actors tbind_def on_err_def ret_def)
qed

text \<open>An offset of 24 hours is read but cannot be written; one minute less can.\<close>

lemma due_examples:
  "due_time (Some ''2030-01-01T00:00:00+24:00'') = Inr (Some \<lparr>zt_at = 1893369600000000, zt_offset = 86400\<rparr>)"
  "\<not> json_time_ok \<lparr>zt_at = 1893369600000000, zt_offset = 86400\<rparr>"
  "json_time_ok \<lparr>zt_at = 1893369600000000, zt_offset = 86340\<rparr>"
  by code_simp+

section \<open>Orders\<close>

text \<open>C3: Whatever order the handler answers with, new or replayed, is stored under the key of the header with the hash
  of this request; a replay changes nothing; and any other request whose hash is the stored one would be a collision of SHA-256
  on two different canonical texts: a key that comes back with another body is not answered with the order.\<close>

theorem order_bound_to_request:
  assumes "reachable w" and "decodeManagementJSON body = Inr req" and "order_decoded req"
    and "OrderHandler_Create en (Some p) c key body w = (Inr (x, replayed), w')"
  shows "\<exists>r \<in> set (orders (data w')). od_ID x = o_id r \<and> o_business_id r = pc_BusinessID p
    \<and> oq_OutletID req = Some (o_outlet_id r) \<and> o_idempotency_key r = Some key
    \<and> o_request_hash r = Some (request_hash en (order_json req)) \<and> (replayed \<longrightarrow> data w' = data w)
    \<and> (\<forall>other. order_decoded other \<and> o_request_hash r = Some (request_hash en (order_json other)) \<longrightarrow> other = req
         \<or> (order_json other \<noteq> order_json req \<and> request_hash en (order_json other) = request_hash en (order_json req)))"
proof -
  obtain input result where i: "order_input en key req = Inr input"
    and run: "OrderCatalog_Create (orderActor p c) input w = (Inr result, w')"
    and x: "x = ocr_Order result" "replayed = ocr_Replayed result"
    using OrderHandler_Create_Inr [OF assms(4)] assms(2) by (metis Inr_inject option.inject)
  note I = order_input_Inr [OF i]
  have "\<exists>r. r \<in> set (orders (data w')) \<and> od_ID x = o_id r \<and> o_business_id r = pc_BusinessID p \<and> o_outlet_id r = ci_OutletID input
     \<and> o_idempotency_key r = Some key \<and> o_request_hash r = Some (request_hash en (order_json req)) \<and> (replayed \<longrightarrow> data w' = data w)"
  proof (cases "\<exists>r. replays (data w) (orderActor p c) input result r")
    case True
    with Create_ends [OF reachable_ok [OF assms(1)] run] show ?thesis
      by (auto simp: replays_def places_def order_from_def x I orderActor_def)
  next
    case False
    with Create_ends [OF reachable_ok [OF assms(1)] run] obtain r xs where
      pl: "places (data w) (orderActor p c) input result r xs (data w')" by blast
    then have "r \<in> set (orders (data w'))" using placed_effect(1) by (auto simp: places_def)
    with pl show ?thesis by (auto simp: places_def order_from_def x I orderActor_def)
  qed
  then show ?thesis using I(1) order_json_inj [OF _ assms(3)] by auto
qed

theorem order_bound_to_request_witness:
  "\<exists>x w' r. OrderHandler_Create sample_en (Some (desk_principal 1 ''ADMIN'')) sample_client ''k1''
       (Inr order_request, Inl EndOfBody) sample_world = (Inr (x, False), w')
     \<and> r \<in> set (orders (data w')) \<and> o_request_hash r = Some (request_hash sample_en (order_json order_request))"
proof -
  have "decodeManagementJSON (Inr order_request, Inl EndOfBody) = Inr order_request" by (simp add: decodeManagementJSON_def)
  with request_taken order_bound_to_request [OF sample_reachable _ request_parsed(1)] show ?thesis by blast
qed

section \<open>Payments\<close>

text \<open>A new order takes the next number of its sequence.\<close>

lemma creation_id:
  assumes "Create_body a input w = (Inr res, w')" and "\<not> ocr_Replayed res"
  shows "od_ID (ocr_Order res) = seqs w TOrders"
proof -
  obtain outlet u found v where ol: "Create_outlet a input w = (Inr outlet, u)"
    and look: "GetOrderByIdempotencyKey (a_business_id a) (ci_OutletID input) (ci_IdempotencyKey input) u = (found, v)"
    and fin: "(case found of Inr existing \<Rightarrow> Create_replay input existing
       | Inl e \<Rightarrow> if e = NoRows then Create_new a input outlet else fail (Sql e)) v = (Inr res, w')"
    using assms(1) unfolding Create_body_def by (auto simp: run_inv)
  have "Create_new a input outlet v = (Inr res, w')"
    using fin assms(2) unfolding Create_replay_def
    by (cases found) (auto simp: run_inv split: if_splits prod.splits)
  then obtain c x pf y lines amount z where
    cu: "GetActiveOrderCustomer (a_business_id a) (ci_CustomerID input) v = (Inr c, x)"
    and pf: "Create_perfume a input x = (Inr pf, y)"
    and pl: "price_lines a 0 (ci_Items input) y = (Inr (lines, amount), z)"
    and wr: "Create_write a input outlet pf lines amount z = (Inr res, w')"
    unfolding Create_new_def by (auto simp: run_inv split: prod.splits)
  from wr obtain received day u' day' n v' r xx xs yy h zz au t od where tm: "GetOrderTime z = (Inr (received, day), u')"
    and al: "AllocateInvoiceNumber (a_business_id a) (ci_OutletID input) day u' = (Inr (day', n), v')"
    and cr: "CreateOrder (create_order_params a input outlet received
        (invoice_number (out_code outlet) day' n) amount) v' = (Inr r, xx)"
    and "each (create_line a input pf r) lines xx = (Inr xs, yy)"
    and "CreateInitialOrderStatus (a_business_id a) (ci_OutletID input) (o_id r) (a_user_id a) yy = (Inr h, zz)"
    and "InsertOrderAuditLog (a_business_id a) (Some (ci_OutletID input)) (Some (a_user_id a)) (Some (o_id r))
              (create_audit_values input (snd pf) (invoice_number (out_code outlet) day' n) amount lines)
              (a_ip a) (audit_user_agent (a_user_agent a)) zz = (Inr au, t)"
    and od: "loadOrder r (out_timezone outlet) t = (Inr od, w')" "res = \<lparr>ocr_Order = od, ocr_Replayed = False\<rparr>"
    unfolding Create_write_def by (auto simp: run_inv Let_def split: prod.splits if_splits)
  have "same_data w u'"
    using readsD [OF create_steps_read(2) ol] readsD [OF order_queries_read(8) look] readsD [OF order_queries_read(4) cu]
      readsD [OF create_steps_read(4) pf] readsD [OF price_lines_reads pl] readsD [OF order_queries_read(7) tm]
    by (blast intro: same_data_trans)
  then have "seqs v' TOrders = seqs w TOrders" using allocate_Inr [OF al] by (simp add: same_data_def)
  moreover have "o_id r = seqs v' TOrders"
    using insert_serial_Inr [OF cr [unfolded CreateOrder_def insert_order_def Let_def]] by simp
  ultimately show ?thesis using loadOrder_Inr [OF od(1)] od(2) by (simp add: order_from_def)
qed

lemma placed_first: "o_id placed_order = 1"
proof -
  obtain res where run: "OrderCatalog_Create admin sample_order sample_world = (Inr res, world_placed)"
    and pl: "\<exists>r xs. places (data sample_world) admin sample_order res r xs (data world_placed)"
    using sample_created by blast
  have new: "od_ID (ocr_Order res) = o_id placed_order" "\<not> ocr_Replayed res"
    using pl by (auto simp: places_def order_from_def placed_order_def sample_defs dest!: placed_effect(1))
  have "in_tx (Create_body admin sample_order) sample_world = (Inr res, world_placed)"
    using run unfolding OrderCatalog_Create_def by (auto split: option.splits simp: fail_run)
  then obtain u v where "same_data sample_world u" "Create_body admin sample_order u = (Inr res, v)"
    by (rule with_tx_Inr)
  with creation_id [OF this(2) new(2)] new(1) show ?thesis by (simp add: same_data_def sample_world_def)
qed

lemma payment_taken:
  "\<exists>x w'. PaymentHandler_Record sample_en (Some (desk_principal 2 ''LAUNDRY_STAFF'')) sample_client ''1'' ''p1''
     (Inr payment_request, Inl EndOfBody) world_placed = (Inr x, w')"
proof -
  let ?input = "sample_payment\<lparr>ri_RequestHash := request_hash sample_en (payment_json payment_request)\<rparr>"
  have "32 \<le> length (payment_json payment_request)" by (simp add: payment_json_def json_key_def)
  then have len: "length (ri_RequestHash ?input) = 32" by (simp add: request_hash_def sample_en_def)
  have parsed: "payment_input sample_en ''p1'' payment_request = Some ?input"
    by (simp add: payment_input_def payment_request_def sample_payment_def)
  have "Record_guard staff (o_id placed_order) sample_payment = None" "payment_fits (data world_placed) placed_order sample_payment"
    by (simp_all add: Record_guard_def sample_payment_def sample_actor_def validPaymentMethod_def exceedsPaymentTextLimit_def
        placed_first payment_fits_def placed_facts pg_text_def pg_text_opt_def rune_len_def blank_def)
  then have "Record_guard staff (o_id placed_order) ?input = None" "payment_fits (data world_placed) placed_order ?input"
    using len by (auto simp: Record_guard_def payment_fits_def split: if_splits)
  moreover have "is_int64 (ri_TenderedAmount ?input)" "ri_Method ?input = ''CASH''"
    by (simp_all add: sample_payment_def is_int64_def)
  moreover have "may_operate (data world_placed) staff placed_order"
      "audit_fits (data world_placed) staff (o_outlet_id placed_order)"
    using placed_may placed_audit_fits by blast+
  moreover have "o_status placed_order \<noteq> ''CANCELLED''"
      "paid_on (data world_placed) placed_order < o_total_amount placed_order"
    by (simp_all add: placed_facts placed_unpaid)
  ultimately obtain x w' where "PaymentCatalog_Record staff 1 ?input world_placed = (Inr x, w')"
    using Record_succeeds [OF world_placed_calm world_placed_ok, of staff placed_order ?input] placed_unpaid(2)
    unfolding placed_first by blast
  moreover have "pathID ''1'' = Some 1" by code_simp
  ultimately show ?thesis
    by (simp add: PaymentHandler_Record_def with_principal_def with_id_def with_key_def request_key with_required_def with_body_def
        decodeManagementJSON_def parsed sample_actors on_err_def)
qed

text \<open>C4: Whatever payment the handler answers with is stored under the key of the header with the hash of this request; a
  replay changes nothing; and any other request whose hash is the stored one would be a collision of SHA-256: money is
  not acknowledged for a body that differs from the one that was paid.\<close>

theorem payment_bound_to_request:
  assumes "reachable w" and "decodeManagementJSON body = Inr req" and "payment_decoded req"
    and "pred_option is_int64 (yq_Amount req)"
    and "PaymentHandler_Record en (Some p) c raw key body w = (Inr x, w')"
  shows "\<exists>q \<in> set (payments (data w')). pr_Payment x = paymentFrom q \<and> p_business_id q = pc_BusinessID p
    \<and> pathID raw = Some (p_order_id q) \<and> p_idempotency_key q = Some key
    \<and> p_request_hash q = Some (request_hash en (payment_json req)) \<and> (pr_Replayed x \<longrightarrow> data w' = data w)
    \<and> (\<forall>other. payment_decoded other \<and> p_request_hash q = Some (request_hash en (payment_json other)) \<longrightarrow> other = req
         \<or> (payment_json other \<noteq> payment_json req \<and> request_hash en (payment_json other) = request_hash en (payment_json req)))"
proof -
  obtain i input where i: "pathID raw = Some i" "payment_input en key req = Some input"
    and run: "PaymentCatalog_Record (orderActor p c) i input w = (Inr x, w')"
    using PaymentHandler_Record_Inr [OF assms(5)] assms(2) by (metis Inr_inject option.inject)
  note I = payment_input_Some [OF i(2)]
  have "is_int64 (ri_TenderedAmount input)" using assms(4) I(1) by simp
  from Record_ends [OF reachable_ok [OF assms(1)] this run] have "records (data w) (orderActor p c) i input x (data w')" by auto
  then obtain r q where q: "q \<in> set (payments (data w'))" "payment_of r q" "pr_Payment x = paymentFrom q"
      "p_idempotency_key q = Some key" "p_request_hash q = Some (request_hash en (payment_json req))"
      "pr_Replayed x \<longrightarrow> data w' = data w"
    and r: "may_operate (data w) (orderActor p c) r" "o_id r = i"
    unfolding records_def I using paid_effect(1,2) by fastforce
  have "p_business_id q = pc_BusinessID p" "p_order_id q = i"
    using q(2) r by (auto simp: payment_of_order_def may_operate_def orderActor_def)
  with q show ?thesis using i(1) payment_json_inj [OF _ assms(3)] by (intro bexI [OF _ q(1)]) auto
qed

theorem payment_bound_to_request_witness:
  "\<exists>x w' q. PaymentHandler_Record sample_en (Some (desk_principal 2 ''LAUNDRY_STAFF'')) sample_client ''1'' ''p1''
       (Inr payment_request, Inl EndOfBody) world_placed = (Inr x, w')
     \<and> q \<in> set (payments (data w')) \<and> p_request_hash q = Some (request_hash sample_en (payment_json payment_request))"
proof -
  have d: "decodeManagementJSON (Inr payment_request, Inl EndOfBody) = Inr payment_request" by (simp add: decodeManagementJSON_def)
  have t: "payment_decoded payment_request" "pred_option is_int64 (yq_Amount payment_request)"
    by (simp_all add: payment_decoded_def payment_request_def rune_len_def is_int64_def)
  show ?thesis using payment_taken payment_bound_to_request [OF world_placed_reachable d t] by blast
qed

end
