(* ===== verification/Expense_Queries.thy ===== *)
theory Expense_Queries
  imports Master_Queries Calendar
begin

text \<open>
  The statements of internal/repository/postgresql/expenses.sql.go over the tables of migrations 000005 and 000014:
  the expense categories of a tenant, and its expenses, each of which carries a version that an edit must name
  and raises. Dates are those of Asia/Jakarta.
\<close>

section \<open>Constraints\<close>

definition category_check :: "expense_category_row \<Rightarrow> bool" where
  "category_check r \<longleftrightarrow> btrim (ec_name r) \<noteq> []"

text \<open>expense_categories_business_name_uq, active or not.\<close>

definition category_alike :: "(string \<Rightarrow> string) \<Rightarrow> expense_category_row \<Rightarrow> expense_category_row \<Rightarrow> bool" where
  "category_alike lower r x \<longleftrightarrow> ec_business_id x = ec_business_id r \<and> lower (ec_name x) = lower (ec_name r)"

definition category_taken :: "(string \<Rightarrow> string) \<Rightarrow> db \<Rightarrow> expense_category_row \<Rightarrow> bool" where
  "category_taken lower d r = list_ex (\<lambda>x. ec_id x \<noteq> ec_id r \<and> category_alike lower r x) (expense_categories d)"

definition write_category_error :: "(string \<Rightarrow> string) \<Rightarrow> db \<Rightarrow> expense_category_row \<Rightarrow> pgerr option" where
  "write_category_error lower d r =
     (if \<not> (pg_text (ec_name r) \<and> pg_text_opt (ec_description r)) then Some InvalidText
      else if \<not> category_check r then Some (CheckViolation ''expense_categories'')
      else if category_taken lower d r then Some (UniqueViolation ''expense_categories_business_name_uq'')
      else if \<not> business_exists d (ec_business_id r) then Some (ForeignKeyViolation ''expense_categories_business_id_fkey'')
      else None)"

definition expense_check :: "expense_row \<Rightarrow> bool" where
  "expense_check r \<longleftrightarrow> 0 < ex_amount r \<and> btrim (ex_description r) \<noteq> [] \<and> 0 < ex_version r"

definition category_exists :: "db \<Rightarrow> i64 \<Rightarrow> i64 \<Rightarrow> bool" where
  "category_exists d b i = list_ex (\<lambda>c. ec_business_id c = b \<and> ec_id c = i) (expense_categories d)"

definition write_expense_error :: "db \<Rightarrow> expense_row \<Rightarrow> pgerr option" where
  "write_expense_error d r =
     (if \<not> (pg_text (ex_description r) \<and> pg_text_opt (ex_receipt_reference r)) then Some InvalidText
      else if \<not> is_int64 (ex_version r) then Some OutOfRange
      else if \<not> expense_check r then Some (CheckViolation ''expenses'')
      else if \<not> outlet_exists d (ex_business_id r) (ex_outlet_id r) then Some (ForeignKeyViolation ''expenses_business_id_outlet_id_fkey'')
      else if \<not> category_exists d (ex_business_id r) (ex_category_id r) then Some (ForeignKeyViolation ''expenses_business_id_category_id_fkey'')
      else if \<not> user_exists d (ex_business_id r) (ex_created_by r) then Some (ForeignKeyViolation ''expenses_business_id_created_by_fkey'')
      else None)"

section \<open>Categories\<close>

definition category_matches :: "primitives \<Rightarrow> i64 \<Rightarrow> string \<Rightarrow> bool \<Rightarrow> expense_category_row \<Rightarrow> bool" where
  "category_matches en businessID search includeInactive r \<longleftrightarrow> ec_business_id r = businessID
     \<and> (search = [] \<or> en_ilike en (ec_name r) (''%'' @ search @ ''%'')) \<and> (includeInactive \<or> ec_is_active r)"

definition category_order :: "primitives \<Rightarrow> expense_category_row list \<Rightarrow> expense_category_row list" where
  "category_order en rs = sort_key (\<lambda>r. en_collation en (en_lower en (ec_name r))) (sort_key ec_id rs)"

definition ListExpenseCategories ::
  "primitives \<Rightarrow> i64 \<Rightarrow> string \<Rightarrow> bool \<Rightarrow> i32 \<Rightarrow> i32 \<Rightarrow> (pgerr, expense_category_row list) m" where
  "ListExpenseCategories en businessID search includeInactive pageOffset pageLimit =
     with_text (pg_text search) (limit_offset pageLimit pageOffset (select (\<lambda>n d.
       category_order en (filter (category_matches en businessID search includeInactive) (expense_categories d)))))"

definition CountExpenseCategories :: "primitives \<Rightarrow> i64 \<Rightarrow> string \<Rightarrow> bool \<Rightarrow> (pgerr, i64) m" where
  "CountExpenseCategories en businessID search includeInactive =
     with_text (pg_text search) (only_one (select (\<lambda>n d.
       [int (length (filter (category_matches en businessID search includeInactive) (expense_categories d)))])))"

definition category_is :: "i64 \<Rightarrow> i64 \<Rightarrow> expense_category_row \<Rightarrow> bool" where
  "category_is businessID categoryID r \<longleftrightarrow> ec_business_id r = businessID \<and> ec_id r = categoryID"

definition GetExpenseCategory :: "i64 \<Rightarrow> i64 \<Rightarrow> (pgerr, expense_category_row) m" where
  "GetExpenseCategory businessID categoryID =
     only_one (select (\<lambda>n d. filter (category_is businessID categoryID) (expense_categories d)))"

definition GetExpenseCategoryForUpdate :: "i64 \<Rightarrow> i64 \<Rightarrow> (pgerr, expense_category_row) m" where
  "GetExpenseCategoryForUpdate businessID categoryID =
     only_one (select (\<lambda>n d. filter (category_is businessID categoryID) (expense_categories d)))"

text \<open>Whether a tenant has an active category, outlet or user with the identifier.\<close>

definition active_category :: "db \<Rightarrow> i64 \<Rightarrow> i64 \<Rightarrow> bool" where
  "active_category d b i = list_ex (\<lambda>c. ec_business_id c = b \<and> ec_id c = i \<and> ec_is_active c) (expense_categories d)"

definition active_outlet :: "db \<Rightarrow> i64 \<Rightarrow> i64 \<Rightarrow> bool" where
  "active_outlet d b i = list_ex (\<lambda>x. out_business_id x = b \<and> out_id x = i \<and> out_is_active x) (outlets d)"

definition active_user :: "db \<Rightarrow> i64 \<Rightarrow> i64 \<Rightarrow> bool" where
  "active_user d b i = list_ex (\<lambda>u. u_business_id u = b \<and> u_id u = i \<and> u_is_active u) (users d)"

definition GetActiveExpenseCategory :: "i64 \<Rightarrow> i64 \<Rightarrow> (pgerr, i64) m" where
  "GetActiveExpenseCategory businessID categoryID =
     only_one (select (\<lambda>n d. if active_category d businessID categoryID then [categoryID] else []))"

definition CreateExpenseCategory :: "primitives \<Rightarrow> i64 \<Rightarrow> string \<Rightarrow> string option \<Rightarrow> (pgerr, expense_category_row) m" where
  "CreateExpenseCategory en businessID name description =
     insert_serial TCategories expense_categories (\<lambda>rs d. d\<lparr>expense_categories := rs\<rparr>) (write_category_error (en_lower en))
       (\<lambda>i n d. \<lparr>ec_id = i, ec_business_id = businessID, ec_name = name, ec_description = description,
          ec_is_active = True, ec_created_at = n, ec_updated_at = n\<rparr>)"

definition UpdateExpenseCategory ::
  "primitives \<Rightarrow> i64 \<Rightarrow> i64 \<Rightarrow> string \<Rightarrow> string option \<Rightarrow> bool \<Rightarrow> (pgerr, expense_category_row) m" where
  "UpdateExpenseCategory en businessID categoryID name description isActive =
     only_one (update_rows expense_categories (\<lambda>rs d. d\<lparr>expense_categories := rs\<rparr>) (write_category_error (en_lower en))
       (category_is businessID categoryID)
       (\<lambda>n r. r\<lparr>ec_name := name, ec_description := description, ec_is_active := isActive, ec_updated_at := n\<rparr>))"

section \<open>Expenses\<close>

text \<open>Whether an actor has standing at an outlet: administrators at every one, others where they are assigned.\<close>

definition expense_standing :: "db \<Rightarrow> i64 \<Rightarrow> bool \<Rightarrow> i64 \<Rightarrow> i64 \<Rightarrow> bool" where
  "expense_standing d b isAdmin userID outletID \<longleftrightarrow> active_outlet d b outletID \<and> (isAdmin \<or> assigned d b userID outletID)"

definition expense_is :: "i64 \<Rightarrow> i64 \<Rightarrow> expense_row \<Rightarrow> bool" where
  "expense_is businessID expenseID r \<longleftrightarrow> ex_business_id r = businessID \<and> ex_id r = expenseID"

definition GetExpense :: "i64 \<Rightarrow> i64 \<Rightarrow> bool \<Rightarrow> i64 \<Rightarrow> (pgerr, expense_row) m" where
  "GetExpense businessID expenseID isAdmin userID = only_one (select (\<lambda>n d.
     filter (\<lambda>e. expense_is businessID expenseID e \<and> expense_standing d businessID isAdmin userID (ex_outlet_id e)) (expenses d)))"

definition GetExpenseForUpdate :: "i64 \<Rightarrow> i64 \<Rightarrow> i64 \<Rightarrow> bool \<Rightarrow> (pgerr, expense_row) m" where
  "GetExpenseForUpdate userID businessID expenseID isAdmin = only_one (select (\<lambda>n d.
     filter (\<lambda>e. expense_is businessID expenseID e \<and> expense_standing d businessID isAdmin userID (ex_outlet_id e)
       \<and> active_user d businessID userID) (expenses d)))"

definition LockActiveExpenseOutlet :: "i64 \<Rightarrow> i64 \<Rightarrow> i64 \<Rightarrow> bool \<Rightarrow> (pgerr, i64) m" where
  "LockActiveExpenseOutlet userID businessID outletID isAdmin = only_one (select (\<lambda>n d.
     if expense_standing d businessID isAdmin userID outletID \<and> active_user d businessID userID then [outletID] else []))"

definition LockExpenseOutletAssignment :: "i64 \<Rightarrow> i64 \<Rightarrow> i64 \<Rightarrow> (pgerr, i64) m" where
  "LockExpenseOutletAssignment businessID userID outletID = only_one (select (\<lambda>n d.
     if assigned d businessID userID outletID then [userID] else []))"

text \<open>INSERT ... SELECT ... RETURNING: nothing is inserted where the selection is empty.\<close>

definition insert_where :: "(db \<Rightarrow> bool) \<Rightarrow> (pgerr, 'r) m \<Rightarrow> (pgerr, 'r) m" where
  "insert_where cond p w = (if cond (data w) then p w else stmt (fail NoRows) w)"

definition CreateExpense ::
  "i64 \<Rightarrow> i64 \<Rightarrow> i64 \<Rightarrow> string \<Rightarrow> time \<Rightarrow> string option \<Rightarrow> i64 \<Rightarrow> i64 \<Rightarrow> bool \<Rightarrow> (pgerr, expense_row) m" where
  "CreateExpense businessID categoryID amount description expenseAt receiptReference userID outletID isAdmin =
     insert_where (\<lambda>d. expense_standing d businessID isAdmin userID outletID \<and> active_user d businessID userID
                     \<and> active_category d businessID categoryID)
       (insert_serial TExpenses expenses (\<lambda>rs d. d\<lparr>expenses := rs\<rparr>) write_expense_error
         (\<lambda>i n d. \<lparr>ex_id = i, ex_business_id = businessID, ex_outlet_id = outletID, ex_category_id = categoryID,
            ex_amount = amount, ex_description = description, ex_expense_at = expenseAt,
            ex_receipt_reference = receiptReference, ex_created_by = userID, ex_created_at = n, ex_updated_at = n,
            ex_version = 1\<rparr>))"

text \<open>The edit names the version it read; the row it writes has the next one.\<close>

definition expense_editable :: "db \<Rightarrow> i64 \<Rightarrow> i64 \<Rightarrow> i64 \<Rightarrow> i64 \<Rightarrow> bool \<Rightarrow> i64 \<Rightarrow> expense_row \<Rightarrow> bool" where
  "expense_editable d businessID expenseID expectedVersion userID isAdmin categoryID e \<longleftrightarrow>
     expense_is businessID expenseID e \<and> ex_version e = expectedVersion
     \<and> expense_standing d businessID isAdmin userID (ex_outlet_id e) \<and> active_user d businessID userID
     \<and> active_category d businessID categoryID"

definition expense_with :: "i64 \<Rightarrow> i64 \<Rightarrow> string \<Rightarrow> time \<Rightarrow> string option \<Rightarrow> time \<Rightarrow> expense_row \<Rightarrow> expense_row" where
  "expense_with categoryID amount description expenseAt receiptReference n e =
     e\<lparr>ex_category_id := categoryID, ex_amount := amount, ex_description := description, ex_expense_at := expenseAt,
       ex_receipt_reference := receiptReference, ex_updated_at := n, ex_version := ex_version e + 1\<rparr>"

definition UpdateExpense ::
  "i64 \<Rightarrow> i64 \<Rightarrow> string \<Rightarrow> time \<Rightarrow> string option \<Rightarrow> i64 \<Rightarrow> i64 \<Rightarrow> i64 \<Rightarrow> i64 \<Rightarrow> bool \<Rightarrow> (pgerr, expense_row) m" where
  "UpdateExpense categoryID amount description expenseAt receiptReference businessID expenseID expectedVersion userID isAdmin w =
     only_one (update_rows expenses (\<lambda>rs d. d\<lparr>expenses := rs\<rparr>) write_expense_error
       (expense_editable (data w) businessID expenseID expectedVersion userID isAdmin categoryID)
       (expense_with categoryID amount description expenseAt receiptReference)) w"

definition expense_matches :: "db \<Rightarrow> i64 \<Rightarrow> bool \<Rightarrow> i64 list \<Rightarrow> i64 option \<Rightarrow> date \<Rightarrow> date \<Rightarrow> expense_row \<Rightarrow> bool" where
  "expense_matches d businessID isAdmin outletIds outletID dateFrom dateTo e \<longleftrightarrow> ex_business_id e = businessID
     \<and> active_outlet d businessID (ex_outlet_id e) \<and> (isAdmin \<or> ex_outlet_id e \<in> set outletIds)
     \<and> chosen outletID (ex_outlet_id e)
     \<and> day_start dateFrom \<le> ex_expense_at e \<and> ex_expense_at e < day_start (dateTo + 1)"

definition ListExpenses ::
  "i64 \<Rightarrow> bool \<Rightarrow> i64 list \<Rightarrow> i64 option \<Rightarrow> date \<Rightarrow> date \<Rightarrow> i32 \<Rightarrow> i32 \<Rightarrow> (pgerr, expense_row list) m" where
  "ListExpenses businessID isAdmin outletIds outletID dateFrom dateTo pageOffset pageLimit =
     limit_offset pageLimit pageOffset (select (\<lambda>n d.
       sort_key (\<lambda>e. - ex_expense_at e) (sort_key (\<lambda>e. - ex_id e)
         (filter (expense_matches d businessID isAdmin outletIds outletID dateFrom dateTo) (expenses d)))))"

definition CountExpenses :: "i64 \<Rightarrow> bool \<Rightarrow> i64 list \<Rightarrow> i64 option \<Rightarrow> date \<Rightarrow> date \<Rightarrow> (pgerr, i64) m" where
  "CountExpenses businessID isAdmin outletIds outletID dateFrom dateTo = only_one (select (\<lambda>n d.
     [int (length (filter (expense_matches d businessID isAdmin outletIds outletID dateFrom dateTo) (expenses d)))]))"

section \<open>Audit rows\<close>

definition InsertExpenseAuditLog ::
  "i64 \<Rightarrow> i64 option \<Rightarrow> i64 option \<Rightarrow> string \<Rightarrow> i64 option \<Rightarrow> jval option \<Rightarrow> jval option \<Rightarrow> string option \<Rightarrow>
   string option \<Rightarrow> (pgerr, audit_row) m" where
  "InsertExpenseAuditLog businessID outletID actorUserID action entityID oldValues newValues ipAddress userAgent =
     insert_audit (\<lambda>i n d.
       \<lparr>au_id = i, au_business_id = businessID, au_outlet_id = outletID,
        au_actor_user_id = actorUserID, au_action = action, au_entity_type = ''expense'',
        au_entity_id = entityID, au_old_values = oldValues, au_new_values = newValues,
        au_ip_address = ipAddress, au_user_agent = userAgent, au_occurred_at = n,
        au_actor_platform_admin_id = None, au_support_session_id = None, au_platform_audit_id = None\<rparr>)"

definition InsertExpenseCategoryAuditLog ::
  "i64 \<Rightarrow> i64 option \<Rightarrow> string \<Rightarrow> i64 option \<Rightarrow> jval option \<Rightarrow> jval option \<Rightarrow> string option \<Rightarrow> string option \<Rightarrow>
   (pgerr, audit_row) m" where
  "InsertExpenseCategoryAuditLog businessID actorUserID action entityID oldValues newValues ipAddress userAgent =
     insert_audit (\<lambda>i n d.
       \<lparr>au_id = i, au_business_id = businessID, au_outlet_id = None,
        au_actor_user_id = actorUserID, au_action = action, au_entity_type = ''expense_category'',
        au_entity_id = entityID, au_old_values = oldValues, au_new_values = newValues,
        au_ip_address = ipAddress, au_user_agent = userAgent, au_occurred_at = n,
        au_actor_platform_admin_id = None, au_support_session_id = None, au_platform_audit_id = None\<rparr>)"

section \<open>What the statements leave alone\<close>

lemma expense_queries_read [reads_intro]:
  "reads (ListExpenseCategories en b s inc off lim)" "reads (CountExpenseCategories en b s inc)"
  "reads (GetExpenseCategory b i)" "reads (GetExpenseCategoryForUpdate b i)" "reads (GetActiveExpenseCategory b i)"
  "reads (GetExpense b i ad u)" "reads (GetExpenseForUpdate u b i ad)" "reads (LockActiveExpenseOutlet u b l ad)"
  "reads (LockExpenseOutletAssignment b u l)" "reads (ListExpenses b ad ls lo f t off lim)" "reads (CountExpenses b ad ls lo f t)"
  unfolding ListExpenseCategories_def CountExpenseCategories_def GetExpenseCategory_def GetExpenseCategoryForUpdate_def
    GetActiveExpenseCategory_def GetExpense_def GetExpenseForUpdate_def LockActiveExpenseOutlet_def
    LockExpenseOutletAssignment_def ListExpenses_def CountExpenses_def
  by (intro reads_intro)+

lemmas expense_queries_grow [grows_intro] = expense_queries_read [THEN grows_reads]

lemma grows_where [grows_intro]:
  fixes p :: "(pgerr, 'r) m"
  shows "grows p \<Longrightarrow> grows (insert_where cond p)"
proof (rule growsI)
  fix w r w'
  assume p: "grows p" and run: "insert_where cond p w = (r, w')"
  then have "p w = (r, w') \<or> stmt (fail NoRows) w = (r, w')" by (auto simp: insert_where_def split: if_splits)
  then show "(\<forall>t. seqs w t \<le> seqs w' t) \<and> now w' = now w \<and> wall w' = wall w"
    using growsD [OF p] growsD [OF grows_stmt [OF grows_fail, of NoRows, where 'a = 'r]] by blast
qed

lemma expense_writes_grow [grows_intro]:
  "grows (CreateExpenseCategory en b nm ds)" "grows (UpdateExpenseCategory en b i nm ds ac)"
  "grows (CreateExpense b c am desc at ref u l ad)" "grows (InsertExpenseAuditLog b lo uo act io ov nv ip ua)"
  "grows (InsertExpenseCategoryAuditLog b uo act io ov nv ip ua)"
  unfolding CreateExpenseCategory_def UpdateExpenseCategory_def CreateExpense_def InsertExpenseAuditLog_def
    InsertExpenseCategoryAuditLog_def insert_audit_def
  by (intro grows_intro)+

lemma update_expense_grows [grows_intro]: "grows (UpdateExpense c am ds at ref b i v u ad)"
proof (rule growsI)
  fix w r w'
  assume "UpdateExpense c am ds at ref b i v u ad w = (r, w')"
  then have "only_one (update_rows expenses (\<lambda>rs d. d\<lparr>expenses := rs\<rparr>) write_expense_error
       (expense_editable (data w) b i v u ad c) (expense_with c am ds at ref)) w = (r, w')"
    by (simp add: UpdateExpense_def)
  moreover have "grows (only_one (update_rows expenses (\<lambda>rs d. d\<lparr>expenses := rs\<rparr>) write_expense_error
       (expense_editable (data w) b i v u ad c) (expense_with c am ds at ref)))"
    by (intro grows_intro)
  ultimately show "(\<forall>t. seqs w t \<le> seqs w' t) \<and> now w' = now w \<and> wall w' = wall w" using growsD by blast
qed

end
