(* ===== verification/Expenses.thy ===== *)
theory Expenses
  imports Handlers Expense_Queries Instants
begin

text \<open>
  The expenses of a tenant (internal/handlers/expenses.go): categories, which are renamed, deactivated and reactivated,
  and expenses, which are edited under the version of their ETag. The handlers speak to the queries themselves, each write
  in a transaction with its audit row, which keeps descriptions and references of receipts out.
\<close>

section \<open>Values\<close>

record expenseCategoryRequest =
  kq_Name :: "string option"
  kq_Description :: "string option"
  kq_IsActive :: "bool option"

record expenseRequest =
  eq_OutletID :: "i64 option"
  eq_CategoryID :: "i64 option"
  eq_Amount :: "i64 option"
  eq_Description :: "string option"
  eq_ExpenseAt :: "time option"
  eq_ReceiptReference :: "string option"

record expenseCategoryResponse =
  kr_ID :: i64
  kr_BusinessID :: i64
  kr_Name :: string
  kr_Description :: "string option"
  kr_IsActive :: bool
  kr_CreatedAt :: time
  kr_UpdatedAt :: time

record expenseResponse =
  er_ID :: i64
  er_BusinessID :: i64
  er_OutletID :: i64
  er_CategoryID :: i64
  er_Amount :: i64
  er_Description :: string
  er_ExpenseAt :: time
  er_ReceiptReference :: "string option"
  er_CreatedBy :: i64
  er_CreatedAt :: time
  er_UpdatedAt :: time
  er_Version :: i64

definition expenseCategoryFrom :: "expense_category_row \<Rightarrow> expenseCategoryResponse" where
  "expenseCategoryFrom i = \<lparr>kr_ID = ec_id i, kr_BusinessID = ec_business_id i, kr_Name = ec_name i,
     kr_Description = ec_description i, kr_IsActive = ec_is_active i, kr_CreatedAt = ec_created_at i,
     kr_UpdatedAt = ec_updated_at i\<rparr>"

definition expenseFrom :: "expense_row \<Rightarrow> expenseResponse" where
  "expenseFrom i = \<lparr>er_ID = ex_id i, er_BusinessID = ex_business_id i, er_OutletID = ex_outlet_id i,
     er_CategoryID = ex_category_id i, er_Amount = ex_amount i, er_Description = ex_description i,
     er_ExpenseAt = ex_expense_at i, er_ReceiptReference = ex_receipt_reference i, er_CreatedBy = ex_created_by i,
     er_CreatedAt = ex_created_at i, er_UpdatedAt = ex_updated_at i, er_Version = ex_version i\<rparr>"

definition optionalDBText :: "string option \<Rightarrow> string option" where
  "optionalDBText v = (case v of None \<Rightarrow> None | Some raw \<Rightarrow> let s = trim_space raw in if s = [] then None else Some s)"

definition categoryAuditValues :: "expenseCategoryResponse \<Rightarrow> jval" where
  "categoryAuditValues v = JObj [(''id'', JInt (kr_ID v)), (''name'', JStr (kr_Name v)), (''is_active'', JBool (kr_IsActive v))]"

definition expenseAuditValues :: "expenseResponse \<Rightarrow> jval" where
  "expenseAuditValues v = JObj [(''id'', JInt (er_ID v)), (''outlet_id'', JInt (er_OutletID v)),
     (''category_id'', JInt (er_CategoryID v)), (''amount'', JInt (er_Amount v)), (''expense_at'', JTime (er_ExpenseAt v)),
     (''version'', JInt (er_Version v)), (''description'', JStr ''[REDACTED]''), (''receipt_reference'', JStr ''[REDACTED]'')]"

definition expenseWriteError :: "pgerr \<Rightarrow> http_error" where
  "expenseWriteError e = (case e of UniqueViolation _ \<Rightarrow> conflict ''EXPENSE_CATEGORY_CONFLICT'' | _ \<Rightarrow> Internal)"

text \<open>
  json.Marshal of the audit values fails on a time it cannot write; a time read from a row is in the zone of the server
  process. The values of a category have no times.
\<close>

fun marshals :: "primitives \<Rightarrow> jval \<Rightarrow> bool" where
  "marshals en (JTime t) = json_time_ok \<lparr>zt_at = t, zt_offset = en_offset en t\<rparr>"
| "marshals en (JList vs) = list_all (marshals en) vs"
| "marshals en (JObj kvs) = list_all (\<lambda>kv. marshals en (snd kv)) kvs"
| "marshals en _ = True"

definition marshals_opt :: "primitives \<Rightarrow> jval option \<Rightarrow> bool" where
  "marshals_opt en v = (case v of None \<Rightarrow> True | Some j \<Rightarrow> marshals en j)"

definition writeExpenseAudit ::
  "primitives \<Rightarrow> Principal \<Rightarrow> client \<Rightarrow> string \<Rightarrow> i64 \<Rightarrow> i64 \<Rightarrow> jval option \<Rightarrow> jval option \<Rightarrow> (http_error, audit_row) m" where
  "writeExpenseAudit en p c action i outletID before after =
     (if marshals_opt en before \<and> marshals_opt en after
      then as_internal (InsertExpenseAuditLog (pc_BusinessID p) (Some outletID) (Some (pc_UserID p)) action (Some i) before after
             (cl_address c) (audit_user_agent (cl_user_agent c)))
      else fail Internal)"

definition writeExpenseCategoryAudit ::
  "Principal \<Rightarrow> client \<Rightarrow> string \<Rightarrow> i64 \<Rightarrow> jval option \<Rightarrow> jval option \<Rightarrow> (http_error, audit_row) m" where
  "writeExpenseCategoryAudit p c action i before after =
     as_internal (InsertExpenseCategoryAuditLog (pc_BusinessID p) (Some (pc_UserID p)) action (Some i) before after
       (cl_address c) (audit_user_agent (cl_user_agent c)))"

section \<open>ETags and dates\<close>

definition expenseETag :: "i64 \<Rightarrow> string" where
  "expenseETag version = [CHR 0x22] @ show_int version @ [CHR 0x22]"

definition parseExpenseETag :: "string \<Rightarrow> i64 option" where
  "parseExpenseETag raw =
     (let v = trim_space raw in
      if length v < 3 \<or> v ! 0 \<noteq> CHR 0x22 \<or> v ! (length v - 1) \<noteq> CHR 0x22 then None
      else case parse_int 64 (take (length v - 2) (drop 1 v)) of
             None \<Rightarrow> None
           | Some n \<Rightarrow> if n < 1 then None else Some n)"

text \<open>
  The two dates of a listing; a missing one is the other, and both missing are today in Asia/Jakarta. The source parses a date
  as its midnight in the zone and takes the date of that instant, which is the date again: a midnight the zone skips is read as
  a later time of the same day.
\<close>

definition expenseDateRange :: "time \<Rightarrow> string \<Rightarrow> string \<Rightarrow> (date \<times> date) option" where
  "expenseDateRange instant fromParam toParam =
     (let today = format_day (jakarta_date instant);
          (fromRaw, toRaw) =
            (if fromParam = [] \<and> toParam = [] then (today, today)
             else if fromParam = [] then (toParam, toParam)
             else if toParam = [] then (fromParam, fromParam)
             else (fromParam, toParam))
      in case parse_date fromRaw of
           None \<Rightarrow> None
         | Some from \<Rightarrow>
             (case parse_date toRaw of
                None \<Rightarrow> None
              | Some to \<Rightarrow> if to < from then None else Some (from, to)))"

section \<open>Categories\<close>

definition inactive_filter :: "string \<Rightarrow> http_error + bool" where
  "inactive_filter raw = (if raw = [] then Inr False
     else if raw \<noteq> ''true'' \<and> raw \<noteq> ''false'' then Inl (BadRequest ''INVALID_FILTER'') else Inr (raw = ''true''))"

definition ExpenseHandler_ListCategories ::
  "primitives \<Rightarrow> Principal option \<Rightarrow> string \<Rightarrow> string \<Rightarrow> string \<Rightarrow> string \<Rightarrow>
   (http_error, expenseCategoryResponse list \<times> pageInfo) m" where
  "ExpenseHandler_ListCategories en who rawPage rawSize rawInactive q =
     with_principal who (\<lambda>p. with_page rawPage rawSize (\<lambda>(page, pageSize, offset).
       case inactive_filter rawInactive of Inl e \<Rightarrow> fail e | Inr includeInactive \<Rightarrow>
       (let search = trim_space q in
        tbind (as_internal (ListExpenseCategories en (pc_BusinessID p) search includeInactive offset pageSize)) (\<lambda>items.
        tbind (as_internal (CountExpenseCategories en (pc_BusinessID p) search includeInactive)) (\<lambda>totalItems.
        ret (map expenseCategoryFrom items, pageInfo_of page pageSize totalItems))))))"

definition ExpenseHandler_GetCategory :: "Principal option \<Rightarrow> string \<Rightarrow> (http_error, expenseCategoryResponse) m" where
  "ExpenseHandler_GetCategory who rawID = with_principal who (\<lambda>p. with_id rawID (\<lambda>i.
     tbind (or_not_found (GetExpenseCategory (pc_BusinessID p) i)) (\<lambda>item. ret (expenseCategoryFrom item))))"

text \<open>The trimmed name of a category and its description, or the reply that refuses them.\<close>

definition category_name :: "expenseCategoryRequest \<Rightarrow> string \<Rightarrow> http_error + string" where
  "category_name req raw =
     (let name = trim_space raw in
      if name = [] \<or> rune_count name > 200 then Inl (BadRequest ''INVALID_REQUEST'')
      else if (case kq_Description req of None \<Rightarrow> False | Some s \<Rightarrow> rune_count s > 1000) then Inl (BadRequest ''INVALID_REQUEST'')
      else Inr name)"

definition CreateCategory_body ::
  "primitives \<Rightarrow> Principal \<Rightarrow> client \<Rightarrow> string \<Rightarrow> expenseCategoryRequest \<Rightarrow> (http_error, expenseCategoryResponse) m" where
  "CreateCategory_body en p c name req =
     tbind (on_err expenseWriteError (CreateExpenseCategory en (pc_BusinessID p) name (optionalDBText (kq_Description req)))) (\<lambda>item.
     tbind (writeExpenseCategoryAudit p c ''EXPENSE_CATEGORY_CREATED'' (ec_id item) None
              (Some (categoryAuditValues (expenseCategoryFrom item)))) (\<lambda>_.
     ret (expenseCategoryFrom item)))"

definition ExpenseHandler_CreateCategory ::
  "primitives \<Rightarrow> Principal option \<Rightarrow> client \<Rightarrow> expenseCategoryRequest body \<Rightarrow> (http_error, expenseCategoryResponse) m" where
  "ExpenseHandler_CreateCategory en who c body =
     with_principal who (\<lambda>p. with_required ''INVALID_REQUEST'' body kq_Name (\<lambda>req raw.
       case category_name req raw of Inl e \<Rightarrow> fail e | Inr name \<Rightarrow> with_tx Internal (CreateCategory_body en p c name req)))"

definition category_action :: "bool \<Rightarrow> bool \<Rightarrow> string" where
  "category_action before after =
     (if before \<and> \<not> after then ''EXPENSE_CATEGORY_DEACTIVATED''
      else if \<not> before \<and> after then ''EXPENSE_CATEGORY_REACTIVATED'' else ''EXPENSE_CATEGORY_UPDATED'')"

definition UpdateCategory_body ::
  "primitives \<Rightarrow> Principal \<Rightarrow> client \<Rightarrow> i64 \<Rightarrow> string \<Rightarrow> bool \<Rightarrow> expenseCategoryRequest \<Rightarrow> (http_error, expenseCategoryResponse) m" where
  "UpdateCategory_body en p c i name isActive req =
     tbind (or_not_found (GetExpenseCategoryForUpdate (pc_BusinessID p) i)) (\<lambda>old.
     tbind (on_err expenseWriteError (UpdateExpenseCategory en (pc_BusinessID p) i name (optionalDBText (kq_Description req)) isActive))
       (\<lambda>item.
     tbind (writeExpenseCategoryAudit p c (category_action (ec_is_active old) (ec_is_active item)) i
              (Some (categoryAuditValues (expenseCategoryFrom old))) (Some (categoryAuditValues (expenseCategoryFrom item)))) (\<lambda>_.
     ret (expenseCategoryFrom item))))"

text \<open>An update needs the name and the state.\<close>

definition category_update_fields :: "expenseCategoryRequest \<Rightarrow> (string \<times> bool) option" where
  "category_update_fields req = (case (kq_Name req, kq_IsActive req) of (Some name, Some isActive) \<Rightarrow> Some (name, isActive) | _ \<Rightarrow> None)"

definition ExpenseHandler_UpdateCategory ::
  "primitives \<Rightarrow> Principal option \<Rightarrow> client \<Rightarrow> string \<Rightarrow> expenseCategoryRequest body \<Rightarrow> (http_error, expenseCategoryResponse) m" where
  "ExpenseHandler_UpdateCategory en who c rawID body =
     with_principal who (\<lambda>p. with_id rawID (\<lambda>i. with_required ''INVALID_REQUEST'' body category_update_fields (\<lambda>req (raw, isActive).
       case category_name req raw of Inl e \<Rightarrow> fail e
       | Inr name \<Rightarrow> with_tx Internal (UpdateCategory_body en p c i name isActive req))))"

section \<open>Reading expenses\<close>

definition expense_outlet :: "string \<Rightarrow> http_error + i64 option" where
  "expense_outlet raw = (if raw = [] then Inr None
     else case parse_int 64 raw of None \<Rightarrow> Inl (BadRequest ''INVALID_OUTLET'')
       | Some i \<Rightarrow> if i \<le> 0 then Inl (BadRequest ''INVALID_OUTLET'') else Inr (Some i))"

definition is_owner :: "Principal \<Rightarrow> bool" where
  "is_owner p \<longleftrightarrow> pc_Role p = ''ADMIN''"

definition ExpenseHandler_List ::
  "Principal option \<Rightarrow> string \<Rightarrow> string \<Rightarrow> string \<Rightarrow> string \<Rightarrow> string \<Rightarrow>
   (http_error, expenseResponse list \<times> pageInfo \<times> string \<times> string) m" where
  "ExpenseHandler_List who rawPage rawSize rawFrom rawTo rawOutlet =
     with_principal who (\<lambda>p. with_page rawPage rawSize (\<lambda>(page, pageSize, offset).
       tbind time_now (\<lambda>instant.
       case expenseDateRange instant rawFrom rawTo of None \<Rightarrow> fail (BadRequest ''INVALID_DATE_RANGE'') | Some (from, to) \<Rightarrow>
       (case expense_outlet rawOutlet of Inl e \<Rightarrow> fail e | Inr outletID \<Rightarrow>
        tbind (as_internal (ListExpenses (pc_BusinessID p) (is_owner p) (pc_OutletIDs p) outletID from to offset pageSize)) (\<lambda>items.
        tbind (as_internal (CountExpenses (pc_BusinessID p) (is_owner p) (pc_OutletIDs p) outletID from to)) (\<lambda>totalItems.
        ret (map expenseFrom items, pageInfo_of page pageSize totalItems, format_day from, format_day to)))))))"

definition ExpenseHandler_Get :: "Principal option \<Rightarrow> string \<Rightarrow> (http_error, expenseResponse \<times> string) m" where
  "ExpenseHandler_Get who rawID = with_principal who (\<lambda>p. with_id rawID (\<lambda>i.
     tbind (or_not_found (GetExpense (pc_BusinessID p) i (is_owner p) (pc_UserID p))) (\<lambda>item.
     ret (expenseFrom item, expenseETag (er_Version (expenseFrom item))))))"

section \<open>Writing expenses\<close>

text \<open>The trimmed description, or the reply that refuses the texts of a request.\<close>

definition expense_text :: "expenseRequest \<Rightarrow> string \<Rightarrow> http_error + string" where
  "expense_text req raw =
     (let desc = trim_space raw in
      if desc = [] \<or> rune_count desc > 2000 then Inl (BadRequest ''INVALID_EXPENSE'')
      else if (case eq_ReceiptReference req of None \<Rightarrow> False | Some s \<Rightarrow> rune_count s > 256) then Inl (BadRequest ''INVALID_EXPENSE'')
      else Inr desc)"

definition check_assignment :: "Principal \<Rightarrow> i64 \<Rightarrow> (http_error, unit) m" where
  "check_assignment p outletID =
     (if is_owner p then ret ()
      else tbind (or_not_found (LockExpenseOutletAssignment (pc_BusinessID p) (pc_UserID p) outletID)) (\<lambda>_. ret ()))"

definition check_category :: "Principal \<Rightarrow> i64 \<Rightarrow> (http_error, i64) m" where
  "check_category p categoryID =
     on_err (\<lambda>e. if e = NoRows then conflict ''INACTIVE_EXPENSE_CATEGORY'' else Internal)
       (GetActiveExpenseCategory (pc_BusinessID p) categoryID)"

definition CreateExpense_body ::
  "primitives \<Rightarrow> Principal \<Rightarrow> client \<Rightarrow> i64 \<Rightarrow> i64 \<Rightarrow> i64 \<Rightarrow> string \<Rightarrow> time \<Rightarrow> expenseRequest \<Rightarrow> (http_error, expenseResponse \<times> string) m" where
  "CreateExpense_body en p c outletID categoryID amount desc expenseAt req =
     tbind (or_not_found (LockActiveExpenseOutlet (pc_UserID p) (pc_BusinessID p) outletID (is_owner p))) (\<lambda>_.
     tbind (check_assignment p outletID) (\<lambda>_.
     tbind (check_category p categoryID) (\<lambda>_.
     tbind (on_err (\<lambda>e. if e = NoRows then notFound else expenseWriteError e)
              (CreateExpense (pc_BusinessID p) categoryID amount desc expenseAt (optionalDBText (eq_ReceiptReference req))
                (pc_UserID p) outletID (is_owner p))) (\<lambda>item.
     let r = expenseFrom item in
     tbind (writeExpenseAudit en p c ''EXPENSE_CREATED'' (er_ID r) (er_OutletID r) None (Some (expenseAuditValues r))) (\<lambda>_.
     ret (r, expenseETag (er_Version r)))))))"

definition expense_create_fields :: "expenseRequest \<Rightarrow> (i64 \<times> i64 \<times> i64 \<times> string) option" where
  "expense_create_fields req =
     (case (eq_OutletID req, eq_CategoryID req, eq_Amount req, eq_Description req) of
        (Some outletID, Some categoryID, Some amount, Some raw) \<Rightarrow> Some (outletID, categoryID, amount, raw)
      | _ \<Rightarrow> None)"

definition ExpenseHandler_Create ::
  "primitives \<Rightarrow> Principal option \<Rightarrow> client \<Rightarrow> expenseRequest body \<Rightarrow> (http_error, expenseResponse \<times> string) m" where
  "ExpenseHandler_Create en who c body =
     with_principal who (\<lambda>p. with_required ''INVALID_REQUEST'' body expense_create_fields
       (\<lambda>req (outletID, categoryID, amount, raw).
        if outletID \<le> 0 \<or> categoryID \<le> 0 \<or> amount \<le> 0 then fail (BadRequest ''INVALID_EXPENSE'')
        else case expense_text req raw of Inl e \<Rightarrow> fail e | Inr desc \<Rightarrow>
          tbind time_now (\<lambda>instant.
          let expenseAt = (case eq_ExpenseAt req of None \<Rightarrow> instant | Some t \<Rightarrow> t) in
          with_tx Internal (CreateExpense_body en p c outletID categoryID amount desc expenseAt req))))"

definition UpdateExpense_body ::
  "primitives \<Rightarrow> Principal \<Rightarrow> client \<Rightarrow> i64 \<Rightarrow> i64 \<Rightarrow> i64 \<Rightarrow> i64 \<Rightarrow> string \<Rightarrow> time \<Rightarrow> expenseRequest \<Rightarrow>
   (http_error, expenseResponse \<times> string) m" where
  "UpdateExpense_body en p c i expected categoryID amount desc expenseAt req =
     tbind (or_not_found (GetExpenseForUpdate (pc_UserID p) (pc_BusinessID p) i (is_owner p))) (\<lambda>old.
     if ex_version old \<noteq> expected then fail (conflict ''STALE_EXPENSE'')
     else
       tbind (check_assignment p (ex_outlet_id old)) (\<lambda>_.
       tbind (check_category p categoryID) (\<lambda>_.
       tbind (on_err (\<lambda>e. if e = NoRows then conflict ''STALE_EXPENSE'' else expenseWriteError e)
                (UpdateExpense categoryID amount desc expenseAt (optionalDBText (eq_ReceiptReference req))
                  (pc_BusinessID p) i expected (pc_UserID p) (is_owner p))) (\<lambda>item.
       let before = expenseFrom old; after = expenseFrom item in
       tbind (writeExpenseAudit en p c ''EXPENSE_UPDATED'' i (er_OutletID after) (Some (expenseAuditValues before))
                (Some (expenseAuditValues after))) (\<lambda>_.
       ret (after, expenseETag (er_Version after)))))))"

definition expense_update_fields :: "expenseRequest \<Rightarrow> (i64 \<times> i64 \<times> string \<times> time) option" where
  "expense_update_fields req =
     (case (eq_CategoryID req, eq_Amount req, eq_Description req, eq_ExpenseAt req) of
        (Some categoryID, Some amount, Some raw, Some expenseAt) \<Rightarrow> Some (categoryID, amount, raw, expenseAt)
      | _ \<Rightarrow> None)"

definition with_version :: "string \<Rightarrow> (i64 \<Rightarrow> (http_error, 'a) m) \<Rightarrow> (http_error, 'a) m" where
  "with_version ifMatch f = (case parseExpenseETag ifMatch of None \<Rightarrow> fail PreconditionRequired | Some v \<Rightarrow> f v)"

definition ExpenseHandler_Update ::
  "primitives \<Rightarrow> Principal option \<Rightarrow> client \<Rightarrow> string \<Rightarrow> string \<Rightarrow> expenseRequest body \<Rightarrow> (http_error, expenseResponse \<times> string) m" where
  "ExpenseHandler_Update en who c rawID ifMatch body =
     with_principal who (\<lambda>p. with_id rawID (\<lambda>i. with_version ifMatch (\<lambda>expected.
       with_required ''INVALID_REQUEST'' body expense_update_fields (\<lambda>req (categoryID, amount, raw, expenseAt).
        if categoryID \<le> 0 \<or> amount \<le> 0 then fail (BadRequest ''INVALID_EXPENSE'')
        else case expense_text req raw of Inl e \<Rightarrow> fail e | Inr desc \<Rightarrow>
          with_tx Internal (UpdateExpense_body en p c i expected categoryID amount desc expenseAt req)))))"

section \<open>What the handlers rely on\<close>

lemma trim_quoted: "trim_space (CHR 0x22 # r @ [CHR 0x22]) = CHR 0x22 # r @ [CHR 0x22]"
proof -
  let ?s = "CHR 0x22 # r @ [CHR 0x22]"
  have "space_at ?s = 0" by (simp add: space_at_0 space_codes_def starts_with_def)
  then have l: "trim_left ?s = ?s" by (rule trim_left_stop)
  have "rev ?s = CHR 0x22 # rev r @ [CHR 0x22]" by simp
  then have "space_at_end ?s = 0" unfolding space_at_end_def by (simp only:) (simp add: space_codes_def starts_with_def)
  then have "trim_right ?s = ?s" by (subst trim_right.simps) simp
  with l show ?thesis by (simp add: trim_space_def)
qed

lemma show_int_nonempty: "show_int i \<noteq> []"
  by (simp add: show_int_def)

text \<open>The version of an ETag is read back.\<close>

lemma parse_etag:
  assumes "1 \<le> version" "is_int64 version"
  shows "parseExpenseETag (expenseETag version) = Some version"
proof -
  have t: "trim_space (expenseETag version) = expenseETag version" using trim_quoted by (simp add: expenseETag_def)
  have len: "\<not> length (expenseETag version) < 3" using show_int_nonempty [of version]
    by (cases "show_int version") (simp_all add: expenseETag_def)
  have mid: "take (length (expenseETag version) - 2) (drop 1 (expenseETag version)) = show_int version"
    by (simp add: expenseETag_def)
  have ends: "expenseETag version ! 0 = CHR 0x22" "expenseETag version ! (length (expenseETag version) - 1) = CHR 0x22"
    by (simp_all add: expenseETag_def nth_append)
  show ?thesis unfolding parseExpenseETag_def t Let_def
    using len mid ends assms parse_int_show_int [OF assms(2)] by simp
qed

end
