(* ===== verification/Expense_System.thy ===== *)
theory Expense_System
  imports Expenses Master_Worlds
begin

text \<open>
  The expenses as a system: what the handlers of expenses.go do to the tables of categories and expenses (expense_step),
  that the bodies of their transactions do exactly that, how every call ends, and the worlds the handlers can reach.
\<close>

section \<open>The two tables\<close>

interpretation categories_tbl: soft_table expense_categories "\<lambda>rs d. d\<lparr>expense_categories := rs\<rparr>" ec_id TCategories
    ec_business_id "\<lambda>r. None" "category_alike lower" category_check
  for lower :: "string \<Rightarrow> string"
  by unfold_locales (auto simp: category_alike_def)

interpretation expenses_tbl: soft_table expenses "\<lambda>rs d. d\<lparr>expenses := rs\<rparr>" ex_id TExpenses
    ex_business_id "\<lambda>r. None" "\<lambda>r x. False" expense_check
  by unfold_locales simp_all

lemma expense_checks:
  "write_category_error lower d c = None \<Longrightarrow> category_check c \<and> \<not> categories_tbl.taken lower d c"
  "write_expense_error d r = None \<Longrightarrow> expense_check r \<and> \<not> expenses_tbl.taken d r"
  by (auto simp: write_category_error_def write_expense_error_def category_taken_def
      categories_tbl.taken_def expenses_tbl.taken_def list_ex_iff split: if_splits)

definition expense_fresh :: "world \<Rightarrow> bool" where
  "expense_fresh w \<longleftrightarrow> categories_tbl.fresh w \<and> expenses_tbl.fresh w"

lemma expense_freshD: "expense_fresh w \<Longrightarrow> categories_tbl.fresh w" "expense_fresh w \<Longrightarrow> expenses_tbl.fresh w"
  by (simp_all add: expense_fresh_def)

lemma stable_expense_fresh [simp]: "stable expense_fresh"
  unfolding stable_def expense_fresh_def
  using categories_tbl.fresh_same_data expenses_tbl.fresh_same_data by blast

lemma expense_fresh_frame:
  assumes "expense_fresh w" and "expense_categories (data u) = expense_categories (data w)"
    "expenses (data u) = expenses (data w)" and "\<And>t. seqs w t \<le> seqs u t"
  shows "expense_fresh u"
  using assms unfolding expense_fresh_def by (auto intro: categories_tbl.fresh_frame expenses_tbl.fresh_frame)

section \<open>What a write does\<close>

datatype expense_event = CategoryEvent "expense_category_row change" | ExpenseEvent "expense_row change"

text \<open>The first version is 1, and an edit writes the next one; the outlet and the author stay.\<close>

fun versioned :: "expense_row change \<Rightarrow> bool" where
  "versioned (Added r) = (ex_version r = 1)"
| "versioned (Changed r r') = (ex_version r' = ex_version r + 1 \<and> ex_outlet_id r' = ex_outlet_id r
     \<and> ex_created_by r' = ex_created_by r \<and> ex_created_at r' = ex_created_at r)"

text \<open>What the audit row of an expense says of it.\<close>

definition expense_audit :: "expense_row \<Rightarrow> jval" where
  "expense_audit r = JObj [(''id'', JInt (ex_id r)), (''outlet_id'', JInt (ex_outlet_id r)),
     (''category_id'', JInt (ex_category_id r)), (''amount'', JInt (ex_amount r)), (''expense_at'', JTime (ex_expense_at r)),
     (''version'', JInt (ex_version r)), (''description'', JStr ''[REDACTED]''), (''receipt_reference'', JStr ''[REDACTED]'')]"

fun expense_audited :: "expense_row change \<Rightarrow> audit_row \<Rightarrow> bool" where
  "expense_audited (Added r) a = (au_action a = ''EXPENSE_CREATED'' \<and> au_old_values a = None
     \<and> au_new_values a = Some (expense_audit r))"
| "expense_audited (Changed r r') a = (au_action a = ''EXPENSE_UPDATED'' \<and> au_old_values a = Some (expense_audit r)
     \<and> au_new_values a = Some (expense_audit r'))"

inductive expense_step :: "(string \<Rightarrow> string) \<Rightarrow> db \<Rightarrow> expense_event \<Rightarrow> db \<Rightarrow> bool" for lower where
  category:
    "categories_tbl.changes lower d c rs \<Longrightarrow>
     master_audit ''expense_category'' (ec_business_id (changed_row c)) (ec_id (changed_row c)) a \<Longrightarrow>
     expense_step lower d (CategoryEvent c) (d\<lparr>expense_categories := rs, audit_logs := audit_logs d @ [a]\<rparr>)"
| expense:
    "expenses_tbl.changes d e rs \<Longrightarrow> versioned e \<Longrightarrow>
     active_category d (ex_business_id (changed_row e)) (ex_category_id (changed_row e)) \<Longrightarrow>
     master_audit ''expense'' (ex_business_id (changed_row e)) (ex_id (changed_row e)) a \<Longrightarrow>
     expense_audited e a \<Longrightarrow> au_outlet_id a = Some (ex_outlet_id (changed_row e)) \<Longrightarrow>
     expense_step lower d (ExpenseEvent e) (d\<lparr>expenses := rs, audit_logs := audit_logs d @ [a]\<rparr>)"

inductive_cases category_stepE: "expense_step lower d (CategoryEvent c) d'"
inductive_cases expense_stepE: "expense_step lower d (ExpenseEvent e) d'"

section \<open>The effects of the statements\<close>

lemma expense_audit_insert:
  "writeExpenseAudit en p c act i l ov nv w = (Inr a, v) \<longleftrightarrow> marshals_opt en ov \<and> marshals_opt en nv
     \<and> InsertExpenseAuditLog (pc_BusinessID p) (Some l) (Some (pc_UserID p)) act (Some i) ov nv
         (cl_address c) (audit_user_agent (cl_user_agent c)) w = (Inr a, v)"
  by (auto simp add: writeExpenseAudit_def as_internal_def on_err_Inr fail_run)

lemma expense_audit_written:
  "writeExpenseAudit en p c act i l ov nv w = (Inr a, v) \<Longrightarrow>
     marshals_opt en ov \<and> marshals_opt en nv \<and>
     data v = (data w)\<lparr>audit_logs := audit_logs (data w) @ [a]\<rparr> \<and> now v = now w \<and> master_audit ''expense'' (pc_BusinessID p) i a
     \<and> au_action a = act \<and> au_old_values a = ov \<and> au_new_values a = nv \<and> au_outlet_id a = Some l"
  "writeExpenseCategoryAudit p c act i ov nv w = (Inr a, v) \<Longrightarrow>
     data v = (data w)\<lparr>audit_logs := audit_logs (data w) @ [a]\<rparr> \<and> now v = now w
     \<and> master_audit ''expense_category'' (pc_BusinessID p) i a
     \<and> au_action a = act \<and> au_old_values a = ov \<and> au_new_values a = nv"
  unfolding expense_audit_insert writeExpenseCategoryAudit_def as_internal_def on_err_Inr InsertExpenseAuditLog_def
    InsertExpenseCategoryAuditLog_def
  by (auto dest!: audit_write simp: master_audit_def)

lemma category_created:
  assumes "categories_tbl.fresh w" and "CreateExpenseCategory en b nm ds w = (Inr r, v)"
  shows "categories_tbl.changes (en_lower en) (data w) (Added r) (expense_categories (data v))
    \<and> data v = (data w)\<lparr>expense_categories := expense_categories (data v)\<rparr> \<and> now v = now w
    \<and> ec_business_id r = b \<and> ec_name r = nm \<and> ec_description r = ds \<and> ec_is_active r"
  using categories_tbl.insert_changes [where lower = "en_lower en", OF assms(1) assms(2) [unfolded CreateExpenseCategory_def]]
  by (clarsimp simp: expense_checks)

lemma category_updated:
  assumes "categories_tbl.fresh w" and "r \<in> set (expense_categories (data w))" and "category_is b i r"
    and "UpdateExpenseCategory en b i nm ds ac w = (Inr r', v)"
  shows "categories_tbl.changes (en_lower en) (data w) (Changed r r') (expense_categories (data v))
    \<and> data v = (data w)\<lparr>expense_categories := expense_categories (data v)\<rparr> \<and> now v = now w
    \<and> r' = r\<lparr>ec_name := nm, ec_description := ds, ec_is_active := ac, ec_updated_at := now w\<rparr>"
  by (rule categories_tbl.update_changes [where lower = "en_lower en", OF assms(1-3) assms(4) [unfolded UpdateExpenseCategory_def]])
    (use assms(3) in \<open>simp_all add: category_is_def expense_checks\<close>)

text \<open>An insertion under a condition.\<close>

lemma insert_where_Inr [run_inv]: "insert_where cond p w = (Inr r, v) \<longleftrightarrow> cond (data w) \<and> p w = (Inr r, v)"
  by (auto simp: insert_where_def fail_run dest: stmt_Inr)

definition expense_terms :: "Principal \<Rightarrow> i64 \<Rightarrow> i64 \<Rightarrow> i64 \<Rightarrow> string \<Rightarrow> time \<Rightarrow> string option \<Rightarrow> expense_row \<Rightarrow> bool" where
  "expense_terms p outletID categoryID amount desc expenseAt ref r \<longleftrightarrow> ex_business_id r = pc_BusinessID p
     \<and> ex_outlet_id r = outletID \<and> ex_category_id r = categoryID \<and> ex_amount r = amount \<and> ex_description r = desc
     \<and> ex_expense_at r = expenseAt \<and> ex_receipt_reference r = ref \<and> ex_created_by r = pc_UserID p"

lemma expense_created:
  assumes "expenses_tbl.fresh w"
    and "CreateExpense (pc_BusinessID p) c am ds at ref (pc_UserID p) l ad w = (Inr r, v)"
  shows "expenses_tbl.changes (data w) (Added r) (expenses (data v))
    \<and> data v = (data w)\<lparr>expenses := expenses (data v)\<rparr> \<and> now v = now w \<and> ex_version r = 1
    \<and> expense_terms p l c am ds at ref r \<and> ex_created_at r = now w
    \<and> expense_standing (data w) (pc_BusinessID p) ad (pc_UserID p) l \<and> active_user (data w) (pc_BusinessID p) (pc_UserID p)
    \<and> active_category (data w) (pc_BusinessID p) c"
  using assms(2) expenses_tbl.insert_changes [OF assms(1), where chk = write_expense_error]
  unfolding CreateExpense_def insert_where_Inr expense_terms_def
  by (clarsimp simp: expense_checks insert_serial_Inr) (fastforce simp: expense_checks dest!: insert_serial_Inr)

lemma expense_updated:
  assumes "expenses_tbl.fresh w" and "r \<in> set (expenses (data w))" and "expense_editable (data w) b i v u ad c r"
    and "UpdateExpense c am ds at ref b i v u ad w = (Inr r', w')"
  shows "expenses_tbl.changes (data w) (Changed r r') (expenses (data w'))
    \<and> data w' = (data w)\<lparr>expenses := expenses (data w')\<rparr> \<and> now w' = now w
    \<and> r' = expense_with c am ds at ref (now w) r"
  by (rule expenses_tbl.update_changes [OF assms(1-3) assms(4) [unfolded UpdateExpense_def]])
    (use assms(3) in \<open>simp_all add: expense_editable_def expense_is_def expense_with_def expense_checks\<close>)

lemma expense_update_editable:
  assumes "UpdateExpense c am ds at ref b i v u ad w = (Inr r', w')"
  shows "\<exists>r \<in> set (expenses (data w)). expense_editable (data w) b i v u ad c r"
proof -
  from only_one_Inr [OF assms [unfolded UpdateExpense_def]] obtain rs
    where "update_rows expenses (\<lambda>rs d. d\<lparr>expenses := rs\<rparr>) write_expense_error
      (expense_editable (data w) b i v u ad c) (expense_with c am ds at ref) w = (Inr (r' # rs), w')" ..
  from update_rows_Inr [OF this] have "filter (expense_editable (data w) b i v u ad c) (expenses (data w)) \<noteq> []"
    by (metis list.distinct(1) list.simps(8))
  then show ?thesis by (simp add: filter_empty_conv)
qed

section \<open>The bodies do what the events say\<close>

lemma category_locked:
  "GetExpenseCategoryForUpdate b i w = (Inr c, v) \<Longrightarrow>
     c \<in> set (expense_categories (data w)) \<and> category_is b i c \<and> same_data w v"
  unfolding GetExpenseCategoryForUpdate_def by (rule one_filter_Inr, assumption)

lemma expense_locked:
  "GetExpenseForUpdate u b i ad w = (Inr e, v) \<Longrightarrow> e \<in> set (expenses (data w)) \<and> (expense_is b i e
     \<and> expense_standing (data w) b ad u (ex_outlet_id e) \<and> active_user (data w) b u) \<and> same_data w v"
proof -
  assume "GetExpenseForUpdate u b i ad w = (Inr e, v)"
  from one_select_Inr [OF this [unfolded GetExpenseForUpdate_def]] obtain rs where
    f: "filter (\<lambda>e. expense_is b i e \<and> expense_standing (data w) b ad u (ex_outlet_id e) \<and> active_user (data w) b u)
      (expenses (data w)) = e # rs" and s: "same_data w v" by auto
  have "e \<in> set (filter (\<lambda>e. expense_is b i e \<and> expense_standing (data w) b ad u (ex_outlet_id e) \<and> active_user (data w) b u)
      (expenses (data w)))" unfolding f by simp
  with s show ?thesis by simp
qed

definition category_added ::
  "primitives \<Rightarrow> Principal \<Rightarrow> string \<Rightarrow> string option \<Rightarrow> db \<Rightarrow> expenseCategoryResponse \<Rightarrow> db \<Rightarrow> bool" where
  "category_added en p name desc d x d' \<longleftrightarrow> (\<exists>r. expense_step (en_lower en) d (CategoryEvent (Added r)) d'
     \<and> ec_business_id r = pc_BusinessID p \<and> ec_name r = name \<and> ec_description r = desc \<and> ec_is_active r
     \<and> x = expenseCategoryFrom r)"

definition category_changed ::
  "primitives \<Rightarrow> Principal \<Rightarrow> i64 \<Rightarrow> string \<Rightarrow> bool \<Rightarrow> string option \<Rightarrow> time \<Rightarrow> db \<Rightarrow> expenseCategoryResponse \<Rightarrow> db \<Rightarrow> bool" where
  "category_changed en p i name isActive desc n d x d' \<longleftrightarrow> (\<exists>r r'. category_is (pc_BusinessID p) i r
     \<and> r' = r\<lparr>ec_name := name, ec_description := desc, ec_is_active := isActive, ec_updated_at := n\<rparr>
     \<and> expense_step (en_lower en) d (CategoryEvent (Changed r r')) d' \<and> x = expenseCategoryFrom r')"

definition expense_added ::
  "(string \<Rightarrow> string) \<Rightarrow> Principal \<Rightarrow> i64 \<Rightarrow> i64 \<Rightarrow> i64 \<Rightarrow> string \<Rightarrow> time \<Rightarrow> string option \<Rightarrow> time \<Rightarrow> db \<Rightarrow>
   expenseResponse \<times> string \<Rightarrow> db \<Rightarrow> bool" where
  "expense_added lower p outletID categoryID amount desc expenseAt ref n d x d' \<longleftrightarrow>
     (\<exists>r. expense_step lower d (ExpenseEvent (Added r)) d'
       \<and> expense_terms p outletID categoryID amount desc expenseAt ref r \<and> ex_created_at r = n
       \<and> expense_standing d (pc_BusinessID p) (is_owner p) (pc_UserID p) outletID
       \<and> active_user d (pc_BusinessID p) (pc_UserID p) \<and> x = (expenseFrom r, expenseETag 1))"

definition expense_edited ::
  "(string \<Rightarrow> string) \<Rightarrow> Principal \<Rightarrow> i64 \<Rightarrow> i64 \<Rightarrow> i64 \<Rightarrow> i64 \<Rightarrow> string \<Rightarrow> time \<Rightarrow> string option \<Rightarrow> time \<Rightarrow> db \<Rightarrow>
   expenseResponse \<times> string \<Rightarrow> db \<Rightarrow> bool" where
  "expense_edited lower p i expected categoryID amount desc expenseAt ref n d x d' \<longleftrightarrow>
     (\<exists>r r'. r \<in> set (expenses d) \<and> expense_is (pc_BusinessID p) i r \<and> ex_version r = expected
       \<and> r' = expense_with categoryID amount desc expenseAt ref n r
       \<and> expense_step lower d (ExpenseEvent (Changed r r')) d'
       \<and> expense_standing d (pc_BusinessID p) (is_owner p) (pc_UserID p) (ex_outlet_id r)
       \<and> active_user d (pc_BusinessID p) (pc_UserID p) \<and> x = (expenseFrom r', expenseETag (expected + 1)))"

lemma category_then_audit:
  assumes "categories_tbl.changes lower d c (expense_categories u)" and "u = d\<lparr>expense_categories := expense_categories u\<rparr>"
    and "v = u\<lparr>audit_logs := audit_logs u @ [a]\<rparr>"
    and "master_audit ''expense_category'' (ec_business_id (changed_row c)) (ec_id (changed_row c)) a"
  shows "expense_step lower d (CategoryEvent c) v"
proof -
  define X where "X = expense_categories u"
  have u: "u = d\<lparr>expense_categories := X\<rparr>" using assms(2) by (simp only: X_def)
  have "v = d\<lparr>expense_categories := X, audit_logs := audit_logs d @ [a]\<rparr>" unfolding assms(3) u by simp
  with expense_step.category [OF assms(1,4)] show ?thesis by (simp add: X_def)
qed

lemma expense_then_audit:
  assumes "expenses_tbl.changes d e (expenses u)" and "u = d\<lparr>expenses := expenses u\<rparr>"
    and "v = u\<lparr>audit_logs := audit_logs u @ [a]\<rparr>" and "versioned e"
    and "active_category d (ex_business_id (changed_row e)) (ex_category_id (changed_row e))"
    and "master_audit ''expense'' (ex_business_id (changed_row e)) (ex_id (changed_row e)) a"
    and "expense_audited e a" and "au_outlet_id a = Some (ex_outlet_id (changed_row e))"
  shows "expense_step lower d (ExpenseEvent e) v"
proof -
  define X where "X = expenses u"
  have u: "u = d\<lparr>expenses := X\<rparr>" using assms(2) by (simp only: X_def)
  have "v = d\<lparr>expenses := X, audit_logs := audit_logs d @ [a]\<rparr>" unfolding assms(3) u by simp
  with expense_step.expense [OF assms(1,4,5,6,7,8)] show ?thesis by (simp add: X_def)
qed

lemma audit_values: "expenseAuditValues (expenseFrom r) = expense_audit r"
  by (simp add: expenseAuditValues_def expenseFrom_def expense_audit_def)

lemma CreateCategory_refines:
  assumes "expense_fresh w" and "CreateCategory_body en p c name req w = (Inr x, v)"
  shows "category_added en p name (optionalDBText (kq_Description req)) (data w) x (data v)"
proof -
  from assms(2) obtain r u a where
    ins: "CreateExpenseCategory en (pc_BusinessID p) name (optionalDBText (kq_Description req)) w = (Inr r, u)"
    and aud: "writeExpenseCategoryAudit p c ''EXPENSE_CATEGORY_CREATED'' (ec_id r) None
       (Some (categoryAuditValues (expenseCategoryFrom r))) u = (Inr a, v)"
    and x: "x = expenseCategoryFrom r"
    unfolding CreateCategory_body_def by (auto simp: run_inv)
  note C = category_created [OF expense_freshD(1) [OF assms(1)] ins] and A = expense_audit_written(2) [OF aud]
  have "expense_step (en_lower en) (data w) (CategoryEvent (Added r)) (data v)"
    by (rule category_then_audit [where u = "data u" and a = a]) (use C A in auto)
  then show ?thesis using C x unfolding category_added_def by blast
qed

lemma UpdateCategory_refines:
  assumes "expense_fresh w" and "UpdateCategory_body en p c i name isActive req w = (Inr x, v)"
  shows "category_changed en p i name isActive (optionalDBText (kq_Description req)) (now w) (data w) x (data v)"
proof -
  from assms(2) obtain r w1 r' u a where
    get: "GetExpenseCategoryForUpdate (pc_BusinessID p) i w = (Inr r, w1)"
    and upd: "UpdateExpenseCategory en (pc_BusinessID p) i name (optionalDBText (kq_Description req)) isActive w1 = (Inr r', u)"
    and aud: "writeExpenseCategoryAudit p c (category_action (ec_is_active r) (ec_is_active r')) i
       (Some (categoryAuditValues (expenseCategoryFrom r))) (Some (categoryAuditValues (expenseCategoryFrom r'))) u = (Inr a, v)"
    and x: "x = expenseCategoryFrom r'"
    unfolding UpdateCategory_body_def by (auto simp: run_inv)
  note L = category_locked [OF get] and A = expense_audit_written(2) [OF aud]
  have w1: "categories_tbl.fresh w1" "data w1 = data w" "now w1 = now w"
    using categories_tbl.fresh_same_data [OF expense_freshD(1) [OF assms(1)]] L by (simp_all add: same_data_def)
  note C = category_updated [OF w1(1) _ _ upd, of r, unfolded w1]
  have "expense_step (en_lower en) (data w) (CategoryEvent (Changed r r')) (data v)"
    by (rule category_then_audit [where u = "data u" and a = a]) (use C L A in \<open>auto simp: category_is_def\<close>)
  then show ?thesis using C L x unfolding category_changed_def by blast
qed

lemma check_assignment_frame: "check_assignment p l w = (r, w') \<Longrightarrow> same_data w w'"
proof -
  have "reads (check_assignment p l)" unfolding check_assignment_def by (intro reads_intro)
  then show "check_assignment p l w = (r, w') \<Longrightarrow> same_data w w'" by (rule readsD)
qed

lemma check_category_frame: "check_category p i w = (r, w') \<Longrightarrow> same_data w w'"
proof -
  have "reads (check_category p i)" unfolding check_category_def by (intro reads_intro)
  then show "check_category p i w = (r, w') \<Longrightarrow> same_data w w'" by (rule readsD)
qed

lemma CreateExpense_refines:
  assumes "expense_fresh w" and "CreateExpense_body en p c l k am desc at req w = (Inr x, v)"
  shows "expense_added lower p l k am desc at (optionalDBText (eq_ReceiptReference req)) (now w) (data w) x (data v)"
proof -
  let ?b = "pc_BusinessID p" and ?u = "pc_UserID p"
  from assms(2) obtain l' w1 w2 k' w3 r u a where
    lock: "LockActiveExpenseOutlet ?u ?b l (is_owner p) w = (Inr l', w1)"
    and asg: "check_assignment p l w1 = (Inr (), w2)" and cat: "check_category p k w2 = (Inr k', w3)"
    and ins: "CreateExpense ?b k am desc at (optionalDBText (eq_ReceiptReference req)) ?u l (is_owner p) w3 = (Inr r, u)"
    and aud: "writeExpenseAudit en p c ''EXPENSE_CREATED'' (er_ID (expenseFrom r)) (er_OutletID (expenseFrom r)) None
       (Some (expenseAuditValues (expenseFrom r))) u = (Inr a, v)"
    and x: "x = (expenseFrom r, expenseETag (er_Version (expenseFrom r)))"
    unfolding CreateExpense_body_def by (auto simp: run_inv Let_def)
  have s: "same_data w w3"
    using readsD [OF expense_queries_read(8) lock] check_assignment_frame [OF asg] check_category_frame [OF cat]
    by (blast intro: same_data_trans)
  then have w3: "expenses_tbl.fresh w3" "data w3 = data w" "now w3 = now w"
    using expenses_tbl.fresh_same_data [OF expense_freshD(2) [OF assms(1)]] by (simp_all add: same_data_def)
  note C = expense_created [OF w3(1) ins, unfolded w3] and A = expense_audit_written(1) [OF aud, unfolded audit_values]
  have "expense_step lower (data w) (ExpenseEvent (Added r)) (data v)"
    by (rule expense_then_audit [where u = "data u" and a = a])
      (use C A in \<open>auto simp: expense_terms_def expenseFrom_def\<close>)
  moreover have "x = (expenseFrom r, expenseETag 1)" using x C by (simp add: expenseFrom_def)
  ultimately show ?thesis using C unfolding expense_added_def by blast
qed

lemma UpdateExpense_refines:
  assumes "expense_fresh w" and "UpdateExpense_body en p c i ev k am desc at req w = (Inr x, v)"
  shows "expense_edited lower p i ev k am desc at (optionalDBText (eq_ReceiptReference req)) (now w) (data w) x (data v)"
proof -
  let ?b = "pc_BusinessID p" and ?u = "pc_UserID p" and ?ref = "optionalDBText (eq_ReceiptReference req)"
  from assms(2) obtain r w1 where get: "GetExpenseForUpdate ?u ?b i (is_owner p) w = (Inr r, w1)"
    and rest: "(if ex_version r \<noteq> ev then fail (conflict ''STALE_EXPENSE'')
     else
       tbind (check_assignment p (ex_outlet_id r)) (\<lambda>_.
       tbind (check_category p k) (\<lambda>_.
       tbind (on_err (\<lambda>e. if e = NoRows then conflict ''STALE_EXPENSE'' else expenseWriteError e)
                (UpdateExpense k am desc at ?ref ?b i ev ?u (is_owner p))) (\<lambda>item.
       let before = expenseFrom r; after = expenseFrom item in
       tbind (writeExpenseAudit en p c ''EXPENSE_UPDATED'' i (er_OutletID after) (Some (expenseAuditValues before))
                (Some (expenseAuditValues after))) (\<lambda>_.
       ret (after, expenseETag (er_Version after))))))) w1 = (Inr x, v)"
    unfolding UpdateExpense_body_def by (auto simp: run_inv)
  then have ver: "ex_version r = ev" by (auto simp: fail_run split: if_splits)
  with rest obtain w2 k' w3 r' u a where
    asg: "check_assignment p (ex_outlet_id r) w1 = (Inr (), w2)" and cat: "check_category p k w2 = (Inr k', w3)"
    and upd: "UpdateExpense k am desc at ?ref ?b i ev ?u (is_owner p) w3 = (Inr r', u)"
    and aud: "writeExpenseAudit en p c ''EXPENSE_UPDATED'' i (er_OutletID (expenseFrom r')) (Some (expenseAuditValues (expenseFrom r)))
       (Some (expenseAuditValues (expenseFrom r'))) u = (Inr a, v)"
    and x: "x = (expenseFrom r', expenseETag (er_Version (expenseFrom r')))"
    by (auto simp: run_inv Let_def)
  note L = expense_locked [OF get]
  have s: "same_data w w3"
    using L check_assignment_frame [OF asg] check_category_frame [OF cat] by (blast intro: same_data_trans)
  then have w3: "expenses_tbl.fresh w3" "data w3 = data w" "now w3 = now w"
    using expenses_tbl.fresh_same_data [OF expense_freshD(2) [OF assms(1)]] by (simp_all add: same_data_def)
  obtain r0 where r0: "r0 \<in> set (expenses (data w))" "expense_editable (data w) ?b i ev ?u (is_owner p) k r0"
    using expense_update_editable [OF upd] w3(2) by auto
  have "r0 = r"
    by (rule expenses_tbl.key_unique [OF expense_freshD(2) [OF assms(1)] r0(1)])
      (use r0(2) L in \<open>simp_all add: expense_editable_def expense_is_def\<close>)
  with r0 have ed: "expense_editable (data w) ?b i ev ?u (is_owner p) k r" by simp
  note C = expense_updated [OF w3(1) _ _ upd, of r, unfolded w3] and A = expense_audit_written(1) [OF aud, unfolded audit_values]
  have r': "r' = expense_with k am desc at ?ref (now w) r" using C L ed by blast
  have same: "ex_business_id r' = ?b" "ex_id r' = i" "ex_category_id r' = k" "active_category (data w) ?b k"
    using ed unfolding r' by (simp_all add: expense_with_def expense_editable_def expense_is_def)
  have "expense_step lower (data w) (ExpenseEvent (Changed r r')) (data v)"
    by (rule expense_then_audit [where u = "data u" and a = a])
      (use C L A ed same in \<open>auto simp: expense_with_def expenseFrom_def\<close>)
  moreover have "x = (expenseFrom r', expenseETag (ev + 1))"
    using x ver unfolding r' by (simp add: expenseFrom_def expense_with_def)
  ultimately show ?thesis using L ver r' unfolding expense_edited_def by blast
qed

section \<open>Keys and sequences\<close>

lemma insert_category_fresh:
  assumes "\<And>i n d. ec_id (mk i n d) = i"
  shows "keeps expense_fresh (insert_serial TCategories expense_categories (\<lambda>rs d. d\<lparr>expense_categories := rs\<rparr>) chk mk)"
proof (rule keepsI)
  fix w r w'
  assume F: "expense_fresh w"
    and run: "insert_serial TCategories expense_categories (\<lambda>rs d. d\<lparr>expense_categories := rs\<rparr>) chk mk w = (r, w')"
  have "categories_tbl.fresh w'" by (rule keepsD [OF categories_tbl.insert_keeps [OF assms] expense_freshD(1) [OF F] run])
  then show "expense_fresh w'" using F insert_frame [OF run] unfolding expense_fresh_def by (auto intro: expenses_tbl.fresh_frame)
qed

lemma insert_expense_fresh:
  assumes "\<And>i n d. ex_id (mk i n d) = i"
  shows "keeps expense_fresh (insert_serial TExpenses expenses (\<lambda>rs d. d\<lparr>expenses := rs\<rparr>) chk mk)"
proof (rule keepsI)
  fix w r w'
  assume F: "expense_fresh w" and run: "insert_serial TExpenses expenses (\<lambda>rs d. d\<lparr>expenses := rs\<rparr>) chk mk w = (r, w')"
  have "expenses_tbl.fresh w'" by (rule keepsD [OF expenses_tbl.insert_keeps [OF assms] expense_freshD(2) [OF F] run])
  then show "expense_fresh w'" using F insert_frame [OF run] unfolding expense_fresh_def by (auto intro: categories_tbl.fresh_frame)
qed

lemma update_category_fresh:
  assumes "\<And>n r. ec_id (upd n r) = ec_id r"
  shows "keeps expense_fresh (update_rows expense_categories (\<lambda>rs d. d\<lparr>expense_categories := rs\<rparr>) chk q upd)"
proof (rule keepsI)
  fix w r w'
  assume F: "expense_fresh w"
    and run: "update_rows expense_categories (\<lambda>rs d. d\<lparr>expense_categories := rs\<rparr>) chk q upd w = (r, w')"
  have "categories_tbl.fresh w'" by (rule keepsD [OF categories_tbl.update_keeps [OF assms] expense_freshD(1) [OF F] run])
  then show "expense_fresh w'" using F update_frame [OF run] unfolding expense_fresh_def by (auto intro: expenses_tbl.fresh_frame)
qed

lemma update_expense_fresh:
  assumes "\<And>n r. ex_id (upd n r) = ex_id r"
  shows "keeps expense_fresh (update_rows expenses (\<lambda>rs d. d\<lparr>expenses := rs\<rparr>) chk q upd)"
proof (rule keepsI)
  fix w r w'
  assume F: "expense_fresh w" and run: "update_rows expenses (\<lambda>rs d. d\<lparr>expenses := rs\<rparr>) chk q upd w = (r, w')"
  have "expenses_tbl.fresh w'" by (rule keepsD [OF expenses_tbl.update_keeps [OF assms] expense_freshD(2) [OF F] run])
  then show "expense_fresh w'" using F update_frame [OF run] unfolding expense_fresh_def by (auto intro: categories_tbl.fresh_frame)
qed

lemma insert_audit_keeps_expenses: "keeps expense_fresh (insert_audit mk)"
  unfolding insert_audit_def
  by (rule keepsI, drule insert_frame) (auto intro: expense_fresh_frame)

lemma keeps_where [keeps_intro]:
  fixes q :: "(pgerr, 'r) m"
  assumes "stable I" and q: "keeps I q"
  shows "keeps I (insert_where cond q)"
proof (rule keepsI)
  fix w r w'
  assume I: "I w" and "insert_where cond q w = (r, w')"
  then have "q w = (r, w') \<or> stmt (fail NoRows) w = (r, w')" by (auto simp: insert_where_def split: if_splits)
  moreover have "keeps I (stmt (fail NoRows) :: (pgerr, 'r) m)" by (intro keeps_stmt assms(1) keeps_fail)
  ultimately show "I w'" using q I unfolding keeps_def by blast
qed

lemma expense_writes_fresh [keeps_intro]:
  "keeps expense_fresh (CreateExpenseCategory en b nm ds)" "keeps expense_fresh (UpdateExpenseCategory en b i nm ds ac)"
  "keeps expense_fresh (CreateExpense b k am desc at ref u l ad)"
  "keeps expense_fresh (InsertExpenseAuditLog b lo uo act io ov nv ip ua)"
  "keeps expense_fresh (InsertExpenseCategoryAuditLog b uo act io ov nv ip ua)"
  unfolding CreateExpenseCategory_def UpdateExpenseCategory_def CreateExpense_def InsertExpenseAuditLog_def
    InsertExpenseCategoryAuditLog_def
  by (intro keeps_intro insert_category_fresh update_category_fresh insert_expense_fresh insert_audit_keeps_expenses
      stable_expense_fresh; simp)+

lemma update_expense_keeps [keeps_intro]: "keeps expense_fresh (UpdateExpense k am desc at ref b i v u ad)"
proof (rule keepsI)
  fix w r w'
  assume F: "expense_fresh w" and "UpdateExpense k am desc at ref b i v u ad w = (r, w')"
  then have run: "only_one (update_rows expenses (\<lambda>rs d. d\<lparr>expenses := rs\<rparr>) write_expense_error
       (expense_editable (data w) b i v u ad k) (expense_with k am desc at ref)) w = (r, w')"
    by (simp add: UpdateExpense_def)
  have "keeps expense_fresh (only_one (update_rows expenses (\<lambda>rs d. d\<lparr>expenses := rs\<rparr>) write_expense_error
       (expense_editable (data w) b i v u ad k) (expense_with k am desc at ref)))"
    by (intro keeps_intro update_expense_fresh) (simp add: expense_with_def)
  from keepsD [OF this F run] show "expense_fresh w'" .
qed

lemma expense_locks_fresh [keeps_intro]:
  "keeps expense_fresh (GetExpenseCategoryForUpdate b i)" "keeps expense_fresh (GetActiveExpenseCategory b i)"
  "keeps expense_fresh (GetExpenseForUpdate u b i ad)" "keeps expense_fresh (LockActiveExpenseOutlet u b l ad)"
  "keeps expense_fresh (LockExpenseOutletAssignment b u l)"
  by (rule keeps_reads [OF stable_expense_fresh], rule expense_queries_read)+

lemmas expense_bodies = CreateCategory_body_def UpdateCategory_body_def CreateExpense_body_def UpdateExpense_body_def
  writeExpenseAudit_def writeExpenseCategoryAudit_def check_assignment_def check_category_def as_internal_def or_not_found_def

lemma expense_bodies_fresh:
  "keeps expense_fresh (CreateCategory_body en p c nm kreq)" "keeps expense_fresh (UpdateCategory_body en p c i nm ac kreq)"
  "keeps expense_fresh (CreateExpense_body en p c l k am desc at req)"
  "keeps expense_fresh (UpdateExpense_body en p c i v k am desc at req)"
  unfolding expense_bodies by (intro keeps_intro)+

lemma expense_bodies_grow [grows_intro]:
  "grows (CreateCategory_body en p c nm kreq)" "grows (UpdateCategory_body en p c i nm ac kreq)"
  "grows (CreateExpense_body en p c l k am desc at req)" "grows (UpdateExpense_body en p c i v k am desc at req)"
  unfolding expense_bodies by (intro grows_intro)+

end
