(* ===== verification/Expense_Worlds.thy ===== *)
theory Expense_Worlds
  imports Expense_System
begin

text \<open>
  The worlds the handlers of expenses.go can reach, with any requests in any order and any faults of the connection: the
  invariant of the two tables, how every call ends, and that the version of an expense never goes back.
\<close>

section \<open>The invariant\<close>

definition expense_ok :: "(string \<Rightarrow> string) \<Rightarrow> db \<Rightarrow> bool" where
  "expense_ok lower d \<longleftrightarrow> categories_tbl.sound lower d \<and> expenses_tbl.sound d
     \<and> (\<forall>e \<in> set (expenses d). category_exists d (ex_business_id e) (ex_category_id e))"

definition expense_sys :: "(string \<Rightarrow> string) \<Rightarrow> world \<Rightarrow> bool" where
  "expense_sys lower w \<longleftrightarrow> expense_fresh w \<and> expense_ok lower (data w)"

lemma expense_sysD:
  assumes "expense_sys lower w"
  shows "expense_fresh w" "expense_ok lower (data w)" "categories_tbl.fresh w" "expenses_tbl.fresh w"
  using assms by (simp_all add: expense_sys_def expense_fresh_def)

lemma expense_ok_frame:
  "expense_ok lower d \<Longrightarrow> expense_categories d' = expense_categories d \<Longrightarrow> expenses d' = expenses d \<Longrightarrow> expense_ok lower d'"
  by (simp add: expense_ok_def categories_tbl.sound_def expenses_tbl.sound_def category_exists_def)

lemma expense_sys_seqs:
  "expense_sys lower w \<Longrightarrow> data u = data w \<Longrightarrow> (\<And>t. seqs w t \<le> seqs u t) \<Longrightarrow> expense_sys lower u"
  unfolding expense_sys_def using expense_fresh_frame [of w u] by simp

lemma expense_sys_same: "same_data w u \<Longrightarrow> expense_sys lower w \<Longrightarrow> expense_sys lower u"
  using expense_sys_seqs [of lower w u] by (simp add: same_data_def)

text \<open>No category disappears, and a category keeps its tenant.\<close>

lemma category_step_kept:
  assumes "categories_tbl.changes lower d c rs" and "category_exists d b i"
  shows "category_exists (d\<lparr>expense_categories := rs, audit_logs := l\<rparr>) b i"
proof -
  obtain r where r: "r \<in> set (expense_categories d)" "ec_business_id r = b" "ec_id r = i"
    using assms(2) by (auto simp: category_exists_def list_ex_iff)
  from categories_tbl.changes_kept(2) [OF assms(1) r(1)] r(2,3)
  show ?thesis by (auto simp: category_exists_def list_ex_iff)
qed

lemma active_exists: "active_category d b i \<Longrightarrow> category_exists d b i"
  by (auto simp: active_category_def category_exists_def list_ex_iff)

lemma step_expense_ok:
  assumes "expense_step lower (data w) e d'" and sys: "expense_sys lower w"
  shows "expense_ok lower d'"
  using assms(1)
proof cases
  case (category c rs a)
  have "categories_tbl.sound lower d'"
    using categories_tbl.changes_sound [OF category(3) _ categories_tbl.fresh_distinct [OF expense_sysD(3) [OF sys]]]
      expense_sysD(2) [OF sys]
    unfolding category(2) by (simp add: expense_ok_def categories_tbl.sound_def)
  moreover have "category_exists d' (ex_business_id x) (ex_category_id x)" if "x \<in> set (expenses (data w))" for x
    using category_step_kept [OF category(3)] expense_sysD(2) [OF sys] that unfolding category(2) expense_ok_def by blast
  ultimately show ?thesis using expense_sysD(2) [OF sys] unfolding category(2) expense_ok_def
    by (simp add: expenses_tbl.sound_def)
next
  case (expense ec rs a)
  have "expenses_tbl.sound d'"
    using expenses_tbl.changes_sound [OF expense(3) _ expenses_tbl.fresh_distinct [OF expense_sysD(4) [OF sys]]]
      expense_sysD(2) [OF sys]
    unfolding expense(2) by (simp add: expense_ok_def expenses_tbl.sound_def)
  moreover have "category_exists d' (ex_business_id x) (ex_category_id x)" if x: "x \<in> set rs" for x
  proof -
    have "x = changed_row ec \<or> x \<in> set (expenses (data w))"
      using expense(3) x by (cases ec) (auto simp: expenses_tbl.changes_def dest: in_replace_rowD)
    then show ?thesis
      using active_exists [OF expense(5)] expense_sysD(2) [OF sys] unfolding expense(2) expense_ok_def
      by (auto simp: category_exists_def)
  qed
  ultimately show ?thesis using expense_sysD(2) [OF sys] unfolding expense(2) expense_ok_def
    by (simp add: categories_tbl.sound_def)
qed

section \<open>The transactions\<close>

lemma expense_outcome_steps:
  "category_added en p nm ds d x d' \<Longrightarrow> \<exists>e. expense_step (en_lower en) d e d'"
  "category_changed en p i nm ac ds n d x d' \<Longrightarrow> \<exists>e. expense_step (en_lower en) d e d'"
  "expense_added lower p l k am tx at ref n d y d' \<Longrightarrow> \<exists>e. expense_step lower d e d'"
  "expense_edited lower p i v k am tx at ref n d y d' \<Longrightarrow> \<exists>e. expense_step lower d e d'"
  unfolding category_added_def category_changed_def expense_added_def expense_edited_def by blast+

lemma expense_stepping:
  assumes "keeps expense_fresh body" and "expense_sys lower w" and "body w = (Inr x, v)"
    and "\<exists>e. expense_step lower (data w) e (data v)"
  shows "expense_sys lower v"
  using keepsD [OF assms(1) expense_sysD(1) [OF assms(2)] assms(3)] step_expense_ok assms(2,4)
  unfolding expense_sys_def [of lower v] by blast

lemmas expense_refines =
  CreateCategory_refines [OF expense_sysD(1)] UpdateCategory_refines [OF expense_sysD(1)]
  CreateExpense_refines [OF expense_sysD(1)] UpdateExpense_refines [OF expense_sysD(1)]

lemmas expense_body_keeps = expense_bodies_fresh [THEN expense_stepping]

lemma expense_body_inv:
  "expense_sys (en_lower en) w \<Longrightarrow> CreateCategory_body en p c nm kreq w = (Inr x, v) \<Longrightarrow> expense_sys (en_lower en) v"
  "expense_sys (en_lower en) w \<Longrightarrow> UpdateCategory_body en p c i nm ac kreq w = (Inr x, v) \<Longrightarrow> expense_sys (en_lower en) v"
  "expense_sys lower w \<Longrightarrow> CreateExpense_body en p c l k am ds at req w = (Inr y, v) \<Longrightarrow> expense_sys lower v"
  "expense_sys lower w \<Longrightarrow> UpdateExpense_body en p c i ev k am ds at req w = (Inr y, v) \<Longrightarrow> expense_sys lower v"
  subgoal by (blast intro: expense_body_keeps(1) expense_outcome_steps(1) expense_refines(1))
  subgoal by (blast intro: expense_body_keeps(2) expense_outcome_steps(2) expense_refines(2))
  subgoal by (blast intro: expense_body_keeps(3) expense_outcome_steps(3) expense_refines(3))
  subgoal by (blast intro: expense_body_keeps(4) expense_outcome_steps(4) expense_refines(4))
  done

interpretation create_category: tx_operation Internal "CreateCategory_body en p c name req" "expense_sys (en_lower en)"
  for en :: primitives and p :: Principal and c :: client and name :: string and req :: expenseCategoryRequest
  by unfold_locales (auto intro: grows_intro expense_body_inv(1) expense_sys_seqs)

interpretation update_category: tx_operation Internal "UpdateCategory_body en p c i name ac req" "expense_sys (en_lower en)"
  for en :: primitives and p :: Principal and c :: client and i :: i64 and name :: string and ac :: bool
    and req :: expenseCategoryRequest
  by unfold_locales (auto intro: grows_intro expense_body_inv(2) expense_sys_seqs)

interpretation create_expense: tx_operation Internal "CreateExpense_body en p c l k am ds at req" "expense_sys lower"
  for en :: primitives and p :: Principal and c :: client and l k am :: i64 and ds :: string and at :: time and req :: expenseRequest
    and lower :: "string \<Rightarrow> string"
  by unfold_locales (auto intro: grows_intro expense_body_inv(3) expense_sys_seqs)

interpretation update_expense: tx_operation Internal "UpdateExpense_body en p c i v k am ds at req" "expense_sys lower"
  for en :: primitives and p :: Principal and c :: client and i v k am :: i64 and ds :: string and at :: time and req :: expenseRequest
    and lower :: "string \<Rightarrow> string"
  by unfold_locales (auto intro: grows_intro expense_body_inv(4) expense_sys_seqs)

section \<open>How a call ends\<close>

lemma invariant_tx_ends:
  assumes "\<And>u. same_data w u \<Longrightarrow> I u" and "with_tx conn body w = (res, w')"
    and refines: "\<And>u x v. I u \<Longrightarrow> body u = (Inr x, v) \<Longrightarrow> P (now u) (data u) x (data v)"
  shows "refused w res w' \<or> (\<exists>x. P (now w) (data w) x (data w') \<and> (res = Inr x \<or> res = Inl conn))"
  using with_tx_ends [OF assms(2)]
proof
  assume "\<exists>u x v. same_data w u \<and> body u = (Inr x, v) \<and> same_data v w' \<and> (res = Inr x \<or> res = Inl conn)"
  then obtain u x v where e: "same_data w u" "body u = (Inr x, v)" "same_data v w'" "res = Inr x \<or> res = Inl conn" by blast
  from refines [OF assms(1) [OF e(1)] e(2)] e have "P (now w) (data w) x (data w')" by (simp add: same_data_def)
  with e(4) show ?thesis by blast
qed (simp add: refused_def)

lemma required_or_refused:
  "with_required code body field h w = (r, w') \<Longrightarrow>
     refused w r w' \<or> (\<exists>q v. decodeManagementJSON body = Inr q \<and> field q = Some v \<and> h q v w = (r, w'))"
  "with_version tag g w = (r, w') \<Longrightarrow> refused w r w' \<or> (\<exists>v. parseExpenseETag tag = Some v \<and> g v w = (r, w'))"
  by (auto simp: with_required_def with_body_def with_version_def split: option.splits sum.splits)

lemmas expense_parsed = parsed_or_refused(1,2) required_or_refused

lemma ExpenseHandler_CreateCategory_ends:
  assumes "expense_sys (en_lower en) w" and "ExpenseHandler_CreateCategory en who c body w = (res, w')"
    and no: "\<not> refused w res w'"
  shows "\<exists>p req raw name x. who = Some p \<and> decodeManagementJSON body = Inr req \<and> kq_Name req = Some raw
    \<and> category_name req raw = Inr name
    \<and> category_added en p name (optionalDBText (kq_Description req)) (data w) x (data w') \<and> (res = Inr x \<or> res = Inl Internal)"
proof -
  obtain p req raw where parsed: "who = Some p" "decodeManagementJSON body = Inr req" "kq_Name req = Some raw"
    and run: "(case category_name req raw of Inl e \<Rightarrow> fail e
      | Inr name \<Rightarrow> with_tx Internal (CreateCategory_body en p c name req)) w = (res, w')"
    using assms(2) no unfolding ExpenseHandler_CreateCategory_def by (blast dest!: expense_parsed)
  then obtain name where n: "category_name req raw = Inr name" using no by (cases "category_name req raw") auto
  from invariant_tx_ends [OF expense_sys_same [OF _ assms(1)] run [unfolded n sum.case], where
      P = "\<lambda>n. category_added en p name (optionalDBText (kq_Description req))"] expense_refines(1) no parsed n
  show ?thesis by fastforce
qed

lemma ExpenseHandler_UpdateCategory_ends:
  assumes "expense_sys (en_lower en) w" and "ExpenseHandler_UpdateCategory en who c rawID body w = (res, w')"
    and no: "\<not> refused w res w'"
  shows "\<exists>p i req raw ac name x. who = Some p \<and> pathID rawID = Some i \<and> decodeManagementJSON body = Inr req
    \<and> category_update_fields req = Some (raw, ac) \<and> category_name req raw = Inr name
    \<and> category_changed en p i name ac (optionalDBText (kq_Description req)) (now w) (data w) x (data w')
    \<and> (res = Inr x \<or> res = Inl Internal)"
proof -
  obtain p i req raw ac where parsed: "who = Some p" "pathID rawID = Some i" "decodeManagementJSON body = Inr req"
      "category_update_fields req = Some (raw, ac)"
    and run: "(case category_name req raw of Inl e \<Rightarrow> fail e
      | Inr name \<Rightarrow> with_tx Internal (UpdateCategory_body en p c i name ac req)) w = (res, w')"
    using assms(2) no unfolding ExpenseHandler_UpdateCategory_def by (fastforce dest!: expense_parsed split: prod.splits)
  then obtain name where n: "category_name req raw = Inr name" using no by (cases "category_name req raw") auto
  from invariant_tx_ends [OF expense_sys_same [OF _ assms(1)] run [unfolded n sum.case], where
      P = "category_changed en p i name ac (optionalDBText (kq_Description req))"] expense_refines(2) no parsed n
  show ?thesis by fastforce
qed

text \<open>The instant an expense without one is recorded at is that of the request.\<close>

definition recorded_at :: "time \<Rightarrow> expenseRequest \<Rightarrow> time" where
  "recorded_at instant req = (case eq_ExpenseAt req of None \<Rightarrow> instant | Some t \<Rightarrow> t)"

lemma ExpenseHandler_Create_ends:
  assumes "expense_sys lower w" and "ExpenseHandler_Create en who c body w = (res, w')" and no: "\<not> refused w res w'"
  shows "\<exists>p req l k am raw desc x. who = Some p \<and> decodeManagementJSON body = Inr req
    \<and> expense_create_fields req = Some (l, k, am, raw) \<and> 0 < l \<and> 0 < k \<and> 0 < am \<and> expense_text req raw = Inr desc
    \<and> expense_added lower p l k am desc (recorded_at (wall w) req) (optionalDBText (eq_ReceiptReference req)) (now w)
        (data w) x (data w')
    \<and> (res = Inr x \<or> res = Inl Internal)"
proof -
  obtain p req l k am raw where parsed: "who = Some p" "decodeManagementJSON body = Inr req"
      "expense_create_fields req = Some (l, k, am, raw)"
    and run: "(if l \<le> 0 \<or> k \<le> 0 \<or> am \<le> 0 then fail (BadRequest ''INVALID_EXPENSE'')
        else case expense_text req raw of Inl e \<Rightarrow> fail e | Inr desc \<Rightarrow>
          tbind time_now (\<lambda>instant. let expenseAt = (case eq_ExpenseAt req of None \<Rightarrow> instant | Some t \<Rightarrow> t) in
          with_tx Internal (CreateExpense_body en p c l k am desc expenseAt req))) w = (res, w')"
    using assms(2) no unfolding ExpenseHandler_Create_def by (fastforce dest!: expense_parsed split: prod.splits)
  then have pos: "0 < l" "0 < k" "0 < am" using no by (auto split: if_splits)
  with run obtain desc where n: "expense_text req raw = Inr desc" using no by (cases "expense_text req raw") auto
  have tx: "with_tx Internal (CreateExpense_body en p c l k am desc (recorded_at (wall w) req) req) w = (res, w')"
    using run pos n by (simp add: tbind_def time_now_def recorded_at_def Let_def)
  from invariant_tx_ends [OF expense_sys_same [OF _ assms(1)] tx, where
      P = "expense_added lower p l k am desc (recorded_at (wall w) req) (optionalDBText (eq_ReceiptReference req))"]
    expense_refines(3) no parsed n pos
  show ?thesis by fastforce
qed

lemma ExpenseHandler_Update_ends:
  assumes "expense_sys lower w" and "ExpenseHandler_Update en who c rawID tag body w = (res, w')" and no: "\<not> refused w res w'"
  shows "\<exists>p i v req k am raw at desc x. who = Some p \<and> pathID rawID = Some i \<and> parseExpenseETag tag = Some v
    \<and> decodeManagementJSON body = Inr req
    \<and> expense_update_fields req = Some (k, am, raw, at) \<and> 0 < k \<and> 0 < am \<and> expense_text req raw = Inr desc
    \<and> expense_edited lower p i v k am desc at (optionalDBText (eq_ReceiptReference req)) (now w) (data w) x (data w')
    \<and> (res = Inr x \<or> res = Inl Internal)"
proof -
  obtain p i v req k am raw at where parsed: "who = Some p" "pathID rawID = Some i" "parseExpenseETag tag = Some v"
      "decodeManagementJSON body = Inr req" "expense_update_fields req = Some (k, am, raw, at)"
    and run: "(if k \<le> 0 \<or> am \<le> 0 then fail (BadRequest ''INVALID_EXPENSE'')
        else case expense_text req raw of Inl e \<Rightarrow> fail e
        | Inr desc \<Rightarrow> with_tx Internal (UpdateExpense_body en p c i v k am desc at req)) w = (res, w')"
    using assms(2) no unfolding ExpenseHandler_Update_def by (fastforce dest!: expense_parsed split: prod.splits)
  then have pos: "0 < k" "0 < am" using no by (auto split: if_splits)
  with run obtain desc where n: "expense_text req raw = Inr desc" using no by (cases "expense_text req raw") auto
  have tx: "with_tx Internal (UpdateExpense_body en p c i v k am desc at req) w = (res, w')" using run pos n by simp
  from invariant_tx_ends [OF expense_sys_same [OF _ assms(1)] tx, where
      P = "expense_edited lower p i v k am desc at (optionalDBText (eq_ReceiptReference req))"]
    expense_refines(4) no parsed n pos
  show ?thesis by fastforce
qed

section \<open>Reachable worlds\<close>

inductive expense_call :: "primitives \<Rightarrow> world \<Rightarrow> world \<Rightarrow> bool" for en where
  category_create: "ExpenseHandler_CreateCategory en who c kb w = (kr, w') \<Longrightarrow> expense_call en w w'"
| category_update: "ExpenseHandler_UpdateCategory en who c raw kb w = (kr, w') \<Longrightarrow> expense_call en w w'"
| expense_create: "ExpenseHandler_Create en who c eb w = (er, w') \<Longrightarrow> expense_call en w w'"
| expense_update: "ExpenseHandler_Update en who c raw tag eb w = (er, w') \<Longrightarrow> expense_call en w w'"

text \<open>A call does nothing or one event.\<close>

lemma expense_call_steps:
  assumes "expense_call en w w'" and "expense_sys (en_lower en) w"
  shows "data w' = data w \<or> (\<exists>e. expense_step (en_lower en) (data w) e (data w'))"
  using assms(1)
proof cases
  case (category_create who c kb kr)
  show ?thesis
    by (rule refused_orI) (blast dest: ExpenseHandler_CreateCategory_ends [OF assms(2) category_create] expense_outcome_steps(1))
next
  case (category_update who c raw kb kr)
  show ?thesis
    by (rule refused_orI) (blast dest: ExpenseHandler_UpdateCategory_ends [OF assms(2) category_update] expense_outcome_steps(2))
next
  case (expense_create who c eb er)
  show ?thesis
    by (rule refused_orI) (blast dest: ExpenseHandler_Create_ends [OF assms(2) expense_create] expense_outcome_steps(3))
next
  case (expense_update who c raw tag eb er)
  show ?thesis
    by (rule refused_orI) (blast dest: ExpenseHandler_Update_ends [OF assms(2) expense_update] expense_outcome_steps(4))
qed

lemma keeps_required [keeps_intro]:
  "(\<And>q v. keeps I (h q v)) \<Longrightarrow> keeps I (with_required code body field h)"
  "(\<And>v. keeps I (g v)) \<Longrightarrow> keeps I (with_version tag g)"
  by (auto simp: with_required_def with_body_def with_version_def intro: keeps_fail split: option.splits sum.splits)

lemma keeps_now [keeps_intro]: "keeps I time_now"
  by (rule keepsI) (simp add: time_now_run)

lemma expense_transactions_keep [keeps_intro]:
  "keeps (expense_sys (en_lower en)) (with_tx Internal (CreateCategory_body en p c nm kreq))"
  "keeps (expense_sys (en_lower en)) (with_tx Internal (UpdateCategory_body en p c i nm ac kreq))"
  "keeps (expense_sys lower) (with_tx Internal (CreateExpense_body en p c l k am ds at req))"
  "keeps (expense_sys lower) (with_tx Internal (UpdateExpense_body en p c i v k am ds at req))"
  by (rule keepsI, erule (1) create_category.tx_preserves update_category.tx_preserves create_expense.tx_preserves
      update_expense.tx_preserves)+

lemma expense_handlers_keep:
  "keeps (expense_sys (en_lower en)) (ExpenseHandler_CreateCategory en who c kb)"
  "keeps (expense_sys (en_lower en)) (ExpenseHandler_UpdateCategory en who c raw kb)"
  "keeps (expense_sys lower) (ExpenseHandler_Create en who c eb)"
  "keeps (expense_sys lower) (ExpenseHandler_Update en who c raw tag eb)"
  unfolding ExpenseHandler_CreateCategory_def ExpenseHandler_UpdateCategory_def ExpenseHandler_Create_def
    ExpenseHandler_Update_def
  by (intro keeps_intro)+

lemma expense_call_keeps: "expense_call en w w' \<Longrightarrow> expense_sys (en_lower en) w \<Longrightarrow> expense_sys (en_lower en) w'"
  by (induction rule: expense_call.induct) (auto intro: expense_handlers_keep [THEN keepsD])

text \<open>No other statement of the program writes these two tables; what it does to the others is arbitrary here.\<close>

definition expenses_untouched :: "db \<Rightarrow> db \<Rightarrow> bool" where
  "expenses_untouched d d' \<longleftrightarrow> expense_categories d' = expense_categories d \<and> expenses d' = expenses d"

inductive expense_request :: "primitives \<Rightarrow> world \<Rightarrow> world \<Rightarrow> bool" for en where
  elsewhere: "expenses_untouched (data w) (data w') \<Longrightarrow> expense_fresh w' \<Longrightarrow> expense_request en w w'"
| call: "expense_call en w w' \<Longrightarrow> expense_request en w w'"

inductive expense_reachable :: "primitives \<Rightarrow> world \<Rightarrow> bool" for en where
  start: "expense_categories (data w) = [] \<Longrightarrow> expenses (data w) = [] \<Longrightarrow> expense_fresh w \<Longrightarrow> expense_reachable en w"
| step: "expense_reachable en w \<Longrightarrow> expense_request en w w' \<Longrightarrow> expense_reachable en w'"

lemma expense_request_sys:
  "expense_request en w w' \<Longrightarrow> expense_sys (en_lower en) w \<Longrightarrow> expense_sys (en_lower en) w'"
proof (induction rule: expense_request.induct)
  case (elsewhere w w')
  then show ?case unfolding expense_sys_def expenses_untouched_def using expense_ok_frame by blast
qed (rule expense_call_keeps)

lemma expense_reachable_sys: "expense_reachable en w \<Longrightarrow> expense_sys (en_lower en) w"
proof (induction rule: expense_reachable.induct)
  case (start w)
  then show ?case
    by (simp add: expense_sys_def expense_ok_def categories_tbl.sound_def expenses_tbl.sound_def)
qed (rule expense_request_sys)

section \<open>Versions\<close>

text \<open>An expense stays where it is, and its version only grows.\<close>

definition later_version :: "expense_row \<Rightarrow> expense_row \<Rightarrow> bool" where
  "later_version r r' \<longleftrightarrow> ex_id r' = ex_id r \<and> ex_business_id r' = ex_business_id r \<and> ex_outlet_id r' = ex_outlet_id r
     \<and> ex_created_by r' = ex_created_by r \<and> ex_created_at r' = ex_created_at r \<and> ex_version r \<le> ex_version r'
     \<and> (ex_version r' = ex_version r \<longrightarrow> r' = r)"

lemma later_refl [simp]: "later_version r r"
  by (simp add: later_version_def)

lemma later_trans: "later_version r s \<Longrightarrow> later_version s t \<Longrightarrow> later_version r t"
  unfolding later_version_def by (metis order_antisym order_trans)

lemma step_later:
  assumes "expense_step lower d e d'" and "r \<in> set (expenses d)"
  shows "\<exists>r' \<in> set (expenses d'). later_version r r'"
  using assms(1)
proof cases
  case (category c rs a)
  then show ?thesis using assms(2) by (intro bexI [of _ r]) simp_all
next
  case (expense ec rs a)
  show ?thesis
  proof (cases ec)
    case (Added x)
    then show ?thesis using expense assms(2) by (intro bexI [of _ r]) (simp_all add: expenses_tbl.changes_def)
  next
    case (Changed x x')
    then have c: "x \<in> set (expenses d)" "ex_id x' = ex_id x" "ex_business_id x' = ex_business_id x"
        "rs = replace_row x x' (expenses d)" "versioned (Changed x x')"
      using expense by (simp_all add: expenses_tbl.changes_def)
    show ?thesis
    proof (cases "r = x")
      case True
      then show ?thesis using c unfolding expense(2)
        by (intro bexI [of _ x']) (simp_all add: later_version_def set_replace_row)
    next
      case False
      then show ?thesis using c assms(2) unfolding expense(2) by (intro bexI [of _ r]) (simp_all add: set_replace_row)
    qed
  qed
qed

lemma request_later:
  assumes "expense_request en w w'" and "expense_sys (en_lower en) w" and "r \<in> set (expenses (data w))"
  shows "\<exists>r' \<in> set (expenses (data w')). later_version r r'"
  using assms(1)
proof cases
  case elsewhere
  then show ?thesis using assms(3) by (intro bexI [of _ r]) (simp_all add: expenses_untouched_def)
next
  case call
  from expense_call_steps [OF call assms(2)] show ?thesis
    using step_later assms(3) by (metis later_refl)
qed

lemma requests_later:
  assumes "(expense_request en)\<^sup>*\<^sup>* w w'" and "expense_sys (en_lower en) w" and "r \<in> set (expenses (data w))"
  shows "expense_sys (en_lower en) w' \<and> (\<exists>r' \<in> set (expenses (data w')). later_version r r')"
  using assms(1)
proof (induction rule: rtranclp_induct)
  case base
  with assms(2,3) show ?case using later_refl by blast
next
  case (step u v)
  then obtain r' where r': "r' \<in> set (expenses (data u))" "later_version r r'" by blast
  from request_later [OF step(2) _ r'(1)] step(3) later_trans [OF r'(2)] expense_request_sys [OF step(2)]
  show ?case by blast
qed

text \<open>What an edit leaves, spelled out.\<close>

lemma edit_step:
  assumes "expense_step lower d (ExpenseEvent (Changed r r')) d'"
  shows "\<exists>a. d' = d\<lparr>expenses := replace_row r r' (expenses d), audit_logs := audit_logs d @ [a]\<rparr>
    \<and> expense_audited (Changed r r') a \<and> active_category d (ex_business_id r') (ex_category_id r') \<and> r' \<in> set (expenses d')"
  using assms
proof (rule expense_stepE)
  fix rs a
  assume *: "d' = d\<lparr>expenses := rs, audit_logs := audit_logs d @ [a]\<rparr>" "expenses_tbl.changes d (Changed r r') rs"
    "active_category d (ex_business_id (changed_row (Changed r r'))) (ex_category_id (changed_row (Changed r r')))"
    "expense_audited (Changed r r') a"
  then have rs: "rs = replace_row r r' (expenses d)" "r \<in> set (expenses d)" by (simp_all add: expenses_tbl.changes_def)
  then have "r' \<in> set (expenses d')" using *(1) by (simp add: set_replace_row)
  with * rs show ?thesis by (intro exI [of _ a]) simp
qed

lemma insertion_step:
  assumes "expense_step lower d (ExpenseEvent (Added r)) d'"
  shows "\<exists>a. d' = d\<lparr>expenses := expenses d @ [r], audit_logs := audit_logs d @ [a]\<rparr>
    \<and> expense_audited (Added r) a \<and> active_category d (ex_business_id r) (ex_category_id r) \<and> ex_version r = 1 \<and> expense_check r"
  using assms
proof (rule expense_stepE)
  fix rs a
  assume *: "d' = d\<lparr>expenses := rs, audit_logs := audit_logs d @ [a]\<rparr>" "expenses_tbl.changes d (Added r) rs"
    "active_category d (ex_business_id (changed_row (Added r))) (ex_category_id (changed_row (Added r)))"
    "expense_audited (Added r) a" "versioned (Added r)"
  then have "rs = expenses d @ [r]" "expense_check r" by (simp_all add: expenses_tbl.changes_def)
  with * show ?thesis by (intro exI [of _ a]) simp
qed

end
