(* ===== verification/Expense_Properties.thy ===== *)
theory Expense_Properties
  imports "HOL-Library.Multiset" Expense_Worlds Master_Sample
begin

text \<open>
  What the expenses promise: an edit is accepted once and only under the version it names, an expense that is read
  can be edited under the tag of the reply, listings show the days of Asia/Jakarta, and every stored expense is sound.
\<close>

section \<open>An edit over a calm connection\<close>

definition editable :: "db \<Rightarrow> Principal \<Rightarrow> client \<Rightarrow> expense_row \<Rightarrow> bool" where
  "editable d p c r \<longleftrightarrow> r \<in> set (expenses d) \<and> ex_business_id r = pc_BusinessID p
     \<and> expense_standing d (pc_BusinessID p) (is_owner p) (pc_UserID p) (ex_outlet_id r)
     \<and> active_user d (pc_BusinessID p) (pc_UserID p) \<and> business_exists d (pc_BusinessID p)
     \<and> user_exists d (pc_BusinessID p) (ex_created_by r) \<and> is_int64 (ex_version r + 1)
     \<and> pg_text_opt (audit_user_agent (cl_user_agent c))"

lemma standing_exists: "expense_standing d b ad u l \<Longrightarrow> outlet_exists d b l"
  by (auto simp: expense_standing_def active_outlet_def outlet_exists_def list_ex_iff)

lemma active_user_exists: "active_user d b u \<Longrightarrow> user_exists d b u"
  by (auto simp: active_user_def user_exists_def list_ex_iff)

lemma expense_action_text: "pg_text ''EXPENSE_UPDATED''" "btrim ''EXPENSE_UPDATED'' \<noteq> []" "btrim ''expense'' \<noteq> []"
  by (simp_all add: pg_text_def in_range_def rune_len_def btrim_empty_iff blank_def)

lemma expense_audit_ok: "jval_ok (expense_audit r)"
  by (simp add: expense_audit_def)

text \<open>A time json.Marshal can write in the zone of the server.\<close>

definition writable :: "primitives \<Rightarrow> time \<Rightarrow> bool" where
  "writable en t \<longleftrightarrow> json_time_ok \<lparr>zt_at = t, zt_offset = en_offset en t\<rparr>"

lemma expense_audit_marshals: "marshals en (expense_audit r) \<longleftrightarrow> writable en (ex_expense_at r)"
  by (simp add: expense_audit_def writable_def)

lemma UpdateExpense_calm:
  assumes calm: "faults w = []" and sys: "expense_sys lower w" and ed: "editable (data w) p c r"
    and cat: "active_category (data w) (pc_BusinessID p) k" and am: "0 < am"
    and times: "writable en (ex_expense_at r)" "writable en at"
    and desc: "pg_text desc" "btrim desc \<noteq> []" and ref: "pg_text_opt (optionalDBText (eq_ReceiptReference req))"
  shows "\<exists>v. UpdateExpense_body en p c (ex_id r) (ex_version r) k am desc at req w =
     (Inr (expenseFrom (expense_with k am desc at (optionalDBText (eq_ReceiptReference req)) (now w) r),
       expenseETag (ex_version r + 1)), v) \<and> faults v = []"
proof -
  let ?b = "pc_BusinessID p" and ?u = "pc_UserID p" and ?ref = "optionalDBText (eq_ReceiptReference req)"
  let ?r = "expense_with k am desc at ?ref (now w) r"
  note E = ed [unfolded editable_def]
  have isr: "expense_is ?b (ex_id r) r" using E by (simp add: expense_is_def)
  have chk: "expense_check r" using expense_sysD(2) [OF sys] E by (auto simp: expense_ok_def dest: expenses_tbl.soundD(1))
  have key: "\<And>x. expense_is ?b (ex_id r) x \<Longrightarrow> ex_id x = ex_id r" by (simp add: expense_is_def)
  have f: "filter (\<lambda>e. expense_is ?b (ex_id r) e \<and> expense_standing (data w) ?b (is_owner p) ?u (ex_outlet_id e)
      \<and> active_user (data w) ?b ?u) (expenses (data w)) = [r]"
    by (rule expenses_tbl.filter_key [OF expense_sysD(4) [OF sys]]) (use E isr key in blast)+
  then have get: "GetExpenseForUpdate ?u ?b (ex_id r) (is_owner p) w = (Inr r, w)"
    by (simp add: GetExpenseForUpdate_def one_select_calm calm)
  have asg: "check_assignment p (ex_outlet_id r) w = (Inr (), w)"
    using E by (auto simp: check_assignment_def ret_def tbind_def or_not_found_def on_err_def
        LockExpenseOutletAssignment_def one_select_calm calm expense_standing_def)
  have ck: "check_category p k w = (Inr k, w)"
    using cat by (simp add: check_category_def on_err_def GetActiveExpenseCategory_def one_select_calm calm)
  have ok: "write_expense_error (data w) ?r = None"
    using E chk am desc ref cat standing_exists active_exists
    by (auto simp: write_expense_error_def expense_with_def expense_check_def)
  have fe: "filter (expense_editable (data w) ?b (ex_id r) (ex_version r) ?u (is_owner p) k) (expenses (data w)) = [r]"
    unfolding expense_editable_def
    by (rule expenses_tbl.filter_key [OF expense_sysD(4) [OF sys]]) (use E isr key cat in blast)+
  obtain u where u: "UpdateExpense k am desc at ?ref ?b (ex_id r) (ex_version r) ?u (is_owner p) w = (Inr ?r, u)"
      "faults u = []" "\<exists>rs. data u = (data w)\<lparr>expenses := rs\<rparr>"
    using update_one_calm [where w = w and get = expenses and put = "\<lambda>rs d. d\<lparr>expenses := rs\<rparr>"
        and upd = "expense_with k am desc at ?ref" and chk = write_expense_error, OF calm fe ok]
    unfolding UpdateExpense_def by blast
  have au: "audit_fits (data u) \<lparr>a_business_id = ?b, a_user_id = ?u, a_role = [], a_outlet_ids = [], a_ip = None,
      a_user_agent = cl_user_agent c\<rparr> (ex_outlet_id r)"
    using u(3) E standing_exists active_user_exists
    by (auto simp: audit_fits_def business_exists_def outlet_exists_def user_exists_def)
  obtain x v where v: "writeExpenseAudit en p c ''EXPENSE_UPDATED'' (ex_id r) (ex_outlet_id r) (Some (expense_audit r))
      (Some (expense_audit ?r)) u = (Inr x, v)" "faults v = []"
    using u(2) au times expense_action_text expense_audit_ok [of r] expense_audit_ok [of ?r]
    by (simp add: writeExpenseAudit_def marshals_opt_def expense_audit_marshals expense_with_def as_internal_def InsertExpenseAuditLog_def insert_audit_def on_err_def insert_serial_def
        insert_audit_error_def audit_fits_def Let_def jval_opt_ok_def)
  have "er_OutletID (expenseFrom ?r) = ex_outlet_id r" "er_Version (expenseFrom ?r) = ex_version r + 1"
    by (simp_all add: expenseFrom_def expense_with_def)
  then show ?thesis
    using get asg ck u(1) v
    by (simp add: UpdateExpense_body_def tbind_def or_not_found_def on_err_def Let_def audit_values ret_def)
qed

section \<open>A run\<close>

text \<open>The administrator of the sample laundry adds a category; the member of staff of its outlet records an expense and edits it.\<close>

definition clerk :: Principal where
  "clerk = \<lparr>pc_UserID = 2, pc_BusinessID = 1, pc_SessionID = 2, pc_Email = ''u2'', pc_FullName = ''User'',
     pc_Role = ''LAUNDRY_STAFF'', pc_OutletIDs = [1], pc_Permissions = []\<rparr>"

definition soap_category :: "expenseCategoryRequest body" where
  "soap_category = (Inr \<lparr>kq_Name = Some '' Soap '', kq_Description = None, kq_IsActive = None\<rparr>, Inl EndOfBody)"

definition soap_request :: "i64 \<Rightarrow> expenseRequest" where
  "soap_request amount = \<lparr>eq_OutletID = Some 1, eq_CategoryID = Some 1, eq_Amount = Some amount,
     eq_Description = Some '' Two boxes '', eq_ExpenseAt = Some sample_time, eq_ReceiptReference = Some ''R-17''\<rparr>"

definition soap_body :: "i64 \<Rightarrow> expenseRequest body" where
  "soap_body amount = (Inr (soap_request amount), Inl EndOfBody)"

definition world_category :: world where
  "world_category = snd (ExpenseHandler_CreateCategory sample_en (Some boss) sample_client soap_category sample_world)"

definition world_spent :: world where
  "world_spent = snd (ExpenseHandler_Create sample_en (Some clerk) sample_client (soap_body 15000) world_category)"

definition world_edited :: world where
  "world_edited = snd (ExpenseHandler_Update sample_en (Some clerk) sample_client ''1'' (expenseETag 1) (soap_body 18000) world_spent)"

definition soap_row :: "i64 \<Rightarrow> i64 \<Rightarrow> expense_row" where
  "soap_row amount version = \<lparr>ex_id = 1, ex_business_id = 1, ex_outlet_id = 1, ex_category_id = 1, ex_amount = amount,
     ex_description = ''Two boxes'', ex_expense_at = sample_time, ex_receipt_reference = Some ''R-17'', ex_created_by = 2,
     ex_created_at = sample_time, ex_updated_at = sample_time, ex_version = version\<rparr>"

lemma expense_calls:
  "expense_call sample_en sample_world world_category" "expense_call sample_en world_category world_spent"
  "expense_call sample_en world_spent world_edited"
  unfolding world_category_def world_spent_def world_edited_def
  by (blast intro: expense_call.intros prod.collapse [symmetric])+

lemma expense_worlds_reachable:
  "expense_reachable sample_en sample_world" "expense_reachable sample_en world_category"
  "expense_reachable sample_en world_spent" "expense_reachable sample_en world_edited"
proof -
  show s: "expense_reachable sample_en sample_world"
    by (rule expense_reachable.start)
      (simp_all add: sample_defs expense_fresh_def categories_tbl.fresh_def expenses_tbl.fresh_def)
  show c: "expense_reachable sample_en world_category"
    by (rule expense_reachable.step [OF s expense_request.call [OF expense_calls(1)]])
  show p: "expense_reachable sample_en world_spent"
    by (rule expense_reachable.step [OF c expense_request.call [OF expense_calls(2)]])
  show "expense_reachable sample_en world_edited"
    by (rule expense_reachable.step [OF p expense_request.call [OF expense_calls(3)]])
qed

lemma spent_tables: "expenses (data world_spent) = [soap_row 15000 1]" "faults world_spent = []"
  by code_simp+

lemma edited_tables: "expenses (data world_edited) = [soap_row 18000 2]" "faults world_edited = []"
  by code_simp+

lemma edited: "ExpenseHandler_Update sample_en (Some clerk) sample_client ''1'' (expenseETag 1) (soap_body 18000) world_spent
     = (Inr (expenseFrom (soap_row 18000 2), expenseETag 2), world_edited)"
proof -
  have "fst (ExpenseHandler_Update sample_en (Some clerk) sample_client ''1'' (expenseETag 1) (soap_body 18000) world_spent)
     = Inr (expenseFrom (soap_row 18000 2), expenseETag 2)" by code_simp
  then show ?thesis unfolding world_edited_def by (metis prod.collapse)
qed

lemma spent: "ExpenseHandler_Create sample_en (Some clerk) sample_client (soap_body 15000) world_category
     = (Inr (expenseFrom (soap_row 15000 1), expenseETag 1), world_spent)"
proof -
  have "fst (ExpenseHandler_Create sample_en (Some clerk) sample_client (soap_body 15000) world_category)
     = Inr (expenseFrom (soap_row 15000 1), expenseETag 1)" by code_simp
  then show ?thesis unfolding world_spent_def by (metis prod.collapse)
qed

section \<open>Edits\<close>

text \<open>A request to edit an expense either changes nothing and is answered with an error, or it replaces the one expense of the
  tenant with the identifier, whose version is that of the If-Match header, by a row with the terms of the request and the next
  version, and adds one audit row, which withholds the texts. Then the actor is an active user with standing at the outlet of the
  expense, the category of the request is active, and the reply is the new row with its tag, or an error when the reply of the
  commit is lost.\<close>

lemma edit_outcome:
  assumes "expense_reachable en w" and "ExpenseHandler_Update en who c rawID tag body w = (res, w')"
  shows "data w' = data w \<and> (\<forall>x. res \<noteq> Inr x) \<or>
    (\<exists>p i v req k am raw at r r' a. who = Some p \<and> pathID rawID = Some i \<and> parseExpenseETag tag = Some v
      \<and> decodeManagementJSON body = Inr req \<and> expense_update_fields req = Some (k, am, raw, at) \<and> 0 < am
      \<and> r \<in> set (expenses (data w)) \<and> expense_is (pc_BusinessID p) i r \<and> ex_version r = v
      \<and> expense_standing (data w) (pc_BusinessID p) (is_owner p) (pc_UserID p) (ex_outlet_id r)
      \<and> active_user (data w) (pc_BusinessID p) (pc_UserID p) \<and> active_category (data w) (pc_BusinessID p) k
      \<and> r' = r\<lparr>ex_category_id := k, ex_amount := am, ex_description := trim_space raw, ex_expense_at := at,
               ex_receipt_reference := optionalDBText (eq_ReceiptReference req), ex_updated_at := now w, ex_version := v + 1\<rparr>
      \<and> data w' = (data w)\<lparr>expenses := replace_row r r' (expenses (data w)), audit_logs := audit_logs (data w) @ [a]\<rparr>
      \<and> expense_audited (Changed r r') a
      \<and> (res = Inr (expenseFrom r', expenseETag (v + 1)) \<or> res = Inl Internal))"
proof (cases "refused w res w'")
  case True
  then show ?thesis by (simp add: refused_def)
next
  case False
  from ExpenseHandler_Update_ends [OF expense_reachable_sys [OF assms(1)] assms(2) False]
  obtain p i v req k am raw at desc x where parsed: "who = Some p" "pathID rawID = Some i" "parseExpenseETag tag = Some v"
      "decodeManagementJSON body = Inr req" "expense_update_fields req = Some (k, am, raw, at)" "0 < am"
      "expense_text req raw = Inr desc"
    and ed: "expense_edited (en_lower en) p i v k am desc at (optionalDBText (eq_ReceiptReference req)) (now w) (data w) x (data w')"
    and res: "res = Inr x \<or> res = Inl Internal" by blast
  from ed obtain r r' where r: "r \<in> set (expenses (data w))" "expense_is (pc_BusinessID p) i r" "ex_version r = v"
      "r' = expense_with k am desc at (optionalDBText (eq_ReceiptReference req)) (now w) r"
      "expense_standing (data w) (pc_BusinessID p) (is_owner p) (pc_UserID p) (ex_outlet_id r)"
      "active_user (data w) (pc_BusinessID p) (pc_UserID p)" "x = (expenseFrom r', expenseETag (v + 1))"
    and step: "expense_step (en_lower en) (data w) (ExpenseEvent (Changed r r')) (data w')"
    unfolding expense_edited_def by blast
  have "desc = trim_space raw" using parsed(7) by (auto simp: expense_text_def Let_def split: if_splits)
  with r have r': "r' = r\<lparr>ex_category_id := k, ex_amount := am, ex_description := trim_space raw, ex_expense_at := at,
      ex_receipt_reference := optionalDBText (eq_ReceiptReference req), ex_updated_at := now w, ex_version := v + 1\<rparr>"
    by (simp add: expense_with_def)
  have bk: "ex_business_id r' = pc_BusinessID p" "ex_category_id r' = k" using r(2) r' by (simp_all add: expense_is_def)
  from edit_step [OF step, unfolded bk] obtain a where "data w' = (data w)\<lparr>expenses := replace_row r r' (expenses (data w)), audit_logs := audit_logs (data w) @ [a]\<rparr>"
      "expense_audited (Changed r r') a" "active_category (data w) (pc_BusinessID p) k" by blast
  with parsed r r' res show ?thesis by blast
qed

text \<open>C31: No lost update: once an edit has changed an expense, whatever happens afterwards, no other edit under the same version
  of the same expense is accepted; it changes nothing.\<close>

theorem edit_once:
  assumes "expense_reachable en w" and "ExpenseHandler_Update en who c raw tag body w = (res, w1)" and "data w1 \<noteq> data w"
    and "(expense_request en)\<^sup>*\<^sup>* w1 w2"
    and "ExpenseHandler_Update en who' c' raw' tag' body' w2 = (res', w3)"
    and "pathID raw' = pathID raw" and "parseExpenseETag tag' = parseExpenseETag tag"
  shows "data w3 = data w2 \<and> (\<forall>x. res' \<noteq> Inr x)"
proof -
  note sys = expense_reachable_sys [OF assms(1)]
  have "\<not> refused w res w1" using assms(3) by (simp add: refused_def)
  from ExpenseHandler_Update_ends [OF sys assms(2) this] obtain p i v k am desc at ref x
    where i: "pathID raw = Some i" "parseExpenseETag tag = Some v"
      "expense_edited (en_lower en) p i v k am desc at ref (now w) (data w) x (data w1)" by blast
  then obtain r r' where r: "expense_is (pc_BusinessID p) i r" "ex_version r = v" "r' = expense_with k am desc at ref (now w) r"
      "expense_step (en_lower en) (data w) (ExpenseEvent (Changed r r')) (data w1)"
    unfolding expense_edited_def by blast
  from edit_step [OF r(4)] have r1: "r' \<in> set (expenses (data w1))" by blast
  have sys1: "expense_sys (en_lower en) w1"
    using expense_request_sys [OF expense_request.call [OF expense_call.expense_update [OF assms(2)]] sys] .
  from requests_later [OF assms(4) sys1 r1] obtain s where sys2: "expense_sys (en_lower en) w2"
    and s: "s \<in> set (expenses (data w2))" "later_version r' s" by blast
  have sv: "ex_id s = i" "v + 1 \<le> ex_version s"
    using s(2) r(1-3) by (auto simp: later_version_def expense_with_def expense_is_def)
  have "refused w2 res' w3"
  proof (rule ccontr)
    assume "\<not> refused w2 res' w3"
    from ExpenseHandler_Update_ends [OF sys2 assms(5) this] i(1,2) assms(6,7) obtain p' k' am' desc' at' ref' x'
      where "expense_edited (en_lower en) p' i v k' am' desc' at' ref' (now w2) (data w2) x' (data w3)" by auto
    then obtain t where t: "t \<in> set (expenses (data w2))" "ex_id t = i" "ex_version t = v"
      unfolding expense_edited_def expense_is_def by blast
    have "t = s" by (rule expenses_tbl.key_unique [OF expense_sysD(4) [OF sys2] t(1) s(1)]) (simp add: t sv)
    with t sv show False by simp
  qed
  then show ?thesis by (simp add: refused_def)
qed

theorem edit_once_witness:
  "data (snd (ExpenseHandler_Update sample_en (Some boss) sample_client ''1'' (expenseETag 1) (soap_body 9000) world_edited)) = data world_edited"
proof -
  have "data world_edited \<noteq> data world_spent" using spent_tables edited_tables by (auto simp: soap_row_def)
  from edit_once [OF expense_worlds_reachable(3) edited this rtranclp.rtrancl_refl prod.collapse [symmetric] refl refl]
  show ?thesis by blast
qed

lemma calm_get:
  assumes "faults w = []"
  shows "snd (ExpenseHandler_Get who raw w) = w"
proof -
  have "\<exists>res. GetExpense b i ad u w = (res, w)" for b i ad u
    by (simp add: GetExpense_def one_select_calm assms split: list.splits)
  then have "\<exists>res. or_not_found (GetExpense b i ad u) w = (res, w)" for b i ad u
    by (metis or_not_found_def on_err_run)
  then have "snd (tbind (or_not_found (GetExpense b i ad u)) (\<lambda>item. ret (expenseFrom item, expenseETag (er_Version (expenseFrom item)))) w) = w"
    for b i ad u
    by (metis (no_types, lifting) ret_run snd_conv surj_pair sum.exhaust tbind_Inl tbind_Inr)
  then show ?thesis
    by (cases who; cases "pathID raw") (simp_all add: ExpenseHandler_Get_def with_principal_def with_id_def fail_def)
qed

text \<open>C32: Who reads an expense can edit it under the tag of the reply: over a calm connection, the edit of an active user with terms
  the server accepts, its old and its new time ones json.Marshal can write, is answered with the new row under the next tag.\<close>

theorem read_then_edit:
  assumes "expense_reachable en w" and "faults w = []"
    and "ExpenseHandler_Get (Some p) raw w = (Inr (x, tag), w1)"
    and "decodeManagementJSON body = Inr req" and "expense_update_fields req = Some (k, am, rawText, at)" and "0 < k" and "0 < am"
    and "expense_text req rawText = Inr desc" and "pg_text desc" and "pg_text_opt (optionalDBText (eq_ReceiptReference req))"
    and "active_category (data w) (pc_BusinessID p) k" and "active_user (data w) (pc_BusinessID p) (pc_UserID p)"
    and "business_exists (data w) (pc_BusinessID p)" and "user_exists (data w) (pc_BusinessID p) (er_CreatedBy x)"
    and "writable en (er_ExpenseAt x)" and "writable en at"
    and "er_Version x < 2 ^ 63 - 1" and "pg_text_opt (audit_user_agent (cl_user_agent c))"
  shows "\<exists>w2. ExpenseHandler_Update en (Some p) c raw tag body w1 =
    (Inr (x\<lparr>er_CategoryID := k, er_Amount := am, er_Description := desc, er_ExpenseAt := at,
       er_ReceiptReference := optionalDBText (eq_ReceiptReference req), er_UpdatedAt := now w, er_Version := er_Version x + 1\<rparr>,
     expenseETag (er_Version x + 1)), w2)"
proof -
  let ?b = "pc_BusinessID p" and ?ref = "optionalDBText (eq_ReceiptReference req)"
  note sys = expense_reachable_sys [OF assms(1)]
  from assms(3) obtain i r where i: "pathID raw = Some i" and get: "GetExpense ?b i (is_owner p) (pc_UserID p) w = (Inr r, w1)"
    and x: "x = expenseFrom r" "tag = expenseETag (ex_version r)"
    unfolding ExpenseHandler_Get_def by (auto simp: run_inv or_not_found_def expenseFrom_def)
  from get obtain rs where w1: "w1 = w" and f: "filter (\<lambda>e. expense_is ?b i e
      \<and> expense_standing (data w) ?b (is_owner p) (pc_UserID p) (ex_outlet_id e)) (expenses (data w)) = r # rs"
    by (auto simp: GetExpense_def one_select_calm assms(2) split: list.splits)
  have "r \<in> set (filter (\<lambda>e. expense_is ?b i e
      \<and> expense_standing (data w) ?b (is_owner p) (pc_UserID p) (ex_outlet_id e)) (expenses (data w)))" unfolding f by simp
  then have r: "r \<in> set (expenses (data w))" "expense_is ?b i r"
      "expense_standing (data w) ?b (is_owner p) (pc_UserID p) (ex_outlet_id r)" by simp_all
  have v: "1 \<le> ex_version r" using expense_sysD(2) [OF sys] expenses_tbl.soundD(1) r(1)
    by (fastforce simp: expense_ok_def expense_check_def)
  have big: "is_int64 (ex_version r)" "is_int64 (ex_version r + 1)"
    using v assms(17) x(1) by (simp_all add: is_int64_def expenseFrom_def)
  have ed: "editable (data w) p c r"
    using assms(12-18) r big(2) x(1) by (simp add: editable_def expense_is_def expenseFrom_def)
  have wr: "writable en (ex_expense_at r)" using assms(15) x(1) by (simp add: expenseFrom_def)
  have "btrim desc \<noteq> []"
    using assms(8) trim_space_not_blank [of rawText] by (auto simp: expense_text_def btrim_empty_iff Let_def split: if_splits)
  from UpdateExpense_calm [OF assms(2) sys ed assms(11,7) wr assms(16,9) this assms(10)] obtain u where
    body: "UpdateExpense_body en p c (ex_id r) (ex_version r) k am desc at req w =
      (Inr (expenseFrom (expense_with k am desc at ?ref (now w) r), expenseETag (ex_version r + 1)), u)" "faults u = []" by blast
  have "ex_id r = i" using r(2) by (simp add: expense_is_def)
  with body(1) have "UpdateExpense_body en p c i (ex_version r) k am desc at req w =
      (Inr (expenseFrom (expense_with k am desc at ?ref (now w) r), expenseETag (ex_version r + 1)), u)" by simp
  then have tx: "with_tx Internal (UpdateExpense_body en p c i (ex_version r) k am desc at req) w =
      (Inr (expenseFrom (expense_with k am desc at ?ref (now w) r), expenseETag (ex_version r + 1)), u)"
    using assms(2) body(2) by (simp add: with_tx_def)
  have "expenseFrom (expense_with k am desc at ?ref (now w) r) = x\<lparr>er_CategoryID := k, er_Amount := am, er_Description := desc,
      er_ExpenseAt := at, er_ReceiptReference := ?ref, er_UpdatedAt := now w, er_Version := er_Version x + 1\<rparr>"
    "ex_version r = er_Version x"
    by (simp_all add: x(1) expenseFrom_def expense_with_def)
  then show ?thesis
    using tx i assms(4-8) parse_etag [OF v big(1)] unfolding w1
    by (simp add: ExpenseHandler_Update_def with_principal_def with_id_def with_version_def x(2) with_required_def with_body_def)
qed

theorem read_then_edit_witness:
  "\<exists>w2. ExpenseHandler_Update sample_en (Some clerk) sample_client ''1'' (expenseETag 2) (soap_body 20000) world_edited
     = (Inr (expenseFrom (soap_row 20000 3), expenseETag 3), w2)"
proof -
  have get: "ExpenseHandler_Get (Some clerk) ''1'' world_edited = (Inr (expenseFrom (soap_row 18000 2), expenseETag 2), world_edited)"
  proof -
    have "fst (ExpenseHandler_Get (Some clerk) ''1'' world_edited) = Inr (expenseFrom (soap_row 18000 2), expenseETag 2)" by code_simp
    with calm_get [OF edited_tables(2), of "Some clerk" "''1''"] show ?thesis by (metis prod.collapse)
  qed
  have t: "trim_space '' Two boxes '' = ''Two boxes''" "trim_space ''R-17'' = ''R-17''" by code_simp+
  have a: "active_category (data world_edited) 1 1" "active_user (data world_edited) 1 2" "business_exists (data world_edited) 1"
      "user_exists (data world_edited) 1 2" "now world_edited = sample_time" "writable sample_en sample_time" by code_simp+
  have "\<exists>w2. ExpenseHandler_Update sample_en (Some clerk) sample_client ''1'' (expenseETag 2) (soap_body 20000) world_edited =
    (Inr ((expenseFrom (soap_row 18000 2))\<lparr>er_CategoryID := 1, er_Amount := 20000, er_Description := ''Two boxes'',
       er_ExpenseAt := sample_time, er_ReceiptReference := optionalDBText (eq_ReceiptReference (soap_request 20000)),
       er_UpdatedAt := now world_edited, er_Version := er_Version (expenseFrom (soap_row 18000 2)) + 1\<rparr>,
     expenseETag (er_Version (expenseFrom (soap_row 18000 2)) + 1)), w2)"
    by (rule read_then_edit [OF expense_worlds_reachable(4) edited_tables(2) get, where rawText = "'' Two boxes ''"])
      (use t a in \<open>simp_all add: soap_body_def soap_request_def decodeManagementJSON_def expense_update_fields_def expense_text_def
        clerk_def optionalDBText_def pg_text_opt_def pg_text_def rune_len_def Let_def expenseFrom_def soap_row_def sample_client_def
        audit_user_agent_def\<close>)
  then show ?thesis by (simp add: expenseFrom_def soap_row_def a t optionalDBText_def soap_request_def Let_def)
qed

section \<open>Entries\<close>

text \<open>A request to record an expense either changes nothing and is answered with an error, or it adds one row with the terms of
  the request, a positive amount and version 1, by an active user with standing at the outlet, under an active category, dated now
  when the request gives no date, with one audit row, which withholds the texts.\<close>

lemma entry_outcome:
  assumes "expense_reachable en w" and "ExpenseHandler_Create en who c body w = (res, w')"
  shows "data w' = data w \<and> (\<forall>x. res \<noteq> Inr x) \<or>
    (\<exists>p req l k am raw r a. who = Some p \<and> decodeManagementJSON body = Inr req
      \<and> expense_create_fields req = Some (l, k, am, raw)
      \<and> expense_standing (data w) (pc_BusinessID p) (is_owner p) (pc_UserID p) l
      \<and> active_user (data w) (pc_BusinessID p) (pc_UserID p) \<and> active_category (data w) (pc_BusinessID p) k
      \<and> expense_terms p l k am (trim_space raw) (recorded_at (wall w) req) (optionalDBText (eq_ReceiptReference req)) r
      \<and> 0 < am \<and> trim_space raw \<noteq> [] \<and> ex_version r = 1
      \<and> data w' = (data w)\<lparr>expenses := expenses (data w) @ [r], audit_logs := audit_logs (data w) @ [a]\<rparr>
      \<and> expense_audited (Added r) a
      \<and> (res = Inr (expenseFrom r, expenseETag 1) \<or> res = Inl Internal))"
proof (cases "refused w res w'")
  case True
  then show ?thesis by (simp add: refused_def)
next
  case False
  from ExpenseHandler_Create_ends [OF expense_reachable_sys [OF assms(1)] assms(2) False]
  obtain p req l k am raw desc x where parsed: "who = Some p" "decodeManagementJSON body = Inr req"
      "expense_create_fields req = Some (l, k, am, raw)" "0 < am" "expense_text req raw = Inr desc"
    and ad: "expense_added (en_lower en) p l k am desc (recorded_at (wall w) req) (optionalDBText (eq_ReceiptReference req))
      (now w) (data w) x (data w')"
    and res: "res = Inr x \<or> res = Inl Internal" by blast
  from ad obtain r where r: "expense_terms p l k am desc (recorded_at (wall w) req) (optionalDBText (eq_ReceiptReference req)) r"
      "expense_standing (data w) (pc_BusinessID p) (is_owner p) (pc_UserID p) l"
      "active_user (data w) (pc_BusinessID p) (pc_UserID p)" "x = (expenseFrom r, expenseETag 1)"
    and step: "expense_step (en_lower en) (data w) (ExpenseEvent (Added r)) (data w')"
    unfolding expense_added_def by blast
  have d: "desc = trim_space raw" "trim_space raw \<noteq> []"
    using parsed(5) by (auto simp: expense_text_def Let_def split: if_splits)
  have bk: "ex_business_id r = pc_BusinessID p" "ex_category_id r = k" using r(1) by (simp_all add: expense_terms_def)
  from insertion_step [OF step, unfolded bk] parsed r [unfolded d(1)] d(2) res show ?thesis by blast
qed

lemma entry_outcome_sample:
  "\<exists>a. data world_spent = (data world_category)\<lparr>expenses := [soap_row 15000 1], audit_logs := audit_logs (data world_category) @ [a]\<rparr>
     \<and> au_new_values a = Some (expense_audit (soap_row 15000 1))"
proof -
  have e: "expenses (data world_category) = []" by code_simp
  then have "data world_spent \<noteq> data world_category" using spent_tables by auto
  with entry_outcome [OF expense_worlds_reachable(2) spent] obtain r a where
    d: "data world_spent = (data world_category)\<lparr>expenses := expenses (data world_category) @ [r],
       audit_logs := audit_logs (data world_category) @ [a]\<rparr>"
    and a: "expense_audited (Added r) a" by blast
  then have "expenses (data world_spent) = [r]" by (simp add: e)
  then show ?thesis using d a spent_tables e by (intro exI [of _ a]) simp
qed

section \<open>The stored rows\<close>

text \<open>C33: Whatever requests have been made, in any order and over any faults of the connection: every expense has a positive amount,
  a description that is not blank, a version of at least 1 and a category of its own tenant; no two categories of a tenant have the
  same name up to case; and identifiers are unique.\<close>

theorem reachable_expenses:
  assumes "expense_reachable en w"
  shows "(\<forall>e \<in> set (expenses (data w)). 0 < ex_amount e \<and> \<not> blank (ex_description e) \<and> 1 \<le> ex_version e
      \<and> (\<exists>c \<in> set (expense_categories (data w)). ec_business_id c = ex_business_id e \<and> ec_id c = ex_category_id e))
    \<and> (\<forall>c \<in> set (expense_categories (data w)). \<forall>c' \<in> set (expense_categories (data w)).
        ec_business_id c = ec_business_id c' \<longrightarrow> en_lower en (ec_name c) = en_lower en (ec_name c') \<longrightarrow> c = c')
    \<and> distinct (map ex_id (expenses (data w))) \<and> distinct (map ec_id (expense_categories (data w)))"
proof -
  note sys = expense_reachable_sys [OF assms]
  note ok = expense_sysD(2) [OF sys, unfolded expense_ok_def]
  have "\<forall>e \<in> set (expenses (data w)). expense_check e \<and> category_exists (data w) (ex_business_id e) (ex_category_id e)"
    using ok expenses_tbl.soundD(1) by blast
  moreover have "c = c'" if "c \<in> set (expense_categories (data w))" "c' \<in> set (expense_categories (data w))"
      "ec_business_id c = ec_business_id c'" "en_lower en (ec_name c) = en_lower en (ec_name c')" for c c'
    using categories_tbl.soundD(2) [OF conjunct1 [OF ok] that(1,2)] that(3,4) by (simp add: category_alike_def)
  ultimately show ?thesis
    using expenses_tbl.fresh_distinct [OF expense_sysD(4) [OF sys]] categories_tbl.fresh_distinct [OF expense_sysD(3) [OF sys]]
    by (auto simp: expense_check_def btrim_empty_iff category_exists_def list_ex_iff)
qed

theorem reachable_expenses_witness:
  "0 < ex_amount (soap_row 18000 2) \<and> (\<exists>c \<in> set (expense_categories (data world_edited)). ec_id c = 1)"
proof -
  have "soap_row 18000 2 \<in> set (expenses (data world_edited))" by (simp add: edited_tables)
  with reachable_expenses [OF expense_worlds_reachable(4)] have "0 < ex_amount (soap_row 18000 2)
      \<and> (\<exists>c \<in> set (expense_categories (data world_edited)). ec_id c = ex_category_id (soap_row 18000 2))" by blast
  then show ?thesis by (simp add: soap_row_def)
qed

section \<open>Listings\<close>

lemma date_range_order: "expenseDateRange t f g = Some (a, b) \<Longrightarrow> a \<le> b"
  by (auto simp: expenseDateRange_def Let_def split: if_splits option.splits)

lemma date_range_today:
  assumes "0 \<le> civil_year (jakarta_date t)" and "civil_year (jakarta_date t) < 10000"
  shows "expenseDateRange t [] [] = Some (jakarta_date t, jakarta_date t)"
  using parse_format_day [OF assms] by (simp add: expenseDateRange_def Let_def)

text \<open>C34: Over a calm connection a listing of expenses shows exactly those of the tenant at active outlets the caller may see (an
  administrator all, others those of the session, and only the chosen one if there is one) whose date in Asia/Jakarta lies in the
  range, each once, the latest first, cut to the page; without dates the range is today.\<close>

theorem expenses_listed:
  assumes "faults w = []" and "pagination rawPage rawSize = Some (k, n, off)"
    and "expenseDateRange (wall w) rawFrom rawTo = Some (fromDate, toDate)" and "expense_outlet rawOutlet = Inr chosenOutlet"
    and "0 \<le> civil_year (jakarta_date (wall w))" and "civil_year (jakarta_date (wall w)) < 10000"
  shows "\<exists>listing. ExpenseHandler_List (Some p) rawPage rawSize rawFrom rawTo rawOutlet w =
      (Inr (map expenseFrom (take (nat n) (drop (nat off) listing)), pageInfo_of k n (int (length listing)),
        format_day fromDate, format_day toDate), w)
    \<and> mset listing = filter_mset (\<lambda>e. ex_business_id e = pc_BusinessID p \<and> active_outlet (data w) (pc_BusinessID p) (ex_outlet_id e)
        \<and> (is_owner p \<or> ex_outlet_id e \<in> set (pc_OutletIDs p)) \<and> chosenOutlet \<in> {None, Some (ex_outlet_id e)}
        \<and> fromDate \<le> jakarta_date (ex_expense_at e) \<and> jakarta_date (ex_expense_at e) \<le> toDate) (mset (expenses (data w)))
    \<and> sorted (map (\<lambda>e. - ex_expense_at e) listing) \<and> fromDate \<le> toDate
    \<and> (rawFrom = [] \<and> rawTo = [] \<longrightarrow> fromDate = jakarta_date (wall w) \<and> toDate = fromDate)"
proof -
  let ?b = "pc_BusinessID p"
  let ?m = "expense_matches (data w) ?b (is_owner p) (pc_OutletIDs p) chosenOutlet fromDate toDate"
  let ?l = "sort_key (\<lambda>e. - ex_expense_at e) (sort_key (\<lambda>e. - ex_id e) (filter ?m (expenses (data w))))"
  have pg: "0 \<le> n" "0 \<le> off" using pagination_Some [OF assms(2)] by simp_all
  have "ListExpenses ?b (is_owner p) (pc_OutletIDs p) chosenOutlet fromDate toDate off n w
      = (Inr (take (nat n) (drop (nat off) ?l)), w)"
    using assms(1) pg by (simp add: ListExpenses_def limit_offset_def tbind_def select_def ret_def)
  moreover have "CountExpenses ?b (is_owner p) (pc_OutletIDs p) chosenOutlet fromDate toDate w = (Inr (int (length ?l)), w)"
    using assms(1) by (simp add: CountExpenses_def one_select_calm)
  ultimately have run: "ExpenseHandler_List (Some p) rawPage rawSize rawFrom rawTo rawOutlet w =
      (Inr (map expenseFrom (take (nat n) (drop (nat off) ?l)), pageInfo_of k n (int (length ?l)),
        format_day fromDate, format_day toDate), w)"
    by (simp add: ExpenseHandler_List_def with_principal_def with_page_def assms(2-4) tbind_def time_now_def as_internal_def
        on_err_def ret_def)
  have match: "?m e \<longleftrightarrow> ex_business_id e = ?b \<and> active_outlet (data w) ?b (ex_outlet_id e)
        \<and> (is_owner p \<or> ex_outlet_id e \<in> set (pc_OutletIDs p)) \<and> chosenOutlet \<in> {None, Some (ex_outlet_id e)}
        \<and> fromDate \<le> jakarta_date (ex_expense_at e) \<and> jakarta_date (ex_expense_at e) \<le> toDate" for e
    using day_start_range [of fromDate "ex_expense_at e" toDate]
    by (auto simp: expense_matches_def chosen_def split: option.splits)
  have "mset ?l = filter_mset ?m (mset (expenses (data w)))" by simp
  moreover have "fromDate = jakarta_date (wall w) \<and> toDate = fromDate" if "rawFrom = [] \<and> rawTo = []"
    using date_range_today [OF assms(5,6)] assms(3) that by simp
  ultimately show ?thesis
    unfolding match by (intro exI [of _ ?l] conjI run date_range_order [OF assms(3)]) (simp_all add: match)
qed

lemma sample_day: "civil_year (jakarta_date sample_time) = 2024"
  by code_simp

theorem expenses_listed_witness:
  "\<exists>listing. ExpenseHandler_List (Some clerk) [] [] [] [] [] world_edited =
     (Inr (map expenseFrom (take 20 listing), pageInfo_of 1 20 (int (length listing)), ''2024-06-01'', ''2024-06-01''), world_edited)
   \<and> mset listing = {#soap_row 18000 2#}"
proof -
  have w: "wall world_edited = sample_time" "active_outlet (data world_edited) 1 1" by code_simp+
  have d: "format_day (jakarta_date sample_time) = ''2024-06-01''" by code_simp
  have pg: "pagination [] [] = Some (1, 20, 0)" by code_simp
  have r: "expenseDateRange (wall world_edited) [] [] = Some (jakarta_date sample_time, jakarta_date sample_time)"
    unfolding w by (rule date_range_today) (simp_all add: sample_day)
  have o: "expense_outlet [] = Inr None" by (simp add: expense_outlet_def)
  have y: "0 \<le> civil_year (jakarta_date (wall world_edited))" "civil_year (jakarta_date (wall world_edited)) < 10000"
    by (simp_all add: w sample_day)
  from expenses_listed [OF edited_tables(2) pg r o y, of clerk] obtain listing where
    l: "ExpenseHandler_List (Some clerk) [] [] [] [] [] world_edited =
      (Inr (map expenseFrom (take (nat 20) (drop (nat 0) listing)), pageInfo_of 1 20 (int (length listing)),
        format_day (jakarta_date sample_time), format_day (jakarta_date sample_time)), world_edited)"
    and m: "mset listing = filter_mset (\<lambda>e. ex_business_id e = pc_BusinessID clerk
        \<and> active_outlet (data world_edited) (pc_BusinessID clerk) (ex_outlet_id e)
        \<and> (is_owner clerk \<or> ex_outlet_id e \<in> set (pc_OutletIDs clerk)) \<and> None \<in> {None, Some (ex_outlet_id e)}
        \<and> jakarta_date sample_time \<le> jakarta_date (ex_expense_at e) \<and> jakarta_date (ex_expense_at e) \<le> jakarta_date sample_time)
      (mset (expenses (data world_edited)))" by blast
  have "mset listing = {#soap_row 18000 2#}"
    unfolding m edited_tables by (simp add: soap_row_def clerk_def w)
  with l show ?thesis unfolding d by (intro exI [of _ listing]) simp
qed

end
