(* ===== verification/Management_Queries.thy ===== *)
theory Management_Queries
  imports Session_Queries Master_Queries
begin

text \<open>
  The statements of internal/repository/postgresql/management.sql.go over outlets, users, their assignments and their
  permissions (migrations 000001, 000020 and 000021): inserted, changed and replaced rows, the allocation of
  outlet codes, and the counts the handlers decide by.
\<close>

section \<open>Rows without a serial key\<close>

definition insert_row ::
  "(db \<Rightarrow> 'r list) \<Rightarrow> ('r list \<Rightarrow> db \<Rightarrow> db) \<Rightarrow> (db \<Rightarrow> 'r \<Rightarrow> pgerr option) \<Rightarrow> (time \<Rightarrow> 'r) \<Rightarrow> (pgerr, unit) m" where
  "insert_row get put chk mk = stmt (\<lambda>w.
     case chk (data w) (mk (now w)) of
       Some e \<Rightarrow> (Inl e, w)
     | None \<Rightarrow> (Inr (), w\<lparr>data := put (get (data w) @ [mk (now w)]) (data w)\<rparr>))"

definition delete_rows ::
  "(db \<Rightarrow> 'r list) \<Rightarrow> ('r list \<Rightarrow> db \<Rightarrow> db) \<Rightarrow> ('r \<Rightarrow> bool) \<Rightarrow> (pgerr, unit) m" where
  "delete_rows get put p = stmt (\<lambda>w. (Inr (), w\<lparr>data := put (filter (\<lambda>r. \<not> p r) (get (data w))) (data w)\<rparr>))"

lemma insert_row_Inr [run_inv]:
  "insert_row get put chk mk w = (Inr r, v) \<Longrightarrow>
     chk (data w) (mk (now w)) = None \<and> data v = put (get (data w) @ [mk (now w)]) (data w)
     \<and> seqs v = seqs w \<and> now v = now w \<and> wall v = wall w"
  unfolding insert_row_def by (auto simp: same_data_def dest!: stmt_Inr split: option.splits)

lemma delete_rows_Inr [run_inv]:
  "delete_rows get put p w = (Inr r, v) \<Longrightarrow>
     data v = put (filter (\<lambda>r. \<not> p r) (get (data w))) (data w) \<and> seqs v = seqs w \<and> now v = now w \<and> wall v = wall w"
  unfolding delete_rows_def by (auto simp: same_data_def dest!: stmt_Inr)

lemma row_statements_grow [grows_intro]: "grows (insert_row get put chk mk)" "grows (delete_rows get put p)"
  unfolding insert_row_def delete_rows_def
  by (rule grows_stmt, rule growsI, auto split: option.splits)+

section \<open>Constraints\<close>

definition outlet_check :: "outlet_row \<Rightarrow> bool" where
  "outlet_check r \<longleftrightarrow> btrim (out_code r) \<noteq> [] \<and> btrim (out_name r) \<noteq> []
     \<and> out_timezone r = btrim (out_timezone r) \<and> out_timezone r \<noteq> []"

definition outlet_code_taken :: "db \<Rightarrow> outlet_row \<Rightarrow> bool" where
  "outlet_code_taken d r =
     list_ex (\<lambda>x. out_id x \<noteq> out_id r \<and> out_business_id x = out_business_id r \<and> out_code x = out_code r) (outlets d)"

definition write_outlet_error :: "db \<Rightarrow> outlet_row \<Rightarrow> pgerr option" where
  "write_outlet_error d r =
     (if \<not> (pg_text (out_code r) \<and> pg_text (out_name r) \<and> pg_text_opt (out_phone r) \<and> pg_text_opt (out_address r)
           \<and> pg_text (out_timezone r)) then Some InvalidText
      else if \<not> outlet_check r then Some (CheckViolation ''outlets'')
      else if outlet_code_taken d r then Some (UniqueViolation ''outlets_business_id_code_key'')
      else if \<not> business_exists d (out_business_id r) then Some (ForeignKeyViolation ''outlets_business_id_fkey'')
      else None)"

definition user_check :: "user_row \<Rightarrow> bool" where
  "user_check r \<longleftrightarrow> btrim (u_email r) \<noteq> [] \<and> btrim (u_full_name r) \<noteq> [] \<and> btrim (u_password_hash r) \<noteq> []
     \<and> u_role r \<in> {''ADMIN'', ''LAUNDRY_STAFF''}"

text \<open>users_email_uq: one account per email address, over all tenants.\<close>

definition email_taken :: "(string \<Rightarrow> string) \<Rightarrow> db \<Rightarrow> user_row \<Rightarrow> bool" where
  "email_taken lower d r = list_ex (\<lambda>x. u_id x \<noteq> u_id r \<and> lower (u_email x) = lower (u_email r)) (users d)"

definition write_user_error :: "(string \<Rightarrow> string) \<Rightarrow> db \<Rightarrow> user_row \<Rightarrow> pgerr option" where
  "write_user_error lower d r =
     (if \<not> (pg_text (u_email r) \<and> pg_text (u_full_name r) \<and> pg_text (u_password_hash r)) then Some InvalidText
      else if \<not> user_check r then Some (CheckViolation ''users'')
      else if email_taken lower d r then Some (UniqueViolation ''users_email_uq'')
      else if \<not> business_exists d (u_business_id r) then Some (ForeignKeyViolation ''users_business_id_fkey'')
      else None)"

definition assignment_error :: "db \<Rightarrow> user_outlet_row \<Rightarrow> pgerr option" where
  "assignment_error d r =
     (if assigned d (uo_business_id r) (uo_user_id r) (uo_outlet_id r) then Some (UniqueViolation ''user_outlets_pkey'')
      else if \<not> user_exists d (uo_business_id r) (uo_user_id r) then Some (ForeignKeyViolation ''user_outlets_user'')
      else if \<not> outlet_exists d (uo_business_id r) (uo_outlet_id r) then Some (ForeignKeyViolation ''user_outlets_outlet'')
      else None)"

definition granted :: "db \<Rightarrow> i64 \<Rightarrow> i64 \<Rightarrow> string \<Rightarrow> bool" where
  "granted d b u code = list_ex (\<lambda>x. up_business_id x = b \<and> up_user_id x = u \<and> up_code x = code) (user_permissions d)"

definition grant_error :: "db \<Rightarrow> user_permission_row \<Rightarrow> pgerr option" where
  "grant_error d r =
     (if \<not> pg_text (up_code r) then Some InvalidText
      else if granted d (up_business_id r) (up_user_id r) (up_code r) then Some (UniqueViolation ''user_permissions_pkey'')
      else if \<not> list_ex (\<lambda>x. pm_code x = up_code r) (permissions d) then Some (ForeignKeyViolation ''user_permissions_code'')
      else if \<not> (user_exists d (up_business_id r) (up_user_id r) \<and> user_exists d (up_business_id r) (up_granted_by r))
        then Some (ForeignKeyViolation ''user_permissions_users'')
      else None)"

section \<open>Outlets\<close>

definition outlet_is :: "i64 \<Rightarrow> i64 \<Rightarrow> outlet_row \<Rightarrow> bool" where
  "outlet_is businessID outletID r \<longleftrightarrow> out_business_id r = businessID \<and> out_id r = outletID"

definition ListOutlets :: "i64 \<Rightarrow> i32 \<Rightarrow> i32 \<Rightarrow> (pgerr, outlet_row list) m" where
  "ListOutlets businessID pageLimit pageOffset = limit_offset pageLimit pageOffset (select (\<lambda>n d.
     sort_key out_id (filter (\<lambda>r. out_business_id r = businessID) (outlets d))))"

definition CountOutlets :: "i64 \<Rightarrow> (pgerr, i64) m" where
  "CountOutlets businessID = only_one (select (\<lambda>n d.
     [int (length (filter (\<lambda>r. out_business_id r = businessID) (outlets d)))]))"

definition GetOutlet :: "i64 \<Rightarrow> i64 \<Rightarrow> (pgerr, outlet_row) m" where
  "GetOutlet businessID outletID = only_one (select (\<lambda>n d. filter (outlet_is businessID outletID) (outlets d)))"

definition GetOutletForUpdate :: "i64 \<Rightarrow> i64 \<Rightarrow> (pgerr, outlet_row) m" where
  "GetOutletForUpdate businessID outletID = only_one (select (\<lambda>n d. filter (outlet_is businessID outletID) (outlets d)))"

text \<open>The code of an outlet: a number of its tenant's counter with at least three digits.\<close>

definition outlet_code :: "i64 \<Rightarrow> string" where
  "outlet_code n = (if length (show_int n) < 3 then replicate (3 - length (show_int n)) CHR ''0'' @ show_int n else show_int n)"

definition AllocateOutletCode :: "i64 \<Rightarrow> (pgerr, string) m" where
  "AllocateOutletCode businessID = stmt (\<lambda>w.
     let cs = outlet_counters (data w)
     in case find (\<lambda>c. bc_business_id c = businessID) cs of
          None \<Rightarrow>
            if business_exists (data w) businessID
            then (Inr (outlet_code 1), w\<lparr>data := (data w)\<lparr>outlet_counters :=
                    cs @ [\<lparr>bc_business_id = businessID, bc_last_allocated = 1\<rparr>]\<rparr>\<rparr>)
            else (Inl (ForeignKeyViolation ''business_outlet_counters_business_id_fkey''), w)
        | Some c \<Rightarrow>
            if is_int64 (bc_last_allocated c + 1)
            then (Inr (outlet_code (bc_last_allocated c + 1)), w\<lparr>data := (data w)\<lparr>outlet_counters :=
                    map (\<lambda>r. if bc_business_id r = businessID then r\<lparr>bc_last_allocated := bc_last_allocated c + 1\<rparr> else r) cs\<rparr>\<rparr>)
            else (Inl OutOfRange, w))"

text \<open>COALESCE(NULLIF(btrim(zone), ''), 'Asia/Jakarta').\<close>

definition zone_or_default :: "string \<Rightarrow> string" where
  "zone_or_default zone = (if btrim zone = [] then ''Asia/Jakarta'' else btrim zone)"

definition CreateOutlet ::
  "i64 \<Rightarrow> string \<Rightarrow> string \<Rightarrow> string option \<Rightarrow> string option \<Rightarrow> string \<Rightarrow> (pgerr, outlet_row) m" where
  "CreateOutlet businessID code name phone address zone =
     insert_serial TOutlets outlets (\<lambda>rs d. d\<lparr>outlets := rs\<rparr>) write_outlet_error
       (\<lambda>i n d. \<lparr>out_id = i, out_business_id = businessID, out_code = code, out_name = name, out_phone = phone,
          out_address = address, out_is_active = True, out_created_at = n, out_updated_at = n,
          out_timezone = zone_or_default zone, out_legacy_code = None\<rparr>)"

definition UpdateOutlet ::
  "i64 \<Rightarrow> i64 \<Rightarrow> string \<Rightarrow> string option \<Rightarrow> string option \<Rightarrow> bool \<Rightarrow> string \<Rightarrow> (pgerr, outlet_row) m" where
  "UpdateOutlet businessID outletID name phone address isActive zone =
     only_one (update_rows outlets (\<lambda>rs d. d\<lparr>outlets := rs\<rparr>) write_outlet_error (outlet_is businessID outletID)
       (\<lambda>n r. r\<lparr>out_name := name, out_phone := phone, out_address := address, out_is_active := isActive,
          out_timezone := zone_or_default zone, out_updated_at := n\<rparr>))"

text \<open>The active members of staff who have no other active outlet than this one.\<close>

definition only_outlet :: "db \<Rightarrow> i64 \<Rightarrow> i64 \<Rightarrow> user_row \<Rightarrow> bool" where
  "only_outlet d businessID outletID u \<longleftrightarrow> u_business_id u = businessID \<and> u_is_active u \<and> u_role u = ''LAUNDRY_STAFF''
     \<and> assigned d businessID (u_id u) outletID
     \<and> \<not> list_ex (\<lambda>x. uo_business_id x = businessID \<and> uo_user_id x = u_id u \<and> uo_outlet_id x \<noteq> outletID
           \<and> outlet_active d businessID (uo_outlet_id x)) (user_outlets d)"

definition CountActiveAssignedStaffWithoutOtherOutlet :: "i64 \<Rightarrow> i64 \<Rightarrow> (pgerr, i64) m" where
  "CountActiveAssignedStaffWithoutOtherOutlet businessID outletID = only_one (select (\<lambda>n d.
     [int (length (remdups (map u_id (filter (only_outlet d businessID outletID) (users d)))))]))"

definition LockActiveOutlets :: "i64 \<Rightarrow> i64 list \<Rightarrow> (pgerr, i64 list) m" where
  "LockActiveOutlets businessID ids = select (\<lambda>n d. map out_id
     (filter (\<lambda>r. out_business_id r = businessID \<and> out_is_active r \<and> out_id r \<in> set ids) (outlets d)))"

definition CountActiveOutlets :: "i64 \<Rightarrow> i64 list \<Rightarrow> (pgerr, i64) m" where
  "CountActiveOutlets businessID ids = only_one (select (\<lambda>n d. [int (length (remdups (map out_id
     (filter (\<lambda>r. out_business_id r = businessID \<and> out_is_active r \<and> out_id r \<in> set ids) (outlets d)))))]))"

section \<open>Accounts\<close>

definition LockActiveBusiness :: "i64 \<Rightarrow> (pgerr, i64) m" where
  "LockActiveBusiness businessID = only_one (select (\<lambda>n d.
     map b_id (filter (\<lambda>b. b_id b = businessID \<and> b_is_active b) (businesses d))))"

definition staff_is :: "i64 \<Rightarrow> i64 \<Rightarrow> user_row \<Rightarrow> bool" where
  "staff_is businessID userID r \<longleftrightarrow> u_business_id r = businessID \<and> u_id r = userID"

definition ListStaff :: "i64 \<Rightarrow> i32 \<Rightarrow> i32 \<Rightarrow> (pgerr, user_row list) m" where
  "ListStaff businessID pageLimit pageOffset = limit_offset pageLimit pageOffset (select (\<lambda>n d.
     sort_key u_id (filter (\<lambda>r. u_business_id r = businessID) (users d))))"

definition CountStaff :: "i64 \<Rightarrow> (pgerr, i64) m" where
  "CountStaff businessID = only_one (select (\<lambda>n d.
     [int (length (filter (\<lambda>r. u_business_id r = businessID) (users d)))]))"

definition GetStaff :: "i64 \<Rightarrow> i64 \<Rightarrow> (pgerr, user_row) m" where
  "GetStaff businessID userID = only_one (select (\<lambda>n d. filter (staff_is businessID userID) (users d)))"

definition GetStaffForUpdate :: "i64 \<Rightarrow> i64 \<Rightarrow> (pgerr, user_row) m" where
  "GetStaffForUpdate businessID userID = only_one (select (\<lambda>n d. filter (staff_is businessID userID) (users d)))"

definition CountOtherActiveAdmins :: "i64 \<Rightarrow> i64 \<Rightarrow> (pgerr, i64) m" where
  "CountOtherActiveAdmins businessID userID = only_one (select (\<lambda>n d.
     [int (length (filter (\<lambda>u. u_business_id u = businessID \<and> u_role u = ''ADMIN'' \<and> u_is_active u \<and> u_id u \<noteq> userID)
       (users d)))]))"

definition CreateStaff :: "primitives \<Rightarrow> i64 \<Rightarrow> string \<Rightarrow> string \<Rightarrow> string \<Rightarrow> (pgerr, user_row) m" where
  "CreateStaff en businessID email fullName passwordHash =
     insert_serial TUsers users (\<lambda>rs d. d\<lparr>users := rs\<rparr>) (write_user_error (en_lower en))
       (\<lambda>i n d. \<lparr>u_id = i, u_business_id = businessID, u_email = email, u_full_name = fullName,
          u_password_hash = passwordHash, u_role = ''LAUNDRY_STAFF'', u_is_active = True, u_last_login_at = None,
          u_created_at = n, u_updated_at = n\<rparr>)"

definition UpdateStaff :: "primitives \<Rightarrow> i64 \<Rightarrow> i64 \<Rightarrow> string \<Rightarrow> bool \<Rightarrow> (pgerr, user_row) m" where
  "UpdateStaff en businessID userID fullName isActive =
     only_one (update_rows users (\<lambda>rs d. d\<lparr>users := rs\<rparr>) (write_user_error (en_lower en)) (staff_is businessID userID)
       (\<lambda>n r. r\<lparr>u_full_name := fullName, u_is_active := isActive, u_updated_at := n\<rparr>))"

section \<open>Assignments and permissions\<close>

definition ListStaffOutletIDs :: "i64 \<Rightarrow> i64 \<Rightarrow> (pgerr, i64 list) m" where
  "ListStaffOutletIDs businessID userID = select (\<lambda>n d. active_outlet_ids d businessID userID)"

definition AddStaffOutlet :: "i64 \<Rightarrow> i64 \<Rightarrow> i64 \<Rightarrow> (pgerr, unit) m" where
  "AddStaffOutlet businessID userID outletID =
     insert_row user_outlets (\<lambda>rs d. d\<lparr>user_outlets := rs\<rparr>) assignment_error
       (\<lambda>n. \<lparr>uo_business_id = businessID, uo_user_id = userID, uo_outlet_id = outletID, uo_assigned_at = n\<rparr>)"

definition DeleteStaffOutlets :: "i64 \<Rightarrow> i64 \<Rightarrow> (pgerr, unit) m" where
  "DeleteStaffOutlets businessID userID =
     delete_rows user_outlets (\<lambda>rs d. d\<lparr>user_outlets := rs\<rparr>) (\<lambda>r. uo_business_id r = businessID \<and> uo_user_id r = userID)"

definition ListPermissions :: "primitives \<Rightarrow> (pgerr, permission_row list) m" where
  "ListPermissions en = select (\<lambda>n d. sort_key (\<lambda>p. en_collation en (pm_code p)) (permissions d))"

definition ListStaffPermissionCodes :: "primitives \<Rightarrow> i64 \<Rightarrow> i64 \<Rightarrow> (pgerr, string list) m" where
  "ListStaffPermissionCodes en businessID userID = select (\<lambda>n d. sort_key (en_collation en)
     (map up_code (filter (\<lambda>p. up_business_id p = businessID \<and> up_user_id p = userID) (user_permissions d))))"

definition AddStaffPermission :: "i64 \<Rightarrow> i64 \<Rightarrow> string \<Rightarrow> i64 \<Rightarrow> (pgerr, unit) m" where
  "AddStaffPermission businessID userID permissionCode grantedBy =
     insert_row user_permissions (\<lambda>rs d. d\<lparr>user_permissions := rs\<rparr>) grant_error
       (\<lambda>n. \<lparr>up_business_id = businessID, up_user_id = userID, up_code = permissionCode, up_granted_by = grantedBy,
          up_granted_at = n\<rparr>)"

definition DeleteStaffPermissions :: "i64 \<Rightarrow> i64 \<Rightarrow> (pgerr, unit) m" where
  "DeleteStaffPermissions businessID userID =
     delete_rows user_permissions (\<lambda>rs d. d\<lparr>user_permissions := rs\<rparr>) (\<lambda>r. up_business_id r = businessID \<and> up_user_id r = userID)"

section \<open>What the statements leave alone\<close>

lemma management_queries_read [reads_intro]:
  "reads (ListOutlets b lim off)" "reads (CountOutlets b)" "reads (GetOutlet b i)" "reads (GetOutletForUpdate b i)"
  "reads (CountActiveAssignedStaffWithoutOtherOutlet b i)" "reads (LockActiveOutlets b ids)" "reads (LockActiveBusiness b)"
  "reads (ListStaff b lim off)" "reads (CountStaff b)" "reads (GetStaff b i)" "reads (GetStaffForUpdate b i)"
  "reads (CountOtherActiveAdmins b i)" "reads (ListStaffOutletIDs b i)" "reads (ListPermissions en)"
  "reads (ListStaffPermissionCodes en b i)" "reads (CountActiveOutlets b ids)"
  unfolding ListOutlets_def CountOutlets_def GetOutlet_def GetOutletForUpdate_def
    CountActiveAssignedStaffWithoutOtherOutlet_def LockActiveOutlets_def LockActiveBusiness_def ListStaff_def CountStaff_def
    GetStaff_def GetStaffForUpdate_def CountOtherActiveAdmins_def ListStaffOutletIDs_def ListPermissions_def
    ListStaffPermissionCodes_def CountActiveOutlets_def
  by (intro reads_intro)+

lemmas management_queries_grow [grows_intro] = management_queries_read [THEN grows_reads]

lemma allocate_code_grows [grows_intro]: "grows (AllocateOutletCode b)"
  unfolding AllocateOutletCode_def
  by (rule grows_stmt) (auto intro!: growsI simp: Let_def split: option.splits if_splits)

lemma management_writes_grow [grows_intro]:
  "grows (CreateOutlet b cd nm ph ad z)" "grows (UpdateOutlet b i nm ph ad ac z)" "grows (CreateStaff en b em nm ha)"
  "grows (UpdateStaff en b i nm ac)" "grows (AddStaffOutlet b u l)" "grows (DeleteStaffOutlets b u)"
  "grows (AddStaffPermission b u pc g)" "grows (DeleteStaffPermissions b u)"
  unfolding CreateOutlet_def UpdateOutlet_def CreateStaff_def UpdateStaff_def AddStaffOutlet_def DeleteStaffOutlets_def
    AddStaffPermission_def DeleteStaffPermissions_def
  by (intro grows_intro)+

end
