(* ===== verification/Management.thy ===== *)
theory Management
  imports Handlers Management_Queries
begin

text \<open>
  What an administrator manages (internal/handlers/management.go, internal/timezone): the outlets of the tenant, its
  accounts, their outlets and their permissions. Every write runs in a transaction that first checks, under a lock, that the
  caller is still an active administrator of an active tenant (lockOwnerContext). The handlers take the zero principal when
  the request has none. Three functions of Go's standard library rest on tables that no source holds and are
  parameters: the case mapping of Unicode, the grammar of mail addresses and the time zone database.
\<close>

section \<open>Values\<close>

record libraries =
  lb_to_lower :: "string \<Rightarrow> string"
  lb_parse_address :: "string \<Rightarrow> string option"
  lb_has_zone :: "string \<Rightarrow> bool"

record outletInput =
  oi_Timezone :: "string option"
  oi_Name :: string
  oi_Phone :: "string option"
  oi_Address :: "string option"
  oi_IsActive :: "bool option"

record createStaffInput =
  ks_Email :: string
  ks_FullName :: string
  ks_Password :: string
  ks_OutletIDs :: "i64 list"

record updateStaffInput =
  us_FullName :: string
  us_IsActive :: "bool option"

record outletAssignmentInput =
  as_OutletIDs :: "i64 list"

record permissionGrantInput =
  pg_Permissions :: "string list"

text \<open>What a reply shows of an outlet and of an account: the columns the statements return.\<close>

record OutletRow =
  ow_ID :: i64
  ow_BusinessID :: i64
  ow_Code :: string
  ow_Name :: string
  ow_Phone :: "string option"
  ow_Address :: "string option"
  ow_IsActive :: bool
  ow_CreatedAt :: time
  ow_UpdatedAt :: time
  ow_Timezone :: string

definition outlet_view :: "outlet_row \<Rightarrow> OutletRow" where
  "outlet_view r = \<lparr>ow_ID = out_id r, ow_BusinessID = out_business_id r, ow_Code = out_code r, ow_Name = out_name r,
     ow_Phone = out_phone r, ow_Address = out_address r, ow_IsActive = out_is_active r, ow_CreatedAt = out_created_at r,
     ow_UpdatedAt = out_updated_at r, ow_Timezone = out_timezone r\<rparr>"

record StaffRow =
  sw_ID :: i64
  sw_BusinessID :: i64
  sw_Email :: string
  sw_FullName :: string
  sw_Role :: string
  sw_IsActive :: bool
  sw_CreatedAt :: time
  sw_UpdatedAt :: time

definition staff_view :: "user_row \<Rightarrow> StaffRow" where
  "staff_view u = \<lparr>sw_ID = u_id u, sw_BusinessID = u_business_id u, sw_Email = u_email u, sw_FullName = u_full_name u,
     sw_Role = u_role u, sw_IsActive = u_is_active u, sw_CreatedAt = u_created_at u, sw_UpdatedAt = u_updated_at u\<rparr>"

record staffResponse =
  mr_ID :: i64
  mr_BusinessID :: i64
  mr_Email :: string
  mr_FullName :: string
  mr_Role :: string
  mr_IsActive :: bool
  mr_OutletIDs :: "i64 list"
  mr_Permissions :: "string list"

definition staff_response :: "user_row \<Rightarrow> i64 list \<Rightarrow> string list \<Rightarrow> staffResponse" where
  "staff_response u outs perms = \<lparr>mr_ID = u_id u, mr_BusinessID = u_business_id u, mr_Email = u_email u,
     mr_FullName = u_full_name u, mr_Role = u_role u, mr_IsActive = u_is_active u, mr_OutletIDs = outs, mr_Permissions = perms\<rparr>"

text \<open>"p, _ := PrincipalFromContext(c)".\<close>

definition principal_or_zero :: "Principal option \<Rightarrow> Principal" where
  "principal_or_zero who = (case who of Some p \<Rightarrow> p
     | None \<Rightarrow> \<lparr>pc_UserID = 0, pc_BusinessID = 0, pc_SessionID = 0, pc_Email = [], pc_FullName = [], pc_Role = [],
                pc_OutletIDs = [], pc_Permissions = []\<rparr>)"

section \<open>What the handlers check\<close>

text \<open>Package timezone.\<close>

definition Normalize :: "libraries \<Rightarrow> string option \<Rightarrow> string option" where
  "Normalize lib input =
     (let zone = (case input of None \<Rightarrow> [] | Some s \<Rightarrow> trim_space s) in
      if zone = [] then Some ''Asia/Jakarta''
      else if zone = ''Local'' \<or> length zone > 255 then None
      else if lb_has_zone lib zone then Some zone else None)"

definition validOutlet :: "outletInput \<Rightarrow> bool" where
  "validOutlet inp =
     (if trim_space (oi_Name inp) = [] \<or> rune_count (oi_Name inp) > 200 then False
      else if (case oi_Phone inp of None \<Rightarrow> False | Some s \<Rightarrow> rune_count s > 32) then False
      else if (case oi_Address inp of None \<Rightarrow> False | Some s \<Rightarrow> rune_count s > 500) then False
      else True)"

definition lockOwnerContext :: "Principal \<Rightarrow> (http_error, unit) m" where
  "lockOwnerContext p =
     tbind (as_unauthorized (LockActiveBusiness (pc_BusinessID p))) (\<lambda>_.
     tbind (as_unauthorized (GetActiveUser (pc_UserID p) (pc_BusinessID p))) (\<lambda>u.
     if u_role u \<noteq> ''ADMIN'' then fail Unauthorized else ret ()))"

definition validateOutletIDs :: "i64 \<Rightarrow> i64 list \<Rightarrow> (http_error, unit) m" where
  "validateOutletIDs businessID ids =
     (if length (uniqueIDs ids) \<noteq> length ids \<or> length ids = 0 then fail (BadRequest ''INVALID_OUTLETS'')
      else tbind (on_err (\<lambda>_. BadRequest ''INVALID_OUTLETS'') (LockActiveOutlets businessID ids)) (\<lambda>locked.
           if length locked \<noteq> length ids then fail (BadRequest ''INVALID_OUTLETS'') else ret ()))"

text \<open>A nil slice is encoded as null.\<close>

definition json_ids :: "i64 list \<Rightarrow> jval" where
  "json_ids ids = (if ids = [] then JNull else JList (map JInt ids))"

definition json_codes :: "string list \<Rightarrow> jval" where
  "json_codes codes = (if codes = [] then JNull else JList (map JStr codes))"

section \<open>Outlets\<close>

definition ManagementHandler_ListOutlets ::
  "Principal option \<Rightarrow> string \<Rightarrow> string \<Rightarrow> (http_error, OutletRow list \<times> pageInfo) m" where
  "ManagementHandler_ListOutlets who rawPage rawSize =
     (let p = principal_or_zero who in with_page rawPage rawSize (\<lambda>(page, pageSize, offset).
       tbind (as_internal (ListOutlets (pc_BusinessID p) pageSize offset)) (\<lambda>items.
       tbind (as_internal (CountOutlets (pc_BusinessID p))) (\<lambda>totalItems.
       ret (map outlet_view items, pageInfo_of page pageSize totalItems)))))"

definition ManagementHandler_GetOutlet :: "Principal option \<Rightarrow> string \<Rightarrow> (http_error, OutletRow) m" where
  "ManagementHandler_GetOutlet who rawID =
     (let p = principal_or_zero who in with_id rawID (\<lambda>i.
       tbind (or_not_found (GetOutlet (pc_BusinessID p) i)) (\<lambda>item. ret (outlet_view item))))"

definition outlet_json :: "outlet_row \<Rightarrow> (string \<times> jval) list" where
  "outlet_json r = [(''code'', JStr (out_code r)), (''name'', JStr (out_name r)), (''isActive'', JBool (out_is_active r)),
     (''timezone'', JStr (out_timezone r))]"

definition CreateOutlet_body :: "Principal \<Rightarrow> client \<Rightarrow> outletInput \<Rightarrow> string \<Rightarrow> (http_error, OutletRow) m" where
  "CreateOutlet_body p c req zone =
     tbind (lockOwnerContext p) (\<lambda>_.
     tbind (on_err dbWriteError (AllocateOutletCode (pc_BusinessID p))) (\<lambda>code.
     tbind (on_err dbWriteError
              (CreateOutlet (pc_BusinessID p) code (trim_space (oi_Name req)) (oi_Phone req) (oi_Address req) zone)) (\<lambda>item.
     tbind (writeAudit p c ''OUTLET_CREATED'' ''outlet'' (out_id item) None
              (Some (JObj ((''id'', JInt (out_id item)) # outlet_json item)))) (\<lambda>_.
     ret (outlet_view item)))))"

definition ManagementHandler_CreateOutlet ::
  "libraries \<Rightarrow> Principal option \<Rightarrow> client \<Rightarrow> outletInput body \<Rightarrow> (http_error, OutletRow) m" where
  "ManagementHandler_CreateOutlet lib who c body =
     (let p = principal_or_zero who in with_body ''INVALID_REQUEST'' body (\<lambda>req.
       if \<not> validOutlet req then fail (BadRequest ''INVALID_REQUEST'')
       else case Normalize lib (oi_Timezone req) of
              None \<Rightarrow> fail (BadRequest ''INVALID_TIMEZONE'')
            | Some zone \<Rightarrow> with_tx Internal (CreateOutlet_body p c req zone)))"

text \<open>An outlet that is the only active one of an active member of staff is not deactivated.\<close>

definition keep_staff_outlet :: "i64 \<Rightarrow> i64 \<Rightarrow> bool \<Rightarrow> bool \<Rightarrow> (http_error, unit) m" where
  "keep_staff_outlet businessID outletID wasActive isActive =
     (if wasActive \<and> \<not> isActive
      then tbind (as_internal (CountActiveAssignedStaffWithoutOtherOutlet businessID outletID)) (\<lambda>count.
           if count > 0 then fail (conflict ''OUTLET_HAS_ASSIGNED_STAFF'') else ret ())
      else ret ())"

definition UpdateOutlet_body ::
  "Principal \<Rightarrow> client \<Rightarrow> i64 \<Rightarrow> bool \<Rightarrow> outletInput \<Rightarrow> string \<Rightarrow> (http_error, OutletRow) m" where
  "UpdateOutlet_body p c i isActive req zone =
     tbind (lockOwnerContext p) (\<lambda>_.
     tbind (or_not_found (GetOutletForUpdate (pc_BusinessID p) i)) (\<lambda>old.
     tbind (keep_staff_outlet (pc_BusinessID p) i (out_is_active old) isActive) (\<lambda>_.
     tbind (on_err dbWriteError
              (UpdateOutlet (pc_BusinessID p) i (trim_space (oi_Name req)) (oi_Phone req) (oi_Address req) isActive zone)) (\<lambda>item.
     tbind (writeAudit p c ''OUTLET_UPDATED'' ''outlet'' i (Some (JObj (outlet_json old))) (Some (JObj (outlet_json item)))) (\<lambda>_.
     ret (outlet_view item))))))"

definition ManagementHandler_UpdateOutlet ::
  "libraries \<Rightarrow> Principal option \<Rightarrow> client \<Rightarrow> string \<Rightarrow> outletInput body \<Rightarrow> (http_error, OutletRow) m" where
  "ManagementHandler_UpdateOutlet lib who c rawID body =
     (let p = principal_or_zero who in with_id rawID (\<lambda>i. with_body ''INVALID_REQUEST'' body (\<lambda>req.
       if \<not> validOutlet req then fail (BadRequest ''INVALID_REQUEST'')
       else case oi_IsActive req of
              None \<Rightarrow> fail (BadRequest ''INVALID_REQUEST'')
            | Some isActive \<Rightarrow>
                (case Normalize lib (oi_Timezone req) of
                   None \<Rightarrow> fail (BadRequest ''INVALID_TIMEZONE'')
                 | Some zone \<Rightarrow> with_tx Internal (UpdateOutlet_body p c i isActive req zone)))))"

section \<open>Accounts\<close>

definition ManagementHandler_ListStaff ::
  "Principal option \<Rightarrow> string \<Rightarrow> string \<Rightarrow> (http_error, StaffRow list \<times> pageInfo) m" where
  "ManagementHandler_ListStaff who rawPage rawSize =
     (let p = principal_or_zero who in with_page rawPage rawSize (\<lambda>(page, pageSize, offset).
       tbind (as_internal (ListStaff (pc_BusinessID p) pageSize offset)) (\<lambda>items.
       tbind (as_internal (CountStaff (pc_BusinessID p))) (\<lambda>totalItems.
       ret (map staff_view items, pageInfo_of page pageSize totalItems)))))"

definition ManagementHandler_GetStaff :: "primitives \<Rightarrow> Principal option \<Rightarrow> string \<Rightarrow> (http_error, staffResponse) m" where
  "ManagementHandler_GetStaff en who rawID =
     (let p = principal_or_zero who in with_id rawID (\<lambda>i.
       tbind (or_not_found (GetStaff (pc_BusinessID p) i)) (\<lambda>u.
       tbind (as_internal (ListStaffOutletIDs (pc_BusinessID p) i)) (\<lambda>outs.
       tbind (as_internal (ListStaffPermissionCodes en (pc_BusinessID p) i)) (\<lambda>perms.
       ret (staff_response u outs perms))))))"

definition add_outlets :: "i64 \<Rightarrow> i64 \<Rightarrow> i64 list \<Rightarrow> (http_error, unit list) m" where
  "add_outlets businessID userID ids = each (\<lambda>outletID. as_internal (AddStaffOutlet businessID userID outletID)) ids"

definition CreateStaff_body ::
  "primitives \<Rightarrow> Principal \<Rightarrow> client \<Rightarrow> string \<Rightarrow> string \<Rightarrow> string \<Rightarrow> i64 list \<Rightarrow> (http_error, staffResponse) m" where
  "CreateStaff_body en p c email fullName hash ids =
     tbind (lockOwnerContext p) (\<lambda>_.
     tbind (validateOutletIDs (pc_BusinessID p) ids) (\<lambda>_.
     tbind (on_err dbWriteError (CreateStaff en (pc_BusinessID p) email fullName hash)) (\<lambda>u.
     tbind (add_outlets (pc_BusinessID p) (u_id u) (uniqueIDs ids)) (\<lambda>_.
     tbind (writeAudit p c ''STAFF_CREATED'' ''user'' (u_id u) None
              (Some (JObj [(''id'', JInt (u_id u)), (''email'', JStr (u_email u)), (''fullName'', JStr (u_full_name u)),
                 (''role'', JStr (u_role u)), (''isActive'', JBool (u_is_active u)), (''outletIds'', JList (map JInt (uniqueIDs ids)))]))) (\<lambda>_.
     ret (staff_response u (uniqueIDs ids) []))))))"

text \<open>The address and the name of a new account, normalised, if the request may have them.\<close>

definition staff_input :: "libraries \<Rightarrow> createStaffInput \<Rightarrow> (string \<times> string) option" where
  "staff_input lib req =
     (let email = trim_space (lb_to_lower lib (ks_Email req)); fullName = trim_space (ks_FullName req) in
      if lb_parse_address lib email \<noteq> Some email \<or> length email > 254 \<or> fullName = [] \<or> rune_count fullName > 200
         \<or> length (ks_OutletIDs req) = 0
      then None else Some (email, fullName))"

definition ManagementHandler_CreateStaff ::
  "libraries \<Rightarrow> primitives \<Rightarrow> Principal option \<Rightarrow> client \<Rightarrow> createStaffInput body \<Rightarrow> (http_error, staffResponse) m" where
  "ManagementHandler_CreateStaff lib en who c body =
     (let p = principal_or_zero who in with_body ''INVALID_REQUEST'' body (\<lambda>req.
       case staff_input lib req of
         None \<Rightarrow> fail (BadRequest ''INVALID_REQUEST'')
       | Some (email, fullName) \<Rightarrow>
           (case HashPassword en (ks_Password req) of
              Inl _ \<Rightarrow> fail (BadRequest ''INVALID_PASSWORD'')
            | Inr hash \<Rightarrow> with_tx Internal (CreateStaff_body en p c email fullName hash (ks_OutletIDs req)))))"

text \<open>The last active administrator is not deactivated.\<close>

definition keep_owner :: "i64 \<Rightarrow> i64 \<Rightarrow> user_row \<Rightarrow> bool \<Rightarrow> (http_error, unit) m" where
  "keep_owner businessID userID old isActive =
     (if u_role old = ''ADMIN'' \<and> u_is_active old \<and> \<not> isActive
      then tbind (as_internal (CountOtherActiveAdmins businessID userID)) (\<lambda>count.
           if count = 0 then fail (conflict ''LAST_ACTIVE_OWNER'') else ret ())
      else ret ())"

definition UpdateStaff_body ::
  "primitives \<Rightarrow> Principal \<Rightarrow> client \<Rightarrow> i64 \<Rightarrow> string \<Rightarrow> bool \<Rightarrow> (http_error, staffResponse) m" where
  "UpdateStaff_body en p c i fullName isActive =
     tbind (lockOwnerContext p) (\<lambda>_.
     tbind (or_not_found (GetStaffForUpdate (pc_BusinessID p) i)) (\<lambda>old.
     tbind (keep_owner (pc_BusinessID p) i old isActive) (\<lambda>_.
     tbind (on_err dbWriteError (UpdateStaff en (pc_BusinessID p) i fullName isActive)) (\<lambda>u.
     tbind (writeAudit p c ''STAFF_UPDATED'' ''user'' i
              (Some (JObj [(''fullName'', JStr (u_full_name old)), (''isActive'', JBool (u_is_active old))]))
              (Some (JObj [(''fullName'', JStr (u_full_name u)), (''isActive'', JBool (u_is_active u))]))) (\<lambda>_.
     tbind (as_internal (ListStaffOutletIDs (pc_BusinessID p) i)) (\<lambda>outs.
     tbind (as_internal (ListStaffPermissionCodes en (pc_BusinessID p) i)) (\<lambda>perms.
     ret (staff_response u outs perms))))))))"

definition ManagementHandler_UpdateStaff ::
  "primitives \<Rightarrow> Principal option \<Rightarrow> client \<Rightarrow> string \<Rightarrow> updateStaffInput body \<Rightarrow> (http_error, staffResponse) m" where
  "ManagementHandler_UpdateStaff en who c rawID body =
     (let p = principal_or_zero who in with_id rawID (\<lambda>i. with_body ''INVALID_REQUEST'' body (\<lambda>req.
       let fullName = trim_space (us_FullName req) in
       if fullName = [] \<or> rune_count fullName > 200 then fail (BadRequest ''INVALID_REQUEST'')
       else case us_IsActive req of
              None \<Rightarrow> fail (BadRequest ''INVALID_REQUEST'')
            | Some isActive \<Rightarrow>
                if i = pc_UserID p \<and> \<not> isActive then fail (BadRequest ''SELF_DEACTIVATION'')
                else with_tx Internal (UpdateStaff_body en p c i fullName isActive))))"

section \<open>Assignments and permissions\<close>

definition staff_only :: "user_row \<Rightarrow> (http_error, unit) m" where
  "staff_only u = (if u_role u \<noteq> ''LAUNDRY_STAFF'' then fail (conflict ''STAFF_ONLY'') else ret ())"

definition ReplaceOutlets_body ::
  "Principal \<Rightarrow> client \<Rightarrow> i64 \<Rightarrow> i64 list \<Rightarrow> (http_error, i64 \<times> i64 list) m" where
  "ReplaceOutlets_body p c i ids =
     tbind (lockOwnerContext p) (\<lambda>_.
     tbind (or_not_found (GetStaffForUpdate (pc_BusinessID p) i)) (\<lambda>u.
     tbind (staff_only u) (\<lambda>_.
     tbind (as_internal (ListStaffOutletIDs (pc_BusinessID p) i)) (\<lambda>old.
     tbind (validateOutletIDs (pc_BusinessID p) ids) (\<lambda>_.
     tbind (as_internal (DeleteStaffOutlets (pc_BusinessID p) i)) (\<lambda>_.
     tbind (add_outlets (pc_BusinessID p) i ids) (\<lambda>_.
     tbind (writeAudit p c ''STAFF_OUTLETS_REPLACED'' ''user'' i (Some (JObj [(''outletIds'', json_ids old)]))
              (Some (JObj [(''outletIds'', JList (map JInt ids))]))) (\<lambda>_.
     ret (i, ids)))))))))"

definition ManagementHandler_ReplaceStaffOutlets ::
  "Principal option \<Rightarrow> client \<Rightarrow> string \<Rightarrow> outletAssignmentInput body \<Rightarrow> (http_error, i64 \<times> i64 list) m" where
  "ManagementHandler_ReplaceStaffOutlets who c rawID body =
     (let p = principal_or_zero who in with_id rawID (\<lambda>i.
       if i = pc_UserID p then fail (BadRequest ''SELF_ESCALATION'')
       else with_body ''INVALID_REQUEST'' body (\<lambda>req.
         if length (as_OutletIDs req) = 0 then fail (BadRequest ''INVALID_REQUEST'')
         else let ids = uniqueIDs (as_OutletIDs req) in
              if length ids \<noteq> length (as_OutletIDs req) then fail (BadRequest ''INVALID_OUTLETS'')
              else with_tx Internal (ReplaceOutlets_body p c i ids))))"

definition ManagementHandler_ListPermissions :: "primitives \<Rightarrow> (http_error, permission_row list) m" where
  "ManagementHandler_ListPermissions en = as_internal (ListPermissions en)"

definition known_codes :: "permission_row list \<Rightarrow> string list \<Rightarrow> (http_error, unit) m" where
  "known_codes known codes =
     (if list_all (\<lambda>code. code \<in> pm_code ` set known) codes then ret () else fail (BadRequest ''INVALID_PERMISSIONS''))"

definition ReplacePermissions_body ::
  "primitives \<Rightarrow> Principal \<Rightarrow> client \<Rightarrow> i64 \<Rightarrow> string list \<Rightarrow> (http_error, i64 \<times> string list) m" where
  "ReplacePermissions_body en p c i codes =
     tbind (lockOwnerContext p) (\<lambda>_.
     tbind (or_not_found (GetStaffForUpdate (pc_BusinessID p) i)) (\<lambda>u.
     tbind (staff_only u) (\<lambda>_.
     tbind (as_internal (ListPermissions en)) (\<lambda>known.
     tbind (known_codes known codes) (\<lambda>_.
     tbind (as_internal (ListStaffPermissionCodes en (pc_BusinessID p) i)) (\<lambda>old.
     tbind (as_internal (DeleteStaffPermissions (pc_BusinessID p) i)) (\<lambda>_.
     tbind (each (\<lambda>code. as_internal (AddStaffPermission (pc_BusinessID p) i code (pc_UserID p))) codes) (\<lambda>_.
     tbind (writeAudit p c ''STAFF_PERMISSIONS_REPLACED'' ''user'' i (Some (JObj [(''permissions'', json_codes old)]))
              (Some (JObj [(''permissions'', JList (map JStr codes))]))) (\<lambda>_.
     ret (i, codes))))))))))"

definition ManagementHandler_ReplaceStaffPermissions ::
  "primitives \<Rightarrow> Principal option \<Rightarrow> client \<Rightarrow> string \<Rightarrow> permissionGrantInput body \<Rightarrow> (http_error, i64 \<times> string list) m" where
  "ManagementHandler_ReplaceStaffPermissions en who c rawID body =
     (let p = principal_or_zero who in with_id rawID (\<lambda>i.
       if i = pc_UserID p then fail (BadRequest ''SELF_ESCALATION'')
       else with_body ''INVALID_REQUEST'' body (\<lambda>req.
         let codes = uniqueStrings (pg_Permissions req) in
         if length codes \<noteq> length (pg_Permissions req) then fail (BadRequest ''INVALID_PERMISSIONS'')
         else with_tx Internal (ReplacePermissions_body en p c i codes))))"

end
