(* ===== verification/Management_System.thy ===== *)
theory Management_System
  imports Management Master_Worlds
begin

text \<open>
  The management of a tenant as a system: what the handlers of management.go do to outlets, accounts, assignments
  and permissions (manage_step), and that the bodies of their transactions do exactly that.
\<close>

section \<open>The tables\<close>

interpretation outlets_tbl: soft_table outlets "\<lambda>rs d. d\<lparr>outlets := rs\<rparr>" out_id TOutlets
    out_business_id "\<lambda>r. None" "\<lambda>r x. out_business_id x = out_business_id r \<and> out_code x = out_code r" outlet_check
  by unfold_locales auto

interpretation users_tbl: serial_table users "\<lambda>rs d. d\<lparr>users := rs\<rparr>" u_id TUsers
  by unfold_locales simp_all

interpretation assignments_tbl: table user_outlets "\<lambda>rs d. d\<lparr>user_outlets := rs\<rparr>"
  by unfold_locales simp_all

interpretation grants_tbl: table user_permissions "\<lambda>rs d. d\<lparr>user_permissions := rs\<rparr>"
  by unfold_locales simp_all

lemma outlet_write_checks: "write_outlet_error d r = None \<Longrightarrow> outlet_check r \<and> \<not> outlets_tbl.taken d r"
  by (auto simp: write_outlet_error_def outlet_code_taken_def outlets_tbl.taken_def list_ex_iff split: if_splits)

definition manage_fresh :: "world \<Rightarrow> bool" where
  "manage_fresh w \<longleftrightarrow> outlets_tbl.fresh w \<and> users_tbl.fresh w"

lemma manage_freshD: "manage_fresh w \<Longrightarrow> outlets_tbl.fresh w" "manage_fresh w \<Longrightarrow> users_tbl.fresh w"
  by (simp_all add: manage_fresh_def)

lemma stable_manage_fresh [simp]: "stable manage_fresh"
  unfolding stable_def manage_fresh_def using outlets_tbl.fresh_same_data users_tbl.fresh_same_data by blast

lemma manage_fresh_frame:
  assumes "manage_fresh w" and "outlets (data u) = outlets (data w)" "users (data u) = users (data w)"
    and "\<And>t. seqs w t \<le> seqs u t"
  shows "manage_fresh u"
  using assms unfolding manage_fresh_def by (auto intro: outlets_tbl.fresh_frame users_tbl.fresh_frame)

section \<open>What a call does\<close>

text \<open>The caller is an active administrator of an active tenant.\<close>

definition owner_acts :: "db \<Rightarrow> i64 \<Rightarrow> i64 \<Rightarrow> bool" where
  "owner_acts d b u \<longleftrightarrow> business_active d b
     \<and> (\<exists>x \<in> set (users d). staff_is b u x \<and> u_is_active x \<and> u_role x = ''ADMIN'')"

datatype manage_event =
    OutletAdded outlet_row | OutletChanged outlet_row outlet_row
  | AccountAdded user_row "i64 list" | AccountChanged user_row user_row
  | OutletsGiven user_row "i64 list" | PermissionsGiven user_row "string list"

definition assignments :: "i64 \<Rightarrow> i64 \<Rightarrow> time \<Rightarrow> i64 list \<Rightarrow> user_outlet_row list" where
  "assignments b u n ids = map (\<lambda>l. \<lparr>uo_business_id = b, uo_user_id = u, uo_outlet_id = l, uo_assigned_at = n\<rparr>) ids"

definition grants :: "i64 \<Rightarrow> i64 \<Rightarrow> i64 \<Rightarrow> time \<Rightarrow> string list \<Rightarrow> user_permission_row list" where
  "grants b u g n codes =
     map (\<lambda>pc. \<lparr>up_business_id = b, up_user_id = u, up_code = pc, up_granted_by = g, up_granted_at = n\<rparr>) codes"

definition next_outlet_number :: "i64 \<Rightarrow> outlet_counter_row list \<Rightarrow> i64" where
  "next_outlet_number b cs = (case find (\<lambda>c. bc_business_id c = b) cs of None \<Rightarrow> 1 | Some c \<Rightarrow> bc_last_allocated c + 1)"

text \<open>Some counter of the tenant moves to the number that is given out.\<close>

definition counted :: "i64 \<Rightarrow> i64 \<Rightarrow> outlet_counter_row list \<Rightarrow> outlet_counter_row list \<Rightarrow> bool" where
  "counted b n cs cs' \<longleftrightarrow> n = next_outlet_number b cs \<and> next_outlet_number b cs' = n + 1
     \<and> filter (\<lambda>c. bc_business_id c \<noteq> b) cs' = filter (\<lambda>c. bc_business_id c \<noteq> b) cs"

definition usable_outlets :: "db \<Rightarrow> i64 \<Rightarrow> i64 list \<Rightarrow> bool" where
  "usable_outlets d b ids \<longleftrightarrow> ids \<noteq> [] \<and> distinct ids \<and> (\<forall>l \<in> set ids. outlet_active d b l)"

inductive manage_step :: "i64 \<Rightarrow> i64 \<Rightarrow> time \<Rightarrow> db \<Rightarrow> manage_event \<Rightarrow> db \<Rightarrow> bool" for b u n where
  outlet_added:
    "owner_acts d b u \<Longrightarrow> outlets_tbl.changes d (Added r) rs \<Longrightarrow> out_business_id r = b \<Longrightarrow> out_is_active r \<Longrightarrow>
     out_code r = outlet_code k \<Longrightarrow> counted b k (outlet_counters d) cs \<Longrightarrow> master_audit ''outlet'' b (out_id r) a \<Longrightarrow>
     manage_step b u n d (OutletAdded r) (d\<lparr>outlet_counters := cs, outlets := rs, audit_logs := audit_logs d @ [a]\<rparr>)"
| outlet_changed:
    "owner_acts d b u \<Longrightarrow> outlets_tbl.changes d (Changed o1 o2) rs \<Longrightarrow> out_business_id o1 = b \<Longrightarrow>
     out_code o2 = out_code o1 \<Longrightarrow> out_created_at o2 = out_created_at o1 \<Longrightarrow>
     (out_is_active o1 \<and> \<not> out_is_active o2 \<Longrightarrow> \<forall>x \<in> set (users d). \<not> only_outlet d b (out_id o1) x) \<Longrightarrow>
     master_audit ''outlet'' b (out_id o1) a \<Longrightarrow>
     manage_step b u n d (OutletChanged o1 o2) (d\<lparr>outlets := rs, audit_logs := audit_logs d @ [a]\<rparr>)"
| account_added:
    "owner_acts d b u \<Longrightarrow> u_id x \<notin> u_id ` set (users d) \<Longrightarrow> u_business_id x = b \<Longrightarrow> u_role x = ''LAUNDRY_STAFF'' \<Longrightarrow>
     u_is_active x \<Longrightarrow> user_check x \<Longrightarrow> usable_outlets d b ids \<Longrightarrow> master_audit ''user'' b (u_id x) a \<Longrightarrow>
     manage_step b u n d (AccountAdded x ids) (d\<lparr>users := users d @ [x],
       user_outlets := user_outlets d @ assignments b (u_id x) n ids, audit_logs := audit_logs d @ [a]\<rparr>)"
| account_changed:
    "owner_acts d b u \<Longrightarrow> x \<in> set (users d) \<Longrightarrow> u_business_id x = b \<Longrightarrow> u_id x = u \<longrightarrow> active \<Longrightarrow>
     y = x\<lparr>u_full_name := name, u_is_active := active, u_updated_at := n\<rparr> \<Longrightarrow> master_audit ''user'' b (u_id x) a \<Longrightarrow>
     manage_step b u n d (AccountChanged x y) (d\<lparr>users := replace_row x y (users d), audit_logs := audit_logs d @ [a]\<rparr>)"
| outlets_given:
    "owner_acts d b u \<Longrightarrow> x \<in> set (users d) \<Longrightarrow> u_business_id x = b \<Longrightarrow> u_role x = ''LAUNDRY_STAFF'' \<Longrightarrow> u_id x \<noteq> u \<Longrightarrow>
     usable_outlets d b ids \<Longrightarrow> master_audit ''user'' b (u_id x) a \<Longrightarrow>
     manage_step b u n d (OutletsGiven x ids) (d\<lparr>user_outlets :=
       filter (\<lambda>r. \<not> (uo_business_id r = b \<and> uo_user_id r = u_id x)) (user_outlets d) @ assignments b (u_id x) n ids,
       audit_logs := audit_logs d @ [a]\<rparr>)"
| permissions_given:
    "owner_acts d b u \<Longrightarrow> x \<in> set (users d) \<Longrightarrow> u_business_id x = b \<Longrightarrow> u_role x = ''LAUNDRY_STAFF'' \<Longrightarrow> u_id x \<noteq> u \<Longrightarrow>
     distinct codes \<Longrightarrow> set codes \<subseteq> pm_code ` set (permissions d) \<Longrightarrow> master_audit ''user'' b (u_id x) a \<Longrightarrow>
     manage_step b u n d (PermissionsGiven x codes) (d\<lparr>user_permissions :=
       filter (\<lambda>r. \<not> (up_business_id r = b \<and> up_user_id r = u_id x)) (user_permissions d) @ grants b (u_id x) u n codes,
       audit_logs := audit_logs d @ [a]\<rparr>)"

section \<open>The effects of the statements\<close>

lemma owner_locked:
  "lockOwnerContext p w = (Inr x, v) \<Longrightarrow> same_data w v \<and> owner_acts (data w) (pc_BusinessID p) (pc_UserID p)"
proof -
  assume "lockOwnerContext p w = (Inr x, v)"
  then obtain k w1 y w2 where lk: "LockActiveBusiness (pc_BusinessID p) w = (Inr k, w1)"
    and us: "GetActiveUser (pc_UserID p) (pc_BusinessID p) w1 = (Inr y, w2)"
    and ro: "u_role y = ''ADMIN''" "w2 = v"
    unfolding lockOwnerContext_def as_unauthorized_def by (auto simp: run_inv split: if_splits)
  have s: "same_data w w1" using readsD [OF management_queries_read(7) lk] .
  have y: "y \<in> set (users (data w1)) \<and> (business_active (data w1) (u_business_id y) \<and> u_id y = pc_UserID p
      \<and> u_business_id y = pc_BusinessID p \<and> u_is_active y) \<and> same_data w1 w2"
  proof -
    from one_select_Inr [OF us [unfolded GetActiveUser_def]] obtain rs where
      f: "filter (\<lambda>u. business_active (data w1) (u_business_id u) \<and> u_id u = pc_UserID p \<and> u_business_id u = pc_BusinessID p
        \<and> u_is_active u) (users (data w1)) = y # rs" and s: "same_data w1 w2" by auto
    have "y \<in> set (filter (\<lambda>u. business_active (data w1) (u_business_id u) \<and> u_id u = pc_UserID p \<and> u_business_id u = pc_BusinessID p
        \<and> u_is_active u) (users (data w1)))" unfolding f by simp
    with s show ?thesis unfolding set_filter by blast
  qed
  then have "business_active (data w1) (pc_BusinessID p)" by metis
  with y ro(1) have "owner_acts (data w1) (pc_BusinessID p) (pc_UserID p)" unfolding owner_acts_def staff_is_def by blast
  then show ?thesis using s y ro(2) same_data_trans same_dataD(1) by metis
qed

lemma staff_locked: "GetStaffForUpdate b i w = (Inr x, v) \<Longrightarrow> x \<in> set (users (data w)) \<and> staff_is b i x \<and> same_data w v"
  unfolding GetStaffForUpdate_def by (rule one_filter_Inr)

lemma outlet_locked: "GetOutletForUpdate b i w = (Inr x, v) \<Longrightarrow> x \<in> set (outlets (data w)) \<and> outlet_is b i x \<and> same_data w v"
  unfolding GetOutletForUpdate_def by (rule one_filter_Inr)

lemma unique_ids_same: "length (uniqueIDs ids) = length ids \<Longrightarrow> distinct ids"
  unfolding uniqueIDs_def using unique_acc_full by blast

lemma unique_ids_id: "length (uniqueIDs ids) = length ids \<Longrightarrow> uniqueIDs ids = ids"
proof -
  have "length (unique_acc seen ok xs) = length xs \<Longrightarrow> unique_acc seen ok xs = xs" for seen ok and xs :: "i64 list"
  proof (induction xs arbitrary: seen)
    case (Cons x xs)
    have "length (unique_acc seen ok xs) \<noteq> Suc (length xs)" using length_unique_acc [of seen ok xs] by linarith
    with Cons show ?case by (auto split: if_splits)
  qed simp
  then show "length (uniqueIDs ids) = length ids \<Longrightarrow> uniqueIDs ids = ids" unfolding uniqueIDs_def .
qed

text \<open>As many rows locked as identifiers asked for: every outlet is there and active.\<close>

lemma outlets_validated:
  assumes "outlets_tbl.fresh w" and "validateOutletIDs b ids w = (Inr x, v)"
  shows "same_data w v \<and> usable_outlets (data w) b ids \<and> uniqueIDs ids = ids"
proof -
  from assms(2) obtain locked where u: "length (uniqueIDs ids) = length ids" "ids \<noteq> []"
    and lk: "LockActiveOutlets b ids w = (Inr locked, v)" and len: "length locked = length ids"
    unfolding validateOutletIDs_def by (auto simp: run_inv split: if_splits)
  let ?rows = "filter (\<lambda>r. out_business_id r = b \<and> out_is_active r \<and> out_id r \<in> set ids) (outlets (data w))"
  have l: "locked = map out_id ?rows" "same_data w v" using select_Inr [OF lk [unfolded LockActiveOutlets_def]] by simp_all
  have "distinct locked" unfolding l using outlets_tbl.fresh_distinct [OF assms(1)] by (rule distinct_map_filter)
  moreover have sub: "set locked \<subseteq> set ids" unfolding l by auto
  moreover have d: "distinct ids" by (rule unique_ids_same [OF u(1)])
  ultimately have "set locked = set ids"
    using len by (metis card_subset_eq distinct_card finite_set)
  have "outlet_active (data w) b i" if "i \<in> set ids" for i
  proof -
    have "i \<in> set locked" using that \<open>set locked = set ids\<close> by simp
    then obtain r where "r \<in> set (outlets (data w))" "out_business_id r = b" "out_is_active r" "out_id r = i"
      unfolding l by auto
    then show ?thesis unfolding outlet_active_def list_ex_iff by blast
  qed
  with l(2) u d unique_ids_id [OF u(1)] show ?thesis by (simp add: usable_outlets_def)
qed

lemma outlets_added:
  "add_outlets b u ids w = (Inr xs, v) \<Longrightarrow>
     data v = (data w)\<lparr>user_outlets := user_outlets (data w) @ assignments b u (now w) ids\<rparr> \<and> now v = now w"
proof (induction ids arbitrary: w xs)
  case Nil
  then show ?case by (simp add: add_outlets_def assignments_def run_inv)
next
  case (Cons l ids)
  then obtain w1 ys where one: "AddStaffOutlet b u l w = (Inr (), w1)" and rest: "add_outlets b u ids w1 = (Inr ys, v)"
    unfolding add_outlets_def by (auto simp: run_inv as_internal_def)
  from insert_row_Inr [OF one [unfolded AddStaffOutlet_def]] Cons.IH [OF rest] show ?case
    by (simp add: assignments_def)
qed

lemma permissions_added:
  "each (\<lambda>pc. as_internal (AddStaffPermission b u pc g)) codes w = (Inr xs, v) \<Longrightarrow>
     data v = (data w)\<lparr>user_permissions := user_permissions (data w) @ grants b u g (now w) codes\<rparr> \<and> now v = now w"
proof (induction codes arbitrary: w xs)
  case Nil
  then show ?case by (simp add: grants_def run_inv)
next
  case (Cons pc codes)
  then obtain w1 ys where one: "AddStaffPermission b u pc g w = (Inr (), w1)"
    and rest: "each (\<lambda>pc. as_internal (AddStaffPermission b u pc g)) codes w1 = (Inr ys, v)"
    by (auto simp: run_inv as_internal_def)
  from insert_row_Inr [OF one [unfolded AddStaffPermission_def]] Cons.IH [OF rest] show ?case
    by (simp add: grants_def)
qed

lemma code_allocated:
  assumes "AllocateOutletCode b w = (Inr code, v)"
  shows "\<exists>k cs. code = outlet_code k \<and> counted b k (outlet_counters (data w)) cs
    \<and> data v = (data w)\<lparr>outlet_counters := cs\<rparr> \<and> now v = now w \<and> seqs v = seqs w"
proof -
  let ?cs = "outlet_counters (data w)" and ?hit = "\<lambda>c. bc_business_id c = b"
  obtain u where u: "same_data w u" and run: "(let cs = outlet_counters (data u) in case find ?hit cs of
      None \<Rightarrow> if business_exists (data u) b then (Inr (outlet_code 1), u\<lparr>data := (data u)\<lparr>outlet_counters :=
          cs @ [\<lparr>bc_business_id = b, bc_last_allocated = 1\<rparr>]\<rparr>\<rparr>)
        else (Inl (ForeignKeyViolation ''business_outlet_counters_business_id_fkey''), u)
    | Some c \<Rightarrow> if is_int64 (bc_last_allocated c + 1)
        then (Inr (outlet_code (bc_last_allocated c + 1)), u\<lparr>data := (data u)\<lparr>outlet_counters :=
          map (\<lambda>r. if ?hit r then r\<lparr>bc_last_allocated := bc_last_allocated c + 1\<rparr> else r) cs\<rparr>\<rparr>)
        else (Inl OutOfRange, u)) = (Inr code, v)"
    using stmt_Inr [OF assms [unfolded AllocateOutletCode_def]] by blast
  have d: "data u = data w" "now u = now w" "seqs u = seqs w" using u by (simp_all add: same_data_def)
  show ?thesis
  proof (cases "find ?hit ?cs")
    case None
    then have "filter ?hit ?cs = []" by (simp add: find_None_iff filter_empty_conv)
    moreover have "find ?hit (?cs @ [\<lparr>bc_business_id = b, bc_last_allocated = 1\<rparr>]) = Some \<lparr>bc_business_id = b, bc_last_allocated = 1\<rparr>"
    proof -
      have "find ?hit xs = None \<Longrightarrow> find ?hit (xs @ [\<lparr>bc_business_id = b, bc_last_allocated = 1\<rparr>])
          = Some \<lparr>bc_business_id = b, bc_last_allocated = 1\<rparr>" for xs :: "outlet_counter_row list"
        by (induction xs) (auto split: if_splits)
      then show ?thesis using None .
    qed
    ultimately show ?thesis
      using run None d
      by (intro exI [of _ 1] exI [of _ "?cs @ [\<lparr>bc_business_id = b, bc_last_allocated = 1\<rparr>]"])
        (auto simp: counted_def next_outlet_number_def split: if_splits)
  next
    case (Some c)
    let ?f = "\<lambda>r. if ?hit r then r\<lparr>bc_last_allocated := bc_last_allocated c + 1\<rparr> else r"
    have "find ?hit xs = Some c \<Longrightarrow> find ?hit (map ?f xs) = Some (c\<lparr>bc_last_allocated := bc_last_allocated c + 1\<rparr>)" for xs
      by (induction xs) (auto split: if_splits)
    from this [OF Some] have "next_outlet_number b (map ?f ?cs) = bc_last_allocated c + 1 + 1"
      by (simp add: next_outlet_number_def)
    moreover have "filter (\<lambda>c. bc_business_id c \<noteq> b) (map ?f xs) = filter (\<lambda>c. bc_business_id c \<noteq> b) xs" for xs
      by (induction xs) auto
    ultimately show ?thesis
      using run Some d
      by (intro exI [of _ "bc_last_allocated c + 1"] exI [of _ "map ?f ?cs"])
        (auto simp: counted_def next_outlet_number_def split: if_splits)
  qed
qed

lemma outlet_inserted:
  assumes "outlets_tbl.fresh w" and "CreateOutlet b cd nm ph ad z w = (Inr r, v)"
  shows "outlets_tbl.changes (data w) (Added r) (outlets (data v)) \<and> data v = (data w)\<lparr>outlets := outlets (data v)\<rparr>
    \<and> now v = now w \<and> out_business_id r = b \<and> out_code r = cd \<and> out_is_active r"
  using outlets_tbl.insert_changes [OF assms(1) assms(2) [unfolded CreateOutlet_def]]
  by (clarsimp simp: outlet_write_checks)

lemma outlet_rewritten:
  assumes "outlets_tbl.fresh w" and "r \<in> set (outlets (data w))" and "outlet_is b i r"
    and "UpdateOutlet b i nm ph ad ac z w = (Inr r', v)"
  shows "outlets_tbl.changes (data w) (Changed r r') (outlets (data v)) \<and> data v = (data w)\<lparr>outlets := outlets (data v)\<rparr>
    \<and> now v = now w \<and> r' = r\<lparr>out_name := nm, out_phone := ph, out_address := ad, out_is_active := ac,
        out_timezone := zone_or_default z, out_updated_at := now w\<rparr>"
  by (rule outlets_tbl.update_changes [OF assms(1-3) assms(4) [unfolded UpdateOutlet_def]])
    (use assms(3) in \<open>simp_all add: outlet_is_def outlet_write_checks\<close>)

lemma user_inserted:
  assumes "users_tbl.fresh w" and "CreateStaff en b em nm ha w = (Inr x, v)"
  shows "data v = (data w)\<lparr>users := users (data w) @ [x]\<rparr> \<and> now v = now w \<and> u_id x \<notin> u_id ` set (users (data w))
    \<and> u_business_id x = b \<and> u_role x = ''LAUNDRY_STAFF'' \<and> u_is_active x \<and> user_check x \<and> u_email x = em \<and> u_full_name x = nm"
proof -
  note I = insert_serial_Inr [OF assms(2) [unfolded CreateStaff_def]]
  have "u_id x = seqs w TUsers" using I by simp
  then have "u_id x \<notin> u_id ` set (users (data w))" using users_tbl.fresh_below [OF assms(1)] by fastforce
  moreover have "user_check x" using I by (auto simp: write_user_error_def split: if_splits)
  ultimately show ?thesis using I by simp
qed

lemma user_rewritten:
  assumes "users_tbl.fresh w" and "x \<in> set (users (data w))" and "staff_is b i x"
    and "UpdateStaff en b i nm ac w = (Inr y, v)"
  shows "data v = (data w)\<lparr>users := replace_row x y (users (data w))\<rparr> \<and> now v = now w
    \<and> y = x\<lparr>u_full_name := nm, u_is_active := ac, u_updated_at := now w\<rparr>"
  using users_tbl.update_one [OF assms(1-3) _ assms(4) [unfolded UpdateStaff_def]] assms(3)
  by (simp add: staff_is_def)

lemma staff_outlet_kept:
  "keep_staff_outlet b i was ac w = (Inr x, v) \<Longrightarrow>
     same_data w v \<and> (was \<and> \<not> ac \<longrightarrow> (\<forall>u \<in> set (users (data w)). \<not> only_outlet (data w) b i u))"
proof -
  assume run: "keep_staff_outlet b i was ac w = (Inr x, v)"
  show ?thesis
  proof (cases "was \<and> \<not> ac")
    case True
    with run obtain k where k: "CountActiveAssignedStaffWithoutOtherOutlet b i w = (Inr k, v)" "\<not> k > 0"
      unfolding keep_staff_outlet_def by (auto simp: run_inv as_internal_def split: if_splits)
    from one_select_Inr [OF k(1) [unfolded CountActiveAssignedStaffWithoutOtherOutlet_def]] k(2)
    have "filter (only_outlet (data w) b i) (users (data w)) = []" "same_data w v" by auto
    then show ?thesis by (simp add: filter_empty_conv)
  next
    case False
    with run show ?thesis by (auto simp: keep_staff_outlet_def run_inv)
  qed
qed

lemma owner_kept: "keep_owner b i old ac w = (Inr x, v) \<Longrightarrow> same_data w v"
proof -
  have "reads (keep_owner b i old ac)" unfolding keep_owner_def as_internal_def by (intro reads_intro)
  then show "keep_owner b i old ac w = (Inr x, v) \<Longrightarrow> same_data w v" by (rule readsD)
qed

lemma staff_only_Inr: "staff_only u w = (Inr x, v) \<longleftrightarrow> u_role u = ''LAUNDRY_STAFF'' \<and> v = w"
  by (auto simp: staff_only_def run_inv)

lemma known_codes_Inr: "known_codes known codes w = (Inr x, v) \<longleftrightarrow> set codes \<subseteq> pm_code ` set known \<and> v = w"
  by (auto simp: known_codes_def run_inv list_all_iff)

lemma manage_audited:
  "writeAudit p c act entity i ov nv w = (Inr x, v) \<Longrightarrow> \<exists>a. data v = (data w)\<lparr>audit_logs := audit_logs (data w) @ [a]\<rparr>
     \<and> master_audit entity (pc_BusinessID p) i a"
  by (drule audited(3)) blast

section \<open>The bodies do what the events say\<close>

definition outlet_created :: "Principal \<Rightarrow> time \<Rightarrow> db \<Rightarrow> OutletRow \<Rightarrow> db \<Rightarrow> bool" where
  "outlet_created p n d x d' \<longleftrightarrow>
     (\<exists>r. manage_step (pc_BusinessID p) (pc_UserID p) n d (OutletAdded r) d' \<and> x = outlet_view r)"

definition outlet_updated :: "Principal \<Rightarrow> i64 \<Rightarrow> bool \<Rightarrow> time \<Rightarrow> db \<Rightarrow> OutletRow \<Rightarrow> db \<Rightarrow> bool" where
  "outlet_updated p i isActive n d x d' \<longleftrightarrow> (\<exists>r r'. r \<in> set (outlets d) \<and> outlet_is (pc_BusinessID p) i r \<and> out_is_active r' = isActive
     \<and> manage_step (pc_BusinessID p) (pc_UserID p) n d (OutletChanged r r') d' \<and> x = outlet_view r')"

definition account_created :: "Principal \<Rightarrow> string \<Rightarrow> string \<Rightarrow> i64 list \<Rightarrow> time \<Rightarrow> db \<Rightarrow> staffResponse \<Rightarrow> db \<Rightarrow> bool" where
  "account_created p email name ids n d x d' \<longleftrightarrow> (\<exists>r. u_email r = email \<and> u_full_name r = name
     \<and> manage_step (pc_BusinessID p) (pc_UserID p) n d (AccountAdded r ids) d' \<and> x = staff_response r ids [])"

definition account_updated :: "Principal \<Rightarrow> i64 \<Rightarrow> string \<Rightarrow> bool \<Rightarrow> time \<Rightarrow> db \<Rightarrow> staffResponse \<Rightarrow> db \<Rightarrow> bool" where
  "account_updated p i name isActive n d x d' \<longleftrightarrow> (\<exists>r r'. r \<in> set (users d) \<and> staff_is (pc_BusinessID p) i r
     \<and> r' = r\<lparr>u_full_name := name, u_is_active := isActive, u_updated_at := n\<rparr>
     \<and> manage_step (pc_BusinessID p) (pc_UserID p) n d (AccountChanged r r') d'
     \<and> mr_ID x = i \<and> mr_IsActive x = isActive \<and> mr_Role x = u_role r)"

definition outlets_replaced :: "Principal \<Rightarrow> i64 \<Rightarrow> i64 list \<Rightarrow> time \<Rightarrow> db \<Rightarrow> i64 \<times> i64 list \<Rightarrow> db \<Rightarrow> bool" where
  "outlets_replaced p i ids n d x d' \<longleftrightarrow> (\<exists>r. staff_is (pc_BusinessID p) i r
     \<and> manage_step (pc_BusinessID p) (pc_UserID p) n d (OutletsGiven r ids) d' \<and> x = (i, ids))"

definition permissions_replaced :: "Principal \<Rightarrow> i64 \<Rightarrow> string list \<Rightarrow> time \<Rightarrow> db \<Rightarrow> i64 \<times> string list \<Rightarrow> db \<Rightarrow> bool" where
  "permissions_replaced p i codes n d x d' \<longleftrightarrow> (\<exists>r. staff_is (pc_BusinessID p) i r
     \<and> manage_step (pc_BusinessID p) (pc_UserID p) n d (PermissionsGiven r codes) d' \<and> x = (i, codes))"

lemma CreateOutlet_refines:
  assumes "manage_fresh w" and "CreateOutlet_body p c req zone w = (Inr x, v)"
  shows "outlet_created p (now w) (data w) x (data v)"
proof -
  from assms(2) obtain w1 code w2 r w3 where own: "lockOwnerContext p w = (Inr (), w1)"
    and al: "AllocateOutletCode (pc_BusinessID p) w1 = (Inr code, w2)"
    and ins: "CreateOutlet (pc_BusinessID p) code (trim_space (oi_Name req)) (oi_Phone req) (oi_Address req) zone w2 = (Inr r, w3)"
    and aud: "writeAudit p c ''OUTLET_CREATED'' ''outlet'' (out_id r) None (Some (JObj ((''id'', JInt (out_id r)) # outlet_json r))) w3
      = (Inr (), v)"
    and x: "x = outlet_view r"
    unfolding CreateOutlet_body_def by (auto simp: run_inv)
  note L = owner_locked [OF own]
  from code_allocated [OF al] obtain k cs where A: "code = outlet_code k" "counted (pc_BusinessID p) k (outlet_counters (data w1)) cs"
    "data w2 = (data w1)\<lparr>outlet_counters := cs\<rparr>" "now w2 = now w1" "seqs w2 = seqs w1" by blast
  have eq: "data w1 = data w" "now w1 = now w" "seqs w1 = seqs w" using L by (simp_all add: same_data_def)
  have fr: "outlets_tbl.fresh w2"
    by (rule outlets_tbl.fresh_frame [OF manage_freshD(1) [OF assms(1)]]) (simp_all add: A eq)
  note I = outlet_inserted [OF fr ins]
  from manage_audited [OF aud] obtain a where a: "data v = (data w3)\<lparr>audit_logs := audit_logs (data w3) @ [a]\<rparr>"
    "master_audit ''outlet'' (pc_BusinessID p) (out_id r) a" by blast
  define rs where "rs = outlets (data w3)"
  have d3: "data w3 = (data w)\<lparr>outlet_counters := cs, outlets := rs\<rparr>" using I A(3) eq(1) unfolding rs_def by metis
  have "outlets_tbl.changes (data w2) (Added r) rs" using I unfolding rs_def by (rule conjunct1)
  then have ch: "outlets_tbl.changes (data w) (Added r) rs"
    unfolding A(3) eq(1) by (simp add: outlets_tbl.changes_def outlets_tbl.taken_def)
  from ch L I A a(2) have "manage_step (pc_BusinessID p) (pc_UserID p) (now w) (data w) (OutletAdded r)
      ((data w)\<lparr>outlet_counters := cs, outlets := rs, audit_logs := audit_logs (data w) @ [a]\<rparr>)"
    by (intro manage_step.outlet_added [where k = k]) (simp_all only: eq)
  moreover have "data v = (data w)\<lparr>outlet_counters := cs, outlets := rs, audit_logs := audit_logs (data w) @ [a]\<rparr>"
    unfolding a(1) d3 by simp
  ultimately show ?thesis using x unfolding outlet_created_def by (intro exI [of _ r]) simp
qed

lemma UpdateOutlet_refines:
  assumes "manage_fresh w" and "UpdateOutlet_body p c i ac req zone w = (Inr x, v)"
  shows "outlet_updated p i ac (now w) (data w) x (data v)"
proof -
  let ?b = "pc_BusinessID p"
  from assms(2) obtain w1 r w2 w3 r' w4 where own: "lockOwnerContext p w = (Inr (), w1)"
    and get: "GetOutletForUpdate ?b i w1 = (Inr r, w2)"
    and keep: "keep_staff_outlet ?b i (out_is_active r) ac w2 = (Inr (), w3)"
    and upd: "UpdateOutlet ?b i (trim_space (oi_Name req)) (oi_Phone req) (oi_Address req) ac zone w3 = (Inr r', w4)"
    and aud: "writeAudit p c ''OUTLET_UPDATED'' ''outlet'' i (Some (JObj (outlet_json r))) (Some (JObj (outlet_json r'))) w4 = (Inr (), v)"
    and x: "x = outlet_view r'"
    unfolding UpdateOutlet_body_def by (auto simp: run_inv)
  note L = owner_locked [OF own] and G = outlet_locked [OF get] and K = staff_outlet_kept [OF keep]
  have eq: "data w1 = data w" "data w2 = data w" "data w3 = data w" "now w3 = now w" "seqs w3 = seqs w"
    using L G K by (simp_all add: same_data_def)
  have fr: "outlets_tbl.fresh w3" by (rule outlets_tbl.fresh_frame [OF manage_freshD(1) [OF assms(1)]]) (simp_all add: eq)
  have r: "r \<in> set (outlets (data w3))" "outlet_is ?b i r" using G by (simp_all add: eq)
  note U = outlet_rewritten [OF fr r upd]
  from manage_audited [OF aud] obtain a where a: "data v = (data w4)\<lparr>audit_logs := audit_logs (data w4) @ [a]\<rparr>"
    "master_audit ''outlet'' ?b i a" by blast
  define rs where "rs = outlets (data w4)"
  have d4: "data w4 = (data w)\<lparr>outlets := rs\<rparr>" using U unfolding rs_def eq by blast
  have ch: "outlets_tbl.changes (data w) (Changed r r') rs" using U unfolding rs_def eq by blast
  have r': "out_code r' = out_code r" "out_created_at r' = out_created_at r" "out_is_active r' = ac" using U by simp_all
  have i: "out_business_id r = ?b" "out_id r = i" using r(2) by (simp_all add: outlet_is_def)
  have no: "\<forall>u \<in> set (users (data w)). \<not> only_outlet (data w) ?b (out_id r) u" if "out_is_active r \<and> \<not> out_is_active r'"
    using K that unfolding r'(3) i(2) eq by blast
  have "manage_step ?b (pc_UserID p) (now w) (data w) (OutletChanged r r')
      ((data w)\<lparr>outlets := rs, audit_logs := audit_logs (data w) @ [a]\<rparr>)"
    by (rule manage_step.outlet_changed [OF conjunct2 [OF L] ch i(1) r'(1,2) no]) (use a(2) i in simp_all)
  moreover have "data v = (data w)\<lparr>outlets := rs, audit_logs := audit_logs (data w) @ [a]\<rparr>"
    unfolding a(1) d4 by simp
  ultimately show ?thesis using x r r'(3) unfolding outlet_updated_def eq by (intro exI [of _ r] exI [of _ r']) simp
qed

lemma CreateStaff_refines:
  assumes "manage_fresh w" and "CreateStaff_body en p c email name hash ids w = (Inr x, v)"
  shows "account_created p email name ids (now w) (data w) x (data v)"
proof -
  let ?b = "pc_BusinessID p"
  from assms(2) obtain w1 w2 r w3 ys w4 where own: "lockOwnerContext p w = (Inr (), w1)"
    and val: "validateOutletIDs ?b ids w1 = (Inr (), w2)" and ins: "CreateStaff en ?b email name hash w2 = (Inr r, w3)"
    and add: "add_outlets ?b (u_id r) (uniqueIDs ids) w3 = (Inr ys, w4)"
    and aud: "writeAudit p c ''STAFF_CREATED'' ''user'' (u_id r) None
              (Some (JObj [(''id'', JInt (u_id r)), (''email'', JStr (u_email r)), (''fullName'', JStr (u_full_name r)),
                 (''role'', JStr (u_role r)), (''isActive'', JBool (u_is_active r)), (''outletIds'', JList (map JInt (uniqueIDs ids)))])) w4
       = (Inr (), v)"
    and x: "x = staff_response r (uniqueIDs ids) []"
    unfolding CreateStaff_body_def by (auto simp: run_inv)
  note L = owner_locked [OF own]
  have eq1: "data w1 = data w" "now w1 = now w" "seqs w1 = seqs w" using L by (simp_all add: same_data_def)
  have "outlets_tbl.fresh w1" by (rule outlets_tbl.fresh_frame [OF manage_freshD(1) [OF assms(1)]]) (simp_all add: eq1)
  note V = outlets_validated [OF this val, unfolded eq1]
  have eq: "data w2 = data w" "now w2 = now w" "seqs w2 = seqs w" using V by (simp_all add: same_data_def eq1)
  have ids: "uniqueIDs ids = ids" using V by blast
  have "users_tbl.fresh w2" by (rule users_tbl.fresh_frame [OF manage_freshD(2) [OF assms(1)]]) (simp_all add: eq)
  note I = user_inserted [OF this ins, unfolded eq] and A = outlets_added [OF add, unfolded ids]
  from manage_audited [OF aud] obtain a where a: "data v = (data w4)\<lparr>audit_logs := audit_logs (data w4) @ [a]\<rparr>"
    "master_audit ''user'' ?b (u_id r) a" by blast
  have "manage_step ?b (pc_UserID p) (now w) (data w) (AccountAdded r ids) ((data w)\<lparr>users := users (data w) @ [r],
       user_outlets := user_outlets (data w) @ assignments ?b (u_id r) (now w) ids, audit_logs := audit_logs (data w) @ [a]\<rparr>)"
    by (rule manage_step.account_added) (use L I V a(2) in auto)
  moreover have "data v = (data w)\<lparr>users := users (data w) @ [r],
       user_outlets := user_outlets (data w) @ assignments ?b (u_id r) (now w) ids, audit_logs := audit_logs (data w) @ [a]\<rparr>"
    using I A unfolding a(1) by simp
  ultimately show ?thesis using x I unfolding account_created_def ids by (intro exI [of _ r]) simp
qed

lemma UpdateStaff_refines:
  assumes "manage_fresh w" and "\<not> (i = pc_UserID p \<and> \<not> ac)" and "UpdateStaff_body en p c i name ac w = (Inr x, v)"
  shows "account_updated p i name ac (now w) (data w) x (data v)"
proof -
  let ?b = "pc_BusinessID p"
  from assms(3) obtain w1 r w2 w3 r' w4 w5 outs w6 perms where own: "lockOwnerContext p w = (Inr (), w1)"
    and get: "GetStaffForUpdate ?b i w1 = (Inr r, w2)" and keep: "keep_owner ?b i r ac w2 = (Inr (), w3)"
    and upd: "UpdateStaff en ?b i name ac w3 = (Inr r', w4)"
    and aud: "writeAudit p c ''STAFF_UPDATED'' ''user'' i
              (Some (JObj [(''fullName'', JStr (u_full_name r)), (''isActive'', JBool (u_is_active r))]))
              (Some (JObj [(''fullName'', JStr (u_full_name r')), (''isActive'', JBool (u_is_active r'))])) w4 = (Inr (), w5)"
    and o: "ListStaffOutletIDs ?b i w5 = (Inr outs, w6)" and pm: "ListStaffPermissionCodes en ?b i w6 = (Inr perms, v)"
    and x: "x = staff_response r' outs perms"
    unfolding UpdateStaff_body_def by (auto simp: run_inv as_internal_def)
  note L = owner_locked [OF own] and G = staff_locked [OF get]
  have eq: "data w1 = data w" "data w3 = data w" "now w3 = now w" "seqs w3 = seqs w"
    using L G owner_kept [OF keep] by (simp_all add: same_data_def)
  have v: "data v = data w5"
    using readsD [OF management_queries_read(13) o] readsD [OF management_queries_read(15) pm] by (simp add: same_data_def)
  have fr: "users_tbl.fresh w3" by (rule users_tbl.fresh_frame [OF manage_freshD(2) [OF assms(1)]]) (simp_all add: eq)
  have r: "r \<in> set (users (data w3))" "staff_is ?b i r" using G by (simp_all add: eq)
  note U = user_rewritten [OF fr r upd, unfolded eq]
  from manage_audited [OF aud] obtain a where a: "data w5 = (data w4)\<lparr>audit_logs := audit_logs (data w4) @ [a]\<rparr>"
    "master_audit ''user'' ?b i a" by blast
  have i: "u_business_id r = ?b" "u_id r = i" using r(2) by (simp_all add: staff_is_def)
  have "manage_step ?b (pc_UserID p) (now w) (data w) (AccountChanged r r')
      ((data w)\<lparr>users := replace_row r r' (users (data w)), audit_logs := audit_logs (data w) @ [a]\<rparr>)"
    by (rule manage_step.account_changed [OF conjunct2 [OF L], where active = ac and name = name])
      (use r U a(2) i assms(2) in \<open>auto simp: eq\<close>)
  moreover have "data v = (data w)\<lparr>users := replace_row r r' (users (data w)), audit_logs := audit_logs (data w) @ [a]\<rparr>"
    unfolding v a(1) using U by simp
  moreover have "mr_ID x = i" "mr_IsActive x = ac" "mr_Role x = u_role r" using U i by (simp_all add: x staff_response_def)
  ultimately show ?thesis using r U unfolding account_updated_def eq by (intro exI [of _ r] exI [of _ r']) simp
qed

lemma ReplaceOutlets_refines:
  assumes "manage_fresh w" and "i \<noteq> pc_UserID p" and "ReplaceOutlets_body p c i ids w = (Inr x, v)"
  shows "outlets_replaced p i ids (now w) (data w) x (data v)"
proof -
  let ?b = "pc_BusinessID p"
  from assms(3) obtain w1 r w2 old w3 w4 w5 ys w6 where own: "lockOwnerContext p w = (Inr (), w1)"
    and get: "GetStaffForUpdate ?b i w1 = (Inr r, w2)" and role: "u_role r = ''LAUNDRY_STAFF''"
    and o: "ListStaffOutletIDs ?b i w2 = (Inr old, w3)" and val: "validateOutletIDs ?b ids w3 = (Inr (), w4)"
    and del: "DeleteStaffOutlets ?b i w4 = (Inr (), w5)" and add: "add_outlets ?b i ids w5 = (Inr ys, w6)"
    and aud: "writeAudit p c ''STAFF_OUTLETS_REPLACED'' ''user'' i (Some (JObj [(''outletIds'', json_ids old)]))
              (Some (JObj [(''outletIds'', JList (map JInt ids))])) w6 = (Inr (), v)"
    and x: "x = (i, ids)"
    unfolding ReplaceOutlets_body_def by (auto simp: run_inv as_internal_def staff_only_Inr)
  note L = owner_locked [OF own] and G = staff_locked [OF get] and O = readsD [OF management_queries_read(13) o]
  have eq: "data w1 = data w" "data w3 = data w" "now w3 = now w" "seqs w3 = seqs w"
    using L G O by (simp_all add: same_data_def)
  have "outlets_tbl.fresh w3" by (rule outlets_tbl.fresh_frame [OF manage_freshD(1) [OF assms(1)]]) (simp_all add: eq)
  note V = outlets_validated [OF this val, unfolded eq]
  have eq4: "data w4 = data w" "now w4 = now w" using V by (simp_all add: same_data_def eq)
  note D = delete_rows_Inr [OF del [unfolded DeleteStaffOutlets_def], unfolded eq4] and A = outlets_added [OF add]
  from manage_audited [OF aud] obtain a where a: "data v = (data w6)\<lparr>audit_logs := audit_logs (data w6) @ [a]\<rparr>"
    "master_audit ''user'' ?b i a" by blast
  have i: "r \<in> set (users (data w))" "u_business_id r = ?b" "u_id r = i" using G by (simp_all add: eq staff_is_def)
  have "manage_step ?b (pc_UserID p) (now w) (data w) (OutletsGiven r ids) ((data w)\<lparr>user_outlets :=
       filter (\<lambda>y. \<not> (uo_business_id y = ?b \<and> uo_user_id y = u_id r)) (user_outlets (data w)) @ assignments ?b (u_id r) (now w) ids,
       audit_logs := audit_logs (data w) @ [a]\<rparr>)"
    by (rule manage_step.outlets_given [OF conjunct2 [OF L] i(1,2) role]) (use assms(2) V a(2) i in simp_all)
  moreover have "data v = (data w)\<lparr>user_outlets :=
       filter (\<lambda>y. \<not> (uo_business_id y = ?b \<and> uo_user_id y = u_id r)) (user_outlets (data w)) @ assignments ?b (u_id r) (now w) ids,
       audit_logs := audit_logs (data w) @ [a]\<rparr>"
    using D A i unfolding a(1) by simp
  moreover have "staff_is ?b i r" using i by (simp add: staff_is_def)
  ultimately show ?thesis using x unfolding outlets_replaced_def by (intro exI [of _ r]) simp
qed

lemma ReplacePermissions_refines:
  assumes "i \<noteq> pc_UserID p" and "distinct codes" and "ReplacePermissions_body en p c i codes w = (Inr x, v)"
  shows "permissions_replaced p i codes (now w) (data w) x (data v)"
proof -
  let ?b = "pc_BusinessID p"
  from assms(3) obtain w1 r w2 known w3 old w4 w5 ys w6 where own: "lockOwnerContext p w = (Inr (), w1)"
    and get: "GetStaffForUpdate ?b i w1 = (Inr r, w2)" and role: "u_role r = ''LAUNDRY_STAFF''"
    and kn: "ListPermissions en w2 = (Inr known, w3)" and sub: "set codes \<subseteq> pm_code ` set known"
    and o: "ListStaffPermissionCodes en ?b i w3 = (Inr old, w4)" and del: "DeleteStaffPermissions ?b i w4 = (Inr (), w5)"
    and add: "each (\<lambda>code. as_internal (AddStaffPermission ?b i code (pc_UserID p))) codes w5 = (Inr ys, w6)"
    and aud: "writeAudit p c ''STAFF_PERMISSIONS_REPLACED'' ''user'' i (Some (JObj [(''permissions'', json_codes old)]))
              (Some (JObj [(''permissions'', JList (map JStr codes))])) w6 = (Inr (), v)"
    and x: "x = (i, codes)"
    unfolding ReplacePermissions_body_def by (auto simp: run_inv as_internal_def staff_only_Inr known_codes_Inr)
  note L = owner_locked [OF own] and G = staff_locked [OF get] and O = readsD [OF management_queries_read(15) o]
  note K = select_Inr [OF kn [unfolded ListPermissions_def]]
  have eq: "data w1 = data w" "data w2 = data w" "data w4 = data w" "now w4 = now w"
    using L G K O by (simp_all add: same_data_def)
  have known: "set known = set (permissions (data w))" using K eq by simp
  note D = delete_rows_Inr [OF del [unfolded DeleteStaffPermissions_def], unfolded eq] and A = permissions_added [OF add]
  from manage_audited [OF aud] obtain a where a: "data v = (data w6)\<lparr>audit_logs := audit_logs (data w6) @ [a]\<rparr>"
    "master_audit ''user'' ?b i a" by blast
  have i: "r \<in> set (users (data w))" "u_business_id r = ?b" "u_id r = i" using G by (simp_all add: eq staff_is_def)
  have "manage_step ?b (pc_UserID p) (now w) (data w) (PermissionsGiven r codes) ((data w)\<lparr>user_permissions :=
       filter (\<lambda>y. \<not> (up_business_id y = ?b \<and> up_user_id y = u_id r)) (user_permissions (data w))
         @ grants ?b (u_id r) (pc_UserID p) (now w) codes, audit_logs := audit_logs (data w) @ [a]\<rparr>)"
    by (rule manage_step.permissions_given [OF conjunct2 [OF L] i(1,2) role])
      (use assms(1,2) sub a(2) i known in simp_all)
  moreover have "data v = (data w)\<lparr>user_permissions :=
       filter (\<lambda>y. \<not> (up_business_id y = ?b \<and> up_user_id y = u_id r)) (user_permissions (data w))
         @ grants ?b (u_id r) (pc_UserID p) (now w) codes, audit_logs := audit_logs (data w) @ [a]\<rparr>"
    using D A i unfolding a(1) by simp
  moreover have "staff_is ?b i r" using i by (simp add: staff_is_def)
  ultimately show ?thesis using x unfolding permissions_replaced_def by (intro exI [of _ r]) simp
qed

end
