(* ===== verification/Management_Worlds.thy ===== *)
theory Management_Worlds
  imports Management_System Expense_Worlds
begin

text \<open>
  How every call of the management handlers ends, with any faults of the connection, and the sequences of requests: a call
  does nothing or one event of manage_step, by an active administrator of the tenant it names.
\<close>

section \<open>Keys and sequences\<close>

lemma insert_outlet_fresh:
  assumes "\<And>i n d. out_id (mk i n d) = i"
  shows "keeps manage_fresh (insert_serial TOutlets outlets (\<lambda>rs d. d\<lparr>outlets := rs\<rparr>) chk mk)"
proof (rule keepsI)
  fix w r w'
  assume F: "manage_fresh w" and run: "insert_serial TOutlets outlets (\<lambda>rs d. d\<lparr>outlets := rs\<rparr>) chk mk w = (r, w')"
  have "outlets_tbl.fresh w'" by (rule keepsD [OF outlets_tbl.insert_keeps [OF assms] manage_freshD(1) [OF F] run])
  then show "manage_fresh w'" using F insert_frame [OF run] unfolding manage_fresh_def by (auto intro: users_tbl.fresh_frame)
qed

lemma insert_user_fresh:
  assumes "\<And>i n d. u_id (mk i n d) = i"
  shows "keeps manage_fresh (insert_serial TUsers users (\<lambda>rs d. d\<lparr>users := rs\<rparr>) chk mk)"
proof (rule keepsI)
  fix w r w'
  assume F: "manage_fresh w" and run: "insert_serial TUsers users (\<lambda>rs d. d\<lparr>users := rs\<rparr>) chk mk w = (r, w')"
  have "users_tbl.fresh w'" by (rule keepsD [OF users_tbl.insert_keeps [OF assms] manage_freshD(2) [OF F] run])
  then show "manage_fresh w'" using F insert_frame [OF run] unfolding manage_fresh_def by (auto intro: outlets_tbl.fresh_frame)
qed

lemma update_outlet_fresh:
  assumes "\<And>n r. out_id (upd n r) = out_id r"
  shows "keeps manage_fresh (update_rows outlets (\<lambda>rs d. d\<lparr>outlets := rs\<rparr>) chk q upd)"
proof (rule keepsI)
  fix w r w'
  assume F: "manage_fresh w" and run: "update_rows outlets (\<lambda>rs d. d\<lparr>outlets := rs\<rparr>) chk q upd w = (r, w')"
  have "outlets_tbl.fresh w'" by (rule keepsD [OF outlets_tbl.update_keeps [OF assms] manage_freshD(1) [OF F] run])
  then show "manage_fresh w'" using F update_frame [OF run] unfolding manage_fresh_def by (auto intro: users_tbl.fresh_frame)
qed

lemma update_user_fresh:
  assumes "\<And>n r. u_id (upd n r) = u_id r"
  shows "keeps manage_fresh (update_rows users (\<lambda>rs d. d\<lparr>users := rs\<rparr>) chk q upd)"
proof (rule keepsI)
  fix w r w'
  assume F: "manage_fresh w" and run: "update_rows users (\<lambda>rs d. d\<lparr>users := rs\<rparr>) chk q upd w = (r, w')"
  have "users_tbl.fresh w'" by (rule keepsD [OF users_tbl.update_keeps [OF assms] manage_freshD(2) [OF F] run])
  then show "manage_fresh w'" using F update_frame [OF run] unfolding manage_fresh_def by (auto intro: outlets_tbl.fresh_frame)
qed

lemma row_frames:
  "insert_row get put chk mk w = (r, w') \<Longrightarrow> (data w' = data w \<or> (\<exists>rs. data w' = put rs (data w))) \<and> (\<forall>t. seqs w t \<le> seqs w' t)"
  "delete_rows get put q w = (r, w') \<Longrightarrow> (data w' = data w \<or> (\<exists>rs. data w' = put rs (data w))) \<and> (\<forall>t. seqs w t \<le> seqs w' t)"
  using growsD(1) [OF row_statements_grow(1)] growsD(1) [OF row_statements_grow(2)] unfolding insert_row_def delete_rows_def stmt_def
  by (auto simp: Let_def split: prod.splits fault.splits option.splits dest: fault_step_frame)

lemma allocate_frame:
  "AllocateOutletCode b w = (r, w') \<Longrightarrow> outlets (data w') = outlets (data w) \<and> users (data w') = users (data w)"
  unfolding AllocateOutletCode_def stmt_def
  by (auto simp: Let_def split: prod.splits fault.splits option.splits if_splits dest: fault_step_frame)

lemma manage_writes_fresh [keeps_intro]:
  "keeps manage_fresh (CreateOutlet b cd nm ph ad z)" "keeps manage_fresh (UpdateOutlet b i nm ph ad ac z)"
  "keeps manage_fresh (CreateStaff en b em nm ha)" "keeps manage_fresh (UpdateStaff en b i nm ac)"
  "keeps manage_fresh (AddStaffOutlet b u l)" "keeps manage_fresh (DeleteStaffOutlets b u)"
  "keeps manage_fresh (AddStaffPermission b u pc g)" "keeps manage_fresh (DeleteStaffPermissions b u)"
  "keeps manage_fresh (AllocateOutletCode b)" "keeps manage_fresh (InsertAuditLog b uo act et eo ov nv ip ua)"
proof -
  have rows: "keeps manage_fresh (insert_row user_outlets (\<lambda>rs d. d\<lparr>user_outlets := rs\<rparr>) chk mk)"
    "keeps manage_fresh (delete_rows user_outlets (\<lambda>rs d. d\<lparr>user_outlets := rs\<rparr>) q)" for chk mk q
    by (rule keepsI, drule row_frames, auto intro: manage_fresh_frame)+
  have rows': "keeps manage_fresh (insert_row user_permissions (\<lambda>rs d. d\<lparr>user_permissions := rs\<rparr>) chk mk)"
    "keeps manage_fresh (delete_rows user_permissions (\<lambda>rs d. d\<lparr>user_permissions := rs\<rparr>) q)" for chk mk q
    by (rule keepsI, drule row_frames, auto intro: manage_fresh_frame)+
  show "keeps manage_fresh (AddStaffOutlet b u l)" "keeps manage_fresh (DeleteStaffOutlets b u)"
    "keeps manage_fresh (AddStaffPermission b u pc g)" "keeps manage_fresh (DeleteStaffPermissions b u)"
    unfolding AddStaffOutlet_def DeleteStaffOutlets_def AddStaffPermission_def DeleteStaffPermissions_def
    by (rule rows rows')+
  show "keeps manage_fresh (CreateOutlet b cd nm ph ad z)" "keeps manage_fresh (UpdateOutlet b i nm ph ad ac z)"
    "keeps manage_fresh (CreateStaff en b em nm ha)" "keeps manage_fresh (UpdateStaff en b i nm ac)"
    unfolding CreateOutlet_def UpdateOutlet_def CreateStaff_def UpdateStaff_def
    by (intro keeps_intro insert_outlet_fresh update_outlet_fresh insert_user_fresh update_user_fresh; simp)+
  show "keeps manage_fresh (AllocateOutletCode b)"
    by (rule keepsI) (use allocate_frame growsD(1) [OF allocate_code_grows] manage_fresh_frame in blast)
  have "keeps manage_fresh (insert_audit mk)" for mk
    unfolding insert_audit_def by (rule keepsI, drule insert_frame) (auto intro: manage_fresh_frame)
  then show "keeps manage_fresh (InsertAuditLog b uo act et eo ov nv ip ua)"
    unfolding InsertAuditLog_def by (intro keeps_intro)
qed

lemma manage_reads_fresh [keeps_intro]: "reads p \<Longrightarrow> keeps manage_fresh p"
  by (rule keeps_reads [OF stable_manage_fresh])

lemma manage_checks_read [reads_intro]:
  "reads (lockOwnerContext p)" "reads (validateOutletIDs b ids)" "reads (keep_staff_outlet b i was ac)"
  "reads (keep_owner b i old ac)" "reads (staff_only u)" "reads (known_codes ks cs)"
  unfolding lockOwnerContext_def validateOutletIDs_def keep_staff_outlet_def keep_owner_def staff_only_def known_codes_def
    as_internal_def as_unauthorized_def
  by (intro reads_intro)+

lemmas manage_bodies = CreateOutlet_body_def UpdateOutlet_body_def CreateStaff_body_def UpdateStaff_body_def
  ReplaceOutlets_body_def ReplacePermissions_body_def add_outlets_def writeAudit_def as_internal_def or_not_found_def

lemma manage_bodies_fresh:
  "keeps manage_fresh (CreateOutlet_body p c oreq zone)" "keeps manage_fresh (UpdateOutlet_body p c i ac oreq zone)"
  "keeps manage_fresh (CreateStaff_body en p c em nm ha ids)" "keeps manage_fresh (UpdateStaff_body en p c i nm ac)"
  "keeps manage_fresh (ReplaceOutlets_body p c i ids)" "keeps manage_fresh (ReplacePermissions_body en p c i codes)"
  unfolding manage_bodies
  by (intro keeps_tbind keeps_on_err keeps_each keeps_ret manage_writes_fresh
      manage_reads_fresh manage_checks_read management_queries_read)+

lemmas manage_checks_grow [grows_intro] = manage_checks_read [THEN grows_reads]

lemma manage_bodies_grow [grows_intro]:
  "grows (CreateOutlet_body p c oreq zone)" "grows (UpdateOutlet_body p c i ac oreq zone)"
  "grows (CreateStaff_body en p c em nm ha ids)" "grows (UpdateStaff_body en p c i nm ac)"
  "grows (ReplaceOutlets_body p c i ids)" "grows (ReplacePermissions_body en p c i codes)"
  unfolding manage_bodies by (intro grows_intro)+

text \<open>The six transactions.\<close>

lemma manage_body_inv: "keeps manage_fresh body \<Longrightarrow> manage_fresh w \<Longrightarrow> body w = (Inr x, v) \<Longrightarrow> manage_fresh v"
  by (rule keepsD)

interpretation create_outlet: tx_operation Internal "CreateOutlet_body p c req zone" manage_fresh
  for p :: Principal and c :: client and req :: outletInput and zone :: string
  by unfold_locales (auto intro: grows_intro manage_bodies_fresh [THEN manage_body_inv] manage_fresh_frame)

interpretation update_outlet: tx_operation Internal "UpdateOutlet_body p c i ac req zone" manage_fresh
  for p :: Principal and c :: client and i :: i64 and ac :: bool and req :: outletInput and zone :: string
  by unfold_locales (auto intro: grows_intro manage_bodies_fresh [THEN manage_body_inv] manage_fresh_frame)

interpretation create_staff: tx_operation Internal "CreateStaff_body en p c em nm ha ids" manage_fresh
  for en :: primitives and p :: Principal and c :: client and em nm ha :: string and ids :: "i64 list"
  by unfold_locales (auto intro: grows_intro manage_bodies_fresh [THEN manage_body_inv] manage_fresh_frame)

interpretation update_staff: tx_operation Internal "UpdateStaff_body en p c i nm ac" manage_fresh
  for en :: primitives and p :: Principal and c :: client and i :: i64 and nm :: string and ac :: bool
  by unfold_locales (auto intro: grows_intro manage_bodies_fresh [THEN manage_body_inv] manage_fresh_frame)

interpretation replace_outlets: tx_operation Internal "ReplaceOutlets_body p c i ids" manage_fresh
  for p :: Principal and c :: client and i :: i64 and ids :: "i64 list"
  by unfold_locales (auto intro: grows_intro manage_bodies_fresh [THEN manage_body_inv] manage_fresh_frame)

interpretation replace_permissions: tx_operation Internal "ReplacePermissions_body en p c i codes" manage_fresh
  for en :: primitives and p :: Principal and c :: client and i :: i64 and codes :: "string list"
  by unfold_locales (auto intro: grows_intro manage_bodies_fresh [THEN manage_body_inv] manage_fresh_frame)

end
