(* ===== verification/Management_Calls.thy ===== *)
theory Management_Calls
  imports Management_Worlds
begin

text \<open>
  How every call of the handlers of management.go ends: it is refused without a trace or it is one event of manage_step, with
  the identifiers and the values the request names; and the sequences of requests a tenant can see.
\<close>

section \<open>How a call ends\<close>

lemmas manage_refines =
  CreateOutlet_refines UpdateOutlet_refines CreateStaff_refines UpdateStaff_refines ReplaceOutlets_refines

lemma manage_same: "manage_fresh w \<Longrightarrow> same_data w u \<Longrightarrow> manage_fresh u"
  using stable_manage_fresh unfolding stable_def by blast

lemma ManagementHandler_CreateOutlet_ends:
  assumes "manage_fresh w" and "ManagementHandler_CreateOutlet lib who c body w = (res, w')" and no: "\<not> refused w res w'"
  shows "\<exists>req zone x. decodeManagementJSON body = Inr req \<and> validOutlet req \<and> Normalize lib (oi_Timezone req) = Some zone
    \<and> outlet_created (principal_or_zero who) (now w) (data w) x (data w') \<and> (res = Inr x \<or> res = Inl Internal)"
proof -
  let ?p = "principal_or_zero who"
  obtain req where parsed: "decodeManagementJSON body = Inr req"
    and run: "(if \<not> validOutlet req then fail (BadRequest ''INVALID_REQUEST'')
       else case Normalize lib (oi_Timezone req) of
              None \<Rightarrow> fail (BadRequest ''INVALID_TIMEZONE'')
            | Some zone \<Rightarrow> with_tx Internal (CreateOutlet_body ?p c req zone)) w = (res, w')"
    using assms(2) no unfolding ManagementHandler_CreateOutlet_def Let_def by (blast dest!: parsed_or_refused(3))
  have v: "validOutlet req" using run no by (auto split: if_splits)
  obtain zone where z: "Normalize lib (oi_Timezone req) = Some zone"
    using run no v by (cases "Normalize lib (oi_Timezone req)") auto
  have tx: "with_tx Internal (CreateOutlet_body ?p c req zone) w = (res, w')" using run v z by simp
  from invariant_tx_ends [OF manage_same [OF assms(1)] tx, where P = "outlet_created ?p"] CreateOutlet_refines no parsed v z
  show ?thesis by fastforce
qed

lemma ManagementHandler_UpdateOutlet_ends:
  assumes "manage_fresh w" and "ManagementHandler_UpdateOutlet lib who c rawID body w = (res, w')" and no: "\<not> refused w res w'"
  shows "\<exists>i req ac zone x. pathID rawID = Some i \<and> decodeManagementJSON body = Inr req \<and> validOutlet req
    \<and> oi_IsActive req = Some ac \<and> Normalize lib (oi_Timezone req) = Some zone
    \<and> outlet_updated (principal_or_zero who) i ac (now w) (data w) x (data w') \<and> (res = Inr x \<or> res = Inl Internal)"
proof -
  let ?p = "principal_or_zero who"
  obtain i req where parsed: "pathID rawID = Some i" "decodeManagementJSON body = Inr req"
    and run: "(if \<not> validOutlet req then fail (BadRequest ''INVALID_REQUEST'')
       else case oi_IsActive req of
              None \<Rightarrow> fail (BadRequest ''INVALID_REQUEST'')
            | Some isActive \<Rightarrow>
                (case Normalize lib (oi_Timezone req) of
                   None \<Rightarrow> fail (BadRequest ''INVALID_TIMEZONE'')
                 | Some zone \<Rightarrow> with_tx Internal (UpdateOutlet_body ?p c i isActive req zone))) w = (res, w')"
    using assms(2) no unfolding ManagementHandler_UpdateOutlet_def Let_def by (blast dest!: parsed_or_refused(2,3))
  have v: "validOutlet req" using run no by (auto split: if_splits)
  obtain ac where a: "oi_IsActive req = Some ac" using run no v by (cases "oi_IsActive req") auto
  obtain zone where z: "Normalize lib (oi_Timezone req) = Some zone"
    using run no v a by (cases "Normalize lib (oi_Timezone req)") auto
  have tx: "with_tx Internal (UpdateOutlet_body ?p c i ac req zone) w = (res, w')" using run v a z by simp
  from invariant_tx_ends [OF manage_same [OF assms(1)] tx, where P = "outlet_updated ?p i ac"] UpdateOutlet_refines no parsed v a z
  show ?thesis by fastforce
qed

lemma ManagementHandler_CreateStaff_ends:
  assumes "manage_fresh w" and "ManagementHandler_CreateStaff lib en who c body w = (res, w')" and no: "\<not> refused w res w'"
  shows "\<exists>req email name hash x. decodeManagementJSON body = Inr req \<and> staff_input lib req = Some (email, name)
    \<and> HashPassword en (ks_Password req) = Inr hash
    \<and> account_created (principal_or_zero who) email name (ks_OutletIDs req) (now w) (data w) x (data w')
    \<and> (res = Inr x \<or> res = Inl Internal)"
proof -
  let ?p = "principal_or_zero who"
  obtain req where parsed: "decodeManagementJSON body = Inr req"
    and run: "(case staff_input lib req of
         None \<Rightarrow> fail (BadRequest ''INVALID_REQUEST'')
       | Some (email, fullName) \<Rightarrow>
           (case HashPassword en (ks_Password req) of
              Inl _ \<Rightarrow> fail (BadRequest ''INVALID_PASSWORD'')
            | Inr hash \<Rightarrow> with_tx Internal (CreateStaff_body en ?p c email fullName hash (ks_OutletIDs req)))) w = (res, w')"
    using assms(2) no unfolding ManagementHandler_CreateStaff_def Let_def by (blast dest!: parsed_or_refused(3))
  obtain email name where v: "staff_input lib req = Some (email, name)"
    using run no by (cases "staff_input lib req") auto
  obtain hash where h: "HashPassword en (ks_Password req) = Inr hash"
    using run no v by (cases "HashPassword en (ks_Password req)") auto
  have tx: "with_tx Internal (CreateStaff_body en ?p c email name hash (ks_OutletIDs req)) w = (res, w')" using run v h by simp
  from invariant_tx_ends [OF manage_same [OF assms(1)] tx, where P = "account_created ?p email name (ks_OutletIDs req)"]
    CreateStaff_refines no parsed v h
  show ?thesis by fastforce
qed

lemma ManagementHandler_UpdateStaff_ends:
  assumes "manage_fresh w" and "ManagementHandler_UpdateStaff en who c rawID body w = (res, w')" and no: "\<not> refused w res w'"
  shows "\<exists>i req ac x. pathID rawID = Some i \<and> decodeManagementJSON body = Inr req \<and> us_IsActive req = Some ac
    \<and> account_updated (principal_or_zero who) i (trim_space (us_FullName req)) ac (now w) (data w) x (data w')
    \<and> (res = Inr x \<or> res = Inl Internal)"
proof -
  let ?p = "principal_or_zero who"
  obtain i req where parsed: "pathID rawID = Some i" "decodeManagementJSON body = Inr req"
    and run: "(if trim_space (us_FullName req) = [] \<or> rune_count (trim_space (us_FullName req)) > 200 then fail (BadRequest ''INVALID_REQUEST'')
       else case us_IsActive req of
              None \<Rightarrow> fail (BadRequest ''INVALID_REQUEST'')
            | Some isActive \<Rightarrow>
                if i = pc_UserID ?p \<and> \<not> isActive then fail (BadRequest ''SELF_DEACTIVATION'')
                else with_tx Internal (UpdateStaff_body en ?p c i (trim_space (us_FullName req)) isActive)) w = (res, w')"
    using assms(2) no unfolding ManagementHandler_UpdateStaff_def Let_def by (blast dest!: parsed_or_refused(2,3))
  have v: "\<not> (trim_space (us_FullName req) = [] \<or> rune_count (trim_space (us_FullName req)) > 200)"
    using run no by (auto split: if_splits)
  obtain ac where a: "us_IsActive req = Some ac" using run no v by (cases "us_IsActive req") auto
  have s: "\<not> (i = pc_UserID ?p \<and> \<not> ac)" using run no v a by (auto split: if_splits)
  have tx: "with_tx Internal (UpdateStaff_body en ?p c i (trim_space (us_FullName req)) ac) w = (res, w')"
    using run v a s by (simp split: if_splits)
  from invariant_tx_ends [OF manage_same [OF assms(1)] tx, where P = "account_updated ?p i (trim_space (us_FullName req)) ac"]
    UpdateStaff_refines [OF _ s] no parsed a
  show ?thesis by fastforce
qed

lemma ManagementHandler_ReplaceStaffOutlets_ends:
  assumes "manage_fresh w" and "ManagementHandler_ReplaceStaffOutlets who c rawID body w = (res, w')"
    and no: "\<not> refused w res w'"
  shows "\<exists>i req x. pathID rawID = Some i \<and> decodeManagementJSON body = Inr req
    \<and> outlets_replaced (principal_or_zero who) i (uniqueIDs (as_OutletIDs req)) (now w) (data w) x (data w')
    \<and> length (uniqueIDs (as_OutletIDs req)) = length (as_OutletIDs req) \<and> (res = Inr x \<or> res = Inl Internal)"
proof -
  let ?p = "principal_or_zero who"
  obtain i where i: "pathID rawID = Some i" and run: "(if i = pc_UserID ?p then fail (BadRequest ''SELF_ESCALATION'')
       else with_body ''INVALID_REQUEST'' body (\<lambda>req.
         if length (as_OutletIDs req) = 0 then fail (BadRequest ''INVALID_REQUEST'')
         else if length (uniqueIDs (as_OutletIDs req)) \<noteq> length (as_OutletIDs req) then fail (BadRequest ''INVALID_OUTLETS'')
              else with_tx Internal (ReplaceOutlets_body ?p c i (uniqueIDs (as_OutletIDs req))))) w = (res, w')"
    using assms(2) no unfolding ManagementHandler_ReplaceStaffOutlets_def Let_def by (blast dest!: parsed_or_refused(2))
  have s: "i \<noteq> pc_UserID ?p" using run no by (auto split: if_splits)
  obtain req where r: "decodeManagementJSON body = Inr req" and run': "(if length (as_OutletIDs req) = 0 then fail (BadRequest ''INVALID_REQUEST'')
         else if length (uniqueIDs (as_OutletIDs req)) \<noteq> length (as_OutletIDs req) then fail (BadRequest ''INVALID_OUTLETS'')
              else with_tx Internal (ReplaceOutlets_body ?p c i (uniqueIDs (as_OutletIDs req)))) w = (res, w')"
    using run [unfolded if_not_P [OF s]] no by (blast dest!: parsed_or_refused(3))
  have u: "length (uniqueIDs (as_OutletIDs req)) = length (as_OutletIDs req)" using run' no by (auto split: if_splits)
  have tx: "with_tx Internal (ReplaceOutlets_body ?p c i (uniqueIDs (as_OutletIDs req))) w = (res, w')"
    using run' no u by (auto split: if_splits)
  from invariant_tx_ends [OF manage_same [OF assms(1)] tx, where P = "outlets_replaced ?p i (uniqueIDs (as_OutletIDs req))"]
    ReplaceOutlets_refines [OF _ s] no i r u
  show ?thesis by fastforce
qed

lemma unique_strings_distinct: "distinct (uniqueStrings xs)"
  unfolding uniqueStrings_def by (simp add: unique_acc_distinct)

lemma ManagementHandler_ReplaceStaffPermissions_ends:
  assumes "manage_fresh w" and "ManagementHandler_ReplaceStaffPermissions en who c rawID body w = (res, w')"
    and no: "\<not> refused w res w'"
  shows "\<exists>i req x. pathID rawID = Some i \<and> decodeManagementJSON body = Inr req
    \<and> permissions_replaced (principal_or_zero who) i (uniqueStrings (pg_Permissions req)) (now w) (data w) x (data w')
    \<and> (res = Inr x \<or> res = Inl Internal)"
proof -
  let ?p = "principal_or_zero who"
  obtain i where i: "pathID rawID = Some i" and run: "(if i = pc_UserID ?p then fail (BadRequest ''SELF_ESCALATION'')
       else with_body ''INVALID_REQUEST'' body (\<lambda>req.
         if length (uniqueStrings (pg_Permissions req)) \<noteq> length (pg_Permissions req) then fail (BadRequest ''INVALID_PERMISSIONS'')
         else with_tx Internal (ReplacePermissions_body en ?p c i (uniqueStrings (pg_Permissions req))))) w = (res, w')"
    using assms(2) no unfolding ManagementHandler_ReplaceStaffPermissions_def Let_def by (blast dest!: parsed_or_refused(2))
  have s: "i \<noteq> pc_UserID ?p" using run no by (auto split: if_splits)
  obtain req where r: "decodeManagementJSON body = Inr req"
    and run': "(if length (uniqueStrings (pg_Permissions req)) \<noteq> length (pg_Permissions req) then fail (BadRequest ''INVALID_PERMISSIONS'')
         else with_tx Internal (ReplacePermissions_body en ?p c i (uniqueStrings (pg_Permissions req)))) w = (res, w')"
    using run [unfolded if_not_P [OF s]] no by (blast dest!: parsed_or_refused(3))
  have tx: "with_tx Internal (ReplacePermissions_body en ?p c i (uniqueStrings (pg_Permissions req))) w = (res, w')"
    using run' no by (auto split: if_splits)
  from invariant_tx_ends [OF manage_same [OF assms(1)] tx, where P = "permissions_replaced ?p i (uniqueStrings (pg_Permissions req))"]
    ReplacePermissions_refines [OF s unique_strings_distinct] no i r
  show ?thesis by fastforce
qed

section \<open>Calls and requests\<close>

inductive manage_call :: "libraries \<Rightarrow> primitives \<Rightarrow> Principal option \<Rightarrow> world \<Rightarrow> world \<Rightarrow> bool" for lib en who where
  outlet_create: "ManagementHandler_CreateOutlet lib who c ob w = (r1, w') \<Longrightarrow> manage_call lib en who w w'"
| outlet_update: "ManagementHandler_UpdateOutlet lib who c raw ob w = (r1, w') \<Longrightarrow> manage_call lib en who w w'"
| staff_create: "ManagementHandler_CreateStaff lib en who c kb w = (r2, w') \<Longrightarrow> manage_call lib en who w w'"
| staff_update: "ManagementHandler_UpdateStaff en who c raw ub w = (r2, w') \<Longrightarrow> manage_call lib en who w w'"
| staff_outlets: "ManagementHandler_ReplaceStaffOutlets who c raw ab w = (r3, w') \<Longrightarrow> manage_call lib en who w w'"
| staff_permissions: "ManagementHandler_ReplaceStaffPermissions en who c raw pb w = (r4, w') \<Longrightarrow> manage_call lib en who w w'"

text \<open>The event of a call, with the tenant and the account of its principal.\<close>

definition manage_event_of :: "Principal option \<Rightarrow> time \<Rightarrow> db \<Rightarrow> manage_event \<Rightarrow> db \<Rightarrow> bool" where
  "manage_event_of who n = manage_step (pc_BusinessID (principal_or_zero who)) (pc_UserID (principal_or_zero who)) n"

lemma manage_outcome_steps:
  "outlet_created (principal_or_zero who) n d x1 d' \<Longrightarrow> \<exists>e. manage_event_of who n d e d'"
  "outlet_updated (principal_or_zero who) i ac n d x1 d' \<Longrightarrow> \<exists>e. manage_event_of who n d e d'"
  "account_created (principal_or_zero who) em nm ids n d x2 d' \<Longrightarrow> \<exists>e. manage_event_of who n d e d'"
  "account_updated (principal_or_zero who) i nm ac n d x2 d' \<Longrightarrow> \<exists>e. manage_event_of who n d e d'"
  "outlets_replaced (principal_or_zero who) i ids n d x3 d' \<Longrightarrow> \<exists>e. manage_event_of who n d e d'"
  "permissions_replaced (principal_or_zero who) i cs n d x4 d' \<Longrightarrow> \<exists>e. manage_event_of who n d e d'"
  unfolding outlet_created_def outlet_updated_def account_created_def account_updated_def outlets_replaced_def
    permissions_replaced_def manage_event_of_def by blast+

text \<open>A call does nothing or one event.\<close>

lemma manage_call_steps:
  assumes "manage_call lib en who w w'" and "manage_fresh w"
  shows "data w' = data w \<or> (\<exists>e. manage_event_of who (now w) (data w) e (data w'))"
  using assms(1)
proof cases
  case outlet_create
  show ?thesis
    by (rule refused_orI) (blast dest: ManagementHandler_CreateOutlet_ends [OF assms(2) outlet_create] manage_outcome_steps(1))
next
  case outlet_update
  show ?thesis
    by (rule refused_orI) (blast dest: ManagementHandler_UpdateOutlet_ends [OF assms(2) outlet_update] manage_outcome_steps(2))
next
  case staff_create
  show ?thesis
    by (rule refused_orI) (blast dest: ManagementHandler_CreateStaff_ends [OF assms(2) staff_create] manage_outcome_steps(3))
next
  case staff_update
  show ?thesis
    by (rule refused_orI) (blast dest: ManagementHandler_UpdateStaff_ends [OF assms(2) staff_update] manage_outcome_steps(4))
next
  case staff_outlets
  show ?thesis
    by (rule refused_orI) (blast dest: ManagementHandler_ReplaceStaffOutlets_ends [OF assms(2) staff_outlets] manage_outcome_steps(5))
next
  case staff_permissions
  show ?thesis
    by (rule refused_orI)
      (blast dest: ManagementHandler_ReplaceStaffPermissions_ends [OF assms(2) staff_permissions] manage_outcome_steps(6))
qed

lemma manage_transactions_keep [keeps_intro]:
  "keeps manage_fresh (with_tx Internal (CreateOutlet_body p c oreq zone))"
  "keeps manage_fresh (with_tx Internal (UpdateOutlet_body p c i ac oreq zone))"
  "keeps manage_fresh (with_tx Internal (CreateStaff_body en p c em nm ha ids))"
  "keeps manage_fresh (with_tx Internal (UpdateStaff_body en p c i nm ac))"
  "keeps manage_fresh (with_tx Internal (ReplaceOutlets_body p c i ids))"
  "keeps manage_fresh (with_tx Internal (ReplacePermissions_body en p c i codes))"
  by (rule keepsI, erule (1) create_outlet.tx_preserves update_outlet.tx_preserves create_staff.tx_preserves
      update_staff.tx_preserves replace_outlets.tx_preserves replace_permissions.tx_preserves)+

lemma manage_handlers_keep:
  "keeps manage_fresh (ManagementHandler_CreateOutlet lib who c ob)"
  "keeps manage_fresh (ManagementHandler_UpdateOutlet lib who c raw ob)"
  "keeps manage_fresh (ManagementHandler_CreateStaff lib en who c kb)"
  "keeps manage_fresh (ManagementHandler_UpdateStaff en who c raw ub)"
  "keeps manage_fresh (ManagementHandler_ReplaceStaffOutlets who c raw ab)"
  "keeps manage_fresh (ManagementHandler_ReplaceStaffPermissions en who c raw pb)"
  unfolding ManagementHandler_CreateOutlet_def ManagementHandler_UpdateOutlet_def ManagementHandler_CreateStaff_def
    ManagementHandler_UpdateStaff_def ManagementHandler_ReplaceStaffOutlets_def ManagementHandler_ReplaceStaffPermissions_def Let_def
  by (intro keeps_intro)+

lemma manage_call_keeps: "manage_call lib en who w w' \<Longrightarrow> manage_fresh w \<Longrightarrow> manage_fresh w'"
  by (induction rule: manage_call.induct) (auto intro: manage_handlers_keep [THEN keepsD])

text \<open>
  The rest of what is modelled leaves these tables alone. Owner registration and the platform administration, which are not
  modelled and not covered here, also write businesses and accounts.
\<close>

definition management_untouched :: "db \<Rightarrow> db \<Rightarrow> bool" where
  "management_untouched d d' \<longleftrightarrow> businesses d' = businesses d \<and> outlets d' = outlets d \<and> users d' = users d
     \<and> user_outlets d' = user_outlets d \<and> user_permissions d' = user_permissions d"

inductive manage_request :: "libraries \<Rightarrow> primitives \<Rightarrow> world \<Rightarrow> world \<Rightarrow> bool" for lib en where
  elsewhere: "management_untouched (data w) (data w') \<Longrightarrow> manage_fresh w' \<Longrightarrow> manage_request lib en w w'"
| call: "manage_call lib en who w w' \<Longrightarrow> manage_request lib en w w'"

lemma manage_request_fresh: "manage_request lib en w w' \<Longrightarrow> manage_fresh w \<Longrightarrow> manage_fresh w'"
  by (erule manage_request.cases) (auto intro: manage_call_keeps)

lemma manage_requests_fresh: "(manage_request lib en)\<^sup>*\<^sup>* w w' \<Longrightarrow> manage_fresh w \<Longrightarrow> manage_fresh w'"
  by (induction rule: rtranclp_induct) (auto intro: manage_request_fresh)

section \<open>What an event leaves\<close>

definition active_admin :: "db \<Rightarrow> i64 \<Rightarrow> i64 \<Rightarrow> bool" where
  "active_admin d b i \<longleftrightarrow> (\<exists>x \<in> set (users d). staff_is b i x \<and> u_is_active x \<and> u_role x = ''ADMIN'')"

text \<open>The caller is still an active administrator afterwards, and the administrators of another tenant are who they were.\<close>

lemma event_keeps_caller:
  assumes "manage_step b u n d e d'"
  shows "active_admin d' b u"
  using assms
proof cases
  case (account_changed x ac y nm a)
  obtain z where z: "z \<in> set (users d)" "staff_is b u z" "u_is_active z" "u_role z = ''ADMIN''"
    using account_changed(3) unfolding owner_acts_def by blast
  show ?thesis
  proof (cases "z = x")
    case True
    then have "ac" "y \<in> set (users d')" using account_changed z(2) by (simp_all add: set_replace_row staff_is_def)
    then show ?thesis using z account_changed(7) unfolding active_admin_def True [symmetric]
      by (intro bexI [of _ y]) (simp_all add: staff_is_def True)
  next
    case False
    then have "z \<in> set (users d')" using z(1) account_changed by (simp add: set_replace_row)
    with z show ?thesis unfolding active_admin_def by blast
  qed
qed (auto simp: owner_acts_def active_admin_def)

lemma event_keeps_others:
  assumes "manage_step b u n d e d'" and "active_admin d b' i" and "b' \<noteq> b"
  shows "active_admin d' b' i"
  using assms(1)
proof cases
  case (account_changed x ac y nm a)
  obtain z where z: "z \<in> set (users d)" "staff_is b' i z" "u_is_active z" "u_role z = ''ADMIN''"
    using assms(2) unfolding active_admin_def by blast
  then have "z \<noteq> x" using account_changed(5) assms(3) by (auto simp: staff_is_def)
  then have "z \<in> set (users d')" using z(1) account_changed by (simp add: set_replace_row)
  with z show ?thesis unfolding active_admin_def by blast
qed (use assms(2) in \<open>auto simp: active_admin_def\<close>)

lemma request_keeps_admin:
  assumes "manage_request lib en w w'" and "manage_fresh w" and "active_admin (data w) b i"
  shows "\<exists>j. active_admin (data w') b j"
  using assms(1)
proof cases
  case elsewhere
  then show ?thesis using assms(3) by (auto simp: management_untouched_def active_admin_def)
next
  case (call who)
  from manage_call_steps [OF call assms(2)] show ?thesis
    using event_keeps_caller event_keeps_others assms(3) unfolding manage_event_of_def by metis
qed

text \<open>Who works at an active outlet still does, as far as outlets and assignments go.\<close>

definition posted :: "db \<Rightarrow> i64 \<Rightarrow> i64 \<Rightarrow> bool" where
  "posted d b i \<longleftrightarrow> (\<exists>l. assigned d b i l \<and> outlet_active d b l)"

definition at_work :: "db \<Rightarrow> i64 \<Rightarrow> i64 \<Rightarrow> bool" where
  "at_work d b i \<longleftrightarrow> (\<exists>x \<in> set (users d). staff_is b i x \<and> u_is_active x \<and> u_role x = ''LAUNDRY_STAFF'')"

lemma replaced_outlet:
  assumes "r \<in> set (outlets d)" and "outlets d' = replace_row r r' (outlets d)" and "outlet_active d b l"
    and "\<not> (out_business_id r = b \<and> out_id r = l) \<or> out_is_active r'" and "out_id r' = out_id r" "out_business_id r' = out_business_id r"
  shows "outlet_active d' b l"
proof -
  obtain x where x: "x \<in> set (outlets d)" "out_id x = l" "out_business_id x = b" "out_is_active x"
    using assms(3) by (auto simp: outlet_active_def list_ex_iff)
  show ?thesis
  proof (cases "x = r")
    case True
    then have "r' \<in> set (outlets d')" using assms(1,2) by (simp add: set_replace_row)
    then show ?thesis using True x assms(4-6) unfolding outlet_active_def list_ex_iff by blast
  next
    case False
    then have "x \<in> set (outlets d')" using assms(1,2) x(1) by (simp add: set_replace_row)
    then show ?thesis using x unfolding outlet_active_def list_ex_iff by blast
  qed
qed

lemma event_keeps_posts:
  assumes "manage_step b u n d e d'" and "at_work d b' i" and "posted d b' i" and "distinct (map out_id (outlets d))"
  shows "posted d' b' i"
proof -
  obtain l where l: "assigned d b' i l" "outlet_active d b' l" using assms(3) unfolding posted_def by blast
  from assms(1) show ?thesis
  proof cases
    case (outlet_added r rs k cs a)
    then have "rs = outlets d @ [r]" by (simp add: outlets_tbl.changes_def)
    then have "outlet_active d' b' l" "assigned d' b' i l" using l outlet_added(2) by (auto simp: outlet_active_def assigned_def)
    then show ?thesis unfolding posted_def by blast
  next
    case (outlet_changed o1 o2 rs a)
    have ch: "rs = replace_row o1 o2 (outlets d)" "o1 \<in> set (outlets d)" "out_id o2 = out_id o1"
        "out_business_id o2 = out_business_id o1"
      using outlet_changed(4) by (simp_all add: outlets_tbl.changes_def)
    have as: "assigned d' b' i k = assigned d b' i k" for k unfolding outlet_changed(2) assigned_def by simp
    have keep: "outlet_active d' b' k" if "outlet_active d b' k" "\<not> (out_business_id o1 = b' \<and> out_id o1 = k) \<or> out_is_active o2" for k
      by (rule replaced_outlet [OF ch(2) _ that ch(3,4)]) (simp add: outlet_changed(2) ch(1))
    show ?thesis
    proof (cases "out_business_id o1 = b' \<and> out_id o1 = l \<and> \<not> out_is_active o2")
      case False
      then show ?thesis using keep [OF l(2)] l(1) as unfolding posted_def by blast
    next
      case True
      have "out_is_active o1"
      proof -
        obtain y where y: "y \<in> set (outlets d)" "out_id y = l" "out_is_active y"
          using l(2) by (auto simp: outlet_active_def list_ex_iff)
        with True have "y = o1" using assms(4) ch(2) unfolding distinct_map inj_on_def by metis
        with y show ?thesis by simp
      qed
      moreover obtain x where x: "x \<in> set (users d)" "staff_is b' i x" "u_is_active x" "u_role x = ''LAUNDRY_STAFF''"
        using assms(2) unfolding at_work_def by blast
      moreover have eq: "b = b'" "out_id o1 = l" using True outlet_changed(5) by simp_all
      ultimately have "\<not> only_outlet d b' l x" using outlet_changed(8) True by blast
      moreover have "u_business_id x = b'" "u_id x = i" using x(2) by (simp_all add: staff_is_def)
      ultimately obtain k where "assigned d b' i k" "k \<noteq> l" "outlet_active d b' k"
        using x(3,4) l(1) by (auto simp: only_outlet_def assigned_def list_ex_iff)
      then show ?thesis using keep as True unfolding posted_def by blast
    qed
  next
    case (account_added x ids a)
    then have "outlet_active d' b' l" "assigned d' b' i l" using l by (auto simp: outlet_active_def assigned_def)
    then show ?thesis unfolding posted_def by blast
  next
    case (account_changed x ac y nm a)
    then have "outlet_active d' b' l" "assigned d' b' i l" using l by (auto simp: outlet_active_def assigned_def)
    then show ?thesis unfolding posted_def by blast
  next
    case (outlets_given x ids a)
    have ac: "outlet_active d' b' k = outlet_active d b' k" for k unfolding outlets_given(2) outlet_active_def by simp
    show ?thesis
    proof (cases "b' = b \<and> i = u_id x")
      case True
      obtain k where k: "k \<in> set ids" "outlet_active d b k"
        using outlets_given(8) unfolding usable_outlets_def by (cases ids) auto
      then have "assigned d' b' i k"
        unfolding outlets_given(2) assigned_def assignments_def list_ex_iff using True
        by (intro bexI [of _ "\<lparr>uo_business_id = b, uo_user_id = u_id x, uo_outlet_id = k, uo_assigned_at = n\<rparr>"]) simp_all
      with k ac True show ?thesis unfolding posted_def by blast
    next
      case False
      obtain y where y: "y \<in> set (user_outlets d)" "uo_business_id y = b'" "uo_user_id y = i" "uo_outlet_id y = l"
        using l(1) unfolding assigned_def list_ex_iff by blast
      then have "y \<in> set (user_outlets d')" using False unfolding outlets_given(2) by simp
      then have "assigned d' b' i l" using y unfolding assigned_def list_ex_iff by blast
      with l ac show ?thesis unfolding posted_def by blast
    qed
  next
    case (permissions_given x codes a)
    then have "outlet_active d' b' l" "assigned d' b' i l" using l by (auto simp: outlet_active_def assigned_def)
    then show ?thesis unfolding posted_def by blast
  qed
qed

end
