(* ===== verification/Management_Properties.thy ===== *)
theory Management_Properties
  imports "HOL-Library.Multiset" Management_Calls Master_Sample
begin

text \<open>
  What the management of a tenant promises: only an active administrator changes anything, never in another tenant and never
  what concerns themselves; a tenant keeps an administrator; an outlet is not taken from under its staff; and what is
  granted, assigned or withdrawn is what the next bearer token gets.
\<close>

section \<open>What an event leaves alone\<close>

lemma filter_foreign_row: "r \<in> set rs \<Longrightarrow> \<not> q r \<Longrightarrow> \<not> q r' \<Longrightarrow> filter q (replace_row r r' rs) = filter q rs"
  by (simp add: filter_replace_row replace_row_absent)

text \<open>The rows of other tenants in the five tables, and what belongs to the account itself.\<close>

definition others_kept :: "i64 \<Rightarrow> db \<Rightarrow> db \<Rightarrow> bool" where
  "others_kept b d d' \<longleftrightarrow>
     filter (\<lambda>r. out_business_id r \<noteq> b) (outlets d') = filter (\<lambda>r. out_business_id r \<noteq> b) (outlets d)
     \<and> filter (\<lambda>r. u_business_id r \<noteq> b) (users d') = filter (\<lambda>r. u_business_id r \<noteq> b) (users d)
     \<and> filter (\<lambda>r. uo_business_id r \<noteq> b) (user_outlets d') = filter (\<lambda>r. uo_business_id r \<noteq> b) (user_outlets d)
     \<and> filter (\<lambda>r. up_business_id r \<noteq> b) (user_permissions d') = filter (\<lambda>r. up_business_id r \<noteq> b) (user_permissions d)
     \<and> filter (\<lambda>r. bc_business_id r \<noteq> b) (outlet_counters d') = filter (\<lambda>r. bc_business_id r \<noteq> b) (outlet_counters d)"

definition own_kept :: "i64 \<Rightarrow> i64 \<Rightarrow> db \<Rightarrow> db \<Rightarrow> bool" where
  "own_kept b u d d' \<longleftrightarrow>
     filter (\<lambda>r. uo_business_id r = b \<and> uo_user_id r = u) (user_outlets d')
       = filter (\<lambda>r. uo_business_id r = b \<and> uo_user_id r = u) (user_outlets d)
     \<and> filter (\<lambda>r. up_business_id r = b \<and> up_user_id r = u) (user_permissions d')
       = filter (\<lambda>r. up_business_id r = b \<and> up_user_id r = u) (user_permissions d)"

lemma filter_grants_none:
  "(\<And>pc. \<not> q \<lparr>up_business_id = b, up_user_id = u, up_code = pc, up_granted_by = g, up_granted_at = n\<rparr>) \<Longrightarrow>
     filter q (grants b u g n codes) = []"
  by (simp add: grants_def filter_empty_conv)

lemma filter_assignments_none:
  "(\<And>l. \<not> q \<lparr>uo_business_id = b, uo_user_id = u, uo_outlet_id = l, uo_assigned_at = n\<rparr>) \<Longrightarrow>
     filter q (assignments b u n ids) = []"
  by (simp add: assignments_def filter_empty_conv)

lemma filter_kept_out: "(\<And>r. q r \<Longrightarrow> p r) \<Longrightarrow> filter (\<lambda>r. p r \<and> q r) rs = filter q rs"
  by (rule filter_cong) auto

lemma event_keeps_others_rows: "manage_step b u n d e d' \<Longrightarrow> others_kept b d d'"
  by (erule manage_step.cases)
    (auto simp: others_kept_def outlets_tbl.changes_def counted_def filter_foreign_row filter_assignments_none filter_grants_none
      intro!: filter_kept_out)

lemma event_keeps_own:
  assumes "manage_step b u n d e d'"
  shows "own_kept b u d d'"
  using assms
proof cases
  case (account_added x ids a)
  obtain z where "z \<in> set (users d)" "u_id z = u" using account_added(3) by (auto simp: owner_acts_def staff_is_def)
  then have "u_id x \<noteq> u" using account_added(4) by (metis imageI)
  then show ?thesis using account_added by (simp add: own_kept_def filter_assignments_none)
qed (auto simp: own_kept_def filter_assignments_none filter_grants_none intro!: filter_kept_out)

lemma event_audits:
  assumes "manage_step b u n d e d'"
  shows "\<exists>a. audit_logs d' = audit_logs d @ [a] \<and> au_business_id a = b"
  using assms by cases (auto simp: master_audit_def)

lemma event_owner: "manage_step b u n d e d' \<Longrightarrow> owner_acts d b u"
  by (erule manage_step.cases) simp_all

definition ledger_untouched :: "db \<Rightarrow> db \<Rightarrow> bool" where
  "ledger_untouched d d' \<longleftrightarrow> d' = d\<lparr>outlet_counters := outlet_counters d', outlets := outlets d', users := users d',
     user_outlets := user_outlets d', user_permissions := user_permissions d', audit_logs := audit_logs d'\<rparr>"

lemma event_elsewhere: "manage_step b u n d e d' \<Longrightarrow> ledger_untouched d d'"
  by (erule manage_step.cases) (simp_all add: ledger_untouched_def)

section \<open>A run\<close>

text \<open>
  The sample laundry with a second outlet, a catalog of two permissions and the session of its clerk. The administrator gives the
  clerk both outlets and closes the first; grants a permission; and, in another run, deactivates the clerk, closes the outlet the
  clerk was assigned to, and activates the clerk again.
\<close>

definition staffed_db :: db where
  "staffed_db = sample_db\<lparr>
     outlets := outlets sample_db @ [\<lparr>out_id = 2, out_business_id = 1, out_code = ''002'', out_name = ''Annex'', out_phone = None,
       out_address = None, out_is_active = True, out_created_at = 0, out_updated_at = 0, out_timezone = ''Asia/Jakarta'',
       out_legacy_code = None\<rparr>],
     outlet_counters := [\<lparr>bc_business_id = 1, bc_last_allocated = 2\<rparr>],
     permissions := [\<lparr>pm_code = ''ORDER_CREATE'', pm_description = ''Create orders'', pm_created_at = 0\<rparr>,
       \<lparr>pm_code = ''PAYMENT_RECORD'', pm_description = ''Record payments'', pm_created_at = 0\<rparr>],
     session_families := [sample_family], refresh_tokens := [sample_token 2 None]\<rparr>"

definition staffed_world :: world where
  "staffed_world = sample_world\<lparr>data := staffed_db, seqs := (\<lambda>_. 10)\<rparr>"

lemma staffed_fresh: "manage_fresh staffed_world"
  by (simp add: staffed_world_def staffed_db_def sample_defs manage_fresh_def outlets_tbl.fresh_def users_tbl.fresh_def)

definition sample_lib :: libraries where
  "sample_lib = \<lparr>lb_to_lower = (\<lambda>s. s), lb_parse_address = (\<lambda>s. if CHR ''@'' \<in> set s then Some s else None),
     lb_has_zone = (\<lambda>z. z \<in> {''Asia/Jakarta'', ''UTC''})\<rparr>"

definition both_outlets :: "i64 list \<Rightarrow> outletAssignmentInput body" where
  "both_outlets ids = (Inr \<lparr>as_OutletIDs = ids\<rparr>, Inl EndOfBody)"

definition some_codes :: "permissionGrantInput body" where
  "some_codes = (Inr \<lparr>pg_Permissions = ['' ORDER_CREATE '']\<rparr>, Inl EndOfBody)"

definition close_main :: "outletInput body" where
  "close_main = (Inr \<lparr>oi_Timezone = None, oi_Name = ''Main'', oi_Phone = None, oi_Address = None, oi_IsActive = Some False\<rparr>, Inl EndOfBody)"

definition turn_clerk :: "bool \<Rightarrow> updateStaffInput body" where
  "turn_clerk active = (Inr \<lparr>us_FullName = ''User'', us_IsActive = Some active\<rparr>, Inl EndOfBody)"

definition world_posted :: world where
  "world_posted = snd (ManagementHandler_ReplaceStaffOutlets (Some boss) sample_client ''2'' (both_outlets [2, 1]) staffed_world)"

definition world_closed :: world where
  "world_closed = snd (ManagementHandler_UpdateOutlet sample_lib (Some boss) sample_client ''1'' close_main world_posted)"

definition world_granted :: world where
  "world_granted = snd (ManagementHandler_ReplaceStaffPermissions sample_en (Some boss) sample_client ''2'' some_codes staffed_world)"

definition world_off :: world where
  "world_off = snd (ManagementHandler_UpdateStaff sample_en (Some boss) sample_client ''2'' (turn_clerk False) staffed_world)"

lemma manage_calls:
  "manage_call sample_lib sample_en (Some boss) staffed_world world_posted"
  "manage_call sample_lib sample_en (Some boss) world_posted world_closed"
  "manage_call sample_lib sample_en (Some boss) staffed_world world_granted"
  "manage_call sample_lib sample_en (Some boss) staffed_world world_off"
  unfolding world_posted_def world_closed_def world_granted_def world_off_def
  by (blast intro: manage_call.intros prod.collapse [symmetric])+

lemma posted_fresh: "manage_fresh world_posted"
  by (rule manage_call_keeps [OF manage_calls(1) staffed_fresh])

lemma posted_run: "ManagementHandler_ReplaceStaffOutlets (Some boss) sample_client ''2'' (both_outlets [2, 1]) staffed_world
    = (Inr (2, [2, 1]), world_posted)"
proof -
  have "fst (ManagementHandler_ReplaceStaffOutlets (Some boss) sample_client ''2'' (both_outlets [2, 1]) staffed_world) = Inr (2, [2, 1])"
    by code_simp
  then show ?thesis unfolding world_posted_def by (metis prod.collapse)
qed

lemma posted_tables: "map uo_outlet_id (user_outlets (data world_posted)) = [2, 1]"
  by code_simp

lemma boss_zero: "principal_or_zero (Some boss) = boss" "pc_BusinessID boss = 1" "pc_UserID boss = 1"
  by (simp_all add: principal_or_zero_def boss_def)

section \<open>Who manages\<close>

lemma call_event:
  assumes "manage_call lib en who w w'" and "manage_fresh w" and "data w' \<noteq> data w" and "p = principal_or_zero who"
  shows "\<exists>e. manage_step (pc_BusinessID p) (pc_UserID p) (now w) (data w) e (data w')"
  using manage_call_steps [OF assms(1,2)] assms(3,4) unfolding manage_event_of_def by blast

text \<open>C35: Whoever calls a handler of management.go and whatever the request says: if data changes, the caller is an active
  administrator of an active tenant at that moment and afterwards, every change is in that tenant, nothing but its outlets,
  accounts, assignments, permissions and the counter of its outlet codes changes, the outlets and permissions assigned to the
  caller stay what they were, and one row is added to the audit log, of that tenant.\<close>

theorem managed_by_owner:
  assumes "manage_fresh w" and "manage_call lib en who w w'" and "data w' \<noteq> data w" and "p = principal_or_zero who"
  shows "business_active (data w) (pc_BusinessID p)
    \<and> active_admin (data w) (pc_BusinessID p) (pc_UserID p) \<and> active_admin (data w') (pc_BusinessID p) (pc_UserID p)
    \<and> others_kept (pc_BusinessID p) (data w) (data w') \<and> own_kept (pc_BusinessID p) (pc_UserID p) (data w) (data w')
    \<and> ledger_untouched (data w) (data w')
    \<and> (\<exists>a. audit_logs (data w') = audit_logs (data w) @ [a] \<and> au_business_id a = pc_BusinessID p)"
proof -
  obtain e where e: "manage_step (pc_BusinessID p) (pc_UserID p) (now w) (data w) e (data w')"
    using call_event [OF assms(2,1,3,4)] by blast
  from event_owner [OF e] have "business_active (data w) (pc_BusinessID p)" "active_admin (data w) (pc_BusinessID p) (pc_UserID p)"
    by (simp_all add: owner_acts_def active_admin_def)
  with event_keeps_caller [OF e] event_keeps_others_rows [OF e] event_keeps_own [OF e] event_elsewhere [OF e] event_audits [OF e]
  show ?thesis by blast
qed

theorem managed_by_owner_witness:
  "active_admin (data world_posted) 1 1 \<and> own_kept 1 1 (data staffed_world) (data world_posted)
    \<and> (\<exists>a. audit_logs (data world_posted) = [a] \<and> au_business_id a = 1)"
proof -
  have "map uo_outlet_id (user_outlets (data staffed_world)) = [1]" by code_simp
  then have "data world_posted \<noteq> data staffed_world" using posted_tables by auto
  from managed_by_owner [OF staffed_fresh manage_calls(1) this boss_zero(1) [symmetric]]
  have "active_admin (data world_posted) 1 1 \<and> own_kept 1 1 (data staffed_world) (data world_posted)
    \<and> (\<exists>a. audit_logs (data world_posted) = audit_logs (data staffed_world) @ [a] \<and> au_business_id a = 1)"
    unfolding boss_zero by blast
  then show ?thesis by (simp add: staffed_world_def staffed_db_def sample_db_def)
qed

text \<open>C36: Whatever is managed, by whom and in which order, with any faults of the connection, a tenant that has an active
  administrator always has one.\<close>

theorem admin_remains:
  assumes "manage_fresh w" and "(manage_request lib en)\<^sup>*\<^sup>* w w'" and "active_admin (data w) b i"
  shows "\<exists>j. active_admin (data w') b j"
  using assms(2)
proof (induction rule: rtranclp_induct)
  case base
  show ?case using assms(3) by blast
next
  case (step u v)
  then show ?case using request_keeps_admin manage_requests_fresh [OF step(1) assms(1)] by blast
qed

theorem admin_remains_witness: "\<exists>j. active_admin (data world_closed) 1 j"
proof -
  have "active_admin (data staffed_world) 1 1"
    by (simp add: active_admin_def staffed_world_def staffed_db_def sample_defs staff_is_def)
  moreover have "(manage_request sample_lib sample_en)\<^sup>*\<^sup>* staffed_world world_closed"
    using manage_request.call [OF manage_calls(1)] manage_request.call [OF manage_calls(2)]
    by (meson rtranclp.rtrancl_into_rtrancl rtranclp.rtrancl_refl)
  ultimately show ?thesis using admin_remains [OF staffed_fresh] by blast
qed

text \<open>C37: No call of management.go takes the last active outlet from an active member of staff: who has an active account and an
  active outlet before has an active outlet afterwards, whether outlets are closed, assignments replaced or anything else.\<close>

theorem nobody_stranded:
  assumes "manage_fresh w" and "manage_call lib en who w w'" and "at_work (data w) b i" and "posted (data w) b i"
  shows "posted (data w') b i"
proof (cases "data w' = data w")
  case False
  from call_event [OF assms(2,1) False refl] event_keeps_posts assms(3,4) outlets_tbl.fresh_distinct [OF manage_freshD(1) [OF assms(1)]]
  show ?thesis by blast
qed (use assms(4) in simp)

theorem nobody_stranded_witness:
  "map out_is_active (outlets (data world_closed)) = [False, True] \<and> posted (data world_closed) 1 2"
proof -
  have "at_work (data world_posted) 1 2"
  proof -
    have "list_ex (\<lambda>x. staff_is 1 2 x \<and> u_is_active x \<and> u_role x = ''LAUNDRY_STAFF'') (users (data world_posted))" by code_simp
    then show ?thesis by (simp add: at_work_def list_ex_iff)
  qed
  moreover have "posted (data world_posted) 1 2"
  proof -
    have "assigned (data world_posted) 1 2 2 \<and> outlet_active (data world_posted) 1 2" by code_simp
    then show ?thesis unfolding posted_def by blast
  qed
  ultimately have "posted (data world_closed) 1 2" by (rule nobody_stranded [OF posted_fresh manage_calls(2)])
  moreover have "map out_is_active (outlets (data world_closed)) = [False, True]" by code_simp
  ultimately show ?thesis by blast
qed

section \<open>What the next token gets\<close>

lemma authenticate_permissions:
  assumes "authenticate en m logout header w = (Inr q, v)"
  shows "set (pc_Permissions q) = {c. granted (data w) (pc_BusinessID q) (pc_UserID q) c}"
proof -
  from assms obtain raw claims uid t w1 x w2 outs w3 perms where
    "bearer header = Some raw" "ParseAccessToken en m (wall w) raw = Some claims" "SubjectID claims = Some uid"
    "(if logout then GetLogoutSession (ac_SessionID claims) (ac_BusinessID claims) uid
               else GetActiveRefreshSession (ac_SessionID claims) (ac_BusinessID claims) uid) w = (Inr t, w1)"
    "GetActiveUser uid (ac_BusinessID claims) w1 = (Inr x, w2)" "u_role x = ac_Role claims"
    "ListUserOutletIDs (ac_BusinessID claims) uid w2 = (Inr outs, w3)"
    and pm: "ListUserPermissionCodes (en_collation en) (ac_BusinessID claims) uid w3 = (Inr perms, v)"
    and r: "q = \<lparr>pc_UserID = uid, pc_BusinessID = ac_BusinessID claims, pc_SessionID = ac_SessionID claims,
          pc_Email = u_email x, pc_FullName = u_full_name x, pc_Role = u_role x, pc_OutletIDs = outs, pc_Permissions = perms\<rparr>"
    unfolding authenticate_def tbind_Inr or_fail_Inr time_now_run as_error_Inr guard_Inr ret_run same_iff
    by blast
  have q: "pc_UserID q = uid" "pc_BusinessID q = ac_BusinessID claims" "pc_Permissions q = perms" using r by simp_all
  have "data v = data w" using authenticate_Inr [OF assms] by blast
  moreover have "perms = sort_key (en_collation en) (map up_code
       (filter (\<lambda>p. up_business_id p = pc_BusinessID q \<and> up_user_id p = pc_UserID q) (user_permissions (data w3))))"
      "data v = data w3"
    using select_Inr [OF pm [unfolded ListUserPermissionCodes_def]] q(1,2) by (simp_all add: same_data_def)
  ultimately show ?thesis unfolding q(3) by (auto simp: granted_def list_ex_iff)
qed

lemma account_role:
  assumes "Authenticate en m header w = (Inr q, v)" and "distinct (map u_id (users (data w)))"
    and "x \<in> set (users (data w))" and "u_id x = pc_UserID q"
  shows "pc_Role q = u_role x \<and> u_is_active x"
proof -
  obtain y where y: "y \<in> set (users (data w))" "u_id y = pc_UserID q" "u_is_active y" "u_role y = pc_Role q"
    using authenticate_Inr [OF assms(1) [unfolded Authenticate_def]] by blast
  then have "y = x" using assms(2-4) unfolding distinct_map inj_on_def by metis
  with y show ?thesis by simp
qed

lemma given_outlets:
  assumes "manage_step b u n d (OutletsGiven r ids) d'"
  shows "active_outlet_ids d' b (u_id r) = sort ids"
  using assms
proof cases
  case (outlets_given a)
  have "filter (\<lambda>x. uo_business_id x = b \<and> uo_user_id x = u_id r \<and> outlet_active d' b (uo_outlet_id x)) (user_outlets d')
      = assignments b (u_id r) n ids"
  proof -
    have "outlet_active d' b l" if "l \<in> set ids" for l
      using that outlets_given(7) unfolding outlets_given(1) usable_outlets_def outlet_active_def by simp
    then show ?thesis unfolding outlets_given(1)
      by (simp add: filter_empty_conv filter_id_conv assignments_def outlet_active_def)
  qed
  then show ?thesis unfolding active_outlet_ids_def by (simp add: assignments_def comp_def)
qed

lemma given_permissions:
  assumes "manage_step b u n d (PermissionsGiven r codes) d'"
  shows "granted d' b (u_id r) c \<longleftrightarrow> c \<in> set codes"
  using assms by cases (auto simp: granted_def list_ex_iff grants_def bex_Un)

text \<open>C38: A replacement of the outlets of a member of staff takes effect with the next request: what was answered is what the
  account had been given, active outlets of the tenant of the administrator, and a bearer token is accepted for the account,
  over data that has not changed since, only with exactly these outlets.\<close>

theorem outlets_take_effect:
  assumes "manage_fresh w" and "ManagementHandler_ReplaceStaffOutlets who c rawID body w = (Inr (i, ids), w1)"
    and "data u = data w1" and "Authenticate en m header u = (Inr q, v)"
    and "pc_BusinessID q = pc_BusinessID (principal_or_zero who)" and "pc_UserID q = i"
  shows "pc_OutletIDs q = sort ids \<and> usable_outlets (data w) (pc_BusinessID q) ids
    \<and> pathID rawID = Some i \<and> (\<exists>req. decodeManagementJSON body = Inr req \<and> mset (as_OutletIDs req) = mset ids)"
proof -
  have no: "\<not> refused w (Inr (i, ids)) w1" by (simp add: refused_def)
  from ManagementHandler_ReplaceStaffOutlets_ends [OF assms(1,2) no] obtain j req x where parsed: "pathID rawID = Some j"
      "decodeManagementJSON body = Inr req" "length (uniqueIDs (as_OutletIDs req)) = length (as_OutletIDs req)"
    and o: "outlets_replaced (principal_or_zero who) j (uniqueIDs (as_OutletIDs req)) (now w) (data w) x (data w1)"
    and x: "x = (i, ids)" by blast
  from o x obtain r where r: "staff_is (pc_BusinessID (principal_or_zero who)) i r" "j = i" "ids = as_OutletIDs req"
    and step: "manage_step (pc_BusinessID q) (pc_UserID (principal_or_zero who)) (now w) (data w) (OutletsGiven r ids) (data w1)"
    unfolding outlets_replaced_def assms(5) unique_ids_id [OF parsed(3)] by blast
  have "pc_OutletIDs q = active_outlet_ids (data w1) (pc_BusinessID q) i"
    using authenticate_Inr [OF assms(4) [unfolded Authenticate_def]] assms(3,6) by simp
  also have "\<dots> = sort ids" using given_outlets [OF step] r(1) by (simp add: staff_is_def)
  finally show ?thesis
    using step parsed r by (auto elim: manage_step.cases)
qed

text \<open>A token that names both outlets.\<close>

definition broad_en :: primitives where
  "broad_en = sample_en\<lparr>en_jwt_parse := (\<lambda>key t s. if s = ''t3'' then Some ((sample_claims 2)\<lparr>ac_OutletIDs := [1, 2]\<rparr>) else None)\<rparr>"

theorem outlets_take_effect_witness:
  "\<exists>q v. Authenticate broad_en sample_tokens ''Bearer t3'' world_posted = (Inr q, v) \<and> pc_OutletIDs q = [1, 2]"
proof -
  have "case fst (Authenticate broad_en sample_tokens ''Bearer t3'' world_posted) of Inl _ \<Rightarrow> False
      | Inr q \<Rightarrow> pc_BusinessID q = 1 \<and> pc_UserID q = 2" by code_simp
  then obtain q v where q: "Authenticate broad_en sample_tokens ''Bearer t3'' world_posted = (Inr q, v)"
      "pc_BusinessID q = 1" "pc_UserID q = 2"
    by (cases "Authenticate broad_en sample_tokens ''Bearer t3'' world_posted") (auto split: sum.splits)
  from outlets_take_effect [OF staffed_fresh posted_run refl q(1)] q(2,3) have "pc_OutletIDs q = sort [2, 1]"
    by (simp only: boss_zero)
  then show ?thesis using q(1) by simp
qed

text \<open>C39: A replacement of the permissions of a member of staff takes effect with the next request: with a bearer token of
  the account, over data that has not changed since, the guards let through exactly the actions that were answered, each of
  them in the catalog, and what was granted before is gone.\<close>

theorem grants_take_effect:
  assumes "manage_fresh w" and "ManagementHandler_ReplaceStaffPermissions en who c rawID body w = (Inr (i, codes), w1)"
    and "data u = data w1" and "Authenticate en m header u = (Inr q, v)"
    and "pc_BusinessID q = pc_BusinessID (principal_or_zero who)" and "pc_UserID q = i"
  shows "(RequirePermission code (Some q) = None \<longleftrightarrow> code \<in> set codes) \<and> RequireAdmin (Some q) = Some (Forbidden ''FORBIDDEN'')
    \<and> set codes \<subseteq> pm_code ` set (permissions (data w)) \<and> pathID rawID = Some i
    \<and> (\<exists>req. decodeManagementJSON body = Inr req \<and> codes = uniqueStrings (pg_Permissions req))"
proof -
  have no: "\<not> refused w (Inr (i, codes)) w1" by (simp add: refused_def)
  from ManagementHandler_ReplaceStaffPermissions_ends [OF assms(1,2) no] obtain j req x where parsed: "pathID rawID = Some j"
      "decodeManagementJSON body = Inr req"
    and o: "permissions_replaced (principal_or_zero who) j (uniqueStrings (pg_Permissions req)) (now w) (data w) x (data w1)"
    and x: "x = (i, codes)" by blast
  from o x obtain r where r: "staff_is (pc_BusinessID (principal_or_zero who)) i r" "j = i" "codes = uniqueStrings (pg_Permissions req)"
    and step: "manage_step (pc_BusinessID q) (pc_UserID (principal_or_zero who)) (now w) (data w) (PermissionsGiven r codes) (data w1)"
    unfolding permissions_replaced_def assms(5) by blast
  have facts: "r \<in> set (users (data w))" "u_role r = ''LAUNDRY_STAFF''" "set codes \<subseteq> pm_code ` set (permissions (data w))"
      "users (data w1) = users (data w)"
    using step by (auto elim: manage_step.cases)
  have "distinct (map u_id (users (data u)))"
    using users_tbl.fresh_distinct [OF manage_freshD(2) [OF assms(1)]] by (simp add: assms(3) facts(4))
  from account_role [OF assms(4) this, of r] facts assms(3,6) r(1) have role: "pc_Role q = ''LAUNDRY_STAFF''"
    by (simp add: staff_is_def)
  have "set (pc_Permissions q) = set codes"
    using authenticate_permissions [OF assms(4) [unfolded Authenticate_def]] given_permissions [OF step] r(1) assms(3,6)
    by (auto simp: staff_is_def)
  then show ?thesis using role facts(3) parsed r by (auto simp: RequirePermission_def RequireAdmin_def list_ex_iff)
qed

theorem grants_take_effect_witness:
  "\<exists>q v. Authenticate sample_en sample_tokens ''Bearer t2'' world_granted = (Inr q, v)
    \<and> RequirePermission ''ORDER_CREATE'' (Some q) = None \<and> RequirePermission ''PAYMENT_RECORD'' (Some q) \<noteq> None"
proof -
  have "fst (ManagementHandler_ReplaceStaffPermissions sample_en (Some boss) sample_client ''2'' some_codes staffed_world)
      = Inr (2, [''ORDER_CREATE''])" by code_simp
  then have run: "ManagementHandler_ReplaceStaffPermissions sample_en (Some boss) sample_client ''2'' some_codes staffed_world
      = (Inr (2, [''ORDER_CREATE'']), world_granted)" unfolding world_granted_def by (metis prod.collapse)
  have "case fst (Authenticate sample_en sample_tokens ''Bearer t2'' world_granted) of Inl _ \<Rightarrow> False
      | Inr q \<Rightarrow> pc_BusinessID q = 1 \<and> pc_UserID q = 2" by code_simp
  then obtain q v where q: "Authenticate sample_en sample_tokens ''Bearer t2'' world_granted = (Inr q, v)"
      "pc_BusinessID q = 1" "pc_UserID q = 2"
    by (cases "Authenticate sample_en sample_tokens ''Bearer t2'' world_granted") (auto split: sum.splits)
  have b: "pc_BusinessID q = pc_BusinessID (principal_or_zero (Some boss))" by (simp add: boss_zero q(2))
  from grants_take_effect [OF staffed_fresh run refl q(1) b q(3), of "''ORDER_CREATE''"]
    grants_take_effect [OF staffed_fresh run refl q(1) b q(3), of "''PAYMENT_RECORD''"]
  show ?thesis using q(1) by simp
qed

text \<open>C40: A deactivated account is cut off at once: after the reply to the deactivation no bearer token, whatever it says and
  however the time stands, is accepted for the account as long as the accounts stay what they are.\<close>

theorem deactivated_cut_off:
  assumes "manage_fresh w" and "ManagementHandler_UpdateStaff en who c rawID body w = (Inr x, w1)" and "\<not> mr_IsActive x"
    and "users (data u) = users (data w1)"
  shows "\<not> (\<exists>q. fst (Authenticate en' m header u) = Inr q \<and> pc_UserID q = mr_ID x) \<and> mr_ID x \<noteq> pc_UserID (principal_or_zero who)"
proof -
  have no: "\<not> refused w (Inr x) w1" by (simp add: refused_def)
  from ManagementHandler_UpdateStaff_ends [OF assms(1,2) no] obtain i nm ac where
    o: "account_updated (principal_or_zero who) i nm ac (now w) (data w) x (data w1)" by blast
  then obtain r r' where r: "r \<in> set (users (data w))" "staff_is (pc_BusinessID (principal_or_zero who)) i r"
      "r' = r\<lparr>u_full_name := nm, u_is_active := False, u_updated_at := now w\<rparr>" "mr_ID x = i"
    and step: "manage_step (pc_BusinessID (principal_or_zero who)) (pc_UserID (principal_or_zero who)) (now w) (data w)
      (AccountChanged r r') (data w1)"
    using assms(3) unfolding account_updated_def by auto
  have "\<not> u_is_active r'" using r(3) by simp
  with step have us: "users (data w1) = replace_row r r' (users (data w))" "u_id r \<noteq> pc_UserID (principal_or_zero who)"
    by (cases, simp)+
  have mem: "r' \<in> set (users (data u))" using us(1) assms(4) r(1) by (simp add: set_replace_row)
  have "distinct (map u_id (users (data w1)))"
    using users_tbl.fresh_distinct [OF manage_freshD(2) [OF assms(1)]] map_replace_row [of u_id r' r] r(3) by (simp add: us(1))
  then have d: "distinct (map u_id (users (data u)))" by (simp add: assms(4))
  have "\<not> (\<exists>q. fst (Authenticate en' m header u) = Inr q \<and> pc_UserID q = mr_ID x)"
  proof
    assume "\<exists>q. fst (Authenticate en' m header u) = Inr q \<and> pc_UserID q = mr_ID x"
    then obtain q v where q: "Authenticate en' m header u = (Inr q, v)" "pc_UserID q = mr_ID x" by (metis prod.collapse)
    from account_role [OF q(1) d mem] q(2) r(2-4) show False by (simp add: staff_is_def)
  qed
  with us(2) r(2,4) show ?thesis by (simp add: staff_is_def)
qed

theorem deactivated_cut_off_witness:
  "fst (Authenticate sample_en sample_tokens ''Bearer t2'' staffed_world) = Inr sample_principal
    \<and> \<not> (\<exists>q. fst (Authenticate sample_en sample_tokens ''Bearer t2'' world_off) = Inr q \<and> pc_UserID q = 2)"
proof -
  have "case fst (ManagementHandler_UpdateStaff sample_en (Some boss) sample_client ''2'' (turn_clerk False) staffed_world) of
      Inl _ \<Rightarrow> False | Inr x \<Rightarrow> mr_ID x = 2 \<and> \<not> mr_IsActive x" by code_simp
  then obtain x where run: "ManagementHandler_UpdateStaff sample_en (Some boss) sample_client ''2'' (turn_clerk False) staffed_world
      = (Inr x, world_off)" and x: "mr_ID x = 2" "\<not> mr_IsActive x"
    unfolding world_off_def
    by (cases "ManagementHandler_UpdateStaff sample_en (Some boss) sample_client ''2'' (turn_clerk False) staffed_world")
      (auto split: sum.splits)
  have "fst (Authenticate sample_en sample_tokens ''Bearer t2'' staffed_world) = Inr sample_principal" by code_simp
  with deactivated_cut_off [OF staffed_fresh run x(2) refl, of sample_en sample_tokens "''Bearer t2''"] x(1) show ?thesis by simp
qed

section \<open>What slips through\<close>

lemma posted_active_outlets: "posted d b i \<longleftrightarrow> active_outlet_ids d b i \<noteq> []"
proof -
  have "set (active_outlet_ids d b i) = {l. assigned d b i l \<and> outlet_active d b l}"
    by (auto simp: assigned_def active_outlet_ids_def list_ex_iff)
  then show ?thesis unfolding posted_def set_empty [symmetric] by (simp only:) blast
qed

text \<open>
  The guard of an outlet counts active accounts only, and activating an account does not look at its outlets: with the
  clerk deactivated the only outlet of the clerk can be closed, and activating the clerk again leaves an active member of staff
  without an active outlet, whom no token lets in and no login accepts until the outlets are replaced.
\<close>

definition world_shut :: world where
  "world_shut = snd (ManagementHandler_UpdateOutlet sample_lib (Some boss) sample_client ''1'' close_main world_off)"

definition world_back :: world where
  "world_back = snd (ManagementHandler_UpdateStaff sample_en (Some boss) sample_client ''2'' (turn_clerk True) world_shut)"

lemma reactivation_strands:
  "at_work (data staffed_world) 1 2 \<and> posted (data staffed_world) 1 2
    \<and> (manage_request sample_lib sample_en)\<^sup>*\<^sup>* staffed_world world_back \<and> at_work (data world_back) 1 2 \<and> \<not> posted (data world_back) 1 2"
proof -
  have steps: "manage_call sample_lib sample_en (Some boss) world_off world_shut"
    "manage_call sample_lib sample_en (Some boss) world_shut world_back"
    unfolding world_shut_def world_back_def by (blast intro: manage_call.intros prod.collapse [symmetric])+
  have "(manage_request sample_lib sample_en)\<^sup>*\<^sup>* staffed_world world_back"
    using manage_request.call [OF manage_calls(4)] manage_request.call [OF steps(1)] manage_request.call [OF steps(2)]
    by (meson rtranclp.rtrancl_into_rtrancl rtranclp.rtrancl_refl)
  moreover have "list_ex (\<lambda>x. staff_is 1 2 x \<and> u_is_active x \<and> u_role x = ''LAUNDRY_STAFF'') (users (data world_back))"
    "list_ex (\<lambda>x. staff_is 1 2 x \<and> u_is_active x \<and> u_role x = ''LAUNDRY_STAFF'') (users (data staffed_world))"
    "active_outlet_ids (data world_back) 1 2 = []" "active_outlet_ids (data staffed_world) 1 2 = [1]" by code_simp+
  ultimately show ?thesis by (simp add: posted_active_outlets at_work_def list_ex_iff)
qed

end
