(* ===== verification/Spec2Isabelle.thy ===== *)
theory Spec2Isabelle
  imports Order_Properties Payment_Properties Session_Properties Master_Properties Intake_Properties Expense_Properties Management_Properties
begin

text \<open>
  A verification development of the LaunLog API, the Go back end of a point of sale for laundries with several outlets. File
  names are those of the repository; a theory is named after what it models.

  THE PROGRAM. A tenant (a business) has outlets, accounts (an administrator and laundry staff), customers, services,
  perfumes, orders, payments and expenses. A request passes the middleware (internal/middleware), which turns a bearer
  token into a principal, and a handler (internal/handlers), which checks the request. Orders, payments, services
  and perfumes then go to a catalog (internal/service), the other handlers work on the statements themselves. All
  statements are sqlc's (internal/repository/postgresql) and run against PostgreSQL, with the tables and constraints of
  db/migrations. A write is one transaction: it locks, checks again what the middleware had seen, writes, adds its
  audit row, and commits; any error rolls it back. What the parts share is the database, so they meet in its rows: a creation of
  an order reads the services that a catalog writes, the middleware reads the accounts that management writes.

  THE STATE. Schema has the tables as lists of row records, the BIGSERIAL sequences, the transaction's clock (now), the
  clock of the process (wall) and a schedule of faults. A statement, Begin or Commit takes the next fault: it runs, is
  refused by the connection, or runs and loses its reply. Tx has the monad of such computations (error or value, and the
  world), the forms of statements, and transactions with their deferred rollback: a rollback restores the tables and keeps the
  sequences; a lost reply of Commit leaves the effect and returns the error. Transactions run one after the other, so row and
  advisory locks have no effect of their own; statements outside a transaction interleave with whatever the step
  relations below allow.

  THE THEORIES, in the order of their imports.
    Go_Base: integers of 64 bits with their wrap-around, UTF-8, trimming, parsing and printing of numbers.
    Schema, Tx, Table, Soft_Table: the state, the monad, and the interfaces of tables: locale table (a field is read as it was
      written), serial_table (keys below the sequence stay distinct), soft_table (rows that are retired and never removed, at
      most one live row of a name), interpreted on every table a component writes. Tx also holds locale tx_operation,
      the contract of an operation that runs in a transaction and keeps an invariant, interpreted on every write of the program.
    Calendar, Instants: the zone Asia/Jakarta with the history of its offset, PostgreSQL's AT TIME ZONE, dates,
      RFC 3339 times with the offset they were written with, and what json.Marshal can write of a time.
    Quantity: quantities and amounts of order lines. Service_Base, Order_Queries, Orders: internal/service/orders.go.
    Payment_Queries, Payments: internal/service/payments.go.
    Ledger (the events of orders and payments as a step relation, and that each operation performs its event),
      Placement (creation), Ledger_Invariants, Operations (every end of every call), Freshness, Ledger_System (all requests
      in any order with any faults), Progress, Creation_Progress (calls that must succeed do), Sample (a laundry as a test bed).
    Security, Session_Queries, Sessions, Access: tokens, login, refresh, logout, the middleware and the limiter
      (internal/security, internal/service/tenant_sessions.go, internal/handlers/auth.go, internal/middleware), with
      Session_System, Session_Worlds, Session_Progress, Session_Sample built like the theories of the ledger.
    Http, Canonical, Handlers, Intake: what handlers share, the canonical JSON of a request, the handlers of services,
      perfumes, orders and payments.
    Master_Queries, Catalogs, Customers, Master_System, Master_Worlds, Master_Sample: services, perfumes and customers.
    Expense_Queries, Expenses, Expense_System, Expense_Worlds: internal/handlers/expenses.go.
    Management_Queries, Management, Management_System, Management_Worlds, Management_Calls: internal/handlers/management.go,
      internal/timezone.
  A definition has the name of the Go function or the statement it models (OrderCatalog_Create is the method Create of
  OrderCatalog); a long function is cut where its purpose changes and composed again in the order of the source (Create_guard,
  Create_outlet, Create_replay, Create_perfume, price_lines, Create_write). Fields of structs and columns keep their names
  behind a short prefix. An optional pointer and a nullable column are options; errors are values: svc_error for the
  services, pgerr for statements, http_error for replies.

  WHAT IS SHOWN.
    Ledger_Properties: in every reachable state the money of an order adds up and its status history is a walk; requests keep
      terms, are audited, stay in their tenant, need standing (C1, C2, C5 to C8).
    Intake_Properties: an idempotency key is bound to one request (C3, C4).
    Order_Properties, Payment_Properties: what creation and recording do on every path, that they happen once per key, that a
      well-formed creation succeeds, and the arithmetic of tender, lines and quantities (C9 to C17).
    Session_Properties: one live token per family, consumed tokens and closed families stay dead, what refresh does, what an
      accepted token says, the limiter (C18 to C25).
    Master_Properties, Expense_Properties, Management_Properties: what a change does and to whom, prices and withdrawals as
      orders see them, audit rows without personal data, pages and listings, edits under versions, and that a tenant keeps
      an administrator, its staff an outlet, and the middleware sees every change (C26 to C40).
  Behind the properties stand, for each component, a step relation whose events say what may happen, lemmas that each
  operation performs its event or nothing (names in _refines, _ends), invariants by rule induction over the requests
  (reachable, session_reachable, master_reachable, expense_reachable, manage_request), and lemmas that operations succeed over a
  calm connection (names in _calm, _succeeds).

  BOUNDS. No definition has fuel: loops of the source are structural recursion over their lists, and the one other
  recursion (trim_right of Go_Base) has a termination proof. Integers are unbounded with the 64-bit tests and
  wrap-around of the source written out where they matter (amounts, quantities, sequences, page offsets).

  PARAMETERS. Code that is not in the repository is an argument: SHA-256, bcrypt, the JWT library, the random source, the
  server's lower(), collation and ILIKE, the zone of the server process (record primitives), Go's case mapping, mail
  address grammar and time zone names (record libraries), the verdict of the JSON decoder on a body. The properties
  assume of them only what they state. The tables of Asia/Jakarta are those of the IANA time zone database, which
  PostgreSQL and Go use.

  WHAT IS LEFT OUT OR ASSUMED.
    Not modelled: the platform administration, onboarding and owner registration, receipts, reports, the dashboard,
      configuration and wiring, generated OpenAPI types. Owner registration and the platform also write tables
      of the tenants: they open and revoke session families, add businesses, accounts and outlets, and edit the
      description of a perfume; the step relations of sessions, master data and management do not contain these writes.
    Column receipt_qr_id of orders, which only receipts read, and its random default.
    Replies are values: writing them as JSON is not modelled. A reply with a time whose year in the zone of the server has not
      four digits cannot be written; a due time of 9999-12-31T23:59:59-23:00 is stored and then such a time.
    json.Marshal of audit values can fail only on a time. It is modelled where a client chooses the time: the due time of an
      order, in the offset it was sent with, and the time of an expense, in the zone of the server. The other times of audit rows
      are the database's clock, which is taken to stand in a year of four digits. Audit values are kept as values, not as texts; a
      time in them is an instant.
    Times are cut to microseconds, as the driver sends them. time.Now() is one instant within a request.
    Strings of decoded bodies are UTF-8, as encoding/json makes them. A nil slice and an empty one are the same.
    A join on a primary key is the existence of the joined row; a query returns whole rows.
    The time a login takes (VerifyDummyPassword) has no result and is not modelled.
\<close>

end
